(* ===== verification/Prelude.thy ===== *)
theory Prelude
  imports Main
    "HOL-Library.AList"
    "HOL-Library.Multiset"
    "HOL-Library.Char_ord"
    "HOL-Library.List_Lexorder"
    "HOL-Library.Product_Lexorder"
begin

text \<open>
  Shared vocabulary of the development: Python's exceptions as values, the combinators that
  thread them through a computation, insertion-ordered dictionaries as association lists,
  ordered deduplication, sorting helpers and the string methods the sources call.
  Text is ASCII: \<open>strip\<close>, \<open>casefold\<close>, \<open>upper\<close> and \<open>isalpha\<close> follow Python on the code
  points 0 to 127 and leave other characters alone.
\<close>

named_theorems res_simps \<open>inversion rules for computations that may raise\<close>
named_theorems str_simps \<open>facts about the string methods\<close>

section \<open>Exceptions and results\<close>

datatype py_error =
    ValueError string
  | TypeError string
  | AttributeError string
  | KeyError string
  | ZeroDivisionError
  | OverflowError
  | FileNotFoundError string
  | FileExistsError string
  | OSError string
  | SampleValidationError "string list"
  | BundleVerificationError string
  | BundleBuildError string
  | ConfigurationError string
  | UnicodeDecodeError
  | JSONDecodeError string
  | BadZipFile string
  | RuntimeError string
  | IntegrityError string
  | ZlibError string

type_synonym 'a result = "py_error + 'a"

text \<open>
  \<open>except ValueError\<close> also catches its subclasses, those of the sources and those of the standard
  library; \<open>except OSError\<close> and \<open>except KeyError\<close> likewise.
\<close>

fun is_value_error :: "py_error \<Rightarrow> bool" where
  "is_value_error (ValueError _) = True"
| "is_value_error (SampleValidationError _) = True"
| "is_value_error (BundleVerificationError _) = True"
| "is_value_error (BundleBuildError _) = True"
| "is_value_error (ConfigurationError _) = True"
| "is_value_error UnicodeDecodeError = True"
| "is_value_error (JSONDecodeError _) = True"
| "is_value_error _ = False"

fun is_os_error :: "py_error \<Rightarrow> bool" where
  "is_os_error (OSError _) = True"
| "is_os_error (FileNotFoundError _) = True"
| "is_os_error (FileExistsError _) = True"
| "is_os_error _ = False"

fun is_key_error :: "py_error \<Rightarrow> bool" where
  "is_key_error (KeyError _) = True"
| "is_key_error _ = False"

fun is_type_error :: "py_error \<Rightarrow> bool" where
  "is_type_error (TypeError _) = True"
| "is_type_error _ = False"

fun rbind :: "'e + 'a \<Rightarrow> ('a \<Rightarrow> 'e + 'b) \<Rightarrow> 'e + 'b" where
  "rbind (Inl e) f = Inl e"
| "rbind (Inr x) f = f x"

lemma rbind_Inr_iff [res_simps]:
  "rbind r f = Inr y \<longleftrightarrow> (\<exists>x. r = Inr x \<and> f x = Inr y)"
  by (cases r) auto

lemma rbind_Inl_iff:
  "rbind r f = Inl e \<longleftrightarrow> r = Inl e \<or> (\<exists>x. r = Inr x \<and> f x = Inl e)"
  by (cases r) auto

lemma rbind_cong [fundef_cong]:
  assumes "r = r'" and "\<And>x. r' = Inr x \<Longrightarrow> f x = f' x"
  shows "rbind r f = rbind r' f'"
  using assms by (cases r') auto

lemma rbind_assoc: "rbind (rbind r f) g = rbind r (\<lambda>x. rbind (f x) g)"
  by (cases r) auto

lemma if_raise_Inr_iff [res_simps]:
  "(if b then Inl e else r) = Inr y \<longleftrightarrow> \<not> b \<and> r = Inr y"
  by simp

text \<open>A comprehension whose element expression may raise, and a loop that may raise.\<close>

fun rmap :: "('a \<Rightarrow> 'e + 'b) \<Rightarrow> 'a list \<Rightarrow> 'e + 'b list" where
  "rmap f [] = Inr []"
| "rmap f (x # xs) = rbind (f x) (\<lambda>y. rbind (rmap f xs) (\<lambda>ys. Inr (y # ys)))"

fun rfold :: "('s \<Rightarrow> 'a \<Rightarrow> 'e + 's) \<Rightarrow> 's \<Rightarrow> 'a list \<Rightarrow> 'e + 's" where
  "rfold f s [] = Inr s"
| "rfold f s (x # xs) = rbind (f s x) (\<lambda>s'. rfold f s' xs)"

lemma rmap_cong [fundef_cong]:
  assumes "xs = xs'" and "\<And>x. x \<in> set xs' \<Longrightarrow> f x = f' x"
  shows "rmap f xs = rmap f' xs'"
proof -
  have "(\<And>x. x \<in> set xs' \<Longrightarrow> f x = f' x) \<Longrightarrow> rmap f xs' = rmap f' xs'"
    by (induction xs') (auto intro: rbind_cong)
  with assms show ?thesis by simp
qed

lemma rmap_Inr_iff: "rmap f xs = Inr ys \<longleftrightarrow> list_all2 (\<lambda>x y. f x = Inr y) xs ys"
proof (induction xs arbitrary: ys)
  case Nil
  then show ?case by auto
next
  case (Cons x xs)
  then show ?case by (cases ys) (auto simp: rbind_Inr_iff)
qed

lemma rmap_length: "rmap f xs = Inr ys \<Longrightarrow> length ys = length xs"
  by (simp add: rmap_Inr_iff list_all2_lengthD)

lemma rmap_mem: "rmap f xs = Inr ys \<Longrightarrow> y \<in> set ys \<Longrightarrow> \<exists>x \<in> set xs. f x = Inr y"
  by (induction xs arbitrary: ys) (auto simp: rbind_Inr_iff)

lemma rmap_mem_arg: "rmap f xs = Inr ys \<Longrightarrow> x \<in> set xs \<Longrightarrow> \<exists>y \<in> set ys. f x = Inr y"
  by (induction xs arbitrary: ys) (auto simp: rbind_Inr_iff)

lemma rmap_Inl: "rmap f xs = Inl e \<Longrightarrow> \<exists>x \<in> set xs. f x = Inl e"
  by (induction xs) (auto simp: rbind_Inl_iff)

lemma rmap_map_proj:
  assumes "rmap f xs = Inr ys" and "\<And>x y. x \<in> set xs \<Longrightarrow> f x = Inr y \<Longrightarrow> g y = h x"
  shows "map g ys = map h xs"
proof -
  from assms(1) have "list_all2 (\<lambda>x y. f x = Inr y) xs ys" by (simp add: rmap_Inr_iff)
  then show ?thesis using assms(2)
    by (induction rule: list_all2_induct) auto
qed

lemma rmap_total:
  assumes "\<And>x. x \<in> set xs \<Longrightarrow> f x = Inr (g x)"
  shows "rmap f xs = Inr (map g xs)"
  using assms by (induction xs) auto

text \<open>An invariant of every iteration holds when the loop ends without an exception.\<close>

lemma rfold_invariant:
  assumes "rfold f s xs = Inr s'" and "P s"
    and "\<And>s x s'. x \<in> set xs \<Longrightarrow> P s \<Longrightarrow> f s x = Inr s' \<Longrightarrow> P s'"
  shows "P s'"
  using assms
proof (induction xs arbitrary: s)
  case Nil
  then show ?case by simp
next
  case (Cons x xs)
  from Cons.prems(1) obtain t where t: "f s x = Inr t" and rest: "rfold f t xs = Inr s'"
    by (auto simp: rbind_Inr_iff)
  have "P t" using Cons.prems t by auto
  with rest Cons.prems(3) show ?case by (intro Cons.IH) auto
qed

section \<open>Ordered deduplication and dictionaries\<close>

text \<open>\<open>tuple(dict.fromkeys(xs))\<close>: first occurrences, in order.\<close>

fun dedup :: "'a list \<Rightarrow> 'a list" where
  "dedup [] = []"
| "dedup (x # xs) = x # filter (\<lambda>y. y \<noteq> x) (dedup xs)"

lemma set_dedup [simp]: "set (dedup xs) = set xs"
  by (induction xs) auto

lemma distinct_dedup [simp]: "distinct (dedup xs)"
  by (induction xs) auto

lemma dedup_Nil_iff [simp]: "dedup xs = [] \<longleftrightarrow> xs = []"
  by (cases xs) auto

lemma dedup_distinct: "distinct xs \<Longrightarrow> dedup xs = xs"
  by (induction xs) (auto simp: filter_id_conv)

lemma dedup_dedup [simp]: "dedup (dedup xs) = dedup xs"
  by (simp add: dedup_distinct)

lemma dedup_snoc: "dedup (xs @ [x]) = (if x \<in> set xs then dedup xs else dedup xs @ [x])"
  by (induction xs) auto

lemma length_dedup_le: "length (dedup xs) \<le> length xs"
  by (induction xs) (auto intro: le_trans [OF length_filter_le])

lemma length_dedup_card: "length (dedup xs) = card (set xs)"
  by (metis distinct_card distinct_dedup set_dedup)

text \<open>\<open>len(xs) != len(set(xs))\<close> is how the sources look for duplicates.\<close>

lemma length_set_eq_distinct: "length xs = card (set xs) \<longleftrightarrow> distinct xs"
  by (metis card_distinct distinct_card)

text \<open>\<open>sorted(set(xs))\<close>.\<close>

definition sorted_set :: "'a::linorder list \<Rightarrow> 'a list" where
  "sorted_set xs = sort (remdups xs)"

lemma set_sorted_set [simp]: "set (sorted_set xs) = set xs"
  by (simp add: sorted_set_def)

lemma distinct_sorted_set [simp]: "distinct (sorted_set xs)"
  by (simp add: sorted_set_def)

lemma sorted_sorted_set [simp]: "sorted (sorted_set xs)"
  by (simp add: sorted_set_def)

lemma sorted_set_Nil_iff [simp]: "sorted_set xs = [] \<longleftrightarrow> xs = []"
  by (metis set_empty set_sorted_set)

lemma sorted_set_eq: "sorted_set xs = sorted_list_of_set (set xs)"
  by (simp add: sorted_set_def sorted_list_of_set_sort_remdups)

lemma sorted_set_cong: "set xs = set ys \<Longrightarrow> sorted_set xs = sorted_set ys"
  by (simp add: sorted_set_eq)

lemma sorted_set_id: "sorted xs \<Longrightarrow> distinct xs \<Longrightarrow> sorted_set xs = xs"
  by (simp add: sorted_set_eq sorted_list_of_set.idem_if_sorted_distinct)

lemma length_sorted_set: "length (sorted_set xs) = card (set xs)"
  by (metis distinct_card distinct_sorted_set set_sorted_set)

text \<open>
  A dictionary keeps insertion order: an association list with distinct keys, read by
  \<open>map_of\<close> and written by \<open>AList.update\<close>. \<open>groups[k].append(x)\<close> on a \<open>defaultdict(list)\<close>:
\<close>

definition append_to :: "'k \<Rightarrow> 'v \<Rightarrow> ('k \<times> 'v list) list \<Rightarrow> ('k \<times> 'v list) list" where
  "append_to k x d = AList.map_default k [x] (\<lambda>ys. ys @ [x]) d"

definition group_by :: "('a \<Rightarrow> 'k) \<Rightarrow> 'a list \<Rightarrow> ('k \<times> 'a list) list" where
  "group_by key xs = foldl (\<lambda>d x. append_to (key x) x d) [] xs"

text \<open>The grouping loop equals its specification: keys in first-seen order, members in order.\<close>

definition groups_of :: "('a \<Rightarrow> 'k) \<Rightarrow> 'a list \<Rightarrow> ('k \<times> 'a list) list" where
  "groups_of key xs = map (\<lambda>k. (k, filter (\<lambda>x. key x = k) xs)) (dedup (map key xs))"

lemma map_default_map_in:
  assumes "distinct ks" and "k \<in> set ks"
  shows "AList.map_default k v f (map (\<lambda>k. (k, g k)) ks) =
    map (\<lambda>k'. (k', if k' = k then f (g k') else g k')) ks"
  using assms by (induction ks) auto

lemma map_default_map_notin:
  assumes "k \<notin> set ks"
  shows "AList.map_default k v f (map (\<lambda>k. (k, g k)) ks) = map (\<lambda>k. (k, g k)) ks @ [(k, v)]"
  using assms by (induction ks) auto

lemma groups_of_snoc: "groups_of key (xs @ [x]) = append_to (key x) x (groups_of key xs)"
proof (cases "key x \<in> set (map key xs)")
  case True
  then have mem: "key x \<in> set (dedup (map key xs))" by simp
  show ?thesis
    unfolding groups_of_def append_to_def map_default_map_in [OF distinct_dedup mem]
    using True by (auto simp: dedup_snoc)
next
  case False
  then have nm: "key x \<notin> set (dedup (map key xs))" by simp
  have none: "filter (\<lambda>y. key y = key x) xs = []"
    using False by (metis (mono_tags, lifting) filter_False image_eqI list.set_map)
  show ?thesis
    unfolding groups_of_def append_to_def map_default_map_notin [OF nm]
    using False none by (auto simp: dedup_snoc)
qed

theorem group_by_eq: "group_by key xs = groups_of key xs"
proof (induction xs rule: rev_induct)
  case Nil
  then show ?case by (simp add: group_by_def groups_of_def)
next
  case (snoc x xs)
  then show ?case by (simp add: group_by_def groups_of_snoc)
qed

lemma group_by_keys: "map fst (group_by key xs) = dedup (map key xs)"
  by (simp add: group_by_eq groups_of_def comp_def)

lemma group_by_distinct_keys: "distinct (map fst (group_by key xs))"
  by (simp add: group_by_keys)

lemma group_by_mem:
  "(k, ys) \<in> set (group_by key xs) \<longleftrightarrow> ys = filter (\<lambda>x. key x = k) xs \<and> k \<in> key ` set xs"
  by (auto simp: group_by_eq groups_of_def)

lemma group_by_nonempty: "(k, ys) \<in> set (group_by key xs) \<Longrightarrow> ys \<noteq> []"
  by (auto simp: group_by_mem filter_empty_conv)

lemma map_of_group_by:
  "map_of (group_by key xs) k =
    (if k \<in> key ` set xs then Some (filter (\<lambda>x. key x = k) xs) else None)"
proof (cases "k \<in> key ` set xs")
  case True
  then have "(k, filter (\<lambda>x. key x = k) xs) \<in> set (group_by key xs)"
    by (simp add: group_by_mem)
  then show ?thesis using True group_by_distinct_keys [of key xs]
    by (simp add: map_of_is_SomeI)
next
  case False
  then have "k \<notin> fst ` set (group_by key xs)"
    by (metis group_by_keys list.set_map set_dedup)
  with False show ?thesis by (simp add: map_of_eq_None_iff)
qed

text \<open>Sorting and grouping move elements around but lose and repeat none.\<close>

lemma map_sort_key: "map f (sort_key f xs) = sort (map f xs)"
  by (rule properties_for_sort [symmetric]) simp_all

lemma mset_concat_map:
  "mset (concat (map f ys)) = sum_mset (image_mset (\<lambda>c. mset (f c)) (mset ys))"
  by (induction ys) auto

lemma mset_filter_keys:
  assumes "distinct ks"
  shows "mset (concat (map (\<lambda>k. filter (\<lambda>x. f x = k) xs) ks)) = mset (filter (\<lambda>x. f x \<in> set ks) xs)"
  using assms
proof (induction ks)
  case Nil
  then show ?case by simp
next
  case (Cons k ks)
  then have "filter_mset (\<lambda>x. f x = k \<or> f x \<in> set ks) (mset xs) =
      filter_mset (\<lambda>x. f x = k) (mset xs) + filter_mset (\<lambda>x. f x \<in> set ks) (mset xs)"
    by (auto intro: multiset_eqI)
  with Cons show ?case by simp
qed

lemma mset_group_by: "mset (concat (map snd (group_by key xs))) = mset xs"
proof -
  have "map snd (group_by key xs) = map (\<lambda>k. filter (\<lambda>x. key x = k) xs) (dedup (map key xs))"
    by (simp add: group_by_eq groups_of_def comp_def)
  then show ?thesis
    using mset_filter_keys [OF distinct_dedup, of key xs "map key xs"] by (simp add: filter_True)
qed

end
