(* ===== verification/PyString.thy ===== *)
theory PyString
  imports Prelude
begin

text \<open>
  The \<open>str\<close> methods the sources call, on ASCII text: \<open>strip\<close>, \<open>casefold\<close> (and \<open>lower\<close>),
  \<open>upper\<close>, \<open>isalpha\<close>, \<open>isalnum\<close>, \<open>str.join\<close> and \<open>str(int)\<close>, with the facts the
  components rest on: idempotence, commutation, and injectivity of the joined keys.
\<close>

section \<open>Characters\<close>

definition code :: "char \<Rightarrow> int" where
  "code c = of_char c"

definition is_space :: "char \<Rightarrow> bool" where
  "is_space c \<longleftrightarrow> (9 \<le> code c \<and> code c \<le> 13) \<or> (28 \<le> code c \<and> code c \<le> 32)"

definition is_upper :: "char \<Rightarrow> bool" where
  "is_upper c \<longleftrightarrow> 65 \<le> code c \<and> code c \<le> 90"

definition is_lower :: "char \<Rightarrow> bool" where
  "is_lower c \<longleftrightarrow> 97 \<le> code c \<and> code c \<le> 122"

definition is_digit :: "char \<Rightarrow> bool" where
  "is_digit c \<longleftrightarrow> 48 \<le> code c \<and> code c \<le> 57"

definition to_lower :: "char \<Rightarrow> char" where
  "to_lower c = (if is_upper c then char_of (code c + 32) else c)"

definition to_upper :: "char \<Rightarrow> char" where
  "to_upper c = (if is_lower c then char_of (code c - 32) else c)"

lemma code_nonneg [simp]: "0 \<le> code c"
  unfolding code_def by (metis of_nat_0_le_iff of_nat_of_char)

lemma code_char_of [simp]: "0 \<le> n \<Longrightarrow> n < 256 \<Longrightarrow> code (char_of n) = n"
  by (simp add: code_def)

lemma code_to_lower: "code (to_lower c) = (if is_upper c then code c + 32 else code c)"
  by (auto simp: to_lower_def is_upper_def)

lemma code_to_upper: "code (to_upper c) = (if is_lower c then code c - 32 else code c)"
  by (auto simp: to_upper_def is_lower_def)

lemma to_lower_idem [simp]: "to_lower (to_lower c) = to_lower c"
  using code_to_lower [of c] by (auto simp: to_lower_def is_upper_def)

lemma to_upper_idem [simp]: "to_upper (to_upper c) = to_upper c"
  using code_to_upper [of c] by (auto simp: to_upper_def is_lower_def)

lemma is_space_to_lower [simp]: "is_space (to_lower c) = is_space c"
  by (auto simp: is_space_def code_to_lower is_upper_def)

lemma is_space_to_upper [simp]: "is_space (to_upper c) = is_space c"
  by (auto simp: is_space_def code_to_upper is_lower_def)

section \<open>String methods\<close>

definition strip :: "string \<Rightarrow> string" where
  "strip s = rev (dropWhile is_space (rev (dropWhile is_space s)))"

definition casefold :: "string \<Rightarrow> string" where
  "casefold s = map to_lower s"

definition upper :: "string \<Rightarrow> string" where
  "upper s = map to_upper s"

definition isalpha :: "string \<Rightarrow> bool" where
  "isalpha s \<longleftrightarrow> s \<noteq> [] \<and> list_all (\<lambda>c. is_upper c \<or> is_lower c) s"

definition isalnum :: "string \<Rightarrow> bool" where
  "isalnum s \<longleftrightarrow> s \<noteq> [] \<and> list_all (\<lambda>c. is_upper c \<or> is_lower c \<or> is_digit c) s"

fun join :: "string \<Rightarrow> string list \<Rightarrow> string" where
  "join sep [] = []"
| "join sep [x] = x"
| "join sep (x # y # ys) = x @ sep @ join sep (y # ys)"

definition startswith :: "string \<Rightarrow> string \<Rightarrow> bool" where
  "startswith s p \<longleftrightarrow> take (length p) s = p"

lemma dropWhile_idem_rev:
  "dropWhile P (rev (dropWhile P (rev (dropWhile P s)))) = rev (dropWhile P (rev (dropWhile P s)))"
proof (cases "dropWhile P s")
  case Nil
  then show ?thesis by (simp del: dropWhile_eq_Nil_conv)
next
  case (Cons c t)
  then have "\<not> P c" by (metis hd_dropWhile list.sel(1) list.discI)
  then show ?thesis by (simp add: Cons dropWhile_append)
qed

lemma strip_strip [simp, str_simps]: "strip (strip s) = strip s"
  unfolding strip_def by (subst dropWhile_idem_rev) simp

lemma strip_Nil_iff: "strip s = [] \<longleftrightarrow> list_all is_space s"
proof (cases "dropWhile is_space s")
  case Nil
  then show ?thesis by (auto simp: strip_def list_all_iff dest: set_dropWhileD)
next
  case (Cons c t)
  then have "\<not> is_space c" by (metis hd_dropWhile list.sel(1) list.discI)
  moreover have "c \<in> set s" using Cons by (metis list.set_intros(1) set_dropWhileD)
  ultimately show ?thesis using Cons by (auto simp: strip_def list_all_iff)
qed

lemma strip_Nil [simp]: "strip [] = []"
  by (simp add: strip_def)

lemma set_strip_subset: "set (strip s) \<subseteq> set s"
  by (force simp: strip_def dest: set_dropWhileD)

lemma strip_map:
  assumes "\<And>c. is_space (f c) = is_space c"
  shows "strip (map f s) = map f (strip s)"
  using assms by (simp add: strip_def dropWhile_map comp_def rev_map)

lemma strip_casefold [str_simps]: "strip (casefold s) = casefold (strip s)"
  by (simp add: casefold_def strip_map)

lemma strip_upper [str_simps]: "strip (upper s) = upper (strip s)"
  by (simp add: upper_def strip_map)

lemma casefold_casefold [simp, str_simps]: "casefold (casefold s) = casefold s"
  by (simp add: casefold_def comp_def)

lemma upper_upper [simp, str_simps]: "upper (upper s) = upper s"
  by (simp add: upper_def comp_def)

lemma casefold_Nil_iff [simp]: "casefold s = [] \<longleftrightarrow> s = []"
  by (simp add: casefold_def)

lemma length_upper [simp]: "length (upper s) = length s"
  by (simp add: upper_def)

lemma startswith_iff: "startswith s p \<longleftrightarrow> (\<exists>t. s = p @ t)"
  unfolding startswith_def by (metis append_eq_conv_conj)

section \<open>Joined keys\<close>

lemma join_Cons: "ys \<noteq> [] \<Longrightarrow> join sep (x # ys) = x @ sep @ join sep ys"
  by (cases ys) auto

lemma split_at_sep:
  assumes "c \<notin> set x" and "c \<notin> set y" and "x @ c # xs = y @ c # ys"
  shows "x = y \<and> xs = ys"
  using assms
proof (induction x arbitrary: y)
  case Nil
  then show ?case by (cases y) auto
next
  case (Cons a x)
  then show ?case by (cases y) auto
qed

lemma join_inj:
  assumes "length xs = length ys"
    and "\<forall>x \<in> set xs. c \<notin> set x" and "\<forall>y \<in> set ys. c \<notin> set y"
    and "join [c] xs = join [c] ys"
  shows "xs = ys"
  using assms
proof (induction xs ys rule: list_induct2)
  case Nil
  then show ?case by simp
next
  case (Cons x xs y ys)
  show ?case
  proof (cases xs)
    case Nil
    with Cons show ?thesis by simp
  next
    case xs: (Cons a as)
    then have ne: "xs \<noteq> []" "ys \<noteq> []" using Cons.hyps by auto
    from Cons.prems ne have "x @ c # join [c] xs = y @ c # join [c] ys"
      by (simp add: join_Cons)
    with Cons.prems have "x = y \<and> join [c] xs = join [c] ys"
      by (intro split_at_sep) auto
    with Cons.IH Cons.prems show ?thesis by simp
  qed
qed

section \<open>Decimal numerals\<close>

definition digit :: "int \<Rightarrow> char" where
  "digit d = char_of (48 + d)"

function digits_str :: "int \<Rightarrow> string" where
  "digits_str n = (if n < 10 then [digit n] else digits_str (n div 10) @ [digit (n mod 10)])"
  by pat_completeness auto
termination
  by (relation "measure nat") auto

declare digits_str.simps [simp del]

definition int_str :: "int \<Rightarrow> string" where
  "int_str i = (if i < 0 then CHR ''-'' # digits_str (- i) else digits_str i)"

definition digits_val :: "string \<Rightarrow> int" where
  "digits_val s = foldl (\<lambda>n c. 10 * n + (code c - 48)) 0 s"

lemma code_digit: "0 \<le> d \<Longrightarrow> d < 10 \<Longrightarrow> code (digit d) = 48 + d"
  by (simp add: digit_def)

lemma digits_val_snoc: "digits_val (s @ [c]) = 10 * digits_val s + (code c - 48)"
  by (simp add: digits_val_def)

lemma digits_val_digits_str [simp]: "0 \<le> n \<Longrightarrow> digits_val (digits_str n) = n"
proof (induction n rule: digits_str.induct)
  case (1 n)
  show ?case
  proof (cases "n < 10")
    case True
    then show ?thesis using 1 by (simp add: digits_str.simps [of n] digits_val_def code_digit)
  next
    case False
    with 1 show ?thesis by (simp add: digits_str.simps [of n] digits_val_snoc code_digit)
  qed
qed

lemma digits_str_inj: "0 \<le> m \<Longrightarrow> 0 \<le> n \<Longrightarrow> digits_str m = digits_str n \<Longrightarrow> m = n"
  by (metis digits_val_digits_str)

lemma digits_str_digits: "0 \<le> n \<Longrightarrow> c \<in> set (digits_str n) \<Longrightarrow> is_digit c"
proof (induction n rule: digits_str.induct)
  case (1 n)
  then show ?case
    by (cases "n < 10") (auto simp: digits_str.simps [of n] is_digit_def code_digit)
qed

lemma digits_str_Nil [simp]: "digits_str n \<noteq> []"
  by (simp add: digits_str.simps [of n])

lemma int_str_chars: "c \<in> set (int_str i) \<Longrightarrow> is_digit c \<or> c = CHR ''-''"
  by (auto simp: int_str_def dest: digits_str_digits [rotated] split: if_splits)

lemma minus_not_digit: "\<not> is_digit (CHR ''-'')"
  by (simp add: is_digit_def code_def)

lemma int_str_inj: "int_str i = int_str j \<Longrightarrow> i = j"
proof -
  assume eq: "int_str i = int_str j"
  have no: "0 \<le> n \<Longrightarrow> digits_str n \<noteq> CHR ''-'' # s" for n s
    using digits_str_digits [of n "CHR ''-''"] minus_not_digit by auto
  show "i = j"
  proof (cases "i < 0"; cases "j < 0")
    assume "i < 0" "j < 0"
    with eq show ?thesis by (auto simp: int_str_def dest: digits_str_inj [rotated 2])
  next
    assume "\<not> i < 0" "\<not> j < 0"
    with eq show ?thesis by (auto simp: int_str_def dest: digits_str_inj [rotated 2])
  next
    assume "i < 0" "\<not> j < 0"
    with eq no [of j "digits_str (- i)"] show ?thesis by (auto simp: int_str_def)
  next
    assume "\<not> i < 0" "j < 0"
    with eq no [of i "digits_str (- j)"] show ?thesis by (auto simp: int_str_def)
  qed
qed

end
