(* ===== verification/Binary64.thy ===== *)
theory Binary64
  imports PyString Complex_Main
begin

text \<open>
  Python's \<open>float\<close>: IEEE binary64 with round-to-nearest-even, over exact rationals.
  A finite float is its exact value; the sign of zero is not tracked (no comparison or
  formatted text in the modelled code depends on it). Every arithmetic operation computes
  exactly and rounds once, so results are those of the hardware, overflow to the
  infinities and underflow to zero included.
\<close>

section \<open>Powers of two and the binary exponent\<close>

text \<open>\<open>2 ** k\<close> by repeated squaring and \<open>int.bit_length\<close>, on binary numerals throughout.\<close>

function ipow2 :: "int \<Rightarrow> int" where
  "ipow2 k = (if k \<le> 0 then 1
    else let h = ipow2 (k div 2) in if even k then h * h else 2 * (h * h))"
  by pat_completeness auto
termination
  by (relation "measure nat") auto

function bit_len :: "int \<Rightarrow> int" where
  "bit_len n = (if n \<le> 0 then 0 else 1 + bit_len (n div 2))"
  by pat_completeness auto
termination
  by (relation "measure nat") auto

declare ipow2.simps [simp del] bit_len.simps [simp del]

lemma ipow2_eq: "ipow2 k = 2 ^ nat k"
proof (induction k rule: ipow2.induct)
  case (1 k)
  show ?case
  proof (cases "k \<le> 0")
    case True
    then show ?thesis by (simp add: ipow2.simps [of k])
  next
    case False
    then have h: "ipow2 (k div 2) = 2 ^ nat (k div 2)" using 1 by simp
    have "nat k = nat (k div 2) + nat (k div 2) + (if even k then 0 else 1)"
      using False by (auto simp: nat_eq_iff elim!: evenE oddE)
    then show ?thesis using False by (simp add: ipow2.simps [of k] h power_add Let_def)
  qed
qed

lemma bit_len_nonneg [simp]: "0 \<le> bit_len n"
  by (induction n rule: bit_len.induct) (simp add: bit_len.simps)

lemma bit_len_bounds: "0 < n \<Longrightarrow> 2 ^ nat (bit_len n - 1) \<le> n \<and> n < 2 ^ nat (bit_len n)"
proof (induction n rule: bit_len.induct)
  case (1 n)
  have bl: "bit_len n = 1 + bit_len (n div 2)" using "1.prems" by (simp add: bit_len.simps [of n])
  show ?case
  proof (cases "n = 1")
    case True
    then show ?thesis by (simp add: bit_len.simps)
  next
    case False
    then have "0 < n div 2" using "1.prems" by simp
    then have IH: "2 ^ nat (bit_len (n div 2) - 1) \<le> n div 2" "n div 2 < 2 ^ nat (bit_len (n div 2))"
      using "1.IH" "1.prems" by auto
    have pos: "1 \<le> bit_len (n div 2)" using \<open>0 < n div 2\<close>
      by (simp add: bit_len.simps [of "n div 2"])
    then have "nat (bit_len n - 1) = Suc (nat (bit_len (n div 2) - 1))"
      "nat (bit_len n) = Suc (nat (bit_len (n div 2)))" using bl by auto
    moreover have "a \<le> n div 2 \<Longrightarrow> 2 * a \<le> n" "n div 2 < b \<Longrightarrow> n < 2 * b" for a b
      by presburger+
    ultimately show ?thesis using IH by simp
  qed
qed

definition pow2 :: "int \<Rightarrow> rat" where
  "pow2 k = (if 0 \<le> k then of_int (ipow2 k) else 1 / of_int (ipow2 (- k)))"

lemma pow2_eq: "pow2 k = (if 0 \<le> k then 2 ^ nat k else 1 / 2 ^ nat (- k))"
  by (simp add: pow2_def ipow2_eq)

lemma pow2_powi: "pow2 k = 2 powi k"
  by (auto simp: pow2_eq power_int_def inverse_eq_divide power_one_over)

lemma pow2_pos [simp]: "0 < pow2 k"
  by (simp add: pow2_eq)

lemma pow2_nonneg [simp]: "0 \<le> pow2 k"
  using pow2_pos [of k] by linarith

lemma pow2_neq0 [simp]: "pow2 k \<noteq> 0"
  using pow2_pos [of k] by linarith

lemma pow2_add: "pow2 (a + b) = pow2 a * pow2 b"
  by (simp add: pow2_powi power_int_add)

lemma pow2_diff: "pow2 (a - b) = pow2 a / pow2 b"
  by (simp add: pow2_powi power_int_diff)

lemma pow2_strict_mono: "a < b \<Longrightarrow> pow2 a < pow2 b"
  by (simp add: pow2_powi power_int_strict_increasing)

lemma pow2_less_iff [simp]: "pow2 a < pow2 b \<longleftrightarrow> a < b"
  by (metis linorder_less_linear order_less_imp_not_less pow2_strict_mono)

lemma pow2_le_iff [simp]: "pow2 a \<le> pow2 b \<longleftrightarrow> a \<le> b"
  by (metis linorder_not_less pow2_less_iff)

lemma pow2_of_nat: "pow2 (int n) = 2 ^ n"
  by (simp add: pow2_eq)

lemma pow2_0 [simp]: "pow2 0 = 1"
  by (simp add: pow2_eq)

lemma pow2_1 [simp]: "pow2 1 = 2"
  by (simp add: pow2_eq)

definition ilog2 :: "rat \<Rightarrow> int" where
  "ilog2 x = (let (n, d) = quotient_of x;
                  k = bit_len n - bit_len d
              in if pow2 k \<le> x then k else k - 1)"

lemma pow2_bit_len:
  assumes "0 < n"
  shows "pow2 (bit_len n - 1) \<le> of_int n" and "of_int n < pow2 (bit_len n)"
proof -
  note b = bit_len_bounds [OF assms]
  have "1 \<le> bit_len n" using assms by (simp add: bit_len.simps [of n])
  then have "pow2 (bit_len n - 1) = of_int (2 ^ nat (bit_len n - 1))" by (simp add: pow2_eq)
  then show "pow2 (bit_len n - 1) \<le> of_int n" using b by (simp only: of_int_le_iff)
  have "pow2 (bit_len n) = of_int (2 ^ nat (bit_len n))" by (simp add: pow2_eq)
  then show "of_int n < pow2 (bit_len n)" using b by (simp only: of_int_less_iff)
qed

lemma ilog2_bounds:
  assumes "0 < x"
  shows "pow2 (ilog2 x) \<le> x" and "x < pow2 (ilog2 x + 1)"
proof -
  obtain n d where q: "quotient_of x = (n, d)" by (cases "quotient_of x")
  have d: "0 < d" using quotient_of_denom_pos [OF q] .
  have x: "x = of_int n / of_int d" using quotient_of_div [OF q] .
  have n: "0 < n" using assms d x by (simp add: zero_less_divide_iff)
  define a where "a = bit_len n"
  define b where "b = bit_len d"
  note nb = pow2_bit_len [OF n, folded a_def]
  note db = pow2_bit_len [OF d, folded b_def]
  have d': "(0::rat) < of_int d" using d by simp
  have up: "x < pow2 (a - b + 1)"
  proof -
    have "pow2 (a - b + 1) * of_int d \<ge> pow2 (a - b + 1) * pow2 (b - 1)"
      using db(1) by (simp add: mult_left_mono)
    also have "pow2 (a - b + 1) * pow2 (b - 1) = pow2 a"
      by (simp add: pow2_add [symmetric])
    finally show ?thesis using nb(2) d' by (simp add: x divide_less_eq)
  qed
  have lo: "pow2 (a - b - 1) \<le> x"
  proof -
    have "pow2 (a - b - 1) * of_int d \<le> pow2 (a - b - 1) * pow2 b"
      using db(2) by (simp add: mult_left_mono)
    also have "pow2 (a - b - 1) * pow2 b = pow2 (a - 1)"
      by (simp add: pow2_add [symmetric])
    finally show ?thesis using nb(1) d' by (simp add: x le_divide_eq)
  qed
  have il: "ilog2 x = (if pow2 (a - b) \<le> x then a - b else a - b - 1)"
    by (simp add: ilog2_def q a_def b_def)
  show "pow2 (ilog2 x) \<le> x" using lo il by simp
  show "x < pow2 (ilog2 x + 1)" using up il by (auto simp: not_le)
qed

lemma ilog2_le:
  assumes "0 < x" and "x < pow2 k"
  shows "ilog2 x < k"
proof -
  have "pow2 (ilog2 x) < pow2 k" using ilog2_bounds(1) [OF assms(1)] assms(2) by linarith
  then show ?thesis by simp
qed

lemma ilog2_ge:
  assumes "0 < x" and "pow2 k \<le> x"
  shows "k \<le> ilog2 x"
proof -
  have "pow2 k < pow2 (ilog2 x + 1)" using ilog2_bounds(2) [OF assms(1)] assms(2) by linarith
  then show ?thesis by simp
qed

lemma ilog2_mono: "0 < x \<Longrightarrow> x \<le> y \<Longrightarrow> ilog2 x \<le> ilog2 y"
  by (rule ilog2_ge) (auto intro: order_trans [OF ilog2_bounds(1)])

section \<open>Rounding to the nearest integer, ties to even\<close>

definition rhe :: "rat \<Rightarrow> int" where
  "rhe x = (let f = \<lfloor>x\<rfloor>; r = x - of_int f
            in if r < 1 / 2 then f else if 1 / 2 < r then f + 1
               else if even f then f else f + 1)"

lemma rhe_of_int [simp]: "rhe (of_int n) = n"
  by (simp add: rhe_def)

lemma rhe_floor: "rhe x = \<lfloor>x\<rfloor> \<or> rhe x = \<lfloor>x\<rfloor> + 1"
  by (auto simp: rhe_def Let_def)

lemma rhe_error: "\<bar>of_int (rhe x) - x\<bar> \<le> 1 / 2"
proof -
  have "of_int \<lfloor>x\<rfloor> \<le> x" "x < of_int \<lfloor>x\<rfloor> + 1" by linarith+
  then show ?thesis by (auto simp: rhe_def Let_def abs_le_iff)
qed

lemma rhe_mono: "x \<le> y \<Longrightarrow> rhe x \<le> rhe y"
proof -
  assume le: "x \<le> y"
  have fl: "\<lfloor>x\<rfloor> \<le> \<lfloor>y\<rfloor>" using le by (rule floor_mono)
  show ?thesis
  proof (cases "\<lfloor>x\<rfloor> = \<lfloor>y\<rfloor>")
    case True
    then show ?thesis using le by (auto simp: rhe_def Let_def)
  next
    case False
    then have "\<lfloor>x\<rfloor> + 1 \<le> \<lfloor>y\<rfloor>" using fl by simp
    then show ?thesis using rhe_floor [of x] rhe_floor [of y] by auto
  qed
qed

lemma rhe_le_int: "x \<le> of_int n \<Longrightarrow> rhe x \<le> n"
  using rhe_mono [of x "of_int n"] by simp

lemma rhe_ge_int: "of_int n \<le> x \<Longrightarrow> n \<le> rhe x"
  using rhe_mono [of "of_int n" x] by simp

section \<open>Floats and rounding\<close>

datatype pyfloat = Fin rat | PInf | NInf | NaN

text \<open>The exponent of the last place: 52 bits below the leading one, at least \<open>2^-1074\<close>.\<close>

definition expo :: "rat \<Rightarrow> int" where
  "expo x = max (ilog2 x - 52) (- 1074)"

definition rnd :: "rat \<Rightarrow> rat" where
  "rnd x = of_int (rhe (x / pow2 (expo x))) * pow2 (expo x)"

definition fl_pos :: "rat \<Rightarrow> pyfloat" where
  "fl_pos x = (if pow2 1024 \<le> rnd x then PInf else Fin (rnd x))"

fun fneg :: "pyfloat \<Rightarrow> pyfloat" where
  "fneg (Fin r) = Fin (- r)"
| "fneg PInf = NInf"
| "fneg NInf = PInf"
| "fneg NaN = NaN"

definition fl :: "rat \<Rightarrow> pyfloat" where
  "fl x = (if x = 0 then Fin 0 else if 0 < x then fl_pos x else fneg (fl_pos (- x)))"

fun isfinite :: "pyfloat \<Rightarrow> bool" where
  "isfinite (Fin _) = True"
| "isfinite _ = False"

lemma isfinite_iff: "isfinite f \<longleftrightarrow> (\<exists>r. f = Fin r)"
  by (cases f) auto

text \<open>Sorting order: by value, infinities at the ends; NaN never reaches a sort.\<close>

fun fkey :: "pyfloat \<Rightarrow> int \<times> rat" where
  "fkey NInf = (- 1, 0)"
| "fkey (Fin r) = (0, r)"
| "fkey PInf = (1, 0)"
| "fkey NaN = (2, 0)"

lemma fkey_inj: "fkey a = fkey b \<Longrightarrow> a = b"
  by (cases a; cases b) auto

instantiation pyfloat :: linorder
begin

definition less_eq_pyfloat :: "pyfloat \<Rightarrow> pyfloat \<Rightarrow> bool" where
  "less_eq_pyfloat a b \<longleftrightarrow> fkey a \<le> fkey b"

definition less_pyfloat :: "pyfloat \<Rightarrow> pyfloat \<Rightarrow> bool" where
  "less_pyfloat a b \<longleftrightarrow> fkey a < fkey b"

instance
  by standard (auto simp: less_eq_pyfloat_def less_pyfloat_def fkey_inj)

end

lemma pyfloat_le_simps [simp]:
  "Fin a \<le> Fin b \<longleftrightarrow> a \<le> b" "NInf \<le> Fin b" "Fin a \<le> PInf" "NInf \<le> PInf"
  "\<not> PInf \<le> Fin b" "\<not> Fin a \<le> NInf" "\<not> PInf \<le> NInf"
  "Fin a < Fin b \<longleftrightarrow> a < b" "NInf < Fin b" "Fin a < PInf" "NInf < PInf"
  "\<not> PInf < Fin b" "\<not> Fin a < NInf" "\<not> PInf < NInf"
  by (simp_all add: less_eq_pyfloat_def less_pyfloat_def)

text \<open>Python's comparisons: every comparison with NaN is false.\<close>

definition fle :: "pyfloat \<Rightarrow> pyfloat \<Rightarrow> bool" where
  "fle a b \<longleftrightarrow> a \<noteq> NaN \<and> b \<noteq> NaN \<and> a \<le> b"

definition flt :: "pyfloat \<Rightarrow> pyfloat \<Rightarrow> bool" where
  "flt a b \<longleftrightarrow> a \<noteq> NaN \<and> b \<noteq> NaN \<and> a < b"

lemma fle_Fin [simp]: "fle (Fin a) (Fin b) \<longleftrightarrow> a \<le> b"
  by (simp add: fle_def)

lemma flt_Fin [simp]: "flt (Fin a) (Fin b) \<longleftrightarrow> a < b"
  by (simp add: flt_def)

section \<open>Rounding is monotone, odd and exact on representable values\<close>

lemma expo_mono: "0 < x \<Longrightarrow> x \<le> y \<Longrightarrow> expo x \<le> expo y"
  using ilog2_mono [of x y] by (auto simp: expo_def)

lemma below_expo: "0 < x \<Longrightarrow> x < pow2 (expo x + 53)"
proof -
  assume pos: "0 < x"
  have "pow2 (ilog2 x + 1) \<le> pow2 (expo x + 53)" by (simp add: expo_def)
  with ilog2_bounds(2) [OF pos] show ?thesis by linarith
qed

lemma above_expo:
  assumes "0 < x" and "- 1074 < expo x"
  shows "pow2 (expo x + 52) \<le> x"
proof -
  have "ilog2 x = expo x + 52" using assms(2) by (auto simp: expo_def max_def split: if_splits)
  with ilog2_bounds(1) [OF assms(1)] show ?thesis by simp
qed

lemma rnd_nonneg: "0 < x \<Longrightarrow> 0 \<le> rnd x"
proof -
  assume "0 < x"
  then have "of_int 0 \<le> x / pow2 (expo x)" by simp
  then have "0 \<le> rhe (x / pow2 (expo x))" by (rule rhe_ge_int)
  then show ?thesis by (simp add: rnd_def)
qed

lemma rnd_upper: "0 < x \<Longrightarrow> rnd x \<le> pow2 (expo x + 53)"
proof -
  assume pos: "0 < x"
  have "x / pow2 (expo x) \<le> pow2 53"
    using below_expo [OF pos] by (simp add: pow2_add divide_le_eq mult.commute)
  then have "x / pow2 (expo x) \<le> of_int (2 ^ 53)" by (simp add: pow2_eq)
  then have "rhe (x / pow2 (expo x)) \<le> 2 ^ 53" by (rule rhe_le_int)
  then have "of_int (rhe (x / pow2 (expo x))) \<le> (of_int (2 ^ 53) :: rat)"
    by (simp only: of_int_le_iff)
  then have "rnd x \<le> of_int (2 ^ 53) * pow2 (expo x)"
    unfolding rnd_def by (intro mult_right_mono) auto
  then show ?thesis by (simp add: pow2_add pow2_eq [of 53] mult.commute)
qed

lemma rnd_lower:
  assumes "0 < x" and "- 1074 < expo x"
  shows "pow2 (expo x + 52) \<le> rnd x"
proof -
  have "pow2 52 \<le> x / pow2 (expo x)"
    using above_expo [OF assms] by (simp add: pow2_add le_divide_eq mult.commute)
  then have "of_int (2 ^ 52) \<le> x / pow2 (expo x)" by (simp add: pow2_eq)
  then have "2 ^ 52 \<le> rhe (x / pow2 (expo x))" by (rule rhe_ge_int)
  then have "(of_int (2 ^ 52) :: rat) \<le> of_int (rhe (x / pow2 (expo x)))"
    by (simp only: of_int_le_iff)
  then have "of_int (2 ^ 52) * pow2 (expo x) \<le> rnd x"
    unfolding rnd_def by (intro mult_right_mono) auto
  then show ?thesis by (simp add: pow2_add pow2_eq [of 52] mult.commute)
qed

lemma rnd_mono:
  assumes "0 < x" and "x \<le> y"
  shows "rnd x \<le> rnd y"
proof (cases "expo x = expo y")
  case True
  have "x / pow2 (expo y) \<le> y / pow2 (expo y)" using assms(2) by (simp add: divide_right_mono)
  then have "rhe (x / pow2 (expo y)) \<le> rhe (y / pow2 (expo y))" by (rule rhe_mono)
  then show ?thesis unfolding rnd_def True by (intro mult_right_mono) auto
next
  case False
  then have less: "expo x < expo y" using expo_mono [OF assms] by simp
  have "- 1074 \<le> expo x" by (simp add: expo_def)
  with less have "- 1074 < expo y" by simp
  then have low: "pow2 (expo y + 52) \<le> rnd y" using assms by (intro rnd_lower) auto
  have "pow2 (expo x + 53) \<le> pow2 (expo y + 52)" using less by simp
  with rnd_upper [OF assms(1)] low show ?thesis by linarith
qed

lemma fneg_fneg [simp]: "fneg (fneg a) = a"
  by (cases a) auto

lemma fneg_le_iff [simp]: "a \<noteq> NaN \<Longrightarrow> b \<noteq> NaN \<Longrightarrow> fneg a \<le> fneg b \<longleftrightarrow> b \<le> a"
  by (cases a; cases b) auto

lemma fneg_NaN_iff [simp]: "fneg a = NaN \<longleftrightarrow> a = NaN"
  by (cases a) auto

lemma fl_pos_not_NaN [simp]: "fl_pos x \<noteq> NaN"
  by (simp add: fl_pos_def)

lemma fl_not_NaN [simp]: "fl x \<noteq> NaN"
  by (auto simp: fl_def)

lemma fl_neg: "fl (- x) = fneg (fl x)"
  by (auto simp: fl_def)

lemma fl_0 [simp]: "fl 0 = Fin 0"
  by (simp add: fl_def)

lemma fl_pos_mono: "0 < x \<Longrightarrow> x \<le> y \<Longrightarrow> fl_pos x \<le> fl_pos y"
  using rnd_mono [of x y] by (auto simp: fl_pos_def)

lemma fl_pos_ge_0: "0 < x \<Longrightarrow> Fin 0 \<le> fl_pos x"
  by (simp add: fl_pos_def rnd_nonneg)

theorem fl_mono: "x \<le> y \<Longrightarrow> fl x \<le> fl y"
proof -
  assume le: "x \<le> y"
  have neg: "fneg (fl_pos (- z)) \<le> Fin 0" if "z < 0" for z
  proof -
    have "Fin 0 \<le> fl_pos (- z)" using that by (intro fl_pos_ge_0) simp
    then have "fneg (fl_pos (- z)) \<le> fneg (Fin 0)" by (simp del: fneg.simps)
    then show ?thesis by simp
  qed
  consider "0 < x" | "x \<le> 0" "0 \<le> y" | "y < 0" by linarith
  then show ?thesis
  proof cases
    case 1
    then show ?thesis using le by (simp add: fl_def fl_pos_mono)
  next
    case 2
    then have "fl x \<le> Fin 0" "Fin 0 \<le> fl y"
      by (auto simp: fl_def neg fl_pos_ge_0)
    then show ?thesis by (rule order_trans)
  next
    case 3
    then show ?thesis using le by (simp add: fl_def fl_pos_mono)
  qed
qed

definition representable :: "rat \<Rightarrow> bool" where
  "representable v \<longleftrightarrow>
    (\<exists>m e. v = of_int m * pow2 e \<and> \<bar>m\<bar> \<le> 2 ^ 53 \<and> - 1074 \<le> e \<and> \<bar>v\<bar> < pow2 1024)"

lemma representable_neg [simp]: "representable (- v) \<longleftrightarrow> representable v"
proof -
  have "representable (- v)" if r: "representable v" for v
  proof -
    from r obtain m e where "v = of_int m * pow2 e" "\<bar>m\<bar> \<le> 2 ^ 53" "- 1074 \<le> e"
      "\<bar>v\<bar> < pow2 1024" unfolding representable_def by blast
    then show ?thesis unfolding representable_def
      by (intro exI [of _ "- m"] exI [of _ e]) simp
  qed
  from this [of v] this [of "- v"] show ?thesis by auto
qed

lemma rnd_exact:
  assumes v: "0 < v" "v = of_int m * pow2 e" "m \<le> 2 ^ 53" "- 1074 \<le> e"
  shows "rnd v = v"
proof (cases "expo v \<le> e")
  case True
  define E where "E = expo v"
  have "v / pow2 E = of_int m * (pow2 e / pow2 E)" using v(2) by simp
  also have "pow2 e / pow2 E = of_int (2 ^ nat (e - E))"
    using True by (simp add: pow2_diff [symmetric] E_def) (simp add: pow2_eq)
  finally have "v / pow2 E = of_int (m * 2 ^ nat (e - E))" by simp
  then show ?thesis unfolding rnd_def E_def [symmetric]
    by (simp only: rhe_of_int) (simp add: divide_eq_eq)
next
  case False
  then have gt: "- 1074 < expo v" using v(4) by simp
  have "v \<le> of_int (2 ^ 53) * pow2 e" unfolding v(2)
    using v(3) by (intro mult_right_mono) (simp_all only: of_int_le_iff pow2_nonneg)
  also have "\<dots> = pow2 (e + 53)" by (simp add: pow2_add pow2_eq [of 53])
  also have "\<dots> \<le> pow2 (expo v + 52)" using False by simp
  finally have eq: "v = pow2 (expo v + 52)" using above_expo [OF v(1) gt] by simp
  define E where "E = expo v"
  have "v / pow2 E = of_int (2 ^ 52)"
    using eq pow2_diff [of "E + 52" E] by (simp add: E_def [symmetric] pow2_eq [of 52])
  then show ?thesis unfolding rnd_def E_def [symmetric]
    by (simp only: rhe_of_int) (simp add: divide_eq_eq)
qed

theorem fl_exact: "representable v \<Longrightarrow> fl v = Fin v"
proof -
  have pos: "fl v = Fin v" if "representable v" "0 < v" for v
  proof -
    from that(1) obtain m e where v: "v = of_int m * pow2 e" "\<bar>m\<bar> \<le> 2 ^ 53" "- 1074 \<le> e"
      "\<bar>v\<bar> < pow2 1024" unfolding representable_def by blast
    have "rnd v = v" by (rule rnd_exact [OF that(2) v(1)]) (use v in auto)
    moreover have "v < pow2 1024" using v(4) abs_of_pos [OF that(2)] by simp
    ultimately show ?thesis using that(2) by (simp add: fl_def fl_pos_def)
  qed
  assume r: "representable v"
  consider "v = 0" | "0 < v" | "0 < - v" by linarith
  then show ?thesis
  proof cases
    case 3
    with r have "fl (- v) = Fin (- v)" by (intro pos) auto
    then show ?thesis using fl_neg [of "- v"] by simp
  qed (use r pos in auto)
qed

theorem fl_representable: "fl x = Fin v \<Longrightarrow> representable v"
proof -
  have pos: "representable v" if x: "0 < x" and fx: "fl_pos x = Fin v" for x v
  proof -
    let ?m = "rhe (x / pow2 (expo x))"
    have v: "v = of_int ?m * pow2 (expo x)" and small: "v < pow2 1024"
      using fx by (auto simp: fl_pos_def rnd_def split: if_splits)
    have "rnd x = v" using v by (simp add: rnd_def)
    then have "0 \<le> v" using rnd_nonneg [OF x] by simp
    have "of_int ?m * pow2 (expo x) \<le> pow2 (expo x + 53)"
      using rnd_upper [OF x] by (simp add: rnd_def)
    then have "of_int ?m \<le> pow2 53"
      by (simp add: pow2_add mult.commute)
    then have "of_int ?m \<le> (of_int (2 ^ 53) :: rat)" by (simp add: pow2_eq)
    then have m: "?m \<le> 2 ^ 53" by (simp only: of_int_le_iff)
    have "(0::rat) \<le> of_int ?m"
      using \<open>0 \<le> v\<close> v pow2_pos [of "expo x"] by (simp add: zero_le_mult_iff)
    then have "0 \<le> ?m" by simp
    with m v small \<open>0 \<le> v\<close> show ?thesis
      unfolding representable_def
      by (intro exI [of _ ?m] exI [of _ "expo x"]) (auto simp: expo_def)
  qed
  assume fx: "fl x = Fin v"
  consider "x = 0" | "0 < x" | "0 < - x" by linarith
  then show ?thesis
  proof cases
    case 1
    with fx have "v = 0" by simp
    then show ?thesis unfolding representable_def
      by (intro exI [of _ 0]) auto
  next
    case 2
    with fx show ?thesis by (auto simp: fl_def intro: pos)
  next
    case 3
    with fx have "fneg (fl_pos (- x)) = Fin v" by (auto simp: fl_def)
    then have "fl_pos (- x) = Fin (- v)" by (metis fneg.simps(1) fneg_fneg)
    with 3 have "representable (- v)" by (rule pos)
    then show ?thesis by simp
  qed
qed

lemma fl_idem: "fl x = Fin v \<Longrightarrow> fl v = Fin v"
  by (simp add: fl_exact fl_representable)

lemma representable_int: "\<bar>n\<bar> \<le> 2 ^ 53 \<Longrightarrow> representable (of_int n)"
proof -
  assume n: "\<bar>n\<bar> \<le> 2 ^ 53"
  have "(of_int \<bar>n\<bar> :: rat) \<le> of_int (2 ^ 53)" using n by (simp only: of_int_le_iff)
  also have "\<dots> < pow2 1024" by (simp add: pow2_eq)
  finally show ?thesis using n unfolding representable_def
    by (intro exI [of _ n] exI [of _ 0]) auto
qed

lemma fl_between:
  assumes "representable a" and "representable b" and "a \<le> x" and "x \<le> b"
  shows "\<exists>v. fl x = Fin v \<and> a \<le> v \<and> v \<le> b"
proof -
  have "Fin a \<le> fl x" "fl x \<le> Fin b"
    using fl_mono [OF assms(3)] fl_mono [OF assms(4)] assms(1,2) by (simp_all add: fl_exact)
  then show ?thesis by (cases "fl x") auto
qed

lemma representable_0 [simp]: "representable 0"
  using representable_int [of 0] by simp

lemma representable_1 [simp]: "representable 1"
  using representable_int [of 1] by simp

lemma fl_unit: "0 \<le> x \<Longrightarrow> x \<le> 1 \<Longrightarrow> \<exists>v. fl x = Fin v \<and> 0 \<le> v \<and> v \<le> 1"
  by (intro fl_between) auto

lemma fl_nonneg: "0 \<le> x \<Longrightarrow> Fin 0 \<le> fl x"
  using fl_mono [of 0 x] by simp

end
