(* ===== verification/FloatOps.thy ===== *)
theory FloatOps
  imports Binary64
begin

text \<open>
  The float operations of the interpreter and of \<open>math\<close> and \<open>statistics\<close> that the sources
  use: the arithmetic operators with their special values, \<open>int / int\<close>, \<open>math.fsum\<close> with its
  list of partial sums, \<open>statistics.median\<close>, \<open>fmean\<close> and \<open>stdev\<close>, \<open>round\<close> and the fixed-point
  formats of f-strings.
\<close>

section \<open>Arithmetic operators\<close>

fun fadd :: "pyfloat \<Rightarrow> pyfloat \<Rightarrow> pyfloat" where
  "fadd NaN _ = NaN"
| "fadd _ NaN = NaN"
| "fadd (Fin a) (Fin b) = fl (a + b)"
| "fadd PInf NInf = NaN"
| "fadd NInf PInf = NaN"
| "fadd PInf _ = PInf"
| "fadd _ PInf = PInf"
| "fadd NInf _ = NInf"
| "fadd _ NInf = NInf"

definition fsub :: "pyfloat \<Rightarrow> pyfloat \<Rightarrow> pyfloat" where
  "fsub a b = fadd a (fneg b)"

definition finf :: "rat \<Rightarrow> pyfloat" where
  "finf s = (if 0 < s then PInf else if s < 0 then NInf else NaN)"

fun fmul :: "pyfloat \<Rightarrow> pyfloat \<Rightarrow> pyfloat" where
  "fmul NaN _ = NaN"
| "fmul _ NaN = NaN"
| "fmul (Fin a) (Fin b) = fl (a * b)"
| "fmul (Fin a) PInf = finf a"
| "fmul (Fin a) NInf = finf (- a)"
| "fmul PInf (Fin b) = finf b"
| "fmul NInf (Fin b) = finf (- b)"
| "fmul PInf PInf = PInf"
| "fmul NInf NInf = PInf"
| "fmul PInf NInf = NInf"
| "fmul NInf PInf = NInf"

text \<open>Division raises on a zero divisor, whatever the dividend.\<close>

fun fdiv :: "pyfloat \<Rightarrow> pyfloat \<Rightarrow> pyfloat result" where
  "fdiv a (Fin b) =
     (if b = 0 then Inl ZeroDivisionError
      else Inr (case a of Fin r \<Rightarrow> fl (r / b)
                | PInf \<Rightarrow> (if 0 < b then PInf else NInf)
                | NInf \<Rightarrow> (if 0 < b then NInf else PInf)
                | NaN \<Rightarrow> NaN))"
| "fdiv (Fin _) PInf = Inr (Fin 0)"
| "fdiv (Fin _) NInf = Inr (Fin 0)"
| "fdiv _ _ = Inr NaN"

fun fabs :: "pyfloat \<Rightarrow> pyfloat" where
  "fabs (Fin r) = Fin \<bar>r\<bar>"
| "fabs PInf = PInf"
| "fabs NInf = PInf"
| "fabs NaN = NaN"

text \<open>\<open>float(n)\<close> and \<open>m / n\<close> on integers raise when the result leaves the range.\<close>

definition checked :: "pyfloat \<Rightarrow> pyfloat result" where
  "checked f = (if isfinite f then Inr f else Inl OverflowError)"

definition float_of_int :: "int \<Rightarrow> pyfloat result" where
  "float_of_int n = checked (fl (of_int n))"

definition int_truediv :: "int \<Rightarrow> int \<Rightarrow> pyfloat result" where
  "int_truediv m n =
    (if n = 0 then Inl ZeroDivisionError else checked (fl (of_int m / of_int n)))"

lemma int_truediv_unit:
  assumes "0 \<le> m" and "m \<le> n" and "0 < n"
  shows "\<exists>v. int_truediv m n = Inr (Fin v) \<and> fl (of_int m / of_int n) = Fin v \<and> 0 \<le> v \<and> v \<le> 1"
proof -
  have "\<exists>v. fl (of_int m / of_int n) = Fin v \<and> 0 \<le> v \<and> v \<le> 1"
    using assms by (intro fl_unit) auto
  then show ?thesis using assms by (auto simp: int_truediv_def checked_def)
qed

lemma fdiv_self: "r \<noteq> 0 \<Longrightarrow> fdiv (Fin r) (Fin r) = Inr (Fin 1)"
  by (simp add: fl_exact)

lemma fadd_neg: "fadd (fneg a) (fneg b) = fneg (fadd a b)"
  by (cases a; cases b) (simp_all flip: fl_neg)

lemma fmul_neg_left: "fmul (fneg a) b = fneg (fmul a b)"
  by (cases a; cases b) (auto simp: finf_def simp flip: fl_neg)

lemma fadd_comm: "fadd a b = fadd b a"
  by (cases a; cases b) (simp_all add: add.commute)

section \<open>math.fsum\<close>

text \<open>
  The partials loop of \<open>fsum\<close>: the running value is added to each partial, the rounding error
  (which is exact) is kept when it is not zero. \<open>None\<close> is the intermediate overflow.
\<close>

fun fsum_step :: "rat list \<Rightarrow> rat \<Rightarrow> (rat list \<times> rat) option" where
  "fsum_step [] x = Some ([], x)"
| "fsum_step (y # ys) x =
     (case fl (x + y) of
        Fin hi \<Rightarrow>
          (case fsum_step ys hi of
             None \<Rightarrow> None
           | Some (ps, r) \<Rightarrow> Some (if x + y - hi \<noteq> 0 then (x + y - hi) # ps else ps, r))
      | _ \<Rightarrow> None)"

fun fsum_loop :: "rat list \<Rightarrow> rat list \<Rightarrow> rat list result" where
  "fsum_loop partials [] = Inr partials"
| "fsum_loop partials (x # xs) =
     (case fsum_step partials x of
        None \<Rightarrow> Inl OverflowError
      | Some (ps, r) \<Rightarrow> fsum_loop (if r \<noteq> 0 then ps @ [r] else ps) xs)"

definition fsum :: "rat list \<Rightarrow> pyfloat result" where
  "fsum xs = rbind (fsum_loop [] xs) (\<lambda>partials. checked (fl (sum_list partials)))"

lemma fsum_step_sum: "fsum_step ps x = Some (qs, r) \<Longrightarrow> sum_list qs + r = sum_list ps + x"
  by (induction ps x arbitrary: qs r rule: fsum_step.induct)
    (fastforce split: pyfloat.splits option.splits if_splits)+

lemma fsum_loop_sum: "fsum_loop ps xs = Inr qs \<Longrightarrow> sum_list qs = sum_list ps + sum_list xs"
proof (induction ps xs arbitrary: qs rule: fsum_loop.induct)
  case (1 partials)
  then show ?case by simp
next
  case (2 partials x xs)
  from "2.prems" obtain us r where st: "fsum_step partials x = Some (us, r)"
    and rest: "fsum_loop (if r \<noteq> 0 then us @ [r] else us) xs = Inr qs"
    by (auto split: option.splits)
  from "2.IH" [OF st refl rest] fsum_step_sum [OF st] show ?case
    by (auto split: if_splits)
qed

text \<open>The loop's result is the correctly rounded exact sum.\<close>

theorem fsum_correct: "fsum xs = Inr f \<Longrightarrow> f = fl (sum_list xs) \<and> isfinite f"
  by (auto simp: fsum_def rbind_Inr_iff checked_def dest!: fsum_loop_sum split: if_splits)

section \<open>statistics.fmean, median and stdev\<close>

definition fmean :: "rat list \<Rightarrow> pyfloat result" where
  "fmean xs = (if xs = [] then Inl (ValueError ''fmean requires at least one data point'')
    else rbind (fsum xs) (\<lambda>total. rbind (float_of_int (int (length xs))) (\<lambda>n. fdiv total n)))"

text \<open>\<open>median\<close>: the middle element, or half the (rounded) sum of the middle two.\<close>

definition median :: "pyfloat list \<Rightarrow> pyfloat result" where
  "median xs =
    (let data = sort xs; n = length data in
     if n = 0 then Inl (ValueError ''no median for empty data'')
     else if n mod 2 = 1 then Inr (data ! (n div 2))
     else fdiv (fadd (data ! (n div 2 - 1)) (data ! (n div 2))) (Fin 2))"

function isqrt :: "int \<Rightarrow> int" where
  "isqrt n = (if n \<le> 0 then 0
    else let r = 2 * isqrt (n div 4) in if (r + 1) * (r + 1) \<le> n then r + 1 else r)"
  by pat_completeness auto
termination
  by (relation "measure nat") auto

declare isqrt.simps [simp del]

lemma isqrt_correct: "0 \<le> n \<Longrightarrow> 0 \<le> isqrt n \<and> isqrt n * isqrt n \<le> n \<and> n < (isqrt n + 1) * (isqrt n + 1)"
proof (induction n rule: isqrt.induct)
  case (1 n)
  show ?case
  proof (cases "n \<le> 0")
    case True
    then show ?thesis using "1.prems" by (simp add: isqrt.simps)
  next
    case False
    define s where "s = isqrt (n div 4)"
    have s: "0 \<le> s" "s * s \<le> n div 4" "n div 4 < (s + 1) * (s + 1)"
      using "1.IH" False by (auto simp: s_def)
    have "a \<le> n div 4 \<Longrightarrow> 4 * a \<le> n" "n div 4 < b \<Longrightarrow> n < 4 * b" for a b
      by presburger+
    then have "4 * (s * s) \<le> n" "n < 4 * ((s + 1) * (s + 1))" using s(2,3) by blast+
    then show ?thesis using False s(1)
      by (simp add: isqrt.simps [of n] s_def [symmetric] Let_def algebra_simps)
  qed
qed

text \<open>\<open>_integer_sqrt_of_frac_rto\<close> and \<open>_float_sqrt_of_frac\<close> of the \<open>statistics\<close> module.\<close>

definition sqrt_of_frac_rto :: "int \<Rightarrow> int \<Rightarrow> int" where
  "sqrt_of_frac_rto n m =
    (let a = isqrt (n div m) in if a * a * m \<noteq> n \<and> even a then a + 1 else a)"

definition float_sqrt_of_frac :: "int \<Rightarrow> int \<Rightarrow> pyfloat result" where
  "float_sqrt_of_frac n m =
    (let q = (bit_len n - bit_len m - 109) div 2 in
     if 0 \<le> q
     then float_of_int (sqrt_of_frac_rto n (m * ipow2 (2 * q)) * ipow2 q)
     else int_truediv (sqrt_of_frac_rto (n * ipow2 (2 * (- q))) m) (ipow2 (- q)))"

definition sample_variance :: "rat list \<Rightarrow> rat" where
  "sample_variance xs =
    (let n = of_nat (length xs); sx = sum_list xs; sxx = sum_list (map (\<lambda>x. x * x) xs)
     in (n * sxx - sx * sx) / n / (n - 1))"

definition stdev :: "rat list \<Rightarrow> pyfloat result" where
  "stdev xs = (if length xs < 2 then Inl (ValueError ''stdev requires at least two data points'')
    else let (n, d) = quotient_of (sample_variance xs) in float_sqrt_of_frac n d)"

lemma checked_Inr [res_simps]: "checked f = Inr g \<longleftrightarrow> g = f \<and> isfinite f"
  by (auto simp: checked_def)

lemma float_of_int_nonneg: "0 \<le> n \<Longrightarrow> float_of_int n = Inr f \<Longrightarrow> \<exists>r. f = Fin r \<and> 0 \<le> r"
  using fl_nonneg [of "of_int n"] by (auto simp: float_of_int_def checked_Inr isfinite_iff)

lemma int_truediv_nonneg:
  "0 \<le> m \<Longrightarrow> 0 < n \<Longrightarrow> int_truediv m n = Inr f \<Longrightarrow> \<exists>r. f = Fin r \<and> 0 \<le> r"
  using fl_nonneg [of "of_int m / of_int n"]
  by (auto simp: int_truediv_def checked_Inr isfinite_iff)

lemma sqrt_of_frac_rto_nonneg: "0 \<le> n \<Longrightarrow> 0 \<le> m \<Longrightarrow> 0 \<le> sqrt_of_frac_rto n m"
  using isqrt_correct [of "n div m"]
  by (auto simp: sqrt_of_frac_rto_def Let_def div_int_pos_iff)

lemma ipow2_pos [simp]: "0 < ipow2 k"
  by (simp add: ipow2_eq)

lemma float_sqrt_nonneg:
  assumes "0 \<le> n" and "0 \<le> m" and "float_sqrt_of_frac n m = Inr f"
  shows "\<exists>r. f = Fin r \<and> 0 \<le> r"
proof -
  define q where "q = (bit_len n - bit_len m - 109) div 2"
  have pos: "0 \<le> ipow2 k" for k using ipow2_pos [of k] by linarith
  show ?thesis
  proof (cases "0 \<le> q")
    case True
    then have "float_of_int (sqrt_of_frac_rto n (m * ipow2 (2 * q)) * ipow2 q) = Inr f"
      using assms(3) by (simp add: float_sqrt_of_frac_def Let_def q_def)
    moreover have "0 \<le> sqrt_of_frac_rto n (m * ipow2 (2 * q)) * ipow2 q"
      using assms pos by (intro mult_nonneg_nonneg sqrt_of_frac_rto_nonneg) auto
    ultimately show ?thesis by (rule float_of_int_nonneg [rotated])
  next
    case False
    then have "int_truediv (sqrt_of_frac_rto (n * ipow2 (2 * (- q))) m) (ipow2 (- q)) = Inr f"
      using assms(3) by (simp add: float_sqrt_of_frac_def Let_def q_def)
    moreover have "0 \<le> sqrt_of_frac_rto (n * ipow2 (2 * (- q))) m"
      using assms pos by (intro sqrt_of_frac_rto_nonneg) auto
    ultimately show ?thesis by (metis int_truediv_nonneg ipow2_pos)
  qed
qed

lemma sum_squares_bound:
  fixes xs :: "rat list"
  shows "sum_list xs * sum_list xs \<le> of_nat (length xs) * sum_list (map (\<lambda>x. x * x) xs)"
proof (induction xs)
  case Nil
  then show ?case by simp
next
  case (Cons x xs)
  have "2 * x * sum_list xs \<le> of_nat (length xs) * (x * x) + sum_list (map (\<lambda>x. x * x) xs)"
  proof (induction xs)
    case (Cons y ys)
    have "0 \<le> (x - y) * (x - y)" by simp
    then have "2 * x * y \<le> x * x + y * y" by (simp add: algebra_simps)
    with Cons show ?case by (simp add: algebra_simps)
  qed simp
  with Cons show ?case by (simp add: algebra_simps)
qed

lemma sample_variance_nonneg: "0 \<le> sample_variance xs"
proof (cases "length xs < 2")
  case True
  then consider "xs = []" | x where "xs = [x]" by (cases xs) auto
  then show ?thesis by cases (simp_all add: sample_variance_def Let_def)
next
  case False
  then have "(1::rat) \<le> of_nat (length xs)" by simp
  then show ?thesis using sum_squares_bound [of xs]
    by (simp add: sample_variance_def Let_def)
qed

theorem stdev_nonneg: "stdev xs = Inr f \<Longrightarrow> \<exists>r. f = Fin r \<and> 0 \<le> r"
proof -
  assume st: "stdev xs = Inr f"
  obtain n d where q: "quotient_of (sample_variance xs) = (n, d)"
    by (cases "quotient_of (sample_variance xs)")
  have d: "0 < d" using quotient_of_denom_pos [OF q] .
  have "(0::rat) \<le> of_int n / of_int d"
    using sample_variance_nonneg [of xs] quotient_of_div [OF q] by simp
  then have "0 \<le> n" using d by (simp add: zero_le_divide_iff)
  then show ?thesis using st d q
    by (auto simp: stdev_def split: if_splits intro: float_sqrt_nonneg [of n d])
qed

lemma fmean_unit:
  assumes "xs \<noteq> []" and "\<forall>x \<in> set xs. 0 \<le> x \<and> x \<le> 1" and "fmean xs = Inr f"
    and "length xs \<le> 2 ^ 53"
  shows "\<exists>v. f = Fin v \<and> 0 \<le> v \<and> v \<le> 1"
proof -
  let ?n = "length xs"
  have n: "0 < ?n" using assms(1) by simp
  have len: "\<bar>int ?n\<bar> \<le> 2 ^ 53" using assms(4)
    by (metis abs_of_nat of_nat_le_iff of_nat_numeral of_nat_power)
  have rep: "representable (of_nat ?n)" using representable_int [OF len] by simp
  have sum: "0 \<le> sum_list xs \<and> sum_list xs \<le> of_nat ?n"
    using assms(2) by (induction xs) auto
  obtain s where s: "fl (sum_list xs) = Fin s" "0 \<le> s" "s \<le> of_nat ?n"
    using fl_between [OF representable_0 rep] sum by auto
  from assms(1,3) obtain t where "fsum xs = Inr t"
    and div: "rbind (float_of_int (int ?n)) (\<lambda>n. fdiv t n) = Inr f"
    by (auto simp: fmean_def rbind_Inr_iff)
  then have "t = Fin s" using fsum_correct [of xs t] s(1) by simp
  moreover have "float_of_int (int ?n) = Inr (Fin (of_nat ?n))"
    using fl_exact [OF rep] by (simp add: float_of_int_def checked_def)
  ultimately have "f = fl (s / of_nat ?n)" using div n by simp
  moreover have "0 \<le> s / of_nat ?n" "s / of_nat ?n \<le> 1" using s n by (auto simp: divide_le_eq)
  ultimately show ?thesis using fl_unit [of "s / of_nat ?n"] by blast
qed

section \<open>round and fixed-point formats\<close>

text \<open>\<open>round(x, n)\<close> on a finite float: the nearest decimal, ties to even, read back.\<close>

definition fround :: "nat \<Rightarrow> rat \<Rightarrow> pyfloat" where
  "fround n x = fl (of_int (rhe (x * 10 ^ n)) / 10 ^ n)"

definition pad_left :: "nat \<Rightarrow> string \<Rightarrow> string" where
  "pad_left w s = replicate (w - length s) (CHR ''0'') @ s"

text \<open>\<open>f"{x:.nf}"\<close> and \<open>f"{x:.n%}"\<close>.\<close>

definition fmt_rat :: "nat \<Rightarrow> rat \<Rightarrow> string" where
  "fmt_rat n x =
    (let k = rhe (\<bar>x\<bar> * 10 ^ n)
     in (if x < 0 then ''-'' else '''') @ digits_str (k div 10 ^ n) @ ''.'' @
        pad_left n (digits_str (k mod 10 ^ n)))"

fun fmt_fixed :: "nat \<Rightarrow> pyfloat \<Rightarrow> string" where
  "fmt_fixed n (Fin x) = fmt_rat n x"
| "fmt_fixed n PInf = ''inf''"
| "fmt_fixed n NInf = ''-inf''"
| "fmt_fixed n NaN = ''nan''"

definition fmt_percent :: "nat \<Rightarrow> pyfloat \<Rightarrow> string" where
  "fmt_percent n x = fmt_fixed n (fmul x (Fin 100)) @ ''%''"

section \<open>str of a float\<close>

text \<open>
  \<open>float.__repr__\<close>: the nearest decimal with the fewest significant digits (at most 17) that reads
  back as the same float, in positional notation for decimal points between -3 and 16 places and in
  scientific notation otherwise. \<open>ilog10\<close> is the decimal exponent of a positive float.
\<close>

definition pow10 :: "int \<Rightarrow> rat" where
  "pow10 e = (if 0 \<le> e then 10 ^ nat e else 1 / 10 ^ nat (- e))"

definition ilog10 :: "rat \<Rightarrow> int" where
  "ilog10 x = (if 1 \<le> x then int (length (digits_str \<lfloor>x\<rfloor>)) - 1
     else (case find (\<lambda>k. 1 \<le> x * 10 ^ k) [1..<400] of None \<Rightarrow> 0 | Some k \<Rightarrow> - int k))"

text \<open>The digits and the place of the decimal point.\<close>

definition shortest_digits :: "rat \<Rightarrow> string \<times> int" where
  "shortest_digits x =
    (let e = ilog10 x;
         digits = (\<lambda>n. rhe (x * pow10 (int n - 1 - e)));
         n = (case find (\<lambda>n. fl_pos (of_int (digits n) * pow10 (e - int n + 1)) = Fin x) [1..<17] of
                None \<Rightarrow> 17 | Some n \<Rightarrow> n);
         text = digits_str (digits n)
     in (rev (dropWhile (\<lambda>c. c = CHR ''0'') (rev text)), e + 1 + (int (length text) - int n)))"

definition repr_pos :: "rat \<Rightarrow> string" where
  "repr_pos x =
    (let (ds, point) = shortest_digits x; n = int (length ds) in
     if - 4 < point \<and> point \<le> 0 then ''0.'' @ replicate (nat (- point)) (CHR ''0'') @ ds
     else if 0 < point \<and> point \<le> 16 then
       (if n \<le> point then ds @ replicate (nat (point - n)) (CHR ''0'') @ ''.0''
        else take (nat point) ds @ ''.'' @ drop (nat point) ds)
     else take 1 ds @ (if 1 < n then ''.'' @ drop 1 ds else []) @ ''e'' @
       (if point < 1 then ''-'' else ''+'') @ pad_left 2 (digits_str \<bar>point - 1\<bar>))"

fun float_repr :: "pyfloat \<Rightarrow> string" where
  "float_repr (Fin x) = (if x = 0 then ''0.0'' else if x < 0 then ''-'' @ repr_pos (- x) else repr_pos x)"
| "float_repr PInf = ''inf''"
| "float_repr NInf = ''-inf''"
| "float_repr NaN = ''nan''"

end
