(* ===== verification/Models.thy ===== *)
theory Models
  imports FloatOps
begin

text \<open>
  The immutable data models of \<open>core/cloudeyes_core/models\<close>: dynamic values as they come out
  of JSON, timestamps, the enums, and one record per dataclass with its \<open>__post_init__\<close> as a
  constructor function that may raise. A field that the loader passes on unchecked is a
  \<open>pyval\<close> argument of the constructor, so the exceptions of a wrongly typed field are branches.
\<close>

named_theorems init_defs \<open>definitions of the dataclass constructors\<close>
named_theorems wf_defs \<open>well-formedness of constructed values\<close>

section \<open>Dynamic values\<close>

datatype pyval =
    PNone
  | PBool bool
  | PInt int
  | PFloat pyfloat
  | PStr string
  | PList "pyval list"
  | PDict "(string \<times> pyval) list"

fun truthy :: "pyval \<Rightarrow> bool" where
  "truthy PNone = False"
| "truthy (PBool b) = b"
| "truthy (PInt i) = (i \<noteq> 0)"
| "truthy (PFloat f) = (f \<noteq> Fin 0)"
| "truthy (PStr s) = (s \<noteq> [])"
| "truthy (PList xs) = (xs \<noteq> [])"
| "truthy (PDict d) = (d \<noteq> [])"

text \<open>
  A number that was checked for its sign but not for its type: \<open>cpu_count\<close> and \<open>memory_bytes\<close> are
  annotated \<open>int\<close>, but a JSON float passes the checks. An integral float equals its integer and has
  its hash, so a key that holds either is the same key: \<open>num_key\<close> is the representative of the
  class. The NaN of the JSON decoder is one object, which a comparison of tuples finds equal to
  itself.
\<close>

datatype pynum = IntNum int | FloatNum pyfloat

fun num_json :: "pynum \<Rightarrow> pyval" where
  "num_json (IntNum n) = PInt n"
| "num_json (FloatNum f) = PFloat f"

fun num_str :: "pynum \<Rightarrow> string" where
  "num_str (IntNum n) = int_str n"
| "num_str (FloatNum f) = float_repr f"

fun num_key :: "pynum \<Rightarrow> pynum" where
  "num_key (FloatNum (Fin x)) = (if of_int \<lfloor>x\<rfloor> = x then IntNum \<lfloor>x\<rfloor> else FloatNum (Fin x))"
| "num_key v = v"

text \<open>\<open>not (v <= 0)\<close>, which a NaN satisfies; and the numbers that JSON can write.\<close>

fun num_positive :: "pynum \<Rightarrow> bool" where
  "num_positive (IntNum n) = (0 < n)"
| "num_positive (FloatNum f) = (\<not> fle f (Fin 0))"

fun num_finite :: "pynum \<Rightarrow> bool" where
  "num_finite (IntNum n) = True"
| "num_finite (FloatNum f) = isfinite f"

text \<open>\<open>value.strip()\<close> on a value of unknown type.\<close>

fun dyn_strip :: "pyval \<Rightarrow> string result" where
  "dyn_strip (PStr s) = Inr (strip s)"
| "dyn_strip _ = Inl (AttributeError ''strip'')"

text \<open>\<open>tuple(value)\<close> on a value of unknown type.\<close>

fun dyn_iter :: "pyval \<Rightarrow> pyval list result" where
  "dyn_iter (PList xs) = Inr xs"
| "dyn_iter (PStr s) = Inr (map (\<lambda>c. PStr [c]) s)"
| "dyn_iter (PDict d) = Inr (map (\<lambda>kv. PStr (fst kv)) d)"
| "dyn_iter _ = Inl (TypeError ''object is not iterable'')"

definition opt_str :: "string option \<Rightarrow> pyval" where
  "opt_str v = (case v of None \<Rightarrow> PNone | Some s \<Rightarrow> PStr s)"

section \<open>Timestamps\<close>

text \<open>
  A \<open>datetime\<close>: wall-clock microseconds since 1970-01-01 and, when it is aware, its UTC offset
  in microseconds. Aware values compare by instant; the sources check for a timezone before
  they compare.
\<close>

record pydatetime =
  dt_local :: int
  dt_offset :: "int option"

definition aware :: "pydatetime \<Rightarrow> bool" where
  "aware d \<longleftrightarrow> dt_offset d \<noteq> None"

definition dt_instant :: "pydatetime \<Rightarrow> int" where
  "dt_instant d = dt_local d - (case dt_offset d of None \<Rightarrow> 0 | Some off \<Rightarrow> off)"

definition dt_eq :: "pydatetime \<Rightarrow> pydatetime \<Rightarrow> bool" where
  "dt_eq a b \<longleftrightarrow> aware a = aware b \<and> dt_instant a = dt_instant b"

definition dt_date :: "pydatetime \<Rightarrow> int" where
  "dt_date d = dt_local d div 86400000000"

definition utc :: "int \<Rightarrow> pydatetime" where
  "utc us = \<lparr>dt_local = us, dt_offset = Some 0\<rparr>"

lemma aware_utc [simp]: "aware (utc us)"
  by (simp add: aware_def utc_def)

lemma dt_instant_utc [simp]: "dt_instant (utc us) = us"
  by (simp add: dt_instant_def utc_def)

lemma dt_eq_refl [simp]: "dt_eq a a"
  by (simp add: dt_eq_def)

section \<open>Enums\<close>

datatype MetricDirection = HIGHER_IS_BETTER | LOWER_IS_BETTER | NEUTRAL

datatype MeasurementStatus = SUCCESS | FAILED | SKIPPED

datatype SampleQualityStatus = VALID | VALID_WITH_WARNINGS | INVALID

datatype ConfidenceLevel = LOW | MEDIUM | HIGH

fun MetricDirection_value :: "MetricDirection \<Rightarrow> string" where
  "MetricDirection_value HIGHER_IS_BETTER = ''higher_is_better''"
| "MetricDirection_value LOWER_IS_BETTER = ''lower_is_better''"
| "MetricDirection_value NEUTRAL = ''neutral''"

fun MeasurementStatus_value :: "MeasurementStatus \<Rightarrow> string" where
  "MeasurementStatus_value SUCCESS = ''success''"
| "MeasurementStatus_value FAILED = ''failed''"
| "MeasurementStatus_value SKIPPED = ''skipped''"

fun SampleQualityStatus_value :: "SampleQualityStatus \<Rightarrow> string" where
  "SampleQualityStatus_value VALID = ''valid''"
| "SampleQualityStatus_value VALID_WITH_WARNINGS = ''valid_with_warnings''"
| "SampleQualityStatus_value INVALID = ''invalid''"

fun ConfidenceLevel_value :: "ConfidenceLevel \<Rightarrow> string" where
  "ConfidenceLevel_value LOW = ''low''"
| "ConfidenceLevel_value MEDIUM = ''medium''"
| "ConfidenceLevel_value HIGH = ''high''"

text \<open>\<open>Enum(value)\<close>: the member with that value, else \<open>ValueError\<close>.\<close>

definition enum_parse :: "('e \<Rightarrow> string) \<Rightarrow> 'e list \<Rightarrow> pyval \<Rightarrow> 'e result" where
  "enum_parse val members v =
    (case filter (\<lambda>e. v = PStr (val e)) members of
       [] \<Rightarrow> Inl (ValueError ''not a valid enum value'')
     | e # _ \<Rightarrow> Inr e)"

definition MetricDirection_of :: "pyval \<Rightarrow> MetricDirection result" where
  "MetricDirection_of = enum_parse MetricDirection_value [HIGHER_IS_BETTER, LOWER_IS_BETTER, NEUTRAL]"

definition MeasurementStatus_of :: "pyval \<Rightarrow> MeasurementStatus result" where
  "MeasurementStatus_of = enum_parse MeasurementStatus_value [SUCCESS, FAILED, SKIPPED]"

definition SampleQualityStatus_of :: "pyval \<Rightarrow> SampleQualityStatus result" where
  "SampleQualityStatus_of =
    enum_parse SampleQualityStatus_value [VALID, VALID_WITH_WARNINGS, INVALID]"

lemma MetricDirection_of_value [simp]: "MetricDirection_of (PStr (MetricDirection_value d)) = Inr d"
  by (cases d) (simp_all add: MetricDirection_of_def enum_parse_def)

lemma MeasurementStatus_of_value [simp]:
  "MeasurementStatus_of (PStr (MeasurementStatus_value s)) = Inr s"
  by (cases s) (simp_all add: MeasurementStatus_of_def enum_parse_def)

lemma SampleQualityStatus_of_value [simp]:
  "SampleQualityStatus_of (PStr (SampleQualityStatus_value s)) = Inr s"
  by (cases s) (simp_all add: SampleQualityStatus_of_def enum_parse_def)

lemma MetricDirection_value_inj: "MetricDirection_value a = MetricDirection_value b \<Longrightarrow> a = b"
  by (cases a; cases b) simp_all

text \<open>The rank tables the sources write inline, as the order of \<open>ConfidenceLevel\<close>.\<close>

fun confidence_order :: "ConfidenceLevel \<Rightarrow> int" where
  "confidence_order LOW = 0"
| "confidence_order MEDIUM = 1"
| "confidence_order HIGH = 2"

instantiation ConfidenceLevel :: linorder
begin

definition less_eq_ConfidenceLevel :: "ConfidenceLevel \<Rightarrow> ConfidenceLevel \<Rightarrow> bool" where
  "less_eq_ConfidenceLevel a b \<longleftrightarrow> confidence_order a \<le> confidence_order b"

definition less_ConfidenceLevel :: "ConfidenceLevel \<Rightarrow> ConfidenceLevel \<Rightarrow> bool" where
  "less_ConfidenceLevel a b \<longleftrightarrow> confidence_order a < confidence_order b"

instance
proof
  fix a b :: ConfidenceLevel
  show "a \<le> b \<Longrightarrow> b \<le> a \<Longrightarrow> a = b"
    by (cases a; cases b) (simp_all add: less_eq_ConfidenceLevel_def)
qed (auto simp: less_eq_ConfidenceLevel_def less_ConfidenceLevel_def)

end

lemma confidence_le_simps [simp]:
  "LOW \<le> c" "c \<le> HIGH" "MEDIUM \<le> c \<longleftrightarrow> c \<noteq> LOW" "c \<le> MEDIUM \<longleftrightarrow> c \<noteq> HIGH" "c \<le> LOW \<longleftrightarrow> c = LOW"
  "HIGH \<le> c \<longleftrightarrow> c = HIGH"
  by (cases c; simp add: less_eq_ConfidenceLevel_def)+

text \<open>\<open>min(values, key=order.__getitem__)\<close>: the first of least rank.\<close>

fun min_by :: "('a \<Rightarrow> 'k::linorder) \<Rightarrow> 'a list \<Rightarrow> 'a result" where
  "min_by key [] = Inl (ValueError ''min() arg is an empty sequence'')"
| "min_by key [x] = Inr x"
| "min_by key (x # y # ys) = min_by key ((if key y < key x then y else x) # ys)"

fun max_by :: "('a \<Rightarrow> 'k::linorder) \<Rightarrow> 'a list \<Rightarrow> 'a result" where
  "max_by key [] = Inl (ValueError ''max() arg is an empty sequence'')"
| "max_by key [x] = Inr x"
| "max_by key (x # y # ys) = max_by key ((if key x < key y then y else x) # ys)"

lemma min_by_correct:
  "min_by key xs = Inr m \<Longrightarrow> m \<in> set xs \<and> (\<forall>x \<in> set xs. key m \<le> key x)"
  by (induction key xs rule: min_by.induct) (auto split: if_splits)

lemma max_by_correct:
  "max_by key xs = Inr m \<Longrightarrow> m \<in> set xs \<and> (\<forall>x \<in> set xs. key x \<le> key m)"
  by (induction key xs rule: max_by.induct) (auto split: if_splits)

lemma min_by_total: "xs \<noteq> [] \<Longrightarrow> \<exists>m. min_by key xs = Inr m"
  by (induction key xs rule: min_by.induct) auto

lemma max_by_total: "xs \<noteq> [] \<Longrightarrow> \<exists>m. max_by key xs = Inr m"
  by (induction key xs rule: max_by.induct) auto

lemma min_by_confidence: "xs \<noteq> [] \<Longrightarrow> min_by confidence_order xs = Inr (Min (set xs))"
proof -
  assume ne: "xs \<noteq> []"
  then obtain m where m: "min_by confidence_order xs = Inr m" using min_by_total by blast
  from min_by_correct [OF m] have "m = Min (set xs)"
    by (intro Min_eqI [symmetric]) (auto simp: less_eq_ConfidenceLevel_def)
  with m show ?thesis by simp
qed

end
