(* ===== verification/SampleModel.thy ===== *)
theory SampleModel
  imports Models
begin

text \<open>
  The sample side of the data model: \<open>identity.py\<close>, \<open>metric.py\<close>, \<open>measurement.py\<close>,
  \<open>protocol.py\<close>, \<open>sample.py\<close>. Every constructor is \<open>__post_init__\<close> with its checks in order;
  the lemmas show that a constructed value is well formed and that constructing it again from
  its own fields changes nothing.
\<close>

section \<open>identity.py\<close>

definition required_str :: "pyval \<Rightarrow> string \<Rightarrow> string result" where
  "required_str value field = rbind (dyn_strip value) (\<lambda>cleaned.
    if cleaned = [] then Inl (ValueError (field @ '' must not be empty'')) else Inr cleaned)"

fun optional_str :: "pyval \<Rightarrow> string option result" where
  "optional_str PNone = Inr None"
| "optional_str v = rbind (dyn_strip v) (\<lambda>cleaned. Inr (if cleaned = [] then None else Some cleaned))"

record ProviderIdentity =
  prov_provider_id :: string
  prov_name :: string
  prov_country_code :: "string option"

definition country_code_of :: "pyval \<Rightarrow> string option result" where
  "country_code_of v = (if v = PNone then Inr None else
    rbind (dyn_strip v) (\<lambda>s. let code = upper s in
      if length code \<noteq> 2 \<or> \<not> isalpha code
      then Inl (ValueError ''country_code must be a 2-letter code'') else Inr (Some code)))"

definition ProviderIdentity_init :: "pyval \<Rightarrow> pyval \<Rightarrow> pyval \<Rightarrow> ProviderIdentity result" where
  "ProviderIdentity_init provider_id name country_code =
    rbind (required_str provider_id ''provider_id'') (\<lambda>pid.
    rbind (required_str name ''name'') (\<lambda>nm.
    rbind (country_code_of country_code) (\<lambda>cc.
    Inr \<lparr>prov_provider_id = pid, prov_name = nm, prov_country_code = cc\<rparr>)))"

record ProductIdentity =
  prod_product :: "string option"
  prod_plan :: "string option"
  prod_region :: "string option"
  prod_zone :: "string option"

definition ProductIdentity_init :: "pyval \<Rightarrow> pyval \<Rightarrow> pyval \<Rightarrow> pyval \<Rightarrow> ProductIdentity result" where
  "ProductIdentity_init product plan region zone =
    rbind (optional_str product) (\<lambda>a. rbind (optional_str plan) (\<lambda>b.
    rbind (optional_str region) (\<lambda>c. rbind (optional_str zone) (\<lambda>d.
    Inr \<lparr>prod_product = a, prod_plan = b, prod_region = c, prod_zone = d\<rparr>))))"

record MachineIdentity =
  mach_machine_type :: string
  mach_cpu_count :: pynum
  mach_memory_bytes :: pynum
  mach_architecture :: string

text \<open>
  \<open>isinstance(v, bool) or v <= 0\<close>. Comparing a string or a container with 0 raises
  \<open>TypeError\<close>. A float that is not at most zero, a NaN and an infinity included, passes the check
  against the annotation \<open>int\<close> and is kept as it is.
\<close>

fun positive_count :: "pyval \<Rightarrow> string \<Rightarrow> pynum result" where
  "positive_count (PInt n) field =
     (if n \<le> 0 then Inl (ValueError (field @ '' must be greater than zero'')) else Inr (IntNum n))"
| "positive_count (PBool b) field = Inl (ValueError (field @ '' must be greater than zero''))"
| "positive_count (PFloat f) field =
     (if fle f (Fin 0) then Inl (ValueError (field @ '' must be greater than zero'')) else Inr (FloatNum f))"
| "positive_count _ field = Inl (TypeError ''<= not supported'')"

definition MachineIdentity_init :: "pyval \<Rightarrow> pyval \<Rightarrow> pyval \<Rightarrow> pyval \<Rightarrow> MachineIdentity result" where
  "MachineIdentity_init machine_type cpu_count memory_bytes architecture =
    rbind (required_str machine_type ''machine_type'') (\<lambda>mt.
    rbind (required_str architecture ''architecture'') (\<lambda>ar.
    rbind (positive_count cpu_count ''cpu_count'') (\<lambda>cpu.
    rbind (positive_count memory_bytes ''memory_bytes'') (\<lambda>mem.
    Inr \<lparr>mach_machine_type = mt, mach_cpu_count = cpu, mach_memory_bytes = mem,
         mach_architecture = ar\<rparr>))))"

section \<open>protocol.py\<close>

record ProtocolIdentity =
  prot_profile :: string
  prot_version :: string
  prot_fingerprint :: string

definition ProtocolIdentity_init :: "pyval \<Rightarrow> pyval \<Rightarrow> pyval \<Rightarrow> ProtocolIdentity result" where
  "ProtocolIdentity_init profile version fingerprint =
    rbind (required_str profile ''profile'') (\<lambda>p.
    rbind (required_str version ''version'') (\<lambda>v.
    rbind (required_str fingerprint ''fingerprint'') (\<lambda>f.
    Inr \<lparr>prot_profile = p, prot_version = v, prot_fingerprint = f\<rparr>)))"

definition ProtocolIdentity_key :: "ProtocolIdentity \<Rightarrow> string" where
  "ProtocolIdentity_key p = prot_profile p @ '':'' @ prot_version p @ '':'' @ prot_fingerprint p"

section \<open>metric.py\<close>

record Metric =
  metric_name :: string
  metric_value :: pyfloat
  metric_unit :: string
  metric_direction :: MetricDirection

fun numeric_value :: "pyval \<Rightarrow> pyfloat result" where
  "numeric_value (PInt n) = float_of_int n"
| "numeric_value (PFloat f) = Inr f"
| "numeric_value _ = Inl (TypeError ''metric value must be numeric'')"

definition Metric_init :: "pyval \<Rightarrow> pyval \<Rightarrow> pyval \<Rightarrow> MetricDirection \<Rightarrow> Metric result" where
  "Metric_init name value unit direction =
    rbind (dyn_strip name) (\<lambda>nm.
    rbind (dyn_strip unit) (\<lambda>un.
    if nm = [] then Inl (ValueError ''metric name must not be empty'')
    else if un = [] then Inl (ValueError ''metric unit must not be empty'')
    else rbind (numeric_value value) (\<lambda>v.
      if \<not> isfinite v then Inl (ValueError ''metric value must be finite'')
      else Inr \<lparr>metric_name = nm, metric_value = v, metric_unit = un,
                metric_direction = direction\<rparr>)))"

section \<open>measurement.py\<close>

record Measurement =
  meas_measurement_id :: string
  meas_tool :: string
  meas_tool_version :: "string option"
  meas_profile :: string
  meas_protocol_version :: string
  meas_started_at :: pydatetime
  meas_finished_at :: pydatetime
  meas_status :: MeasurementStatus
  meas_metrics :: "Metric list"
  meas_raw_output_path :: "string option"
  meas_error :: "string option"

text \<open>\<open>not (self.error and self.error.strip())\<close>.\<close>

definition blank :: "pyval \<Rightarrow> bool result" where
  "blank v = (if truthy v then rbind (dyn_strip v) (\<lambda>s. Inr (s = [])) else Inr True)"

definition Measurement_init ::
  "pyval \<Rightarrow> pyval \<Rightarrow> pyval \<Rightarrow> pyval \<Rightarrow> pyval \<Rightarrow> pydatetime \<Rightarrow> pydatetime \<Rightarrow> MeasurementStatus \<Rightarrow>
   Metric list \<Rightarrow> pyval \<Rightarrow> pyval \<Rightarrow> Measurement result" where
  "Measurement_init measurement_id tool tool_version profile protocol_version
      started_at finished_at status metrics raw_output_path error =
    rbind (required_str measurement_id ''measurement_id'') (\<lambda>mid.
    rbind (required_str tool ''tool'') (\<lambda>tool_name.
    rbind (required_str profile ''profile'') (\<lambda>pf.
    rbind (required_str protocol_version ''protocol_version'') (\<lambda>pv.
    if \<not> aware started_at \<or> \<not> aware finished_at
      then Inl (ValueError ''measurement timestamps must contain timezone information'')
    else if dt_instant finished_at < dt_instant started_at
      then Inl (ValueError ''finished_at must not be earlier than started_at'')
    else if status = SUCCESS \<and> metrics = []
      then Inl (ValueError ''successful measurements must contain at least one metric'')
    else rbind (if status = FAILED then blank error else Inr False) (\<lambda>missing_error.
    if missing_error
      then Inl (ValueError ''failed measurements must contain an error message'')
    else
    rbind (optional_str tool_version) (\<lambda>tv.
    rbind (optional_str raw_output_path) (\<lambda>rp.
    rbind (optional_str error) (\<lambda>er.
    Inr \<lparr>meas_measurement_id = mid, meas_tool = tool_name, meas_tool_version = tv, meas_profile = pf,
         meas_protocol_version = pv, meas_started_at = started_at,
         meas_finished_at = finished_at, meas_status = status, meas_metrics = metrics,
         meas_raw_output_path = rp, meas_error = er\<rparr>))))))))"

section \<open>sample.py\<close>

record SampleQuality =
  qual_status :: SampleQualityStatus
  qual_warnings :: "string list"
  qual_errors :: "string list"

text \<open>\<open>tuple(item.strip() for item in items if item.strip())\<close>.\<close>

definition strip_items :: "pyval list \<Rightarrow> string list result" where
  "strip_items items = rbind (rmap dyn_strip items) (\<lambda>ss. Inr (filter (\<lambda>s. s \<noteq> []) ss))"

definition SampleQuality_init ::
  "SampleQualityStatus \<Rightarrow> pyval list \<Rightarrow> pyval list \<Rightarrow> SampleQuality result" where
  "SampleQuality_init status warnings errors =
    rbind (strip_items warnings) (\<lambda>ws.
    rbind (strip_items errors) (\<lambda>es.
    if status = INVALID \<and> es = []
    then Inl (ValueError ''invalid samples must contain at least one error'')
    else Inr \<lparr>qual_status = status, qual_warnings = ws, qual_errors = es\<rparr>))"

record Sample =
  smp_sample_id :: string
  smp_created_at :: pydatetime
  smp_provider :: ProviderIdentity
  smp_product :: ProductIdentity
  smp_machine :: MachineIdentity
  smp_protocol :: ProtocolIdentity
  smp_measurements :: "Measurement list"
  smp_quality :: SampleQuality

definition Sample_init ::
  "pyval \<Rightarrow> pydatetime \<Rightarrow> ProviderIdentity \<Rightarrow> ProductIdentity \<Rightarrow> MachineIdentity \<Rightarrow>
   ProtocolIdentity \<Rightarrow> Measurement list \<Rightarrow> SampleQuality \<Rightarrow> Sample result" where
  "Sample_init sample_id created_at provider product machine protocol measurements quality =
    rbind (required_str sample_id ''sample_id'') (\<lambda>sid.
    if \<not> aware created_at
      then Inl (ValueError ''created_at must contain timezone information'')
    else if measurements = []
      then Inl (ValueError ''sample must contain at least one measurement'')
    else Inr \<lparr>smp_sample_id = sid, smp_created_at = created_at, smp_provider = provider,
              smp_product = product, smp_machine = machine, smp_protocol = protocol,
              smp_measurements = measurements, smp_quality = quality\<rparr>)"

lemmas [init_defs] =
  required_str_def country_code_of_def ProviderIdentity_init_def ProductIdentity_init_def
  MachineIdentity_init_def ProtocolIdentity_init_def Metric_init_def Measurement_init_def
  SampleQuality_init_def Sample_init_def strip_items_def blank_def

section \<open>Well-formed values\<close>

definition clean :: "string \<Rightarrow> bool" where
  "clean s \<longleftrightarrow> strip s = s \<and> s \<noteq> []"

definition clean_opt :: "string option \<Rightarrow> bool" where
  "clean_opt v \<longleftrightarrow> (case v of None \<Rightarrow> True | Some s \<Rightarrow> clean s)"

definition wf_country :: "string option \<Rightarrow> bool" where
  "wf_country v \<longleftrightarrow> (case v of None \<Rightarrow> True
    | Some c \<Rightarrow> strip c = c \<and> upper c = c \<and> length c = 2 \<and> isalpha c)"

definition wf_provider :: "ProviderIdentity \<Rightarrow> bool" where
  "wf_provider p \<longleftrightarrow> clean (prov_provider_id p) \<and> clean (prov_name p) \<and> wf_country (prov_country_code p)"

definition wf_product :: "ProductIdentity \<Rightarrow> bool" where
  "wf_product p \<longleftrightarrow> clean_opt (prod_product p) \<and> clean_opt (prod_plan p) \<and>
    clean_opt (prod_region p) \<and> clean_opt (prod_zone p)"

definition wf_machine :: "MachineIdentity \<Rightarrow> bool" where
  "wf_machine m \<longleftrightarrow> clean (mach_machine_type m) \<and> clean (mach_architecture m) \<and>
    num_positive (mach_cpu_count m) \<and> num_positive (mach_memory_bytes m)"

definition wf_protocol :: "ProtocolIdentity \<Rightarrow> bool" where
  "wf_protocol p \<longleftrightarrow> clean (prot_profile p) \<and> clean (prot_version p) \<and> clean (prot_fingerprint p)"

definition wf_metric :: "Metric \<Rightarrow> bool" where
  "wf_metric m \<longleftrightarrow> clean (metric_name m) \<and> clean (metric_unit m) \<and> isfinite (metric_value m)"

definition wf_measurement :: "Measurement \<Rightarrow> bool" where
  "wf_measurement m \<longleftrightarrow>
    clean (meas_measurement_id m) \<and> clean (meas_tool m) \<and> clean (meas_profile m) \<and>
    clean (meas_protocol_version m) \<and> clean_opt (meas_tool_version m) \<and>
    clean_opt (meas_raw_output_path m) \<and> clean_opt (meas_error m) \<and>
    aware (meas_started_at m) \<and> aware (meas_finished_at m) \<and>
    dt_instant (meas_started_at m) \<le> dt_instant (meas_finished_at m) \<and>
    (meas_status m = SUCCESS \<longrightarrow> meas_metrics m \<noteq> []) \<and>
    (meas_status m = FAILED \<longrightarrow> meas_error m \<noteq> None) \<and>
    list_all wf_metric (meas_metrics m)"

definition wf_quality :: "SampleQuality \<Rightarrow> bool" where
  "wf_quality q \<longleftrightarrow> list_all clean (qual_warnings q) \<and> list_all clean (qual_errors q) \<and>
    (qual_status q = INVALID \<longrightarrow> qual_errors q \<noteq> [])"

definition wf_sample :: "Sample \<Rightarrow> bool" where
  "wf_sample s \<longleftrightarrow> clean (smp_sample_id s) \<and> aware (smp_created_at s) \<and>
    wf_provider (smp_provider s) \<and> wf_product (smp_product s) \<and> wf_machine (smp_machine s) \<and>
    wf_protocol (smp_protocol s) \<and> smp_measurements s \<noteq> [] \<and>
    list_all wf_measurement (smp_measurements s) \<and> wf_quality (smp_quality s)"

text \<open>The counts that JSON can write: \<open>dumps\<close> refuses the infinities and NaN.\<close>

definition counts_finite :: "Sample \<Rightarrow> bool" where
  "counts_finite s \<longleftrightarrow> num_finite (mach_cpu_count (smp_machine s)) \<and> num_finite (mach_memory_bytes (smp_machine s))"

lemmas [wf_defs] = clean_def clean_opt_def wf_country_def wf_provider_def wf_product_def
  wf_machine_def wf_protocol_def wf_metric_def wf_measurement_def wf_quality_def wf_sample_def

lemma dyn_strip_Inr: "dyn_strip v = Inr s \<Longrightarrow> strip s = s"
  by (cases v) auto

lemma required_str_clean: "required_str v f = Inr s \<Longrightarrow> clean s"
  by (auto simp: required_str_def clean_def rbind_Inr_iff dest: dyn_strip_Inr split: if_splits)

lemma required_str_id [simp]: "clean s \<Longrightarrow> required_str (PStr s) f = Inr s"
  by (simp add: required_str_def clean_def)

lemma optional_str_clean: "optional_str v = Inr s \<Longrightarrow> clean_opt s"
  by (cases v) (auto simp: clean_opt_def clean_def split: if_splits)

lemma optional_str_id [simp]: "clean_opt s \<Longrightarrow> optional_str (opt_str s) = Inr s"
  by (cases s) (simp_all add: opt_str_def clean_opt_def clean_def)

lemma country_code_wf: "country_code_of v = Inr c \<Longrightarrow> wf_country c"
  by (auto simp: country_code_of_def wf_country_def rbind_Inr_iff Let_def strip_upper
      dest!: dyn_strip_Inr split: if_splits)

lemma country_code_id [simp]: "wf_country c \<Longrightarrow> country_code_of (opt_str c) = Inr c"
  by (cases c) (auto simp: country_code_of_def wf_country_def opt_str_def)

lemma ProviderIdentity_init_wf: "ProviderIdentity_init a b c = Inr p \<Longrightarrow> wf_provider p"
  by (auto simp: ProviderIdentity_init_def wf_provider_def rbind_Inr_iff
      intro: required_str_clean country_code_wf)

lemma ProviderIdentity_init_id:
  "wf_provider p \<Longrightarrow> ProviderIdentity_init (PStr (prov_provider_id p)) (PStr (prov_name p))
     (opt_str (prov_country_code p)) = Inr p"
  by (simp add: ProviderIdentity_init_def wf_provider_def)

lemma ProductIdentity_init_wf: "ProductIdentity_init a b c d = Inr p \<Longrightarrow> wf_product p"
  by (auto simp: ProductIdentity_init_def wf_product_def rbind_Inr_iff intro: optional_str_clean)

lemma ProductIdentity_init_id:
  "wf_product p \<Longrightarrow> ProductIdentity_init (opt_str (prod_product p)) (opt_str (prod_plan p))
     (opt_str (prod_region p)) (opt_str (prod_zone p)) = Inr p"
  by (simp add: ProductIdentity_init_def wf_product_def)

lemma positive_count_pos: "positive_count v f = Inr n \<Longrightarrow> num_positive n"
  by (cases v) (auto split: if_splits)

lemma positive_count_id [simp]: "num_positive n \<Longrightarrow> positive_count (num_json n) f = Inr n"
  by (cases n) simp_all

lemma MachineIdentity_init_wf: "MachineIdentity_init a b c d = Inr m \<Longrightarrow> wf_machine m"
  by (auto simp: MachineIdentity_init_def wf_machine_def rbind_Inr_iff
      intro: required_str_clean positive_count_pos)

lemma MachineIdentity_init_id:
  "wf_machine m \<Longrightarrow> MachineIdentity_init (PStr (mach_machine_type m)) (num_json (mach_cpu_count m))
     (num_json (mach_memory_bytes m)) (PStr (mach_architecture m)) = Inr m"
  by (simp add: MachineIdentity_init_def wf_machine_def)

lemma ProtocolIdentity_init_wf: "ProtocolIdentity_init a b c = Inr p \<Longrightarrow> wf_protocol p"
  by (auto simp: ProtocolIdentity_init_def wf_protocol_def rbind_Inr_iff intro: required_str_clean)

lemma ProtocolIdentity_init_id:
  "wf_protocol p \<Longrightarrow> ProtocolIdentity_init (PStr (prot_profile p)) (PStr (prot_version p))
     (PStr (prot_fingerprint p)) = Inr p"
  by (simp add: ProtocolIdentity_init_def wf_protocol_def)

lemma Metric_init_wf: "Metric_init a b c d = Inr m \<Longrightarrow> wf_metric m"
  by (auto simp: Metric_init_def wf_metric_def clean_def rbind_Inr_iff
      dest: dyn_strip_Inr split: if_splits)

lemma Metric_init_id:
  "wf_metric m \<Longrightarrow> Metric_init (PStr (metric_name m)) (PFloat (metric_value m))
     (PStr (metric_unit m)) (metric_direction m) = Inr m"
  by (simp add: Metric_init_def wf_metric_def clean_def)

lemma blank_error: "blank v = Inr False \<Longrightarrow> optional_str v = Inr e \<Longrightarrow> e \<noteq> None"
  by (cases v) (auto simp: blank_def split: if_splits)

lemma Measurement_init_wf:
  assumes "Measurement_init mid to tv pf pv sa fa st ms rp er = Inr m" and "list_all wf_metric ms"
  shows "wf_measurement m"
  using assms
  by (auto simp: Measurement_init_def wf_measurement_def rbind_Inr_iff split: if_splits
      intro: required_str_clean optional_str_clean dest: blank_error)

lemma blank_clean [simp]: "clean s \<Longrightarrow> blank (PStr s) = Inr False"
  by (simp add: blank_def clean_def)

lemma Measurement_init_id:
  assumes "wf_measurement m"
  shows "Measurement_init (PStr (meas_measurement_id m)) (PStr (meas_tool m))
     (opt_str (meas_tool_version m)) (PStr (meas_profile m)) (PStr (meas_protocol_version m))
     (meas_started_at m) (meas_finished_at m) (meas_status m) (meas_metrics m)
     (opt_str (meas_raw_output_path m)) (opt_str (meas_error m)) = Inr m"
proof -
  have "meas_status m = FAILED \<Longrightarrow> blank (opt_str (meas_error m)) = Inr False"
    using assms by (auto simp: wf_measurement_def opt_str_def clean_opt_def)
  then show ?thesis using assms
    by (auto simp: Measurement_init_def wf_measurement_def)
qed

lemma strip_items_clean: "strip_items vs = Inr ss \<Longrightarrow> list_all clean ss"
  by (auto simp: strip_items_def rbind_Inr_iff list_all_iff clean_def
      dest!: rmap_mem dyn_strip_Inr)

lemma strip_items_id [simp]: "list_all clean ss \<Longrightarrow> strip_items (map PStr ss) = Inr ss"
proof -
  assume c: "list_all clean ss"
  have "rmap dyn_strip (map PStr ss) = Inr ss"
    using c by (induction ss) (auto simp: clean_def)
  moreover have "filter (\<lambda>s. s \<noteq> []) ss = ss"
    using c by (auto simp: filter_id_conv list_all_iff clean_def)
  ultimately show ?thesis by (simp add: strip_items_def)
qed

lemma SampleQuality_init_wf: "SampleQuality_init st ws es = Inr q \<Longrightarrow> wf_quality q"
  by (auto simp: SampleQuality_init_def wf_quality_def rbind_Inr_iff
      intro: strip_items_clean split: if_splits)

lemma SampleQuality_init_id:
  "wf_quality q \<Longrightarrow> SampleQuality_init (qual_status q) (map PStr (qual_warnings q))
     (map PStr (qual_errors q)) = Inr q"
  by (auto simp: SampleQuality_init_def wf_quality_def)

lemma Sample_init_wf:
  assumes "Sample_init sid ca pr pd mc pt ms q = Inr s"
    and "wf_provider pr" "wf_product pd" "wf_machine mc" "wf_protocol pt"
    and "list_all wf_measurement ms" "wf_quality q"
  shows "wf_sample s"
  using assms
  by (auto simp: Sample_init_def wf_sample_def rbind_Inr_iff intro: required_str_clean
      split: if_splits)

lemma Sample_init_id:
  "wf_sample s \<Longrightarrow> Sample_init (PStr (smp_sample_id s)) (smp_created_at s) (smp_provider s)
     (smp_product s) (smp_machine s) (smp_protocol s) (smp_measurements s) (smp_quality s) = Inr s"
  by (simp add: Sample_init_def wf_sample_def)

lemmas init_wf = ProviderIdentity_init_wf ProductIdentity_init_wf MachineIdentity_init_wf
  ProtocolIdentity_init_wf Metric_init_wf Measurement_init_wf SampleQuality_init_wf

lemmas init_id = ProviderIdentity_init_id ProductIdentity_init_id MachineIdentity_init_id
  ProtocolIdentity_init_id Metric_init_id Measurement_init_id SampleQuality_init_id Sample_init_id

end
