(* ===== verification/Validation.thy ===== *)
theory Validation
  imports SampleModel
begin

text \<open>
  \<open>validation/sample.py\<close>: the cross-field checks of a complete sample. The loop over the
  measurements is a fold over its four accumulators; the specification \<open>sample_ok\<close> says what a
  valid sample is without the loop.
\<close>

section \<open>The loop\<close>

record ValidationResult =
  val_valid :: bool
  val_errors :: "string list"
  val_warnings :: "string list"

type_synonym contract = "string \<times> MetricDirection"

record validation_state =
  vs_errors :: "string list"
  vs_warnings :: "string list"
  vs_contracts :: "(string \<times> contract) list"
  vs_count :: nat

definition metric_contract :: "Metric \<Rightarrow> contract" where
  "metric_contract m = (metric_unit m, metric_direction m)"

text \<open>\<open>dict.setdefault\<close>: the dictionary afterwards and the value under the key.\<close>

definition setdefault :: "'k \<Rightarrow> 'v \<Rightarrow> ('k \<times> 'v) list \<Rightarrow> ('k \<times> 'v) list \<times> 'v" where
  "setdefault k v d = (case map_of d k of None \<Rightarrow> (d @ [(k, v)], v) | Some w \<Rightarrow> (d, w))"

definition validate_metric :: "validation_state \<Rightarrow> Metric \<Rightarrow> validation_state" where
  "validate_metric st m =
    (case setdefault (metric_name m) (metric_contract m) (vs_contracts st) of
       (contracts, existing) \<Rightarrow>
         st\<lparr>vs_contracts := contracts,
            vs_errors := (if existing \<noteq> metric_contract m
              then vs_errors st @ [''metric '' @ metric_name m @ '' uses incompatible unit or direction'']
              else vs_errors st)\<rparr>)"

definition measurement_errors :: "ProtocolIdentity \<Rightarrow> Measurement \<Rightarrow> string list" where
  "measurement_errors protocol m =
    (if meas_profile m \<noteq> prot_profile protocol
     then [''measurement '' @ meas_measurement_id m @ '' profile does not match sample protocol''] else [])
    @ (if meas_protocol_version m \<noteq> prot_version protocol
     then [''measurement '' @ meas_measurement_id m @ '' protocol version does not match sample protocol''] else [])
    @ (if length (meas_metrics m) \<noteq> card (set (map metric_name (meas_metrics m)))
     then [''measurement '' @ meas_measurement_id m @ '' contains duplicate metric names''] else [])"

definition validate_measurement :: "ProtocolIdentity \<Rightarrow> validation_state \<Rightarrow> Measurement \<Rightarrow> validation_state" where
  "validate_measurement protocol st m =
    (let st1 = st\<lparr>vs_errors := vs_errors st @ measurement_errors protocol m\<rparr> in
     case meas_status m of
       SUCCESS \<Rightarrow> foldl validate_metric
         (st1\<lparr>vs_count := vs_count st1 + length (meas_metrics m)\<rparr>) (meas_metrics m)
     | FAILED \<Rightarrow> st1\<lparr>vs_warnings := vs_warnings st1 @ [''measurement failed: '' @ meas_measurement_id m]\<rparr>
     | SKIPPED \<Rightarrow> st1\<lparr>vs_warnings := vs_warnings st1 @ [''measurement skipped: '' @ meas_measurement_id m]\<rparr>)"

definition validate_sample :: "Sample \<Rightarrow> ValidationResult" where
  "validate_sample sample =
    (let ids = map meas_measurement_id (smp_measurements sample);
         st0 = \<lparr>vs_errors = (if length ids \<noteq> card (set ids)
                  then [''measurement IDs must be unique inside a sample''] else []),
               vs_warnings = [], vs_contracts = [], vs_count = 0\<rparr>;
         st = foldl (validate_measurement (smp_protocol sample)) st0 (smp_measurements sample);
         errors = vs_errors st
           @ (if vs_count st = 0 then [''sample does not contain any successful metrics''] else [])
           @ (if qual_status (smp_quality sample) = INVALID then qual_errors (smp_quality sample) else []);
         warnings = vs_warnings st @ qual_warnings (smp_quality sample);
         unique_errors = dedup errors
     in \<lparr>val_valid = (unique_errors = []), val_errors = unique_errors, val_warnings = dedup warnings\<rparr>)"

definition ensure_valid_sample :: "Sample \<Rightarrow> unit result" where
  "ensure_valid_sample sample =
    (let result = validate_sample sample in
     if \<not> val_valid result then Inl (SampleValidationError (val_errors result)) else Inr ())"

section \<open>What the checks mean\<close>

text \<open>The metrics of the successful measurements, in order.\<close>

definition successful_metrics :: "Measurement list \<Rightarrow> Metric list" where
  "successful_metrics ms = concat (map meas_metrics (filter (\<lambda>m. meas_status m = SUCCESS) ms))"

text \<open>No two successful metrics share a name but not the unit and direction.\<close>

definition one_contract :: "Metric list \<Rightarrow> bool" where
  "one_contract ms \<longleftrightarrow>
    list_all (\<lambda>a. list_all (\<lambda>b. metric_name a = metric_name b \<longrightarrow> metric_contract a = metric_contract b) ms) ms"

definition measurement_ok :: "ProtocolIdentity \<Rightarrow> Measurement \<Rightarrow> bool" where
  "measurement_ok p m \<longleftrightarrow> meas_profile m = prot_profile p \<and> meas_protocol_version m = prot_version p \<and>
    distinct (map metric_name (meas_metrics m))"

definition sample_ok :: "Sample \<Rightarrow> bool" where
  "sample_ok s \<longleftrightarrow>
    distinct (map meas_measurement_id (smp_measurements s)) \<and>
    list_all (measurement_ok (smp_protocol s)) (smp_measurements s) \<and>
    one_contract (successful_metrics (smp_measurements s)) \<and>
    successful_metrics (smp_measurements s) \<noteq> [] \<and>
    \<not> (qual_status (smp_quality s) = INVALID \<and> qual_errors (smp_quality s) \<noteq> [])"

definition status_warnings :: "Measurement \<Rightarrow> string list" where
  "status_warnings m = (case meas_status m of
      SUCCESS \<Rightarrow> []
    | FAILED \<Rightarrow> [''measurement failed: '' @ meas_measurement_id m]
    | SKIPPED \<Rightarrow> [''measurement skipped: '' @ meas_measurement_id m])"

section \<open>The contract table\<close>

text \<open>The loop over metrics keeps the first contract of every name.\<close>

fun consistent :: "(string \<times> contract) list \<Rightarrow> Metric list \<Rightarrow> bool" where
  "consistent d [] = True"
| "consistent d (m # ms) =
    (snd (setdefault (metric_name m) (metric_contract m) d) = metric_contract m \<and>
     consistent (fst (setdefault (metric_name m) (metric_contract m) d)) ms)"

definition absorb :: "(string \<times> contract) list \<Rightarrow> Metric list \<Rightarrow> (string \<times> contract) list" where
  "absorb d ms = foldl (\<lambda>d m. fst (setdefault (metric_name m) (metric_contract m) d)) d ms"

lemma absorb_append: "absorb d (xs @ ys) = absorb (absorb d xs) ys"
  by (simp add: absorb_def)

lemma consistent_append: "consistent d (xs @ ys) \<longleftrightarrow> consistent d xs \<and> consistent (absorb d xs) ys"
  by (induction xs arbitrary: d) (simp_all add: absorb_def)

lemma map_of_setdefault:
  "map_of (fst (setdefault k v d)) k' = (if k' = k \<and> map_of d k = None then Some v else map_of d k')"
  by (auto simp: setdefault_def map_add_def split: option.splits)

lemma snd_setdefault: "snd (setdefault k v d) = (case map_of d k of None \<Rightarrow> v | Some w \<Rightarrow> w)"
  by (auto simp: setdefault_def split: option.splits)

lemma consistent_iff:
  "consistent d ms \<longleftrightarrow>
     (\<forall>m \<in> set ms. case map_of d (metric_name m) of None \<Rightarrow> True | Some c \<Rightarrow> c = metric_contract m)
     \<and> one_contract ms"
proof (induction ms arbitrary: d)
  case Nil
  then show ?case by (simp add: one_contract_def)
next
  case (Cons m ms)
  let ?same = "\<lambda>x. metric_name x = metric_name m \<longrightarrow> metric_contract x = metric_contract m"
  have sym: "(\<forall>b \<in> set ms. metric_name m = metric_name b \<longrightarrow> metric_contract m = metric_contract b)
      \<longleftrightarrow> (\<forall>x \<in> set ms. ?same x)"
    by metis
  have one: "one_contract (m # ms) \<longleftrightarrow> one_contract ms \<and> (\<forall>x \<in> set ms. ?same x)"
    unfolding one_contract_def list_all_iff by (simp add: ball_conj_distrib sym) blast
  show ?case
  proof (cases "map_of d (metric_name m)")
    case None
    let ?d = "fst (setdefault (metric_name m) (metric_contract m) d)"
    have "(case map_of ?d (metric_name x) of None \<Rightarrow> True | Some c \<Rightarrow> c = metric_contract x)
        \<longleftrightarrow> ?same x \<and> (case map_of d (metric_name x) of None \<Rightarrow> True | Some c \<Rightarrow> c = metric_contract x)" for x
      using None by (auto simp: map_of_setdefault split: option.splits)
    then show ?thesis using None
      by (simp add: one Cons.IH snd_setdefault) blast
  next
    case (Some c)
    then have step: "consistent d (m # ms) \<longleftrightarrow> c = metric_contract m \<and> consistent d ms"
      by (simp add: setdefault_def)
    have "(\<forall>x \<in> set ms. case map_of d (metric_name x) of None \<Rightarrow> True | Some c \<Rightarrow> c = metric_contract x)
        \<Longrightarrow> c = metric_contract m \<Longrightarrow> \<forall>x \<in> set ms. ?same x"
      using Some by force
    then show ?thesis using Some unfolding step one Cons.IH list.set ball_simps
      by (simp del: consistent.simps) blast
  qed
qed

lemma consistent_Nil: "consistent [] ms \<longleftrightarrow> one_contract ms"
  by (simp add: consistent_iff)

lemma foldl_validate_metric:
  "vs_contracts (foldl validate_metric st ms) = absorb (vs_contracts st) ms \<and>
   vs_warnings (foldl validate_metric st ms) = vs_warnings st \<and>
   vs_count (foldl validate_metric st ms) = vs_count st \<and>
   (vs_errors (foldl validate_metric st ms) = [] \<longleftrightarrow>
      vs_errors st = [] \<and> consistent (vs_contracts st) ms)"
  by (induction ms arbitrary: st)
    (auto simp: validate_metric_def absorb_def split: prod.splits)

lemma measurement_errors_Nil: "measurement_errors p m = [] \<longleftrightarrow> measurement_ok p m"
  using length_set_eq_distinct [of "map metric_name (meas_metrics m)"]
  by (simp add: measurement_errors_def measurement_ok_def)

lemma validate_measurement_step:
  "vs_contracts (validate_measurement p st m) = absorb (vs_contracts st) (successful_metrics [m]) \<and>
   vs_warnings (validate_measurement p st m) = vs_warnings st @ status_warnings m \<and>
   vs_count (validate_measurement p st m) = vs_count st + length (successful_metrics [m]) \<and>
   (vs_errors (validate_measurement p st m) = [] \<longleftrightarrow> vs_errors st = [] \<and> measurement_ok p m \<and>
      consistent (vs_contracts st) (successful_metrics [m]))"
  by (cases "meas_status m")
    (auto simp: validate_measurement_def Let_def foldl_validate_metric measurement_errors_Nil
      status_warnings_def successful_metrics_def absorb_def)

lemma foldl_validate_measurement:
  "vs_contracts (foldl (validate_measurement p) st ms) = absorb (vs_contracts st) (successful_metrics ms) \<and>
   vs_warnings (foldl (validate_measurement p) st ms) = vs_warnings st @ concat (map status_warnings ms) \<and>
   vs_count (foldl (validate_measurement p) st ms) = vs_count st + length (successful_metrics ms) \<and>
   (vs_errors (foldl (validate_measurement p) st ms) = [] \<longleftrightarrow>
      vs_errors st = [] \<and> list_all (measurement_ok p) ms \<and>
      consistent (vs_contracts st) (successful_metrics ms))"
proof (induction ms arbitrary: st)
  case Nil
  then show ?case by (simp add: successful_metrics_def absorb_def)
next
  case (Cons m ms)
  have split: "successful_metrics (m # ms) = successful_metrics [m] @ successful_metrics ms"
    by (simp add: successful_metrics_def)
  show ?case unfolding split foldl_Cons
    by (simp add: Cons.IH validate_measurement_step absorb_append consistent_append) blast
qed

lemmas validate_fold = foldl_validate_measurement [THEN conjunct1]
  foldl_validate_measurement [THEN conjunct2, THEN conjunct1]
  foldl_validate_measurement [THEN conjunct2, THEN conjunct2, THEN conjunct1]
  foldl_validate_measurement [THEN conjunct2, THEN conjunct2, THEN conjunct2]

lemma validate_sample_valid: "val_valid (validate_sample s) = sample_ok s"
  using length_set_eq_distinct [of "map meas_measurement_id (smp_measurements s)"]
  by (auto simp: validate_sample_def sample_ok_def Let_def validate_fold consistent_Nil)

lemma validate_sample_errors: "val_valid (validate_sample s) \<longleftrightarrow> val_errors (validate_sample s) = []"
  by (simp add: validate_sample_def Let_def)

lemma validate_sample_warnings:
  "val_warnings (validate_sample s) =
     dedup (concat (map status_warnings (smp_measurements s)) @ qual_warnings (smp_quality s))"
  by (simp add: validate_sample_def Let_def validate_fold)

lemma ensure_valid_iff: "ensure_valid_sample s = Inr u \<longleftrightarrow> sample_ok s"
  by (simp add: ensure_valid_sample_def Let_def validate_sample_valid)

lemma ensure_valid_Inl: "ensure_valid_sample s = Inl e \<Longrightarrow> is_value_error e"
  by (auto simp: ensure_valid_sample_def Let_def split: if_splits)

section \<open>Properties\<close>

text \<open>
  C4: \<open>validate_sample\<close> reports a sample valid exactly when its measurement ids are distinct,
  every measurement carries the protocol's profile and version and distinct metric names, each
  metric name has one unit and direction over the successful measurements, some successful
  metric exists, and the sample was not marked invalid with errors.
\<close>

theorem validate_sample_correct:
  "val_valid (validate_sample s) = sample_ok s \<and>
   val_warnings (validate_sample s) =
     dedup (concat (map status_warnings (smp_measurements s)) @ qual_warnings (smp_quality s)) \<and>
   ensure_valid_sample s =
     (if sample_ok s then Inr () else Inl (SampleValidationError (val_errors (validate_sample s))))"
  by (simp add: validate_sample_valid validate_sample_warnings ensure_valid_sample_def Let_def)

end
