(* ===== verification/Statistics.thy ===== *)
theory Statistics
  imports Models
begin

text \<open>
  \<open>statistics/descriptive.py\<close>: percentiles by linear interpolation and the summary of a finite
  series, in binary64. The lemmas bound the interpolation indices, order the extremes and the
  median, and give the exceptions that remain possible.
\<close>

section \<open>percentile\<close>

definition percentile :: "pyfloat list \<Rightarrow> pyfloat \<Rightarrow> pyfloat result" where
  "percentile values probability =
    (if values = [] then Inl (ValueError ''values must not be empty'')
     else if \<not> (fle (Fin 0) probability \<and> fle probability (Fin 1))
       then Inl (ValueError ''probability must be between 0 and 1'')
     else let ordered = sort values in
       if \<not> list_all isfinite ordered
         then Inl (ValueError ''values must contain only finite numbers'')
       else if length ordered = 1 then Inr (ordered ! 0)
       else rbind (float_of_int (int (length ordered) - 1)) (\<lambda>last_index.
         case fmul probability last_index of
           Fin position \<Rightarrow>
             (let lower_index = \<lfloor>position\<rfloor>; upper_index = \<lceil>position\<rceil> in
              if lower_index = upper_index then Inr (ordered ! nat lower_index)
              else rbind (float_of_int lower_index) (\<lambda>lower.
                let weight = fsub (Fin position) lower in
                Inr (fadd (fmul (ordered ! nat lower_index) (fsub (Fin 1) weight))
                          (fmul (ordered ! nat upper_index) weight))))
         | _ \<Rightarrow> Inl OverflowError))"

section \<open>summarize\<close>

record SummaryStatistics =
  stat_count :: int
  stat_minimum :: pyfloat
  stat_maximum :: pyfloat
  stat_mean :: pyfloat
  stat_median :: pyfloat
  stat_standard_deviation :: pyfloat
  stat_coefficient_of_variation :: "pyfloat option"
  stat_p10 :: pyfloat
  stat_p90 :: pyfloat

fun fin_val :: "pyfloat \<Rightarrow> rat" where
  "fin_val (Fin r) = r"
| "fin_val _ = 0"

definition lit_010 :: pyfloat where "lit_010 = fl (10 / 100)"
definition lit_090 :: pyfloat where "lit_090 = fl (90 / 100)"

definition summarize :: "pyfloat list \<Rightarrow> SummaryStatistics result" where
  "summarize values =
    (if values = [] then Inl (ValueError ''values must not be empty'')
     else if \<not> list_all isfinite values
       then Inl (ValueError ''values must contain only finite numbers'')
     else
       rbind (fmean (map fin_val values)) (\<lambda>average.
       rbind (if length values > 1 then stdev (map fin_val values) else Inr (Fin 0)) (\<lambda>deviation.
       rbind (if average \<noteq> Fin 0 then rmap (fdiv deviation) [fabs average] else Inr []) (\<lambda>coefficient.
       rbind (min_by id values) (\<lambda>smallest.
       rbind (max_by id values) (\<lambda>largest.
       rbind (median values) (\<lambda>med.
       rbind (percentile values lit_010) (\<lambda>p10.
       rbind (percentile values lit_090) (\<lambda>p90.
       Inr \<lparr>stat_count = int (length values), stat_minimum = smallest, stat_maximum = largest,
            stat_mean = average, stat_median = med, stat_standard_deviation = deviation,
            stat_coefficient_of_variation = (case coefficient of [] \<Rightarrow> None | c # _ \<Rightarrow> Some c),
            stat_p10 = p10, stat_p90 = p90\<rparr>)))))))))"

section \<open>Facts about finite data\<close>

lemma flt_unit_lits: "fle (Fin 0) lit_010" "fle lit_010 (Fin 1)" "fle (Fin 0) lit_090" "fle lit_090 (Fin 1)"
  using fl_unit [of "10 / 100"] fl_unit [of "90 / 100"] by (auto simp: lit_010_def lit_090_def)

lemma Fin_fin_val: "isfinite f \<Longrightarrow> Fin (fin_val f) = f"
  by (cases f) auto

lemma fmul_unit_weight:
  assumes "representable v" and "0 \<le> w" and "w \<le> 1"
  shows "\<exists>r. fl (v * w) = Fin r"
proof (cases "0 \<le> v")
  case True
  then show ?thesis using fl_between [OF representable_0 assms(1), of "v * w"] assms
    by (auto simp: mult_left_le)
next
  case False
  moreover have "v \<le> v * w" using False assms(3) by (simp add: mult_le_cancel_left1)
  moreover have "v * w \<le> 0" using False assms(2) by (simp add: mult_nonpos_nonneg)
  ultimately show ?thesis using fl_between [OF assms(1) representable_0, of "v * w"] by auto
qed

text \<open>The indices of the interpolation stay inside the sorted list.\<close>

lemma position_bounds:
  assumes "fle (Fin 0) (Fin p)" and "fle (Fin p) (Fin 1)" and "1 < n" and "n \<le> 2 ^ 53"
  shows "float_of_int (int n - 1) = Inr (Fin (of_nat n - 1))"
    and "\<exists>pos. fmul (Fin p) (Fin (of_nat n - 1)) = Fin pos \<and> 0 \<le> \<lfloor>pos\<rfloor> \<and> \<lceil>pos\<rceil> \<le> int n - 1"
proof -
  have "int n \<le> 2 ^ 53" using assms(4)
    by (metis of_nat_le_iff of_nat_numeral of_nat_power)
  then have rep: "representable (of_int (int n - 1))"
    using assms(3) by (intro representable_int) auto
  then show "float_of_int (int n - 1) = Inr (Fin (of_nat n - 1))"
    using fl_exact [OF rep] by (simp add: float_of_int_def checked_def)
  have "0 \<le> p * of_int (int n - 1)" "p * of_int (int n - 1) \<le> of_int (int n - 1)"
    using assms by (auto simp: mult_right_le_one_le)
  then obtain pos where "fl (p * of_int (int n - 1)) = Fin pos" "0 \<le> pos" "pos \<le> of_int (int n - 1)"
    using fl_between [OF representable_0 rep] by auto
  moreover from this(3) have "\<lceil>pos\<rceil> \<le> int n - 1" by (simp only: ceiling_le_iff)
  ultimately show "\<exists>pos. fmul (Fin p) (Fin (of_nat n - 1)) = Fin pos \<and> 0 \<le> \<lfloor>pos\<rfloor> \<and> \<lceil>pos\<rceil> \<le> int n - 1"
    by (intro exI [of _ pos]) auto
qed

lemma percentile_defined:
  assumes ne: "values \<noteq> []" and fin: "list_all isfinite values"
    and p: "fle (Fin 0) probability" "fle probability (Fin 1)" and len: "length values \<le> 2 ^ 53"
  shows "\<exists>r. percentile values probability = Inr r"
proof -
  have fin': "list_all isfinite (sort values)" using fin by (simp add: list_all_iff)
  obtain q where q: "probability = Fin q" using p by (cases probability) (auto simp: fle_def)
  show ?thesis
  proof (cases "length values = 1")
    case True
    then show ?thesis using ne fin' p by (simp add: percentile_def Let_def)
  next
    case False
    then have n: "1 < length values" using ne by (cases "values") auto
    have p': "fle (Fin 0) (Fin q)" "fle (Fin q) (Fin 1)" using p q by simp_all
    note b = position_bounds [OF p' n len]
    from b(2) obtain pos where pos: "fmul (Fin q) (Fin (of_nat (length values) - 1)) = Fin pos"
      "0 \<le> \<lfloor>pos\<rfloor>" "\<lceil>pos\<rceil> \<le> int (length values) - 1" by blast
    have low: "float_of_int \<lfloor>pos\<rfloor> = Inr (Fin (of_int \<lfloor>pos\<rfloor>))"
    proof -
      have "int (length values) \<le> 2 ^ 53"
        using len by (metis of_nat_le_iff of_nat_numeral of_nat_power)
      moreover have "\<lfloor>pos\<rfloor> \<le> \<lceil>pos\<rceil>" by linarith
      ultimately have "\<bar>\<lfloor>pos\<rfloor>\<bar> \<le> 2 ^ 53"
        using pos(2,3) by linarith
      then show ?thesis using fl_exact [OF representable_int] by (simp add: float_of_int_def checked_def)
    qed
    show ?thesis
      using ne fin' p False pos(1) b(1) low by (simp add: percentile_def Let_def q)
  qed
qed

text \<open>Halving the rounded sum of two ordered floats lands between them, unless the sum overflows.\<close>

lemma representable_double:
  assumes "representable v" and "\<bar>2 * v\<bar> < pow2 1024"
  shows "representable (2 * v)"
proof -
  from assms(1) obtain m e where v: "v = of_int m * pow2 e" "\<bar>m\<bar> \<le> 2 ^ 53" "- 1074 \<le> e"
    unfolding representable_def by blast
  have "2 * v = of_int m * pow2 (e + 1)" by (simp add: v(1) pow2_add)
  then show ?thesis unfolding representable_def
    using v(2,3) assms(2) by (intro exI [of _ m] exI [of _ "e + 1"]) auto
qed

lemma representable_bound: "representable v \<Longrightarrow> \<bar>v\<bar> < pow2 1024"
  by (auto simp: representable_def)

lemma fl_overflow: "fl (pow2 1024) = PInf"
  using rnd_exact [of "pow2 1024" 1 1024] by (simp add: fl_def fl_pos_def)

lemma fl_double:
  assumes "representable v"
  shows "fl (2 * v) = (if \<bar>2 * v\<bar> < pow2 1024 then Fin (2 * v) else if 0 < v then PInf else NInf)"
proof -
  have "pow2 1024 \<le> 2 * v \<Longrightarrow> fl (2 * v) = PInf"
    using fl_mono [of "pow2 1024" "2 * v"] fl_overflow by (cases "fl (2 * v)") auto
  moreover have "2 * v \<le> - pow2 1024 \<Longrightarrow> fl (2 * v) = NInf"
    using fl_mono [of "2 * v" "- pow2 1024"] fl_overflow
    by (cases "fl (2 * v)") (auto simp: fl_neg)
  moreover have "(0::rat) < pow2 1024" by simp
  ultimately show ?thesis
    using fl_exact [OF representable_double [OF assms]]
    by (cases "0 < v") (auto simp: abs_if not_less)
qed

lemma half_sum_between:
  assumes a: "representable a" and b: "representable b" and le: "a \<le> b" and c: "fl (a + b) = Fin c"
  shows "\<exists>v. fl (c / 2) = Fin v \<and> a \<le> v \<and> v \<le> b"
proof -
  note bound = representable_bound [OF fl_representable [OF c]]
  have mono: "fl (2 * a) \<le> Fin c" "Fin c \<le> fl (2 * b)"
    using fl_mono [of "2 * a" "a + b"] fl_mono [of "a + b" "2 * b"] le c by simp_all
  have "2 * a \<le> c"
    using mono(1) bound fl_double [OF a] by (auto split: if_splits simp: abs_if)
  moreover have "c \<le> 2 * b"
    using mono(2) bound fl_double [OF b] by (auto split: if_splits simp: abs_if)
  ultimately have lo: "2 * a \<le> c" and hi: "c \<le> 2 * b" .
  from fl_between [OF a b, of "c / 2"] lo hi show ?thesis by auto
qed

text \<open>A value of the model's float type that a double can hold.\<close>

fun is_double :: "pyfloat \<Rightarrow> bool" where
  "is_double (Fin r) = (fl r = Fin r)"
| "is_double _ = True"

lemma is_double_fl [simp]: "is_double (fl r)"
  using fl_idem [of r] by (cases "fl r") auto

lemma sort_nth_between:
  assumes "i < length xs"
  shows "Min (set xs) \<le> sort xs ! i \<and> sort xs ! i \<le> Max (set xs)" and "sort xs ! i \<in> set xs"
proof -
  show "sort xs ! i \<in> set xs" using assms by (metis length_sort nth_mem set_sort)
  then show "Min (set xs) \<le> sort xs ! i \<and> sort xs ! i \<le> Max (set xs)" by simp
qed

text \<open>The middle pair of a finite series; both are the middle value of a series of odd length.\<close>

definition middle_pair :: "pyfloat list \<Rightarrow> rat \<times> rat" where
  "middle_pair xs = (fin_val (sort xs ! ((length xs - 1) div 2)), fin_val (sort xs ! (length xs div 2)))"

text \<open>
  The median lies in the middle pair, ends included. For an even number of values it is half of the
  rounded sum of the pair, and infinite exactly when that sum leaves the range of the floats.
\<close>

lemma median_in_middle:
  assumes fin: "list_all isfinite xs" and dbl: "list_all is_double xs" and med: "median xs = Inr m"
    and pair: "middle_pair xs = (a, b)"
  shows "if odd (length xs) \<or> isfinite (fl (a + b)) then \<exists>v. m = Fin v \<and> a \<le> v \<and> v \<le> b else m = fl (a + b)"
proof -
  have n: "0 < length xs" using med by (auto simp: median_def split: if_splits)
  let ?i = "(length xs - 1) div 2" and ?j = "length xs div 2"
  have i: "?i < length xs" "?j < length xs" "?i \<le> ?j" using n by (presburger, simp, presburger)
  have mem: "sort xs ! ?i \<in> set xs" "sort xs ! ?j \<in> set xs"
    using sort_nth_between(2) i by blast+
  then have ab: "sort xs ! ?i = Fin a" "sort xs ! ?j = Fin b"
    using fin pair by (auto simp: list_all_iff middle_pair_def isfinite_iff)
  have rep: "representable a" "representable b"
    using dbl mem fl_representable [of a a] fl_representable [of b b] unfolding ab list_all_iff by fastforce+
  have "Fin a \<le> Fin b" unfolding ab [symmetric] using i by (intro sorted_nth_mono) auto
  then have le: "a \<le> b" by simp
  show ?thesis
  proof (cases "odd (length xs)")
    case True
    then have "?i = ?j" by presburger
    then have "a = b" using ab by simp
    moreover have "m = Fin b" using True med ab n
      by (auto simp: median_def Let_def odd_iff_mod_2_eq_one split: if_splits)
    ultimately show ?thesis using True by simp
  next
    case False
    then have "?i = ?j - 1" using n by presburger
    with False med ab n have m: "fdiv (fl (a + b)) (Fin 2) = Inr m"
      by (simp add: median_def Let_def even_iff_mod_2_eq_zero split: if_splits)
    show ?thesis
    proof (cases "fl (a + b)")
      case (Fin c)
      from half_sum_between [OF rep le Fin] m Fin show ?thesis by auto
    qed (use m False fl_not_NaN [of "a + b"] in auto)
  qed
qed

section \<open>Exceptions of the float routines\<close>

lemma checked_Inl: "checked f = Inl e \<Longrightarrow> e = OverflowError"
  by (auto simp: checked_def split: if_splits)

lemma fsum_loop_Inl: "fsum_loop ps xs = Inl e \<Longrightarrow> e = OverflowError"
  by (induction ps xs rule: fsum_loop.induct) (auto split: option.splits)

lemma fsum_Inl: "fsum xs = Inl e \<Longrightarrow> e = OverflowError"
  by (auto simp: fsum_def rbind_Inl_iff dest: fsum_loop_Inl checked_Inl)

lemma float_of_int_pos: "1 \<le> n \<Longrightarrow> float_of_int n = Inr f \<Longrightarrow> \<exists>r. f = Fin r \<and> 1 \<le> r"
  using fl_mono [of 1 "of_int n"] fl_exact [OF representable_1]
  by (auto simp: float_of_int_def checked_Inr isfinite_iff)

lemma fmean_Inl: "xs \<noteq> [] \<Longrightarrow> fmean xs = Inl e \<Longrightarrow> e = OverflowError"
  using float_of_int_pos [of "int (length xs)"]
  by (cases xs) (fastforce simp: fmean_def rbind_Inl_iff float_of_int_def dest: fsum_Inl checked_Inl)+

lemma stdev_Inl: "1 < length xs \<Longrightarrow> stdev xs = Inl e \<Longrightarrow> e = OverflowError"
  by (auto simp: stdev_def float_sqrt_of_frac_def float_of_int_def int_truediv_def Let_def
      dest: checked_Inl split: prod.splits if_splits)
    (metis ipow2_pos less_irrefl)

lemma median_defined: "xs \<noteq> [] \<Longrightarrow> \<exists>m. median xs = Inr m"
  by (auto simp: median_def Let_def) (metis set_empty set_sort)+

lemma percentile_Inl:
  assumes "xs \<noteq> []" "list_all isfinite xs" "fle (Fin 0) p" "fle p (Fin 1)" "percentile xs p = Inl e"
  shows "e = OverflowError"
proof -
  have fin: "list_all isfinite (sort xs)" using assms(2) by (simp add: list_all_iff)
  show ?thesis
    using assms fin unfolding percentile_def Let_def rbind_Inl_iff
    by (auto simp: float_of_int_def rbind_Inl_iff dest: checked_Inl split: if_splits pyfloat.splits)
      (metis checked_Inl pyfloat.exhaust)
qed

lemma fabs_0_iff [simp]: "fabs f = Fin 0 \<longleftrightarrow> f = Fin 0"
  by (cases f) auto

lemma fdiv_Inl: "b \<noteq> Fin 0 \<Longrightarrow> fdiv a b \<noteq> Inl e"
  by (cases b; cases a) auto

lemma summarize_Inl:
  assumes "xs \<noteq> []" and "list_all isfinite xs" and "summarize xs = Inl e"
  shows "e = OverflowError"
  using assms flt_unit_lits min_by_total [OF assms(1), of id] max_by_total [OF assms(1), of id]
    median_defined [OF assms(1)]
  by (auto simp: summarize_def rbind_Inl_iff fdiv_Inl split: if_splits
      dest: fmean_Inl [rotated] stdev_Inl [rotated] percentile_Inl [rotated 4])

lemma fdiv_fabs_nonneg:
  "Fin 0 \<le> d \<Longrightarrow> isfinite d \<Longrightarrow> a \<noteq> NaN \<Longrightarrow> fdiv d (fabs a) = Inr c \<Longrightarrow> Fin 0 \<le> c"
  by (cases d; cases a) (auto intro: fl_nonneg split: if_splits)

lemma fmean_not_NaN: "fmean xs = Inr a \<Longrightarrow> a \<noteq> NaN"
  using float_of_int_pos [of "int (length xs)"]
  by (cases xs) (fastforce simp: fmean_def rbind_Inr_iff isfinite_iff dest!: fsum_correct split: if_splits)+

text \<open>The mean is finite: the correctly rounded exact sum, divided by the rounded length.\<close>

lemma fmean_exact:
  assumes "fmean xs = Inr a"
  shows "\<exists>t n m. fl (sum_list xs) = Fin t \<and> fl (of_nat (length xs)) = Fin n \<and> a = Fin m \<and> fl (t / n) = Fin m"
proof -
  from assms obtain total f where ne: "xs \<noteq> []" and total: "fsum xs = Inr total"
    and f: "float_of_int (int (length xs)) = Inr f" and a: "fdiv total f = Inr a"
    by (auto simp: fmean_def rbind_Inr_iff split: if_splits)
  from fsum_correct [OF total] obtain t where t: "total = Fin t" "fl (sum_list xs) = Fin t"
    by (auto simp: isfinite_iff)
  from ne have "1 \<le> int (length xs)" by (cases xs) auto
  from float_of_int_pos [OF this f] obtain n where n: "f = Fin n" "1 \<le> n" by blast
  with f have fn: "fl (of_nat (length xs)) = Fin n" by (auto simp: float_of_int_def checked_Inr)
  have rep: "representable \<bar>t\<bar>" "representable (- \<bar>t\<bar>)" using fl_representable [OF t(2)] by (auto simp: abs_if)
  have "\<bar>t\<bar> * 1 \<le> \<bar>t\<bar> * n" using n(2) by (rule mult_left_mono) simp
  then have "\<bar>t / n\<bar> \<le> \<bar>t\<bar>" using n(2) by (simp add: abs_div divide_le_eq)
  then have "- \<bar>t\<bar> \<le> t / n" "t / n \<le> \<bar>t\<bar>" by linarith+
  from fl_between [OF rep(2,1) this] obtain m where "fl (t / n) = Fin m" by blast
  with a t n fn show ?thesis by auto
qed

text \<open>
  The deviation is finite and not negative. The coefficient of variation is missing exactly for a
  zero mean and otherwise the rounded quotient, infinite exactly when that leaves the range.
\<close>

lemma summarize_dispersion:
  assumes "summarize xs = Inr s"
  shows "\<exists>t n m r. fl (sum_list (map fin_val xs)) = Fin t \<and> fl (of_nat (length xs)) = Fin n \<and>
    fl (t / n) = Fin m \<and> stat_mean s = Fin m \<and> stat_standard_deviation s = Fin r \<and> 0 \<le> r \<and>
    stat_coefficient_of_variation s = (if m = 0 then None else Some (fl (r / \<bar>m\<bar>)))"
proof -
  from assms obtain d where d: "(if 1 < length xs then stdev (map fin_val xs) else Inr (Fin 0)) = Inr d"
    and avg: "fmean (map fin_val xs) = Inr (stat_mean s)"
    and coeff: "stat_standard_deviation s = d"
      "stat_mean s = Fin 0 \<and> stat_coefficient_of_variation s = None \<or>
       stat_mean s \<noteq> Fin 0 \<and> (\<exists>c. fdiv d (fabs (stat_mean s)) = Inr c \<and>
         stat_coefficient_of_variation s = Some c)"
    by (auto simp: summarize_def rbind_Inr_iff split: if_splits)
  from d have "\<exists>r. d = Fin r \<and> 0 \<le> r" using stdev_nonneg by (auto split: if_splits)
  with coeff fmean_exact [OF avg] show ?thesis by auto
qed

lemma summarize_extremes:
  assumes "summarize xs = Inr s"
  shows "stat_count s = int (length xs)" and "stat_minimum s = Min (set xs)"
    and "stat_maximum s = Max (set xs)" and "median xs = Inr (stat_median s)"
    and "list_all isfinite xs" and "xs \<noteq> []"
proof -
  from assms have "min_by id xs = Inr (stat_minimum s)" "max_by id xs = Inr (stat_maximum s)"
    by (auto simp: summarize_def rbind_Inr_iff split: if_splits)
  from min_by_correct [OF this(1)] max_by_correct [OF this(2)]
  show "stat_minimum s = Min (set xs)" "stat_maximum s = Max (set xs)"
    by (auto intro!: Min_eqI [symmetric] Max_eqI [symmetric])
qed (use assms in \<open>auto simp: summarize_def rbind_Inr_iff split: if_splits\<close>)

section \<open>Properties\<close>



text \<open>
  The interpolation of \<open>percentile\<close> is rounded term by term, so a percentile can leave the
  range of the data: over three equal values 7.0 the tenth percentile exceeds the maximum.
\<close>

theorem percentile_exceeds_maximum:
  "case percentile [Fin 7, Fin 7, Fin 7] lit_010 of Inl e \<Rightarrow> False | Inr p10 \<Rightarrow> flt (Fin 7) p10"
  by code_simp

end
