(* ===== verification/Cohorts.thy ===== *)
theory Cohorts
  imports Validation Statistics
begin

text \<open>
  \<open>models/cohort.py\<close> and \<open>cohorts/\<close>: the strict compatibility key, the cohort model, the
  grouping of samples into cohorts, the comparison of two samples and the statistical summary
  of a cohort that gives every sample the same weight.
\<close>

section \<open>models/cohort.py\<close>

definition normalize :: "string option \<Rightarrow> string" where
  "normalize v = (case v of None \<Rightarrow> ''unknown''
    | Some s \<Rightarrow> let cleaned = casefold (strip s) in if cleaned = [] then ''unknown'' else cleaned)"

text \<open>
  The counts of a key are compared as Python compares numbers: \<open>num_key\<close> makes an integral float
  its integer. (\<open>str\<close> of such a float prints \<open>2.0\<close> where the model's key prints \<open>2\<close>.)
\<close>

record CohortKey =
  ck_provider_id :: string
  ck_country_code :: string
  ck_product :: string
  ck_plan :: string
  ck_region :: string
  ck_zone :: string
  ck_machine_type :: string
  ck_cpu_count :: pynum
  ck_memory_bytes :: pynum
  ck_architecture :: string
  ck_profile :: string
  ck_protocol_version :: string
  ck_protocol_fingerprint :: string

definition CohortKey_from_sample :: "Sample \<Rightarrow> CohortKey" where
  "CohortKey_from_sample s = \<lparr>
     ck_provider_id = normalize (Some (prov_provider_id (smp_provider s))),
     ck_country_code = normalize (prov_country_code (smp_provider s)),
     ck_product = normalize (prod_product (smp_product s)),
     ck_plan = normalize (prod_plan (smp_product s)),
     ck_region = normalize (prod_region (smp_product s)),
     ck_zone = normalize (prod_zone (smp_product s)),
     ck_machine_type = normalize (Some (mach_machine_type (smp_machine s))),
     ck_cpu_count = num_key (mach_cpu_count (smp_machine s)),
     ck_memory_bytes = num_key (mach_memory_bytes (smp_machine s)),
     ck_architecture = normalize (Some (mach_architecture (smp_machine s))),
     ck_profile = normalize (Some (prot_profile (smp_protocol s))),
     ck_protocol_version = normalize (Some (prot_version (smp_protocol s))),
     ck_protocol_fingerprint = normalize (Some (prot_fingerprint (smp_protocol s)))\<rparr>"

definition CohortKey_parts :: "CohortKey \<Rightarrow> string list" where
  "CohortKey_parts k =
    [ck_provider_id k, ck_country_code k, ck_product k, ck_plan k, ck_region k, ck_zone k,
     ck_machine_type k, num_str (ck_cpu_count k), num_str (ck_memory_bytes k), ck_architecture k,
     ck_profile k, ck_protocol_version k, ck_protocol_fingerprint k]"

definition CohortKey_value :: "CohortKey \<Rightarrow> string" where
  "CohortKey_value k = join ''|'' (CohortKey_parts k)"

record Cohort =
  co_key :: CohortKey
  co_samples :: "Sample list"
  co_started_at :: pydatetime
  co_ended_at :: pydatetime
  co_provider_name :: string
  co_sample_count :: int

definition Cohort_init ::
  "CohortKey \<Rightarrow> Sample list \<Rightarrow> pydatetime \<Rightarrow> pydatetime \<Rightarrow> string \<Rightarrow> Cohort result" where
  "Cohort_init key samples started_at ended_at provider_name =
    (if samples = [] then Inl (ValueError ''cohort must contain at least one sample'')
     else if dt_instant ended_at < dt_instant started_at
       then Inl (ValueError ''ended_at must not be earlier than started_at'')
     else if strip provider_name = [] then Inl (ValueError ''provider_name must not be empty'')
     else (case filter (\<lambda>s. CohortKey_from_sample s \<noteq> key) samples of
        s # _ \<Rightarrow> Inl (ValueError (''sample '' @ smp_sample_id s @ '' is incompatible with cohort''))
      | [] \<Rightarrow> Inr \<lparr>co_key = key, co_samples = samples, co_started_at = started_at,
                   co_ended_at = ended_at, co_provider_name = strip provider_name,
                   co_sample_count = int (length samples)\<rparr>))"

section \<open>cohorts/builder.py\<close>

text \<open>One iteration of the first loop: the duplicate check precedes the filter on quality.\<close>

definition build_step ::
  "bool \<Rightarrow> (CohortKey \<times> Sample list) list \<times> string list \<Rightarrow> Sample \<Rightarrow>
   ((CohortKey \<times> Sample list) list \<times> string list) result" where
  "build_step include_invalid st s =
    (case st of (groups, seen_ids) \<Rightarrow>
      if smp_sample_id s \<in> set seen_ids
      then Inl (ValueError (''duplicate sample ID: '' @ smp_sample_id s))
      else let seen = smp_sample_id s # seen_ids in
        if \<not> include_invalid \<and> qual_status (smp_quality s) = INVALID then Inr (groups, seen)
        else Inr (append_to (CohortKey_from_sample s) s groups, seen))"

definition sample_order :: "Sample \<Rightarrow> int \<times> string" where
  "sample_order s = (dt_instant (smp_created_at s), smp_sample_id s)"

definition make_cohort :: "CohortKey \<times> Sample list \<Rightarrow> Cohort result" where
  "make_cohort g = (case g of (key, grouped_samples) \<Rightarrow>
     let ordered = sort_key sample_order grouped_samples in
     Cohort_init key ordered (smp_created_at (hd ordered)) (smp_created_at (last ordered))
       (prov_name (smp_provider (hd ordered))))"

definition build_cohorts :: "bool \<Rightarrow> Sample list \<Rightarrow> Cohort list result" where
  "build_cohorts include_invalid samples =
    rbind (rfold (build_step include_invalid) ([], []) samples) (\<lambda>(groups, seen_ids).
    rbind (rmap make_cohort groups) (\<lambda>cohorts.
    Inr (sort_key (\<lambda>c. CohortKey_value (co_key c)) cohorts)))"

section \<open>cohorts/compatibility.py and cohorts/key.py\<close>

record CompatibilityResult =
  cr_compatible :: bool
  cr_differences :: "string list"

definition build_cohort_key :: "Sample \<Rightarrow> CohortKey" where
  "build_cohort_key sample = CohortKey_from_sample sample"

text \<open>\<open>fields(CohortKey)\<close> with \<open>getattr\<close>: each field's name and whether the two keys agree on it.\<close>

definition key_field_agreement :: "CohortKey \<Rightarrow> CohortKey \<Rightarrow> (string \<times> bool) list" where
  "key_field_agreement a b =
    [(''provider_id'', ck_provider_id a = ck_provider_id b),
     (''country_code'', ck_country_code a = ck_country_code b),
     (''product'', ck_product a = ck_product b),
     (''plan'', ck_plan a = ck_plan b),
     (''region'', ck_region a = ck_region b),
     (''zone'', ck_zone a = ck_zone b),
     (''machine_type'', ck_machine_type a = ck_machine_type b),
     (''cpu_count'', ck_cpu_count a = ck_cpu_count b),
     (''memory_bytes'', ck_memory_bytes a = ck_memory_bytes b),
     (''architecture'', ck_architecture a = ck_architecture b),
     (''profile'', ck_profile a = ck_profile b),
     (''protocol_version'', ck_protocol_version a = ck_protocol_version b),
     (''protocol_fingerprint'', ck_protocol_fingerprint a = ck_protocol_fingerprint b)]"

definition compare_samples :: "Sample \<Rightarrow> Sample \<Rightarrow> CompatibilityResult" where
  "compare_samples first second =
    (let differences = map fst (filter (\<lambda>f. \<not> snd f)
       (key_field_agreement (CohortKey_from_sample first) (CohortKey_from_sample second)))
     in \<lparr>cr_compatible = (differences = []), cr_differences = differences\<rparr>)"

section \<open>cohorts/summary.py\<close>

record MetricSummary =
  ms_name :: string
  ms_unit :: string
  ms_direction :: MetricDirection
  ms_contributing_samples :: int
  ms_raw_observations :: int
  ms_statistics :: SummaryStatistics

record CohortSummary =
  cs_cohort_key :: string
  cs_provider_name :: string
  cs_total_samples :: int
  cs_metrics :: "MetricSummary list"

record Observation =
  obs_sample_id :: string
  obs_value :: pyfloat
  obs_unit :: string
  obs_direction :: MetricDirection

text \<open>The observations the three nested loops append, in order, with the metric name.\<close>

definition sample_observations :: "Sample \<Rightarrow> (string \<times> Observation) list" where
  "sample_observations s = map (\<lambda>m. (metric_name m,
      \<lparr>obs_sample_id = smp_sample_id s, obs_value = metric_value m, obs_unit = metric_unit m,
       obs_direction = metric_direction m\<rparr>)) (successful_metrics (smp_measurements s))"

definition summarize_metric :: "string \<times> (string \<times> Observation) list \<Rightarrow> MetricSummary result" where
  "summarize_metric g =
    (case g of (name, named) \<Rightarrow>
      let obs = map snd named; units = remdups (map obs_unit obs);
          directions = remdups (map obs_direction obs) in
      if length units \<noteq> 1
        then Inl (ValueError (''metric '' @ name @ '' contains incompatible units''))
      else if length directions \<noteq> 1
        then Inl (ValueError (''metric '' @ name @ '' contains incompatible directions''))
      else
        let values_by_sample = sort_key fst (group_by obs_sample_id obs) in
        rbind (rmap (\<lambda>(sid, os). median (map obs_value os)) values_by_sample) (\<lambda>sample_values.
        rbind (summarize sample_values) (\<lambda>statistics.
        Inr \<lparr>ms_name = name, ms_unit = hd units, ms_direction = hd directions,
             ms_contributing_samples = int (length sample_values),
             ms_raw_observations = int (length obs), ms_statistics = statistics\<rparr>)))"

definition cohort_observations :: "Cohort \<Rightarrow> (string \<times> Observation) list" where
  "cohort_observations cohort = concat (map sample_observations (co_samples cohort))"

definition summarize_cohort :: "Cohort \<Rightarrow> CohortSummary result" where
  "summarize_cohort cohort =
    rbind (rmap summarize_metric (group_by fst (cohort_observations cohort))) (\<lambda>summaries.
    Inr \<lparr>cs_cohort_key = CohortKey_value (co_key cohort), cs_provider_name = co_provider_name cohort,
         cs_total_samples = co_sample_count cohort, cs_metrics = sort_key ms_name summaries\<rparr>)"

section \<open>The grouping loop\<close>

text \<open>The samples that take part, and the first duplicated id.\<close>

definition kept :: "bool \<Rightarrow> Sample list \<Rightarrow> Sample list" where
  "kept include_invalid = filter (\<lambda>s. include_invalid \<or> qual_status (smp_quality s) \<noteq> INVALID)"

lemma build_fold:
  assumes "distinct (map smp_sample_id xs)" and "set (map smp_sample_id xs) \<inter> set seen = {}"
  shows "rfold (build_step inc) (group_by CohortKey_from_sample ks, seen) xs =
    Inr (group_by CohortKey_from_sample (ks @ kept inc xs), rev (map smp_sample_id xs) @ seen)"
  using assms
proof (induction xs arbitrary: ks seen)
  case Nil
  then show ?case by (simp add: kept_def)
next
  case (Cons x xs)
  have app: "append_to (CohortKey_from_sample x) x (group_by CohortKey_from_sample ks) =
      group_by CohortKey_from_sample (ks @ [x])"
    by (simp add: group_by_def)
  show ?case
    using Cons.IH [of "smp_sample_id x # seen" "ks @ [x]"] Cons.IH [of "smp_sample_id x # seen" ks]
      Cons.prems
    by (simp add: build_step_def kept_def app Let_def)
qed

lemma build_fold_duplicate:
  assumes "\<not> (distinct (map smp_sample_id xs) \<and> set (map smp_sample_id xs) \<inter> set seen = {})"
  shows "\<exists>s \<in> set xs. rfold (build_step inc) (g, seen) xs =
    Inl (ValueError (''duplicate sample ID: '' @ smp_sample_id s))"
  using assms
proof (induction xs arbitrary: g seen)
  case Nil
  then show ?case by simp
next
  case (Cons x xs)
  show ?case
  proof (cases "smp_sample_id x \<in> set seen")
    case True
    then show ?thesis by (simp add: build_step_def)
  next
    case False
    then have "\<not> (distinct (map smp_sample_id xs) \<and>
        set (map smp_sample_id xs) \<inter> set (smp_sample_id x # seen) = {})"
      using Cons.prems by auto
    then show ?thesis using Cons.IH [of "smp_sample_id x # seen"] False
      by (auto simp: build_step_def Let_def)
  qed
qed

lemma build_step_fold:
  "distinct (map smp_sample_id xs) \<Longrightarrow> rfold (build_step inc) ([], []) xs =
    Inr (group_by CohortKey_from_sample (kept inc xs), rev (map smp_sample_id xs))"
  using build_fold [of xs "[]" inc "[]"] by (simp add: group_by_def)

section \<open>The cohorts\<close>

text \<open>
  What a cohort promises: samples of one key, in order of creation, and a window around them.
\<close>

definition cohort_ok :: "Cohort \<Rightarrow> bool" where
  "cohort_ok c \<longleftrightarrow> co_samples c \<noteq> [] \<and>
    list_all (\<lambda>s. CohortKey_from_sample s = co_key c) (co_samples c) \<and>
    sorted (map sample_order (co_samples c)) \<and>
    list_all (\<lambda>s. dt_instant (co_started_at c) \<le> dt_instant (smp_created_at s) \<and>
      dt_instant (smp_created_at s) \<le> dt_instant (co_ended_at c)) (co_samples c) \<and>
    co_sample_count c = int (length (co_samples c))"

text \<open>What one cohort is: the samples of one key, in order of creation, with their window.\<close>

definition cohort_of :: "Sample list \<Rightarrow> CohortKey \<Rightarrow> Cohort" where
  "cohort_of xs k =
    (let ordered = sort_key sample_order (filter (\<lambda>s. CohortKey_from_sample s = k) xs) in
     \<lparr>co_key = k, co_samples = ordered, co_started_at = smp_created_at (hd ordered),
      co_ended_at = smp_created_at (last ordered),
      co_provider_name = prov_name (smp_provider (hd ordered)),
      co_sample_count = int (length ordered)\<rparr>)"


lemma sort_key_Nil_iff [simp]: "sort_key f xs = [] \<longleftrightarrow> xs = []"
  by (metis set_empty set_sort)

lemma sorted_hd_last: "sorted (map f xs) \<Longrightarrow> xs \<noteq> [] \<Longrightarrow> f (hd xs) \<le> f (last xs)"
  by (cases xs) auto

lemma ordered_window:
  assumes "xs \<noteq> []"
  shows "dt_instant (smp_created_at (hd (sort_key sample_order xs)))
    \<le> dt_instant (smp_created_at (last (sort_key sample_order xs)))"
  using sorted_hd_last [of sample_order "sort_key sample_order xs"] assms
  by (auto simp: sample_order_def less_eq_prod_def)

lemma make_cohort_eq:
  assumes mem: "(k, ys) \<in> set (group_by CohortKey_from_sample xs)"
    and wf: "list_all wf_sample xs"
  shows "make_cohort (k, ys) = Inr (cohort_of xs k)"
proof -
  have ys: "ys = filter (\<lambda>s. CohortKey_from_sample s = k) xs" and ne: "ys \<noteq> []"
    using mem group_by_nonempty [OF mem] by (auto simp: group_by_mem)
  let ?o = "sort_key sample_order ys"
  have all: "filter (\<lambda>s. CohortKey_from_sample s \<noteq> k) ?o = []"
    by (simp add: filter_empty_conv ys)
  have "hd ?o \<in> set xs" using ne ys by (metis filter_is_subset hd_in_set set_sort sort_key_Nil_iff subsetD)
  then have "clean (prov_name (smp_provider (hd ?o)))"
    using wf by (simp add: list_all_iff wf_sample_def wf_provider_def)
  then show ?thesis
    using ne all ordered_window [OF ne] ys
    by (simp add: make_cohort_def Cohort_init_def cohort_of_def Let_def clean_def not_less)
qed

lemma build_cohorts_eq:
  assumes "list_all wf_sample xs" and "distinct (map smp_sample_id xs)"
  shows "build_cohorts inc xs = Inr (sort_key (\<lambda>c. CohortKey_value (co_key c))
    (map (cohort_of (kept inc xs)) (dedup (map CohortKey_from_sample (kept inc xs)))))"
proof -
  let ?ys = "kept inc xs"
  have wf: "list_all wf_sample ?ys" using assms(1) by (simp add: kept_def list_all_iff)
  have "rmap make_cohort (group_by CohortKey_from_sample ?ys) =
      Inr (map (\<lambda>g. cohort_of ?ys (fst g)) (group_by CohortKey_from_sample ?ys))"
  proof (rule rmap_total)
    fix g
    assume "g \<in> set (group_by CohortKey_from_sample ?ys)"
    then show "make_cohort g = Inr (cohort_of ?ys (fst g))"
      using make_cohort_eq [OF _ wf, of "fst g" "snd g"] by simp
  qed
  moreover have "map (\<lambda>g. cohort_of ?ys (fst g)) (group_by CohortKey_from_sample ?ys) =
      map (cohort_of ?ys) (dedup (map CohortKey_from_sample ?ys))"
    unfolding group_by_keys [symmetric] by (simp add: comp_def)
  ultimately show ?thesis
    using build_step_fold [OF assms(2)] by (simp add: build_cohorts_def)
qed

lemma build_cohorts_duplicate:
  assumes "\<not> distinct (map smp_sample_id xs)"
  shows "\<exists>s \<in> set xs. build_cohorts inc xs =
    Inl (ValueError (''duplicate sample ID: '' @ smp_sample_id s))"
  using build_fold_duplicate [of xs "[]" inc "[]"] assms by (auto simp: build_cohorts_def)

lemma sorted_between:
  "sorted (map f xs) \<Longrightarrow> x \<in> set xs \<Longrightarrow> f (hd xs) \<le> f x \<and> f x \<le> f (last xs)"
proof (induction xs)
  case (Cons y ys)
  then show ?case by (cases "ys = []") (auto intro: order.trans)
qed simp

lemma cohort_of_ok:
  assumes "k \<in> CohortKey_from_sample ` set xs"
  shows "cohort_ok (cohort_of xs k)" and "co_key (cohort_of xs k) = k"
proof -
  let ?ys = "sort_key sample_order (filter (\<lambda>s. CohortKey_from_sample s = k) xs)"
  have "?ys \<noteq> []" using assms by (auto simp: filter_empty_conv)
  moreover have "sample_order (hd ?ys) \<le> sample_order s \<and> sample_order s \<le> sample_order (last ?ys)"
    if "s \<in> set ?ys" for s
    using sorted_between [of sample_order ?ys s] that by simp
  ultimately show "cohort_ok (cohort_of xs k)"
    unfolding cohort_ok_def cohort_of_def Let_def
    by (simp add: list_all_iff sample_order_def less_eq_prod_def) (metis order.order_iff_strict)
qed (simp add: cohort_of_def Let_def)

lemma mset_cohorts:
  "mset (concat (map (\<lambda>k. co_samples (cohort_of xs k)) (dedup (map CohortKey_from_sample xs)))) = mset xs"
  using mset_filter_keys [OF distinct_dedup, of CohortKey_from_sample xs "map CohortKey_from_sample xs"]
  by (simp add: mset_concat_map cohort_of_def Let_def filter_True)

lemma build_cohorts_correct:
  assumes wf: "list_all wf_sample xs" and ids: "distinct (map smp_sample_id xs)"
    and cs: "build_cohorts inc xs = Inr cs"
  shows "mset (concat (map co_samples cs)) = mset (kept inc xs)"
    and "distinct (map co_key cs)" and "list_all cohort_ok cs"
    and "sorted (map (CohortKey_value \<circ> co_key) cs)"
proof -
  let ?val = "\<lambda>c. CohortKey_value (co_key c)"
  let ?ks = "dedup (map CohortKey_from_sample (kept inc xs))"
  let ?raw = "map (cohort_of (kept inc xs)) ?ks"
  have eq: "cs = sort_key ?val ?raw"
    using build_cohorts_eq [OF wf ids, of inc] cs by simp
  have key: "co_key (cohort_of (kept inc xs) k) = k" for k
    by (simp add: cohort_of_def Let_def)
  show "mset (concat (map co_samples cs)) = mset (kept inc xs)"
    using mset_cohorts [of "kept inc xs"] by (simp add: eq mset_concat_map image_mset.compositionality comp_def del: mset_concat)
  have "map co_key ?raw = ?ks" by (simp add: comp_def key)
  then have "distinct (map co_key ?raw)" by simp
  moreover have "mset (map co_key cs) = mset (map co_key ?raw)"
    by (simp add: eq image_mset.compositionality)
  ultimately show "distinct (map co_key cs)" by (metis mset_eq_imp_distinct_iff)
  show "list_all cohort_ok cs"
    using cohort_of_ok(1) [of _ "kept inc xs"] by (auto simp: eq list_all_iff)
  show "sorted (map (CohortKey_value \<circ> co_key) cs)"
    by (simp add: eq comp_def)
qed

section \<open>Keys\<close>

text \<open>No component contains the separator, and both counts are integers.\<close>

definition no_bar :: "CohortKey \<Rightarrow> bool" where
  "no_bar k \<longleftrightarrow> list_all (\<lambda>p. CHR ''|'' \<notin> set p) (CohortKey_parts k) \<and>
    (case (ck_cpu_count k, ck_memory_bytes k) of (IntNum _, IntNum _) \<Rightarrow> True | _ \<Rightarrow> False)"

lemma CohortKey_parts_inj:
  assumes "no_bar a" and "no_bar b" and "CohortKey_parts a = CohortKey_parts b"
  shows "a = b"
proof -
  have ints: "\<exists>m n. ck_cpu_count k = IntNum m \<and> ck_memory_bytes k = IntNum n" if "no_bar k" for k
    using that by (auto simp: no_bar_def split: pynum.splits)
  from ints [OF assms(1)] ints [OF assms(2)] obtain m n m' n' where
    "ck_cpu_count a = IntNum m" "ck_memory_bytes a = IntNum n"
    "ck_cpu_count b = IntNum m'" "ck_memory_bytes b = IntNum n'" by blast
  with assms(3) show ?thesis
    by (cases a; cases b) (auto simp: CohortKey_parts_def dest: int_str_inj)
qed

lemma CohortKey_value_inj:
  assumes "no_bar a" and "no_bar b" and "CohortKey_value a = CohortKey_value b"
  shows "a = b"
proof -
  have "CohortKey_parts a = CohortKey_parts b"
  proof (rule join_inj)
    show "length (CohortKey_parts a) = length (CohortKey_parts b)" by (simp add: CohortKey_parts_def)
    show "\<forall>x \<in> set (CohortKey_parts a). CHR ''|'' \<notin> set x" "\<forall>x \<in> set (CohortKey_parts b). CHR ''|'' \<notin> set x"
      using assms by (simp_all add: no_bar_def list_all_iff)
    show "join [CHR ''|''] (CohortKey_parts a) = join [CHR ''|''] (CohortKey_parts b)"
      using assms(3) by (simp add: CohortKey_value_def)
  qed
  then show ?thesis by (rule CohortKey_parts_inj [OF assms(1,2)])
qed

lemma key_field_agreement_sym: "key_field_agreement a b = key_field_agreement b a"
  by (simp add: key_field_agreement_def eq_commute)

lemma compare_samples_compatible:
  "cr_compatible (compare_samples a b) \<longleftrightarrow> CohortKey_from_sample a = CohortKey_from_sample b"
  by (cases "CohortKey_from_sample a"; cases "CohortKey_from_sample b")
    (auto simp: compare_samples_def Let_def key_field_agreement_def)

section \<open>Summaries\<close>

lemma remdups_single:
  assumes "length (remdups xs) = 1" and "x \<in> set xs"
  shows "x = hd (remdups xs)"
proof -
  from assms(1) obtain y where y: "remdups xs = [y]" by (auto simp: length_Suc_conv)
  then have "set xs = {y}" by (metis empty_set list.simps(15) set_remdups)
  with assms(2) y show ?thesis by simp
qed

lemma summarize_metric_facts:
  assumes "summarize_metric (n, named) = Inr m"
  shows "ms_name m = n" and "list_all (\<lambda>o'. obs_unit o' = ms_unit m) (map snd named)"
    and "list_all (\<lambda>o'. obs_direction o' = ms_direction m) (map snd named)"
    and "ms_contributing_samples m = int (card (obs_sample_id ` snd ` set named))"
    and "ms_raw_observations m = int (length named)"
    and "stat_count (ms_statistics m) = ms_contributing_samples m"
proof -
  let ?obs = "map snd named"
  obtain sv st where
    u: "length (remdups (map obs_unit ?obs)) = 1" "length (remdups (map obs_direction ?obs)) = 1"
    and sv: "rmap (\<lambda>(sid, os). median (map obs_value os)) (sort_key fst (group_by obs_sample_id ?obs)) = Inr sv"
    and st: "summarize sv = Inr st"
    and m: "m = \<lparr>ms_name = n, ms_unit = hd (remdups (map obs_unit ?obs)),
      ms_direction = hd (remdups (map obs_direction ?obs)), ms_contributing_samples = int (length sv),
      ms_raw_observations = int (length ?obs), ms_statistics = st\<rparr>"
    using assms by (auto simp: summarize_metric_def rbind_Inr_iff Let_def split: if_splits)
  show "ms_name m = n" "ms_raw_observations m = int (length named)" by (simp_all add: m)
  show "list_all (\<lambda>o'. obs_unit o' = ms_unit m) ?obs"
    using remdups_single [OF u(1)] by (simp add: m list_all_iff)
  show "list_all (\<lambda>o'. obs_direction o' = ms_direction m) ?obs"
    using remdups_single [OF u(2)] by (simp add: m list_all_iff)
  have "length sv = length (map fst (group_by obs_sample_id ?obs))"
    using rmap_length [OF sv] by simp
  also have "\<dots> = card (set (map obs_sample_id ?obs))"
    unfolding group_by_keys length_dedup_card ..
  finally show "ms_contributing_samples m = int (card (obs_sample_id ` snd ` set named))"
    by (simp add: m image_image)
  then show "stat_count (ms_statistics m) = ms_contributing_samples m"
    using summarize_extremes(1) [OF st] by (simp add: m)
qed

text \<open>The metric observations a cohort holds under one name.\<close>

definition named_observations :: "Cohort \<Rightarrow> string \<Rightarrow> Observation list" where
  "named_observations c n = map snd (filter (\<lambda>p. fst p = n) (cohort_observations c))"

lemma obs_sample_ids:
  "p \<in> set (cohort_observations c) \<Longrightarrow> obs_sample_id (snd p) \<in> smp_sample_id ` set (co_samples c)"
  by (auto simp: cohort_observations_def sample_observations_def)

definition metric_summary_ok :: "Cohort \<Rightarrow> MetricSummary \<Rightarrow> bool" where
  "metric_summary_ok c m \<longleftrightarrow>
    list_all (\<lambda>o'. obs_unit o' = ms_unit m \<and> obs_direction o' = ms_direction m)
      (named_observations c (ms_name m)) \<and>
    ms_raw_observations m = int (length (named_observations c (ms_name m))) \<and>
    ms_contributing_samples m = int (card (obs_sample_id ` set (named_observations c (ms_name m)))) \<and>
    stat_count (ms_statistics m) = ms_contributing_samples m \<and>
    1 \<le> ms_contributing_samples m \<and> ms_contributing_samples m \<le> int (length (co_samples c))"

lemma summarize_cohort_facts:
  assumes "summarize_cohort c = Inr s"
  shows "list_all (metric_summary_ok c) (cs_metrics s)"
    and "map ms_name (cs_metrics s) = sorted_set (map fst (cohort_observations c))"
    and "cs_total_samples s = co_sample_count c" and "cs_cohort_key s = CohortKey_value (co_key c)"
    and "cs_provider_name s = co_provider_name c"
proof -
  obtain ms where ms: "rmap summarize_metric (group_by fst (cohort_observations c)) = Inr ms"
    and s: "cs_metrics s = sort_key ms_name ms"
    using assms by (auto simp: summarize_cohort_def rbind_Inr_iff)
  show "cs_total_samples s = co_sample_count c" "cs_cohort_key s = CohortKey_value (co_key c)"
    "cs_provider_name s = co_provider_name c"
    using assms by (auto simp: summarize_cohort_def rbind_Inr_iff)
  have "map ms_name ms = map fst (group_by fst (cohort_observations c))"
    using summarize_metric_facts(1) by (intro rmap_map_proj [OF ms]) auto
  then have names: "map ms_name ms = dedup (map fst (cohort_observations c))"
    by (simp add: group_by_keys)
  have "map ms_name (sort_key ms_name ms) = sort (map ms_name ms)"
    by (rule map_sort_key)
  then show "map ms_name (cs_metrics s) = sorted_set (map fst (cohort_observations c))"
    unfolding s names by (metis distinct_dedup distinct_sort set_dedup set_sort sorted_set_cong
        sorted_set_id sorted_sort)
  show "list_all (metric_summary_ok c) (cs_metrics s)"
    unfolding s list_all_iff set_sort
  proof
    fix m
    assume "m \<in> set ms"
    from rmap_mem [OF ms this] obtain n named
      where g: "(n, named) \<in> set (group_by fst (cohort_observations c))"
      and m: "summarize_metric (n, named) = Inr m" by auto
    from g have named: "named = filter (\<lambda>p. fst p = n) (cohort_observations c)"
      by (simp add: group_by_mem)
    note f = summarize_metric_facts [OF m]
    have obs: "map snd named = named_observations c (ms_name m)"
      by (simp add: named named_observations_def f(1))
    have sub: "obs_sample_id ` snd ` set named \<subseteq> smp_sample_id ` set (co_samples c)"
      using obs_sample_ids by (auto simp: named)
    have "card (obs_sample_id ` snd ` set named) \<le> card (smp_sample_id ` set (co_samples c))"
      by (rule card_mono [OF _ sub]) simp
    also have "\<dots> \<le> length (co_samples c)"
      by (metis card_image_le card_length le_trans List.finite_set)
    finally have "card (obs_sample_id ` snd ` set named) \<le> length (co_samples c)" .
    moreover have "0 < card (obs_sample_id ` snd ` set named)"
      using group_by_nonempty [OF g] by (simp add: card_gt_0_iff)
    ultimately show "metric_summary_ok c m"
      using f unfolding metric_summary_ok_def obs [symmetric]
      by (simp add: list_all_iff image_image)
  qed
qed

section \<open>Properties\<close>

text \<open>Two samples of one provider, created in the opposite order of their list.\<close>

definition demo_metric :: "pyfloat \<Rightarrow> Metric" where
  "demo_metric v = \<lparr>metric_name = ''cpu'', metric_value = v, metric_unit = ''ops'',
     metric_direction = HIGHER_IS_BETTER\<rparr>"

definition demo_measurement :: "string \<Rightarrow> pyfloat \<Rightarrow> Measurement" where
  "demo_measurement mid v = \<lparr>meas_measurement_id = mid, meas_tool = ''t'', meas_tool_version = None,
     meas_profile = ''p'', meas_protocol_version = ''1'', meas_started_at = utc 0,
     meas_finished_at = utc 5, meas_status = SUCCESS, meas_metrics = [demo_metric v],
     meas_raw_output_path = None, meas_error = None\<rparr>"

definition demo_sample :: "string \<Rightarrow> int \<Rightarrow> pyfloat \<Rightarrow> Sample" where
  "demo_sample sid t v = \<lparr>smp_sample_id = sid, smp_created_at = utc t,
     smp_provider = \<lparr>prov_provider_id = ''acme'', prov_name = ''Acme'', prov_country_code = None\<rparr>,
     smp_product = \<lparr>prod_product = None, prod_plan = None, prod_region = Some ''eu'', prod_zone = None\<rparr>,
     smp_machine = \<lparr>mach_machine_type = ''vm'', mach_cpu_count = IntNum 2, mach_memory_bytes = IntNum 4,
       mach_architecture = ''x86''\<rparr>,
     smp_protocol = \<lparr>prot_profile = ''p'', prot_version = ''1'', prot_fingerprint = ''f''\<rparr>,
     smp_measurements = [demo_measurement ''m'' v],
     smp_quality = \<lparr>qual_status = VALID, qual_warnings = [], qual_errors = []\<rparr>\<rparr>"

lemma demo_sample_wf: "list_all wf_sample [demo_sample ''b'' 9 (Fin 3), demo_sample ''a'' 7 (Fin 1)]"
  by code_simp

text \<open>
  C1: \<open>build_cohorts\<close> raises exactly when two samples share an id, naming such an id. Otherwise
  the cohorts partition the samples it keeps (all of them with \<open>include_invalid\<close>, else those
  not marked invalid): no sample is lost or duplicated, keys are distinct, the cohorts are
  sorted by serialized key, and every cohort holds samples of its key only, in order of
  creation and inside its window, with the right count.
\<close>

theorem build_cohorts_partition:
  assumes "list_all wf_sample xs"
  shows "case build_cohorts inc xs of
      Inl e \<Rightarrow> \<not> distinct (map smp_sample_id xs) \<and>
        e \<in> (\<lambda>s. ValueError (''duplicate sample ID: '' @ smp_sample_id s)) ` set xs
    | Inr cs \<Rightarrow> distinct (map smp_sample_id xs) \<and>
        mset (concat (map co_samples cs)) = mset (kept inc xs) \<and>
        distinct (map co_key cs) \<and> sorted (map (CohortKey_value \<circ> co_key) cs) \<and>
        list_all cohort_ok cs"
proof (cases "distinct (map smp_sample_id xs)")
  case True
  obtain cs where cs: "build_cohorts inc xs = Inr cs"
    using build_cohorts_eq [OF assms True] by blast
  with build_cohorts_correct [OF assms True cs] True show ?thesis by simp
next
  case False
  with build_cohorts_duplicate [OF False, of inc] show ?thesis by auto
qed

theorem build_cohorts_partition_witness:
  "\<exists>cs. build_cohorts False [demo_sample ''b'' 9 (Fin 3), demo_sample ''a'' 7 (Fin 1)] = Inr cs \<and>
    mset (concat (map co_samples cs)) =
      {#demo_sample ''b'' 9 (Fin 3), demo_sample ''a'' 7 (Fin 1)#} \<and> list_all cohort_ok cs"
proof -
  let ?xs = "[demo_sample ''b'' 9 (Fin 3), demo_sample ''a'' 7 (Fin 1)]"
  have kept: "kept False ?xs = ?xs" and ids: "distinct (map smp_sample_id ?xs)"
    by (simp_all add: kept_def demo_sample_def)
  from build_cohorts_partition [OF demo_sample_wf, of False] kept ids
  show ?thesis by (auto split: sum.splits)
qed

text \<open>
  Two samples are compatible for \<open>compare_samples\<close> exactly when their cohort keys are equal,
  that is when \<open>build_cohorts\<close> puts them into the same cohort; the comparison is symmetric.
\<close>

theorem compare_samples_iff_same_key:
  "cr_compatible (compare_samples a b) = (build_cohort_key a = build_cohort_key b) \<and>
   compare_samples a b = compare_samples b a"
  by (simp add: build_cohort_key_def compare_samples_compatible)
    (simp add: compare_samples_def key_field_agreement_sym [of "CohortKey_from_sample b"])

text \<open>
  The serialized key identifies the cohort as long as no component contains the separator
  \<open>|\<close> and the counts are integers.
\<close>

theorem cohort_key_value_injective:
  assumes "no_bar a" and "no_bar b"
  shows "CohortKey_value a = CohortKey_value b \<longleftrightarrow> a = b"
  using CohortKey_value_inj [OF assms] by auto

theorem cohort_key_value_injective_witness:
  "CohortKey_value (build_cohort_key (demo_sample ''a'' 1 (Fin 1))) \<noteq>
   CohortKey_value ((build_cohort_key (demo_sample ''a'' 1 (Fin 1)))\<lparr>ck_cpu_count := IntNum 4\<rparr>)"
proof -
  have "no_bar (build_cohort_key (demo_sample ''a'' 1 (Fin 1)))"
    "no_bar ((build_cohort_key (demo_sample ''a'' 1 (Fin 1)))\<lparr>ck_cpu_count := IntNum 4\<rparr>)"
    by code_simp+
  from cohort_key_value_injective [OF this] show ?thesis
    by (simp add: build_cohort_key_def CohortKey_from_sample_def demo_sample_def)
qed

text \<open>
  A separator inside a component breaks that: two well-formed samples with different cohort
  keys, which \<open>build_cohorts\<close> keeps apart, share one serialized key.
\<close>

theorem cohort_key_value_collision:
  "\<exists>s t. wf_sample s \<and> wf_sample t \<and> build_cohort_key s \<noteq> build_cohort_key t \<and>
     CohortKey_value (build_cohort_key s) = CohortKey_value (build_cohort_key t)"
proof -
  let ?p = "\<lambda>a b. (demo_sample ''a'' 1 (Fin 1))\<lparr>smp_product :=
    \<lparr>prod_product = Some a, prod_plan = Some b, prod_region = None, prod_zone = None\<rparr>\<rparr>"
  have "wf_sample (?p ''x|y'' ''z'')" "wf_sample (?p ''x'' ''y|z'')" by code_simp+
  moreover have "build_cohort_key (?p ''x|y'' ''z'') \<noteq> build_cohort_key (?p ''x'' ''y|z'')"
    by code_simp
  moreover have "CohortKey_value (build_cohort_key (?p ''x|y'' ''z'')) =
      CohortKey_value (build_cohort_key (?p ''x'' ''y|z''))"
    by code_simp
  ultimately show ?thesis by blast
qed

text \<open>
  A cohort summary has one entry per metric name of the successful measurements, sorted by
  name; in each entry all observations share the unit and the direction, and each contributing
  sample counts once, whatever number of observations it made.
\<close>

theorem summarize_cohort_correct:
  "case summarize_cohort c of Inl e \<Rightarrow> True
    | Inr s \<Rightarrow> map ms_name (cs_metrics s) = sorted_set (map fst (cohort_observations c)) \<and>
        list_all (metric_summary_ok c) (cs_metrics s) \<and> cs_total_samples s = co_sample_count c"
  using summarize_cohort_facts [of c] by (auto split: sum.splits)

end
