(* ===== verification/Reports.thy ===== *)
theory Reports
  imports Cohorts
begin

text \<open>
  \<open>models/coverage.py\<close>, \<open>models/confidence.py\<close>, \<open>coverage/calculator.py\<close>,
  \<open>assessment/confidence.py\<close>, \<open>models/report.py\<close> and \<open>provider/report.py\<close>: how much evidence a
  cohort carries, how far it can be trusted, and the report of one provider over its cohorts.
  SHA-256 is a parameter: \<open>sha256 t\<close> is the hexadecimal digest of the UTF-8 text \<open>t\<close>.
\<close>

section \<open>Coverage\<close>

record Coverage =
  cov_sample_count :: int
  cov_observation_days :: int
  cov_regions :: "string list"
  cov_zones :: "string list"
  cov_products :: "string list"
  cov_plans :: "string list"
  cov_available_metrics :: "string list"
  cov_expected_metrics :: "string list"
  cov_gaps :: "string list"

definition Coverage_init :: "Coverage \<Rightarrow> Coverage result" where
  "Coverage_init c =
    (if cov_sample_count c < 0 then Inl (ValueError ''sample_count must not be negative'')
     else if cov_observation_days c < 0 then Inl (ValueError ''observation_days must not be negative'')
     else Inr c)"

definition metric_ratio :: "Coverage \<Rightarrow> pyfloat result" where
  "metric_ratio c =
    (if cov_expected_metrics c = [] then Inr (Fin 1)
     else let expected = remdups (cov_expected_metrics c);
              available = remdups (cov_available_metrics c) in
       int_truediv (int (length (filter (\<lambda>m. m \<in> set available) expected))) (int (length expected)))"

definition known_values :: "string option list \<Rightarrow> string list" where
  "known_values vs = sorted_set (map strip (filter (\<lambda>v. strip v \<noteq> []) (concat (map (\<lambda>v. case v of
      None \<Rightarrow> [] | Some s \<Rightarrow> [s]) vs))))"

definition coverage_gaps :: "int \<Rightarrow> int \<Rightarrow> string list \<Rightarrow> string list \<Rightarrow> string list \<Rightarrow> string list \<Rightarrow>
   string list \<Rightarrow> string list \<Rightarrow> string list" where
  "coverage_gaps sample_count observation_days regions zones products plans expected available =
    (if sample_count < 3 then [''insufficient_samples''] else []) @
    (if observation_days < 3 then [''short_observation_period''] else []) @
    (if regions = [] then [''region_unknown''] else []) @
    (if zones = [] then [''zone_unknown''] else []) @
    (if products = [] then [''product_unknown''] else []) @
    (if plans = [] then [''plan_unknown''] else []) @
    map (\<lambda>m. ''missing_metric:'' @ m) (sorted_set (filter (\<lambda>m. m \<notin> set available) expected))"

definition calculate_coverage :: "Cohort \<Rightarrow> CohortSummary \<Rightarrow> string list \<Rightarrow> Coverage result" where
  "calculate_coverage cohort summary expected_metrics =
    (let expected = sorted_set expected_metrics;
         available = map ms_name (cs_metrics summary);
         observation_days = dt_date (co_ended_at cohort) - dt_date (co_started_at cohort) + 1;
         field = (\<lambda>f. known_values (map (\<lambda>s. f (smp_product s)) (co_samples cohort)));
         regions = field prod_region; zones = field prod_zone;
         products = field prod_product; plans = field prod_plan
     in Coverage_init \<lparr>cov_sample_count = co_sample_count cohort,
          cov_observation_days = observation_days, cov_regions = regions, cov_zones = zones,
          cov_products = products, cov_plans = plans, cov_available_metrics = available,
          cov_expected_metrics = expected,
          cov_gaps = coverage_gaps (co_sample_count cohort) observation_days regions zones products
            plans expected available\<rparr>)"

section \<open>Confidence\<close>

record Confidence =
  conf_measurement :: ConfidenceLevel
  conf_statistical :: ConfidenceLevel
  conf_coverage :: ConfidenceLevel

definition Confidence_overall :: "Confidence \<Rightarrow> ConfidenceLevel result" where
  "Confidence_overall c = min_by confidence_order [conf_measurement c, conf_statistical c, conf_coverage c]"

definition lit_025 :: pyfloat where "lit_025 = fl (25 / 100)"
definition lit_060 :: pyfloat where "lit_060 = fl (60 / 100)"

definition variation_coefficients :: "CohortSummary \<Rightarrow> pyfloat list" where
  "variation_coefficients summary =
    concat (map (\<lambda>m. case stat_coefficient_of_variation (ms_statistics m) of
      None \<Rightarrow> [] | Some c \<Rightarrow> [c]) (cs_metrics summary))"

definition measurement_confidence :: "CohortSummary \<Rightarrow> ConfidenceLevel result" where
  "measurement_confidence summary =
    (if cs_metrics summary = [] then Inr LOW
     else if variation_coefficients summary = [] then Inr LOW
     else rbind (max_by id (variation_coefficients summary)) (\<lambda>worst.
       Inr (if fle worst lit_010 then HIGH else if fle worst lit_025 then MEDIUM else LOW)))"

definition statistical_confidence :: "Coverage \<Rightarrow> ConfidenceLevel" where
  "statistical_confidence c =
    (if 10 \<le> cov_sample_count c \<and> 7 \<le> cov_observation_days c then HIGH
     else if 3 \<le> cov_sample_count c \<and> 3 \<le> cov_observation_days c then MEDIUM else LOW)"

definition coverage_confidence :: "Coverage \<Rightarrow> ConfidenceLevel result" where
  "coverage_confidence c = rbind (metric_ratio c) (\<lambda>ratio. Inr
    (if fle lit_090 ratio \<and> cov_regions c \<noteq> [] \<and> cov_plans c \<noteq> [] then HIGH
     else if fle lit_060 ratio then MEDIUM else LOW))"

definition calculate_confidence :: "CohortSummary \<Rightarrow> Coverage \<Rightarrow> Confidence result" where
  "calculate_confidence summary coverage =
    rbind (measurement_confidence summary) (\<lambda>m. rbind (coverage_confidence coverage) (\<lambda>c.
    Inr \<lparr>conf_measurement = m, conf_statistical = statistical_confidence coverage,
         conf_coverage = c\<rparr>))"

section \<open>Reports\<close>

record CohortReport =
  cr_cohort_id :: string
  cr_cohort_key :: string
  cr_protocol :: ProtocolIdentity
  cr_started_at :: pydatetime
  cr_ended_at :: pydatetime
  cr_sample_count :: int
  cr_sample_ids :: "string list"
  cr_coverage :: Coverage
  cr_confidence :: Confidence
  cr_metrics :: "MetricSummary list"

definition CohortReport_init :: "CohortReport \<Rightarrow> CohortReport result" where
  "CohortReport_init r =
    (if strip (cr_cohort_id r) = [] \<or> strip (cr_cohort_key r) = []
       then Inl (ValueError ''cohort report identifiers must not be empty'')
     else if \<not> aware (cr_started_at r) \<or> \<not> aware (cr_ended_at r)
       then Inl (ValueError ''cohort report timestamps must contain timezone information'')
     else if dt_instant (cr_ended_at r) < dt_instant (cr_started_at r)
       then Inl (ValueError ''cohort report ended_at must not precede started_at'')
     else if cr_sample_count r \<noteq> int (length (cr_sample_ids r))
       then Inl (ValueError ''sample_count must match sample_ids'')
     else Inr r)"

record ProviderReport =
  pr_schema_version :: string
  pr_report_id :: string
  pr_generated_at :: pydatetime
  pr_provider_id :: string
  pr_provider_name :: string
  pr_total_samples :: int
  pr_cohort_count :: int
  pr_overall_confidence :: ConfidenceLevel
  pr_gaps :: "string list"
  pr_cohorts :: "CohortReport list"

definition ProviderReport_init :: "ProviderReport \<Rightarrow> ProviderReport result" where
  "ProviderReport_init r =
    (if strip (pr_schema_version r) = [] then Inl (ValueError ''schema_version must not be empty'')
     else if strip (pr_report_id r) = [] then Inl (ValueError ''report_id must not be empty'')
     else if strip (pr_provider_id r) = [] then Inl (ValueError ''provider_id must not be empty'')
     else if strip (pr_provider_name r) = [] then Inl (ValueError ''provider_name must not be empty'')
     else if \<not> aware (pr_generated_at r)
       then Inl (ValueError ''generated_at must contain timezone information'')
     else if pr_cohort_count r \<noteq> int (length (pr_cohorts r))
       then Inl (ValueError ''cohort_count must match cohorts'')
     else if pr_total_samples r \<noteq> sum_list (map cr_sample_count (pr_cohorts r))
       then Inl (ValueError ''total_samples must match cohort sample counts'')
     else Inr r)"

definition SCHEMA_VERSION :: string where "SCHEMA_VERSION = ''1.0.0''"

text \<open>\<open>hashlib.sha256("\n".join(parts)).hexdigest()[:16]\<close> behind a prefix.\<close>

definition newline :: string where "newline = [CHR 0x0A]"

definition mk_identifier :: "(string \<Rightarrow> string) \<Rightarrow> string \<Rightarrow> string list \<Rightarrow> string" where
  "mk_identifier sha256 prefix parts = prefix @ ''-'' @ take 16 (sha256 (join newline parts))"

definition build_cohort_report ::
  "(string \<Rightarrow> string) \<Rightarrow> string list \<Rightarrow> Cohort \<Rightarrow> CohortReport result" where
  "build_cohort_report sha256 expected_metrics cohort =
    rbind (summarize_cohort cohort) (\<lambda>summary.
    rbind (calculate_coverage cohort summary expected_metrics) (\<lambda>coverage.
    rbind (calculate_confidence summary coverage) (\<lambda>confidence.
    let sample_ids = map smp_sample_id (co_samples cohort) in
    CohortReport_init
      \<lparr>cr_cohort_id = mk_identifier sha256 ''cohort'' (CohortKey_value (co_key cohort) # sample_ids),
       cr_cohort_key = CohortKey_value (co_key cohort),
       cr_protocol = smp_protocol (hd (co_samples cohort)),
       cr_started_at = co_started_at cohort, cr_ended_at = co_ended_at cohort,
       cr_sample_count = co_sample_count cohort, cr_sample_ids = sample_ids,
       cr_coverage = coverage, cr_confidence = confidence, cr_metrics = cs_metrics summary\<rparr>)))"

definition provider_report ::
  "(string \<Rightarrow> string) \<Rightarrow> string list \<Rightarrow> pydatetime \<Rightarrow> string \<times> Cohort list \<Rightarrow> ProviderReport result" where
  "provider_report sha256 expected_metrics generated g =
    (case g of (provider_id, provider_cohorts) \<Rightarrow>
      let ordered_cohorts = sort_key (\<lambda>c. CohortKey_value (co_key c)) provider_cohorts in
      rbind (rmap (build_cohort_report sha256 expected_metrics) ordered_cohorts) (\<lambda>cohort_reports.
      rbind (rmap (\<lambda>r. Confidence_overall (cr_confidence r)) cohort_reports) (\<lambda>overalls.
      rbind (min_by confidence_order overalls) (\<lambda>overall_confidence.
      ProviderReport_init
        \<lparr>pr_schema_version = SCHEMA_VERSION,
         pr_report_id = mk_identifier sha256 ''provider-report'' (provider_id # map cr_cohort_id cohort_reports),
         pr_generated_at = generated, pr_provider_id = provider_id,
         pr_provider_name = co_provider_name (hd ordered_cohorts),
         pr_total_samples = sum_list (map cr_sample_count cohort_reports),
         pr_cohort_count = int (length cohort_reports),
         pr_overall_confidence = overall_confidence,
         pr_gaps = sorted_set (concat (map (\<lambda>r. cov_gaps (cr_coverage r)) cohort_reports)),
         pr_cohorts = cohort_reports\<rparr>))))"

definition build_provider_reports ::
  "(string \<Rightarrow> string) \<Rightarrow> string list \<Rightarrow> pydatetime \<Rightarrow> Cohort list \<Rightarrow> ProviderReport list result" where
  "build_provider_reports sha256 expected_metrics generated cohorts =
    (if \<not> aware generated then Inl (ValueError ''generated_at must contain timezone information'')
     else rmap (provider_report sha256 expected_metrics generated)
       (sort_key fst (group_by (\<lambda>c. ck_provider_id (co_key c)) cohorts)))"

section \<open>Facts\<close>

lemma metric_ratio_unit: "\<exists>v. metric_ratio c = Inr (Fin v) \<and> 0 \<le> v \<and> v \<le> 1"
proof (cases "cov_expected_metrics c = []")
  case True
  then show ?thesis by (simp add: metric_ratio_def)
next
  case False
  let ?e = "remdups (cov_expected_metrics c)"
  let ?f = "filter (\<lambda>m. m \<in> set (remdups (cov_available_metrics c))) ?e"
  have "0 \<le> int (length ?f)" "int (length ?f) \<le> int (length ?e)" "0 < int (length ?e)"
    using False length_filter_le by auto
  from int_truediv_unit [OF this] False show ?thesis by (auto simp: metric_ratio_def Let_def)
qed

lemma Confidence_overall_min:
  "Confidence_overall c = Inr (min (conf_measurement c) (min (conf_statistical c) (conf_coverage c)))"
  unfolding Confidence_overall_def by (subst min_by_confidence) simp_all

lemma coverage_confidence_defined: "\<exists>l. coverage_confidence c = Inr l"
  using metric_ratio_unit [of c] by (auto simp: coverage_confidence_def)

lemma measurement_confidence_defined: "\<exists>l. measurement_confidence s = Inr l"
  using max_by_total [of "variation_coefficients s" id] by (auto simp: measurement_confidence_def)

lemma calculate_confidence_defined: "\<exists>c. calculate_confidence s cov = Inr c"
  using measurement_confidence_defined [of s] coverage_confidence_defined [of cov]
  by (auto simp: calculate_confidence_def)

lemma calculate_coverage_fields:
  assumes "calculate_coverage c s ex = Inr cov"
  shows "cov_sample_count cov = co_sample_count c"
    and "cov_observation_days cov = dt_date (co_ended_at c) - dt_date (co_started_at c) + 1"
    and "cov_available_metrics cov = map ms_name (cs_metrics s)"
    and "cov_expected_metrics cov = sorted_set ex"
    and "cov_gaps cov = coverage_gaps (cov_sample_count cov) (cov_observation_days cov)
      (cov_regions cov) (cov_zones cov) (cov_products cov) (cov_plans cov)
      (cov_expected_metrics cov) (cov_available_metrics cov)"
    and "0 \<le> cov_observation_days cov"
  using assms by (auto simp: calculate_coverage_def Coverage_init_def Let_def split: if_splits)

lemma build_cohort_report_fields:
  assumes "build_cohort_report sha ex c = Inr r"
  obtains s cov conf where "summarize_cohort c = Inr s" and "calculate_coverage c s ex = Inr cov"
    and "calculate_confidence s cov = Inr conf"
    and "cr_cohort_id r = mk_identifier sha ''cohort'' (CohortKey_value (co_key c) # map smp_sample_id (co_samples c))"
    and "cr_cohort_key r = CohortKey_value (co_key c)"
    and "cr_sample_count r = co_sample_count c" and "cr_sample_ids r = map smp_sample_id (co_samples c)"
    and "cr_coverage r = cov" and "cr_confidence r = conf" and "cr_metrics r = cs_metrics s"
    and "cr_started_at r = co_started_at c" and "cr_ended_at r = co_ended_at c"
    and "cr_sample_count r = int (length (cr_sample_ids r))"
  using assms by (auto simp: build_cohort_report_def CohortReport_init_def rbind_Inr_iff Let_def
      split: if_splits)

section \<open>Provider reports\<close>

definition report_ok :: "ProviderReport \<Rightarrow> bool" where
  "report_ok r \<longleftrightarrow> pr_cohorts r \<noteq> [] \<and> pr_cohort_count r = int (length (pr_cohorts r)) \<and>
    pr_total_samples r = sum_list (map cr_sample_count (pr_cohorts r)) \<and>
    pr_gaps r = sorted_set (concat (map (\<lambda>c. cov_gaps (cr_coverage c)) (pr_cohorts r))) \<and>
    list_all (\<lambda>c. pr_overall_confidence r \<le> conf_measurement (cr_confidence c) \<and>
      pr_overall_confidence r \<le> conf_statistical (cr_confidence c) \<and>
      pr_overall_confidence r \<le> conf_coverage (cr_confidence c)) (pr_cohorts r) \<and>
    list_ex (\<lambda>c. Confidence_overall (cr_confidence c) = Inr (pr_overall_confidence r)) (pr_cohorts r) \<and>
    sorted (map cr_cohort_key (pr_cohorts r))"

lemma confidence_le_iff: "a \<le> b \<longleftrightarrow> confidence_order a \<le> confidence_order b"
  by (simp add: less_eq_ConfidenceLevel_def)

lemma provider_report_facts:
  assumes "provider_report sha ex gen (pid, cs) = Inr r"
  shows "report_ok r" and "pr_provider_id r = pid"
    and "mset (map cr_cohort_key (pr_cohorts r)) = mset (map (CohortKey_value \<circ> co_key) cs)"
    and "pr_total_samples r = sum_list (map co_sample_count cs)"
    and "pr_generated_at r = gen"
proof -
  let ?val = "\<lambda>c. CohortKey_value (co_key c)"
  obtain rs ovs ov where rs: "rmap (build_cohort_report sha ex) (sort_key ?val cs) = Inr rs"
    and ovs: "rmap (\<lambda>r. Confidence_overall (cr_confidence r)) rs = Inr ovs"
    and ov: "min_by confidence_order ovs = Inr ov"
    and r: "pr_overall_confidence r = ov" "pr_cohorts r = rs" "pr_provider_id r = pid"
      "pr_total_samples r = sum_list (map cr_sample_count rs)" "pr_cohort_count r = int (length rs)"
      "pr_gaps r = sorted_set (concat (map (\<lambda>r. cov_gaps (cr_coverage r)) rs))" "pr_generated_at r = gen"
    using assms by (auto simp: provider_report_def ProviderReport_init_def rbind_Inr_iff Let_def
        split: if_splits)
  note min = min_by_correct [OF ov]
  have keys: "map cr_cohort_key rs = map ?val (sort_key ?val cs)"
    by (rule rmap_map_proj [OF rs]) (erule build_cohort_report_fields, simp)
  have counts: "map cr_sample_count rs = map co_sample_count (sort_key ?val cs)"
    by (rule rmap_map_proj [OF rs]) (erule build_cohort_report_fields, simp)
  have "mset (map cr_cohort_key rs) = mset (map ?val cs)" unfolding keys by simp
  then show "mset (map cr_cohort_key (pr_cohorts r)) = mset (map (CohortKey_value \<circ> co_key) cs)"
    by (simp add: r comp_def)
  have "sum_list (map co_sample_count (sort_key ?val cs)) = sum_list (map co_sample_count cs)"
    by (simp flip: sum_mset_sum_list)
  then show "pr_total_samples r = sum_list (map co_sample_count cs)" by (simp add: r counts)
  have "ov \<le> conf_measurement (cr_confidence c) \<and> ov \<le> conf_statistical (cr_confidence c) \<and>
      ov \<le> conf_coverage (cr_confidence c)" if "c \<in> set rs" for c
    using rmap_mem_arg [OF ovs that] min
    by (auto simp: Confidence_overall_min confidence_le_iff [symmetric])
  moreover have "\<exists>c \<in> set rs. Confidence_overall (cr_confidence c) = Inr ov"
    using rmap_mem [OF ovs] min by blast
  moreover have "sorted (map cr_cohort_key rs)" by (simp add: keys map_sort_key)
  moreover have "rs \<noteq> []" using ov ovs by (cases rs) auto
  ultimately show "report_ok r" by (simp add: report_ok_def r list_all_iff list_ex_iff)
qed (use assms in \<open>auto simp: provider_report_def ProviderReport_init_def rbind_Inr_iff Let_def
        split: if_splits\<close>)

lemma build_provider_reports_facts:
  assumes "build_provider_reports sha ex gen cohorts = Inr rs"
  shows "map pr_provider_id rs = sorted_set (map (ck_provider_id \<circ> co_key) cohorts)"
    and "list_all report_ok rs"
    and "mset (concat (map (\<lambda>r. map cr_cohort_key (pr_cohorts r)) rs)) =
      mset (map (CohortKey_value \<circ> co_key) cohorts)"
    and "sum_list (map pr_total_samples rs) = sum_list (map co_sample_count cohorts)"
proof -
  let ?gs = "group_by (\<lambda>c. ck_provider_id (co_key c)) cohorts"
  from assms have rs: "rmap (provider_report sha ex gen) (sort_key fst ?gs) = Inr rs"
    by (simp add: build_provider_reports_def split: if_splits)
  have fact: "provider_report sha ex gen g = Inr r \<Longrightarrow> report_ok r \<and> pr_provider_id r = fst g \<and>
      mset (map cr_cohort_key (pr_cohorts r)) = mset (map (CohortKey_value \<circ> co_key) (snd g)) \<and>
      pr_total_samples r = sum_list (map co_sample_count (snd g))" for g r
    using provider_report_facts [of sha ex gen "fst g" "snd g" r] by simp
  have flat: "sum_mset (image_mset (\<lambda>g. mset (map f (snd g))) (mset gs)) =
      image_mset f (mset (concat (map snd gs)))" for f :: "Cohort \<Rightarrow> string" and gs :: "(string \<times> Cohort list) list"
    by (induction gs) auto
  have total: "sum_mset (image_mset (\<lambda>g. sum_list (map co_sample_count (snd g))) (mset gs)) =
      sum_mset (image_mset co_sample_count (mset (concat (map snd gs))))" for gs :: "(string \<times> Cohort list) list"
    by (induction gs) (auto simp flip: sum_mset_sum_list)
  have "map pr_provider_id rs = map fst (sort_key fst ?gs)"
    using fact by (intro rmap_map_proj [OF rs]) auto
  also have "\<dots> = sort (dedup (map (ck_provider_id \<circ> co_key) cohorts))"
    by (simp add: map_sort_key group_by_keys comp_def)
  also have "\<dots> = sorted_set (map (ck_provider_id \<circ> co_key) cohorts)"
    by (metis distinct_dedup distinct_sort set_dedup set_sort sorted_set_cong sorted_set_id sorted_sort)
  finally show "map pr_provider_id rs = sorted_set (map (ck_provider_id \<circ> co_key) cohorts)" .
  show "list_all report_ok rs" using rmap_mem [OF rs] fact by (fastforce simp: list_all_iff)
  have "map (\<lambda>r. mset (map cr_cohort_key (pr_cohorts r))) rs =
      map (\<lambda>g. mset (map (CohortKey_value \<circ> co_key) (snd g))) (sort_key fst ?gs)"
    using fact by (intro rmap_map_proj [OF rs]) auto
  then have "mset (concat (map (\<lambda>r. map cr_cohort_key (pr_cohorts r)) rs)) =
      sum_list (map (\<lambda>g. mset (map (CohortKey_value \<circ> co_key) (snd g))) (sort_key fst ?gs))"
    by (simp add: mset_concat comp_def)
  also have "\<dots> = sum_mset (image_mset (\<lambda>g. mset (map (CohortKey_value \<circ> co_key) (snd g))) (mset ?gs))"
    by (simp flip: sum_mset_sum_list)
  also have "\<dots> = image_mset (CohortKey_value \<circ> co_key) (mset (concat (map snd ?gs)))"
    unfolding flat ..
  finally show "mset (concat (map (\<lambda>r. map cr_cohort_key (pr_cohorts r)) rs)) =
      mset (map (CohortKey_value \<circ> co_key) cohorts)"
    by (simp add: mset_group_by del: mset_concat)
  have "map pr_total_samples rs = map (\<lambda>g. sum_list (map co_sample_count (snd g))) (sort_key fst ?gs)"
    using fact by (intro rmap_map_proj [OF rs]) auto
  then have "sum_list (map pr_total_samples rs) =
      sum_mset (image_mset (\<lambda>g. sum_list (map co_sample_count (snd g))) (mset ?gs))"
    by (simp flip: sum_mset_sum_list)
  also have "\<dots> = sum_mset (image_mset co_sample_count (mset (concat (map snd ?gs))))"
    unfolding total ..
  finally show "sum_list (map pr_total_samples rs) = sum_list (map co_sample_count cohorts)"
    by (simp add: mset_group_by del: mset_concat) (simp flip: sum_mset_sum_list)
qed

section \<open>Properties\<close>

text \<open>
  C3: The provider reports account for every cohort once: one report per provider, sorted by
  provider id, whose cohort reports carry exactly the keys of the cohorts and whose sample
  totals add up to the samples of the cohorts; the overall confidence of a report is attained
  by one of its cohorts and bounds every dimension of all of them from below, and its gaps are
  the sorted union of the gaps of its cohorts.
\<close>

theorem provider_reports_account_for_cohorts:
  "case build_provider_reports sha256 expected generated cohorts of
      Inl e \<Rightarrow> True
    | Inr rs \<Rightarrow> map pr_provider_id rs = sorted_set (map (ck_provider_id \<circ> co_key) cohorts) \<and>
        mset (concat (map (\<lambda>r. map cr_cohort_key (pr_cohorts r)) rs)) =
          mset (map (CohortKey_value \<circ> co_key) cohorts) \<and>
        sum_list (map pr_total_samples rs) = sum_list (map co_sample_count cohorts) \<and>
        list_all report_ok rs"
  using build_provider_reports_facts [of sha256 expected generated cohorts]
  by (auto split: sum.splits)

lemma overall_HIGH_iff:
  "Confidence_overall c = Inr HIGH \<longleftrightarrow>
    conf_measurement c = HIGH \<and> conf_statistical c = HIGH \<and> conf_coverage c = HIGH"
  by (cases "conf_measurement c"; cases "conf_statistical c"; cases "conf_coverage c")
    (simp_all add: Confidence_overall_def)

lemma max_by_id: "xs \<noteq> [] \<Longrightarrow> max_by id xs = Inr (Max (set xs))"
proof -
  assume ne: "xs \<noteq> []"
  then obtain m where m: "max_by id xs = Inr m" using max_by_total [of xs id] by blast
  from max_by_correct [OF m] have "m = Max (set xs)" by (intro Max_eqI [symmetric]) auto
  with m show ?thesis by simp
qed

text \<open>
  Confidence is always computed, and the overall level is high exactly when every dimension
  earns it: all coefficients of variation at most 0.10 (with at least one known), ten samples
  over seven days, a metric ratio of at least 0.90, and known regions and plans.
\<close>

theorem confidence_high_iff:
  "(case calculate_confidence summary cov of Inl e \<Rightarrow> False
      | Inr c \<Rightarrow> Confidence_overall c = Inr HIGH) \<longleftrightarrow>
    variation_coefficients summary \<noteq> [] \<and>
    fle (Max (set (variation_coefficients summary))) lit_010 \<and>
    10 \<le> cov_sample_count cov \<and> 7 \<le> cov_observation_days cov \<and>
    (case metric_ratio cov of Inl e \<Rightarrow> False | Inr ratio \<Rightarrow> fle lit_090 ratio) \<and>
    cov_regions cov \<noteq> [] \<and> cov_plans cov \<noteq> []"
proof -
  obtain v where v: "metric_ratio cov = Inr (Fin v)" using metric_ratio_unit by blast
  have none: "cs_metrics summary = [] \<Longrightarrow> variation_coefficients summary = []"
    by (simp add: variation_coefficients_def)
  show ?thesis
    using none max_by_id [of "variation_coefficients summary"]
    by (auto simp: calculate_confidence_def overall_HIGH_iff measurement_confidence_def
        coverage_confidence_def statistical_confidence_def v)
qed

text \<open>
  \<open>calculate_coverage\<close> subtracts local dates while cohorts are ordered by instant. Two valid
  samples of one cohort, the second created half an hour after the first but in a time zone 26
  hours behind, give a negative number of observation days, and the coverage raises.
\<close>

definition zoned_sample :: "string \<Rightarrow> int \<Rightarrow> int \<Rightarrow> Sample" where
  "zoned_sample sid local_minutes offset_hours = (demo_sample sid 0 (Fin 1))\<lparr>smp_created_at :=
     \<lparr>dt_local = local_minutes * 60000000, dt_offset = Some (offset_hours * 3600000000)\<rparr>\<rparr>"

theorem coverage_rejects_zoned_cohort:
  "case build_cohorts False [zoned_sample ''a'' (3 * 1440 + 30) 14, zoned_sample ''b'' (1440 + 1380) (- 12)] of
      Inl e \<Rightarrow> False
    | Inr cohorts \<Rightarrow> cohorts \<noteq> [] \<and> list_all (\<lambda>c. cohort_ok c \<and>
        calculate_coverage c summary expected = Inl (ValueError ''observation_days must not be negative'')) cohorts"
proof -
  let ?xs = "[zoned_sample ''a'' (3 * 1440 + 30) 14, zoned_sample ''b'' (1440 + 1380) (- 12)]"
  have wf: "list_all wf_sample ?xs" and ids: "distinct (map smp_sample_id ?xs)"
    by code_simp+
  have eq: "build_cohorts False ?xs = Inr [cohort_of ?xs (build_cohort_key (hd ?xs))]"
    by code_simp
  have "dt_date (co_ended_at (cohort_of ?xs (build_cohort_key (hd ?xs)))) = 1"
    "dt_date (co_started_at (cohort_of ?xs (build_cohort_key (hd ?xs)))) = 3"
    "co_sample_count (cohort_of ?xs (build_cohort_key (hd ?xs))) = 2"
    by code_simp+
  then have "calculate_coverage (cohort_of ?xs (build_cohort_key (hd ?xs))) summary expected =
      Inl (ValueError ''observation_days must not be negative'')"
    by (simp add: calculate_coverage_def Coverage_init_def Let_def)
  with eq build_cohorts_correct(3) [OF wf ids eq] show ?thesis by simp
qed

end
