(* ===== verification/Comparison.thy ===== *)
theory Comparison
  imports Reports
begin

text \<open>
  \<open>models/comparison.py\<close> and \<open>provider/comparison.py\<close>: the peer key without provider-specific
  labels, one value per provider and metric, and the comparison of every provider with the
  median of the others. The locale \<open>peer_comparator\<close> is the contract between the loop over the
  providers and the code that compares one of them; \<open>pricing/value.py\<close> fulfils it as well.
\<close>

section \<open>models/comparison.py\<close>

datatype PeerComparisonOutcome = AHEAD | SIMILAR | BEHIND

text \<open>\<open>tuple(sorted(dict.fromkeys(item.strip() for item in items if item.strip())))\<close>.\<close>

definition clean_ids :: "string list \<Rightarrow> string list" where
  "clean_ids items = sort (dedup (map strip (filter (\<lambda>s. strip s \<noteq> []) items)))"

definition stripped :: "string \<Rightarrow> string \<Rightarrow> string result" where
  "stripped value field_name = (if strip value = []
    then Inl (ValueError (field_name @ '' must not be empty'')) else Inr (strip value))"

definition finite_field :: "pyfloat \<Rightarrow> string \<Rightarrow> pyfloat result" where
  "finite_field value field_name = (if isfinite value then Inr value
    else Inl (ValueError (field_name @ '' must be finite'')))"

record PeerMetricComparison =
  pc_comparison_id :: string
  pc_peer_group_id :: string
  pc_peer_key :: string
  pc_profile :: string
  pc_metric_name :: string
  pc_unit :: string
  pc_direction :: MetricDirection
  pc_provider_value :: pyfloat
  pc_peer_median :: pyfloat
  pc_relative_difference_percent :: pyfloat
  pc_outcome :: PeerComparisonOutcome
  pc_confidence :: ConfidenceLevel
  pc_peer_provider_count :: int
  pc_peer_provider_ids :: "string list"
  pc_provider_cohort_ids :: "string list"
  pc_peer_cohort_ids :: "string list"

definition PeerMetricComparison_init :: "PeerMetricComparison \<Rightarrow> PeerMetricComparison result" where
  "PeerMetricComparison_init c =
    rbind (stripped (pc_comparison_id c) ''comparison_id'') (\<lambda>comparison_id.
    rbind (stripped (pc_peer_group_id c) ''peer_group_id'') (\<lambda>peer_group_id.
    rbind (stripped (pc_peer_key c) ''peer_key'') (\<lambda>peer_key.
    rbind (stripped (pc_profile c) ''profile'') (\<lambda>profile.
    rbind (stripped (pc_metric_name c) ''metric_name'') (\<lambda>metric_name.
    rbind (stripped (pc_unit c) ''unit'') (\<lambda>unit.
    if pc_direction c = NEUTRAL
      then Inl (ValueError ''neutral metrics cannot produce peer comparisons'') else
    rbind (finite_field (pc_provider_value c) ''provider_value'') (\<lambda>_.
    rbind (finite_field (pc_peer_median c) ''peer_median'') (\<lambda>_.
    rbind (finite_field (pc_relative_difference_percent c) ''relative_difference_percent'') (\<lambda>_.
    let peer_ids = clean_ids (pc_peer_provider_ids c);
        provider_cohort_ids = clean_ids (pc_provider_cohort_ids c);
        peer_cohort_ids = clean_ids (pc_peer_cohort_ids c) in
    if pc_peer_provider_count c \<noteq> int (length peer_ids) \<or> pc_peer_provider_count c < 1
      then Inl (ValueError ''peer_provider_count must match peer_provider_ids'')
    else if provider_cohort_ids = [] \<or> peer_cohort_ids = []
      then Inl (ValueError ''peer comparisons require provider and peer cohort evidence'')
    else Inr (c\<lparr>pc_comparison_id := comparison_id, pc_peer_group_id := peer_group_id,
      pc_peer_key := peer_key, pc_profile := profile, pc_metric_name := metric_name,
      pc_unit := unit, pc_peer_provider_ids := peer_ids,
      pc_provider_cohort_ids := provider_cohort_ids, pc_peer_cohort_ids := peer_cohort_ids\<rparr>))))))))))"

section \<open>The peer key\<close>

record PeerKey =
  pk_country_code :: string
  pk_machine_type :: string
  pk_cpu_count :: pynum
  pk_memory_bytes :: pynum
  pk_architecture :: string
  pk_profile :: string
  pk_protocol_version :: string
  pk_protocol_fingerprint :: string

definition PeerKey_from_cohort :: "Cohort \<Rightarrow> PeerKey" where
  "PeerKey_from_cohort cohort = (let key = co_key cohort in
    \<lparr>pk_country_code = ck_country_code key, pk_machine_type = ck_machine_type key,
     pk_cpu_count = ck_cpu_count key, pk_memory_bytes = ck_memory_bytes key,
     pk_architecture = ck_architecture key, pk_profile = ck_profile key,
     pk_protocol_version = ck_protocol_version key,
     pk_protocol_fingerprint = ck_protocol_fingerprint key\<rparr>)"

definition PeerKey_value :: "PeerKey \<Rightarrow> string" where
  "PeerKey_value k = join ''|'' [pk_country_code k, pk_machine_type k, num_str (pk_cpu_count k),
    num_str (pk_memory_bytes k), pk_architecture k, pk_profile k, pk_protocol_version k,
    pk_protocol_fingerprint k]"

section \<open>Helpers of the comparison\<close>

definition minimum_confidence :: "ConfidenceLevel list \<Rightarrow> ConfidenceLevel result" where
  "minimum_confidence levels = min_by confidence_order levels"

definition comparison_confidence :: "ConfidenceLevel list \<Rightarrow> int \<Rightarrow> ConfidenceLevel result" where
  "comparison_confidence confidences peer_provider_count =
    rbind (minimum_confidence confidences) (\<lambda>minimum.
    Inr (if 2 \<le> peer_provider_count \<and> minimum = HIGH then HIGH
         else if minimum = MEDIUM \<or> minimum = HIGH then MEDIUM else LOW))"

definition relative_difference :: "pyfloat \<Rightarrow> pyfloat \<Rightarrow> MetricDirection \<Rightarrow> pyfloat option result" where
  "relative_difference provider_value peer_median direction =
    (if peer_median = Fin 0 then Inr None
     else rbind (fdiv (fsub provider_value peer_median) (fabs peer_median)) (\<lambda>q.
       let raw = fmul q (Fin 100) in
       Inr (Some (if direction = LOWER_IS_BETTER then fneg raw else raw))))"

definition COMPARISON_THRESHOLD_PERCENT :: pyfloat where
  "COMPARISON_THRESHOLD_PERCENT = Fin 5"

definition outcome_of :: "pyfloat \<Rightarrow> PeerComparisonOutcome" where
  "outcome_of difference =
    (if fle COMPARISON_THRESHOLD_PERCENT difference then AHEAD
     else if fle difference (fneg COMPARISON_THRESHOLD_PERCENT) then BEHIND
     else SIMILAR)"

definition dict_get :: "(string \<times> 'v) list \<Rightarrow> string \<Rightarrow> 'v result" where
  "dict_get d k = (case map_of d k of None \<Rightarrow> Inl (KeyError k) | Some v \<Rightarrow> Inr v)"

definition cohort_reports_by_key :: "ProviderReport list \<Rightarrow> (string \<times> CohortReport) list result" where
  "cohort_reports_by_key reports =
    rfold (\<lambda>d cohort. if map_of d (cr_cohort_key cohort) \<noteq> None
        then Inl (ValueError (''duplicate cohort report key: '' @ cr_cohort_key cohort))
        else Inr (d @ [(cr_cohort_key cohort, cohort)]))
      [] (concat (map pr_cohorts reports))"

type_synonym metric_key = "string \<times> string \<times> MetricDirection"

record ProviderMetric =
  pm_value :: pyfloat
  pm_cohort_ids :: "string list"
  pm_confidences :: "ConfidenceLevel list"

text \<open>
  A \<open>defaultdict\<close> of \<open>defaultdict(list)\<close> filled by appends, read back as nested dictionaries:
  providers and metric keys in the order of their first observation.
\<close>

definition nest_observations :: "(string \<times> 'k \<times> 'o) list \<Rightarrow> (string \<times> ('k \<times> 'o list) list) list" where
  "nest_observations flat = map (\<lambda>(provider_id, entries).
     (provider_id, map (\<lambda>(key, obs). (key, map snd obs)) (group_by fst (map snd entries))))
     (group_by fst flat)"

definition provider_metric :: "(pyfloat \<times> string \<times> ConfidenceLevel) list \<Rightarrow> ProviderMetric result" where
  "provider_metric obs = rbind (median (map fst obs)) (\<lambda>v.
     Inr \<lparr>pm_value = v, pm_cohort_ids = sort (map (fst \<circ> snd) obs),
          pm_confidences = map (snd \<circ> snd) obs\<rparr>)"

text \<open>The two comprehensions over a nested dictionary that \<open>_provider_metrics\<close> ends with.\<close>

definition map_nested :: "('o list \<Rightarrow> 'm result) \<Rightarrow> (string \<times> ('k \<times> 'o list) list) list \<Rightarrow>
   (string \<times> ('k \<times> 'm) list) list result" where
  "map_nested f d = rmap (\<lambda>(provider_id, metrics).
     rbind (rmap (\<lambda>(key, obs). rbind (f obs) (\<lambda>m. Inr (key, m))) metrics) (\<lambda>ms.
     Inr (provider_id, ms))) d"

definition provider_metrics ::
  "Cohort list \<Rightarrow> (string \<times> CohortReport) list \<Rightarrow> (string \<times> (metric_key \<times> ProviderMetric) list) list result" where
  "provider_metrics cohorts cohort_reports =
    rbind (rmap (\<lambda>cohort. rbind (dict_get cohort_reports (CohortKey_value (co_key cohort))) (\<lambda>report.
      rbind (Confidence_overall (cr_confidence report)) (\<lambda>overall.
      Inr (map (\<lambda>m. (ck_provider_id (co_key cohort), (ms_name m, ms_unit m, ms_direction m),
             stat_median (ms_statistics m), cr_cohort_id report, overall)) (cr_metrics report)))))
      cohorts) (\<lambda>rows. map_nested provider_metric (nest_observations (concat rows)))"

definition metric_key_order :: "metric_key \<Rightarrow> string \<times> string \<times> string" where
  "metric_key_order k = (case k of (name, unit, direction) \<Rightarrow> (name, unit, MetricDirection_value direction))"

definition sorted_metric_keys :: "(string \<times> (metric_key \<times> 'm) list) list \<Rightarrow> metric_key list" where
  "sorted_metric_keys d = sort_key metric_key_order (remdups (concat (map (\<lambda>p. map fst (snd p)) d)))"

definition available_for :: "metric_key \<Rightarrow> (string \<times> (metric_key \<times> 'm) list) list \<Rightarrow> (string \<times> 'm) list" where
  "available_for key d = concat (map (\<lambda>(provider_id, metrics). case map_of metrics key of
     None \<Rightarrow> [] | Some m \<Rightarrow> [(provider_id, m)]) d)"

text \<open>The loop over the sorted providers, each against the others; \<open>None\<close> is a \<open>continue\<close>.\<close>

definition compare_with_others ::
  "(string \<Rightarrow> 'm \<Rightarrow> (string \<times> 'm) list \<Rightarrow> 'c option result) \<Rightarrow> (string \<times> 'm) list \<Rightarrow>
   string \<times> 'm \<Rightarrow> (string \<times> 'c) list result" where
  "compare_with_others compare available p =
    rbind (compare (fst p) (snd p) (filter (\<lambda>q. fst q \<noteq> fst p) available)) (\<lambda>r.
    Inr (case r of None \<Rightarrow> [] | Some c \<Rightarrow> [(fst p, c)]))"

definition compare_each ::
  "(string \<Rightarrow> 'm \<Rightarrow> (string \<times> 'm) list \<Rightarrow> 'c option result) \<Rightarrow> (string \<times> 'm) list \<Rightarrow>
   (string \<times> 'c) list result" where
  "compare_each compare available =
    (if length available < 2 then Inr []
     else rbind (rmap (compare_with_others compare available) (sort_key fst available)) (\<lambda>rows.
       Inr (concat rows)))"

section \<open>provider/comparison.py\<close>

definition compare_metric ::
  "(string \<Rightarrow> string) \<Rightarrow> PeerKey \<Rightarrow> metric_key \<Rightarrow> string \<Rightarrow> ProviderMetric \<Rightarrow>
   (string \<times> ProviderMetric) list \<Rightarrow> PeerMetricComparison option result" where
  "compare_metric sha256 peer_key key provider_id metric peer_metrics =
    (case key of (name, unit, direction) \<Rightarrow>
      rbind (median (map (\<lambda>p. pm_value (snd p)) peer_metrics)) (\<lambda>peer_median.
      rbind (relative_difference (pm_value metric) peer_median direction) (\<lambda>r.
      case r of None \<Rightarrow> Inr None
      | Some difference \<Rightarrow>
          let peer_group_id = mk_identifier sha256 ''peer-group'' [PeerKey_value peer_key];
              peer_provider_ids = sort (map fst peer_metrics);
              peer_cohort_ids = sorted_set (concat (map (\<lambda>p. pm_cohort_ids (snd p)) peer_metrics));
              confidences = pm_confidences metric @ concat (map (\<lambda>p. pm_confidences (snd p)) peer_metrics)
          in rbind (comparison_confidence confidences (int (length peer_provider_ids))) (\<lambda>confidence.
             rbind (PeerMetricComparison_init
               \<lparr>pc_comparison_id = mk_identifier sha256 ''peer-comparison''
                  [peer_group_id, provider_id, name, unit, MetricDirection_value direction],
                pc_peer_group_id = peer_group_id, pc_peer_key = PeerKey_value peer_key,
                pc_profile = pk_profile peer_key, pc_metric_name = name, pc_unit = unit,
                pc_direction = direction, pc_provider_value = pm_value metric,
                pc_peer_median = peer_median, pc_relative_difference_percent = difference,
                pc_outcome = outcome_of difference, pc_confidence = confidence,
                pc_peer_provider_count = int (length peer_provider_ids),
                pc_peer_provider_ids = peer_provider_ids,
                pc_provider_cohort_ids = pm_cohort_ids metric,
                pc_peer_cohort_ids = peer_cohort_ids\<rparr>) (\<lambda>c. Inr (Some c))))))"

definition compare_group ::
  "(string \<Rightarrow> string) \<Rightarrow> (string \<times> CohortReport) list \<Rightarrow> PeerKey \<times> Cohort list \<Rightarrow>
   (string \<times> PeerMetricComparison) list result" where
  "compare_group sha256 cohort_reports g =
    (case g of (peer_key, grouped) \<Rightarrow>
      if length (remdups (map (\<lambda>c. ck_provider_id (co_key c)) grouped)) < 2 then Inr []
      else rbind (provider_metrics grouped cohort_reports) (\<lambda>metrics.
        rbind (rmap (\<lambda>key. if snd (snd key) = NEUTRAL then Inr []
            else compare_each (compare_metric sha256 peer_key key) (available_for key metrics))
          (sorted_metric_keys metrics)) (\<lambda>rows. Inr (concat rows))))"

definition comparison_order :: "PeerMetricComparison \<Rightarrow> string \<times> string \<times> string" where
  "comparison_order c = (pc_peer_group_id c, pc_metric_name c, pc_comparison_id c)"

definition comparable :: "Cohort \<Rightarrow> bool" where
  "comparable c \<longleftrightarrow> ck_provider_id (co_key c) \<noteq> ''unknown'' \<and> ck_country_code (co_key c) \<noteq> ''unknown''"

definition build_peer_comparisons ::
  "(string \<Rightarrow> string) \<Rightarrow> Cohort list \<Rightarrow> ProviderReport list \<Rightarrow>
   (string \<times> PeerMetricComparison list) list result" where
  "build_peer_comparisons sha256 cohorts reports =
    rbind (cohort_reports_by_key reports) (\<lambda>cohort_reports.
    rbind (rmap (compare_group sha256 cohort_reports)
      (sort_key (\<lambda>g. PeerKey_value (fst g)) (group_by PeerKey_from_cohort (filter comparable cohorts))))
      (\<lambda>rows. Inr (map (\<lambda>(provider_id, items). (provider_id, sort_key comparison_order (map snd items)))
        (group_by fst (concat rows)))))"

lemma compare_with_others_mem:
  assumes "compare_with_others compare available p = Inr row" and "(pid, c) \<in> set row"
  shows "pid = fst p \<and> compare pid (snd p) (filter (\<lambda>q. fst q \<noteq> pid) available) = Inr (Some c)"
proof -
  from assms(1) obtain r where
    r: "compare (fst p) (snd p) (filter (\<lambda>q. fst q \<noteq> fst p) available) = Inr r"
    and row: "row = (case r of None \<Rightarrow> [] | Some c \<Rightarrow> [(fst p, c)])"
    unfolding compare_with_others_def rbind_Inr_iff by blast
  from assms(2) row r show ?thesis by (cases r) auto
qed

lemma compare_each_mem:
  assumes "compare_each compare available = Inr rows" and "(pid, c) \<in> set rows"
  obtains p where "p \<in> set available" and "pid = fst p"
    and "compare pid (snd p) (filter (\<lambda>q. fst q \<noteq> pid) available) = Inr (Some c)"
proof -
  have "\<not> length available < 2" using assms by (auto simp: compare_each_def)
  with assms(1) obtain xs where
    rows: "rmap (compare_with_others compare available) (sort_key fst available) = Inr xs"
    and eq: "rows = concat xs"
    unfolding compare_each_def by (simp add: rbind_Inr_iff) blast
  from assms(2) eq obtain row where row: "row \<in> set xs" "(pid, c) \<in> set row" by auto
  from rmap_mem [OF rows row(1)] obtain p where p: "p \<in> set (sort_key fst available)"
    and cmp: "compare_with_others compare available p = Inr row" ..
  have "p \<in> set available" using p by simp
  from that [OF this] compare_with_others_mem [OF cmp row(2)] show thesis by blast
qed

section \<open>The contract of a comparator\<close>

text \<open>
  A comparator names the providers it compared with: it may not invent or drop one, as long as
  the ids carry no surrounding white space.
\<close>

locale peer_comparator =
  fixes compare :: "string \<Rightarrow> 'm \<Rightarrow> (string \<times> 'm) list \<Rightarrow> 'c option result"
    and peers_of :: "'c \<Rightarrow> string list"
  assumes names_peers: "compare pid m peers = Inr (Some c) \<Longrightarrow> \<forall>p \<in> fst ` set peers. clean p \<Longrightarrow>
    set (peers_of c) = fst ` set peers"
begin

lemma compared_with_all_others:
  assumes run: "compare_each compare available = Inr rows" and mem: "(pid, c) \<in> set rows"
    and ids: "\<forall>p \<in> fst ` set available. clean p"
  shows "pid \<in> fst ` set available" and "set (peers_of c) = fst ` set available - {pid}"
proof -
  from compare_each_mem [OF run mem] obtain p where p: "p \<in> set available" "pid = fst p"
    and c: "compare pid (snd p) (filter (\<lambda>q. fst q \<noteq> pid) available) = Inr (Some c)" .
  show "pid \<in> fst ` set available" using p by simp
  have others: "fst ` set (filter (\<lambda>q. fst q \<noteq> pid) available) = fst ` set available - {pid}" by auto
  have "\<forall>p \<in> fst ` set (filter (\<lambda>q. fst q \<noteq> pid) available). clean p"
    unfolding others using ids by blast
  from names_peers [OF c this] others show "set (peers_of c) = fst ` set available - {pid}" by simp
qed

lemma never_own_peer:
  "compare_each compare available = Inr rows \<Longrightarrow> (pid, c) \<in> set rows \<Longrightarrow>
   \<forall>p \<in> fst ` set available. clean p \<Longrightarrow> pid \<notin> set (peers_of c)"
  by (simp add: compared_with_all_others(2))

end

lemma set_clean_ids: "set (clean_ids xs) = strip ` {x \<in> set xs. strip x \<noteq> []}"
  by (auto simp: clean_ids_def)

lemma clean_ids_clean: "\<forall>x \<in> set xs. clean x \<Longrightarrow> set (clean_ids xs) = set xs"
  by (force simp: set_clean_ids clean_def)

lemma clean_ids_sorted [simp]: "sorted (clean_ids xs)" "distinct (clean_ids xs)"
  by (simp_all add: clean_ids_def)

text \<open>What the constructor guarantees.\<close>

definition comparison_ok :: "PeerMetricComparison \<Rightarrow> bool" where
  "comparison_ok c \<longleftrightarrow> pc_direction c \<noteq> NEUTRAL \<and> isfinite (pc_provider_value c) \<and>
    isfinite (pc_peer_median c) \<and> isfinite (pc_relative_difference_percent c) \<and>
    pc_outcome c = outcome_of (pc_relative_difference_percent c) \<and>
    pc_peer_provider_count c = int (length (pc_peer_provider_ids c)) \<and> 1 \<le> pc_peer_provider_count c \<and>
    sorted (pc_peer_provider_ids c) \<and> distinct (pc_peer_provider_ids c) \<and>
    pc_provider_cohort_ids c \<noteq> [] \<and> pc_peer_cohort_ids c \<noteq> []"

lemma PeerMetricComparison_init_ok:
  assumes "PeerMetricComparison_init a = Inr c" and "pc_outcome a = outcome_of (pc_relative_difference_percent a)"
  shows "comparison_ok c" and "pc_peer_provider_ids c = clean_ids (pc_peer_provider_ids a)"
  using assms by (auto simp: PeerMetricComparison_init_def comparison_ok_def finite_field_def
      rbind_Inr_iff Let_def Suc_le_eq split: if_splits)

lemma compare_metric_ok:
  assumes "compare_metric sha pk key pid m peers = Inr (Some c)"
  shows "comparison_ok c" and "pc_peer_provider_ids c = clean_ids (sort (map fst peers))"
  using assms PeerMetricComparison_init_ok
  by (fastforce simp: compare_metric_def rbind_Inr_iff Let_def split: prod.splits option.splits)+

interpretation performance: peer_comparator "compare_metric sha pk key" pc_peer_provider_ids for sha pk key
  by unfold_locales (auto simp: compare_metric_ok(2) clean_ids_clean)

section \<open>Where peers come from\<close>

lemma normalize_clean: "clean (normalize v)"
proof -
  have "clean ''unknown''" by code_simp
  then show ?thesis
    by (auto simp: normalize_def clean_def Let_def strip_casefold split: option.splits)
qed

lemma cohort_ok_provider_clean: "cohort_ok c \<Longrightarrow> clean (ck_provider_id (co_key c))"
  by (cases "co_samples c")
    (auto simp: cohort_ok_def CohortKey_from_sample_def normalize_clean dest!: sym [of _ "co_key c"])

lemma nest_observations_fst: "map fst (nest_observations flat) = dedup (map fst flat)"
  by (simp add: nest_observations_def comp_def case_prod_beta flip: group_by_keys)

lemma map_nested_fst: "map_nested f d = Inr ms \<Longrightarrow> map fst ms = map fst d"
  unfolding map_nested_def
  by (rule rmap_map_proj) (auto simp: rbind_Inr_iff split: prod.splits)

lemma provider_metrics_ids:
  assumes "provider_metrics cohorts d = Inr ms"
  shows "set (map fst ms) \<subseteq> (ck_provider_id \<circ> co_key) ` set cohorts" and "distinct (map fst ms)"
proof -
  let ?row = "\<lambda>cohort. rbind (dict_get d (CohortKey_value (co_key cohort))) (\<lambda>report.
      rbind (Confidence_overall (cr_confidence report)) (\<lambda>overall.
      Inr (map (\<lambda>m. (ck_provider_id (co_key cohort), (ms_name m, ms_unit m, ms_direction m),
             stat_median (ms_statistics m), cr_cohort_id report, overall)) (cr_metrics report))))"
  from assms obtain rows where rows: "rmap ?row cohorts = Inr rows"
    and ms: "map_nested provider_metric (nest_observations (concat rows)) = Inr ms"
    unfolding provider_metrics_def rbind_Inr_iff by blast
  have ids: "map fst ms = dedup (map fst (concat rows))"
    using map_nested_fst [OF ms] by (simp add: nest_observations_fst)
  then show "distinct (map fst ms)" by simp
  show "set (map fst ms) \<subseteq> (ck_provider_id \<circ> co_key) ` set cohorts"
  proof
    fix p
    assume "p \<in> set (map fst ms)"
    then obtain row e where row: "row \<in> set rows" and e: "e \<in> set row" "p = fst e"
      unfolding ids by auto
    from rmap_mem [OF rows row] obtain c where c: "c \<in> set cohorts" "?row c = Inr row" ..
    from c(2) e have "p = ck_provider_id (co_key c)" by (auto simp: rbind_Inr_iff)
    with c(1) show "p \<in> (ck_provider_id \<circ> co_key) ` set cohorts" by simp
  qed
qed

lemma available_for_fst: "fst ` set (available_for key d) \<subseteq> fst ` set d"
  by (force simp: available_for_def split: option.splits)

definition same_peer_group :: "Cohort list \<Rightarrow> string \<Rightarrow> string list \<Rightarrow> bool" where
  "same_peer_group cohorts pid peers \<longleftrightarrow>
    list_ex (\<lambda>own. comparable own \<and> ck_provider_id (co_key own) = pid \<and>
      list_all (\<lambda>p. p \<noteq> pid \<and> list_ex (\<lambda>c. comparable c \<and> ck_provider_id (co_key c) = p \<and>
        PeerKey_from_cohort c = PeerKey_from_cohort own) cohorts) peers) cohorts"

text \<open>Shared by the two comparisons: peers within one group of cohorts with one peer key.\<close>

lemma same_peer_groupI:
  assumes "\<forall>c \<in> set grouped. c \<in> set cohorts \<and> comparable c \<and> PeerKey_from_cohort c = pk"
    and "ids \<subseteq> (ck_provider_id \<circ> co_key) ` set grouped" and "pid \<in> ids" and "set peers = ids - {pid}"
  shows "same_peer_group cohorts pid peers"
proof -
  have ex: "\<exists>c \<in> set cohorts. comparable c \<and> ck_provider_id (co_key c) = p \<and> PeerKey_from_cohort c = pk"
    if "p \<in> ids" for p
    using that assms(1,2) by fastforce
  from ex [OF assms(3)] obtain own where own: "own \<in> set cohorts" "comparable own"
    "ck_provider_id (co_key own) = pid" "PeerKey_from_cohort own = pk" by blast
  have "\<forall>p \<in> set peers. p \<noteq> pid \<and> (\<exists>c \<in> set cohorts. comparable c \<and> ck_provider_id (co_key c) = p \<and>
      PeerKey_from_cohort c = PeerKey_from_cohort own)"
    using ex assms(4) own(4) by blast
  with own show ?thesis unfolding same_peer_group_def list_ex_iff list_all_iff by blast
qed

lemma compare_group_ok:
  assumes run: "compare_group sha d (pk, grouped) = Inr rows" and mem: "(pid, c) \<in> set rows"
    and clean: "\<forall>co \<in> set grouped. clean (ck_provider_id (co_key co))"
    and grp: "\<forall>co \<in> set grouped. co \<in> set cohorts \<and> comparable co \<and> PeerKey_from_cohort co = pk"
  shows "comparison_ok c \<and> same_peer_group cohorts pid (pc_peer_provider_ids c)"
proof -
  have "\<not> length (remdups (map (\<lambda>c. ck_provider_id (co_key c)) grouped)) < 2"
    using run mem by (auto simp: compare_group_def)
  with run obtain ms xs where ms: "provider_metrics grouped d = Inr ms"
    and xs: "rmap (\<lambda>key. if snd (snd key) = NEUTRAL then Inr []
            else compare_each (compare_metric sha pk key) (available_for key ms)) (sorted_metric_keys ms) = Inr xs"
    and rows: "rows = concat xs"
    by (auto simp: compare_group_def rbind_Inr_iff)
  from mem rows obtain row where row: "row \<in> set xs" "(pid, c) \<in> set row" by auto
  from rmap_mem [OF xs row(1)] obtain key where
    each: "(if snd (snd key) = NEUTRAL then Inr []
            else compare_each (compare_metric sha pk key) (available_for key ms)) = Inr row" ..
  with row(2) have each: "compare_each (compare_metric sha pk key) (available_for key ms) = Inr row"
    by (cases "snd (snd key) = NEUTRAL") auto
  have ids: "fst ` set (available_for key ms) \<subseteq> (ck_provider_id \<circ> co_key) ` set grouped"
    using available_for_fst [of key ms] provider_metrics_ids(1) [OF ms] by auto
  then have cl: "\<forall>p \<in> fst ` set (available_for key ms). clean p" using clean by fastforce
  note peers = performance.compared_with_all_others [OF each row(2) cl]
  from compare_each_mem [OF each row(2)] obtain p where "p \<in> set (available_for key ms)" "pid = fst p"
    and cm: "compare_metric sha pk key pid (snd p) (filter (\<lambda>q. fst q \<noteq> pid) (available_for key ms)) = Inr (Some c)" .
  from compare_metric_ok(1) [OF cm] same_peer_groupI [OF grp ids peers] show ?thesis by simp
qed

lemma build_peer_comparisons_ok:
  assumes ok: "list_all cohort_ok cohorts" and run: "build_peer_comparisons sha cohorts reports = Inr d"
  shows "list_all (\<lambda>(pid, items). list_all (\<lambda>c. comparison_ok c \<and>
      same_peer_group cohorts pid (pc_peer_provider_ids c)) items) d"
proof -
  let ?gs = "group_by PeerKey_from_cohort (filter comparable cohorts)"
  from run obtain rep rows where
    rows: "rmap (compare_group sha rep) (sort_key (\<lambda>g. PeerKey_value (fst g)) ?gs) = Inr rows"
    and d: "d = map (\<lambda>(pid, items). (pid, sort_key comparison_order (map snd items))) (group_by fst (concat rows))"
    by (auto simp: build_peer_comparisons_def rbind_Inr_iff)
  have all: "comparison_ok c \<and> same_peer_group cohorts pid (pc_peer_provider_ids c)"
    if mem: "(pid, c) \<in> set (concat rows)" for pid c
  proof -
    from mem obtain row where row: "row \<in> set rows" "(pid, c) \<in> set row" by auto
    from rmap_mem [OF rows row(1)] obtain g where g: "g \<in> set ?gs" and cg: "compare_group sha rep g = Inr row"
      by auto
    obtain pk grouped where gp: "g = (pk, grouped)" by (cases g)
    have grouped: "grouped = filter (\<lambda>c. PeerKey_from_cohort c = pk) (filter comparable cohorts)"
      using g gp by (simp add: group_by_mem)
    show ?thesis
      using cg row(2) ok by (intro compare_group_ok [of sha rep pk grouped row])
        (auto simp: gp grouped list_all_iff cohort_ok_provider_clean)
  qed
  then have "comparison_ok c \<and> same_peer_group cohorts pid (pc_peer_provider_ids c)"
    if "row \<in> set rows" "(pid, c) \<in> set row" for pid c row
    using that by (metis UN_I set_concat)
  then show ?thesis unfolding d list_all_iff
    by (fastforce simp: group_by_mem)
qed

section \<open>Properties\<close>

text \<open>
  C2: No provider is ever its own peer: every comparison listed for a provider names at least
  one peer, all of them other providers with a cohort of the same peer key (known provider and
  country included), each once and sorted; its numbers are finite, its direction is not
  neutral and its outcome is the one of its difference.
\<close>

theorem peer_comparisons_only_peers:
  assumes "list_all cohort_ok cohorts"
  shows "case build_peer_comparisons sha256 cohorts reports of
      Inl e \<Rightarrow> True
    | Inr d \<Rightarrow> list_all (\<lambda>(pid, items). list_all (\<lambda>c. comparison_ok c \<and>
        same_peer_group cohorts pid (pc_peer_provider_ids c)) items) d"
  using build_peer_comparisons_ok [OF assms] by (auto split: sum.splits)

text \<open>Two providers with one cohort each and the reports of those cohorts.\<close>

definition demo_cohort :: "string \<Rightarrow> Cohort" where
  "demo_cohort pid = (let s = (demo_sample pid 0 (Fin 1))\<lparr>smp_provider :=
       \<lparr>prov_provider_id = pid, prov_name = ''P'', prov_country_code = Some ''DE''\<rparr>\<rparr>
     in cohort_of [s] (CohortKey_from_sample s))"

definition demo_report :: "string \<Rightarrow> pyfloat \<Rightarrow> ProviderReport" where
  "demo_report pid v = \<lparr>pr_schema_version = SCHEMA_VERSION, pr_report_id = ''r'' @ pid,
     pr_generated_at = utc 9, pr_provider_id = pid, pr_provider_name = ''P'', pr_total_samples = 1,
     pr_cohort_count = 1, pr_overall_confidence = LOW, pr_gaps = [], pr_cohorts = [
     \<lparr>cr_cohort_id = ''c'' @ pid, cr_cohort_key = CohortKey_value (co_key (demo_cohort pid)),
      cr_protocol = \<lparr>prot_profile = ''p'', prot_version = ''1'', prot_fingerprint = ''f''\<rparr>,
      cr_started_at = utc 0, cr_ended_at = utc 0, cr_sample_count = 1, cr_sample_ids = [pid],
      cr_coverage = \<lparr>cov_sample_count = 1, cov_observation_days = 1, cov_regions = [''eu''],
        cov_zones = [], cov_products = [], cov_plans = [], cov_available_metrics = [''cpu''],
        cov_expected_metrics = [], cov_gaps = []\<rparr>,
      cr_confidence = \<lparr>conf_measurement = LOW, conf_statistical = LOW, conf_coverage = MEDIUM\<rparr>,
      cr_metrics = [\<lparr>ms_name = ''cpu'', ms_unit = ''ops'', ms_direction = HIGHER_IS_BETTER,
        ms_contributing_samples = 1, ms_raw_observations = 1,
        ms_statistics = \<lparr>stat_count = 1, stat_minimum = v, stat_maximum = v, stat_mean = v,
          stat_median = v, stat_standard_deviation = Fin 0, stat_coefficient_of_variation = Some (Fin 0),
          stat_p10 = v, stat_p90 = v\<rparr>\<rparr>]\<rparr>]\<rparr>"

theorem peer_comparisons_only_peers_witness:
  "\<exists>d. build_peer_comparisons (\<lambda>t. ''digest'') [demo_cohort ''a'', demo_cohort ''b'']
       [demo_report ''a'' (Fin 4), demo_report ''b'' (Fin 2)] = Inr d \<and>
     map (\<lambda>(pid, items). (pid, map (\<lambda>c. (pc_peer_provider_ids c, pc_outcome c)) items)) d =
       [(''a'', [([''b''], AHEAD)]), (''b'', [([''a''], BEHIND)])] \<and>
     list_all (\<lambda>(pid, items). list_all (\<lambda>c. comparison_ok c \<and>
        same_peer_group [demo_cohort ''a'', demo_cohort ''b''] pid (pc_peer_provider_ids c)) items) d"
proof -
  have "list_all cohort_ok [demo_cohort ''a'', demo_cohort ''b'']"
    using cohort_of_ok(1) by (simp add: demo_cohort_def Let_def)
  note ok = peer_comparisons_only_peers [OF this, of "\<lambda>t. ''digest''"
      "[demo_report ''a'' (Fin 4), demo_report ''b'' (Fin 2)]"]
  have "case build_peer_comparisons (\<lambda>t. ''digest'') [demo_cohort ''a'', demo_cohort ''b'']
       [demo_report ''a'' (Fin 4), demo_report ''b'' (Fin 2)] of Inl e \<Rightarrow> False
     | Inr d \<Rightarrow> map (\<lambda>(pid, items). (pid, map (\<lambda>c. (pc_peer_provider_ids c, pc_outcome c)) items)) d =
       [(''a'', [([''b''], AHEAD)]), (''b'', [([''a''], BEHIND)])]"
    by code_simp
  with ok show ?thesis by (auto split: sum.splits)
qed

fun mirror :: "PeerComparisonOutcome \<Rightarrow> PeerComparisonOutcome" where
  "mirror AHEAD = BEHIND"
| "mirror SIMILAR = SIMILAR"
| "mirror BEHIND = AHEAD"

lemma outcome_neg: "outcome_of (fneg d) = mirror (outcome_of d)"
  by (cases d) (auto simp: outcome_of_def COMPARISON_THRESHOLD_PERCENT_def fle_def)

text \<open>
  Reading a metric in the other direction negates the relative difference and mirrors the
  outcome, bit for bit in binary64; the comparison never divides by zero, and it is left out
  exactly for a zero baseline.
\<close>

theorem direction_mirrors_outcome:
  "\<exists>r. relative_difference v m HIGHER_IS_BETTER = Inr r \<and>
     relative_difference v m LOWER_IS_BETTER = Inr (map_option fneg r) \<and>
     (r = None \<longleftrightarrow> m = Fin 0) \<and>
     map_option outcome_of (map_option fneg r) = map_option (mirror \<circ> outcome_of) r"
proof (cases "m = Fin 0")
  case True
  then show ?thesis by (simp add: relative_difference_def)
next
  case False
  then obtain q where "fdiv (fsub v m) (fabs m) = Inr q"
    using fdiv_Inl [of "fabs m" "fsub v m"] by (cases "fdiv (fsub v m) (fabs m)") auto
  with False show ?thesis by (simp add: relative_difference_def Let_def outcome_neg)
qed

end
