(* ===== verification/Pricing.thy ===== *)
theory Pricing
  imports Comparison
begin

text \<open>
  \<open>models/pricing.py\<close> (quotes and evidence), \<open>pricing/normalization.py\<close> and
  \<open>pricing/effective_cost.py\<close>: price quotes as the JSON loader constructs them, the choice of the
  most specific valid quote for a cohort, and the normalized evidence of the matched quotes.
\<close>

section \<open>Enums\<close>

datatype PricingCommitment = ON_DEMAND | RESERVED | SPOT

datatype PricingOperatingSystem = LINUX | WINDOWS | OTHER

datatype PricingSourceTier = OFFICIAL_API | OFFICIAL_DOCUMENT | RESELLER | MANUAL

datatype ValueIndexDefinition = METRIC_PER_USD_HOUR | INVERSE_METRIC_USD_HOUR

fun PricingCommitment_value :: "PricingCommitment \<Rightarrow> string" where
  "PricingCommitment_value ON_DEMAND = ''on_demand''"
| "PricingCommitment_value RESERVED = ''reserved''"
| "PricingCommitment_value SPOT = ''spot''"

fun PricingOperatingSystem_value :: "PricingOperatingSystem \<Rightarrow> string" where
  "PricingOperatingSystem_value LINUX = ''linux''"
| "PricingOperatingSystem_value WINDOWS = ''windows''"
| "PricingOperatingSystem_value OTHER = ''other''"

fun PricingSourceTier_value :: "PricingSourceTier \<Rightarrow> string" where
  "PricingSourceTier_value OFFICIAL_API = ''official_api''"
| "PricingSourceTier_value OFFICIAL_DOCUMENT = ''official_document''"
| "PricingSourceTier_value RESELLER = ''reseller''"
| "PricingSourceTier_value MANUAL = ''manual''"

section \<open>float(value) on a dynamic value\<close>

text \<open>Decimal digits with single underscores between them.\<close>

fun digit_run :: "string \<Rightarrow> string \<times> string" where
  "digit_run (c # CHR ''_'' # d # cs) =
     (if is_digit c \<and> is_digit d then (case digit_run (d # cs) of (ds, rest) \<Rightarrow> (c # ds, rest))
      else if is_digit c then ([c], CHR ''_'' # d # cs) else ([], c # CHR ''_'' # d # cs))"
| "digit_run (c # cs) =
     (if is_digit c then (case digit_run cs of (ds, rest) \<Rightarrow> (c # ds, rest)) else ([], c # cs))"
| "digit_run [] = ([], [])"

definition take_sign :: "string \<Rightarrow> int \<times> string" where
  "take_sign s = (case s of c # cs \<Rightarrow>
      if c = CHR ''-'' then (- 1, cs) else if c = CHR ''+'' then (1, cs) else (1, s)
    | [] \<Rightarrow> (1, []))"

definition pow10 :: "int \<Rightarrow> rat" where
  "pow10 e = (if 0 \<le> e then 10 ^ nat e else 1 / 10 ^ nat (- e))"

definition parse_exponent :: "string \<Rightarrow> int option" where
  "parse_exponent s = (case s of [] \<Rightarrow> Some 0
    | c # cs \<Rightarrow> if to_lower c \<noteq> CHR ''e'' then None
        else case take_sign cs of (sg, ds) \<Rightarrow> case digit_run ds of (digits, rest) \<Rightarrow>
          if digits = [] \<or> rest \<noteq> [] then None else Some (sg * digits_val digits))"

text \<open>\<open>float(s)\<close> on text: a decimal literal, \<open>inf\<close>, \<open>infinity\<close> or \<open>nan\<close>, with a sign.\<close>

definition float_of_str :: "string \<Rightarrow> pyfloat result" where
  "float_of_str text =
    (case take_sign (strip text) of (sg, body) \<Rightarrow>
      let word = casefold body in
      if word = ''inf'' \<or> word = ''infinity'' then Inr (if sg = 1 then PInf else NInf)
      else if word = ''nan'' then Inr NaN
      else case digit_run body of (whole, rest) \<Rightarrow>
        (case (case rest of CHR ''.'' # cs \<Rightarrow> digit_run cs | _ \<Rightarrow> ([], rest)) of (fraction, tail) \<Rightarrow>
          if whole @ fraction = [] then Inl (ValueError ''could not convert string to float'')
          else case parse_exponent tail of
              None \<Rightarrow> Inl (ValueError ''could not convert string to float'')
            | Some e \<Rightarrow> Inr (fl (of_int (sg * digits_val (whole @ fraction)) * pow10 (e - int (length fraction))))))"

fun py_float :: "pyval \<Rightarrow> pyfloat result" where
  "py_float (PInt n) = float_of_int n"
| "py_float (PFloat f) = Inr f"
| "py_float (PBool b) = Inr (Fin (if b then 1 else 0))"
| "py_float (PStr s) = float_of_str s"
| "py_float _ = Inl (TypeError ''float() argument must be a string or a real number'')"

section \<open>models/pricing.py\<close>

record PricingSource =
  src_tier :: PricingSourceTier
  src_reference :: string

definition PricingSource_init :: "PricingSourceTier \<Rightarrow> pyval \<Rightarrow> PricingSource result" where
  "PricingSource_init tier reference = rbind (dyn_strip reference) (\<lambda>r.
    if r = [] then Inl (ValueError ''pricing source reference must not be empty'')
    else Inr \<lparr>src_tier = tier, src_reference = r\<rparr>)"

record PriceQuote =
  pq_quote_id :: string
  pq_provider_id :: string
  pq_product :: string
  pq_plan :: string
  pq_region :: "string option"
  pq_zone :: "string option"
  pq_observed_at :: pydatetime
  pq_valid_from :: pydatetime
  pq_valid_until :: "pydatetime option"
  pq_commitment :: PricingCommitment
  pq_operating_system :: PricingOperatingSystem
  pq_amount :: pyfloat
  pq_currency :: string
  pq_billing_period :: string
  pq_billing_period_hours :: pyfloat
  pq_fx_to_usd :: pyfloat
  pq_tax_included :: "bool option"
  pq_source :: PricingSource

text \<open>\<open>value.strip() if value and value.strip() else None\<close>.\<close>

definition optional_label :: "pyval \<Rightarrow> string option result" where
  "optional_label v = (if truthy v
    then rbind (dyn_strip v) (\<lambda>s. Inr (if s = [] then None else Some s)) else Inr None)"

definition check_window :: "pydatetime \<Rightarrow> pydatetime \<Rightarrow> pydatetime option \<Rightarrow> unit result" where
  "check_window observed_at valid_from valid_until =
    (if \<not> aware observed_at then Inl (ValueError ''observed_at must contain timezone information'')
     else if \<not> aware valid_from then Inl (ValueError ''valid_from must contain timezone information'')
     else case valid_until of None \<Rightarrow> Inr ()
     | Some u \<Rightarrow> if \<not> aware u then Inl (ValueError ''valid_until must contain timezone information'')
         else if dt_instant u \<le> dt_instant valid_from
         then Inl (ValueError ''valid_until must be later than valid_from'') else Inr ())"

definition positive_float :: "pyval \<Rightarrow> string \<Rightarrow> pyfloat result" where
  "positive_float v field = rbind (py_float v) (\<lambda>f.
    if \<not> isfinite f \<or> fle f (Fin 0)
    then Inl (ValueError (field @ '' must be a positive finite number'')) else Inr f)"

text \<open>\<open>math.isclose(a, b, rel_tol=0.0, abs_tol=1e-12)\<close> on finite floats.\<close>

definition isclose_abs :: "pyfloat \<Rightarrow> pyfloat \<Rightarrow> bool" where
  "isclose_abs a b = fle (fabs (fsub b a)) (fl (1 / 10 ^ 12))"

definition PriceQuote_init ::
  "pyval \<Rightarrow> pyval \<Rightarrow> pyval \<Rightarrow> pyval \<Rightarrow> pyval \<Rightarrow> pyval \<Rightarrow> pydatetime \<Rightarrow> pydatetime \<Rightarrow> pydatetime option \<Rightarrow>
   PricingCommitment \<Rightarrow> PricingOperatingSystem \<Rightarrow> pyval \<Rightarrow> pyval \<Rightarrow> pyval \<Rightarrow> pyval \<Rightarrow> pyval \<Rightarrow> bool option \<Rightarrow>
   PricingSource \<Rightarrow> PriceQuote result" where
  "PriceQuote_init quote_id provider_id product plan region zone observed_at valid_from valid_until
      commitment operating_system amount currency billing_period billing_period_hours fx_to_usd
      tax_included source =
    rbind (required_str quote_id ''quote_id'') (\<lambda>qid.
    rbind (required_str provider_id ''provider_id'') (\<lambda>pid.
    rbind (required_str product ''product'') (\<lambda>pd.
    rbind (required_str plan ''plan'') (\<lambda>pl.
    rbind (required_str billing_period ''billing_period'') (\<lambda>bp.
    rbind (optional_label region) (\<lambda>rg.
    rbind (optional_label zone) (\<lambda>zn.
    rbind (check_window observed_at valid_from valid_until) (\<lambda>_.
    rbind (positive_float amount ''amount'') (\<lambda>am.
    rbind (positive_float billing_period_hours ''billing_period_hours'') (\<lambda>hours.
    rbind (positive_float fx_to_usd ''fx_to_usd'') (\<lambda>fx.
    rbind (dyn_strip currency) (\<lambda>cur0.
    let cur = upper cur0 in
    if length cur \<noteq> 3 \<or> \<not> isalpha cur
      then Inl (ValueError ''currency must be a three-letter alphabetic code'')
    else if cur = ''USD'' \<and> \<not> isclose_abs fx (Fin 1)
      then Inl (ValueError ''USD quotes must use fx_to_usd=1'')
    else Inr \<lparr>pq_quote_id = qid, pq_provider_id = pid, pq_product = pd, pq_plan = pl,
      pq_region = rg, pq_zone = zn, pq_observed_at = observed_at, pq_valid_from = valid_from,
      pq_valid_until = valid_until, pq_commitment = commitment,
      pq_operating_system = operating_system, pq_amount = am, pq_currency = cur,
      pq_billing_period = bp, pq_billing_period_hours = hours, pq_fx_to_usd = fx,
      pq_tax_included = tax_included, pq_source = source\<rparr>))))))))))))"

definition hourly_usd :: "PriceQuote \<Rightarrow> pyfloat result" where
  "hourly_usd q = fdiv (fmul (pq_amount q) (pq_fx_to_usd q)) (pq_billing_period_hours q)"

record PricingCatalog =
  pcat_schema_version :: string
  pcat_quotes :: "PriceQuote list"

definition PricingCatalog_init :: "pyval \<Rightarrow> PriceQuote list \<Rightarrow> PricingCatalog result" where
  "PricingCatalog_init schema_version quotes =
    rbind (dyn_strip schema_version) (\<lambda>version.
    if version \<noteq> ''1.0.0'' then Inl (ValueError ''unsupported pricing catalog schema_version'')
    else if length quotes \<noteq> card (set (map pq_quote_id quotes))
      then Inl (ValueError ''pricing quote IDs must be unique'')
    else Inr \<lparr>pcat_schema_version = version, pcat_quotes = quotes\<rparr>)"

record NormalizedPriceEvidence =
  ev_pricing_evidence_id :: string
  ev_quote_id :: string
  ev_provider_id :: string
  ev_product :: string
  ev_plan :: string
  ev_region :: "string option"
  ev_zone :: "string option"
  ev_commitment :: PricingCommitment
  ev_operating_system :: PricingOperatingSystem
  ev_observed_at :: pydatetime
  ev_valid_from :: pydatetime
  ev_valid_until :: "pydatetime option"
  ev_source_amount :: pyfloat
  ev_source_currency :: string
  ev_billing_period :: string
  ev_billing_period_hours :: pyfloat
  ev_fx_to_usd :: pyfloat
  ev_hourly_usd :: pyfloat
  ev_tax_included :: "bool option"
  ev_source :: PricingSource
  ev_confidence :: ConfidenceLevel
  ev_cohort_ids :: "string list"
  ev_sample_ids :: "string list"

text \<open>The evidence is built from typed values only, so its checks are on strings and floats.\<close>

definition label_of :: "string option \<Rightarrow> string option" where
  "label_of v = (case v of None \<Rightarrow> None | Some s \<Rightarrow> if strip s = [] then None else Some (strip s))"

definition positive_finite :: "pyfloat \<Rightarrow> string \<Rightarrow> pyfloat result" where
  "positive_finite f field = (if \<not> isfinite f \<or> fle f (Fin 0)
    then Inl (ValueError (field @ '' must be a positive finite number'')) else Inr f)"

definition NormalizedPriceEvidence_init :: "NormalizedPriceEvidence \<Rightarrow> NormalizedPriceEvidence result" where
  "NormalizedPriceEvidence_init e =
    rbind (stripped (ev_pricing_evidence_id e) ''pricing_evidence_id'') (\<lambda>eid.
    rbind (stripped (ev_quote_id e) ''quote_id'') (\<lambda>qid.
    rbind (stripped (ev_provider_id e) ''provider_id'') (\<lambda>pid.
    rbind (stripped (ev_product e) ''product'') (\<lambda>pd.
    rbind (stripped (ev_plan e) ''plan'') (\<lambda>pl.
    rbind (stripped (ev_billing_period e) ''billing_period'') (\<lambda>bp.
    rbind (check_window (ev_observed_at e) (ev_valid_from e) (ev_valid_until e)) (\<lambda>_.
    rbind (positive_finite (ev_source_amount e) ''source_amount'') (\<lambda>_.
    rbind (positive_finite (ev_billing_period_hours e) ''billing_period_hours'') (\<lambda>_.
    rbind (positive_finite (ev_fx_to_usd e) ''fx_to_usd'') (\<lambda>_.
    rbind (positive_finite (ev_hourly_usd e) ''hourly_usd'') (\<lambda>_.
    let cur = upper (strip (ev_source_currency e)) in
    if length cur \<noteq> 3 \<or> \<not> isalpha cur
      then Inl (ValueError ''source_currency must be a three-letter alphabetic code'')
    else let cohort_ids = clean_ids (ev_cohort_ids e); sample_ids = clean_ids (ev_sample_ids e) in
      if cohort_ids = [] \<or> sample_ids = []
      then Inl (ValueError ''normalized pricing evidence requires matched cohorts and samples'')
      else Inr (e\<lparr>ev_pricing_evidence_id := eid, ev_quote_id := qid, ev_provider_id := pid,
        ev_product := pd, ev_plan := pl, ev_billing_period := bp, ev_region := label_of (ev_region e),
        ev_zone := label_of (ev_zone e), ev_source_currency := cur, ev_cohort_ids := cohort_ids,
        ev_sample_ids := sample_ids\<rparr>))))))))))))"

section \<open>pricing/normalization.py\<close>

record PricingMatchResult =
  pmr_evidence :: "NormalizedPriceEvidence list"
  pmr_cohort_evidence :: "(string \<times> NormalizedPriceEvidence) list"
  pmr_selected_quote_ids :: "string list"
  pmr_unmatched_quote_ids :: "string list"

definition normalized_label :: "string option \<Rightarrow> string option" where
  "normalized_label v = (case v of None \<Rightarrow> None
    | Some s \<Rightarrow> let cleaned = casefold (strip s) in if cleaned = [] then None else Some cleaned)"

fun source_rank :: "PricingSourceTier \<Rightarrow> int" where
  "source_rank MANUAL = 1"
| "source_rank RESELLER = 2"
| "source_rank OFFICIAL_DOCUMENT = 3"
| "source_rank OFFICIAL_API = 4"

definition source_confidence :: "PricingSourceTier \<Rightarrow> ConfidenceLevel" where
  "source_confidence tier =
    (if tier = OFFICIAL_API \<or> tier = OFFICIAL_DOCUMENT then HIGH
     else if tier = RESELLER then MEDIUM else LOW)"

definition normalize_hourly_usd :: "PriceQuote \<Rightarrow> pyfloat result" where
  "normalize_hourly_usd quote = rbind (hourly_usd quote) (\<lambda>r.
    if \<not> isfinite r \<or> fle r (Fin 0)
    then Inl (ValueError (''quote '' @ pq_quote_id quote @ '' produced an invalid hourly USD value''))
    else Inr r)"

definition covers_cohort :: "PriceQuote \<Rightarrow> Cohort \<Rightarrow> bool" where
  "covers_cohort quote cohort \<longleftrightarrow>
    \<not> dt_instant (co_started_at cohort) < dt_instant (pq_valid_from quote) \<and>
    (case pq_valid_until quote of None \<Rightarrow> True
      | Some u \<Rightarrow> dt_instant (co_ended_at cohort) \<le> dt_instant u)"

definition matches_identity :: "PriceQuote \<Rightarrow> Cohort \<Rightarrow> bool" where
  "matches_identity quote cohort \<longleftrightarrow> (let key = co_key cohort in
    normalized_label (Some (pq_provider_id quote)) = Some (ck_provider_id key) \<and>
    normalized_label (Some (pq_product quote)) = Some (ck_product key) \<and>
    normalized_label (Some (pq_plan quote)) = Some (ck_plan key) \<and>
    (case normalized_label (pq_region quote) of None \<Rightarrow> True | Some r \<Rightarrow> r = ck_region key) \<and>
    (case normalized_label (pq_zone quote) of None \<Rightarrow> True | Some z \<Rightarrow> z = ck_zone key))"

text \<open>\<open>observed_at.timestamp()\<close> divides the microseconds since the epoch by a million.\<close>

definition quote_rank :: "PriceQuote \<Rightarrow> (int \<times> int \<times> int \<times> pyfloat) result" where
  "quote_rank quote = rbind (int_truediv (dt_instant (pq_observed_at quote)) 1000000) (\<lambda>ts.
    Inr (if pq_region quote \<noteq> None then 1 else 0, if pq_zone quote \<noteq> None then 1 else 0,
         source_rank (src_tier (pq_source quote)), ts))"

definition quote_applies :: "pydatetime \<Rightarrow> Cohort \<Rightarrow> PriceQuote \<Rightarrow> bool" where
  "quote_applies generated_at cohort quote \<longleftrightarrow>
    dt_instant (pq_observed_at quote) \<le> dt_instant generated_at \<and>
    matches_identity quote cohort \<and> covers_cohort quote cohort"

definition select_quote ::
  "Cohort \<Rightarrow> PriceQuote list \<Rightarrow> pydatetime \<Rightarrow> PriceQuote option result" where
  "select_quote cohort quotes generated_at =
    (let candidates = filter (quote_applies generated_at cohort) quotes in
     if candidates = [] then Inr None
     else rbind (rmap quote_rank candidates) (\<lambda>ranks.
       rbind (max_by id ranks) (\<lambda>best_rank.
       let best = filter (\<lambda>q. quote_rank q = Inr best_rank) candidates in
       rbind (rmap normalize_hourly_usd best) (\<lambda>hourly.
       if 1 < length (remdups (map (\<lambda>h. fround 12 (fin_val h)) hourly))
       then Inl (ValueError (''ambiguous pricing quotes for cohort '' @ CohortKey_value (co_key cohort)
         @ '': '' @ join '', '' (sort (map pq_quote_id best))))
       else rbind (min_by pq_quote_id best) (\<lambda>q. Inr (Some q))))))"

definition reports_by_key :: "ProviderReport list \<Rightarrow> (string \<times> CohortReport) list" where
  "reports_by_key reports =
    foldl (\<lambda>d c. AList.update (cr_cohort_key c) c d) [] (concat (map pr_cohorts reports))"

definition make_evidence ::
  "(string \<Rightarrow> string) \<Rightarrow> (string \<times> CohortReport) list \<Rightarrow> (string \<times> PriceQuote) list \<Rightarrow>
   string \<times> (Cohort \<times> PriceQuote) list \<Rightarrow> (string \<times> NormalizedPriceEvidence) result" where
  "make_evidence sha256 cohort_reports quote_by_id g =
    (case g of (quote_id, matched) \<Rightarrow>
      rbind (dict_get quote_by_id quote_id) (\<lambda>quote.
      rbind (rmap (\<lambda>c. rbind (dict_get cohort_reports (CohortKey_value (co_key (fst c))))
          (\<lambda>r. Inr (cr_cohort_id r))) matched) (\<lambda>ids.
      let cohort_ids = sort ids;
          sample_ids = sorted_set (concat (map (\<lambda>c. map smp_sample_id (co_samples (fst c))) matched)) in
      rbind (normalize_hourly_usd quote) (\<lambda>hourly.
      rbind (NormalizedPriceEvidence_init
        \<lparr>ev_pricing_evidence_id = mk_identifier sha256 ''pricing-evidence'' (pq_quote_id quote # cohort_ids),
         ev_quote_id = pq_quote_id quote, ev_provider_id = pq_provider_id quote,
         ev_product = pq_product quote, ev_plan = pq_plan quote, ev_region = pq_region quote,
         ev_zone = pq_zone quote, ev_commitment = pq_commitment quote,
         ev_operating_system = pq_operating_system quote, ev_observed_at = pq_observed_at quote,
         ev_valid_from = pq_valid_from quote, ev_valid_until = pq_valid_until quote,
         ev_source_amount = pq_amount quote, ev_source_currency = pq_currency quote,
         ev_billing_period = pq_billing_period quote,
         ev_billing_period_hours = pq_billing_period_hours quote, ev_fx_to_usd = pq_fx_to_usd quote,
         ev_hourly_usd = hourly, ev_tax_included = pq_tax_included quote, ev_source = pq_source quote,
         ev_confidence = source_confidence (src_tier (pq_source quote)),
         ev_cohort_ids = cohort_ids, ev_sample_ids = sample_ids\<rparr>) (\<lambda>e. Inr (quote_id, e))))))"

definition selected_quotes ::
  "PricingCommitment \<Rightarrow> PricingOperatingSystem \<Rightarrow> PriceQuote list \<Rightarrow> PriceQuote list" where
  "selected_quotes commitment operating_system quotes = sort_key pq_quote_id
    (filter (\<lambda>q. pq_commitment q = commitment \<and> pq_operating_system q = operating_system) quotes)"

definition assign_quotes ::
  "Cohort list \<Rightarrow> PriceQuote list \<Rightarrow> pydatetime \<Rightarrow> (Cohort \<times> PriceQuote) list result" where
  "assign_quotes cohorts selected generated_at =
    rbind (rmap (\<lambda>c. rbind (select_quote c selected generated_at) (\<lambda>q.
        Inr (case q of None \<Rightarrow> [] | Some quote \<Rightarrow> [(c, quote)]))) cohorts) (\<lambda>rows. Inr (concat rows))"

definition match_pricing_evidence ::
  "(string \<Rightarrow> string) \<Rightarrow> Cohort list \<Rightarrow> ProviderReport list \<Rightarrow> PriceQuote list \<Rightarrow> pydatetime \<Rightarrow>
   PricingCommitment \<Rightarrow> PricingOperatingSystem \<Rightarrow> PricingMatchResult result" where
  "match_pricing_evidence sha256 cohorts reports quotes generated_at commitment operating_system =
    (if \<not> aware generated_at then Inl (ValueError ''generated_at must contain timezone information'')
     else let selected = selected_quotes commitment operating_system quotes;
              quote_ids = map pq_quote_id selected in
     if length quote_ids \<noteq> card (set quote_ids)
       then Inl (ValueError ''pricing quote IDs must be unique across catalogs'')
     else rbind (assign_quotes cohorts selected generated_at) (\<lambda>matched.
       let assignments = foldl (\<lambda>d (c, q). AList.update (CohortKey_value (co_key c)) q d) [] matched;
           grouped = group_by (\<lambda>(c, q). pq_quote_id q) matched;
           quote_by_id = map (\<lambda>q. (pq_quote_id q, q)) selected in
       rbind (rmap (make_evidence sha256 (reports_by_key reports) quote_by_id) (sort_key fst grouped))
         (\<lambda>evidence_by_quote.
       rbind (rmap (\<lambda>(cohort_key, q). rbind (dict_get evidence_by_quote (pq_quote_id q)) (\<lambda>e.
           Inr (cohort_key, e))) assignments) (\<lambda>cohort_evidence.
       Inr \<lparr>pmr_evidence = sort_key ev_pricing_evidence_id (map snd evidence_by_quote),
            pmr_cohort_evidence = cohort_evidence, pmr_selected_quote_ids = quote_ids,
            pmr_unmatched_quote_ids = sorted_set (filter (\<lambda>i. i \<notin> fst ` set evidence_by_quote) quote_ids)\<rparr>))))"

section \<open>pricing/effective_cost.py\<close>

definition value_index ::
  "pyfloat \<Rightarrow> pyfloat \<Rightarrow> MetricDirection \<Rightarrow> (pyfloat \<times> ValueIndexDefinition) option result" where
  "value_index mvalue hourly direction =
    (if \<not> isfinite mvalue \<or> \<not> isfinite hourly \<or> fle hourly (Fin 0) \<or> direction = NEUTRAL then Inr None
     else if direction = HIGHER_IS_BETTER then
       if fle mvalue (Fin 0) then Inr None
       else rbind (fdiv mvalue hourly) (\<lambda>v. Inr (Some (v, METRIC_PER_USD_HOUR)))
     else if fle mvalue (Fin 0) then Inr None
     else rbind (fdiv (Fin 1) (fmul mvalue hourly)) (\<lambda>v. Inr (Some (v, INVERSE_METRIC_USD_HOUR))))"

section \<open>Choosing a quote\<close>

lemma positive_finite_Inr:
  "\<not> (\<not> isfinite f \<or> fle f (Fin 0)) \<longleftrightarrow> (\<exists>r. f = Fin r \<and> 0 < r)"
  by (cases f) (auto simp: not_le)

lemma normalize_hourly_usd_pos: "normalize_hourly_usd q = Inr h \<Longrightarrow> \<exists>r. h = Fin r \<and> 0 < r"
  using positive_finite_Inr [of h] by (auto simp: normalize_hourly_usd_def rbind_Inr_iff split: if_splits)

definition best_quote :: "pydatetime \<Rightarrow> Cohort \<Rightarrow> PriceQuote list \<Rightarrow> PriceQuote \<Rightarrow> bool" where
  "best_quote generated_at cohort quotes q \<longleftrightarrow> q \<in> set quotes \<and> quote_applies generated_at cohort q \<and>
    (\<exists>r h. quote_rank q = Inr r \<and> normalize_hourly_usd q = Inr h \<and>
      (\<forall>q' \<in> set quotes. quote_applies generated_at cohort q' \<longrightarrow>
        (\<exists>r'. quote_rank q' = Inr r' \<and> r' \<le> r \<and> (r' = r \<longrightarrow> pq_quote_id q \<le> pq_quote_id q' \<and>
          (\<exists>h'. normalize_hourly_usd q' = Inr h' \<and> fround 12 (fin_val h') = fround 12 (fin_val h))))))"

lemma length_remdups_le_1: "\<not> 1 < length (remdups xs) \<Longrightarrow> x \<in> set xs \<Longrightarrow> y \<in> set xs \<Longrightarrow> x = y"
proof -
  assume a: "\<not> 1 < length (remdups xs)" and xy: "x \<in> set xs" "y \<in> set xs"
  then have "remdups xs \<noteq> []" by auto
  with a have "length (remdups xs) = 1" by (cases "remdups xs") auto
  from remdups_single [OF this xy(1)] remdups_single [OF this xy(2)] show ?thesis by simp
qed

lemma select_quote_Some:
  assumes "select_quote c qs g = Inr (Some q)"
  shows "best_quote g c qs q"
proof -
  let ?cands = "filter (quote_applies g c) qs"
  obtain ranks r hs where ranks: "rmap quote_rank ?cands = Inr ranks" and r: "max_by id ranks = Inr r"
    and hs: "rmap normalize_hourly_usd (filter (\<lambda>q. quote_rank q = Inr r) ?cands) = Inr hs"
    and one: "\<not> 1 < length (remdups (map (\<lambda>h. fround 12 (fin_val h)) hs))"
    and q: "min_by pq_quote_id (filter (\<lambda>q. quote_rank q = Inr r) ?cands) = Inr q"
    using assms by (auto simp: select_quote_def Let_def rbind_Inr_iff simp del: filter_filter split: if_splits)
  note min = min_by_correct [OF q] and max = max_by_correct [OF r]
  from min have mem: "q \<in> set qs" "quote_applies g c q" "quote_rank q = Inr r" by auto
  from rmap_mem_arg [OF hs] min obtain h where h: "normalize_hourly_usd q = Inr h" "h \<in> set hs" by blast
  have "\<exists>r'. quote_rank q' = Inr r' \<and> r' \<le> r \<and> (r' = r \<longrightarrow> pq_quote_id q \<le> pq_quote_id q' \<and>
          (\<exists>h'. normalize_hourly_usd q' = Inr h' \<and> fround 12 (fin_val h') = fround 12 (fin_val h)))"
    if q': "q' \<in> set qs" "quote_applies g c q'" for q'
  proof -
    from rmap_mem_arg [OF ranks, of q'] q' obtain r' where r': "quote_rank q' = Inr r'" "r' \<in> set ranks" by auto
    have le: "r' \<le> r" using max r'(2) by simp
    have "pq_quote_id q \<le> pq_quote_id q' \<and>
        (\<exists>h'. normalize_hourly_usd q' = Inr h' \<and> fround 12 (fin_val h') = fround 12 (fin_val h))"
      if eq: "r' = r"
    proof -
      have best: "q' \<in> set (filter (\<lambda>q. quote_rank q = Inr r) ?cands)" using q' r' eq by simp
      from rmap_mem_arg [OF hs best] obtain h' where h': "normalize_hourly_usd q' = Inr h'" "h' \<in> set hs" by blast
      have "fround 12 (fin_val h') = fround 12 (fin_val h)"
        using h(2) h'(2) by (intro length_remdups_le_1 [OF one]) auto
      with best min h'(1) show ?thesis by auto
    qed
    with r'(1) le show ?thesis by blast
  qed
  with mem h(1) show ?thesis unfolding best_quote_def by blast
qed

lemma select_quote_None:
  "select_quote c qs g = Inr None \<longleftrightarrow> (\<forall>q \<in> set qs. \<not> quote_applies g c q)"
  by (auto simp: select_quote_def Let_def rbind_Inr_iff filter_empty_conv)

section \<open>The match\<close>

lemma update_mem: "p \<in> set (AList.update k v d) \<Longrightarrow> p = (k, v) \<or> p \<in> set d"
  by (induction d) (auto split: if_splits)

lemma foldl_update_mem:
  "p \<in> set (foldl (\<lambda>d x. AList.update (f x) (g x) d) d0 xs) \<Longrightarrow> p \<in> set d0 \<or> (\<exists>x \<in> set xs. p = (f x, g x))"
  by (induction xs arbitrary: d0) (auto dest!: update_mem)

lemma assign_quotes_mem:
  assumes "assign_quotes cs sel g = Inr matched" and "(c, q) \<in> set matched"
  shows "c \<in> set cs \<and> best_quote g c sel q"
proof -
  let ?row = "\<lambda>c. rbind (select_quote c sel g) (\<lambda>q.
        Inr (case q of None \<Rightarrow> [] | Some quote \<Rightarrow> [(c, quote)]))"
  from assms obtain rows row where rows: "rmap ?row cs = Inr rows" and row: "row \<in> set rows" "(c, q) \<in> set row"
    by (auto simp: assign_quotes_def rbind_Inr_iff)
  from rmap_mem [OF rows row(1)] obtain c' where c': "c' \<in> set cs" "?row c' = Inr row" ..
  from c'(2) row(2) have "c = c'" "select_quote c sel g = Inr (Some q)"
    by (auto simp: rbind_Inr_iff split: option.splits)
  with c'(1) select_quote_Some show ?thesis by simp
qed

text \<open>What the evidence of a quote says.\<close>

definition evidence_of :: "PriceQuote \<Rightarrow> NormalizedPriceEvidence \<Rightarrow> bool" where
  "evidence_of q e \<longleftrightarrow> ev_quote_id e = strip (pq_quote_id q) \<and>
    ev_provider_id e = strip (pq_provider_id q) \<and>
    normalize_hourly_usd q = Inr (ev_hourly_usd e) \<and> flt (Fin 0) (ev_hourly_usd e) \<and>
    ev_commitment e = pq_commitment q \<and> ev_operating_system e = pq_operating_system q \<and>
    ev_valid_from e = pq_valid_from q \<and> ev_valid_until e = pq_valid_until q \<and>
    ev_source_amount e = pq_amount q \<and> ev_confidence e = source_confidence (src_tier (pq_source q)) \<and>
    ev_cohort_ids e \<noteq> [] \<and> ev_sample_ids e \<noteq> []"

lemma make_evidence_ok:
  assumes "make_evidence sha reps qs (qid, matched) = Inr (qid', e)"
  shows "qid' = qid \<and> (\<exists>q. dict_get qs qid = Inr q \<and> evidence_of q e)"
  using assms
  by (auto simp: make_evidence_def NormalizedPriceEvidence_init_def evidence_of_def stripped_def
      rbind_Inr_iff Let_def split: if_splits dest: normalize_hourly_usd_pos)

lemma make_evidence_fst: "make_evidence sha reps qs g = Inr r \<Longrightarrow> fst r = fst g"
  using make_evidence_ok [of sha reps qs "fst g" "snd g" "fst r" "snd r"] by simp

lemma selected_mem:
  "q \<in> set (selected_quotes cm os qs) \<longleftrightarrow> q \<in> set qs \<and> pq_commitment q = cm \<and> pq_operating_system q = os"
  by (auto simp: selected_quotes_def)

lemma dict_get_quote:
  assumes "distinct (map pq_quote_id sel)" and "q \<in> set sel"
  shows "dict_get (map (\<lambda>q. (pq_quote_id q, q)) sel) (pq_quote_id q) = Inr q"
proof -
  have "map_of (map (\<lambda>q. (pq_quote_id q, q)) sel) (pq_quote_id q) = Some q"
    using assms by (intro map_of_is_SomeI) (auto simp: comp_def)
  then show ?thesis by (simp add: dict_get_def)
qed

text \<open>Every entry of the cohort lookup is the evidence of a best quote of a cohort with that key.\<close>

definition match_sound ::
  "Cohort list \<Rightarrow> PriceQuote list \<Rightarrow> pydatetime \<Rightarrow> string \<times> NormalizedPriceEvidence \<Rightarrow> bool" where
  "match_sound cohorts selected generated_at p \<longleftrightarrow>
    (\<exists>c \<in> set cohorts. \<exists>q. fst p = CohortKey_value (co_key c) \<and>
      best_quote generated_at c selected q \<and> evidence_of q (snd p))"

lemma match_pricing_facts:
  assumes "match_pricing_evidence sha cs reps qs g cm os = Inr r"
  defines "sel \<equiv> selected_quotes cm os qs"
  shows "pmr_selected_quote_ids r = map pq_quote_id sel" and "distinct (pmr_selected_quote_ids r)"
    and "\<forall>p \<in> set (pmr_cohort_evidence r). match_sound cs sel g p"
    and "length (pmr_selected_quote_ids r) = length (pmr_evidence r) + length (pmr_unmatched_quote_ids r)"
    and "set (pmr_unmatched_quote_ids r) \<subseteq> set (pmr_selected_quote_ids r)"
    and "\<forall>e \<in> set (pmr_evidence r). \<exists>q \<in> set sel. evidence_of q e"
proof -
  obtain matched evs ces where
    dist: "length (map pq_quote_id sel) = card (set (map pq_quote_id sel))"
    and matched: "assign_quotes cs sel g = Inr matched"
    and evs: "rmap (make_evidence sha (reports_by_key reps) (map (\<lambda>q. (pq_quote_id q, q)) sel))
      (sort_key fst (group_by (\<lambda>(c, q). pq_quote_id q) matched)) = Inr evs"
    and ces: "rmap (\<lambda>(cohort_key, q). rbind (dict_get evs (pq_quote_id q)) (\<lambda>e. Inr (cohort_key, e)))
      (foldl (\<lambda>d (c, q). AList.update (CohortKey_value (co_key c)) q d) [] matched) = Inr ces"
    and r: "r = \<lparr>pmr_evidence = sort_key ev_pricing_evidence_id (map snd evs), pmr_cohort_evidence = ces,
      pmr_selected_quote_ids = map pq_quote_id sel,
      pmr_unmatched_quote_ids = sorted_set (filter (\<lambda>i. i \<notin> fst ` set evs) (map pq_quote_id sel))\<rparr>"
    using assms unfolding match_pricing_evidence_def sel_def [symmetric]
    by (auto simp: rbind_Inr_iff Let_def simp del: length_map split: if_splits)
  have ids: "distinct (map pq_quote_id sel)" using dist length_set_eq_distinct by blast
  show "pmr_selected_quote_ids r = map pq_quote_id sel" "distinct (pmr_selected_quote_ids r)"
    using ids by (simp_all add: r)
  have keys: "map fst evs = sort (dedup (map (\<lambda>(c, q). pq_quote_id q) matched))"
  proof -
    have "map fst evs = map fst (sort_key fst (group_by (\<lambda>(c, q). pq_quote_id q) matched))"
      by (rule rmap_map_proj [OF evs]) (rule make_evidence_fst)
    then show ?thesis by (simp add: map_sort_key group_by_keys)
  qed
  have sel_of: "(c, q) \<in> set matched \<Longrightarrow> q \<in> set sel" for c q
    using assign_quotes_mem [OF matched] by (auto simp: best_quote_def)
  have sub: "fst ` set evs \<subseteq> set (map pq_quote_id sel)"
  proof -
    have "fst ` set evs = set (map fst evs)" by simp
    also have "\<dots> = (\<lambda>(c, q). pq_quote_id q) ` set matched" unfolding keys by simp
    finally show ?thesis using sel_of by auto
  qed
  have dk: "distinct (map fst evs)" unfolding keys by simp
  have ev: "\<exists>q \<in> set sel. pq_quote_id q = qid \<and> evidence_of q e" if mem: "(qid, e) \<in> set evs" for qid e
  proof -
    from rmap_mem [OF evs mem] obtain a b where "make_evidence sha (reports_by_key reps)
        (map (\<lambda>q. (pq_quote_id q, q)) sel) (a, b) = Inr (qid, e)" by auto
    from make_evidence_ok [OF this] obtain q where
      q: "dict_get (map (\<lambda>q. (pq_quote_id q, q)) sel) qid = Inr q" "evidence_of q e" by auto
    have "qid \<in> fst ` set evs" using mem by force
    with sub obtain q' where q': "q' \<in> set sel" "pq_quote_id q' = qid" by auto
    with dict_get_quote [OF ids q'(1)] q show ?thesis by auto
  qed
  show "\<forall>e \<in> set (pmr_evidence r). \<exists>q \<in> set sel. evidence_of q e"
    using ev by (fastforce simp: r)
  show "set (pmr_unmatched_quote_ids r) \<subseteq> set (pmr_selected_quote_ids r)"
    by (auto simp: r)
  have "card (set (map pq_quote_id sel)) =
      card (fst ` set evs) + card (set (map pq_quote_id sel) - fst ` set evs)"
    using sub by (metis List.finite_set card_Diff_subset card_mono finite_subset le_add_diff_inverse)
  moreover have "card (fst ` set evs) = length evs"
    using dk distinct_card [of "map fst evs"] by simp
  moreover have "set (filter (\<lambda>i. i \<notin> fst ` set evs) (map pq_quote_id sel)) =
      set (map pq_quote_id sel) - fst ` set evs" by auto
  ultimately show "length (pmr_selected_quote_ids r) =
      length (pmr_evidence r) + length (pmr_unmatched_quote_ids r)"
    using dist by (simp add: r length_sorted_set)
  show "\<forall>p \<in> set (pmr_cohort_evidence r). match_sound cs sel g p"
  proof
    fix p
    assume "p \<in> set (pmr_cohort_evidence r)"
    then have p: "p \<in> set ces" by (simp add: r)
    have fold: "foldl (\<lambda>d (c, q). AList.update (CohortKey_value (co_key c)) q d) [] matched =
      foldl (\<lambda>d x. AList.update (CohortKey_value (co_key (fst x))) (snd x) d) [] matched"
      by (simp add: case_prod_beta')
    from rmap_mem [OF ces p] obtain a where
      a: "a \<in> set (foldl (\<lambda>d x. AList.update (CohortKey_value (co_key (fst x))) (snd x) d) [] matched)"
      and get: "(case a of (cohort_key, q) \<Rightarrow> rbind (dict_get evs (pq_quote_id q)) (\<lambda>e. Inr (cohort_key, e))) = Inr p"
      unfolding fold by blast
    from foldl_update_mem [OF a] obtain c q where
      cq: "(c, q) \<in> set matched" "a = (CohortKey_value (co_key c), q)" by auto
    from get cq(2) obtain e where e: "dict_get evs (pq_quote_id q) = Inr e"
      "p = (CohortKey_value (co_key c), e)" by (auto simp: rbind_Inr_iff)
    from e(1) have "(pq_quote_id q, e) \<in> set evs"
      by (auto simp: dict_get_def dest: map_of_SomeD split: option.splits)
    from ev [OF this] obtain q' where q': "q' \<in> set sel" "pq_quote_id q' = pq_quote_id q" "evidence_of q' e"
      by blast
    have "q' = q" using ids q'(1,2) sel_of [OF cq(1)] by (metis eq_key_imp_eq_value distinct_map inj_onD)
    with q'(3) assign_quotes_mem [OF matched cq(1)] e(2) show "match_sound cs sel g p"
      unfolding match_sound_def by auto
  qed
qed

section \<open>Properties\<close>

text \<open>
  C6: Pricing never attributes a price to a cohort it is not for: every cohort key of the match
  maps to the normalized evidence of a quote of the requested commitment and operating system
  that was observed in time, names the cohort's provider, product and plan (and region and zone
  where it has them), covers the cohort's whole window, and has the best rank among all such
  quotes, the others of that rank having the same price to twelve digits; the hourly price is
  positive. Selected quote ids are distinct and split exactly into matched and unmatched ones.
\<close>

theorem pricing_match_sound:
  "case match_pricing_evidence sha256 cohorts reports quotes generated_at commitment operating_system of
      Inl e \<Rightarrow> True
    | Inr r \<Rightarrow> list_all (match_sound cohorts (selected_quotes commitment operating_system quotes) generated_at)
          (pmr_cohort_evidence r) \<and>
        pmr_selected_quote_ids r = map pq_quote_id (selected_quotes commitment operating_system quotes) \<and>
        distinct (pmr_selected_quote_ids r) \<and>
        length (pmr_selected_quote_ids r) = length (pmr_evidence r) + length (pmr_unmatched_quote_ids r)"
  using match_pricing_facts [of sha256 cohorts reports quotes generated_at commitment operating_system]
  by (auto split: sum.splits simp: list_all_iff)

text \<open>
  A cohort stays without price exactly when no selected quote applies to it.
\<close>

theorem select_quote_none_iff:
  "(select_quote cohort quotes generated_at = Inr None) = (filter (quote_applies generated_at cohort) quotes = [])"
  by (simp add: select_quote_None filter_empty_conv)

text \<open>
  The value index of a lower-is-better metric divides by the rounded product of metric and
  price. For a tiny metric the product underflows to zero, and \<open>value_index\<close> raises
  \<open>ZeroDivisionError\<close> on finite positive inputs.
\<close>

lemma fl_tiny:
  assumes "0 < x" and "x < pow2 (- 1075)"
  shows "fl x = Fin 0"
proof -
  have "ilog2 x < - 1075" using ilog2_le [OF assms] .
  then have e: "expo x = - 1074" by (simp add: expo_def)
  have "x / pow2 (- 1074) < pow2 (- 1075) / pow2 (- 1074)"
    using assms(2) by (intro divide_strict_right_mono) auto
  also have "\<dots> = 1 / 2" by (simp add: pow2_diff [symmetric]) (simp add: pow2_eq)
  finally have "x / pow2 (- 1074) < 1 / 2" .
  moreover have "0 < x / pow2 (- 1074)" using assms(1) by simp
  ultimately have "\<bar>of_int (rhe (x / pow2 (- 1074))) :: rat\<bar> < 1"
    using rhe_error [of "x / pow2 (- 1074)"] by linarith
  then have "rhe (x / pow2 (- 1074)) = 0"
    by (metis of_int_abs of_int_1 of_int_less_iff zero_less_abs_iff zless_imp_add1_zle add_0 not_less)
  then have "rnd x = 0" by (simp add: rnd_def e)
  then show ?thesis using assms(1) by (simp add: fl_def fl_pos_def not_le)
qed

theorem value_index_underflow:
  "is_double (Fin (pow2 (- 600))) \<and> flt (Fin 0) (Fin (pow2 (- 600))) \<and>
   value_index (Fin (pow2 (- 600))) (Fin (pow2 (- 600))) LOWER_IS_BETTER = Inl ZeroDivisionError"
proof -
  have "representable (pow2 (- 600))"
    unfolding representable_def by (intro exI [of _ 1] exI [of _ "- 600"]) simp
  moreover have "fl (pow2 (- 600) * pow2 (- 600)) = Fin 0"
    unfolding pow2_add [symmetric] by (intro fl_tiny) simp_all
  moreover have "\<not> pow2 (- 600) \<le> 0" by (simp add: not_le)
  ultimately show ?thesis using fl_exact by (simp add: value_index_def)
qed

end
