(* ===== verification/Value.thy ===== *)
theory Value
  imports Pricing
begin

text \<open>
  \<open>ValueMetricComparison\<close> of \<open>models/pricing.py\<close> and \<open>pricing/value.py\<close>: price-performance
  indexes of the priced cohorts and their comparison with the median of the other providers.
  The loop over the providers is the one of the performance comparison, so this comparator
  fulfils the contract \<open>peer_comparator\<close> too.
\<close>

section \<open>ValueMetricComparison\<close>

record ValueMetricComparison =
  vc_comparison_id :: string
  vc_peer_group_id :: string
  vc_peer_key :: string
  vc_profile :: string
  vc_metric_name :: string
  vc_metric_unit :: string
  vc_metric_direction :: MetricDirection
  vc_index_definition :: ValueIndexDefinition
  vc_provider_hourly_usd :: pyfloat
  vc_peer_hourly_usd_median :: pyfloat
  vc_provider_value_index :: pyfloat
  vc_peer_value_index_median :: pyfloat
  vc_relative_difference_percent :: pyfloat
  vc_outcome :: PeerComparisonOutcome
  vc_confidence :: ConfidenceLevel
  vc_peer_provider_count :: int
  vc_peer_provider_ids :: "string list"
  vc_provider_cohort_ids :: "string list"
  vc_peer_cohort_ids :: "string list"
  vc_provider_pricing_evidence_ids :: "string list"
  vc_peer_pricing_evidence_ids :: "string list"

definition finite_positive :: "pyfloat \<Rightarrow> string \<Rightarrow> pyfloat result" where
  "finite_positive f field =
    (if \<not> isfinite f then Inl (ValueError (field @ '' must be finite''))
     else if fle f (Fin 0) then Inl (ValueError (field @ '' must be positive'')) else Inr f)"

definition ValueMetricComparison_init :: "ValueMetricComparison \<Rightarrow> ValueMetricComparison result" where
  "ValueMetricComparison_init c =
    rbind (stripped (vc_comparison_id c) ''comparison_id'') (\<lambda>cid.
    rbind (stripped (vc_peer_group_id c) ''peer_group_id'') (\<lambda>gid.
    rbind (stripped (vc_peer_key c) ''peer_key'') (\<lambda>pk.
    rbind (stripped (vc_profile c) ''profile'') (\<lambda>pf.
    rbind (stripped (vc_metric_name c) ''metric_name'') (\<lambda>mn.
    rbind (stripped (vc_metric_unit c) ''metric_unit'') (\<lambda>mu.
    if vc_metric_direction c = NEUTRAL
      then Inl (ValueError ''neutral metrics cannot produce value comparisons'') else
    rbind (finite_positive (vc_provider_hourly_usd c) ''provider_hourly_usd'') (\<lambda>_.
    rbind (finite_positive (vc_peer_hourly_usd_median c) ''peer_hourly_usd_median'') (\<lambda>_.
    rbind (finite_positive (vc_provider_value_index c) ''provider_value_index'') (\<lambda>_.
    rbind (finite_positive (vc_peer_value_index_median c) ''peer_value_index_median'') (\<lambda>_.
    rbind (finite_field (vc_relative_difference_percent c) ''relative_difference_percent'') (\<lambda>_.
    let peer_ids = clean_ids (vc_peer_provider_ids c);
        provider_cohorts = clean_ids (vc_provider_cohort_ids c);
        peer_cohorts = clean_ids (vc_peer_cohort_ids c);
        provider_prices = clean_ids (vc_provider_pricing_evidence_ids c);
        peer_prices = clean_ids (vc_peer_pricing_evidence_ids c) in
    if vc_peer_provider_count c \<noteq> int (length peer_ids) \<or> vc_peer_provider_count c < 1
      then Inl (ValueError ''peer_provider_count must match peer_provider_ids'')
    else if provider_cohorts = [] \<or> peer_cohorts = [] \<or> provider_prices = [] \<or> peer_prices = []
      then Inl (ValueError ''value comparisons require cohort and pricing evidence'')
    else Inr (c\<lparr>vc_comparison_id := cid, vc_peer_group_id := gid, vc_peer_key := pk, vc_profile := pf,
      vc_metric_name := mn, vc_metric_unit := mu, vc_peer_provider_ids := peer_ids,
      vc_provider_cohort_ids := provider_cohorts, vc_peer_cohort_ids := peer_cohorts,
      vc_provider_pricing_evidence_ids := provider_prices,
      vc_peer_pricing_evidence_ids := peer_prices\<rparr>))))))))))))"

section \<open>Provider metrics\<close>

record ProviderValueMetric =
  vm_value_index :: pyfloat
  vm_hourly_usd :: pyfloat
  vm_definition :: ValueIndexDefinition
  vm_cohort_ids :: "string list"
  vm_pricing_evidence_ids :: "string list"
  vm_confidences :: "ConfidenceLevel list"

record ValueObservation =
  vo_index :: pyfloat
  vo_hourly_usd :: pyfloat
  vo_definition :: ValueIndexDefinition
  vo_cohort_id :: string
  vo_pricing_evidence_id :: string
  vo_report_confidence :: ConfidenceLevel
  vo_price_confidence :: ConfidenceLevel

definition metric_observation ::
  "CohortReport \<Rightarrow> NormalizedPriceEvidence \<Rightarrow> ConfidenceLevel \<Rightarrow> string \<Rightarrow> MetricSummary \<Rightarrow>
   (string \<times> metric_key \<times> ValueObservation) list result" where
  "metric_observation report price overall provider_id m =
    rbind (value_index (stat_median (ms_statistics m)) (ev_hourly_usd price) (ms_direction m)) (\<lambda>r.
    Inr (case r of None \<Rightarrow> []
      | Some (index_value, def) \<Rightarrow> [(provider_id, (ms_name m, ms_unit m, ms_direction m),
          \<lparr>vo_index = index_value, vo_hourly_usd = ev_hourly_usd price, vo_definition = def,
           vo_cohort_id = cr_cohort_id report, vo_pricing_evidence_id = ev_pricing_evidence_id price,
           vo_report_confidence = overall, vo_price_confidence = ev_confidence price\<rparr>)]))"

definition cohort_value_observations ::
  "(string \<times> CohortReport) list \<Rightarrow> (string \<times> NormalizedPriceEvidence) list \<Rightarrow> Cohort \<Rightarrow>
   (string \<times> metric_key \<times> ValueObservation) list result" where
  "cohort_value_observations cohort_reports cohort_evidence cohort =
    (case map_of cohort_evidence (CohortKey_value (co_key cohort)) of
       None \<Rightarrow> Inr []
     | Some price \<Rightarrow>
         rbind (dict_get cohort_reports (CohortKey_value (co_key cohort))) (\<lambda>report.
         rbind (Confidence_overall (cr_confidence report)) (\<lambda>overall.
         rbind (rmap (metric_observation report price overall (ck_provider_id (co_key cohort)))
           (cr_metrics report)) (\<lambda>rows. Inr (concat rows)))))"

definition provider_value_metric :: "ValueObservation list \<Rightarrow> ProviderValueMetric result" where
  "provider_value_metric obs =
    (let defs = remdups (map vo_definition obs) in
     if length defs \<noteq> 1 then Inl (ValueError ''inconsistent value-index definitions for one metric'')
     else rbind (median (map vo_index obs)) (\<lambda>vi. rbind (median (map vo_hourly_usd obs)) (\<lambda>hu.
       Inr \<lparr>vm_value_index = vi, vm_hourly_usd = hu, vm_definition = hd defs,
            vm_cohort_ids = sort (map vo_cohort_id obs),
            vm_pricing_evidence_ids = sorted_set (map vo_pricing_evidence_id obs),
            vm_confidences = concat (map (\<lambda>o'. [vo_report_confidence o', vo_price_confidence o']) obs)\<rparr>)))"

definition provider_value_metrics ::
  "Cohort list \<Rightarrow> (string \<times> CohortReport) list \<Rightarrow> (string \<times> NormalizedPriceEvidence) list \<Rightarrow>
   (string \<times> (metric_key \<times> ProviderValueMetric) list) list result" where
  "provider_value_metrics cohorts cohort_reports cohort_evidence =
    rbind (rmap (cohort_value_observations cohort_reports cohort_evidence) cohorts) (\<lambda>rows.
    map_nested provider_value_metric (nest_observations (concat rows)))"

section \<open>The comparison\<close>

definition compare_value ::
  "(string \<Rightarrow> string) \<Rightarrow> PeerKey \<Rightarrow> metric_key \<Rightarrow> string \<Rightarrow> ProviderValueMetric \<Rightarrow>
   (string \<times> ProviderValueMetric) list \<Rightarrow> ValueMetricComparison option result" where
  "compare_value sha256 peer_key key provider_id metric peer_metrics =
    (case key of (name, unit, direction) \<Rightarrow>
      rbind (median (map (\<lambda>p. vm_value_index (snd p)) peer_metrics)) (\<lambda>peer_value_index.
      if fle peer_value_index (Fin 0) then Inr None else
      rbind (fdiv (fsub (vm_value_index metric) peer_value_index) peer_value_index) (\<lambda>quotient.
      let difference = fmul quotient (Fin 100);
          peer_group_id = mk_identifier sha256 ''peer-group'' [PeerKey_value peer_key];
          peer_provider_ids = sort (map fst peer_metrics);
          peer_cohort_ids = sorted_set (concat (map (\<lambda>p. vm_cohort_ids (snd p)) peer_metrics));
          peer_price_ids = sorted_set (concat (map (\<lambda>p. vm_pricing_evidence_ids (snd p)) peer_metrics));
          confidences = vm_confidences metric @ concat (map (\<lambda>p. vm_confidences (snd p)) peer_metrics)
      in rbind (median (map (\<lambda>p. vm_hourly_usd (snd p)) peer_metrics)) (\<lambda>peer_hourly.
         rbind (comparison_confidence confidences (int (length peer_provider_ids))) (\<lambda>confidence.
         rbind (ValueMetricComparison_init
           \<lparr>vc_comparison_id = mk_identifier sha256 ''value-comparison''
              [peer_group_id, provider_id, name, unit, MetricDirection_value direction],
            vc_peer_group_id = peer_group_id, vc_peer_key = PeerKey_value peer_key,
            vc_profile = pk_profile peer_key, vc_metric_name = name, vc_metric_unit = unit,
            vc_metric_direction = direction, vc_index_definition = vm_definition metric,
            vc_provider_hourly_usd = vm_hourly_usd metric, vc_peer_hourly_usd_median = peer_hourly,
            vc_provider_value_index = vm_value_index metric,
            vc_peer_value_index_median = peer_value_index,
            vc_relative_difference_percent = difference, vc_outcome = outcome_of difference,
            vc_confidence = confidence, vc_peer_provider_count = int (length peer_provider_ids),
            vc_peer_provider_ids = peer_provider_ids, vc_provider_cohort_ids = vm_cohort_ids metric,
            vc_peer_cohort_ids = peer_cohort_ids,
            vc_provider_pricing_evidence_ids = vm_pricing_evidence_ids metric,
            vc_peer_pricing_evidence_ids = peer_price_ids\<rparr>) (\<lambda>c. Inr (Some c)))))))"

definition compare_value_group ::
  "(string \<Rightarrow> string) \<Rightarrow> (string \<times> CohortReport) list \<Rightarrow> (string \<times> NormalizedPriceEvidence) list \<Rightarrow>
   PeerKey \<times> Cohort list \<Rightarrow> (string \<times> ValueMetricComparison) list result" where
  "compare_value_group sha256 cohort_reports cohort_evidence g =
    (case g of (peer_key, grouped) \<Rightarrow>
      if length (remdups (map (\<lambda>c. ck_provider_id (co_key c)) grouped)) < 2 then Inr []
      else rbind (provider_value_metrics grouped cohort_reports cohort_evidence) (\<lambda>metrics.
        rbind (rmap (\<lambda>key. compare_each (compare_value sha256 peer_key key) (available_for key metrics))
          (sorted_metric_keys metrics)) (\<lambda>rows. Inr (concat rows))))"

definition value_order :: "ValueMetricComparison \<Rightarrow> string \<times> string \<times> string" where
  "value_order c = (vc_peer_group_id c, vc_metric_name c, vc_comparison_id c)"

definition priced :: "(string \<times> NormalizedPriceEvidence) list \<Rightarrow> Cohort \<Rightarrow> bool" where
  "priced cohort_evidence c \<longleftrightarrow> comparable c \<and> map_of cohort_evidence (CohortKey_value (co_key c)) \<noteq> None"

definition build_value_comparisons ::
  "(string \<Rightarrow> string) \<Rightarrow> Cohort list \<Rightarrow> ProviderReport list \<Rightarrow> (string \<times> NormalizedPriceEvidence) list \<Rightarrow>
   (string \<times> ValueMetricComparison list) list result" where
  "build_value_comparisons sha256 cohorts reports cohort_evidence =
    rbind (cohort_reports_by_key reports) (\<lambda>cohort_reports.
    rbind (rmap (compare_value_group sha256 cohort_reports cohort_evidence)
      (sort_key (\<lambda>g. PeerKey_value (fst g)) (group_by PeerKey_from_cohort (filter (priced cohort_evidence) cohorts))))
      (\<lambda>rows. Inr (map (\<lambda>(provider_id, items). (provider_id, sort_key value_order (map snd items)))
        (group_by fst (concat rows)))))"

section \<open>Facts\<close>

definition value_comparison_ok :: "ValueMetricComparison \<Rightarrow> bool" where
  "value_comparison_ok c \<longleftrightarrow> vc_metric_direction c \<noteq> NEUTRAL \<and>
    isfinite (vc_relative_difference_percent c) \<and>
    vc_outcome c = outcome_of (vc_relative_difference_percent c) \<and>
    flt (Fin 0) (vc_provider_hourly_usd c) \<and> flt (Fin 0) (vc_peer_hourly_usd_median c) \<and>
    flt (Fin 0) (vc_provider_value_index c) \<and> flt (Fin 0) (vc_peer_value_index_median c) \<and>
    vc_peer_provider_count c = int (length (vc_peer_provider_ids c)) \<and> 1 \<le> vc_peer_provider_count c \<and>
    vc_provider_pricing_evidence_ids c \<noteq> [] \<and> vc_peer_pricing_evidence_ids c \<noteq> []"

lemma finite_positive_Inr: "finite_positive f n = Inr g \<Longrightarrow> flt (Fin 0) f"
  by (cases f) (auto simp: finite_positive_def split: if_splits)

lemma ValueMetricComparison_init_ok:
  assumes "ValueMetricComparison_init a = Inr c" and "vc_outcome a = outcome_of (vc_relative_difference_percent a)"
  shows "value_comparison_ok c" and "vc_peer_provider_ids c = clean_ids (vc_peer_provider_ids a)"
  using assms by (auto simp: ValueMetricComparison_init_def value_comparison_ok_def finite_field_def
      rbind_Inr_iff Let_def Suc_le_eq split: if_splits dest: finite_positive_Inr)

lemma compare_value_ok:
  assumes "compare_value sha pk key pid m peers = Inr (Some c)"
  shows "value_comparison_ok c" and "vc_peer_provider_ids c = clean_ids (sort (map fst peers))"
proof -
  obtain a where "ValueMetricComparison_init a = Inr c"
    and "vc_outcome a = outcome_of (vc_relative_difference_percent a)"
    and "vc_peer_provider_ids a = sort (map fst peers)"
    using assms by (fastforce simp: compare_value_def rbind_Inr_iff Let_def split: prod.splits if_splits)
  with ValueMetricComparison_init_ok [of a c] show "value_comparison_ok c"
    "vc_peer_provider_ids c = clean_ids (sort (map fst peers))" by simp_all
qed

interpretation price_performance: peer_comparator "compare_value sha pk key" vc_peer_provider_ids for sha pk key
  by unfold_locales (auto simp: compare_value_ok(2) clean_ids_clean)

lemma metric_observation_fst:
  "metric_observation r p ov pid m = Inr row \<Longrightarrow> e \<in> set row \<Longrightarrow> fst e = pid"
  by (auto simp: metric_observation_def rbind_Inr_iff split: option.splits prod.splits)

lemma cohort_value_observations_fst:
  assumes "cohort_value_observations reps evs c = Inr row" and "e \<in> set row"
  shows "fst e = ck_provider_id (co_key c)"
proof -
  from assms obtain r p ov rows where
    rows: "rmap (metric_observation r p ov (ck_provider_id (co_key c))) (cr_metrics r) = Inr rows"
    and e: "row = concat rows"
    by (auto simp: cohort_value_observations_def rbind_Inr_iff split: option.splits)
  from assms(2) e obtain x where x: "x \<in> set rows" "e \<in> set x" by auto
  from rmap_mem [OF rows x(1)] metric_observation_fst [OF _ x(2)] show ?thesis by blast
qed

lemma provider_value_metrics_ids:
  assumes "provider_value_metrics cohorts reps evs = Inr ms"
  shows "set (map fst ms) \<subseteq> (ck_provider_id \<circ> co_key) ` set cohorts"
proof
  fix p
  assume p: "p \<in> set (map fst ms)"
  from assms obtain rows where rows: "rmap (cohort_value_observations reps evs) cohorts = Inr rows"
    and ms: "map_nested provider_value_metric (nest_observations (concat rows)) = Inr ms"
    unfolding provider_value_metrics_def rbind_Inr_iff by blast
  have "map fst ms = dedup (map fst (concat rows))"
    using map_nested_fst [OF ms] by (simp add: nest_observations_fst)
  with p obtain row e where row: "row \<in> set rows" and e: "e \<in> set row" "p = fst e" by auto
  from rmap_mem [OF rows row] obtain c where "c \<in> set cohorts" "cohort_value_observations reps evs c = Inr row" ..
  with cohort_value_observations_fst [OF this(2) e(1)] e(2) show "p \<in> (ck_provider_id \<circ> co_key) ` set cohorts"
    by auto
qed

lemma compare_value_group_ok:
  assumes run: "compare_value_group sha reps evs (pk, grouped) = Inr rows" and mem: "(pid, c) \<in> set rows"
    and clean: "\<forall>co \<in> set grouped. clean (ck_provider_id (co_key co))"
    and grp: "\<forall>co \<in> set grouped. co \<in> set cohorts \<and> comparable co \<and> PeerKey_from_cohort co = pk"
  shows "value_comparison_ok c \<and> same_peer_group cohorts pid (vc_peer_provider_ids c)"
proof -
  have "\<not> length (remdups (map (\<lambda>c. ck_provider_id (co_key c)) grouped)) < 2"
    using run mem by (auto simp: compare_value_group_def)
  with run obtain ms xs where ms: "provider_value_metrics grouped reps evs = Inr ms"
    and xs: "rmap (\<lambda>key. compare_each (compare_value sha pk key) (available_for key ms))
      (sorted_metric_keys ms) = Inr xs"
    and rows: "rows = concat xs"
    by (auto simp: compare_value_group_def rbind_Inr_iff)
  from mem rows obtain row where row: "row \<in> set xs" "(pid, c) \<in> set row" by auto
  from rmap_mem [OF xs row(1)] obtain key where
    each: "compare_each (compare_value sha pk key) (available_for key ms) = Inr row" ..
  have ids: "fst ` set (available_for key ms) \<subseteq> (ck_provider_id \<circ> co_key) ` set grouped"
    using available_for_fst [of key ms] provider_value_metrics_ids [OF ms] by auto
  then have cl: "\<forall>p \<in> fst ` set (available_for key ms). clean p" using clean by fastforce
  note peers = price_performance.compared_with_all_others [OF each row(2) cl]
  from compare_each_mem [OF each row(2)] obtain p where "p \<in> set (available_for key ms)" "pid = fst p"
    and cv: "compare_value sha pk key pid (snd p) (filter (\<lambda>q. fst q \<noteq> pid) (available_for key ms)) = Inr (Some c)" .
  from compare_value_ok(1) [OF cv] same_peer_groupI [OF grp ids peers] show ?thesis by simp
qed

lemma build_value_comparisons_ok:
  assumes ok: "list_all cohort_ok cohorts" and run: "build_value_comparisons sha cohorts reports evs = Inr d"
  shows "list_all (\<lambda>(pid, items). list_all (\<lambda>c. value_comparison_ok c \<and>
      same_peer_group (filter (priced evs) cohorts) pid (vc_peer_provider_ids c)) items) d"
proof -
  let ?cs = "filter (priced evs) cohorts"
  let ?gs = "group_by PeerKey_from_cohort ?cs"
  from run obtain rep rows where
    rows: "rmap (compare_value_group sha rep evs) (sort_key (\<lambda>g. PeerKey_value (fst g)) ?gs) = Inr rows"
    and d: "d = map (\<lambda>(pid, items). (pid, sort_key value_order (map snd items))) (group_by fst (concat rows))"
    by (auto simp: build_value_comparisons_def rbind_Inr_iff)
  have all: "value_comparison_ok c \<and> same_peer_group ?cs pid (vc_peer_provider_ids c)"
    if row: "row \<in> set rows" "(pid, c) \<in> set row" for pid c row
  proof -
    from rmap_mem [OF rows row(1)] obtain g where g: "g \<in> set ?gs" and cg: "compare_value_group sha rep evs g = Inr row"
      by auto
    obtain pk grouped where gp: "g = (pk, grouped)" by (cases g)
    have grouped: "grouped = filter (\<lambda>c. PeerKey_from_cohort c = pk) ?cs"
      using g gp by (simp add: group_by_mem)
    show ?thesis
      using cg row(2) ok by (intro compare_value_group_ok [of sha rep evs pk grouped row])
        (auto simp: gp grouped list_all_iff cohort_ok_provider_clean priced_def)
  qed
  then show ?thesis unfolding d list_all_iff
    by (fastforce simp: group_by_mem)
qed

section \<open>Properties\<close>

text \<open>
  A value comparison uses priced evidence only: for cohorts as \<open>build_cohorts\<close> makes them,
  every comparison of a provider names at least one peer, all peers are other providers whose
  cohort has the same peer key and a matched price, prices and indexes are positive, and both
  sides carry pricing evidence.
\<close>

theorem value_comparisons_only_priced_peers:
  assumes "list_all cohort_ok cohorts"
  shows "case build_value_comparisons sha256 cohorts reports evidence of
      Inl e \<Rightarrow> True
    | Inr d \<Rightarrow> list_all (\<lambda>(pid, items). list_all (\<lambda>c. value_comparison_ok c \<and>
        same_peer_group (filter (priced evidence) cohorts) pid (vc_peer_provider_ids c)) items) d"
  using build_value_comparisons_ok [OF assms] by (auto split: sum.splits)

definition demo_evidence :: "string \<Rightarrow> NormalizedPriceEvidence" where
  "demo_evidence pid = \<lparr>ev_pricing_evidence_id = ''e'' @ pid, ev_quote_id = ''q'' @ pid,
     ev_provider_id = pid, ev_product = ''x'', ev_plan = ''y'', ev_region = None, ev_zone = None,
     ev_commitment = ON_DEMAND, ev_operating_system = LINUX, ev_observed_at = utc 0,
     ev_valid_from = utc 0, ev_valid_until = None, ev_source_amount = Fin 1, ev_source_currency = ''USD'',
     ev_billing_period = ''hour'', ev_billing_period_hours = Fin 1, ev_fx_to_usd = Fin 1,
     ev_hourly_usd = Fin 1, ev_tax_included = None,
     ev_source = \<lparr>src_tier = MANUAL, src_reference = ''r''\<rparr>, ev_confidence = LOW,
     ev_cohort_ids = [''c''], ev_sample_ids = [''s'']\<rparr>"

theorem value_comparisons_only_priced_peers_witness:
  "case build_value_comparisons (\<lambda>t. ''digest'') [demo_cohort ''a'', demo_cohort ''b'']
      [demo_report ''a'' (Fin 4), demo_report ''b'' (Fin 2)]
      [(CohortKey_value (co_key (demo_cohort ''a'')), demo_evidence ''a''),
       (CohortKey_value (co_key (demo_cohort ''b'')), demo_evidence ''b'')] of
      Inl e \<Rightarrow> False
    | Inr d \<Rightarrow> map fst d = [''a'', ''b''] \<and> list_all (\<lambda>(pid, items). list_all value_comparison_ok items) d"
proof -
  let ?evs = "[(CohortKey_value (co_key (demo_cohort ''a'')), demo_evidence ''a''),
       (CohortKey_value (co_key (demo_cohort ''b'')), demo_evidence ''b'')]"
  have "list_all cohort_ok [demo_cohort ''a'', demo_cohort ''b'']"
    using cohort_of_ok(1) by (simp add: demo_cohort_def Let_def)
  note ok = value_comparisons_only_priced_peers [OF this, of ?evs "\<lambda>t. ''digest''"
      "[demo_report ''a'' (Fin 4), demo_report ''b'' (Fin 2)]"]
  have "case build_value_comparisons (\<lambda>t. ''digest'') [demo_cohort ''a'', demo_cohort ''b'']
      [demo_report ''a'' (Fin 4), demo_report ''b'' (Fin 2)] ?evs of
      Inl e \<Rightarrow> False | Inr d \<Rightarrow> map fst d = [''a'', ''b'']"
    by code_simp
  with ok show ?thesis by (auto split: sum.splits simp: list_all_iff)
qed

end
