(* ===== verification/Assessment.thy ===== *)
theory Assessment
  imports Value
begin

text \<open>
  The dimension, explanation and scorecard models of \<open>models/assessment.py\<close>, the five
  assessments of \<open>assessment/\<close> and the explanations of \<open>explanation/engine.py\<close>. Texts are kept
  word for word, with the formats of the interpolated floats.
\<close>

section \<open>models/assessment.py\<close>

datatype AssessmentDimension = EVIDENCE | CONSISTENCY | RELIABILITY | PERFORMANCE | VALUE

datatype AssessmentStatus = ASSESSED | NOT_ASSESSED

datatype ExplanationKind = STRENGTH | LIMITATION | OBSERVATION

fun AssessmentDimension_value :: "AssessmentDimension \<Rightarrow> string" where
  "AssessmentDimension_value EVIDENCE = ''evidence''"
| "AssessmentDimension_value CONSISTENCY = ''consistency''"
| "AssessmentDimension_value RELIABILITY = ''reliability''"
| "AssessmentDimension_value PERFORMANCE = ''performance''"
| "AssessmentDimension_value VALUE = ''value''"

record DimensionAssessment =
  da_dimension :: AssessmentDimension
  da_status :: AssessmentStatus
  da_level :: "ConfidenceLevel option"
  da_rule_id :: string
  da_summary :: string
  da_evidence_refs :: "string list"
  da_limitations :: "string list"

text \<open>\<open>tuple(dict.fromkeys(item.strip() for item in items if item.strip()))\<close>.\<close>

definition strip_refs :: "string list \<Rightarrow> string list" where
  "strip_refs items = dedup (map strip (filter (\<lambda>s. strip s \<noteq> []) items))"

definition DimensionAssessment_init :: "DimensionAssessment \<Rightarrow> DimensionAssessment result" where
  "DimensionAssessment_init d =
    (if strip (da_rule_id d) = [] \<or> strip (da_summary d) = []
       then Inl (ValueError ''assessment rule_id and summary must not be empty'')
     else if da_status d = ASSESSED \<and> da_level d = None
       then Inl (ValueError ''assessed dimensions must contain a level'')
     else if da_status d = NOT_ASSESSED \<and> da_level d \<noteq> None
       then Inl (ValueError ''not-assessed dimensions must not contain a level'')
     else Inr (d\<lparr>da_rule_id := strip (da_rule_id d), da_summary := strip (da_summary d),
       da_evidence_refs := strip_refs (da_evidence_refs d),
       da_limitations := strip_refs (da_limitations d)\<rparr>))"

record ExplanationItem =
  ex_code :: string
  ex_kind :: ExplanationKind
  ex_message :: string
  ex_rule_id :: string
  ex_evidence_refs :: "string list"

definition ExplanationItem_init :: "ExplanationItem \<Rightarrow> ExplanationItem result" where
  "ExplanationItem_init i =
    (if strip (ex_code i) = [] \<or> strip (ex_message i) = [] \<or> strip (ex_rule_id i) = []
       then Inl (ValueError ''explanation code, message, and rule_id must not be empty'')
     else Inr (i\<lparr>ex_code := strip (ex_code i), ex_message := strip (ex_message i),
       ex_rule_id := strip (ex_rule_id i), ex_evidence_refs := strip_refs (ex_evidence_refs i)\<rparr>))"

record ProviderScorecard =
  sc_sample_count :: int
  sc_cohort_count :: int
  sc_profile_count :: int
  sc_profiles :: "string list"
  sc_coverage_ratio :: pyfloat
  sc_successful_measurement_ratio :: pyfloat
  sc_dimensions :: "DimensionAssessment list"

definition ProviderScorecard_init :: "ProviderScorecard \<Rightarrow> ProviderScorecard result" where
  "ProviderScorecard_init s =
    (if sc_sample_count s < 0 \<or> sc_cohort_count s < 0 \<or> sc_profile_count s < 0
       then Inl (ValueError ''scorecard counts must not be negative'')
     else if \<not> (fle (Fin 0) (sc_coverage_ratio s) \<and> fle (sc_coverage_ratio s) (Fin 1))
       then Inl (ValueError ''coverage_ratio must be between 0 and 1'')
     else if \<not> (fle (Fin 0) (sc_successful_measurement_ratio s) \<and> fle (sc_successful_measurement_ratio s) (Fin 1))
       then Inl (ValueError ''successful_measurement_ratio must be between 0 and 1'')
     else let profiles = clean_ids (sc_profiles s) in
       if sc_profile_count s \<noteq> int (length profiles)
         then Inl (ValueError ''profile_count must match profiles'')
       else if sc_cohort_count s = 0 \<and> sc_sample_count s \<noteq> 0
         then Inl (ValueError ''sample_count must be zero when cohort_count is zero'')
       else if length (sc_dimensions s) \<noteq> card (set (map da_dimension (sc_dimensions s)))
         then Inl (ValueError ''scorecard dimensions must be unique'')
       else Inr (s\<lparr>sc_profiles := profiles\<rparr>))"

text \<open>\<open>ProviderScorecard.dimension\<close>.\<close>

definition scorecard_dimension :: "ProviderScorecard \<Rightarrow> AssessmentDimension \<Rightarrow> DimensionAssessment result" where
  "scorecard_dimension s name =
    (case filter (\<lambda>d. da_dimension d = name) (sc_dimensions s) of
       [] \<Rightarrow> Inl (KeyError (AssessmentDimension_value name)) | d # _ \<Rightarrow> Inr d)"

section \<open>assessment/consistency.py\<close>

text \<open>The two lists of the loop: the references without variation data, and the observations.\<close>

definition metric_ref :: "CohortReport \<Rightarrow> MetricSummary \<Rightarrow> string" where
  "metric_ref c m = cr_cohort_id c @ '':'' @ ms_name m"

definition report_metrics :: "ProviderReport \<Rightarrow> (CohortReport \<times> MetricSummary) list" where
  "report_metrics report = concat (map (\<lambda>c. map (\<lambda>m. (c, m)) (cr_metrics c)) (pr_cohorts report))"

definition consistency_missing :: "ProviderReport \<Rightarrow> string list" where
  "consistency_missing report = concat (map (\<lambda>(c, m).
     if ms_contributing_samples m < 2 \<or> stat_coefficient_of_variation (ms_statistics m) = None
     then [metric_ref c m] else []) (report_metrics report))"

definition consistency_observations :: "ProviderReport \<Rightarrow> (pyfloat \<times> string) list" where
  "consistency_observations report = concat (map (\<lambda>(c, m).
     if ms_contributing_samples m < 2 then []
     else case stat_coefficient_of_variation (ms_statistics m) of
       None \<Rightarrow> [] | Some v \<Rightarrow> [(v, metric_ref c m)]) (report_metrics report))"

definition assess_consistency :: "ProviderReport \<Rightarrow> DimensionAssessment result" where
  "assess_consistency report =
    (let observations = consistency_observations report; missing = consistency_missing report in
     if observations = [] then DimensionAssessment_init
       \<lparr>da_dimension = CONSISTENCY, da_status = ASSESSED, da_level = Some LOW,
        da_rule_id = ''consistency.cv.v1'',
        da_summary = ''No metric had enough finite variation data for a stable consistency result.'',
        da_evidence_refs = map cr_cohort_id (pr_cohorts report),
        da_limitations = [''coefficient_of_variation_unavailable'']\<rparr>
     else rbind (max_by fst observations) (\<lambda>(worst, ref).
       let level = (if fle worst lit_010 then HIGH else if fle worst lit_025 then MEDIUM else LOW);
           summary = (if fle worst lit_010
             then ''Observed metrics were stable; worst coefficient of variation was '' @ fmt_fixed 3 worst @ ''.''
             else if fle worst lit_025
             then ''Observed metrics had moderate variation; worst coefficient was '' @ fmt_fixed 3 worst @ ''.''
             else ''Observed metrics were variable; worst coefficient of variation was '' @ fmt_fixed 3 worst @ ''.'')
       in DimensionAssessment_init
         \<lparr>da_dimension = CONSISTENCY, da_status = ASSESSED, da_level = Some level,
          da_rule_id = ''consistency.cv.v1'', da_summary = summary, da_evidence_refs = [ref],
          da_limitations = map (\<lambda>i. ''variation_unavailable:'' @ i) (sort missing)\<rparr>))"

section \<open>assessment/reliability.py\<close>

definition all_samples :: "Cohort list \<Rightarrow> Sample list" where
  "all_samples cohorts = concat (map co_samples cohorts)"

definition successful_measurement_ratio :: "Cohort list \<Rightarrow> pyfloat result" where
  "successful_measurement_ratio cohorts =
    (let statuses = map meas_status (concat (map smp_measurements (all_samples cohorts))) in
     if statuses = [] then Inr (Fin 0)
     else int_truediv (int (length (filter (\<lambda>s. s = SUCCESS) statuses))) (int (length statuses)))"

definition lit_080 :: pyfloat where "lit_080 = fl (80 / 100)"
definition lit_095 :: pyfloat where "lit_095 = fl (95 / 100)"

definition assess_reliability :: "Cohort list \<Rightarrow> DimensionAssessment result" where
  "assess_reliability cohorts =
    rbind (successful_measurement_ratio cohorts) (\<lambda>ratio.
    let samples = all_samples cohorts;
        warning_count = int (length (filter (\<lambda>s. qual_status (smp_quality s) = VALID_WITH_WARNINGS) samples));
        error_count = int (sum_list (map (\<lambda>s. length (qual_errors (smp_quality s))) samples));
        level = (if fle lit_095 ratio \<and> warning_count = 0 \<and> error_count = 0 then HIGH
          else if fle lit_080 ratio \<and> error_count = 0 then MEDIUM else LOW);
        summary = (if fle lit_095 ratio \<and> warning_count = 0 \<and> error_count = 0
          then ''Measurement completion was high at '' @ fmt_percent 1 ratio @ '', with no sample warnings or errors.''
          else if fle lit_080 ratio \<and> error_count = 0
          then ''Measurement completion was '' @ fmt_percent 1 ratio @ ''; some samples contained quality warnings.''
          else ''Measurement completion was '' @ fmt_percent 1 ratio @ ''; failed or invalid evidence limits reliability.'')
    in DimensionAssessment_init
      \<lparr>da_dimension = RELIABILITY, da_status = ASSESSED, da_level = Some level,
       da_rule_id = ''reliability.measurement_completion.v1'', da_summary = summary,
       da_evidence_refs = map smp_sample_id samples,
       da_limitations =
         (if warning_count \<noteq> 0 then [''samples_with_warnings:'' @ int_str warning_count] else []) @
         (if error_count \<noteq> 0 then [''sample_errors:'' @ int_str error_count] else []) @
         (if flt ratio (Fin 1) then [''measurement_success_ratio:'' @ fmt_fixed 6 ratio] else [])\<rparr>)"

section \<open>assessment/performance.py and assessment/value.py\<close>

definition count_of :: "('a \<Rightarrow> bool) \<Rightarrow> 'a list \<Rightarrow> int" where
  "count_of P xs = int (length (filter P xs))"

definition majority_level :: "int \<Rightarrow> int \<Rightarrow> ConfidenceLevel" where
  "majority_level ahead behind = (if behind < ahead then HIGH else if ahead < behind then LOW else MEDIUM)"

definition assess_performance :: "ProviderReport \<Rightarrow> PeerMetricComparison list \<Rightarrow> DimensionAssessment result" where
  "assess_performance report comparisons =
    (if comparisons = [] then DimensionAssessment_init
       \<lparr>da_dimension = PERFORMANCE, da_status = NOT_ASSESSED, da_level = None,
        da_rule_id = ''performance.compatible_peer_required.v1'',
        da_summary = ''Performance was measured but not graded because no compatible peer baseline was available.'',
        da_evidence_refs = map cr_cohort_id (pr_cohorts report),
        da_limitations = [''compatible_peer_baseline_required'']\<rparr>
     else let ahead = count_of (\<lambda>c. pc_outcome c = AHEAD) comparisons;
              similar = count_of (\<lambda>c. pc_outcome c = SIMILAR) comparisons;
              behind = count_of (\<lambda>c. pc_outcome c = BEHIND) comparisons;
              low_confidence = count_of (\<lambda>c. pc_confidence c = LOW) comparisons;
              single_peer = count_of (\<lambda>c. pc_peer_provider_count c = 1) comparisons
       in DimensionAssessment_init
         \<lparr>da_dimension = PERFORMANCE, da_status = ASSESSED, da_level = Some (majority_level ahead behind),
          da_rule_id = ''performance.compatible_peer_relative.v1'',
          da_summary = ''Across '' @ int_str (int (length comparisons)) @
            '' compatible peer metrics at the 5% similarity threshold: '' @ int_str ahead @ '' ahead, '' @
            int_str similar @ '' similar, and '' @ int_str behind @ '' behind.'',
          da_evidence_refs = map pc_comparison_id comparisons,
          da_limitations =
            (if low_confidence \<noteq> 0 then [''low_confidence_peer_comparisons:'' @ int_str low_confidence] else []) @
            (if single_peer \<noteq> 0 then [''single_peer_baselines:'' @ int_str single_peer] else [])\<rparr>)"

definition assess_value :: "NormalizedPriceEvidence list \<Rightarrow> ValueMetricComparison list \<Rightarrow> DimensionAssessment result" where
  "assess_value pricing_evidence comparisons =
    (if pricing_evidence = [] then DimensionAssessment_init
       \<lparr>da_dimension = VALUE, da_status = NOT_ASSESSED, da_level = None,
        da_rule_id = ''value.normalized_price_required.v1'',
        da_summary = ''Value was not assessed because no normalized pricing evidence matched the analyzed cohorts.'',
        da_evidence_refs = [], da_limitations = [''normalized_pricing_required'']\<rparr>
     else if comparisons = [] then DimensionAssessment_init
       \<lparr>da_dimension = VALUE, da_status = NOT_ASSESSED, da_level = None,
        da_rule_id = ''value.compatible_priced_peer_required.v1'',
        da_summary = ''Pricing was normalized, but value was not graded because no compatible priced peer baseline was available.'',
        da_evidence_refs = map ev_pricing_evidence_id pricing_evidence,
        da_limitations = [''compatible_priced_peer_baseline_required'']\<rparr>
     else let ahead = count_of (\<lambda>c. vc_outcome c = AHEAD) comparisons;
              similar = count_of (\<lambda>c. vc_outcome c = SIMILAR) comparisons;
              behind = count_of (\<lambda>c. vc_outcome c = BEHIND) comparisons;
              low_confidence = count_of (\<lambda>c. vc_confidence c = LOW) comparisons;
              single_peer = count_of (\<lambda>c. vc_peer_provider_count c = 1) comparisons
       in DimensionAssessment_init
         \<lparr>da_dimension = VALUE, da_status = ASSESSED, da_level = Some (majority_level ahead behind),
          da_rule_id = ''value.compatible_peer_price_performance.v1'',
          da_summary = ''Across '' @ int_str (int (length comparisons)) @
            '' normalized price-performance metrics at the 5% similarity threshold: '' @ int_str ahead @ '' ahead, '' @
            int_str similar @ '' similar, and '' @ int_str behind @ '' behind.'',
          da_evidence_refs = map vc_comparison_id comparisons,
          da_limitations =
            (if low_confidence \<noteq> 0 then [''low_confidence_value_comparisons:'' @ int_str low_confidence] else []) @
            (if single_peer \<noteq> 0 then [''single_peer_value_baselines:'' @ int_str single_peer] else [])\<rparr>)"

section \<open>assessment/engine.py\<close>

definition mean_coverage :: "ProviderReport \<Rightarrow> pyfloat result" where
  "mean_coverage report =
    rbind (rmap (\<lambda>c. metric_ratio (cr_coverage c)) (pr_cohorts report)) (\<lambda>ratios.
    if ratios \<noteq> [] then fmean (map fin_val ratios) else Inr (Fin 0))"

definition evidence_dimension :: "ProviderReport \<Rightarrow> DimensionAssessment result" where
  "evidence_dimension report = rbind (mean_coverage report) (\<lambda>coverage_ratio.
    DimensionAssessment_init
      \<lparr>da_dimension = EVIDENCE, da_status = ASSESSED, da_level = Some (pr_overall_confidence report),
       da_rule_id = ''evidence.minimum_confidence.v1'',
       da_summary = ''Evidence confidence is '' @ ConfidenceLevel_value (pr_overall_confidence report) @
         ''; mean expected-metric coverage is '' @ fmt_percent 1 coverage_ratio @ ''.'',
       da_evidence_refs = map cr_cohort_id (pr_cohorts report),
       da_limitations = sorted_set (pr_gaps report)\<rparr>)"

definition build_scorecard ::
  "ProviderReport \<Rightarrow> Cohort list \<Rightarrow> PeerMetricComparison list \<Rightarrow> NormalizedPriceEvidence list \<Rightarrow>
   ValueMetricComparison list \<Rightarrow> ProviderScorecard result" where
  "build_scorecard report cohorts peer_comparisons pricing_evidence value_comparisons =
    rbind (mean_coverage report) (\<lambda>coverage_ratio.
    let profiles = sorted_set (map (\<lambda>c. prot_profile (cr_protocol c)) (pr_cohorts report)) in
    rbind (evidence_dimension report) (\<lambda>d1.
    rbind (assess_consistency report) (\<lambda>d2.
    rbind (assess_reliability cohorts) (\<lambda>d3.
    rbind (assess_performance report peer_comparisons) (\<lambda>d4.
    rbind (assess_value pricing_evidence value_comparisons) (\<lambda>d5.
    rbind (successful_measurement_ratio cohorts) (\<lambda>success_ratio.
    ProviderScorecard_init
      \<lparr>sc_sample_count = pr_total_samples report, sc_cohort_count = pr_cohort_count report,
       sc_profile_count = int (length profiles), sc_profiles = profiles,
       sc_coverage_ratio = coverage_ratio, sc_successful_measurement_ratio = success_ratio,
       sc_dimensions = [d1, d2, d3, d4, d5]\<rparr>)))))))"

section \<open>explanation/rules.py and explanation/engine.py\<close>

definition DIMENSION_RULE :: string where "DIMENSION_RULE = ''explanation.dimension_level.v1''"
definition GAP_RULE :: string where "GAP_RULE = ''explanation.coverage_gap.v1''"
definition NO_UNIVERSAL_SCORE_RULE :: string where
  "NO_UNIVERSAL_SCORE_RULE = ''explanation.no_universal_score.v1''"

definition dimension_item :: "DimensionAssessment \<Rightarrow> ExplanationItem result" where
  "dimension_item item =
    (let name = AssessmentDimension_value (da_dimension item);
         (kind, code) =
           (if da_status item = NOT_ASSESSED then (LIMITATION, name @ ''_not_assessed'')
            else if da_level item = Some HIGH then (STRENGTH, name @ ''_high'')
            else if da_level item = Some MEDIUM then (OBSERVATION, name @ ''_medium'')
            else (LIMITATION, name @ ''_low''))
     in ExplanationItem_init \<lparr>ex_code = code, ex_kind = kind, ex_message = da_summary item,
       ex_rule_id = (if da_rule_id item \<noteq> [] then da_rule_id item else DIMENSION_RULE),
       ex_evidence_refs = da_evidence_refs item\<rparr>)"

definition gap_item :: "string list \<Rightarrow> string \<Rightarrow> ExplanationItem result" where
  "gap_item cohort_refs gap = ExplanationItem_init
    \<lparr>ex_code = ''coverage_gap:'' @ gap, ex_kind = LIMITATION,
     ex_message = ''Evidence gap recorded: '' @ gap @ ''.'', ex_rule_id = GAP_RULE,
     ex_evidence_refs = cohort_refs\<rparr>"

definition no_score_item :: "ProviderReport \<Rightarrow> ExplanationItem result" where
  "no_score_item report = ExplanationItem_init
    \<lparr>ex_code = ''universal_score_not_calculated'', ex_kind = OBSERVATION,
     ex_message = ''CloudEyes reports independent dimensions and does not calculate a universal provider score.'',
     ex_rule_id = NO_UNIVERSAL_SCORE_RULE, ex_evidence_refs = [pr_report_id report]\<rparr>"

text \<open>\<open>deduplicated.setdefault(item.code, item)\<close> over the items: the first item of every code.\<close>

definition dedup_items :: "ExplanationItem list \<Rightarrow> ExplanationItem list" where
  "dedup_items items = map snd (foldl (\<lambda>d i. fst (setdefault (ex_code i) i d)) [] items)"

definition build_explanations :: "ProviderReport \<Rightarrow> ProviderScorecard \<Rightarrow> ExplanationItem list result" where
  "build_explanations report scorecard =
    rbind (rmap dimension_item (sc_dimensions scorecard)) (\<lambda>items.
    rbind (rmap (gap_item (map cr_cohort_id (pr_cohorts report))) (pr_gaps report)) (\<lambda>gaps.
    rbind (no_score_item report) (\<lambda>last_item.
    Inr (dedup_items (items @ gaps @ [last_item])))))"

section \<open>The assessments are always complete\<close>

lemma strip_nonspace: "\<not> is_space c \<Longrightarrow> strip (c # t) \<noteq> []"
  by (simp add: strip_Nil_iff)

lemmas text_simps = strip_nonspace is_space_def code_def

definition dimension_ok :: "AssessmentDimension \<Rightarrow> DimensionAssessment result \<Rightarrow> bool" where
  "dimension_ok n r \<longleftrightarrow> (case r of Inl e \<Rightarrow> False
    | Inr d \<Rightarrow> da_dimension d = n \<and> (da_status d = ASSESSED \<longleftrightarrow> da_level d \<noteq> None) \<and>
        clean (da_summary d) \<and> clean (da_rule_id d))"

lemma dimension_okI:
  assumes "strip (da_rule_id d) \<noteq> []" and "strip (da_summary d) \<noteq> []" and "da_dimension d = n"
    and "da_status d = ASSESSED \<longleftrightarrow> da_level d \<noteq> None"
  shows "dimension_ok n (DimensionAssessment_init d)"
  using assms by (cases "da_status d") (auto simp: dimension_ok_def DimensionAssessment_init_def clean_def)

lemma dimension_ok_obtain:
  assumes "dimension_ok n r"
  obtains d where "r = Inr d" and "da_dimension d = n" and "da_status d = ASSESSED \<longleftrightarrow> da_level d \<noteq> None"
  using assms by (cases r) (auto simp: dimension_ok_def)

lemma assess_consistency_ok: "dimension_ok CONSISTENCY (assess_consistency r)"
proof (cases "consistency_observations r = []")
  case True
  then show ?thesis
    by (auto simp: assess_consistency_def Let_def text_simps intro!: dimension_okI)
next
  case False
  from max_by_total [OF this, of fst] obtain worst ref where
    "max_by fst (consistency_observations r) = Inr (worst, ref)" by auto
  with False show ?thesis
    by (auto simp: assess_consistency_def Let_def text_simps intro!: dimension_okI)
qed

lemma success_ratio_unit: "\<exists>v. successful_measurement_ratio cs = Inr (Fin v) \<and> 0 \<le> v \<and> v \<le> 1"
proof (cases "map meas_status (concat (map smp_measurements (all_samples cs))) = []")
  case True
  then show ?thesis by (simp add: successful_measurement_ratio_def Let_def)
next
  case False
  let ?s = "map meas_status (concat (map smp_measurements (all_samples cs)))"
  have "0 \<le> int (length (filter (\<lambda>s. s = SUCCESS) ?s))"
    "int (length (filter (\<lambda>s. s = SUCCESS) ?s)) \<le> int (length ?s)" "0 < int (length ?s)"
    using False length_filter_le [of _ ?s] by (auto simp del: length_map)
  from int_truediv_unit [OF this] False show ?thesis
    by (auto simp: successful_measurement_ratio_def Let_def simp del: length_map)
qed

lemma assess_reliability_ok: "dimension_ok RELIABILITY (assess_reliability cs)"
proof -
  obtain v where v: "successful_measurement_ratio cs = Inr (Fin v)" using success_ratio_unit by blast
  show ?thesis unfolding assess_reliability_def v Let_def rbind.simps
    by (intro dimension_okI) (auto simp: text_simps)
qed

lemma assess_performance_ok:
  "dimension_ok PERFORMANCE (assess_performance r cs)"
  "assess_performance r cs = Inr d \<Longrightarrow> da_status d = ASSESSED \<longleftrightarrow> cs \<noteq> []"
  unfolding assess_performance_def Let_def
  by (auto simp: text_simps intro!: dimension_okI)
    (auto simp: DimensionAssessment_init_def split: if_splits)

lemma assess_value_ok:
  "dimension_ok VALUE (assess_value es cs)"
  "assess_value es cs = Inr d \<Longrightarrow> da_status d = ASSESSED \<longleftrightarrow> es \<noteq> [] \<and> cs \<noteq> []"
  unfolding assess_value_def Let_def
  by (auto simp: text_simps intro!: dimension_okI)
    (auto simp: DimensionAssessment_init_def split: if_splits)

lemma coverage_ratios_defined:
  "\<exists>rs. rmap (\<lambda>c. metric_ratio (cr_coverage c)) cs = Inr rs \<and> length rs = length cs \<and>
    (\<forall>x \<in> set (map fin_val rs). 0 \<le> x \<and> x \<le> 1)"
proof (induction cs)
  case Nil
  then show ?case by simp
next
  case (Cons c cs)
  obtain v where "metric_ratio (cr_coverage c) = Inr (Fin v)" "0 \<le> v" "v \<le> 1"
    using metric_ratio_unit by blast
  with Cons show ?case by auto
qed

lemma mean_coverage_unit:
  assumes "length (pr_cohorts r) \<le> 2 ^ 53"
  shows "case mean_coverage r of Inl e \<Rightarrow> e = OverflowError
    | Inr f \<Rightarrow> \<exists>v. f = Fin v \<and> 0 \<le> v \<and> v \<le> 1"
proof -
  obtain rs where rs: "rmap (\<lambda>c. metric_ratio (cr_coverage c)) (pr_cohorts r) = Inr rs"
    "length rs = length (pr_cohorts r)" "\<forall>x \<in> set (map fin_val rs). 0 \<le> x \<and> x \<le> 1"
    using coverage_ratios_defined by blast
  show ?thesis
  proof (cases "rs = []")
    case True
    then show ?thesis using rs by (simp add: mean_coverage_def)
  next
    case False
    then have ne: "map fin_val rs \<noteq> []" and len: "length (map fin_val rs) \<le> 2 ^ 53"
      using assms rs(2) by simp_all
    show ?thesis
      using fmean_unit [OF ne rs(3) _ len] fmean_Inl [OF ne] False rs(1)
      by (cases "fmean (map fin_val rs)") (auto simp: mean_coverage_def)
  qed
qed

lemma evidence_dimension_ok:
  assumes "mean_coverage r = Inr f"
  shows "dimension_ok EVIDENCE (evidence_dimension r)"
  unfolding evidence_dimension_def assms rbind.simps
  by (intro dimension_okI) (auto simp: text_simps)

definition scorable :: "ProviderReport \<Rightarrow> bool" where
  "scorable r \<longleftrightarrow> report_ok r \<and> length (pr_cohorts r) \<le> 2 ^ 53 \<and>
    list_all (\<lambda>c. 0 \<le> cr_sample_count c \<and> clean (prot_profile (cr_protocol c))) (pr_cohorts r)"

definition scorecard_ok :: "ProviderScorecard \<Rightarrow> bool" where
  "scorecard_ok s \<longleftrightarrow>
    map da_dimension (sc_dimensions s) = [EVIDENCE, CONSISTENCY, RELIABILITY, PERFORMANCE, VALUE] \<and>
    list_all (\<lambda>d. (da_status d = ASSESSED) = (da_level d \<noteq> None)) (sc_dimensions s) \<and>
    fle (Fin 0) (sc_coverage_ratio s) \<and> fle (sc_coverage_ratio s) (Fin 1) \<and>
    fle (Fin 0) (sc_successful_measurement_ratio s) \<and> fle (sc_successful_measurement_ratio s) (Fin 1) \<and>
    sc_profile_count s = int (length (sc_profiles s))"

definition assessed :: "ProviderScorecard \<Rightarrow> AssessmentDimension \<Rightarrow> bool" where
  "assessed s n \<longleftrightarrow> (case scorecard_dimension s n of Inl e \<Rightarrow> False | Inr d \<Rightarrow> da_status d = ASSESSED)"

lemma clean_ids_id: "sorted xs \<Longrightarrow> distinct xs \<Longrightarrow> \<forall>x \<in> set xs. clean x \<Longrightarrow> clean_ids xs = xs"
proof -
  assume a: "sorted xs" "distinct xs" "\<forall>x \<in> set xs. clean x"
  then have "filter (\<lambda>s. strip s \<noteq> []) xs = xs" "map strip xs = xs"
    by (auto simp: filter_id_conv clean_def map_idI)
  then show ?thesis using a by (simp add: clean_ids_def dedup_distinct sorted_sort_id)
qed

lemma build_scorecard_complete:
  assumes r: "scorable r"
  shows "case build_scorecard r cohorts pcs pes vcs of Inl e \<Rightarrow> e = OverflowError
    | Inr s \<Rightarrow> scorecard_ok s \<and> sc_sample_count s = pr_total_samples r \<and>
        (assessed s PERFORMANCE \<longleftrightarrow> pcs \<noteq> []) \<and> (assessed s VALUE \<longleftrightarrow> pes \<noteq> [] \<and> vcs \<noteq> [])"
proof (cases "mean_coverage r")
  case (Inl e)
  then show ?thesis using mean_coverage_unit [of r] r by (simp add: build_scorecard_def scorable_def)
next
  case (Inr f)
  then obtain v where v: "f = Fin v" "0 \<le> v" "v \<le> 1"
    using mean_coverage_unit [of r] r by (auto simp: scorable_def)
  obtain w where w: "successful_measurement_ratio cohorts = Inr (Fin w)" "0 \<le> w" "w \<le> 1"
    using success_ratio_unit by blast
  obtain d1 where d1: "evidence_dimension r = Inr d1" "da_dimension d1 = EVIDENCE"
    "da_status d1 = ASSESSED \<longleftrightarrow> da_level d1 \<noteq> None"
    by (rule dimension_ok_obtain [OF evidence_dimension_ok [OF Inr]])
  obtain d2 where d2: "assess_consistency r = Inr d2" "da_dimension d2 = CONSISTENCY"
    "da_status d2 = ASSESSED \<longleftrightarrow> da_level d2 \<noteq> None"
    by (rule dimension_ok_obtain [OF assess_consistency_ok])
  obtain d3 where d3: "assess_reliability cohorts = Inr d3" "da_dimension d3 = RELIABILITY"
    "da_status d3 = ASSESSED \<longleftrightarrow> da_level d3 \<noteq> None"
    by (rule dimension_ok_obtain [OF assess_reliability_ok])
  obtain d4 where d4: "assess_performance r pcs = Inr d4" "da_dimension d4 = PERFORMANCE"
    "da_status d4 = ASSESSED \<longleftrightarrow> da_level d4 \<noteq> None"
    by (rule dimension_ok_obtain [OF assess_performance_ok(1)])
  obtain d5 where d5: "assess_value pes vcs = Inr d5" "da_dimension d5 = VALUE"
    "da_status d5 = ASSESSED \<longleftrightarrow> da_level d5 \<noteq> None"
    by (rule dimension_ok_obtain [OF assess_value_ok(1)])
  let ?ps = "sorted_set (map (\<lambda>c. prot_profile (cr_protocol c)) (pr_cohorts r))"
  have ps: "clean_ids ?ps = ?ps"
    using r by (intro clean_ids_id) (auto simp: scorable_def list_all_iff)
  have counts: "0 \<le> pr_total_samples r" "0 \<le> pr_cohort_count r" "pr_cohort_count r \<noteq> 0"
    using r by (auto simp: scorable_def report_ok_def list_all_iff intro!: sum_list_nonneg)
  have eq: "build_scorecard r cohorts pcs pes vcs = Inr
      \<lparr>sc_sample_count = pr_total_samples r, sc_cohort_count = pr_cohort_count r,
       sc_profile_count = int (length ?ps), sc_profiles = ?ps, sc_coverage_ratio = Fin v,
       sc_successful_measurement_ratio = Fin w, sc_dimensions = [d1, d2, d3, d4, d5]\<rparr>"
    using counts v w d1(1,2) d2(1,2) d3(1,2) d4(1,2) d5(1,2) Inr
    by (simp add: build_scorecard_def ProviderScorecard_init_def Let_def ps)
  show ?thesis unfolding eq
    using v w d1(2,3) d2(2,3) d3(2,3) d4(2,3) d5(2,3) assess_performance_ok(2) [OF d4(1)] assess_value_ok(2) [OF d5(1)]
    by (simp add: scorecard_ok_def assessed_def scorecard_dimension_def)
qed

section \<open>Explanations\<close>

lemma foldl_setdefault:
  "foldl (\<lambda>d i. fst (setdefault (f i) i d)) d0 xs =
    d0 @ map (\<lambda>i. (f i, i)) (filter_new f (map fst d0) xs)"
  if "\<And>seen x xs. filter_new f seen (x # xs) = (if f x \<in> set seen then filter_new f seen xs
       else x # filter_new f (seen @ [f x]) xs)" and "\<And>seen. filter_new f seen [] = []"
  for filter_new :: "('a \<Rightarrow> 'k) \<Rightarrow> 'k list \<Rightarrow> 'a list \<Rightarrow> 'a list"
proof (induction xs arbitrary: d0)
  case Nil
  then show ?case by (simp add: that)
next
  case (Cons x xs)
  show ?case
  proof (cases "f x \<in> set (map fst d0)")
    case True
    then obtain w where "map_of d0 (f x) = Some w" by (metis list.set_map map_of_eq_None_iff not_None_eq)
    with True Cons show ?thesis by (simp add: that setdefault_def)
  next
    case False
    then have "map_of d0 (f x) = None" by (metis list.set_map map_of_eq_None_iff)
    with False Cons show ?thesis by (simp add: that setdefault_def)
  qed
qed

text \<open>The items whose code was not seen before, in order.\<close>

fun first_items :: "(ExplanationItem \<Rightarrow> string) \<Rightarrow> string list \<Rightarrow> ExplanationItem list \<Rightarrow> ExplanationItem list" where
  "first_items f seen [] = []"
| "first_items f seen (x # xs) = (if f x \<in> set seen then first_items f seen xs
     else x # first_items f (seen @ [f x]) xs)"

lemma dedup_items_eq: "dedup_items items = first_items ex_code [] items"
  using foldl_setdefault [of first_items ex_code "[]" items] by (simp add: dedup_items_def comp_def)

lemma first_items_codes:
  "distinct (map f (first_items f seen xs)) \<and> f ` set (first_items f seen xs) = f ` set xs - set seen \<and>
   set (first_items f seen xs) \<subseteq> set xs"
  by (induction xs arbitrary: seen) auto

lemma dedup_items_codes: "map ex_code (dedup_items items) = dedup (map ex_code items)"
proof -
  have "map ex_code (first_items ex_code seen xs) = filter (\<lambda>c. c \<notin> set seen) (dedup (map ex_code xs))" for seen xs
    by (induction xs arbitrary: seen) (auto intro: filter_cong)
  from this [of "[]"] show ?thesis by (simp add: dedup_items_eq)
qed

section \<open>Properties\<close>

text \<open>
  C8: A scorecard is complete: for a report of \<open>build_provider_reports\<close> the construction can
  only fail by arithmetic overflow, and it yields the five dimensions once each and in order,
  a level exactly for the assessed ones, both ratios between 0 and 1; performance is assessed
  exactly when there are peer comparisons, and value exactly when there are pricing evidence and
  value comparisons.
\<close>

theorem scorecard_complete:
  assumes "scorable r"
  shows "case build_scorecard r cohorts peer_comparisons pricing_evidence value_comparisons of
      Inl e \<Rightarrow> e = OverflowError
    | Inr s \<Rightarrow> scorecard_ok s \<and> sc_sample_count s = pr_total_samples r \<and>
        (assessed s PERFORMANCE \<longleftrightarrow> peer_comparisons \<noteq> []) \<and>
        (assessed s VALUE \<longleftrightarrow> pricing_evidence \<noteq> [] \<and> value_comparisons \<noteq> [])"
  by (rule build_scorecard_complete [OF assms])

theorem scorecard_complete_witness:
  "case build_scorecard (demo_report ''a'' (Fin 4)) [demo_cohort ''a''] [] [] [] of
      Inl e \<Rightarrow> e = OverflowError | Inr s \<Rightarrow> scorecard_ok s \<and> \<not> assessed s VALUE \<and> sc_sample_count s = 1"
proof -
  have "scorable (demo_report ''a'' (Fin 4))"
    by (simp add: scorable_def report_ok_def demo_report_def Confidence_overall_def sorted_set_def
        less_eq_ConfidenceLevel_def clean_def strip_def is_space_def code_def)
  from scorecard_complete [OF this, of "[]" "[]" "[]" "[demo_cohort ''a'']"] show ?thesis
    by (auto split: sum.splits simp: demo_report_def)
qed

text \<open>
  Explanations carry each code once; every gap of the report and the note that no universal
  score is calculated keep their code in the list, which never grows beyond one item per
  dimension and gap plus that note, and only a \<open>ValueError\<close> can be raised.
\<close>

theorem explanations_unique_codes:
  "case build_explanations report scorecard of
      Inl e \<Rightarrow> is_value_error e
    | Inr items \<Rightarrow> distinct (map ex_code items) \<and>
        length items \<le> length (sc_dimensions scorecard) + length (pr_gaps report) + 1 \<and>
        ''universal_score_not_calculated'' \<in> set (map ex_code items) \<and>
        (\<lambda>gap. strip (''coverage_gap:'' @ gap)) ` set (pr_gaps report) \<subseteq> set (map ex_code items)"
proof (cases "build_explanations report scorecard")
  case (Inl e)
  have init: "ExplanationItem_init i = Inl x \<Longrightarrow> is_value_error x" for i x
    by (auto simp: ExplanationItem_init_def split: if_splits)
  have dim: "dimension_item d = Inl x \<Longrightarrow> is_value_error x" for d x
    by (auto simp: dimension_item_def Let_def split: prod.splits intro: init)
  have others: "gap_item refs g = Inl x \<Longrightarrow> is_value_error x" "no_score_item report = Inl x \<Longrightarrow> is_value_error x"
    for refs g x
    by (auto simp: gap_item_def no_score_item_def intro: init)
  have "is_value_error e"
    using Inl unfolding build_explanations_def rbind_Inl_iff
    by (elim disjE exE conjE) (auto dest!: rmap_Inl intro: dim others)
  with Inl show ?thesis by simp
next
  case (Inr items)
  obtain ds gs l where ds: "rmap dimension_item (sc_dimensions scorecard) = Inr ds"
    and gs: "rmap (gap_item (map cr_cohort_id (pr_cohorts report))) (pr_gaps report) = Inr gs"
    and l: "no_score_item report = Inr l" and items: "items = dedup_items (ds @ gs @ [l])"
    using Inr unfolding build_explanations_def rbind_Inr_iff by blast
  have codes: "map ex_code items = dedup (map ex_code (ds @ gs @ [l]))"
    unfolding items by (rule dedup_items_codes)
  have gap: "map ex_code gs = map (\<lambda>gap. strip (''coverage_gap:'' @ gap)) (pr_gaps report)"
    by (rule rmap_map_proj [OF gs]) (auto simp: gap_item_def ExplanationItem_init_def split: if_splits)
  have last_code: "ex_code l = strip ''universal_score_not_calculated''"
    using l by (auto simp: no_score_item_def ExplanationItem_init_def split: if_splits)
  have text_eq: "strip ''universal_score_not_calculated'' = ''universal_score_not_calculated''" by code_simp
  have "length items = length (map ex_code items)" by simp
  also have "\<dots> \<le> length (ds @ gs @ [l])"
    unfolding codes using length_dedup_le [of "map ex_code (ds @ gs @ [l])"] by simp
  finally have len: "length items \<le> length (sc_dimensions scorecard) + length (pr_gaps report) + 1"
    using rmap_length [OF ds] rmap_length [OF gs] by simp
  have "set (map ex_code items) = set (map ex_code (ds @ gs @ [l]))" unfolding codes by simp
  moreover have "set (map ex_code gs) = (\<lambda>gap. strip (''coverage_gap:'' @ gap)) ` set (pr_gaps report)"
    unfolding gap by simp
  moreover have "distinct (map ex_code items)" unfolding codes by simp
  ultimately show ?thesis
    unfolding Inr sum.case using len last_code text_eq by simp (intro subset_insertI2 Un_upper2)
qed

end
