(* ===== verification/Analytics.thy ===== *)
theory Analytics
  imports Assessment
begin

text \<open>
  \<open>ProviderAnalyticsReport\<close> and \<open>AnalyticsBundle\<close> of \<open>models/assessment.py\<close>,
  \<open>provider/aggregator.py\<close> and \<open>pipeline.py\<close>: from a collection of samples to one analytics
  report per provider, with the counts that must add up. The clock is an argument.
\<close>

section \<open>models/assessment.py\<close>

record ProviderAnalyticsReport =
  ar_schema_version :: string
  ar_analytics_id :: string
  ar_generated_at :: pydatetime
  ar_provider_id :: string
  ar_provider_name :: string
  ar_evidence :: ProviderReport
  ar_scorecard :: ProviderScorecard
  ar_explanations :: "ExplanationItem list"
  ar_peer_comparisons :: "PeerMetricComparison list"
  ar_pricing_evidence :: "NormalizedPriceEvidence list"
  ar_value_comparisons :: "ValueMetricComparison list"

definition duplicates :: "'a list \<Rightarrow> bool" where
  "duplicates xs \<longleftrightarrow> length xs \<noteq> card (set xs)"

definition check_links :: "ProviderAnalyticsReport \<Rightarrow> unit result" where
  "check_links r =
    (let profiles = sc_profiles (ar_scorecard r) in
     if list_ex (\<lambda>c. pc_profile c \<notin> set profiles) (ar_peer_comparisons r)
       then Inl (ValueError ''peer comparison profile must exist in scorecard profiles'')
     else if list_ex (\<lambda>c. vc_profile c \<notin> set profiles) (ar_value_comparisons r)
       then Inl (ValueError ''value comparison profile must exist in scorecard profiles'')
     else if list_ex (\<lambda>e. casefold (ev_provider_id e) \<noteq> casefold (strip (ar_provider_id r))) (ar_pricing_evidence r)
       then Inl (ValueError ''pricing evidence provider must match analytics provider'')
     else if duplicates (map pc_comparison_id (ar_peer_comparisons r))
       then Inl (ValueError ''peer comparison IDs must be unique per provider'')
     else if duplicates (map vc_comparison_id (ar_value_comparisons r))
       then Inl (ValueError ''value comparison IDs must be unique per provider'')
     else if duplicates (map ev_pricing_evidence_id (ar_pricing_evidence r))
       then Inl (ValueError ''pricing evidence IDs must be unique per provider'')
     else if list_ex (\<lambda>c. \<not> set (vc_provider_pricing_evidence_ids c) \<subseteq>
         set (map ev_pricing_evidence_id (ar_pricing_evidence r))) (ar_value_comparisons r)
       then Inl (ValueError ''value comparison must reference provider pricing evidence'')
     else Inr ())"

definition ProviderAnalyticsReport_init :: "ProviderAnalyticsReport \<Rightarrow> ProviderAnalyticsReport result" where
  "ProviderAnalyticsReport_init r =
    rbind (stripped (ar_schema_version r) ''schema_version'') (\<lambda>version.
    rbind (stripped (ar_analytics_id r) ''analytics_id'') (\<lambda>aid.
    rbind (stripped (ar_provider_id r) ''provider_id'') (\<lambda>pid.
    rbind (stripped (ar_provider_name r) ''provider_name'') (\<lambda>pname.
    if \<not> aware (ar_generated_at r)
      then Inl (ValueError ''generated_at must contain timezone information'')
    else if pid \<noteq> pr_provider_id (ar_evidence r)
      then Inl (ValueError ''provider_id must match evidence report'')
    else if pname \<noteq> pr_provider_name (ar_evidence r)
      then Inl (ValueError ''provider_name must match evidence report'')
    else if \<not> dt_eq (ar_generated_at r) (pr_generated_at (ar_evidence r))
      then Inl (ValueError ''generated_at must match evidence report'')
    else rbind (check_links r) (\<lambda>_.
      Inr (r\<lparr>ar_schema_version := version, ar_analytics_id := aid, ar_provider_id := pid,
        ar_provider_name := pname\<rparr>))))))"

record AnalyticsBundle =
  ab_schema_version :: string
  ab_generated_at :: pydatetime
  ab_source_sample_count :: int
  ab_analyzed_sample_count :: int
  ab_excluded_sample_ids :: "string list"
  ab_provider_count :: int
  ab_providers :: "ProviderAnalyticsReport list"
  ab_peer_group_count :: int
  ab_pricing_quote_count :: int
  ab_normalized_pricing_evidence_count :: int
  ab_unmatched_pricing_quote_ids :: "string list"
  ab_value_peer_group_count :: int

definition distinct_count :: "'a list \<Rightarrow> int" where
  "distinct_count xs = int (length (remdups xs))"

definition peer_group_ids :: "ProviderAnalyticsReport list \<Rightarrow> string list" where
  "peer_group_ids ps = concat (map (\<lambda>p. map pc_peer_group_id (ar_peer_comparisons p)) ps)"

definition value_peer_group_ids :: "ProviderAnalyticsReport list \<Rightarrow> string list" where
  "value_peer_group_ids ps = concat (map (\<lambda>p. map vc_peer_group_id (ar_value_comparisons p)) ps)"

definition bundle_pricing_ids :: "ProviderAnalyticsReport list \<Rightarrow> string list" where
  "bundle_pricing_ids ps = concat (map (\<lambda>p. map ev_pricing_evidence_id (ar_pricing_evidence p)) ps)"

definition AnalyticsBundle_init :: "AnalyticsBundle \<Rightarrow> AnalyticsBundle result" where
  "AnalyticsBundle_init b =
    (if strip (ab_schema_version b) = [] then Inl (ValueError ''schema_version must not be empty'')
     else if \<not> aware (ab_generated_at b)
       then Inl (ValueError ''generated_at must contain timezone information'')
     else if ab_source_sample_count b < 0 \<or> ab_analyzed_sample_count b < 0
       then Inl (ValueError ''sample counts must not be negative'')
     else if ab_peer_group_count b < 0 \<or> ab_value_peer_group_count b < 0
       then Inl (ValueError ''peer group counts must not be negative'')
     else if ab_pricing_quote_count b < 0 \<or> ab_normalized_pricing_evidence_count b < 0
       then Inl (ValueError ''pricing counts must not be negative'')
     else if ab_analyzed_sample_count b > ab_source_sample_count b
       then Inl (ValueError ''analyzed_sample_count must not exceed source_sample_count'')
     else let excluded = strip_refs (ab_excluded_sample_ids b);
              unmatched = clean_ids (ab_unmatched_pricing_quote_ids b) in
       if ab_provider_count b \<noteq> int (length (ab_providers b))
         then Inl (ValueError ''provider_count must match providers'')
       else if ab_source_sample_count b \<noteq> ab_analyzed_sample_count b + int (length excluded)
         then Inl (ValueError ''source sample count must equal analyzed plus excluded samples'')
       else if list_ex (\<lambda>p. \<not> dt_eq (ar_generated_at p) (ab_generated_at b)) (ab_providers b)
         then Inl (ValueError ''provider generated_at values must match bundle'')
       else if ab_peer_group_count b \<noteq> distinct_count (peer_group_ids (ab_providers b))
         then Inl (ValueError ''peer_group_count must match provider peer comparisons'')
       else if ab_value_peer_group_count b \<noteq> distinct_count (value_peer_group_ids (ab_providers b))
         then Inl (ValueError ''value_peer_group_count must match provider value comparisons'')
       else if ab_normalized_pricing_evidence_count b \<noteq> distinct_count (bundle_pricing_ids (ab_providers b))
         then Inl (ValueError ''normalized_pricing_evidence_count must match provider pricing evidence'')
       else if ab_pricing_quote_count b < ab_normalized_pricing_evidence_count b
         then Inl (ValueError ''pricing_quote_count must cover normalized pricing evidence'')
       else if ab_pricing_quote_count b \<noteq> ab_normalized_pricing_evidence_count b + int (length unmatched)
         then Inl (ValueError ''pricing quote count must equal matched plus unmatched quotes'')
       else Inr (b\<lparr>ab_schema_version := strip (ab_schema_version b),
         ab_excluded_sample_ids := excluded, ab_unmatched_pricing_quote_ids := unmatched\<rparr>))"

section \<open>provider/aggregator.py\<close>

definition ANALYTICS_SCHEMA_VERSION :: string where "ANALYTICS_SCHEMA_VERSION = ''1.2.0''"

definition analytics_id :: "(string \<Rightarrow> string) \<Rightarrow> string \<Rightarrow> string \<Rightarrow> string" where
  "analytics_id sha256 provider_id report_id = ''provider-analytics-'' @
    take 16 (sha256 (ANALYTICS_SCHEMA_VERSION @ newline @ provider_id @ newline @ report_id))"

record intake =
  in_seen :: "string list"
  in_excluded :: "string list"
  in_valid :: "Sample list"

definition intake_step :: "intake \<Rightarrow> Sample \<Rightarrow> intake result" where
  "intake_step st s =
    (if smp_sample_id s \<in> set (in_seen st)
     then Inl (ValueError (''duplicate sample ID: '' @ smp_sample_id s))
     else let st1 = st\<lparr>in_seen := smp_sample_id s # in_seen st\<rparr> in
       if qual_status (smp_quality s) = INVALID
       then Inr (st1\<lparr>in_excluded := in_excluded st1 @ [smp_sample_id s]\<rparr>)
       else rbind (ensure_valid_sample s) (\<lambda>_. Inr (st1\<lparr>in_valid := in_valid st1 @ [s]\<rparr>)))"

definition lookup_list :: "(string \<times> 'a list) list \<Rightarrow> string \<Rightarrow> 'a list" where
  "lookup_list d k = (case map_of d k of None \<Rightarrow> [] | Some xs \<Rightarrow> xs)"

definition provider_analytics ::
  "(string \<Rightarrow> string) \<Rightarrow> pydatetime \<Rightarrow> (string \<times> Cohort list) list \<Rightarrow>
   (string \<times> PeerMetricComparison list) list \<Rightarrow> (string \<times> NormalizedPriceEvidence list) list \<Rightarrow>
   (string \<times> ValueMetricComparison list) list \<Rightarrow> ProviderReport \<Rightarrow> ProviderAnalyticsReport result" where
  "provider_analytics sha256 generated cohorts_by_provider comparisons_by_provider pricing_by_provider
      value_by_provider report =
    (let pid = pr_provider_id report;
         provider_cohorts = sort_key (\<lambda>c. CohortKey_value (co_key c)) (lookup_list cohorts_by_provider pid);
         peer_comparisons = lookup_list comparisons_by_provider pid;
         pricing_evidence = sort_key ev_pricing_evidence_id (lookup_list pricing_by_provider (casefold pid));
         value_comparisons = lookup_list value_by_provider pid in
     rbind (build_scorecard report provider_cohorts peer_comparisons pricing_evidence value_comparisons) (\<lambda>scorecard.
     rbind (build_explanations report scorecard) (\<lambda>explanations.
     ProviderAnalyticsReport_init
       \<lparr>ar_schema_version = ANALYTICS_SCHEMA_VERSION,
        ar_analytics_id = analytics_id sha256 pid (pr_report_id report), ar_generated_at = generated,
        ar_provider_id = pid, ar_provider_name = pr_provider_name report, ar_evidence = report,
        ar_scorecard = scorecard, ar_explanations = explanations,
        ar_peer_comparisons = peer_comparisons, ar_pricing_evidence = pricing_evidence,
        ar_value_comparisons = value_comparisons\<rparr>)))"

definition build_analytics_bundle ::
  "(string \<Rightarrow> string) \<Rightarrow> string list \<Rightarrow> pydatetime \<Rightarrow> PriceQuote list \<Rightarrow> PricingCommitment \<Rightarrow>
   PricingOperatingSystem \<Rightarrow> Sample list \<Rightarrow> AnalyticsBundle result" where
  "build_analytics_bundle sha256 expected_metrics generated pricing_quotes commitment operating_system samples =
    (if \<not> aware generated then Inl (ValueError ''generated_at must contain timezone information'') else
     rbind (rfold intake_step \<lparr>in_seen = [], in_excluded = [], in_valid = []\<rparr> samples) (\<lambda>st.
     rbind (build_cohorts False (in_valid st)) (\<lambda>cohorts.
     rbind (build_provider_reports sha256 expected_metrics generated cohorts) (\<lambda>reports.
     rbind (build_peer_comparisons sha256 cohorts reports) (\<lambda>comparisons_by_provider.
     rbind (match_pricing_evidence sha256 cohorts reports pricing_quotes generated commitment operating_system)
       (\<lambda>pricing_match.
     rbind (build_value_comparisons sha256 cohorts reports (pmr_cohort_evidence pricing_match)) (\<lambda>value_by_provider.
     rbind (rmap (provider_analytics sha256 generated
         (group_by (\<lambda>c. ck_provider_id (co_key c)) cohorts) comparisons_by_provider
         (group_by (\<lambda>e. casefold (ev_provider_id e)) (pmr_evidence pricing_match)) value_by_provider) reports)
       (\<lambda>analytics_reports.
     AnalyticsBundle_init
       \<lparr>ab_schema_version = ANALYTICS_SCHEMA_VERSION, ab_generated_at = generated,
        ab_source_sample_count = int (length samples),
        ab_analyzed_sample_count = sum_list (map (\<lambda>r. pr_total_samples (ar_evidence r)) analytics_reports),
        ab_excluded_sample_ids = sort (in_excluded st),
        ab_provider_count = int (length analytics_reports), ab_providers = analytics_reports,
        ab_peer_group_count = distinct_count (peer_group_ids analytics_reports),
        ab_pricing_quote_count = int (length (pmr_selected_quote_ids pricing_match)),
        ab_normalized_pricing_evidence_count = int (length (pmr_evidence pricing_match)),
        ab_unmatched_pricing_quote_ids = pmr_unmatched_quote_ids pricing_match,
        ab_value_peer_group_count = distinct_count (value_peer_group_ids analytics_reports)\<rparr>))))))))"

section \<open>pipeline.py\<close>

definition analyze_samples ::
  "(string \<Rightarrow> string) \<Rightarrow> string list \<Rightarrow> pydatetime \<Rightarrow> Sample list \<Rightarrow> ProviderReport list result" where
  "analyze_samples sha256 expected_metrics generated_at samples =
    rbind (rmap ensure_valid_sample samples) (\<lambda>_.
    rbind (build_cohorts False samples) (\<lambda>cohorts.
    build_provider_reports sha256 expected_metrics generated_at cohorts))"

definition analyze_provider_analytics where
  "analyze_provider_analytics = build_analytics_bundle"

section \<open>Accounting\<close>

lemma intake_step_facts:
  assumes "intake_step st x = Inr st1"
  shows "smp_sample_id x \<notin> set (in_seen st)" and "in_seen st1 = smp_sample_id x # in_seen st"
    and "in_excluded st1 = in_excluded st @ (if qual_status (smp_quality x) = INVALID then [smp_sample_id x] else [])"
    and "in_valid st1 = in_valid st @ (if qual_status (smp_quality x) = INVALID then [] else [x])"
    and "qual_status (smp_quality x) = INVALID \<or> sample_ok x"
  using assms by (auto simp: intake_step_def Let_def rbind_Inr_iff ensure_valid_iff split: if_splits)

lemma intake_fold:
  assumes "rfold intake_step st xs = Inr st'"
  shows "in_excluded st' = in_excluded st @ map smp_sample_id (filter (\<lambda>s. qual_status (smp_quality s) = INVALID) xs) \<and>
    in_valid st' = in_valid st @ filter (\<lambda>s. qual_status (smp_quality s) \<noteq> INVALID) xs \<and>
    distinct (map smp_sample_id xs) \<and> set (map smp_sample_id xs) \<inter> set (in_seen st) = {} \<and>
    list_all sample_ok (filter (\<lambda>s. qual_status (smp_quality s) \<noteq> INVALID) xs)"
  using assms
proof (induction xs arbitrary: st)
  case Nil
  then show ?case by simp
next
  case (Cons x xs)
  from Cons.prems obtain st1 where st1: "intake_step st x = Inr st1" and rest: "rfold intake_step st1 xs = Inr st'"
    by (auto simp: rbind_Inr_iff)
  from Cons.IH [OF rest] intake_step_facts [OF st1] show ?case by auto
qed

lemma strip_refs_id: "distinct xs \<Longrightarrow> \<forall>x \<in> set xs. clean x \<Longrightarrow> strip_refs xs = xs"
proof -
  assume a: "distinct xs" "\<forall>x \<in> set xs. clean x"
  then have "filter (\<lambda>s. strip s \<noteq> []) xs = xs" "map strip xs = xs"
    by (auto simp: filter_id_conv clean_def map_idI)
  then show ?thesis using a by (simp add: strip_refs_def dedup_distinct)
qed

lemma provider_analytics_fields:
  assumes "provider_analytics sha g cb pb eb vb r = Inr a"
  shows "ar_evidence a = r" and "ar_provider_id a = pr_provider_id r"
    and "ar_peer_comparisons a = lookup_list pb (pr_provider_id r)"
    and "ar_value_comparisons a = lookup_list vb (pr_provider_id r)"
  using assms by (auto simp: provider_analytics_def ProviderAnalyticsReport_init_def rbind_Inr_iff Let_def
      split: if_splits)

definition not_invalid :: "Sample list \<Rightarrow> Sample list" where
  "not_invalid = filter (\<lambda>s. qual_status (smp_quality s) \<noteq> INVALID)"

definition invalid_ids :: "Sample list \<Rightarrow> string list" where
  "invalid_ids xs = map smp_sample_id (filter (\<lambda>s. qual_status (smp_quality s) = INVALID) xs)"

lemma cohort_ok_keys: "cohort_ok c \<Longrightarrow> CohortKey_from_sample ` set (co_samples c) = {co_key c}"
  by (cases "co_samples c") (auto simp: cohort_ok_def list_all_iff)

lemma bundle_facts:
  assumes wf: "list_all wf_sample samples"
    and run: "build_analytics_bundle sha ex g qs cm os samples = Inr b"
  shows "distinct (map smp_sample_id samples)" and "list_all sample_ok (not_invalid samples)"
    and "ab_source_sample_count b = int (length samples)"
    and "ab_analyzed_sample_count b = int (length (not_invalid samples))"
    and "ab_excluded_sample_ids b = sort (invalid_ids samples)"
    and "map ar_provider_id (ab_providers b) =
      sorted_set (map (ck_provider_id \<circ> CohortKey_from_sample) (not_invalid samples))"
    and "ab_pricing_quote_count b =
      ab_normalized_pricing_evidence_count b + int (length (ab_unmatched_pricing_quote_ids b))"
    and "list_all (\<lambda>a. list_all (\<lambda>c. comparison_ok c \<and> ar_provider_id a \<notin> set (pc_peer_provider_ids c))
      (ar_peer_comparisons a)) (ab_providers b)"
proof -
  let ?st0 = "\<lparr>in_seen = [], in_excluded = [], in_valid = []\<rparr>"
  obtain st cohorts reports cbp pm vbp ars where
    st: "rfold intake_step ?st0 samples = Inr st"
    and cohorts: "build_cohorts False (in_valid st) = Inr cohorts"
    and reports: "build_provider_reports sha ex g cohorts = Inr reports"
    and cbp: "build_peer_comparisons sha cohorts reports = Inr cbp"
    and pm: "match_pricing_evidence sha cohorts reports qs g cm os = Inr pm"
    and vbp: "build_value_comparisons sha cohorts reports (pmr_cohort_evidence pm) = Inr vbp"
    and ars: "rmap (provider_analytics sha g (group_by (\<lambda>c. ck_provider_id (co_key c)) cohorts) cbp
        (group_by (\<lambda>e. casefold (ev_provider_id e)) (pmr_evidence pm)) vbp) reports = Inr ars"
    and init: "AnalyticsBundle_init
       \<lparr>ab_schema_version = ANALYTICS_SCHEMA_VERSION, ab_generated_at = g,
        ab_source_sample_count = int (length samples),
        ab_analyzed_sample_count = sum_list (map (\<lambda>r. pr_total_samples (ar_evidence r)) ars),
        ab_excluded_sample_ids = sort (in_excluded st),
        ab_provider_count = int (length ars), ab_providers = ars,
        ab_peer_group_count = distinct_count (peer_group_ids ars),
        ab_pricing_quote_count = int (length (pmr_selected_quote_ids pm)),
        ab_normalized_pricing_evidence_count = int (length (pmr_evidence pm)),
        ab_unmatched_pricing_quote_ids = pmr_unmatched_quote_ids pm,
        ab_value_peer_group_count = distinct_count (value_peer_group_ids ars)\<rparr> = Inr b"
  proof -
    have "aware g" using run by (rule contrapos_pp) (simp add: build_analytics_bundle_def)
    then have "\<not> \<not> aware g" by simp
    from run show thesis
      unfolding build_analytics_bundle_def if_not_P [OF \<open>\<not> \<not> aware g\<close>] rbind_Inr_iff
      by (elim exE conjE) (rule that; assumption)
  qed
  have intake: "in_excluded st = map smp_sample_id (filter (\<lambda>s. qual_status (smp_quality s) = INVALID) samples)"
    "in_valid st = filter (\<lambda>s. qual_status (smp_quality s) \<noteq> INVALID) samples"
    "distinct (map smp_sample_id samples)"
    "list_all sample_ok (filter (\<lambda>s. qual_status (smp_quality s) \<noteq> INVALID) samples)"
    using intake_fold [OF st] by simp_all
  have valid: "in_valid st = not_invalid samples" and excl: "in_excluded st = invalid_ids samples"
    using intake(1,2) by (simp_all add: not_invalid_def invalid_ids_def)
  show ids: "distinct (map smp_sample_id samples)" using intake(3) .
  show "list_all sample_ok (not_invalid samples)" using intake(4) by (simp add: not_invalid_def)
  have wfv: "list_all wf_sample (not_invalid samples)" "distinct (map smp_sample_id (not_invalid samples))"
    using wf ids by (auto simp: not_invalid_def list_all_iff intro: distinct_map_filter)
  have kept: "kept False (not_invalid samples) = not_invalid samples"
    by (simp add: kept_def not_invalid_def)
  note co = build_cohorts_correct [OF wfv cohorts [unfolded valid], unfolded kept]
  have evid: "map ar_evidence ars = reports"
    using rmap_map_proj [OF ars, of ar_evidence id] provider_analytics_fields(1) by simp
  have b: "ab_source_sample_count b = int (length samples)" "ab_providers b = ars"
    "ab_analyzed_sample_count b = sum_list (map pr_total_samples reports)"
    "ab_excluded_sample_ids b = strip_refs (sort (invalid_ids samples))"
    "ab_pricing_quote_count b = ab_normalized_pricing_evidence_count b + int (length (ab_unmatched_pricing_quote_ids b))"
    using init by (auto simp: AnalyticsBundle_init_def Let_def excl evid [symmetric] comp_def split: if_splits)
  show "ab_source_sample_count b = int (length samples)"
    "ab_pricing_quote_count b = ab_normalized_pricing_evidence_count b + int (length (ab_unmatched_pricing_quote_ids b))"
    using b by simp_all
  have "sum_list (map pr_total_samples reports) = sum_list (map co_sample_count cohorts)"
    by (rule build_provider_reports_facts(4) [OF reports])
  also have "\<dots> = int (length (concat (map co_samples cohorts)))"
    using co(3) by (induction cohorts) (auto simp: cohort_ok_def)
  also have "\<dots> = int (length (not_invalid samples))"
    using mset_eq_length [OF co(1)] by simp
  finally show "ab_analyzed_sample_count b = int (length (not_invalid samples))" by (simp add: b)
  have "strip_refs (sort (invalid_ids samples)) = sort (invalid_ids samples)"
    using ids wf by (intro strip_refs_id) (auto simp: invalid_ids_def list_all_iff wf_sample_def intro: distinct_map_filter)
  then show "ab_excluded_sample_ids b = sort (invalid_ids samples)" by (simp add: b)
  have "map ar_provider_id ars = map pr_provider_id reports"
    using provider_analytics_fields(2) by (intro rmap_map_proj [OF ars]) auto
  also have "\<dots> = sorted_set (map (ck_provider_id \<circ> co_key) cohorts)"
    by (rule build_provider_reports_facts(1) [OF reports])
  also have "\<dots> = sorted_set (map (ck_provider_id \<circ> CohortKey_from_sample) (not_invalid samples))"
  proof (rule sorted_set_cong)
    have "co_key ` set cohorts = CohortKey_from_sample ` set (concat (map co_samples cohorts))"
      using co(3) by (induction cohorts) (auto simp: image_Un cohort_ok_keys)
    also have "set (concat (map co_samples cohorts)) = set (not_invalid samples)"
      using mset_eq_setD [OF co(1)] .
    finally have "ck_provider_id ` co_key ` set cohorts = ck_provider_id ` CohortKey_from_sample ` set (not_invalid samples)"
      by simp
    then show "set (map (ck_provider_id \<circ> co_key) cohorts) =
        set (map (ck_provider_id \<circ> CohortKey_from_sample) (not_invalid samples))"
      by (simp add: image_image)
  qed
  finally show "map ar_provider_id (ab_providers b) =
      sorted_set (map (ck_provider_id \<circ> CohortKey_from_sample) (not_invalid samples))"
    by (simp add: b)
  have "comparison_ok c \<and> ar_provider_id a \<notin> set (pc_peer_provider_ids c)"
    if a: "a \<in> set ars" and c: "c \<in> set (ar_peer_comparisons a)" for a c
  proof -
    from rmap_mem [OF ars a] obtain r where r: "provider_analytics sha g (group_by (\<lambda>c. ck_provider_id (co_key c)) cohorts) cbp
        (group_by (\<lambda>e. casefold (ev_provider_id e)) (pmr_evidence pm)) vbp r = Inr a" by blast
    note f = provider_analytics_fields [OF r]
    from c f(2,3) obtain items where items: "(ar_provider_id a, items) \<in> set cbp" "c \<in> set items"
      by (auto simp: lookup_list_def split: option.splits dest: map_of_SomeD)
    with build_peer_comparisons_ok [OF co(3) cbp] have "comparison_ok c"
      "same_peer_group cohorts (ar_provider_id a) (pc_peer_provider_ids c)"
      by (auto simp: list_all_iff)
    then show ?thesis by (auto simp: same_peer_group_def list_ex_iff list_all_iff)
  qed
  then show "list_all (\<lambda>a. list_all (\<lambda>c. comparison_ok c \<and> ar_provider_id a \<notin> set (pc_peer_provider_ids c))
      (ar_peer_comparisons a)) (ab_providers b)"
    by (simp add: b list_all_iff)
qed

section \<open>Properties\<close>

text \<open>
  C7: The analytics bundle accounts for every input sample. When it is built, sample ids are
  distinct and every analyzed sample is valid; the source count splits into the analyzed samples
  (all that are not marked invalid) and the excluded ids (exactly the others, sorted); there is
  one provider report per normalized provider id of the analyzed samples, sorted; no provider is
  among its own peers; and quotes split into matched and unmatched.
\<close>

theorem analytics_bundle_accounts:
  assumes "list_all wf_sample samples"
  shows "case build_analytics_bundle sha256 expected generated quotes commitment os samples of
      Inl e \<Rightarrow> True
    | Inr b \<Rightarrow> distinct (map smp_sample_id samples) \<and> list_all sample_ok (not_invalid samples) \<and>
        ab_source_sample_count b = int (length samples) \<and>
        ab_analyzed_sample_count b = int (length (not_invalid samples)) \<and>
        ab_excluded_sample_ids b = sort (invalid_ids samples) \<and>
        map ar_provider_id (ab_providers b) =
          sorted_set (map (ck_provider_id \<circ> CohortKey_from_sample) (not_invalid samples)) \<and>
        ab_pricing_quote_count b =
          ab_normalized_pricing_evidence_count b + int (length (ab_unmatched_pricing_quote_ids b)) \<and>
        list_all (\<lambda>a. list_all (\<lambda>c. comparison_ok c \<and> ar_provider_id a \<notin> set (pc_peer_provider_ids c))
          (ar_peer_comparisons a)) (ab_providers b)"
  using bundle_facts [OF assms, of sha256 expected generated quotes commitment os]
  by (cases "build_analytics_bundle sha256 expected generated quotes commitment os samples") auto

definition invalid_sample :: "string \<Rightarrow> Sample" where
  "invalid_sample sid = (demo_sample sid 0 (Fin 1))\<lparr>smp_quality :=
     \<lparr>qual_status = INVALID, qual_warnings = [], qual_errors = [''broken'']\<rparr>\<rparr>"

theorem analytics_bundle_accounts_witness:
  "case build_analytics_bundle (\<lambda>t. ''digest'') [] (utc 9) [] ON_DEMAND LINUX
      [demo_sample ''a'' 0 (Fin 1), invalid_sample ''b''] of
      Inl e \<Rightarrow> False
    | Inr b \<Rightarrow> ab_source_sample_count b = 2 \<and> ab_analyzed_sample_count b = 1 \<and>
        ab_excluded_sample_ids b = [''b''] \<and> map ar_provider_id (ab_providers b) = [''acme'']"
proof -
  let ?xs = "[demo_sample ''a'' 0 (Fin 1), invalid_sample ''b'']"
  let ?b = "build_analytics_bundle (\<lambda>t. ''digest'') [] (utc 9) [] ON_DEMAND LINUX ?xs"
  have "list_all wf_sample ?xs" by code_simp
  note ok = analytics_bundle_accounts [OF this, of "\<lambda>t. ''digest''" "[]" "utc 9" "[]" ON_DEMAND LINUX]
  have run: "case ?b of Inl e \<Rightarrow> False | Inr b \<Rightarrow> True" by code_simp
  have "not_invalid ?xs = [demo_sample ''a'' 0 (Fin 1)]" "sort (invalid_ids ?xs) = [''b'']"
    "sorted_set (map (ck_provider_id \<circ> CohortKey_from_sample) [demo_sample ''a'' 0 (Fin 1)]) = [''acme'']"
    by code_simp+
  with ok run show ?thesis by (cases ?b) simp_all
qed

text \<open>
  Peer comparisons carry the case-folded profile of the cohort key, the scorecard the profile
  as written in the protocol. Two providers with one valid sample each whose profile has a
  capital letter therefore abort the whole analysis.
\<close>

definition capital_sample :: "string \<Rightarrow> Sample" where
  "capital_sample pid = (demo_sample pid 0 (Fin 1))\<lparr>
     smp_provider := \<lparr>prov_provider_id = pid, prov_name = ''P'', prov_country_code = Some ''DE''\<rparr>,
     smp_protocol := \<lparr>prot_profile = ''Web'', prot_version = ''1'', prot_fingerprint = ''f''\<rparr>,
     smp_measurements := [(demo_measurement ''m'' (Fin 1))\<lparr>meas_profile := ''Web''\<rparr>]\<rparr>"

theorem capital_profile_aborts_analysis:
  "list_all (\<lambda>s. wf_sample s \<and> val_valid (validate_sample s)) [capital_sample ''a'', capital_sample ''b''] \<and>
   build_analytics_bundle (\<lambda>t. ''digest'') [] (utc 9) [] ON_DEMAND LINUX
     [capital_sample ''a'', capital_sample ''b''] =
     Inl (ValueError ''peer comparison profile must exist in scorecard profiles'')"
  by code_simp

end
