(* ===== verification/Serialization.thy ===== *)
theory Serialization
  imports Pricing
begin

text \<open>
  \<open>serialization/json.py\<close> and \<open>serialization/pricing.py\<close> between decoded JSON and the models:
  \<open>to_primitive\<close> on a sample, key sorting and the NaN check of \<open>dumps\<close>, and the loaders with every
  exception of a missing or wrongly typed field. The JSON text layer (\<open>json.dumps\<close> on sorted
  values, \<open>json.loads\<close>) and the ISO date-time format are parameters. The locale \<open>codec\<close> is the
  contract of an encoder and its decoder; samples and everything inside them are codecs.
\<close>

section \<open>Access to decoded JSON\<close>

definition as_mapping :: "pyval \<Rightarrow> string \<Rightarrow> (string \<times> pyval) list result" where
  "as_mapping v field = (case v of PDict d \<Rightarrow> Inr d
    | _ \<Rightarrow> Inl (ValueError (field @ '' must be an object'')))"

definition as_sequence :: "pyval \<Rightarrow> string \<Rightarrow> pyval list result" where
  "as_sequence v field = (case v of PList xs \<Rightarrow> Inr xs
    | _ \<Rightarrow> Inl (ValueError (field @ '' must be an array'')))"

definition get_default :: "(string \<times> pyval) list \<Rightarrow> string \<Rightarrow> pyval \<Rightarrow> pyval" where
  "get_default d k v = (case map_of d k of None \<Rightarrow> v | Some x \<Rightarrow> x)"

definition get :: "(string \<times> pyval) list \<Rightarrow> string \<Rightarrow> pyval" where
  "get d k = get_default d k PNone"

text \<open>\<open>fromisoformat\<close> is a parameter: \<open>None\<close> where Python raises \<open>ValueError\<close>.\<close>

definition as_datetime :: "(string \<Rightarrow> pydatetime option) \<Rightarrow> pyval \<Rightarrow> string \<Rightarrow> pydatetime result" where
  "as_datetime fromiso v field =
    (case v of PStr s \<Rightarrow>
       (case fromiso s of
          None \<Rightarrow> Inl (ValueError (field @ '' is not a valid ISO date-time''))
        | Some d \<Rightarrow> if \<not> aware d then Inl (ValueError (field @ '' must contain timezone information'')) else Inr d)
     | _ \<Rightarrow> Inl (ValueError (field @ '' must be a date-time string'')))"

section \<open>Loading a sample\<close>

definition metric_from :: "pyval \<Rightarrow> Metric result" where
  "metric_from raw =
    rbind (as_mapping raw ''metric'') (\<lambda>d.
    rbind (dict_get d ''name'') (\<lambda>name. rbind (dict_get d ''value'') (\<lambda>val.
    rbind (dict_get d ''unit'') (\<lambda>un. rbind (dict_get d ''direction'') (\<lambda>dir.
    rbind (MetricDirection_of dir) (\<lambda>direction.
    Metric_init name val un direction))))))"

definition measurement_from :: "(string \<Rightarrow> pydatetime option) \<Rightarrow> pyval \<Rightarrow> Measurement result" where
  "measurement_from fromiso raw =
    rbind (as_mapping raw ''measurements[]'') (\<lambda>d.
    rbind (as_sequence (get d ''metrics'') ''measurements[].metrics'') (\<lambda>ms.
    rbind (rmap metric_from ms) (\<lambda>metrics.
    rbind (dict_get d ''measurement_id'') (\<lambda>mid. rbind (dict_get d ''tool'') (\<lambda>tool_name.
    rbind (dict_get d ''profile'') (\<lambda>pf. rbind (dict_get d ''protocol_version'') (\<lambda>pv.
    rbind (dict_get d ''started_at'') (\<lambda>sa. rbind (as_datetime fromiso sa ''started_at'') (\<lambda>started.
    rbind (dict_get d ''finished_at'') (\<lambda>fa. rbind (as_datetime fromiso fa ''finished_at'') (\<lambda>finished.
    rbind (dict_get d ''status'') (\<lambda>st. rbind (MeasurementStatus_of st) (\<lambda>status.
    Measurement_init mid tool_name (get d ''tool_version'') pf pv started finished status metrics
      (get d ''raw_output_path'') (get d ''error''))))))))))))))"

definition provider_from :: "(string \<times> pyval) list \<Rightarrow> ProviderIdentity result" where
  "provider_from d = rbind (dict_get d ''provider_id'') (\<lambda>pid. rbind (dict_get d ''name'') (\<lambda>name.
     ProviderIdentity_init pid name (get d ''country_code'')))"

definition product_from :: "(string \<times> pyval) list \<Rightarrow> ProductIdentity result" where
  "product_from d = ProductIdentity_init (get d ''product'') (get d ''plan'') (get d ''region'') (get d ''zone'')"

definition machine_from :: "(string \<times> pyval) list \<Rightarrow> MachineIdentity result" where
  "machine_from d = rbind (dict_get d ''machine_type'') (\<lambda>mt. rbind (dict_get d ''cpu_count'') (\<lambda>cpu.
     rbind (dict_get d ''memory_bytes'') (\<lambda>mem. rbind (dict_get d ''architecture'') (\<lambda>ar.
     MachineIdentity_init mt cpu mem ar))))"

definition protocol_from :: "(string \<times> pyval) list \<Rightarrow> ProtocolIdentity result" where
  "protocol_from d = rbind (dict_get d ''profile'') (\<lambda>pf. rbind (dict_get d ''version'') (\<lambda>v.
     rbind (dict_get d ''fingerprint'') (\<lambda>fp. ProtocolIdentity_init pf v fp)))"

definition quality_from :: "(string \<times> pyval) list \<Rightarrow> SampleQuality result" where
  "quality_from d = rbind (dict_get d ''status'') (\<lambda>st. rbind (SampleQualityStatus_of st) (\<lambda>status.
     rbind (dyn_iter (get_default d ''warnings'' (PList []))) (\<lambda>ws.
     rbind (dyn_iter (get_default d ''errors'' (PList []))) (\<lambda>es.
     SampleQuality_init status ws es))))"

definition sample_from_dict :: "(string \<Rightarrow> pydatetime option) \<Rightarrow> (string \<times> pyval) list \<Rightarrow> Sample result" where
  "sample_from_dict fromiso data =
    rbind (as_mapping (get data ''provider'') ''provider'') (\<lambda>provider_data.
    rbind (as_mapping (get data ''product'') ''product'') (\<lambda>product_data.
    rbind (as_mapping (get data ''machine'') ''machine'') (\<lambda>machine_data.
    rbind (as_mapping (get data ''protocol'') ''protocol'') (\<lambda>protocol_data.
    rbind (as_mapping (get data ''quality'') ''quality'') (\<lambda>quality_data.
    rbind (as_sequence (get data ''measurements'') ''measurements'') (\<lambda>measurements_data.
    rbind (rmap (measurement_from fromiso) measurements_data) (\<lambda>measurements.
    rbind (dict_get data ''sample_id'') (\<lambda>sid.
    rbind (dict_get data ''created_at'') (\<lambda>ca. rbind (as_datetime fromiso ca ''created_at'') (\<lambda>created.
    rbind (provider_from provider_data) (\<lambda>provider.
    rbind (product_from product_data) (\<lambda>product.
    rbind (machine_from machine_data) (\<lambda>machine.
    rbind (protocol_from protocol_data) (\<lambda>protocol.
    rbind (quality_from quality_data) (\<lambda>quality.
    Sample_init sid created provider product machine protocol measurements quality)))))))))))))))"

definition sample_from :: "(string \<Rightarrow> pydatetime option) \<Rightarrow> pyval \<Rightarrow> Sample result" where
  "sample_from fromiso v = rbind (as_mapping v ''sample'') (sample_from_dict fromiso)"

section \<open>to_primitive and dumps\<close>

text \<open>\<open>asdict\<close> in field order, enums by value, date-times in ISO format.\<close>

definition metric_dict :: "Metric \<Rightarrow> pyval" where
  "metric_dict m = PDict [(''name'', PStr (metric_name m)), (''value'', PFloat (metric_value m)),
     (''unit'', PStr (metric_unit m)), (''direction'', PStr (MetricDirection_value (metric_direction m)))]"

definition measurement_dict :: "(pydatetime \<Rightarrow> string) \<Rightarrow> Measurement \<Rightarrow> pyval" where
  "measurement_dict isofmt m = PDict [(''measurement_id'', PStr (meas_measurement_id m)),
     (''tool'', PStr (meas_tool m)), (''tool_version'', opt_str (meas_tool_version m)),
     (''profile'', PStr (meas_profile m)), (''protocol_version'', PStr (meas_protocol_version m)),
     (''started_at'', PStr (isofmt (meas_started_at m))), (''finished_at'', PStr (isofmt (meas_finished_at m))),
     (''status'', PStr (MeasurementStatus_value (meas_status m))),
     (''metrics'', PList (map metric_dict (meas_metrics m))),
     (''raw_output_path'', opt_str (meas_raw_output_path m)), (''error'', opt_str (meas_error m))]"

definition provider_dict :: "ProviderIdentity \<Rightarrow> (string \<times> pyval) list" where
  "provider_dict p = [(''provider_id'', PStr (prov_provider_id p)), (''name'', PStr (prov_name p)),
     (''country_code'', opt_str (prov_country_code p))]"

definition product_dict :: "ProductIdentity \<Rightarrow> (string \<times> pyval) list" where
  "product_dict p = [(''product'', opt_str (prod_product p)), (''plan'', opt_str (prod_plan p)),
     (''region'', opt_str (prod_region p)), (''zone'', opt_str (prod_zone p))]"

definition machine_dict :: "MachineIdentity \<Rightarrow> (string \<times> pyval) list" where
  "machine_dict m = [(''machine_type'', PStr (mach_machine_type m)), (''cpu_count'', num_json (mach_cpu_count m)),
     (''memory_bytes'', num_json (mach_memory_bytes m)), (''architecture'', PStr (mach_architecture m))]"

definition protocol_dict :: "ProtocolIdentity \<Rightarrow> (string \<times> pyval) list" where
  "protocol_dict p = [(''profile'', PStr (prot_profile p)), (''version'', PStr (prot_version p)),
     (''fingerprint'', PStr (prot_fingerprint p))]"

definition quality_dict :: "SampleQuality \<Rightarrow> (string \<times> pyval) list" where
  "quality_dict q = [(''status'', PStr (SampleQualityStatus_value (qual_status q))),
     (''warnings'', PList (map PStr (qual_warnings q))), (''errors'', PList (map PStr (qual_errors q)))]"

definition sample_dict :: "(pydatetime \<Rightarrow> string) \<Rightarrow> Sample \<Rightarrow> pyval" where
  "sample_dict isofmt s = PDict [(''sample_id'', PStr (smp_sample_id s)),
     (''created_at'', PStr (isofmt (smp_created_at s))), (''provider'', PDict (provider_dict (smp_provider s))),
     (''product'', PDict (product_dict (smp_product s))), (''machine'', PDict (machine_dict (smp_machine s))),
     (''protocol'', PDict (protocol_dict (smp_protocol s))),
     (''measurements'', PList (map (measurement_dict isofmt) (smp_measurements s))),
     (''quality'', PDict (quality_dict (smp_quality s)))]"

text \<open>\<open>sort_keys=True\<close>, and the floats \<open>allow_nan=False\<close> accepts.\<close>

fun sort_json :: "pyval \<Rightarrow> pyval" where
  "sort_json (PList xs) = PList (map sort_json xs)"
| "sort_json (PDict d) = PDict (sort_key fst (map (\<lambda>(k, v). (k, sort_json v)) d))"
| "sort_json v = v"

fun json_finite :: "pyval \<Rightarrow> bool" where
  "json_finite (PFloat f) = isfinite f"
| "json_finite (PList xs) = list_all json_finite xs"
| "json_finite (PDict d) = list_all (\<lambda>(k, v). json_finite v) d"
| "json_finite v = True"

definition dumps :: "(pyval \<Rightarrow> string) \<Rightarrow> pyval \<Rightarrow> string result" where
  "dumps json_text v = (if json_finite v then Inr (json_text (sort_json v))
    else Inl (ValueError ''Out of range float values are not JSON compliant''))"

definition dumps_sample :: "(pyval \<Rightarrow> string) \<Rightarrow> (pydatetime \<Rightarrow> string) \<Rightarrow> Sample \<Rightarrow> string result" where
  "dumps_sample json_text isofmt s = dumps json_text (sample_dict isofmt s)"

definition loads_sample :: "(string \<Rightarrow> pyval result) \<Rightarrow> (string \<Rightarrow> pydatetime option) \<Rightarrow> string \<Rightarrow> Sample result" where
  "loads_sample json_loads fromiso text = rbind (json_loads text) (sample_from fromiso)"

section \<open>Encoders and decoders\<close>

text \<open>
  A codec decodes what it encoded from a well-formed value, and decodes to well-formed values
  only.
\<close>

locale codec =
  fixes enc :: "'r \<Rightarrow> 'e" and dec :: "'e \<Rightarrow> 'r result" and wf :: "'r \<Rightarrow> bool"
  assumes dec_enc: "wf r \<Longrightarrow> dec (enc r) = Inr r" and dec_wf: "dec v = Inr r \<Longrightarrow> wf r"
begin

lemma reencode: "dec v = Inr r \<Longrightarrow> dec (enc r) = Inr r"
  by (simp add: dec_enc dec_wf)

lemma enc_inj: "wf r \<Longrightarrow> wf s \<Longrightarrow> enc r = enc s \<Longrightarrow> r = s"
  by (metis dec_enc sum.inject(2))

lemma list_dec_enc: "list_all wf rs \<Longrightarrow> rmap dec (map enc rs) = Inr rs"
  by (induction rs) (simp_all add: dec_enc)

lemma list_dec_wf: "rmap dec vs = Inr rs \<Longrightarrow> list_all wf rs"
  by (auto simp: list_all_iff dest!: rmap_mem dec_wf)

end

section \<open>Sorted dictionaries\<close>

lemma map_of_sort_keys:
  assumes "distinct (map fst d)"
  shows "map_of (sort_key fst (map (\<lambda>(k, v). (k, sort_json v)) d)) = (\<lambda>k. map_option sort_json (map_of d k))"
proof -
  let ?d = "map (\<lambda>(k, v). (k, sort_json v)) d"
  have dist: "distinct (map fst ?d)" using assms by (simp add: comp_def case_prod_beta')
  then have "distinct (map fst (sort_key fst ?d))"
    by (simp add: map_sort_key)
  with dist have "map_of (sort_key fst ?d) = map_of ?d"
    by (subst map_of_inject_set) simp_all
  also have "\<dots> = (\<lambda>k. map_option sort_json (map_of d k))"
    by (auto simp: map_of_map)
  finally show ?thesis .
qed

definition sorted_dict :: "(string \<times> pyval) list \<Rightarrow> (string \<times> pyval) list" where
  "sorted_dict d = sort_key fst (map (\<lambda>(k, v). (k, sort_json v)) d)"

lemma dict_get_sorted:
  "distinct (map fst d) \<Longrightarrow> map_of d k = Some v \<Longrightarrow> dict_get (sorted_dict d) k = Inr (sort_json v)"
  by (simp add: dict_get_def sorted_dict_def map_of_sort_keys)

lemma get_sorted:
  "distinct (map fst d) \<Longrightarrow> get (sorted_dict d) k = (case map_of d k of None \<Rightarrow> PNone | Some v \<Rightarrow> sort_json v)"
  "distinct (map fst d) \<Longrightarrow> get_default (sorted_dict d) k w = (case map_of d k of None \<Rightarrow> w | Some v \<Rightarrow> sort_json v)"
  by (simp_all add: get_def get_default_def sorted_dict_def map_of_sort_keys split: option.split)

lemma sort_json_opt [simp]: "sort_json (opt_str v) = opt_str v"
  by (simp add: opt_str_def split: option.split)

lemma sort_json_strs [simp]: "sort_json \<circ> PStr = PStr"
  by auto

lemma sort_json_num [simp]: "sort_json (num_json v) = num_json v"
  by (cases v) simp_all

lemma json_finite_num [simp]: "json_finite (num_json v) = num_finite v"
  by (cases v) simp_all

lemma json_finite_opt [simp]: "json_finite (opt_str v)"
  by (simp add: opt_str_def split: option.split)

lemma sort_json_dict: "sort_json (PDict d) = PDict (sorted_dict d)"
  by (simp add: sorted_dict_def)

lemmas sorted_simps = sort_json_dict sort_json.simps(1,3-) dict_get_sorted get_sorted as_mapping_def as_sequence_def

declare sort_json.simps(2) [simp del]

section \<open>The codecs of a sample\<close>

interpretation metric_codec: codec "\<lambda>m. sort_json (metric_dict m)" metric_from wf_metric
proof
  show "metric_from (sort_json (metric_dict m)) = Inr m" if "wf_metric m" for m
    using Metric_init_id [OF that] by (simp add: metric_from_def metric_dict_def sorted_simps)
  show "wf_metric m" if "metric_from v = Inr m" for v m
    using that by (auto simp: metric_from_def rbind_Inr_iff intro: Metric_init_wf)
qed

lemma metrics_sorted: "map sort_json (map metric_dict ms) = map (\<lambda>m. sort_json (metric_dict m)) ms"
  by simp

lemma measurement_from_wf: "measurement_from fromiso v = Inr m \<Longrightarrow> wf_measurement m"
  by (auto simp: measurement_from_def rbind_Inr_iff intro: Measurement_init_wf metric_codec.list_dec_wf)

lemma measurement_from_dict:
  assumes isofmt: "fromiso (isofmt (meas_started_at m)) = Some (meas_started_at m)"
      "fromiso (isofmt (meas_finished_at m)) = Some (meas_finished_at m)"
    and wf: "wf_measurement m"
  shows "measurement_from fromiso (sort_json (measurement_dict isofmt m)) = Inr m"
proof -
  have "rmap metric_from (map (\<lambda>m. sort_json (metric_dict m)) (meas_metrics m)) = Inr (meas_metrics m)"
    using wf by (intro metric_codec.list_dec_enc) (simp add: wf_measurement_def)
  moreover have "aware (meas_started_at m)" "aware (meas_finished_at m)"
    using wf by (simp_all add: wf_measurement_def)
  ultimately show ?thesis using Measurement_init_id [OF wf]
    by (simp add: measurement_from_def measurement_dict_def sorted_simps as_datetime_def isofmt comp_def)
qed

lemma identities_from_dict:
  "wf_provider p \<Longrightarrow> provider_from (sorted_dict (provider_dict p)) = Inr p"
  "wf_product q \<Longrightarrow> product_from (sorted_dict (product_dict q)) = Inr q"
  "wf_machine m \<Longrightarrow> machine_from (sorted_dict (machine_dict m)) = Inr m"
  "wf_protocol r \<Longrightarrow> protocol_from (sorted_dict (protocol_dict r)) = Inr r"
  "wf_quality t \<Longrightarrow> quality_from (sorted_dict (quality_dict t)) = Inr t"
  using ProviderIdentity_init_id ProductIdentity_init_id MachineIdentity_init_id
    ProtocolIdentity_init_id SampleQuality_init_id
  by (simp_all add: provider_from_def provider_dict_def product_from_def product_dict_def
      machine_from_def machine_dict_def protocol_from_def protocol_dict_def quality_from_def
      quality_dict_def sorted_simps)

lemma identities_from_wf:
  "provider_from d = Inr p \<Longrightarrow> wf_provider p"
  "product_from d = Inr q \<Longrightarrow> wf_product q"
  "machine_from d = Inr m \<Longrightarrow> wf_machine m"
  "protocol_from d = Inr r \<Longrightarrow> wf_protocol r"
  "quality_from d = Inr t \<Longrightarrow> wf_quality t"
  by (auto simp: provider_from_def product_from_def machine_from_def protocol_from_def quality_from_def
      rbind_Inr_iff intro: ProviderIdentity_init_wf ProductIdentity_init_wf MachineIdentity_init_wf
      ProtocolIdentity_init_wf SampleQuality_init_wf)

lemma sample_from_dict_wf: "sample_from_dict fromiso d = Inr s \<Longrightarrow> wf_sample s"
  unfolding sample_from_dict_def rbind_Inr_iff
  by (elim exE conjE, erule Sample_init_wf)
    (auto intro: identities_from_wf measurement_from_wf simp: list_all_iff dest!: rmap_mem)

text \<open>The date-times a sample carries.\<close>

definition sample_times :: "Sample \<Rightarrow> pydatetime list" where
  "sample_times s = smp_created_at s # map meas_started_at (smp_measurements s) @
     map meas_finished_at (smp_measurements s)"

lemma sample_from_sample_dict:
  assumes isofmt: "list_all (\<lambda>d. fromiso (isofmt d) = Some d) (sample_times s)" and wf: "wf_sample s"
  shows "sample_from fromiso (sort_json (sample_dict isofmt s)) = Inr s"
proof -
  have times: "fromiso (isofmt (smp_created_at s)) = Some (smp_created_at s)"
    "list_all (\<lambda>m. fromiso (isofmt (meas_started_at m)) = Some (meas_started_at m) \<and>
      fromiso (isofmt (meas_finished_at m)) = Some (meas_finished_at m)) (smp_measurements s)"
    using isofmt by (auto simp: sample_times_def list_all_iff)
  have "rmap (measurement_from fromiso) (map (\<lambda>m. sort_json (measurement_dict isofmt m)) ms) = Inr ms"
    if "list_all (\<lambda>m. wf_measurement m \<and> fromiso (isofmt (meas_started_at m)) = Some (meas_started_at m) \<and>
      fromiso (isofmt (meas_finished_at m)) = Some (meas_finished_at m)) ms" for ms
    using that by (induction ms) (simp_all add: measurement_from_dict)
  then have "rmap (measurement_from fromiso) (map (\<lambda>m. sort_json (measurement_dict isofmt m)) (smp_measurements s)) =
      Inr (smp_measurements s)"
    using wf times by (simp add: wf_sample_def list_all_iff)
  moreover have "aware (smp_created_at s)" "wf_provider (smp_provider s)" "wf_product (smp_product s)"
    "wf_machine (smp_machine s)" "wf_protocol (smp_protocol s)" "wf_quality (smp_quality s)"
    using wf by (simp_all add: wf_sample_def)
  ultimately show ?thesis using Sample_init_id [OF wf] times(1)
    by (simp add: sample_from_def sample_from_dict_def sample_dict_def sorted_simps as_datetime_def
        comp_def identities_from_dict)
qed

interpretation provider_codec: codec "\<lambda>p. sorted_dict (provider_dict p)" provider_from wf_provider
  by unfold_locales (simp_all add: identities_from_dict identities_from_wf)

interpretation product_codec: codec "\<lambda>p. sorted_dict (product_dict p)" product_from wf_product
  by unfold_locales (simp_all add: identities_from_dict identities_from_wf)

interpretation machine_codec: codec "\<lambda>m. sorted_dict (machine_dict m)" machine_from wf_machine
  by unfold_locales (simp_all add: identities_from_dict identities_from_wf)

interpretation protocol_codec: codec "\<lambda>p. sorted_dict (protocol_dict p)" protocol_from wf_protocol
  by unfold_locales (simp_all add: identities_from_dict identities_from_wf)

interpretation quality_codec: codec "\<lambda>q. sorted_dict (quality_dict q)" quality_from wf_quality
  by unfold_locales (simp_all add: identities_from_dict identities_from_wf)

lemma json_finite_sample: "wf_sample s \<Longrightarrow> json_finite (sample_dict isofmt s) = counts_finite s"
  by (auto simp: sample_dict_def provider_dict_def product_dict_def machine_dict_def protocol_dict_def
      quality_dict_def measurement_dict_def metric_dict_def wf_sample_def wf_measurement_def wf_metric_def
      list_all_iff counts_finite_def)

lemma sample_from_wf: "sample_from fromiso v = Inr s \<Longrightarrow> wf_sample s"
  by (auto simp: sample_from_def rbind_Inr_iff dest: sample_from_dict_wf)

lemma loads_dumps:
  assumes "wf_sample s" and "list_all (\<lambda>d. fromiso (isofmt d) = Some d) (sample_times s)"
    and "json_loads (json_text (sort_json (sample_dict isofmt s))) = Inr (sort_json (sample_dict isofmt s))"
  shows "rbind (dumps_sample json_text isofmt s) (loads_sample json_loads fromiso) =
    (if counts_finite s then Inr s else Inl (ValueError ''Out of range float values are not JSON compliant''))"
  using assms by (simp add: dumps_sample_def dumps_def json_finite_sample loads_sample_def sample_from_sample_dict)

section \<open>serialization/pricing.py\<close>

definition PricingCommitment_of :: "pyval \<Rightarrow> PricingCommitment result" where
  "PricingCommitment_of = enum_parse PricingCommitment_value [ON_DEMAND, RESERVED, SPOT]"

definition PricingOperatingSystem_of :: "pyval \<Rightarrow> PricingOperatingSystem result" where
  "PricingOperatingSystem_of = enum_parse PricingOperatingSystem_value [LINUX, WINDOWS, OTHER]"

definition PricingSourceTier_of :: "pyval \<Rightarrow> PricingSourceTier result" where
  "PricingSourceTier_of =
    enum_parse PricingSourceTier_value [OFFICIAL_API, OFFICIAL_DOCUMENT, RESELLER, MANUAL]"

fun tax_flag :: "pyval \<Rightarrow> bool option result" where
  "tax_flag PNone = Inr None"
| "tax_flag (PBool b) = Inr (Some b)"
| "tax_flag _ = Inl (ValueError ''tax_included must be boolean or null'')"

definition optional_datetime :: "(string \<Rightarrow> pydatetime option) \<Rightarrow> pyval \<Rightarrow> string \<Rightarrow> pydatetime option result" where
  "optional_datetime fromiso v field = (if v = PNone then Inr None
    else rbind (as_datetime fromiso v field) (\<lambda>d. Inr (Some d)))"

definition quote_from :: "(string \<Rightarrow> pydatetime option) \<Rightarrow> pyval \<Rightarrow> PriceQuote result" where
  "quote_from fromiso raw =
    rbind (as_mapping raw ''quotes[]'') (\<lambda>d.
    rbind (as_mapping (get d ''source'') ''quotes[].source'') (\<lambda>source_data.
    rbind (tax_flag (get d ''tax_included'')) (\<lambda>tax.
    rbind (dict_get d ''quote_id'') (\<lambda>qid. rbind (dict_get d ''provider_id'') (\<lambda>pid.
    rbind (dict_get d ''product'') (\<lambda>pd. rbind (dict_get d ''plan'') (\<lambda>pl.
    rbind (dict_get d ''observed_at'') (\<lambda>oa. rbind (as_datetime fromiso oa ''observed_at'') (\<lambda>observed.
    rbind (dict_get d ''valid_from'') (\<lambda>vf. rbind (as_datetime fromiso vf ''valid_from'') (\<lambda>from_time.
    rbind (optional_datetime fromiso (get d ''valid_until'') ''valid_until'') (\<lambda>until.
    rbind (dict_get d ''commitment'') (\<lambda>cm. rbind (PricingCommitment_of cm) (\<lambda>commitment.
    rbind (dict_get d ''operating_system'') (\<lambda>os. rbind (PricingOperatingSystem_of os) (\<lambda>operating_system.
    rbind (dict_get d ''amount'') (\<lambda>am. rbind (dict_get d ''currency'') (\<lambda>cur.
    rbind (dict_get d ''billing_period'') (\<lambda>bp. rbind (dict_get d ''billing_period_hours'') (\<lambda>bh.
    rbind (dict_get d ''fx_to_usd'') (\<lambda>fx.
    rbind (dict_get source_data ''tier'') (\<lambda>tr. rbind (PricingSourceTier_of tr) (\<lambda>tier.
    rbind (dict_get source_data ''reference'') (\<lambda>rf. rbind (PricingSource_init tier rf) (\<lambda>source.
    PriceQuote_init qid pid pd pl (get d ''region'') (get d ''zone'') observed from_time until
      commitment operating_system am cur bp bh fx tax source)))))))))))))))))))))))))"

definition pricing_catalog_from_dict ::
  "(string \<Rightarrow> pydatetime option) \<Rightarrow> (string \<times> pyval) list \<Rightarrow> PricingCatalog result" where
  "pricing_catalog_from_dict fromiso data =
    rbind (as_sequence (get data ''quotes'') ''quotes'') (\<lambda>raw.
    rbind (rmap (quote_from fromiso) raw) (\<lambda>quotes.
    rbind (dict_get data ''schema_version'') (\<lambda>version. PricingCatalog_init version quotes)))"

definition loads_pricing_catalog ::
  "(string \<Rightarrow> pyval result) \<Rightarrow> (string \<Rightarrow> pydatetime option) \<Rightarrow> string \<Rightarrow> PricingCatalog result" where
  "loads_pricing_catalog json_loads fromiso text = rbind (json_loads text) (\<lambda>v.
    rbind (as_mapping v ''pricing catalog'') (pricing_catalog_from_dict fromiso))"

definition wf_quote :: "PriceQuote \<Rightarrow> bool" where
  "wf_quote q \<longleftrightarrow> clean (pq_quote_id q) \<and> clean (pq_provider_id q) \<and> clean (pq_product q) \<and>
    clean (pq_plan q) \<and> clean (pq_billing_period q) \<and> clean_opt (pq_region q) \<and> clean_opt (pq_zone q) \<and>
    check_window (pq_observed_at q) (pq_valid_from q) (pq_valid_until q) = Inr () \<and>
    isfinite (pq_amount q) \<and> flt (Fin 0) (pq_amount q) \<and>
    isfinite (pq_billing_period_hours q) \<and> flt (Fin 0) (pq_billing_period_hours q) \<and>
    isfinite (pq_fx_to_usd q) \<and> flt (Fin 0) (pq_fx_to_usd q) \<and>
    length (pq_currency q) = 3 \<and> isalpha (pq_currency q) \<and> upper (pq_currency q) = pq_currency q \<and>
    (pq_currency q \<noteq> ''USD'' \<or> isclose_abs (pq_fx_to_usd q) (Fin 1))"

lemma positive_float_pos: "positive_float v f = Inr r \<Longrightarrow> isfinite r \<and> flt (Fin 0) r"
  by (cases r) (auto simp: positive_float_def rbind_Inr_iff split: if_splits)

lemma optional_label_clean: "optional_label v = Inr l \<Longrightarrow> clean_opt l"
  by (auto simp: optional_label_def rbind_Inr_iff clean_opt_def clean_def dest: dyn_strip_Inr split: if_splits)

lemma PriceQuote_init_wf:
  assumes "PriceQuote_init a b c d e f g h i j k l m n oo p q r = Inr x"
  shows "wf_quote x"
  using assms
  by (auto simp: PriceQuote_init_def wf_quote_def rbind_Inr_iff Let_def split: if_splits
      intro: required_str_clean optional_label_clean dest: positive_float_pos)

lemma quote_from_wf: "quote_from fromiso v = Inr q \<Longrightarrow> wf_quote q"
  unfolding quote_from_def rbind_Inr_iff by (elim exE conjE) (rule PriceQuote_init_wf)

section \<open>Properties\<close>

text \<open>
  C10: Whatever JSON value \<open>sample_from_dict\<close> accepts, the sample is well formed: identifiers
  without surrounding white space and not empty, timestamps aware and in order, at least one
  measurement, successful measurements with metrics and failed ones with an error, finite metric
  values. Its counts are positive integers or floats that are not at most zero: a fraction of a
  processor, an infinity and a NaN are accepted against the annotation \<open>int\<close>.
\<close>

theorem loaded_sample_wf:
  "case sample_from fromiso v of Inl e \<Rightarrow> True | Inr s \<Rightarrow> wf_sample s"
  using sample_from_wf [of fromiso v] by (auto split: sum.splits)

text \<open>A sample with two and a half processors and a NaN for its memory size is accepted.\<close>

lemma float_counts_accepted:
  "let machine = [(''machine_type'', PStr ''vm''), (''cpu_count'', PFloat (Fin (5 / 2))),
       (''memory_bytes'', PFloat NaN), (''architecture'', PStr ''x86'')]
   in machine_from machine = Inr \<lparr>mach_machine_type = ''vm'', mach_cpu_count = FloatNum (Fin (5 / 2)),
        mach_memory_bytes = FloatNum NaN, mach_architecture = ''x86''\<rparr>"
  by code_simp

text \<open>
  C9: A well-formed sample written by \<open>dumps\<close> is read back by \<open>loads_sample\<close> as it was, when the
  ISO format reads back the sample's date-times and the JSON text layer reads back the document
  it wrote. Only a sample with an infinite or NaN count is not written: \<open>dumps\<close> raises
  \<open>ValueError\<close> on it.
\<close>

theorem sample_json_roundtrip:
  assumes "wf_sample s" and "list_all (\<lambda>d. fromiso (isofmt d) = Some d) (sample_times s)"
    and "json_loads (json_text (sort_json (sample_dict isofmt s))) = Inr (sort_json (sample_dict isofmt s))"
  shows "rbind (dumps_sample json_text isofmt s) (loads_sample json_loads fromiso) =
    (if counts_finite s then Inr s else Inl (ValueError ''Out of range float values are not JSON compliant''))"
  by (rule loads_dumps) (fact assms)+

theorem sample_json_roundtrip_witness:
  "rbind (dumps_sample (\<lambda>v. ''{}'') (\<lambda>d. int_str (dt_local d)) (demo_sample ''a'' 7 (Fin 3)))
     (loads_sample (\<lambda>t. Inr (sort_json (sample_dict (\<lambda>d. int_str (dt_local d)) (demo_sample ''a'' 7 (Fin 3)))))
       (\<lambda>t. Some (utc (digits_val t)))) = Inr (demo_sample ''a'' 7 (Fin 3))"
proof -
  let ?s = "demo_sample ''a'' 7 (Fin 3)" and ?iso = "\<lambda>d :: pydatetime. int_str (dt_local d)"
  let ?text = "\<lambda>v :: pyval. ''{}''" and ?loads = "\<lambda>t :: string. Inr (sort_json (sample_dict ?iso ?s)) :: pyval result"
  have "rbind (dumps_sample ?text ?iso ?s) (loads_sample ?loads (\<lambda>t. Some (utc (digits_val t)))) =
      (if counts_finite ?s then Inr ?s else Inl (ValueError ''Out of range float values are not JSON compliant''))"
  proof (rule sample_json_roundtrip)
    show "wf_sample ?s" by code_simp
    show "list_all (\<lambda>d. (\<lambda>t. Some (utc (digits_val t))) (?iso d) = Some d) (sample_times ?s)" by code_simp
  qed simp
  moreover have "counts_finite ?s" by code_simp
  ultimately show ?thesis by simp
qed

text \<open>
  A loaded pricing catalog has the supported version, distinct quote ids, and only quotes
  with cleaned identifiers and labels, a validity window with time zones that ends after it
  starts, positive finite amounts, and an upper-case three-letter currency that for USD comes
  with an exchange rate of one.
\<close>

theorem loaded_catalog_wf:
  "case pricing_catalog_from_dict fromiso data of Inl e \<Rightarrow> True
    | Inr c \<Rightarrow> pcat_schema_version c = ''1.0.0'' \<and> distinct (map pq_quote_id (pcat_quotes c)) \<and>
        list_all wf_quote (pcat_quotes c)"
proof (cases "pricing_catalog_from_dict fromiso data")
  case (Inr c)
  then obtain raw quotes version where "rmap (quote_from fromiso) raw = Inr quotes"
    and init: "PricingCatalog_init version quotes = Inr c"
    by (auto simp: pricing_catalog_from_dict_def rbind_Inr_iff)
  from rmap_mem [OF this(1)] have "list_all wf_quote quotes"
    using quote_from_wf by (force simp: list_all_iff)
  moreover have "pcat_quotes c = quotes" "pcat_schema_version c = ''1.0.0''" "distinct (map pq_quote_id quotes)"
    using init length_set_eq_distinct [of "map pq_quote_id quotes"]
    by (auto simp: PricingCatalog_init_def rbind_Inr_iff split: if_splits)
  ultimately show ?thesis using Inr by simp
qed simp

text \<open>
  A JSON document whose sample id is a number makes the loader raise \<open>AttributeError\<close>, which
  is not a \<open>ValueError\<close>: the callers that catch \<open>ValueError\<close>, \<open>KeyError\<close> and \<open>TypeError\<close> around the
  loader do not catch it.
\<close>

theorem numeric_sample_id_escapes:
  "sample_from (\<lambda>t. Some (utc (digits_val t)))
     (PDict (AList.update ''sample_id'' (PInt 7)
       (case sample_dict (\<lambda>d. int_str (dt_local d)) (demo_sample ''a'' 7 (Fin 3)) of PDict d \<Rightarrow> d | _ \<Rightarrow> []))) =
   Inl (AttributeError ''strip'')"
  by code_simp

end
