(* ===== verification/Files.thy ===== *)
theory Files
  imports PyString
begin

text \<open>
  Files as the program uses them: a directory maps names to contents, and a write goes through a
  temporary file that replaces the destination in one step. The steps of such a write are listed,
  so that a crash or an error between two of them is a prefix of the list. The locale
  \<open>kv_store\<close> is the contract of a key-value store; its client lemma says that a sequence of
  stores and removals acts on the looked-up values as it acts on a map.
\<close>

section \<open>A directory and its operations\<close>

type_synonym files = "(string \<times> string) list"

definition read_file :: "string \<Rightarrow> files \<Rightarrow> string result" where
  "read_file path fs = (case map_of fs path of
     None \<Rightarrow> Inl (FileNotFoundError path) | Some text \<Rightarrow> Inr text)"

definition file_exists :: "string \<Rightarrow> files \<Rightarrow> bool" where
  "file_exists path fs \<longleftrightarrow> map_of fs path \<noteq> None"

datatype fs_op = WriteFile string string | ReplaceFile string string | UnlinkFile string

text \<open>
  \<open>Path.replace\<close> moves a file over its destination; \<open>Path.unlink(missing_ok=True)\<close> removes a file
  if it is there.
\<close>

fun fs_step :: "fs_op \<Rightarrow> files \<Rightarrow> files" where
  "fs_step (WriteFile path text) fs = AList.update path text fs"
| "fs_step (ReplaceFile source target) fs = (case map_of fs source of
     None \<Rightarrow> fs | Some text \<Rightarrow> AList.update target text (AList.delete source fs))"
| "fs_step (UnlinkFile path) fs = AList.delete path fs"

definition fs_run :: "fs_op list \<Rightarrow> files \<Rightarrow> files" where
  "fs_run ops fs = fold fs_step ops fs"

lemma fs_run_simps [simp]:
  "fs_run [] fs = fs"
  "fs_run (op # ops) fs = fs_run ops (fs_step op fs)"
  "fs_run (ops @ ops') fs = fs_run ops' (fs_run ops fs)"
  by (simp_all add: fs_run_def)

section \<open>Atomic writes\<close>

text \<open>
  The content reaches the temporary file piece by piece. Position \<open>n\<close> of the list is the state in
  which \<open>n\<close> characters have been written.
\<close>

definition write_steps :: "string \<Rightarrow> string \<Rightarrow> fs_op list" where
  "write_steps temp text = map (\<lambda>n. WriteFile temp (take n text)) [0..<Suc (length text)]"

definition atomic_steps :: "string \<Rightarrow> string \<Rightarrow> string \<Rightarrow> fs_op list" where
  "atomic_steps temp dest text = write_steps temp text @ [ReplaceFile temp dest, UnlinkFile temp]"

datatype write_fault = NoFault | CreateFails | WriteFails nat | ReplaceFails

lemma map_of_update [simp]: "map_of (AList.update k v fs) = (map_of fs)(k \<mapsto> v)"
  by (rule update_conv')

lemma map_of_delete [simp]: "map_of (AList.delete k fs) = (map_of fs)(k := None)"
  by (rule delete_conv')

lemma distinct_keys_update [simp]:
  "distinct (map fst fs) \<Longrightarrow> distinct (map fst (AList.update k v fs))"
  by (rule distinct_update)

lemma distinct_keys_delete [simp]:
  "distinct (map fst fs) \<Longrightarrow> distinct (map fst (AList.delete k fs))"
  by (rule distinct_delete)

lemma map_of_writes:
  "map_of (fs_run (map (\<lambda>n. WriteFile temp (f n)) ns) fs) =
   (if ns = [] then map_of fs else (map_of fs)(temp \<mapsto> f (last ns)))"
  by (induction ns arbitrary: fs) auto

lemma map_of_write_steps: "map_of (fs_run (write_steps temp text) fs) = (map_of fs)(temp \<mapsto> text)"
  unfolding write_steps_def map_of_writes by simp

lemma map_of_atomic_steps:
  assumes "temp \<noteq> dest"
  shows "map_of (fs_run (atomic_steps temp dest text) fs) = (map_of fs)(temp := None, dest \<mapsto> text)"
  using assms by (auto simp: atomic_steps_def map_of_write_steps fun_upd_twist)

lemma distinct_keys_step:
  "distinct (map fst fs) \<Longrightarrow> distinct (map fst (fs_step op fs))"
  by (cases op) (auto split: option.splits)

lemma distinct_keys_run:
  "distinct (map fst fs) \<Longrightarrow> distinct (map fst (fs_run ops fs))"
  by (induction ops arbitrary: fs) (auto intro: distinct_keys_step)

text \<open>Whatever prefix of an atomic write has happened, no file but the destination has changed,
  and the destination has its old or its whole new content.\<close>

lemma atomic_prefix:
  assumes "temp \<noteq> dest" and "path \<noteq> temp"
  shows "map_of (fs_run (take k (atomic_steps temp dest text)) fs) path \<in>
    {map_of fs path, if path = dest then Some text else map_of fs path}"
proof -
  let ?w = "write_steps temp text"
  have w: "map_of (fs_run (take n ?w) fs) path = map_of fs path" for n
    unfolding write_steps_def take_map map_of_writes using assms by simp
  consider "k \<le> length ?w" | "k = Suc (length ?w)" | "Suc (length ?w) < k" by linarith
  then show ?thesis
  proof cases
    case 1
    then show ?thesis using w by (simp add: atomic_steps_def)
  next
    case 2
    then show ?thesis using assms map_of_write_steps [of temp "text" fs] by (simp add: atomic_steps_def)
  next
    case 3
    then have "take k (atomic_steps temp dest text) = atomic_steps temp dest text"
      by (simp add: atomic_steps_def)
    then show ?thesis using assms by (simp add: map_of_atomic_steps)
  qed
qed

section \<open>Key-value stores\<close>

datatype 'v kv_op = KvPut string 'v | KvDelete string

fun kv_map_step :: "'v kv_op \<Rightarrow> (string \<Rightarrow> 'v option) \<Rightarrow> string \<Rightarrow> 'v option" where
  "kv_map_step (KvPut k v) m = m(k \<mapsto> v)"
| "kv_map_step (KvDelete k) m = m(k := None)"

locale kv_store =
  fixes kv_lookup :: "'s \<Rightarrow> string \<Rightarrow> 'v option"
    and kv_put :: "string \<Rightarrow> 'v \<Rightarrow> 's \<Rightarrow> 's"
    and kv_delete :: "string \<Rightarrow> 's \<Rightarrow> 's"
  assumes lookup_put: "kv_lookup (kv_put k v s) k' = (if k' = k then Some v else kv_lookup s k')"
    and lookup_delete: "kv_lookup (kv_delete k s) k' = (if k' = k then None else kv_lookup s k')"
begin

fun kv_step :: "'v kv_op \<Rightarrow> 's \<Rightarrow> 's" where
  "kv_step (KvPut k v) s = kv_put k v s"
| "kv_step (KvDelete k) s = kv_delete k s"

lemma lookup_step: "kv_lookup (kv_step op s) = kv_map_step op (kv_lookup s)"
  by (cases op) (auto simp: lookup_put lookup_delete fun_eq_iff)

lemma refines_map: "kv_lookup (fold kv_step ops s) = fold kv_map_step ops (kv_lookup s)"
  by (induction ops arbitrary: s) (simp_all add: lookup_step)

lemma put_twice: "kv_lookup (kv_put k v (kv_put k v' s)) = kv_lookup (kv_put k v s)"
  by (auto simp: lookup_put fun_eq_iff)

lemma put_commute:
  "k \<noteq> k' \<Longrightarrow> kv_lookup (kv_put k v (kv_put k' v' s)) = kv_lookup (kv_put k' v' (kv_put k v s))"
  by (auto simp: lookup_put fun_eq_iff)

end

end
