(* ===== verification/Repository.thy ===== *)
theory Repository
  imports Files Serialization Analytics
begin

text \<open>
  \<open>repository/json_repository.py\<close>: one JSON file per sample in a local directory, written
  atomically, and the two pipelines that analyse a repository. The directory is explicit state;
  the random part of a temporary file's name and the fault that may hit a write are arguments.
  The repository refines a partial map from sample ids to samples.
\<close>

section \<open>Paths\<close>

definition safe_char :: "char \<Rightarrow> bool" where
  "safe_char c \<longleftrightarrow> isalnum [c] \<or> c \<in> set ''._-''"

definition safe_id :: "string \<Rightarrow> bool" where
  "safe_id sid \<longleftrightarrow> sid \<noteq> [] \<and> isalnum [hd sid] \<and> list_all safe_char (tl sid) \<and> length sid \<le> 128"

definition repo_path :: "string \<Rightarrow> string result" where
  "repo_path sid = (if safe_id sid then Inr (sid @ ''.json'') else Inl (ValueError
     ''sample_id must contain only letters, numbers, dot, underscore, or hyphen''))"

definition temp_name :: "string \<Rightarrow> string \<Rightarrow> string" where
  "temp_name random sid = ''.'' @ sid @ ''.'' @ random @ ''.tmp''"

section \<open>save, load, delete\<close>

text \<open>
  \<open>temporary_name\<close> is assigned after the text was written and flushed, and the file is created with
  \<open>delete=False\<close>. When the write fails the \<open>finally\<close> block therefore still sees \<open>None\<close>.
\<close>

definition save_file :: "string \<Rightarrow> write_fault \<Rightarrow> string \<Rightarrow> string \<Rightarrow> files \<Rightarrow> files \<times> string result" where
  "save_file temp fault dest text fs = (case fault of
     NoFault \<Rightarrow> (fs_run (atomic_steps temp dest text) fs, Inr dest)
   | CreateFails \<Rightarrow> (fs, Inl (OSError temp))
   | WriteFails n \<Rightarrow> (fs_run [WriteFile temp (take n text)] fs, Inl (OSError temp))
   | ReplaceFails \<Rightarrow> (fs_run (write_steps temp text @ [UnlinkFile temp]) fs, Inl (OSError dest)))"

definition newline :: string where "newline = [CHR 0x0A]"

definition repo_save ::
  "(pyval \<Rightarrow> string) \<Rightarrow> (pydatetime \<Rightarrow> string) \<Rightarrow> string \<Rightarrow> write_fault \<Rightarrow> bool \<Rightarrow> Sample \<Rightarrow> files \<Rightarrow>
   files \<times> string result" where
  "repo_save json_text isofmt random fault overwrite sample fs =
    (case rbind (ensure_valid_sample sample) (\<lambda>_.
          rbind (repo_path (smp_sample_id sample)) (\<lambda>dest.
          if file_exists dest fs \<and> \<not> overwrite
          then Inl (FileExistsError (''sample already exists: '' @ smp_sample_id sample))
          else rbind (dumps_sample json_text isofmt sample) (\<lambda>text. Inr (dest, text @ newline)))) of
       Inl e \<Rightarrow> (fs, Inl e)
     | Inr (dest, text) \<Rightarrow> save_file (temp_name random (smp_sample_id sample)) fault dest text fs)"

definition repo_load ::
  "(string \<Rightarrow> pyval result) \<Rightarrow> (string \<Rightarrow> pydatetime option) \<Rightarrow> string \<Rightarrow> files \<Rightarrow> Sample result" where
  "repo_load json_loads fromiso sid fs =
    rbind (repo_path sid) (\<lambda>path. rbind (read_file path fs) (\<lambda>text.
    rbind (loads_sample json_loads fromiso text) (\<lambda>sample.
    rbind (ensure_valid_sample sample) (\<lambda>_. Inr sample))))"

definition repo_delete :: "string \<Rightarrow> files \<Rightarrow> files \<times> bool result" where
  "repo_delete sid fs = (case repo_path sid of
     Inl e \<Rightarrow> (fs, Inl e)
   | Inr path \<Rightarrow> if file_exists path fs then (fs_run [UnlinkFile path] fs, Inr True) else (fs, Inr False))"

section \<open>Listing\<close>

definition has_suffix :: "string \<Rightarrow> string \<Rightarrow> bool" where
  "has_suffix suffix name \<longleftrightarrow> startswith (rev name) (rev suffix)"

text \<open>\<open>Path.stem\<close> of a name that matches \<open>*.json\<close>; the bare \<open>.json\<close> has no suffix to drop.\<close>

definition stem :: "string \<Rightarrow> string" where
  "stem name = (if name = ''.json'' then name else take (length name - 5) name)"

definition list_ids :: "files \<Rightarrow> string list" where
  "list_ids fs = map stem (sort (filter (has_suffix ''.json'') (map fst fs)))"

definition iter_samples ::
  "(string \<Rightarrow> pyval result) \<Rightarrow> (string \<Rightarrow> pydatetime option) \<Rightarrow> files \<Rightarrow> Sample list result" where
  "iter_samples json_loads fromiso fs = rmap (\<lambda>sid. repo_load json_loads fromiso sid fs) (list_ids fs)"

section \<open>pipeline.py\<close>

definition analyze_repository ::
  "(string \<Rightarrow> pyval result) \<Rightarrow> (string \<Rightarrow> pydatetime option) \<Rightarrow> (string \<Rightarrow> string) \<Rightarrow>
   string list \<Rightarrow> pydatetime \<Rightarrow> files \<Rightarrow> ProviderReport list result" where
  "analyze_repository json_loads fromiso sha256 expected generated fs =
    rbind (iter_samples json_loads fromiso fs) (\<lambda>samples. analyze_samples sha256 expected generated samples)"

definition analyze_repository_analytics ::
  "(string \<Rightarrow> pyval result) \<Rightarrow> (string \<Rightarrow> pydatetime option) \<Rightarrow> (string \<Rightarrow> string) \<Rightarrow>
   string list \<Rightarrow> pydatetime \<Rightarrow> PriceQuote list \<Rightarrow> PricingCommitment \<Rightarrow> PricingOperatingSystem \<Rightarrow> files \<Rightarrow>
   AnalyticsBundle result" where
  "analyze_repository_analytics json_loads fromiso sha256 expected generated quotes commitment os fs =
    rbind (iter_samples json_loads fromiso fs) (\<lambda>samples.
    analyze_provider_analytics sha256 expected generated quotes commitment os samples)"

section \<open>Files of a repository\<close>

lemma temp_not_json: "temp_name random sid \<noteq> sid' @ ''.json''"
proof
  assume "temp_name random sid = sid' @ ''.json''"
  from arg_cong [OF this, of last] show False by (simp add: temp_name_def)
qed

interpretation json_files: kv_store "\<lambda>fs sid. map_of fs (sid @ ''.json'')"
  "\<lambda>sid text fs. fs_run (atomic_steps (temp_name random sid) (sid @ ''.json'') text) fs"
  "\<lambda>sid fs. fs_run [UnlinkFile (sid @ ''.json'')] fs" for random
  by unfold_locales (simp_all add: map_of_atomic_steps temp_not_json temp_not_json [symmetric])

lemma save_file_fault:
  "fault \<noteq> NoFault \<Longrightarrow> save_file (temp_name random sid) fault dest text fs = (fs', r) \<Longrightarrow>
   map_of fs' (sid' @ ''.json'') = map_of fs (sid' @ ''.json'') \<and> (\<exists>e. r = Inl (OSError e))"
  by (cases fault) (auto simp: save_file_def map_of_write_steps temp_not_json [symmetric])

lemma repo_load_cong:
  "map_of fs' (sid @ ''.json'') = map_of fs (sid @ ''.json'') \<Longrightarrow>
   repo_load json_loads fromiso sid fs' = repo_load json_loads fromiso sid fs"
  by (simp add: repo_load_def repo_path_def read_file_def)

section \<open>The abstract repository\<close>

text \<open>
  What \<open>save\<close> may rely on: the sample is well formed and the text layer reads back its date-times
  and the document written for it.
\<close>

definition readable ::
  "(pyval \<Rightarrow> string) \<Rightarrow> (pydatetime \<Rightarrow> string) \<Rightarrow> (string \<Rightarrow> pyval result) \<Rightarrow> (string \<Rightarrow> pydatetime option) \<Rightarrow>
   Sample \<Rightarrow> bool" where
  "readable json_text isofmt json_loads fromiso s \<longleftrightarrow> wf_sample s \<and>
    list_all (\<lambda>d. fromiso (isofmt d) = Some d) (sample_times s) \<and>
    json_loads (json_text (sort_json (sample_dict isofmt s)) @ newline) = Inr (sort_json (sample_dict isofmt s))"

datatype repo_op = SaveOp string write_fault bool Sample | LoadOp string | DeleteOp string

datatype repo_out = Saved | Refused | Found Sample | NotFound | Deleted bool

fun op_samples :: "repo_op \<Rightarrow> Sample list" where
  "op_samples (SaveOp _ _ _ s) = [s]"
| "op_samples _ = []"

fun repo_step ::
  "(pyval \<Rightarrow> string) \<Rightarrow> (pydatetime \<Rightarrow> string) \<Rightarrow> (string \<Rightarrow> pyval result) \<Rightarrow> (string \<Rightarrow> pydatetime option) \<Rightarrow>
   repo_op \<Rightarrow> files \<Rightarrow> files \<times> repo_out" where
  "repo_step json_text isofmt json_loads fromiso (SaveOp random fault overwrite s) fs =
     (case repo_save json_text isofmt random fault overwrite s fs of
        (fs', Inr _) \<Rightarrow> (fs', Saved) | (fs', Inl _) \<Rightarrow> (fs', Refused))"
| "repo_step json_text isofmt json_loads fromiso (LoadOp sid) fs =
     (fs, case repo_load json_loads fromiso sid fs of Inr s \<Rightarrow> Found s | Inl _ \<Rightarrow> NotFound)"
| "repo_step json_text isofmt json_loads fromiso (DeleteOp sid) fs =
     (case repo_delete sid fs of (fs', Inr b) \<Rightarrow> (fs', Deleted b) | (fs', Inl _) \<Rightarrow> (fs', Refused))"

text \<open>The specification: a partial map from ids to samples.\<close>

fun spec_step :: "repo_op \<Rightarrow> (string \<Rightarrow> Sample option) \<Rightarrow> (string \<Rightarrow> Sample option) \<times> repo_out" where
  "spec_step (SaveOp random fault overwrite s) m =
     (if sample_ok s \<and> counts_finite s \<and> safe_id (smp_sample_id s) \<and> (overwrite \<or> m (smp_sample_id s) = None) \<and>
        fault = NoFault
      then (m(smp_sample_id s \<mapsto> s), Saved) else (m, Refused))"
| "spec_step (LoadOp sid) m = (m, case m sid of Some s \<Rightarrow> Found s | None \<Rightarrow> NotFound)"
| "spec_step (DeleteOp sid) m =
     (if safe_id sid then (m(sid := None), Deleted (m sid \<noteq> None)) else (m, Refused))"

fun run_ops :: "('op \<Rightarrow> 's \<Rightarrow> 's \<times> 'out) \<Rightarrow> 'op list \<Rightarrow> 's \<Rightarrow> 's \<times> 'out list" where
  "run_ops step [] s = (s, [])"
| "run_ops step (op # ops) s =
     (let (s', out) = step op s; (s'', outs) = run_ops step ops s' in (s'', out # outs))"

text \<open>A step-wise simulation lifts to sequences of operations.\<close>

lemma run_ops_simulation:
  assumes "R s m" and "\<And>op. op \<in> set ops \<Longrightarrow> Q op"
    and step: "\<And>op s m. Q op \<Longrightarrow> R s m \<Longrightarrow> R (fst (f op s)) (fst (g op m)) \<and> snd (f op s) = snd (g op m)"
  shows "R (fst (run_ops f ops s)) (fst (run_ops g ops m)) \<and> snd (run_ops f ops s) = snd (run_ops g ops m)"
  using assms(1,2)
proof (induction ops arbitrary: s m)
  case (Cons op ops)
  from step [of op s m] Cons.prems have hd: "R (fst (f op s)) (fst (g op m))" "snd (f op s) = snd (g op m)"
    by simp_all
  from Cons.IH [OF hd(1)] Cons.prems(2) hd(2) show ?case by (simp add: case_prod_beta Let_def)
qed simp

text \<open>The abstraction relation: loading a safe id gives what the map holds, and there is no file for
  an id the map does not hold.\<close>

definition repo_abs ::
  "(string \<Rightarrow> pyval result) \<Rightarrow> (string \<Rightarrow> pydatetime option) \<Rightarrow> files \<Rightarrow> (string \<Rightarrow> Sample option) \<Rightarrow> bool" where
  "repo_abs json_loads fromiso fs m \<longleftrightarrow> (\<forall>sid. case m sid of
      None \<Rightarrow> safe_id sid \<longrightarrow> map_of fs (sid @ ''.json'') = None
    | Some s \<Rightarrow> safe_id sid \<and> repo_load json_loads fromiso sid fs = Inr s)"

lemma repo_absD:
  assumes "repo_abs json_loads fromiso fs m"
  shows "m sid = None \<Longrightarrow> safe_id sid \<Longrightarrow> map_of fs (sid @ ''.json'') = None"
    and "m sid = Some s \<Longrightarrow> safe_id sid"
    and "m sid = Some s \<Longrightarrow> repo_load json_loads fromiso sid fs = Inr s"
  using spec [OF assms [unfolded repo_abs_def], of sid] by simp_all

lemma repo_abs_exists:
  assumes "repo_abs json_loads fromiso fs m" and "safe_id sid"
  shows "file_exists (sid @ ''.json'') fs \<longleftrightarrow> m sid \<noteq> None"
proof (cases "m sid")
  case None
  then show ?thesis using repo_absD(1) [OF assms(1) None assms(2)] by (simp add: file_exists_def)
next
  case (Some s)
  from repo_absD(3) [OF assms(1) Some] have "map_of fs (sid @ ''.json'') \<noteq> None"
    by (auto simp: repo_load_def repo_path_def read_file_def rbind_Inr_iff split: option.splits if_splits)
  with Some show ?thesis by (simp add: file_exists_def)
qed

lemma repo_abs_load:
  assumes "repo_abs json_loads fromiso fs m"
  shows "(case repo_load json_loads fromiso sid fs of Inr s \<Rightarrow> Found s | Inl _ \<Rightarrow> NotFound) =
    (case m sid of Some s \<Rightarrow> Found s | None \<Rightarrow> NotFound)"
proof (cases "m sid")
  case None
  have "\<exists>e. repo_load json_loads fromiso sid fs = Inl e"
    using repo_absD(1) [OF assms None] by (auto simp: repo_load_def repo_path_def read_file_def)
  with None show ?thesis by auto
qed (simp add: repo_absD(3) [OF assms])

lemma repo_abs_update:
  assumes "repo_abs json_loads fromiso fs m"
    and "\<And>sid'. sid' \<noteq> sid \<Longrightarrow> map_of fs' (sid' @ ''.json'') = map_of fs (sid' @ ''.json'')"
    and "case v of None \<Rightarrow> map_of fs' (sid @ ''.json'') = None
      | Some s \<Rightarrow> safe_id sid \<and> repo_load json_loads fromiso sid fs' = Inr s"
  shows "repo_abs json_loads fromiso fs' (m(sid := v))"
  unfolding repo_abs_def
proof
  fix sid'
  show "case (m(sid := v)) sid' of None \<Rightarrow> safe_id sid' \<longrightarrow> map_of fs' (sid' @ ''.json'') = None
    | Some s \<Rightarrow> safe_id sid' \<and> repo_load json_loads fromiso sid' fs' = Inr s"
  proof (cases "sid' = sid")
    case True
    then show ?thesis using assms(3) by (auto split: option.splits)
  next
    case False
    note same = assms(2) [OF this]
    then show ?thesis using assms(1) False repo_load_cong [OF same] unfolding repo_abs_def
      by (auto split: option.splits)
  qed
qed

section \<open>The repository simulates the map\<close>

lemma load_saved:
  assumes "readable json_text isofmt json_loads fromiso s" and "sample_ok s" and "safe_id (smp_sample_id s)"
    and "map_of fs (smp_sample_id s @ ''.json'') =
      Some (json_text (sort_json (sample_dict isofmt s)) @ newline)"
  shows "repo_load json_loads fromiso (smp_sample_id s) fs = Inr s"
  using assms sample_from_sample_dict [of fromiso isofmt s]
  by (simp add: repo_load_def repo_path_def read_file_def loads_sample_def readable_def
      ensure_valid_sample_def validate_sample_valid Let_def)

lemma repo_save_cases:
  assumes "readable json_text isofmt json_loads fromiso s" and "repo_abs json_loads fromiso fs m"
  shows "repo_save json_text isofmt random fault overwrite s fs =
    (if sample_ok s \<and> counts_finite s \<and> safe_id (smp_sample_id s) \<and> (overwrite \<or> m (smp_sample_id s) = None)
     then save_file (temp_name random (smp_sample_id s)) fault (smp_sample_id s @ ''.json'')
       (json_text (sort_json (sample_dict isofmt s)) @ newline) fs
     else (fs, snd (repo_save json_text isofmt random fault overwrite s fs)))
   \<and> (\<not> (sample_ok s \<and> counts_finite s \<and> safe_id (smp_sample_id s) \<and> (overwrite \<or> m (smp_sample_id s) = None)) \<longrightarrow>
     (\<exists>e. snd (repo_save json_text isofmt random fault overwrite s fs) = Inl e))"
  using assms json_finite_sample [of s isofmt] repo_abs_exists [OF assms(2), of "smp_sample_id s"]
  by (auto simp: repo_save_def ensure_valid_sample_def validate_sample_valid Let_def repo_path_def
      dumps_sample_def dumps_def readable_def split: if_splits)

lemma save_simulates:
  assumes r: "readable json_text isofmt json_loads fromiso s" and abs: "repo_abs json_loads fromiso fs m"
  shows "repo_abs json_loads fromiso (fst (repo_step json_text isofmt json_loads fromiso (SaveOp random fault overwrite s) fs))
      (fst (spec_step (SaveOp random fault overwrite s) m))
    \<and> snd (repo_step json_text isofmt json_loads fromiso (SaveOp random fault overwrite s) fs) =
      snd (spec_step (SaveOp random fault overwrite s) m)"
proof (cases "sample_ok s \<and> counts_finite s \<and> safe_id (smp_sample_id s) \<and> (overwrite \<or> m (smp_sample_id s) = None)")
  case False
  with repo_save_cases [OF r abs, of random fault overwrite] obtain e where
    "repo_save json_text isofmt random fault overwrite s fs = (fs, Inl e)"
    by (cases "repo_save json_text isofmt random fault overwrite s fs") auto
  with False abs show ?thesis by auto
next
  case True
  let ?text = "json_text (sort_json (sample_dict isofmt s)) @ newline"
  let ?temp = "temp_name random (smp_sample_id s)" and ?dest = "smp_sample_id s @ ''.json''"
  from True repo_save_cases [OF r abs, of random fault overwrite]
  have run: "repo_save json_text isofmt random fault overwrite s fs = save_file ?temp fault ?dest ?text fs"
    by simp
  obtain fs' res where f: "save_file ?temp fault ?dest ?text fs = (fs', res)" by force
  show ?thesis
  proof (cases "fault = NoFault")
    case True
    with f have fs': "fs' = fs_run (atomic_steps ?temp ?dest ?text) fs" and "res = Inr ?dest"
      by (simp_all add: save_file_def)
    moreover have "repo_abs json_loads fromiso fs' (m(smp_sample_id s := Some s))"
    proof (rule repo_abs_update [OF abs])
      show "map_of fs' (sid' @ ''.json'') = map_of fs (sid' @ ''.json'')" if "sid' \<noteq> smp_sample_id s" for sid'
        using that unfolding fs' by (simp add: json_files.lookup_put)
      show "case Some s of None \<Rightarrow> map_of fs' ?dest = None
        | Some s' \<Rightarrow> safe_id (smp_sample_id s) \<and> repo_load json_loads fromiso (smp_sample_id s) fs' = Inr s'"
        using load_saved [OF r, of fs'] \<open>sample_ok s \<and> _\<close> unfolding fs' by (simp add: json_files.lookup_put)
    qed
    ultimately show ?thesis using True \<open>sample_ok s \<and> _\<close> run f by simp
  next
    case False
    from save_file_fault [OF False f] have same: "map_of fs' (sid @ ''.json'') = map_of fs (sid @ ''.json'')" for sid
      by simp
    from save_file_fault [OF False f] obtain e where "res = Inl e" by auto
    moreover have "repo_abs json_loads fromiso fs' m"
      using abs unfolding repo_abs_def same repo_load_cong [OF same] .
    ultimately show ?thesis using False run f by simp
  qed
qed

lemma delete_simulates:
  assumes abs: "repo_abs json_loads fromiso fs m"
  shows "repo_abs json_loads fromiso (fst (repo_step json_text isofmt json_loads fromiso (DeleteOp sid) fs))
      (fst (spec_step (DeleteOp sid) m))
    \<and> snd (repo_step json_text isofmt json_loads fromiso (DeleteOp sid) fs) = snd (spec_step (DeleteOp sid) m)"
proof (cases "safe_id sid")
  case False
  with abs show ?thesis by (simp add: repo_delete_def repo_path_def)
next
  case True
  note ex = repo_abs_exists [OF abs True]
  have removed: "repo_abs json_loads fromiso (AList.delete (sid @ ''.json'') fs) (m(sid := None))"
    by (rule repo_abs_update [OF abs]) simp_all
  have "m(sid := None) = m" if "m sid = None" using that by auto
  with removed ex abs True show ?thesis by (auto simp: repo_delete_def repo_path_def)
qed

lemma repo_step_simulates:
  assumes "list_all (readable json_text isofmt json_loads fromiso) (op_samples op)"
    and "repo_abs json_loads fromiso fs m"
  shows "repo_abs json_loads fromiso (fst (repo_step json_text isofmt json_loads fromiso op fs)) (fst (spec_step op m))
    \<and> snd (repo_step json_text isofmt json_loads fromiso op fs) = snd (spec_step op m)"
proof (cases op)
  case (SaveOp random fault overwrite s)
  then show ?thesis using assms save_simulates by simp
next
  case (LoadOp sid)
  then show ?thesis using assms(2) repo_abs_load [OF assms(2)] by simp
next
  case (DeleteOp sid)
  then show ?thesis using delete_simulates [OF assms(2)] by simp
qed

lemma repo_simulation:
  assumes "list_all (readable json_text isofmt json_loads fromiso) (concat (map op_samples ops))"
    and "repo_abs json_loads fromiso fs m"
  shows "repo_abs json_loads fromiso (fst (run_ops (repo_step json_text isofmt json_loads fromiso) ops fs))
      (fst (run_ops spec_step ops m))
    \<and> snd (run_ops (repo_step json_text isofmt json_loads fromiso) ops fs) = snd (run_ops spec_step ops m)"
  by (rule run_ops_simulation [where Q = "\<lambda>op. list_all (readable json_text isofmt json_loads fromiso) (op_samples op)"])
    (use assms repo_step_simulates in \<open>auto simp: list_all_iff\<close>)

lemma repo_abs_empty: "repo_abs json_loads fromiso [] (\<lambda>_. None)"
  by (simp add: repo_abs_def)

section \<open>Listing what was saved\<close>

lemma has_suffix_json [simp]: "has_suffix ''.json'' (sid @ ''.json'')"
  by (simp add: has_suffix_def startswith_iff)

lemma stem_json [simp]: "sid \<noteq> [] \<Longrightarrow> stem (sid @ ''.json'') = sid"
  by (simp add: stem_def)

lemma safe_id_nonempty: "safe_id sid \<Longrightarrow> sid \<noteq> []"
  by (simp add: safe_id_def)

lemma distinct_map_neq: "distinct (map f (x # xs)) \<Longrightarrow> y \<in> set xs \<Longrightarrow> f y \<noteq> f x"
  by (simp add: image_iff) metis

definition fresh_save :: "string \<Rightarrow> Sample \<Rightarrow> repo_op" where
  "fresh_save random s = SaveOp random NoFault False s"

lemma map_of_keys_mem: "p \<in> set (map fst fs) \<longleftrightarrow> p \<in> dom (map_of fs)"
  by (auto simp: dom_map_of_conv_image_fst)

lemma fresh_save_step:
  assumes "readable json_text isofmt json_loads fromiso s" and "sample_ok s" and "counts_finite s" and "safe_id (smp_sample_id s)"
    and "smp_sample_id s @ ''.json'' \<notin> set (map fst fs)" and "set (map fst fs) \<subseteq> {sid @ ''.json'' | sid. True}"
  shows "set (map fst (fst (repo_step json_text isofmt json_loads fromiso (fresh_save random s) fs))) =
    insert (smp_sample_id s @ ''.json'') (set (map fst fs))"
proof -
  let ?id = "smp_sample_id s"
  let ?text = "json_text (sort_json (sample_dict isofmt s)) @ newline"
  have temp: "temp_name random ?id \<notin> set (map fst fs)" using assms(6) temp_not_json by blast
  have "\<not> file_exists (?id @ ''.json'') fs"
    using assms(5) by (simp add: file_exists_def map_of_eq_None_iff)
  then have run: "fst (repo_step json_text isofmt json_loads fromiso (fresh_save random s) fs) =
      fs_run (atomic_steps (temp_name random ?id) (?id @ ''.json'') ?text) fs"
    using assms(1-4) json_finite_sample [of s isofmt]
    by (simp add: fresh_save_def repo_save_def ensure_valid_sample_def validate_sample_valid Let_def
        repo_path_def dumps_sample_def dumps_def readable_def save_file_def)
  have "dom (map_of (fs_run (atomic_steps (temp_name random ?id) (?id @ ''.json'') ?text) fs)) =
      insert (?id @ ''.json'') (dom (map_of fs) - {temp_name random ?id})"
    by (simp add: map_of_atomic_steps [OF temp_not_json])
  with temp show ?thesis unfolding run by (simp add: dom_map_of_conv_image_fst)
qed

lemma fresh_saves_keys:
  assumes "list_all (\<lambda>s. readable json_text isofmt json_loads fromiso s \<and> sample_ok s \<and> counts_finite s \<and> safe_id (smp_sample_id s)) samples"
    and "distinct (map smp_sample_id samples)"
    and "\<And>s. s \<in> set samples \<Longrightarrow> smp_sample_id s @ ''.json'' \<notin> set (map fst fs)"
    and "set (map fst fs) \<subseteq> {sid @ ''.json'' | sid. True}"
  shows "set (map fst (fst (run_ops (repo_step json_text isofmt json_loads fromiso) (map (fresh_save random) samples) fs))) =
    (\<lambda>s. smp_sample_id s @ ''.json'') ` set samples \<union> set (map fst fs)"
  using assms
proof (induction samples arbitrary: fs)
  case (Cons s samples)
  let ?step = "repo_step json_text isofmt json_loads fromiso"
  let ?fs = "fst (?step (fresh_save random s) fs)"
  have keys: "set (map fst ?fs) = insert (smp_sample_id s @ ''.json'') (set (map fst fs))"
    using Cons.prems by (intro fresh_save_step) auto
  have "set (map fst (fst (run_ops ?step (map (fresh_save random) samples) ?fs))) =
      (\<lambda>s. smp_sample_id s @ ''.json'') ` set samples \<union> set (map fst ?fs)"
  proof (rule Cons.IH)
    show "smp_sample_id s' @ ''.json'' \<notin> set (map fst ?fs)" if "s' \<in> set samples" for s'
    proof -
      have "smp_sample_id s' \<noteq> smp_sample_id s" using distinct_map_neq [OF Cons.prems(2) that] .
      then show ?thesis using Cons.prems(3) [of s'] that unfolding keys by auto
    qed
    show "set (map fst ?fs) \<subseteq> {sid @ ''.json'' | sid. True}"
      using Cons.prems(4) unfolding keys by auto
  qed (use Cons.prems in simp_all)
  then show ?case unfolding keys by (simp add: case_prod_beta Let_def)
qed simp

lemma distinct_keys_save: "distinct (map fst fs) \<Longrightarrow> distinct (map fst (fst (repo_save jt im r f ov s fs)))"
proof -
  assume d: "distinct (map fst fs)"
  have "distinct (map fst (fst (save_file temp f dest content fs)))" for temp dest content
    using d by (cases f) (simp_all add: save_file_def distinct_keys_run)
  with d show ?thesis by (simp add: repo_save_def split: sum.split prod.split)
qed

lemma distinct_keys_fresh_saves:
  "distinct (map fst fs) \<Longrightarrow>
   distinct (map fst (fst (run_ops (repo_step jt im jl fi) (map (fresh_save random) samples) fs)))"
proof (induction samples arbitrary: fs)
  case (Cons s samples)
  have "distinct (map fst (fst (repo_step jt im jl fi (fresh_save random s) fs)))"
    using distinct_keys_save [OF Cons.prems] by (simp add: fresh_save_def case_prod_beta split: sum.split)
  from Cons.IH [OF this] show ?case by (simp add: case_prod_beta Let_def)
qed simp

lemma spec_fresh_saves:
  assumes "list_all (\<lambda>s. sample_ok s \<and> counts_finite s \<and> safe_id (smp_sample_id s) \<and> m (smp_sample_id s) = None) samples"
    and "distinct (map smp_sample_id samples)"
  shows "s \<in> set samples \<Longrightarrow> fst (run_ops spec_step (map (fresh_save random) samples) m) (smp_sample_id s) = Some s"
    and "sid \<notin> smp_sample_id ` set samples \<Longrightarrow>
      fst (run_ops spec_step (map (fresh_save random) samples) m) sid = m sid"
proof -
  have "(\<forall>s \<in> set samples. fst (run_ops spec_step (map (fresh_save random) samples) m) (smp_sample_id s) = Some s) \<and>
    (\<forall>sid. sid \<notin> smp_sample_id ` set samples \<longrightarrow>
      fst (run_ops spec_step (map (fresh_save random) samples) m) sid = m sid)"
    using assms
  proof (induction samples arbitrary: m)
    case (Cons s samples)
    have step: "spec_step (fresh_save random s) m = (m(smp_sample_id s \<mapsto> s), Saved)"
      using Cons.prems(1) by (simp add: fresh_save_def)
    have "smp_sample_id s' \<noteq> smp_sample_id s" if "s' \<in> set samples" for s'
      using distinct_map_neq [OF Cons.prems(2) that] .
    then have "list_all (\<lambda>s'. sample_ok s' \<and> counts_finite s' \<and> safe_id (smp_sample_id s') \<and>
        (m(smp_sample_id s \<mapsto> s)) (smp_sample_id s') = None) samples"
      using Cons.prems by (auto simp: list_all_iff)
    moreover have "distinct (map smp_sample_id samples)" using Cons.prems(2) by simp
    ultimately have IH: "(\<forall>s' \<in> set samples. fst (run_ops spec_step (map (fresh_save random) samples)
          (m(smp_sample_id s \<mapsto> s))) (smp_sample_id s') = Some s') \<and>
        (\<forall>sid. sid \<notin> smp_sample_id ` set samples \<longrightarrow> fst (run_ops spec_step (map (fresh_save random) samples)
          (m(smp_sample_id s \<mapsto> s))) sid = (m(smp_sample_id s \<mapsto> s)) sid)"
      by (rule Cons.IH)
    obtain m' where m': "fst (run_ops spec_step (map (fresh_save random) samples) (m(smp_sample_id s \<mapsto> s))) = m'"
      by simp
    have "\<forall>s' \<in> set samples. m' (smp_sample_id s') = Some s'"
      and "\<forall>sid. sid \<notin> smp_sample_id ` set samples \<longrightarrow> m' sid = (m(smp_sample_id s \<mapsto> s)) sid"
      using IH unfolding m' by blast+
    then show ?case using Cons.prems(2) by (auto simp: step case_prod_beta Let_def m' image_iff)
  qed simp
  then show "s \<in> set samples \<Longrightarrow> fst (run_ops spec_step (map (fresh_save random) samples) m) (smp_sample_id s) = Some s"
    and "sid \<notin> smp_sample_id ` set samples \<Longrightarrow>
      fst (run_ops spec_step (map (fresh_save random) samples) m) sid = m sid"
    by blast+
qed

lemma list_ids_saved:
  assumes "distinct (map fst fs)" and "distinct (map smp_sample_id samples)"
    and "set (map fst fs) = (\<lambda>s. smp_sample_id s @ ''.json'') ` set samples"
    and "list_all (\<lambda>s. safe_id (smp_sample_id s)) samples"
  shows "list_ids fs = map smp_sample_id (sort_key (\<lambda>s. smp_sample_id s @ ''.json'') samples)"
proof -
  let ?name = "\<lambda>s. smp_sample_id s @ ''.json''"
  have "filter (has_suffix ''.json'') (map fst fs) = map fst fs"
    by (rule filter_True) (unfold assms(3), auto)
  moreover have "sort (map fst fs) = sort (map ?name samples)"
  proof (rule sorted_distinct_set_unique)
    have "inj_on ?name (set samples)" using assms(2) by (auto simp: distinct_map inj_on_def)
    then show "distinct (sort (map ?name samples))"
      using assms(2) by (simp add: distinct_map)
  qed (use assms in simp_all)
  moreover have "map stem (sort (map ?name samples)) = map smp_sample_id (sort_key ?name samples)"
    unfolding map_sort_key [symmetric] using assms(4) safe_id_nonempty by (auto simp: list_all_iff)
  ultimately show ?thesis by (simp add: list_ids_def)
qed

section \<open>Properties\<close>

text \<open>
  C11: The repository refines a partial map from sample ids to samples. For every sequence of saves
  (with or without \<open>overwrite\<close>, with faults at any point of the write), loads and deletes on an
  empty directory, every operation reports what it reports on the map, and afterwards every id
  loads what the map holds for it and nothing otherwise.
\<close>

theorem repository_refines_map:
  assumes "list_all (readable json_text isofmt json_loads fromiso) (concat (map op_samples ops))"
  shows "case run_ops (repo_step json_text isofmt json_loads fromiso) ops [] of (fs, outs) \<Rightarrow>
    case run_ops spec_step ops (\<lambda>_. None) of (m, spec_outs) \<Rightarrow>
      outs = spec_outs \<and>
      (\<forall>sid. (case repo_load json_loads fromiso sid fs of Inr s \<Rightarrow> Found s | Inl _ \<Rightarrow> NotFound) =
        (case m sid of Some s \<Rightarrow> Found s | None \<Rightarrow> NotFound))"
  using repo_simulation [OF assms repo_abs_empty] repo_abs_load by (fastforce split: prod.splits)

definition demo_text :: "pyval \<Rightarrow> string" where
  "demo_text v = (case v of PDict d \<Rightarrow> (case map_of d ''sample_id'' of Some (PStr sid) \<Rightarrow> sid | _ \<Rightarrow> []) | _ \<Rightarrow> [])"

definition demo_isofmt :: "pydatetime \<Rightarrow> string" where "demo_isofmt d = int_str (dt_local d)"
definition demo_fromiso :: "string \<Rightarrow> pydatetime option" where "demo_fromiso t = Some (utc (digits_val t))"

definition demo_loads :: "string \<Rightarrow> pyval result" where
  "demo_loads t = Inr (sort_json (sample_dict demo_isofmt (demo_sample (butlast t) 7 (Fin 3))))"

theorem repository_refines_map_witness:
  "snd (run_ops (repo_step demo_text demo_isofmt demo_loads demo_fromiso)
     [SaveOp ''x'' NoFault False (demo_sample ''a'' 7 (Fin 3)), SaveOp ''y'' NoFault False (demo_sample ''a'' 7 (Fin 3)),
      SaveOp ''z'' (WriteFails 1) True (demo_sample ''b'' 7 (Fin 3)), LoadOp ''a'', LoadOp ''b'', DeleteOp ''a''] []) =
   [Saved, Refused, Refused, Found (demo_sample ''a'' 7 (Fin 3)), NotFound, Deleted True]"
proof -
  let ?ops = "[SaveOp ''x'' NoFault False (demo_sample ''a'' 7 (Fin 3)), SaveOp ''y'' NoFault False (demo_sample ''a'' 7 (Fin 3)),
      SaveOp ''z'' (WriteFails 1) True (demo_sample ''b'' 7 (Fin 3)), LoadOp ''a'', LoadOp ''b'', DeleteOp ''a'']"
  have "list_all (readable demo_text demo_isofmt demo_loads demo_fromiso) (concat (map op_samples ?ops))"
    by code_simp
  moreover have "snd (run_ops spec_step ?ops (\<lambda>_. None)) =
      [Saved, Refused, Refused, Found (demo_sample ''a'' 7 (Fin 3)), NotFound, Deleted True]"
    by code_simp
  ultimately show ?thesis using repository_refines_map [of demo_text demo_isofmt demo_loads demo_fromiso ?ops]
    by (simp only: case_prod_beta)
qed

text \<open>
  C12: An interrupted save loses nothing. After any prefix of the file operations of a save, every
  stored sample other than the one being saved loads as before, and that one loads as before or,
  with the new text in place, as after the save; an aborted write leaves all of them alone.
\<close>

theorem save_is_atomic:
  "repo_load json_loads fromiso sid
      (fs_run (take k (atomic_steps (temp_name random saved) (saved @ ''.json'') content)) fs) \<in>
    {repo_load json_loads fromiso sid fs,
     repo_load json_loads fromiso sid (fst (save_file (temp_name random saved) NoFault (saved @ ''.json'') content fs))} \<and>
   repo_load json_loads fromiso sid (fst (save_file (temp_name random saved) fault (saved @ ''.json'') content fs)) =
     repo_load json_loads fromiso sid (if sid = saved \<and> fault = NoFault
       then fst (save_file (temp_name random saved) NoFault (saved @ ''.json'') content fs) else fs)"
proof
  let ?temp = "temp_name random saved" and ?dest = "saved @ ''.json''"
  let ?fs = "fs_run (take k (atomic_steps ?temp ?dest content)) fs"
  let ?full = "fst (save_file ?temp NoFault ?dest content fs)"
  have "map_of ?full (sid @ ''.json'') = (if sid = saved then Some content else map_of fs (sid @ ''.json''))"
    by (simp add: save_file_def json_files.lookup_put)
  moreover have "map_of ?fs (sid @ ''.json'') \<in>
      {map_of fs (sid @ ''.json''), if sid @ ''.json'' = ?dest then Some content else map_of fs (sid @ ''.json'')}"
    by (rule atomic_prefix) (simp_all add: temp_not_json temp_not_json [symmetric])
  ultimately have "map_of ?fs (sid @ ''.json'') = map_of fs (sid @ ''.json'') \<or>
      map_of ?fs (sid @ ''.json'') = map_of ?full (sid @ ''.json'')"
    by auto
  then show "repo_load json_loads fromiso sid ?fs \<in>
      {repo_load json_loads fromiso sid fs, repo_load json_loads fromiso sid ?full}"
    using repo_load_cong [of ?fs sid fs] repo_load_cong [of ?fs sid ?full] by auto
  have "map_of (fst (save_file ?temp fault ?dest content fs)) (sid @ ''.json'') = map_of fs (sid @ ''.json'')"
    if "fault \<noteq> NoFault"
    using save_file_fault [OF that surjective_pairing] by simp
  moreover have "map_of ?full (sid @ ''.json'') = map_of fs (sid @ ''.json'')" if "sid \<noteq> saved"
    using that by (simp add: save_file_def json_files.lookup_put)
  ultimately show "repo_load json_loads fromiso sid (fst (save_file ?temp fault ?dest content fs)) =
      repo_load json_loads fromiso sid (if sid = saved \<and> fault = NoFault then ?full else fs)"
    by (cases "fault = NoFault") (auto intro: repo_load_cong)
qed

text \<open>
  Saving distinct valid samples into an empty repository and analysing the repository is the
  same as analysing the samples, in the order of their file names.
\<close>

theorem repository_analysis_composes:
  assumes "list_all (\<lambda>s. readable json_text isofmt json_loads fromiso s \<and> sample_ok s \<and> counts_finite s \<and> safe_id (smp_sample_id s)) samples"
    and "distinct (map smp_sample_id samples)"
  shows "analyze_repository json_loads fromiso sha256 expected generated
      (fst (run_ops (repo_step json_text isofmt json_loads fromiso) (map (fresh_save random) samples) [])) =
    analyze_samples sha256 expected generated (sort_key (\<lambda>s. smp_sample_id s @ ''.json'') samples)"
proof -
  let ?fs = "fst (run_ops (repo_step json_text isofmt json_loads fromiso) (map (fresh_save random) samples) [])"
  let ?m = "fst (run_ops spec_step (map (fresh_save random) samples) (\<lambda>_. None))"
  let ?sorted = "sort_key (\<lambda>s. smp_sample_id s @ ''.json'') samples"
  have abs: "repo_abs json_loads fromiso ?fs ?m"
    using repo_simulation [OF _ repo_abs_empty, where ops = "map (fresh_save random) samples"] assms(1)
    by (auto simp: list_all_iff fresh_save_def)
  have load: "repo_load json_loads fromiso (smp_sample_id s) ?fs = Inr s" if "s \<in> set samples" for s
    using spec_fresh_saves(1) [OF _ assms(2) that, of "\<lambda>_. None" random] assms(1)
    by (intro repo_absD(3) [OF abs]) (auto simp: list_all_iff)
  have "set (map fst ?fs) = (\<lambda>s. smp_sample_id s @ ''.json'') ` set samples"
    using fresh_saves_keys [OF assms(1,2), of "[]" random] by simp
  moreover have "distinct (map fst ?fs)"
    using distinct_keys_fresh_saves [of "[]"] by simp
  ultimately have "list_ids ?fs = map smp_sample_id ?sorted"
    using assms by (intro list_ids_saved) (auto simp: list_all_iff)
  moreover have "rmap (\<lambda>sid. repo_load json_loads fromiso sid ?fs) (map smp_sample_id xs) = Inr xs"
    if "set xs \<subseteq> set samples" for xs
    using that load by (induction xs) auto
  ultimately have "iter_samples json_loads fromiso ?fs = Inr ?sorted"
    by (simp add: iter_samples_def)
  then show ?thesis by (simp add: analyze_repository_def)
qed

theorem repository_analysis_composes_witness:
  "analyze_repository demo_loads demo_fromiso (\<lambda>t. t) [] (utc 9)
      (fst (run_ops (repo_step demo_text demo_isofmt demo_loads demo_fromiso)
        (map (fresh_save ''r'') [demo_sample ''b'' 7 (Fin 3), demo_sample ''a'' 7 (Fin 3)]) [])) =
    analyze_samples (\<lambda>t. t) [] (utc 9) [demo_sample ''a'' 7 (Fin 3), demo_sample ''b'' 7 (Fin 3)]"
proof -
  let ?xs = "[demo_sample ''b'' 7 (Fin 3), demo_sample ''a'' 7 (Fin 3)]"
  have "list_all (\<lambda>s. readable demo_text demo_isofmt demo_loads demo_fromiso s \<and> sample_ok s \<and> counts_finite s \<and>
      safe_id (smp_sample_id s)) ?xs" by code_simp
  moreover have "distinct (map smp_sample_id ?xs)" by code_simp
  moreover have "sort_key (\<lambda>s. smp_sample_id s @ ''.json'') ?xs =
      [demo_sample ''a'' 7 (Fin 3), demo_sample ''b'' 7 (Fin 3)]" by code_simp
  ultimately show ?thesis
    using repository_analysis_composes [of demo_text demo_isofmt demo_loads demo_fromiso ?xs "\<lambda>t. t" "[]" "utc 9" "''r''"]
    by (simp only:)
qed

text \<open>
  \<open>list_ids\<close> sorts file names, not ids, so \<open>iter_samples\<close> does not go through the samples in id
  order; and a write that fails leaves its temporary file behind, because its name is recorded
  only after the write.
\<close>

theorem list_ids_not_in_id_order:
  "list_ids [(''a.json'', t), (''a-b.json'', u)] = [''a-b'', ''a''] \<and> \<not> sorted [''a-b'', ''a''] \<and>
   file_exists (temp_name ''r'' ''a'') (fst (save_file (temp_name ''r'' ''a'') (WriteFails n) ''a.json'' content []))"
  by (simp add: save_file_def file_exists_def) code_simp

end
