(* ===== verification/Bundle.thy ===== *)
theory Bundle
  imports Redaction Serialization Validation Cohorts
begin

text \<open>
  \<open>bundle/verification.py\<close> with the parts of \<open>bundle/builder.py\<close> and \<open>bundle/jsonutil.py\<close> it rests on:
  the checks that decide whether a ZIP bundle of samples and raw evidence is accepted. The ZIP
  reader, UTF-8, the JSON text layer, SHA-256 and the ISO format are the fields of \<open>runtime\<close>.
  Contents are texts of bytes. Messages of errors leave out values that come from the manifest.
\<close>

section \<open>The runtime\<close>

text \<open>An entry of a ZIP directory; reading its content may raise.\<close>

record zip_entry =
  ze_filename :: string
  ze_flag_bits :: int
  ze_external_attr :: int
  ze_file_size :: int
  ze_content :: "string result"

record runtime =
  rt_sha256 :: "string \<Rightarrow> string"
  rt_unzip :: "string \<Rightarrow> zip_entry list result"
  rt_decode :: "string \<Rightarrow> string result"
  rt_loads :: "string \<Rightarrow> pyval result"
  rt_compact :: "pyval \<Rightarrow> string"
  rt_fromiso :: "string \<Rightarrow> pydatetime option"
  rt_isofmt :: "pydatetime \<Rightarrow> string"

text \<open>\<open>canonical_json_bytes\<close>: sorted keys, compact separators, a final line feed.\<close>

definition canonical_json_bytes :: "runtime \<Rightarrow> pyval \<Rightarrow> string result" where
  "canonical_json_bytes rt v = rbind (dumps (rt_compact rt) v) (\<lambda>text. Inr (text @ [CHR 0x0A]))"

definition BUNDLE_SCHEMA_VERSION :: string where "BUNDLE_SCHEMA_VERSION = ''1.0.0''"
definition MAX_BUNDLE_PAYLOAD_BYTES :: int where "MAX_BUNDLE_PAYLOAD_BYTES = 128 * 1024 * 1024"
definition MAX_ARCHIVE_FILES :: int where "MAX_ARCHIVE_FILES = 2100"
definition MAX_MANIFEST_BYTES :: int where "MAX_MANIFEST_BYTES = 1024 * 1024"

section \<open>Values of unknown type\<close>

text \<open>\<open>isinstance(v, int)\<close> holds for booleans too.\<close>

fun py_int :: "pyval \<Rightarrow> int option" where
  "py_int (PInt i) = Some i"
| "py_int (PBool b) = Some (if b then 1 else 0)"
| "py_int _ = None"

fun py_eq_int :: "pyval \<Rightarrow> int \<Rightarrow> bool" where
  "py_eq_int (PInt i) n = (i = n)"
| "py_eq_int (PBool b) n = ((if b then 1 else 0) = n)"
| "py_eq_int (PFloat f) n = (f = Fin (of_int n))"
| "py_eq_int _ n = False"

fun py_str :: "pyval \<Rightarrow> string option" where
  "py_str (PStr s) = Some s"
| "py_str _ = None"

definition verify_error :: "string \<Rightarrow> 'a result" where
  "verify_error message = Inl (BundleVerificationError message)"

definition required_mapping :: "pyval \<Rightarrow> string \<Rightarrow> (string \<times> pyval) list result" where
  "required_mapping v field = (case v of PDict d \<Rightarrow> Inr d
    | _ \<Rightarrow> verify_error (''manifest field '' @ field @ '' must be an object''))"

definition required_list :: "pyval \<Rightarrow> string \<Rightarrow> pyval list result" where
  "required_list v field = (case v of PList xs \<Rightarrow> Inr xs
    | _ \<Rightarrow> verify_error (''manifest field '' @ field @ '' must be an array''))"

text \<open>\<open>raise BundleVerificationError(message)\<close> unless a condition holds.\<close>

definition check :: "bool \<Rightarrow> string \<Rightarrow> unit result" where
  "check ok message = (if ok then Inr () else verify_error message)"

lemma check_Inr [simp]: "check ok message = Inr u \<longleftrightarrow> ok"
  by (simp add: check_def verify_error_def)

section \<open>Archive names\<close>

fun split_slash :: "string \<Rightarrow> string list" where
  "split_slash [] = [[]]"
| "split_slash (c # s) = (if c = CHR ''/'' then [] # split_slash s
     else case split_slash s of [] \<Rightarrow> [[c]] | p # ps \<Rightarrow> (c # p) # ps)"

text \<open>\<open>PurePosixPath(name)\<close> of a relative name: its parts and its normal form.\<close>

definition posix_parts :: "string \<Rightarrow> string list" where
  "posix_parts name = filter (\<lambda>p. p \<noteq> [] \<and> p \<noteq> ''.'') (split_slash name)"

definition as_posix :: "string \<Rightarrow> string" where
  "as_posix name = (if posix_parts name = [] then ''.'' else join ''/'' (posix_parts name))"

definition safe_archive_name :: "string \<Rightarrow> bool" where
  "safe_archive_name name \<longleftrightarrow> name \<noteq> [] \<and> CHR 0x5C \<notin> set name \<and> \<not> startswith name ''/'' \<and>
    ''..'' \<notin> set (posix_parts name) \<and> as_posix name = name"

section \<open>The archive directory\<close>

text \<open>\<open>(external_attr >> 16) & 0o170000\<close>, the Unix file type.\<close>

definition unix_file_type :: "int \<Rightarrow> int" where
  "unix_file_type attr = (attr div 65536) div 4096 mod 16 * 4096"

definition is_dir :: "zip_entry \<Rightarrow> bool" where
  "is_dir info \<longleftrightarrow> ze_filename info \<noteq> [] \<and> last (ze_filename info) = CHR ''/''"

definition archive_step :: "(string \<times> zip_entry) list \<times> int \<Rightarrow> zip_entry \<Rightarrow> ((string \<times> zip_entry) list \<times> int) result" where
  "archive_step st info = (case st of (entries, used) \<Rightarrow>
    rbind (check (safe_archive_name (ze_filename info)) (''unsafe archive path: '' @ ze_filename info)) (\<lambda>_.
    rbind (check (ze_filename info \<notin> set (map fst entries)) (''duplicate archive path: '' @ ze_filename info)) (\<lambda>_.
    rbind (check (even (ze_flag_bits info)) ''encrypted bundle entries are not supported'') (\<lambda>_.
    rbind (check (unix_file_type (ze_external_attr info) \<noteq> 40960) ''symbolic links are not allowed in bundles'') (\<lambda>_.
    rbind (check (\<not> is_dir info) ''directory entries are not allowed in bundles'') (\<lambda>_.
    rbind (check (used + ze_file_size info \<le> MAX_BUNDLE_PAYLOAD_BYTES + MAX_MANIFEST_BYTES)
      ''bundle uncompressed size exceeds the safety limit'') (\<lambda>_.
    Inr (entries @ [(ze_filename info, info)], used + ze_file_size info))))))))"

definition archive_entries :: "zip_entry list \<Rightarrow> (string \<times> zip_entry) list result" where
  "archive_entries infos =
    rbind (check (int (length infos) \<le> MAX_ARCHIVE_FILES) ''bundle contains too many archive entries'') (\<lambda>_.
    rbind (rfold archive_step ([], 0) infos) (\<lambda>(entries, used). Inr entries))"

section \<open>The manifest\<close>

definition MANIFEST_FIELDS :: "string list" where
  "MANIFEST_FIELDS = [''agent_version'', ''bundle_id'', ''created_at'', ''files'', ''policy'', ''sample_count'',
     ''samples'', ''schema_version'', ''warnings'']"

definition FILE_FIELDS :: "string list" where
  "FILE_FIELDS = [''media_type'', ''path'', ''redaction_count'', ''sha256'', ''size_bytes'']"

definition SAMPLE_FIELDS :: "string list" where
  "SAMPLE_FIELDS = [''profile'', ''raw_evidence_paths'', ''sample_id'', ''sample_path'', ''validation_warnings'']"

definition same_fields :: "(string \<times> pyval) list \<Rightarrow> string list \<Rightarrow> bool" where
  "same_fields d names \<longleftrightarrow> set (map fst d) = set names"

definition validate_manifest_shape :: "(string \<times> pyval) list \<Rightarrow> unit result" where
  "validate_manifest_shape manifest =
    rbind (check (same_fields manifest MANIFEST_FIELDS) ''manifest contains missing or unsupported fields'') (\<lambda>_.
    rbind (check (get manifest ''schema_version'' = PStr BUNDLE_SCHEMA_VERSION) ''unsupported bundle schema version'') (\<lambda>_.
    rbind (check (case py_str (get manifest ''bundle_id'') of None \<Rightarrow> False | Some s \<Rightarrow> s \<noteq> [])
      ''manifest bundle_id must be a non-empty string'') (\<lambda>_.
    rbind (check (case py_int (get manifest ''sample_count'') of None \<Rightarrow> False | Some n \<Rightarrow> 1 \<le> n)
      ''manifest sample_count must be a positive integer'') (\<lambda>_.
    rbind (required_mapping (get manifest ''policy'') ''policy'') (\<lambda>policy.
    rbind (required_list (get manifest ''samples'') ''samples'') (\<lambda>samples.
    rbind (required_list (get manifest ''files'') ''files'') (\<lambda>files.
    rbind (required_list (get manifest ''warnings'') ''warnings'') (\<lambda>warnings.
    rbind (check (py_int (get manifest ''sample_count'') = Some (int (length samples)))
      ''manifest sample_count does not match samples'') (\<lambda>_.
    rbind (check (list_all (\<lambda>w. py_str w \<noteq> None) warnings) ''manifest warnings must contain strings'') (\<lambda>_.
    check (files \<noteq> []) ''manifest must list at least one payload file''))))))))))"

text \<open>\<open>_bundle_id\<close>: the digest of paths, digests and sizes in path order.\<close>

definition file_path :: "(string \<times> pyval) list \<Rightarrow> string" where
  "file_path entry = (case py_str (get entry ''path'') of Some p \<Rightarrow> p | None \<Rightarrow> [])"

definition bundle_identity :: "(string \<times> pyval) list list \<Rightarrow> pyval" where
  "bundle_identity files = PList (map (\<lambda>item. PDict [(''path'', get item ''path''), (''sha256'', get item ''sha256''),
     (''size_bytes'', get item ''size_bytes'')]) (sort_key file_path files))"

definition bundle_id :: "runtime \<Rightarrow> (string \<times> pyval) list list \<Rightarrow> string result" where
  "bundle_id rt files = rbind (canonical_json_bytes rt (bundle_identity files)) (\<lambda>text.
     Inr (''bundle-'' @ take 24 (rt_sha256 rt text)))"

section \<open>Payload files\<close>

definition read_entry :: "(string \<times> zip_entry) list \<Rightarrow> string \<Rightarrow> string result" where
  "read_entry entries name = (case map_of entries name of
     None \<Rightarrow> Inl (KeyError name) | Some info \<Rightarrow> ze_content info)"

text \<open>One round of the loop over \<open>manifest["files"]\<close>; the state is the entries accepted so far.\<close>

definition file_step ::
  "runtime \<Rightarrow> (string \<times> zip_entry) list \<Rightarrow> (string \<times> pyval) list list \<Rightarrow> pyval \<Rightarrow> (string \<times> pyval) list list result" where
  "file_step rt entries listed raw =
    rbind (required_mapping raw ''files[]'') (\<lambda>entry.
    rbind (check (same_fields entry FILE_FIELDS) ''manifest file entry has unsupported fields'') (\<lambda>_.
    let path = file_path entry in
    rbind (check (case py_str (get entry ''path'') of None \<Rightarrow> False | Some p \<Rightarrow> safe_archive_name p)
      ''manifest contains an unsafe file path'') (\<lambda>_.
    rbind (check (path \<noteq> ''manifest.json'' \<and> path \<notin> set (map file_path listed))
      (''duplicate manifest file path: '' @ path)) (\<lambda>_.
    rbind (check (map_of entries path \<noteq> None) (''listed bundle file is missing: '' @ path)) (\<lambda>_.
    rbind (read_entry entries path) (\<lambda>content.
    rbind (check (py_eq_int (get entry ''size_bytes'') (int (length content))) (''size mismatch for '' @ path)) (\<lambda>_.
    rbind (check (get entry ''sha256'' = PStr (rt_sha256 rt content)) (''checksum mismatch for '' @ path)) (\<lambda>_.
    rbind (check (case py_int (get entry ''redaction_count'') of None \<Rightarrow> False | Some n \<Rightarrow> 0 \<le> n)
      (''invalid redaction_count for '' @ path)) (\<lambda>_.
    Inr (listed @ [entry]))))))))))"

section \<open>Samples and raw evidence\<close>

record sample_scan =
  sn_ids :: "string list"
  sn_sample_paths :: "string list"
  sn_raw_paths :: "string list"
  sn_warnings :: "string list"

text \<open>\<open>except (KeyError, TypeError, UnicodeError, ValueError)\<close> around the loader.\<close>

definition wrap_loader :: "string \<Rightarrow> 'a result \<Rightarrow> 'a result" where
  "wrap_loader message r = (case r of
     Inl e \<Rightarrow> if is_key_error e \<or> is_type_error e \<or> is_value_error e then verify_error message else Inl e
   | Inr x \<Rightarrow> Inr x)"

definition load_bundled :: "runtime \<Rightarrow> (string \<times> zip_entry) list \<Rightarrow> string \<Rightarrow> Sample result" where
  "load_bundled rt entries path =
    rbind (read_entry entries path) (\<lambda>content. rbind (rt_decode rt content) (\<lambda>text.
    loads_sample (rt_loads rt) (rt_fromiso rt) text))"

text \<open>\<open>except (UnicodeError, json.JSONDecodeError)\<close>.\<close>

fun is_decode_error :: "py_error \<Rightarrow> bool" where
  "is_decode_error UnicodeDecodeError = True"
| "is_decode_error (JSONDecodeError _) = True"
| "is_decode_error _ = False"

definition parse_json :: "runtime \<Rightarrow> string \<Rightarrow> string result \<Rightarrow> pyval result" where
  "parse_json rt message content =
    (case rbind content (\<lambda>c. rbind (rt_decode rt c) (rt_loads rt)) of
       Inl e \<Rightarrow> if is_decode_error e then verify_error message else Inl e
     | Inr v \<Rightarrow> Inr v)"

definition raw_step ::
  "runtime \<Rightarrow> (string \<times> zip_entry) list \<Rightarrow> string list \<Rightarrow> string \<Rightarrow> string list \<Rightarrow> pyval \<Rightarrow> string list result" where
  "raw_step rt entries listed sample_id referenced raw =
    (case raw of
       PStr path \<Rightarrow>
         rbind (check (path \<in> set listed) (''raw evidence payload is missing for '' @ sample_id)) (\<lambda>_.
         rbind (check (startswith path ''raw/'') (''raw evidence path is outside raw/ for '' @ sample_id)) (\<lambda>_.
         rbind (parse_json rt (''raw evidence is not valid UTF-8 JSON: '' @ path) (read_entry entries path)) (\<lambda>v.
         rbind (check (case v of PDict d \<Rightarrow> True | _ \<Rightarrow> False) (''raw evidence must contain a JSON object: '' @ path)) (\<lambda>_.
         Inr (referenced @ [path])))))
     | _ \<Rightarrow> verify_error (''raw evidence payload is missing for '' @ sample_id))"

definition sample_step ::
  "runtime \<Rightarrow> (string \<times> zip_entry) list \<Rightarrow> string list \<Rightarrow> bool \<Rightarrow> sample_scan \<Rightarrow> pyval \<Rightarrow> sample_scan result" where
  "sample_step rt entries listed allow_invalid scan raw =
    rbind (required_mapping raw ''samples[]'') (\<lambda>entry.
    rbind (check (same_fields entry SAMPLE_FIELDS) ''manifest sample entry has unsupported fields'') (\<lambda>_.
    rbind (case py_str (get entry ''sample_id'') of
        None \<Rightarrow> verify_error ''manifest sample_id must be non-empty''
      | Some s \<Rightarrow> if s = [] then verify_error ''manifest sample_id must be non-empty'' else Inr s) (\<lambda>sample_id.
    rbind (check (sample_id \<notin> set (sn_ids scan)) (''duplicate sample ID in manifest: '' @ sample_id)) (\<lambda>_.
    rbind (case py_str (get entry ''sample_path'') of
        None \<Rightarrow> verify_error (''sample payload is missing for '' @ sample_id)
      | Some p \<Rightarrow> if p \<notin> set listed then verify_error (''sample payload is missing for '' @ sample_id) else Inr p) (\<lambda>path.
    rbind (wrap_loader (''sample payload is invalid for '' @ sample_id) (load_bundled rt entries path)) (\<lambda>sample.
    rbind (check (smp_sample_id sample = sample_id) (''sample ID mismatch for '' @ path)) (\<lambda>_.
    rbind (check (get entry ''profile'' = PStr (prot_profile (smp_protocol sample)))
      (''sample profile mismatch for '' @ sample_id)) (\<lambda>_.
    let validation = validate_sample sample in
    rbind (check (val_valid validation \<or> allow_invalid)
      (''sample '' @ sample_id @ '' failed semantic validation: '' @ join ''; '' (val_errors validation))) (\<lambda>_.
    rbind (required_list (get entry ''raw_evidence_paths'') ''raw_evidence_paths'') (\<lambda>raw_paths.
    rbind (rfold (raw_step rt entries listed sample_id) (sn_raw_paths scan) raw_paths) (\<lambda>referenced.
    Inr \<lparr>sn_ids = sn_ids scan @ [sample_id], sn_sample_paths = sn_sample_paths scan @ [path],
         sn_raw_paths = referenced, sn_warnings = sn_warnings scan @ val_warnings validation\<rparr>)))))))))))"

section \<open>verify_bundle\<close>

record BundleVerification =
  bv_bundle_id :: string
  bv_bundle_sha256 :: string
  bv_sample_count :: int
  bv_file_count :: int
  bv_warnings :: "string list"

definition verify_manifest :: "runtime \<Rightarrow> (string \<times> zip_entry) list \<Rightarrow> (string \<times> pyval) list result" where
  "verify_manifest rt entries = (case map_of entries ''manifest.json'' of
     None \<Rightarrow> verify_error ''bundle does not contain manifest.json''
   | Some info \<Rightarrow>
      rbind (check (ze_file_size info \<le> MAX_MANIFEST_BYTES) ''bundle manifest exceeds the safety limit'') (\<lambda>_.
      rbind (parse_json rt ''bundle manifest is not valid UTF-8 JSON'' (ze_content info)) (\<lambda>v.
      rbind (required_mapping v ''root'') (\<lambda>manifest.
      rbind (validate_manifest_shape manifest) (\<lambda>_. Inr manifest)))))"

definition verify_files ::
  "runtime \<Rightarrow> (string \<times> zip_entry) list \<Rightarrow> (string \<times> pyval) list \<Rightarrow> (string \<times> pyval) list list result" where
  "verify_files rt entries manifest =
    rbind (required_list (get manifest ''files'') ''files'') (\<lambda>files.
    rbind (rfold (file_step rt entries) [] files) (\<lambda>listed.
    rbind (check (set (map fst entries) - {''manifest.json''} = set (map file_path listed))
      ''bundle contains unlisted payload files'') (\<lambda>_.
    rbind (bundle_id rt listed) (\<lambda>bid.
    rbind (check (get manifest ''bundle_id'' = PStr bid) ''bundle_id does not match payload checksums'') (\<lambda>_.
    Inr listed)))))"

definition verify_samples ::
  "runtime \<Rightarrow> (string \<times> zip_entry) list \<Rightarrow> (string \<times> pyval) list \<Rightarrow> string list \<Rightarrow> sample_scan result" where
  "verify_samples rt entries manifest listed =
    rbind (required_mapping (get manifest ''policy'') ''policy'') (\<lambda>policy.
    rbind (required_list (get manifest ''warnings'') ''warnings'') (\<lambda>warnings.
    rbind (required_list (get manifest ''samples'') ''samples'') (\<lambda>samples.
    rbind (rfold (sample_step rt entries listed (get policy ''allow_invalid_samples'' = PBool True))
      \<lparr>sn_ids = [], sn_sample_paths = [], sn_raw_paths = [], sn_warnings = List.map_filter py_str warnings\<rparr> samples) (\<lambda>scan.
    rbind (check (set (filter (\<lambda>p. startswith p ''samples/'') listed) = set (sn_sample_paths scan))
      ''bundle contains unreferenced sample payloads'') (\<lambda>_.
    rbind (check (set (filter (\<lambda>p. startswith p ''raw/'') listed) = set (sn_raw_paths scan))
      ''bundle contains unreferenced raw evidence'') (\<lambda>_.
    Inr scan))))))"

text \<open>\<open>except zipfile.BadZipFile\<close> around everything that reads the archive.\<close>

fun wrap_bad_zip :: "'a result \<Rightarrow> 'a result" where
  "wrap_bad_zip (Inl (BadZipFile _)) = verify_error ''bundle is not a valid ZIP archive''"
| "wrap_bad_zip r = r"

definition verify_archive :: "runtime \<Rightarrow> string \<Rightarrow> ((string \<times> pyval) list \<times> (string \<times> pyval) list list \<times> sample_scan) result" where
  "verify_archive rt bytes =
    rbind (rt_unzip rt bytes) (\<lambda>infos.
    rbind (archive_entries infos) (\<lambda>entries.
    rbind (verify_manifest rt entries) (\<lambda>manifest.
    rbind (verify_files rt entries manifest) (\<lambda>listed.
    rbind (verify_samples rt entries manifest (map file_path listed)) (\<lambda>scan.
    Inr (manifest, listed, scan))))))"

definition verify_bundle :: "runtime \<Rightarrow> string option \<Rightarrow> BundleVerification result" where
  "verify_bundle rt file = (case file of
     None \<Rightarrow> Inl (FileNotFoundError ''bundle does not exist'')
   | Some bytes \<Rightarrow>
      rbind (wrap_bad_zip (verify_archive rt bytes)) (\<lambda>(manifest, listed, scan).
      Inr \<lparr>bv_bundle_id = (case py_str (get manifest ''bundle_id'') of Some s \<Rightarrow> s | None \<Rightarrow> []),
           bv_bundle_sha256 = rt_sha256 rt bytes,
           bv_sample_count = (case py_int (get manifest ''sample_count'') of Some n \<Rightarrow> n | None \<Rightarrow> 0),
           bv_file_count = int (length listed),
           bv_warnings = dedup (sn_warnings scan)\<rparr>))"

section \<open>What an accepted bundle satisfies\<close>

text \<open>An invariant of a loop that also sees the elements consumed so far.\<close>

lemma rfold_trace:
  assumes "rfold f s xs = Inr s'" and "P ys s"
    and "\<And>s x s' ys. x \<in> set xs \<Longrightarrow> P ys s \<Longrightarrow> f s x = Inr s' \<Longrightarrow> P (ys @ [x]) s'"
  shows "P (ys @ xs) s'"
  using assms
proof (induction xs arbitrary: s ys)
  case (Cons x xs)
  then obtain s1 where step: "f s x = Inr s1" and rest: "rfold f s1 xs = Inr s'"
    by (auto simp: rbind_Inr_iff)
  have "P ((ys @ [x]) @ xs) s'"
  proof (rule Cons.IH [OF rest])
    show "P (ys @ [x]) s1" using Cons.prems(2) step by (intro Cons.prems(3)) simp_all
  qed (use Cons.prems(3) in simp)
  then show ?case by simp
qed simp

definition entry_ok :: "zip_entry \<Rightarrow> bool" where
  "entry_ok info \<longleftrightarrow> safe_archive_name (ze_filename info) \<and> even (ze_flag_bits info) \<and>
    unix_file_type (ze_external_attr info) \<noteq> 40960 \<and> \<not> is_dir info"

definition archive_ok :: "zip_entry list \<Rightarrow> (string \<times> zip_entry) list \<Rightarrow> bool" where
  "archive_ok infos entries \<longleftrightarrow> int (length infos) \<le> MAX_ARCHIVE_FILES \<and>
    entries = map (\<lambda>info. (ze_filename info, info)) infos \<and> distinct (map ze_filename infos) \<and>
    list_all entry_ok infos \<and>
    sum_list (map ze_file_size infos) \<le> MAX_BUNDLE_PAYLOAD_BYTES + MAX_MANIFEST_BYTES"

lemma archive_entries_ok:
  assumes "archive_entries infos = Inr entries"
  shows "archive_ok infos entries"
proof -
  let ?P = "\<lambda>ys (es, n). es = map (\<lambda>info. (ze_filename info, info)) ys \<and> distinct (map ze_filename ys) \<and>
    list_all entry_ok ys \<and> n = sum_list (map ze_file_size ys) \<and>
    n \<le> MAX_BUNDLE_PAYLOAD_BYTES + MAX_MANIFEST_BYTES"
  from assms obtain used where len: "int (length infos) \<le> MAX_ARCHIVE_FILES"
    and run: "rfold archive_step ([], 0) infos = Inr (entries, used)"
    by (auto simp: archive_entries_def rbind_Inr_iff)
  have "?P ([] @ infos) (entries, used)"
  proof (rule rfold_trace [OF run])
    show "?P (ys @ [x]) s'" if "?P ys s" and step: "archive_step s x = Inr s'" for s x s' ys
    proof -
      obtain es n where s: "s = (es, n)" by force
      from that(1) have "map fst es = map ze_filename ys" by (simp add: s comp_def)
      then have "set (map fst es) = set (map ze_filename ys)" by simp
      with that show ?thesis
        unfolding s archive_step_def prod.case rbind_Inr_iff check_Inr by (auto simp: entry_ok_def)
    qed
  qed (simp add: MAX_BUNDLE_PAYLOAD_BYTES_def MAX_MANIFEST_BYTES_def)
  with len show ?thesis by (auto simp: archive_ok_def)
qed

text \<open>
  An entry of the manifest's file list: its fields, a safe path other than the manifest's, and a
  content of the stated size and digest.
\<close>

definition file_intact :: "runtime \<Rightarrow> (string \<times> zip_entry) list \<Rightarrow> (string \<times> pyval) list \<Rightarrow> bool" where
  "file_intact rt entries f \<longleftrightarrow> same_fields f FILE_FIELDS \<and> get f ''path'' = PStr (file_path f) \<and>
    safe_archive_name (file_path f) \<and> file_path f \<noteq> ''manifest.json'' \<and>
    (case read_entry entries (file_path f) of
       Inl e \<Rightarrow> False
     | Inr content \<Rightarrow> get f ''sha256'' = PStr (rt_sha256 rt content) \<and>
         py_eq_int (get f ''size_bytes'') (int (length content))) \<and>
    (case py_int (get f ''redaction_count'') of None \<Rightarrow> False | Some n \<Rightarrow> 0 \<le> n)"

lemma py_str_Some [simp]: "py_str v = Some s \<longleftrightarrow> v = PStr s"
  by (cases v) auto

lemma file_step_ok:
  assumes "file_step rt entries listed raw = Inr listed'"
  shows "\<exists>f. raw = PDict f \<and> listed' = listed @ [f] \<and> file_intact rt entries f \<and>
    file_path f \<notin> set (map file_path listed) \<and> file_path f \<in> set (map fst entries)"
proof -
  from assms obtain f where raw: "raw = PDict f"
    by (cases raw) (auto simp: file_step_def required_mapping_def verify_error_def)
  note run = assms [unfolded file_step_def raw, simplified required_mapping_def pyval.case rbind.simps Let_def rbind_Inr_iff check_Inr]
  from run obtain p where p: "get f ''path'' = PStr p"
    by (cases "py_str (get f ''path'')") auto
  then have "file_path f = p" by (simp add: file_path_def)
  with run p have "get f ''path'' = PStr (file_path f)" "safe_archive_name (file_path f)" by simp_all
  moreover from run have "file_path f \<in> set (map fst entries)"
    by (auto simp: map_of_eq_None_iff)
  ultimately show ?thesis using run raw by (auto simp: file_intact_def)
qed

lemma verify_files_ok:
  assumes "verify_files rt entries manifest = Inr files"
  shows "distinct (map file_path files) \<and> list_all (file_intact rt entries) files \<and>
    set (map fst entries) - {''manifest.json''} = set (map file_path files) \<and>
    (\<exists>bid. bundle_id rt files = Inr bid \<and> get manifest ''bundle_id'' = PStr bid) \<and>
    get manifest ''files'' = PList (map PDict files)"
proof -
  from assms obtain raws bid where raws: "get manifest ''files'' = PList raws"
    and run: "rfold (file_step rt entries) [] raws = Inr files"
    and rest: "set (map fst entries) - {''manifest.json''} = set (map file_path files)"
      "bundle_id rt files = Inr bid" "get manifest ''bundle_id'' = PStr bid"
    by (auto simp: verify_files_def rbind_Inr_iff required_list_def verify_error_def split: pyval.splits)
  let ?P = "\<lambda>ys fs. ys = map PDict fs \<and> distinct (map file_path fs) \<and> list_all (file_intact rt entries) fs"
  have "?P ([] @ raws) files"
    by (rule rfold_trace [OF run]) (auto dest!: file_step_ok)
  with rest raws show ?thesis by simp
qed

text \<open>
  One accepted sample with its entry in the manifest: the entry has the fields of a sample entry and
  names the id, the path of the payload, the profile and the evidence; the payload decodes to the
  sample, which is well formed and, unless the policy allows otherwise, valid; and every evidence
  file is listed, lies under \<open>raw/\<close> and decodes to an object.
\<close>

definition evidence_object :: "runtime \<Rightarrow> (string \<times> zip_entry) list \<Rightarrow> string list \<Rightarrow> string \<Rightarrow> bool" where
  "evidence_object rt entries listed p \<longleftrightarrow> p \<in> set listed \<and> startswith p ''raw/'' \<and>
    (case rbind (read_entry entries p) (\<lambda>c. rbind (rt_decode rt c) (rt_loads rt)) of
       Inr (PDict d) \<Rightarrow> True | _ \<Rightarrow> False)"

definition bundled_ok ::
  "runtime \<Rightarrow> (string \<times> zip_entry) list \<Rightarrow> string list \<Rightarrow> bool \<Rightarrow> pyval \<Rightarrow> string \<times> Sample \<times> string list \<Rightarrow> bool" where
  "bundled_ok rt entries listed allow_invalid raw x \<longleftrightarrow> (case (raw, x) of
     (PDict entry, path, sample, raws) \<Rightarrow>
       same_fields entry SAMPLE_FIELDS \<and> get entry ''sample_id'' = PStr (smp_sample_id sample) \<and>
       get entry ''sample_path'' = PStr path \<and> get entry ''profile'' = PStr (prot_profile (smp_protocol sample)) \<and>
       get entry ''raw_evidence_paths'' = PList (map PStr raws) \<and>
       path \<in> set listed \<and> load_bundled rt entries path = Inr sample \<and> wf_sample sample \<and>
       (sample_ok sample \<or> allow_invalid) \<and> list_all (evidence_object rt entries listed) raws
   | _ \<Rightarrow> False)"

lemma wrap_loader_Inr [simp]: "wrap_loader m r = Inr x \<longleftrightarrow> r = Inr x"
  by (auto simp: wrap_loader_def verify_error_def split: sum.splits if_splits)

lemma load_bundled_wf: "load_bundled rt entries path = Inr s \<Longrightarrow> wf_sample s"
  by (auto simp: load_bundled_def rbind_Inr_iff loads_sample_def dest: sample_from_wf)

lemma parse_json_Inr:
  "parse_json rt m content = Inr v \<longleftrightarrow> rbind content (\<lambda>c. rbind (rt_decode rt c) (rt_loads rt)) = Inr v"
  by (auto simp: parse_json_def verify_error_def split: sum.splits)

lemma raw_step_ok:
  "raw_step rt entries listed sid referenced raw = Inr referenced' \<Longrightarrow>
   \<exists>p. raw = PStr p \<and> referenced' = referenced @ [p] \<and> evidence_object rt entries listed p"
proof -
  assume step: "raw_step rt entries listed sid referenced raw = Inr referenced'"
  then obtain p where raw: "raw = PStr p" by (cases raw) (auto simp: raw_step_def verify_error_def)
  with step obtain m v where "p \<in> set listed" "startswith p ''raw/''" "referenced' = referenced @ [p]"
    and v: "parse_json rt m (read_entry entries p) = Inr v" and d: "case v of PDict d \<Rightarrow> True | _ \<Rightarrow> False"
    unfolding raw_step_def raw pyval.case rbind_Inr_iff [of "check _ _"] rbind_Inr_iff [of "parse_json _ _ _"] check_Inr
    by blast
  moreover from d obtain x where "v = PDict x" by (cases v) auto
  ultimately show ?thesis using raw by (simp add: evidence_object_def parse_json_Inr)
qed

lemma raw_loop_ok:
  assumes "rfold (raw_step rt entries listed sid) referenced raws = Inr referenced'"
  shows "\<exists>ps. raws = map PStr ps \<and> referenced' = referenced @ ps \<and> list_all (evidence_object rt entries listed) ps"
proof -
  let ?P = "\<lambda>ys r. \<exists>ps. ys = map PStr ps \<and> r = referenced @ ps \<and> list_all (evidence_object rt entries listed) ps"
  have "?P ([] @ raws) referenced'"
  proof (rule rfold_trace [OF assms])
    show "?P (ys @ [x]) r'" if "?P ys r" and step: "raw_step rt entries listed sid r x = Inr r'" for r x r' ys
    proof -
      from that(1) obtain ps where "ys = map PStr ps" "r = referenced @ ps"
        "list_all (evidence_object rt entries listed) ps" by blast
      with raw_step_ok [OF step] show ?thesis by (intro exI [of _ "ps @ [the (py_str x)]"]) auto
    qed
  qed simp
  then show ?thesis by simp
qed

lemma sample_step_ok:
  assumes "sample_step rt entries listed allow scan raw = Inr scan'"
  shows "\<exists>path sample raws. bundled_ok rt entries listed allow raw (path, sample, raws) \<and>
    smp_sample_id sample \<notin> set (sn_ids scan) \<and> sn_ids scan' = sn_ids scan @ [smp_sample_id sample] \<and>
    sn_sample_paths scan' = sn_sample_paths scan @ [path] \<and> sn_raw_paths scan' = sn_raw_paths scan @ raws \<and>
    sn_warnings scan' = sn_warnings scan @ val_warnings (validate_sample sample)"
proof -
  from assms obtain entry where raw: "raw = PDict entry"
    by (cases raw) (auto simp: sample_step_def required_mapping_def verify_error_def)
  from assms obtain sid path sample raw_paths referenced where
    "same_fields entry SAMPLE_FIELDS" "get entry ''sample_id'' = PStr sid" "get entry ''sample_path'' = PStr path"
    "get entry ''profile'' = PStr (prot_profile (smp_protocol sample))"
    "get entry ''raw_evidence_paths'' = PList raw_paths"
    "sid \<notin> set (sn_ids scan)" "path \<in> set listed" "load_bundled rt entries path = Inr sample"
    "smp_sample_id sample = sid" "val_valid (validate_sample sample) \<or> allow"
    and loop: "rfold (raw_step rt entries listed sid) (sn_raw_paths scan) raw_paths = Inr referenced"
    and "scan' = \<lparr>sn_ids = sn_ids scan @ [sid], sn_sample_paths = sn_sample_paths scan @ [path],
         sn_raw_paths = referenced, sn_warnings = sn_warnings scan @ val_warnings (validate_sample sample)\<rparr>"
    unfolding sample_step_def raw required_mapping_def pyval.case rbind.simps rbind_Inr_iff Let_def check_Inr wrap_loader_Inr
    by (auto simp: verify_error_def required_list_def split: option.splits if_splits pyval.splits)
  moreover from raw_loop_ok [OF loop] obtain raws where "raw_paths = map PStr raws"
    "referenced = sn_raw_paths scan @ raws" "list_all (evidence_object rt entries listed) raws" by blast
  ultimately show ?thesis using load_bundled_wf [of rt entries path sample]
    by (intro exI [of _ path] exI [of _ sample] exI [of _ raws]) (simp add: bundled_ok_def raw validate_sample_valid)
qed

lemma verify_samples_ok:
  assumes "verify_samples rt entries manifest listed = Inr scan"
  shows "\<exists>xs policy samples warnings. get manifest ''policy'' = PDict policy \<and> get manifest ''samples'' = PList samples \<and>
    get manifest ''warnings'' = PList warnings \<and>
    list_all2 (bundled_ok rt entries listed (get policy ''allow_invalid_samples'' = PBool True)) samples xs \<and>
    distinct (map (\<lambda>(path, s, raws). smp_sample_id s) xs) \<and>
    sn_warnings scan = List.map_filter py_str warnings @ concat (map (\<lambda>(path, s, raws). val_warnings (validate_sample s)) xs) \<and>
    set (filter (\<lambda>p. startswith p ''samples/'') listed) = set (map fst xs) \<and>
    set (filter (\<lambda>p. startswith p ''raw/'') listed) = set (concat (map (\<lambda>(path, s, raws). raws) xs))"
proof -
  from assms obtain policy warnings samples where
    m: "get manifest ''policy'' = PDict policy" "get manifest ''samples'' = PList samples"
      "get manifest ''warnings'' = PList warnings"
    and run: "rfold (sample_step rt entries listed (get policy ''allow_invalid_samples'' = PBool True))
      \<lparr>sn_ids = [], sn_sample_paths = [], sn_raw_paths = [], sn_warnings = List.map_filter py_str warnings\<rparr> samples = Inr scan"
    and refs: "set (filter (\<lambda>p. startswith p ''samples/'') listed) = set (sn_sample_paths scan)"
      "set (filter (\<lambda>p. startswith p ''raw/'') listed) = set (sn_raw_paths scan)"
    by (auto simp: verify_samples_def rbind_Inr_iff required_mapping_def required_list_def verify_error_def
        split: pyval.splits)
  let ?ok = "bundled_ok rt entries listed (get policy ''allow_invalid_samples'' = PBool True)"
  let ?P = "\<lambda>ys scan. \<exists>xs. list_all2 ?ok ys xs \<and>
    sn_ids scan = map (\<lambda>(path, s, raws). smp_sample_id s) xs \<and> distinct (sn_ids scan) \<and>
    sn_warnings scan = List.map_filter py_str warnings @ concat (map (\<lambda>(path, s, raws). val_warnings (validate_sample s)) xs) \<and>
    sn_sample_paths scan = map fst xs \<and> sn_raw_paths scan = concat (map (\<lambda>(path, s, raws). raws) xs)"
  have "?P ([] @ samples) scan"
  proof (rule rfold_trace [OF run])
    show "?P (ys @ [x]) scan2" if "?P ys scan1"
      and step: "sample_step rt entries listed (get policy ''allow_invalid_samples'' = PBool True) scan1 x = Inr scan2"
      for scan1 x scan2 ys
    proof -
      from that(1) obtain xs where xs: "list_all2 ?ok ys xs"
        "sn_ids scan1 = map (\<lambda>(path, s, raws). smp_sample_id s) xs" "distinct (sn_ids scan1)"
        "sn_warnings scan1 = List.map_filter py_str warnings @ concat (map (\<lambda>(path, s, raws). val_warnings (validate_sample s)) xs)"
        "sn_sample_paths scan1 = map fst xs" "sn_raw_paths scan1 = concat (map (\<lambda>(path, s, raws). raws) xs)"
        by blast
      from sample_step_ok [OF step] obtain path sample raws where
        "?ok x (path, sample, raws)" "smp_sample_id sample \<notin> set (sn_ids scan1)"
        "sn_ids scan2 = sn_ids scan1 @ [smp_sample_id sample]"
        "sn_sample_paths scan2 = sn_sample_paths scan1 @ [path]" "sn_raw_paths scan2 = sn_raw_paths scan1 @ raws"
        "sn_warnings scan2 = sn_warnings scan1 @ val_warnings (validate_sample sample)"
        by blast
      with xs show ?thesis
        by (intro exI [of _ "xs @ [(path, sample, raws)]"]) (simp add: list_all2_appendI)
    qed
  qed simp
  then obtain xs where xs: "list_all2 ?ok samples xs"
    "sn_ids scan = map (\<lambda>(path, s, raws). smp_sample_id s) xs" "distinct (sn_ids scan)"
    "sn_warnings scan = List.map_filter py_str warnings @ concat (map (\<lambda>(path, s, raws). val_warnings (validate_sample s)) xs)"
    "sn_sample_paths scan = map fst xs" "sn_raw_paths scan = concat (map (\<lambda>(path, s, raws). raws) xs)"
    by auto
  show ?thesis
    by (rule exI [of _ xs], rule exI [of _ policy], rule exI [of _ samples], rule exI [of _ warnings])
      (use xs m refs in simp)
qed

text \<open>The manifest of an accepted bundle: its fields, its version, and lists that agree with its counts.\<close>

definition manifest_ok ::
  "(string \<times> pyval) list \<Rightarrow> (string \<times> pyval) list \<Rightarrow> pyval list \<Rightarrow> (string \<times> pyval) list list \<Rightarrow> string list \<Rightarrow> bool" where
  "manifest_ok manifest policy samples files warnings \<longleftrightarrow>
    same_fields manifest MANIFEST_FIELDS \<and> get manifest ''schema_version'' = PStr BUNDLE_SCHEMA_VERSION \<and>
    get manifest ''policy'' = PDict policy \<and> get manifest ''samples'' = PList samples \<and> samples \<noteq> [] \<and>
    get manifest ''files'' = PList (map PDict files) \<and> files \<noteq> [] \<and>
    get manifest ''warnings'' = PList (map PStr warnings) \<and>
    py_int (get manifest ''sample_count'') = Some (int (length samples))"

text \<open>
  Everything \<open>verify_bundle\<close> guarantees: the decoded archive, its manifest and the list of its
  samples. Whether invalid samples are allowed is what the policy of the manifest says.
\<close>

definition bundle_ok ::
  "runtime \<Rightarrow> string \<Rightarrow> BundleVerification \<Rightarrow> zip_entry list \<Rightarrow> (string \<times> zip_entry) list \<Rightarrow> (string \<times> pyval) list \<Rightarrow>
   (string \<times> pyval) list list \<Rightarrow> (string \<times> Sample \<times> string list) list \<Rightarrow> bool" where
  "bundle_ok rt bytes b infos entries manifest files xs \<longleftrightarrow>
    rt_unzip rt bytes = Inr infos \<and> archive_ok infos entries \<and>
    (\<exists>info. map_of entries ''manifest.json'' = Some info \<and> ze_file_size info \<le> MAX_MANIFEST_BYTES \<and>
      rbind (ze_content info) (\<lambda>c. rbind (rt_decode rt c) (rt_loads rt)) = Inr (PDict manifest)) \<and>
    distinct (map file_path files) \<and> list_all (file_intact rt entries) files \<and>
    set (map fst entries) = insert ''manifest.json'' (set (map file_path files)) \<and>
    bundle_id rt files = Inr (bv_bundle_id b) \<and> get manifest ''bundle_id'' = PStr (bv_bundle_id b) \<and>
    bv_bundle_sha256 b = rt_sha256 rt bytes \<and>
    (\<exists>policy samples warnings. manifest_ok manifest policy samples files warnings \<and>
      list_all2 (bundled_ok rt entries (map file_path files) (get policy ''allow_invalid_samples'' = PBool True)) samples xs \<and>
      bv_warnings b = dedup (warnings @ concat (map (\<lambda>(path, s, raws). val_warnings (validate_sample s)) xs))) \<and>
    distinct (map (\<lambda>(path, s, raws). smp_sample_id s) xs) \<and>
    bv_sample_count b = int (length xs) \<and> bv_file_count b = int (length files) \<and>
    set (filter (\<lambda>p. startswith p ''samples/'') (map file_path files)) = set (map fst xs) \<and>
    set (filter (\<lambda>p. startswith p ''raw/'') (map file_path files)) = set (concat (map (\<lambda>(path, s, raws). raws) xs))"

lemma wrap_bad_zip_Inr [simp]: "wrap_bad_zip r = Inr x \<longleftrightarrow> r = Inr x"
  by (cases r rule: wrap_bad_zip.cases) (auto simp: verify_error_def)

lemma verify_manifest_shape:
  assumes "verify_manifest rt entries = Inr manifest"
  shows "\<exists>info. map_of entries ''manifest.json'' = Some info \<and> ze_file_size info \<le> MAX_MANIFEST_BYTES \<and>
      rbind (ze_content info) (\<lambda>c. rbind (rt_decode rt c) (rt_loads rt)) = Inr (PDict manifest)"
    and "validate_manifest_shape manifest = Inr ()"
proof -
  from assms obtain info where info: "map_of entries ''manifest.json'' = Some info"
    by (cases "map_of entries ''manifest.json''") (auto simp: verify_manifest_def verify_error_def)
  from assms obtain v where size: "ze_file_size info \<le> MAX_MANIFEST_BYTES"
    and v: "rbind (ze_content info) (\<lambda>c. rbind (rt_decode rt c) (rt_loads rt)) = Inr v"
    and m: "required_mapping v ''root'' = Inr manifest" and shape: "validate_manifest_shape manifest = Inr ()"
    unfolding verify_manifest_def info option.case rbind_Inr_iff [of "check _ _"] rbind_Inr_iff [of "parse_json _ _ _"]
      rbind_Inr_iff [of "required_mapping _ _"] rbind_Inr_iff [of "validate_manifest_shape _"] check_Inr parse_json_Inr
    by auto
  from m have "v = PDict manifest" by (cases v) (auto simp: required_mapping_def verify_error_def)
  with info size v shape show
    "\<exists>info. map_of entries ''manifest.json'' = Some info \<and> ze_file_size info \<le> MAX_MANIFEST_BYTES \<and>
      rbind (ze_content info) (\<lambda>c. rbind (rt_decode rt c) (rt_loads rt)) = Inr (PDict manifest)"
    "validate_manifest_shape manifest = Inr ()" by blast+
qed

lemma strings_of: "list_all (\<lambda>w. py_str w \<noteq> None) ws \<Longrightarrow> ws = map PStr (List.map_filter py_str ws)"
  by (induction ws) (auto simp: map_filter_simps)

lemma manifest_shape_ok:
  assumes "validate_manifest_shape manifest = Inr ()" and "get manifest ''files'' = PList (map PDict files)"
    and "get manifest ''policy'' = PDict policy" and "get manifest ''samples'' = PList samples"
    and "get manifest ''warnings'' = PList warnings"
  shows "manifest_ok manifest policy samples files (List.map_filter py_str warnings)"
  using assms strings_of [of warnings] unfolding validate_manifest_shape_def rbind_Inr_iff check_Inr
  by (auto simp: manifest_ok_def required_mapping_def required_list_def split: option.splits)

lemma verify_manifest_ok:
  assumes "verify_manifest rt entries = Inr manifest"
  shows "''manifest.json'' \<in> set (map fst entries) \<and>
    (\<exists>samples n. get manifest ''samples'' = PList samples \<and> py_int (get manifest ''sample_count'') = Some n \<and>
      n = int (length samples) \<and> 1 \<le> n)"
proof -
  note shape = verify_manifest_shape [OF assms]
  from shape(2) have "\<exists>samples n. get manifest ''samples'' = PList samples \<and>
      py_int (get manifest ''sample_count'') = Some n \<and> n = int (length samples) \<and> 1 \<le> n"
    unfolding validate_manifest_shape_def rbind_Inr_iff check_Inr
    by (auto simp: required_list_def verify_error_def split: option.splits pyval.splits)
  with shape(1) show ?thesis by (auto dest!: map_of_SomeD intro: rev_image_eqI)
qed

lemma verify_bundle_ok:
  assumes "verify_bundle rt file = Inr b"
  shows "\<exists>bytes infos entries manifest files xs. file = Some bytes \<and> bundle_ok rt bytes b infos entries manifest files xs"
proof -
  from assms obtain bytes manifest files scan where input: "file = Some bytes"
    and run: "verify_archive rt bytes = Inr (manifest, files, scan)"
    and b: "b = \<lparr>bv_bundle_id = (case py_str (get manifest ''bundle_id'') of Some s \<Rightarrow> s | None \<Rightarrow> []),
           bv_bundle_sha256 = rt_sha256 rt bytes,
           bv_sample_count = (case py_int (get manifest ''sample_count'') of Some n \<Rightarrow> n | None \<Rightarrow> 0),
           bv_file_count = int (length files), bv_warnings = dedup (sn_warnings scan)\<rparr>"
    by (auto simp: verify_bundle_def rbind_Inr_iff split: option.splits)
  from run obtain infos entries where unzip: "rt_unzip rt bytes = Inr infos" and e: "archive_entries infos = Inr entries"
    and m: "verify_manifest rt entries = Inr manifest" and f: "verify_files rt entries manifest = Inr files"
    and s: "verify_samples rt entries manifest (map file_path files) = Inr scan"
    by (auto simp: verify_archive_def rbind_Inr_iff)
  note files = verify_files_ok [OF f] and shape = verify_manifest_shape [OF m]
  from verify_samples_ok [OF s] obtain xs policy samples warnings where
    x: "get manifest ''policy'' = PDict policy" "get manifest ''samples'' = PList samples"
      "get manifest ''warnings'' = PList warnings"
      "list_all2 (bundled_ok rt entries (map file_path files) (get policy ''allow_invalid_samples'' = PBool True)) samples xs"
      "distinct (map (\<lambda>(path, s, raws). smp_sample_id s) xs)"
      "sn_warnings scan = List.map_filter py_str warnings @ concat (map (\<lambda>(path, s, raws). val_warnings (validate_sample s)) xs)"
      "set (filter (\<lambda>p. startswith p ''samples/'') (map file_path files)) = set (map fst xs)"
      "set (filter (\<lambda>p. startswith p ''raw/'') (map file_path files)) = set (concat (map (\<lambda>(path, s, raws). raws) xs))"
    by blast
  have ok: "manifest_ok manifest policy samples files (List.map_filter py_str warnings)"
    using shape(2) files x(1-3) by (intro manifest_shape_ok) simp_all
  have "set (map fst entries) = insert ''manifest.json'' (set (map file_path files))"
    using files verify_manifest_ok [OF m] by auto
  moreover have "bv_sample_count b = int (length xs)"
    using ok list_all2_lengthD [OF x(4)] by (simp add: b manifest_ok_def)
  moreover have "\<exists>bid. bundle_id rt files = Inr bid \<and> get manifest ''bundle_id'' = PStr bid \<and> bv_bundle_id b = bid"
    using files by (auto simp: b)
  ultimately have "bundle_ok rt bytes b infos entries manifest files xs"
    using unzip archive_entries_ok [OF e] shape(1) files x(4-8) ok unfolding bundle_ok_def
    by (auto simp: b x(6))
  with input show ?thesis by blast
qed

section \<open>A concrete runtime and bundle\<close>

text \<open>Digests are constant except for the bundle \<open>B\<close>; \<open>S\<close>, \<open>R\<close> and \<open>M\<close> decode to a sample, an
  evidence object and a manifest.\<close>

definition demo_digest :: "string \<Rightarrow> string" where
  "demo_digest t = replicate 64 (if t = ''B'' then CHR ''b'' else CHR ''a'')"

definition line :: "string \<Rightarrow> string" where "line t = t @ [CHR 0x0A]"

definition demo_file :: "string \<Rightarrow> string \<Rightarrow> (string \<times> pyval) list" where
  "demo_file path content = [(''media_type'', PStr ''json''), (''path'', PStr path), (''redaction_count'', PInt 0),
     (''sha256'', PStr (demo_digest content)), (''size_bytes'', PInt (int (length content)))]"

definition demo_entry :: "string \<Rightarrow> string \<Rightarrow> zip_entry" where
  "demo_entry path content = \<lparr>ze_filename = path, ze_flag_bits = 0, ze_external_attr = 33188 * 65536,
     ze_file_size = int (length content), ze_content = Inr content\<rparr>"

definition demo_manifest :: "(string \<times> string) list \<Rightarrow> string list \<Rightarrow> pyval" where
  "demo_manifest payloads raws = PDict [(''agent_version'', PStr ''1''), (''bundle_id'', PStr (''bundle-'' @ replicate 24 (CHR ''a''))),
     (''created_at'', PStr ''0''), (''files'', PList (map (\<lambda>(p, c). PDict (demo_file p c)) payloads)),
     (''policy'', PDict []), (''sample_count'', PInt 1),
     (''samples'', PList [PDict [(''profile'', PStr ''p''), (''raw_evidence_paths'', PList (map PStr raws)),
        (''sample_id'', PStr ''a''), (''sample_path'', PStr ''samples/0001.json''), (''validation_warnings'', PList [])]]),
     (''schema_version'', PStr ''1.0.0''), (''warnings'', PList [])]"

definition demo_runtime :: "(string \<times> string) list \<Rightarrow> string list \<Rightarrow> Sample \<Rightarrow> runtime" where
  "demo_runtime payloads raws s = \<lparr>rt_sha256 = demo_digest,
     rt_unzip = (\<lambda>_. Inr (demo_entry ''manifest.json'' ''M'' # map (\<lambda>(p, c). demo_entry p c) payloads)),
     rt_decode = Inr,
     rt_loads = (\<lambda>t. if t = ''M'' then Inr (demo_manifest payloads raws)
        else if t = line ''S'' then Inr (sort_json (sample_dict (\<lambda>d. int_str (dt_local d)) s))
        else if t = ''R'' then Inr (PDict []) else Inl (JSONDecodeError t)),
     rt_compact = (\<lambda>v. ''S''),
     rt_fromiso = (\<lambda>t. Some (utc (digits_val t))), rt_isofmt = (\<lambda>d. int_str (dt_local d))\<rparr>"

section \<open>Properties\<close>

text \<open>
  C14: \<open>verify_bundle\<close> is sound. When it accepts, the archive has only safe, distinct, plain,
  unencrypted entries within the size limit; its manifest has exactly the fields of schema 1.0.0 and
  counts that agree with its lists; the payloads are exactly the listed files, each entry has the
  fields of a file entry and the size and digest of its content; the bundle id is the digest of that
  list; every sample entry names the id, profile, payload and evidence of a sample that decodes to a
  well-formed value, valid unless the policy of this manifest allows invalid samples, and ids are
  distinct; the files under \<open>samples/\<close> are exactly the payloads and those under \<open>raw/\<close> exactly the
  referenced evidence, each a JSON object; and the counts, the digest and the warnings reported are
  those of the bundle.
\<close>

theorem verify_bundle_sound:
  "case verify_bundle rt file of Inl e \<Rightarrow> True
   | Inr b \<Rightarrow> \<exists>bytes infos entries manifest files xs. file = Some bytes \<and>
       bundle_ok rt bytes b infos entries manifest files xs"
  using verify_bundle_ok [of rt "file"] by (auto split: sum.splits)

text \<open>
  Two gaps in what the verifier checks. A listed payload outside \<open>samples/\<close> and \<open>raw/\<close> needs no
  reference and no content check, so any file can travel in an accepted bundle; and one sample may
  reference the same evidence file twice.
\<close>

theorem verify_bundle_gaps:
  "(case verify_bundle (demo_runtime [(''samples/0001.json'', line ''S''), (''tools/run.sh'', ''rm'')] []
      (demo_sample ''a'' 7 (Fin 3))) (Some ''Z'') of Inr b \<Rightarrow> bv_file_count b = 2 | Inl e \<Rightarrow> False) \<and>
   (case verify_bundle (demo_runtime [(''samples/0001.json'', line ''S''), (''raw/r.json'', ''R'')] [''raw/r.json'', ''raw/r.json'']
      (demo_sample ''a'' 7 (Fin 3))) (Some ''Z'') of Inr b \<Rightarrow> bv_sample_count b = 1 | Inl e \<Rightarrow> False)"
  by code_simp

end
