(* ===== verification/Database.thy ===== *)
theory Database
  imports Bundle
begin

text \<open>
  \<open>models.py\<close> and \<open>repository.py\<close> of the platform: the three SQLite tables as lists of rows, their
  constraints as checks on every insertion, and the transaction that persists a submission.
  The invariant \<open>db_inv\<close> is what the constraints promise; every operation keeps it.
\<close>

section \<open>Rows and receipts\<close>

record IngestionReceipt =
  ir_schema_version :: string
  ir_submission_id :: string
  ir_status :: string
  ir_received_at :: pydatetime
  ir_bundle_id :: string
  ir_bundle_sha256 :: string
  ir_sample_count :: int
  ir_file_count :: int
  ir_warnings :: "pyval list"
  ir_duplicate_of :: "string option"

record SampleRecord =
  sr_sample_id :: string
  sr_submission_id :: string
  sr_sample_path :: string
  sr_sample_sha256 :: string
  sr_sample_json :: string
  sr_profile :: string
  sr_provider_id :: string
  sr_provider_name :: string
  sr_country_code :: "string option"
  sr_product :: "string option"
  sr_plan :: "string option"
  sr_region :: "string option"
  sr_zone :: "string option"
  sr_machine_type :: string
  sr_cpu_count :: pynum
  sr_memory_bytes :: pynum
  sr_architecture :: string
  sr_protocol_version :: string
  sr_protocol_fingerprint :: string
  sr_quality_status :: string
  sr_created_at :: string
  sr_raw_evidence_count :: int

record SubmissionRow =
  sub_submission_id :: string
  sub_bundle_id :: string
  sub_bundle_sha256 :: string
  sub_idempotency_key :: string
  sub_received_at :: string
  sub_status :: string
  sub_sample_count :: int
  sub_file_count :: int
  sub_warnings_json :: string
  sub_bundle_path :: string
  sub_agent_version :: string
  sub_bundle_created_at :: string

record EvidenceRow =
  er_submission_id :: string
  er_sample_id :: string
  er_archive_path :: string
  er_sha256 :: string
  er_size_bytes :: int
  er_media_type :: string

record database =
  db_submissions :: "SubmissionRow list"
  db_samples :: "SampleRecord list"
  db_evidence :: "EvidenceRow list"

definition empty_database :: database where
  "empty_database = \<lparr>db_submissions = [], db_samples = [], db_evidence = []\<rparr>"

section \<open>Insertions\<close>

text \<open>
  Python integers are bound as 64-bit signed SQLite integers; others raise \<open>OverflowError\<close>. A float
  is bound as a REAL and a NaN as NULL; the affinity of an INTEGER column turns a REAL with an
  integral value into that integer and keeps any other.
\<close>

definition sqlite_int :: "int \<Rightarrow> bool" where
  "sqlite_int n \<longleftrightarrow> - (2 ^ 63) \<le> n \<and> n < 2 ^ 63"

fun bindable :: "pynum \<Rightarrow> bool" where
  "bindable (IntNum n) = sqlite_int n"
| "bindable (FloatNum f) = True"

fun stored_num :: "pynum \<Rightarrow> pynum" where
  "stored_num (FloatNum (Fin x)) =
     (if of_int \<lfloor>x\<rfloor> = x \<and> - (2 ^ 63) < \<lfloor>x\<rfloor> \<and> \<lfloor>x\<rfloor> < 2 ^ 63 - 1 then IntNum \<lfloor>x\<rfloor> else FloatNum (Fin x))"
| "stored_num v = v"

definition stored_row :: "SampleRecord \<Rightarrow> SampleRecord" where
  "stored_row row = row\<lparr>sr_cpu_count := stored_num (sr_cpu_count row), sr_memory_bytes := stored_num (sr_memory_bytes row)\<rparr>"

lemma stored_num_positive: "num_positive v \<Longrightarrow> num_positive (stored_num v)"
  by (cases v rule: stored_num.cases) (auto simp: fle_def)

lemma stored_row_simps [simp]:
  "sr_sample_id (stored_row r) = sr_sample_id r" "sr_submission_id (stored_row r) = sr_submission_id r"
  "sr_raw_evidence_count (stored_row r) = sr_raw_evidence_count r"
  "sr_cpu_count (stored_row r) = stored_num (sr_cpu_count r)"
  "sr_memory_bytes (stored_row r) = stored_num (sr_memory_bytes r)"
  by (simp_all add: stored_row_def)

lemma stored_row_comp [simp]:
  "sr_sample_id \<circ> stored_row = sr_sample_id" "sr_submission_id \<circ> stored_row = sr_submission_id"
  by (simp_all add: fun_eq_iff)

definition constraint :: "bool \<Rightarrow> string \<Rightarrow> unit result" where
  "constraint ok name = (if ok then Inr () else Inl (IntegrityError name))"

definition bind_ints :: "int list \<Rightarrow> unit result" where
  "bind_ints ns = (if list_all sqlite_int ns then Inr () else Inl OverflowError)"

definition bind_nums :: "pynum list \<Rightarrow> unit result" where
  "bind_nums ns = (if list_all bindable ns then Inr () else Inl OverflowError)"

lemma bind_nums_Inr [simp]: "bind_nums ns = Inr u \<longleftrightarrow> list_all bindable ns"
  by (simp add: bind_nums_def)

lemma constraint_Inr [simp]: "constraint ok name = Inr u \<longleftrightarrow> ok"
  by (simp add: constraint_def)

lemma bind_ints_Inr [simp]: "bind_ints ns = Inr u \<longleftrightarrow> list_all sqlite_int ns"
  by (simp add: bind_ints_def)

definition insert_submission :: "SubmissionRow \<Rightarrow> database \<Rightarrow> database result" where
  "insert_submission row db =
    rbind (bind_ints [sub_sample_count row, sub_file_count row]) (\<lambda>_.
    rbind (constraint (sub_submission_id row \<notin> set (map sub_submission_id (db_submissions db))) ''submission_id'') (\<lambda>_.
    rbind (constraint (sub_bundle_sha256 row \<notin> set (map sub_bundle_sha256 (db_submissions db))) ''bundle_sha256'') (\<lambda>_.
    rbind (constraint (sub_idempotency_key row \<notin> set (map sub_idempotency_key (db_submissions db))) ''idempotency_key'') (\<lambda>_.
    rbind (constraint (sub_status row = ''accepted'' \<and> 0 < sub_sample_count row \<and> 0 < sub_file_count row) ''CHECK'') (\<lambda>_.
    Inr (db\<lparr>db_submissions := db_submissions db @ [row]\<rparr>))))))"

definition insert_sample :: "database \<Rightarrow> SampleRecord \<Rightarrow> database result" where
  "insert_sample db row =
    rbind (bind_nums [sr_cpu_count row, sr_memory_bytes row, IntNum (sr_raw_evidence_count row)]) (\<lambda>_.
    rbind (constraint (FloatNum NaN \<notin> {sr_cpu_count row, sr_memory_bytes row}) ''NOT NULL'') (\<lambda>_.
    rbind (constraint (sr_sample_id row \<notin> set (map sr_sample_id (db_samples db))) ''sample_id'') (\<lambda>_.
    rbind (constraint (sr_submission_id row \<in> set (map sub_submission_id (db_submissions db))) ''FOREIGN KEY'') (\<lambda>_.
    rbind (constraint (num_positive (stored_num (sr_cpu_count row)) \<and> num_positive (stored_num (sr_memory_bytes row)) \<and>
      0 \<le> sr_raw_evidence_count row) ''CHECK'') (\<lambda>_.
    Inr (db\<lparr>db_samples := db_samples db @ [stored_row row]\<rparr>))))))"

definition evidence_key :: "EvidenceRow \<Rightarrow> string \<times> string" where
  "evidence_key row = (er_submission_id row, er_archive_path row)"

definition insert_evidence :: "database \<Rightarrow> EvidenceRow \<Rightarrow> database result" where
  "insert_evidence db row =
    rbind (bind_ints [er_size_bytes row]) (\<lambda>_.
    rbind (constraint (evidence_key row \<notin> set (map evidence_key (db_evidence db))) ''submission_id, archive_path'') (\<lambda>_.
    rbind (constraint (er_submission_id row \<in> set (map sub_submission_id (db_submissions db)) \<and>
      er_sample_id row \<in> set (map sr_sample_id (db_samples db))) ''FOREIGN KEY'') (\<lambda>_.
    rbind (constraint (0 \<le> er_size_bytes row) ''CHECK'') (\<lambda>_.
    Inr (db\<lparr>db_evidence := db_evidence db @ [row]\<rparr>)))))"

section \<open>Queries and the transaction\<close>

definition receipt_from_row :: "runtime \<Rightarrow> bool \<Rightarrow> SubmissionRow \<Rightarrow> IngestionReceipt result" where
  "receipt_from_row rt duplicate row =
    (case rt_fromiso rt (sub_received_at row) of
       None \<Rightarrow> Inl (ValueError ''Invalid isoformat string'')
     | Some received \<Rightarrow>
        rbind (rt_loads rt (sub_warnings_json row)) (\<lambda>v. rbind (dyn_iter v) (\<lambda>warnings.
        Inr \<lparr>ir_schema_version = ''1.0.0'', ir_submission_id = sub_submission_id row,
             ir_status = (if duplicate then ''duplicate'' else sub_status row), ir_received_at = received,
             ir_bundle_id = sub_bundle_id row, ir_bundle_sha256 = sub_bundle_sha256 row,
             ir_sample_count = sub_sample_count row, ir_file_count = sub_file_count row,
             ir_warnings = warnings, ir_duplicate_of = (if duplicate then Some (sub_submission_id row) else None)\<rparr>)))"

definition lookup_receipt :: "runtime \<Rightarrow> (SubmissionRow \<Rightarrow> bool) \<Rightarrow> database \<Rightarrow> IngestionReceipt option result" where
  "lookup_receipt rt P db = (case find P (db_submissions db) of
     None \<Rightarrow> Inr None
   | Some row \<Rightarrow> rbind (receipt_from_row rt True row) (\<lambda>r. Inr (Some r)))"

definition by_idempotency_key :: "runtime \<Rightarrow> string \<Rightarrow> database \<Rightarrow> IngestionReceipt option result" where
  "by_idempotency_key rt key = lookup_receipt rt (\<lambda>row. sub_idempotency_key row = key)"

definition by_bundle_sha256 :: "runtime \<Rightarrow> string \<Rightarrow> database \<Rightarrow> IngestionReceipt option result" where
  "by_bundle_sha256 rt digest = lookup_receipt rt (\<lambda>row. sub_bundle_sha256 row = digest)"

definition existing_sample_ids :: "string list \<Rightarrow> database \<Rightarrow> string list" where
  "existing_sample_ids ids db = sort (filter (\<lambda>i. i \<in> set ids) (map sr_sample_id (db_samples db)))"

definition submission_row ::
  "runtime \<Rightarrow> IngestionReceipt \<Rightarrow> string \<Rightarrow> string \<Rightarrow> string \<Rightarrow> string \<Rightarrow> SubmissionRow" where
  "submission_row rt receipt key bundle_path agent_version created_at =
    \<lparr>sub_submission_id = ir_submission_id receipt, sub_bundle_id = ir_bundle_id receipt,
     sub_bundle_sha256 = ir_bundle_sha256 receipt, sub_idempotency_key = key,
     sub_received_at = rt_isofmt rt (ir_received_at receipt), sub_status = ''accepted'',
     sub_sample_count = ir_sample_count receipt, sub_file_count = ir_file_count receipt,
     sub_warnings_json = rt_compact rt (PList (ir_warnings receipt)), sub_bundle_path = bundle_path,
     sub_agent_version = agent_version, sub_bundle_created_at = created_at\<rparr>"

definition run_inserts ::
  "SubmissionRow \<Rightarrow> SampleRecord list \<Rightarrow> EvidenceRow list \<Rightarrow> database \<Rightarrow> database result" where
  "run_inserts row samples evidence db =
    rbind (insert_submission row db) (\<lambda>db1. rbind (rfold insert_sample db1 samples) (\<lambda>db2.
    rfold insert_evidence db2 evidence))"

text \<open>\<open>transaction\<close>: commit when every statement succeeded, else roll back and raise. Another SQLite
  error, such as a lock time-out, may strike instead.\<close>

definition persist ::
  "py_error option \<Rightarrow> SubmissionRow \<Rightarrow> SampleRecord list \<Rightarrow> EvidenceRow list \<Rightarrow> database \<Rightarrow> database \<times> unit result" where
  "persist fault row samples evidence db = (case fault of
     Some e \<Rightarrow> (db, Inl e)
   | None \<Rightarrow> (case run_inserts row samples evidence db of
       Inl e \<Rightarrow> (db, Inl e) | Inr db' \<Rightarrow> (db', Inr ())))"

definition db_counts :: "database \<Rightarrow> int \<times> int \<times> int" where
  "db_counts db = (int (length (db_evidence db)), int (length (db_samples db)), int (length (db_submissions db)))"

section \<open>The invariant of the tables\<close>

definition db_inv :: "database \<Rightarrow> bool" where
  "db_inv db \<longleftrightarrow> distinct (map sub_submission_id (db_submissions db)) \<and>
    distinct (map sub_bundle_sha256 (db_submissions db)) \<and>
    distinct (map sub_idempotency_key (db_submissions db)) \<and>
    list_all (\<lambda>r. sub_status r = ''accepted'' \<and> 0 < sub_sample_count r \<and> 0 < sub_file_count r) (db_submissions db) \<and>
    distinct (map sr_sample_id (db_samples db)) \<and>
    list_all (\<lambda>r. sr_submission_id r \<in> set (map sub_submission_id (db_submissions db)) \<and> num_positive (sr_cpu_count r) \<and>
      num_positive (sr_memory_bytes r)) (db_samples db) \<and>
    distinct (map evidence_key (db_evidence db)) \<and>
    list_all (\<lambda>r. er_submission_id r \<in> set (map sub_submission_id (db_submissions db)) \<and>
      er_sample_id r \<in> set (map sr_sample_id (db_samples db))) (db_evidence db)"

lemma db_inv_empty [simp]: "db_inv empty_database"
  by (simp add: db_inv_def empty_database_def)

lemma insert_submission_Inr:
  "insert_submission row db = Inr db' \<Longrightarrow> db' = db\<lparr>db_submissions := db_submissions db @ [row]\<rparr> \<and>
    sub_submission_id row \<notin> set (map sub_submission_id (db_submissions db)) \<and> sub_bundle_sha256 row \<notin> set (map sub_bundle_sha256 (db_submissions db)) \<and>
    (db_inv db \<longrightarrow> db_inv db')"
  by (auto simp: insert_submission_def rbind_Inr_iff db_inv_def list_all_iff)

lemma insert_sample_Inr:
  "insert_sample db row = Inr db' \<Longrightarrow> db' = db\<lparr>db_samples := db_samples db @ [stored_row row]\<rparr> \<and> (db_inv db \<longrightarrow> db_inv db')"
  by (auto simp: insert_sample_def rbind_Inr_iff db_inv_def list_all_iff)

lemma insert_evidence_Inr:
  "insert_evidence db row = Inr db' \<Longrightarrow> db' = db\<lparr>db_evidence := db_evidence db @ [row]\<rparr> \<and> (db_inv db \<longrightarrow> db_inv db')"
  by (auto simp: insert_evidence_def rbind_Inr_iff db_inv_def list_all_iff)

lemma insert_samples_Inr:
  assumes "rfold insert_sample db rows = Inr db'"
  shows "db' = db\<lparr>db_samples := db_samples db @ map stored_row rows\<rparr> \<and> (db_inv db \<longrightarrow> db_inv db')"
proof -
  have "db' = db\<lparr>db_samples := db_samples db @ map stored_row ([] @ rows)\<rparr> \<and> (db_inv db \<longrightarrow> db_inv db')"
    by (rule rfold_trace [OF assms, where P = "\<lambda>ys d. d = db\<lparr>db_samples := db_samples db @ map stored_row ys\<rparr> \<and> (db_inv db \<longrightarrow> db_inv d)"])
      (auto dest!: insert_sample_Inr)
  then show ?thesis unfolding append_Nil .
qed

lemma insert_evidences_Inr:
  assumes "rfold insert_evidence db rows = Inr db'"
  shows "db' = db\<lparr>db_evidence := db_evidence db @ rows\<rparr> \<and> (db_inv db \<longrightarrow> db_inv db')"
proof -
  have "db' = db\<lparr>db_evidence := db_evidence db @ [] @ rows\<rparr> \<and> (db_inv db \<longrightarrow> db_inv db')"
    by (rule rfold_trace [OF assms, where P = "\<lambda>ys d. d = db\<lparr>db_evidence := db_evidence db @ ys\<rparr> \<and> (db_inv db \<longrightarrow> db_inv d)"])
      (auto dest!: insert_evidence_Inr)
  then show ?thesis unfolding append_Nil .
qed

lemma persist_Inr:
  assumes "persist fault row samples evidence db = (db', Inr ())"
  shows "db_submissions db' = db_submissions db @ [row] \<and> db_samples db' = db_samples db @ map stored_row samples \<and>
    db_evidence db' = db_evidence db @ evidence \<and>
    sub_submission_id row \<notin> set (map sub_submission_id (db_submissions db)) \<and> sub_bundle_sha256 row \<notin> set (map sub_bundle_sha256 (db_submissions db)) \<and>
    (db_inv db \<longrightarrow> db_inv db')"
proof -
  from assms obtain db1 db2 where "insert_submission row db = Inr db1" "rfold insert_sample db1 samples = Inr db2"
    "rfold insert_evidence db2 evidence = Inr db'"
    by (auto simp: persist_def run_inserts_def rbind_Inr_iff split: option.splits sum.splits)
  from insert_submission_Inr [OF this(1)] insert_samples_Inr [OF this(2)] insert_evidences_Inr [OF this(3)]
  show ?thesis by auto
qed

lemma persist_Inl: "persist fault row samples evidence db = (db', Inl e) \<Longrightarrow> db' = db"
  by (auto simp: persist_def split: option.splits sum.splits)

end
