(* ===== verification/Storage.thy ===== *)
theory Storage
  imports Files Database
begin

text \<open>
  \<open>storage.py\<close> and \<open>quarantine.py\<close>: the content-addressed store of bundles and the store of rejected
  requests. Both are directories; the random part of a temporary name and the point at which a
  write fails are arguments.
\<close>

section \<open>storage.py\<close>

definition bundle_path :: "string \<Rightarrow> string" where
  "bundle_path digest = take 2 digest @ ''/'' @ digest @ ''.zip''"

definition bundle_temp :: "string \<Rightarrow> string \<Rightarrow> string" where
  "bundle_temp random digest = take 2 digest @ ''/.'' @ digest @ ''.'' @ random @ ''.tmp''"

text \<open>
  The copy goes to a temporary file, is hashed again and replaces the destination. Whatever raises
  on the way, the temporary file is removed.
\<close>

definition put_file :: "string \<Rightarrow> write_fault \<Rightarrow> string \<Rightarrow> string \<Rightarrow> bool \<Rightarrow> files \<Rightarrow> files \<times> string result" where
  "put_file temp fault dest content intact fs = (case fault of
     CreateFails \<Rightarrow> (fs, Inl (OSError temp))
   | WriteFails n \<Rightarrow> (fs_run [WriteFile temp (take n content), UnlinkFile temp] fs, Inl (OSError temp))
   | ReplaceFails \<Rightarrow> (fs_run (write_steps temp content @ [UnlinkFile temp]) fs, Inl (OSError dest))
   | NoFault \<Rightarrow> if intact then (fs_run (write_steps temp content @ [ReplaceFile temp dest]) fs, Inr dest)
       else (fs_run (write_steps temp content @ [UnlinkFile temp]) fs,
         Inl (OSError ''copied bundle digest does not match expected digest'')))"

definition store_put ::
  "(string \<Rightarrow> string) \<Rightarrow> string \<Rightarrow> write_fault \<Rightarrow> string \<Rightarrow> string \<Rightarrow> files \<Rightarrow> files \<times> (string \<times> bool) result" where
  "store_put sha256 random fault source digest fs =
    (let dest = bundle_path digest in
     case map_of fs dest of
       Some current \<Rightarrow> if sha256 current \<noteq> digest
         then (fs, Inl (OSError ''existing content-addressed bundle has an invalid digest''))
         else (fs, Inr (dest, False))
     | None \<Rightarrow> (case put_file (bundle_temp random digest) fault dest source (sha256 source = digest) fs of
         (fs', Inl e) \<Rightarrow> (fs', Inl e) | (fs', Inr d) \<Rightarrow> (fs', Inr (d, True))))"

lemma bundle_temp_not_path: "bundle_temp random digest \<noteq> bundle_path digest'"
proof
  assume "bundle_temp random digest = bundle_path digest'"
  from arg_cong [OF this, of "\<lambda>s. take 2 (rev s)"] show False
    by (simp add: bundle_temp_def bundle_path_def)
qed

lemma bundle_path_inj: "bundle_path d = bundle_path d' \<longleftrightarrow> d = d'"
proof
  assume eq: "bundle_path d = bundle_path d'"
  then have len: "length (bundle_path d) = length (bundle_path d')" by simp
  have mono: "length (bundle_path d) < length (bundle_path d')" if "length d < length d'" for d d' :: string
    using that by (simp add: bundle_path_def)
  have "length d = length d'"
    using mono [of d d'] mono [of d' d] len by linarith
  with eq show "d = d'" by (simp add: bundle_path_def)
qed simp

definition store_lookup :: "files \<Rightarrow> string \<Rightarrow> string option" where
  "store_lookup fs digest = map_of fs (bundle_path digest)"

definition put_bytes :: "string \<Rightarrow> string \<Rightarrow> string \<Rightarrow> files \<Rightarrow> files" where
  "put_bytes random digest content fs =
    fs_run (write_steps (bundle_temp random digest) content @ [ReplaceFile (bundle_temp random digest) (bundle_path digest)]) fs"

definition remove_bundle :: "string \<Rightarrow> files \<Rightarrow> files" where
  "remove_bundle digest fs = fs_run [UnlinkFile (bundle_path digest)] fs"

interpretation bundle_files: kv_store store_lookup "put_bytes random" remove_bundle for random
  by unfold_locales
    (auto simp: store_lookup_def put_bytes_def remove_bundle_def map_of_write_steps bundle_path_inj
      bundle_temp_not_path bundle_temp_not_path [symmetric])

text \<open>\<open>put\<close> as an operation on what the store holds.\<close>

lemma store_put_cases:
  assumes "store_put sha256 random fault source digest fs = (fs', r)"
  shows "(\<exists>e. r = Inl (OSError e) \<and> store_lookup fs' = store_lookup fs) \<or>
    (r = Inr (bundle_path digest, False) \<and> fs' = fs \<and>
      (\<exists>c. store_lookup fs digest = Some c \<and> sha256 c = digest)) \<or>
    (r = Inr (bundle_path digest, True) \<and> fs' = put_bytes random digest source fs \<and> sha256 source = digest \<and>
      store_lookup fs digest = None)"
proof (cases "map_of fs (bundle_path digest)")
  case (Some c)
  with assms show ?thesis by (auto simp: store_put_def store_lookup_def Let_def split: if_splits)
next
  case None
  have temp: "map_of fs'' (bundle_path d) = map_of fs (bundle_path d)"
    if "put_file (bundle_temp random digest) fault (bundle_path digest) source ok fs = (fs'', Inl e)" for fs'' d ok e
    using that bundle_temp_not_path [symmetric]
    by (auto simp: put_file_def map_of_write_steps split: write_fault.splits if_splits)
  from None assms show ?thesis
    by (cases fault; cases "sha256 source = digest")
      (auto simp: store_put_def Let_def put_file_def store_lookup_def put_bytes_def map_of_write_steps
        bundle_temp_not_path [symmetric] fun_eq_iff)
qed

section \<open>quarantine.py\<close>

definition SAFE_HEADERS :: "string list" where
  "SAFE_HEADERS = [''content-type'', ''idempotency-key'', ''x-cloudeyes-bundle-id'', ''x-cloudeyes-bundle-sha256'',
     ''user-agent'']"

text \<open>A dictionary comprehension: a later header of the same folded name overwrites the value.\<close>

definition safe_headers :: "(string \<times> string) list \<Rightarrow> (string \<times> string) list" where
  "safe_headers headers = fold (\<lambda>(k, v). AList.update (casefold k) (take 512 v))
     (filter (\<lambda>(k, v). casefold k \<in> set SAFE_HEADERS) headers) []"

definition quarantine_id :: "string \<Rightarrow> string \<Rightarrow> string" where
  "quarantine_id timestamp digest = ''quarantine-'' @ timestamp @ ''-'' @ take 16 digest"

definition quarantine_metadata ::
  "string \<Rightarrow> bool \<Rightarrow> string \<Rightarrow> string \<Rightarrow> string \<Rightarrow> (string \<times> string) list \<Rightarrow> string \<Rightarrow> pyval" where
  "quarantine_metadata digest retain received payload message headers reason_code = PDict
    ([(''bundle_sha256'', PStr digest),
      (''headers'', PDict (map (\<lambda>(k, v). (k, PStr v)) (sort_key fst (safe_headers headers)))),
      (''message'', PStr (take 512 message)), (''payload_retained'', PBool retain),
      (''reason_code'', PStr reason_code), (''received_at'', PStr received),
      (''request_size_bytes'', PInt (int (length payload))), (''schema_version'', PStr ''1.0.0'')] @
     (if retain then [(''payload_path'', PStr (''payloads/'' @ digest @ ''.zip''))] else []))"

text \<open>
  \<open>record\<close>: keep the payload once if asked to, then write the metadata atomically. \<open>pretty\<close> is the JSON
  text layer on sorted values, \<open>timestamp\<close> and \<open>received\<close> the two formats of the time.
\<close>

definition quarantine_record ::
  "(string \<Rightarrow> string) \<Rightarrow> (pyval \<Rightarrow> string) \<Rightarrow> bool \<Rightarrow> string \<Rightarrow> write_fault \<Rightarrow> string \<Rightarrow> string \<Rightarrow> string \<Rightarrow> string \<Rightarrow>
   (string \<times> string) list \<Rightarrow> string \<Rightarrow> files \<Rightarrow> files \<times> string result" where
  "quarantine_record sha256 pretty retain random fault payload reason_code message received headers timestamp fs =
    (let digest = sha256 payload; qid = quarantine_id timestamp digest;
         stored = ''payloads/'' @ digest @ ''.zip'';
         fs1 = (if retain \<and> \<not> file_exists stored fs then fs_run [WriteFile stored payload] fs else fs);
         text = pretty (sort_json (quarantine_metadata digest retain received payload message headers reason_code)) @ [CHR 0x0A]
     in case put_file (''.'' @ qid @ ''.json.'' @ random @ ''.tmp'') fault (qid @ ''.json'') text True fs1 of
          (fs2, Inl e) \<Rightarrow> (fs2, Inl e) | (fs2, Inr _) \<Rightarrow> (fs2, Inr qid))"

text \<open>Only the listed headers are kept, each cut to 512 characters.\<close>

lemma safe_headers_fold:
  "fold (\<lambda>(k, v). AList.update (casefold k) (take 512 v)) hs d = d' \<Longrightarrow>
   \<forall>(k, v) \<in> set hs. casefold k \<in> set SAFE_HEADERS \<Longrightarrow>
   \<forall>(k, v) \<in> set d. k \<in> set SAFE_HEADERS \<and> length v \<le> 512 \<Longrightarrow>
   \<forall>(k, v) \<in> set d'. k \<in> set SAFE_HEADERS \<and> length v \<le> 512"
proof (induction hs arbitrary: d)
  case (Cons h hs)
  obtain k v where h: "h = (k, v)" by force
  have "set (AList.update (casefold k) (take 512 v) d) \<subseteq> insert (casefold k, take 512 v) (set d)"
    by (induction d) auto
  then have "\<forall>(k', v') \<in> set (AList.update (casefold k) (take 512 v) d). k' \<in> set SAFE_HEADERS \<and> length v' \<le> 512"
    using Cons.prems(2,3) by (fastforce simp: h)
  then show ?case using Cons.prems by (intro Cons.IH [of "AList.update (casefold k) (take 512 v) d"]) (auto simp: h)
qed auto

lemma safe_headers_ok: "(k, v) \<in> set (safe_headers headers) \<Longrightarrow> k \<in> set SAFE_HEADERS \<and> length v \<le> 512"
  using safe_headers_fold [OF refl, of "filter (\<lambda>(k, v). casefold k \<in> set SAFE_HEADERS) headers" "[]"]
  by (auto simp: safe_headers_def)

end
