(* ===== verification/Builder.thy ===== *)
theory Builder
  imports Storage
begin

text \<open>
  \<open>bundle/builder.py\<close>: sample files and the evidence they reference become one ZIP bundle. What the
  builder reads is a view of the file system; what it writes is the directory of the output. The
  ZIP writer is a function from named contents to bytes.
\<close>

section \<open>pathlib\<close>

text \<open>A \<open>PosixPath\<close>: whether it starts at the root, and its parts.\<close>

record path =
  p_abs :: bool
  p_parts :: "string list"

definition parse_path :: "string \<Rightarrow> path" where
  "parse_path s = \<lparr>p_abs = startswith s ''/'', p_parts = posix_parts s\<rparr>"

definition path_join :: "path \<Rightarrow> path \<Rightarrow> path" where
  "path_join a b = (if p_abs b then b else \<lparr>p_abs = p_abs a, p_parts = p_parts a @ p_parts b\<rparr>)"

definition path_name :: "path \<Rightarrow> string" where
  "path_name p = (if p_parts p = [] then [] else last (p_parts p))"

definition path_suffix :: "path \<Rightarrow> string" where
  "path_suffix p = (let name = path_name p in
    if CHR ''.'' \<notin> set name then []
    else let ext = after_last (CHR ''.'') name in
      if ext = [] \<or> length name = Suc (length ext) then [] else CHR ''.'' # ext)"

text \<open>
  What the process sees of the file system: the working directory and the homes of users, where
  the resolution of symbolic links leads, the regular files with their bytes and the directories
  with the names of their entries. Files and directories are given by resolved absolute paths.
\<close>

record fs_view =
  fv_cwd :: "string list"
  fv_home :: "string \<Rightarrow> string list option"
  fv_real :: "string list \<Rightarrow> string list"
  fv_files :: "(string list \<times> string) list"
  fv_dirs :: "(string list \<times> string list) list"

definition expanduser :: "fs_view \<Rightarrow> path \<Rightarrow> path result" where
  "expanduser fv p = (case p_parts p of
     [] \<Rightarrow> Inr p
   | part # rest \<Rightarrow> if p_abs p \<or> \<not> startswith part ''~'' then Inr p
       else (case fv_home fv (drop 1 part) of
           None \<Rightarrow> Inl (RuntimeError ''Could not determine home directory.'')
         | Some home \<Rightarrow> Inr \<lparr>p_abs = True, p_parts = home @ rest\<rparr>))"

definition resolve :: "fs_view \<Rightarrow> path \<Rightarrow> string list" where
  "resolve fv p = fv_real fv (if p_abs p then p_parts p else fv_cwd fv @ p_parts p)"

definition path_is_file :: "fs_view \<Rightarrow> path \<Rightarrow> bool" where
  "path_is_file fv p \<longleftrightarrow> map_of (fv_files fv) (resolve fv p) \<noteq> None"

definition path_exists :: "fs_view \<Rightarrow> path \<Rightarrow> bool" where
  "path_exists fv p \<longleftrightarrow> path_is_file fv p \<or> map_of (fv_dirs fv) (resolve fv p) \<noteq> None"

text \<open>\<open>sorted(path.glob("*.json"))\<close>.\<close>

definition glob_json :: "fs_view \<Rightarrow> path \<Rightarrow> path list" where
  "glob_json fv p = map (\<lambda>name. p\<lparr>p_parts := p_parts p @ [name]\<rparr>)
    (sort (filter (\<lambda>name. startswith (rev name) (rev ''.json'')) (case map_of (fv_dirs fv) (resolve fv p) of
      None \<Rightarrow> [] | Some names \<Rightarrow> names)))"

section \<open>The environment of a build\<close>

record build_env =
  be_rt :: runtime
  be_zip :: "(string \<times> string) list \<Rightarrow> string"
  be_bracket_host :: "string \<Rightarrow> bool"
  be_version :: string
  be_view :: fs_view

definition MAX_SAMPLE_BYTES :: int where "MAX_SAMPLE_BYTES = 4 * 1024 * 1024"
definition MAX_RAW_EVIDENCE_BYTES :: int where "MAX_RAW_EVIDENCE_BYTES = 16 * 1024 * 1024"
definition MAX_SAMPLE_COUNT :: nat where "MAX_SAMPLE_COUNT = 1000"

definition build_error :: "string \<Rightarrow> 'a result" where
  "build_error message = Inl (BundleBuildError message)"

section \<open>Inputs\<close>

text \<open>\<open>paths[candidate.resolve()] = None\<close>: the keys of a dictionary in insertion order.\<close>

definition add_input :: "fs_view \<Rightarrow> path \<Rightarrow> string list list \<Rightarrow> string list list" where
  "add_input fv candidate paths =
    (if path_is_file fv candidate \<and> casefold (path_suffix candidate) = ''.json'' \<and> resolve fv candidate \<notin> set paths
     then paths @ [resolve fv candidate] else paths)"

definition input_step :: "fs_view \<Rightarrow> string list list \<Rightarrow> path \<Rightarrow> string list list result" where
  "input_step fv paths raw = rbind (expanduser fv raw) (\<lambda>p.
    if \<not> path_exists fv p then Inl (FileNotFoundError ''bundle input does not exist'')
    else Inr (fold (add_input fv) (if path_is_file fv p then [p] else glob_json fv p) paths))"

definition sample_inputs :: "fs_view \<Rightarrow> path list \<Rightarrow> string list list result" where
  "sample_inputs fv inputs = rbind (rfold (input_step fv) [] inputs) (\<lambda>paths.
    if paths = [] then build_error ''no JSON sample files were found''
    else if MAX_SAMPLE_COUNT < length paths then build_error ''bundle sample count exceeds 1000''
    else Inr paths)"

definition load_json_object ::
  "runtime \<Rightarrow> fs_view \<Rightarrow> string list \<Rightarrow> int \<Rightarrow> string \<Rightarrow> (string \<times> pyval) list result" where
  "load_json_object rt fv p maximum label = (case map_of (fv_files fv) p of
     None \<Rightarrow> Inl (FileNotFoundError label)
   | Some bytes \<Rightarrow> if maximum < int (length bytes) then build_error (label @ '' exceeds '' @ int_str maximum @ '' bytes'')
       else (case rbind (rt_decode rt bytes) (rt_loads rt) of
           Inl e \<Rightarrow> if is_os_error e \<or> is_decode_error e
             then build_error (''cannot read '' @ label @ '' as UTF-8 JSON'') else Inl e
         | Inr (PDict d) \<Rightarrow> Inr d
         | Inr _ \<Rightarrow> build_error (label @ '' must contain a JSON object'')))"

text \<open>\<open>==\<close> on decoded JSON: numbers by value, dictionaries by their items.\<close>

fun py_number :: "pyval \<Rightarrow> pyfloat option" where
  "py_number (PBool b) = Some (Fin (if b then 1 else 0))"
| "py_number (PInt i) = Some (Fin (of_int i))"
| "py_number (PFloat f) = (if f = NaN then None else Some f)"
| "py_number _ = None"

fun same_number :: "pyval \<Rightarrow> pyval \<Rightarrow> bool" where
  "same_number v w = (py_number v \<noteq> None \<and> py_number v = py_number w)"

fun py_equal :: "pyval \<Rightarrow> pyval \<Rightarrow> bool" where
  "py_equal (PList xs) w = (case w of PList ys \<Rightarrow> list_all2 py_equal xs ys | _ \<Rightarrow> False)"
| "py_equal (PDict d) w = (case w of
     PDict e \<Rightarrow> set (map fst d) = set (map fst e) \<and>
       list_all (\<lambda>(k, x). case map_of e k of None \<Rightarrow> False | Some y \<Rightarrow> py_equal x y) d
   | _ \<Rightarrow> False)"
| "py_equal PNone w = (w = PNone)"
| "py_equal (PStr s) w = (w = PStr s)"
| "py_equal v w = same_number v w"

section \<open>Evidence paths\<close>

definition is_within :: "string list \<Rightarrow> string list \<Rightarrow> bool" where
  "is_within p base \<longleftrightarrow> take (length base) p = base"

definition parent_dir :: "string list \<Rightarrow> path" where
  "parent_dir p = \<lparr>p_abs = True, p_parts = butlast p\<rparr>"

definition named :: "string \<Rightarrow> path" where
  "named name = \<lparr>p_abs = False, p_parts = (if name = [] then [] else [name])\<rparr>"

text \<open>The roots evidence may lie under, and the places where it is looked for, in order.\<close>

definition allowed_roots :: "fs_view \<Rightarrow> string list \<Rightarrow> path option \<Rightarrow> string list list result" where
  "allowed_roots fv sample_path raw_root =
    (let base = [resolve fv \<lparr>p_abs = True, p_parts = fv_cwd fv\<rparr>, resolve fv (parent_dir sample_path)] in
     case raw_root of
       None \<Rightarrow> Inr base
     | Some r \<Rightarrow> rbind (expanduser fv r) (\<lambda>top. Inr (base @ [resolve fv top])))"

definition raw_candidates :: "fs_view \<Rightarrow> path \<Rightarrow> string list \<Rightarrow> path option \<Rightarrow> path list result" where
  "raw_candidates fv requested sample_path raw_root =
    (let local_candidates = (if p_abs requested then [requested]
       else [path_join \<lparr>p_abs = True, p_parts = fv_cwd fv\<rparr> requested,
         path_join (parent_dir sample_path) requested,
         path_join (path_join (parent_dir sample_path) (parse_path ''raw'')) (named (path_name requested))])
     in case raw_root of
       None \<Rightarrow> Inr local_candidates
     | Some r \<Rightarrow> rbind (expanduser fv r) (\<lambda>top.
         let resolved = \<lparr>p_abs = True, p_parts = resolve fv top\<rparr> in
         Inr ([path_join resolved requested, path_join resolved (named (path_name requested))] @ local_candidates)))"

definition resolve_raw_path ::
  "fs_view \<Rightarrow> string \<Rightarrow> string list \<Rightarrow> path option \<Rightarrow> string list option result" where
  "resolve_raw_path fv raw_path sample_path raw_root =
    rbind (expanduser fv (parse_path raw_path)) (\<lambda>requested.
    rbind (allowed_roots fv sample_path raw_root) (\<lambda>roots.
    rbind (raw_candidates fv requested sample_path raw_root) (\<lambda>candidates.
    Inr (find (\<lambda>p. list_ex (is_within p) roots \<and> map_of (fv_files fv) p \<noteq> None)
      (map (resolve fv) candidates)))))"

text \<open>\<open>re.sub("[^a-zA-Z0-9._-]+", "-", name).strip("-.")\<close>, at most 96 characters, or the fallback.\<close>

definition safe_name_char :: "char \<Rightarrow> bool" where
  "safe_name_char c \<longleftrightarrow> isalnum [c] \<or> c \<in> set ''._-''"

fun replace_runs :: "bool \<Rightarrow> string \<Rightarrow> string" where
  "replace_runs in_run [] = []"
| "replace_runs in_run (c # s) =
    (if safe_name_char c then c # replace_runs False s
     else if in_run then replace_runs True s else CHR ''-'' # replace_runs True s)"

definition strip_chars :: "string \<Rightarrow> string \<Rightarrow> string" where
  "strip_chars cs s = rev (dropWhile (\<lambda>c. c \<in> set cs) (rev (dropWhile (\<lambda>c. c \<in> set cs) s)))"

definition safe_basename :: "string \<Rightarrow> string \<Rightarrow> string" where
  "safe_basename name fallback =
    (let cleaned = strip_chars ''-.'' (replace_runs False (path_name (parse_path name))) in
     take 96 (if cleaned = [] then fallback else cleaned))"

text \<open>\<open>f"{n:04d}"\<close>.\<close>

definition zero_pad :: "nat \<Rightarrow> nat \<Rightarrow> string" where
  "zero_pad width n = (let s = int_str (int n) in replicate (width - length s) (CHR ''0'') @ s)"

section \<open>Loading the samples\<close>

record loaded =
  ld_path :: "string list"
  ld_sample :: Sample
  ld_warnings :: "string list"

record load_state =
  ls_loaded :: "loaded list"
  ls_warnings :: "string list"

definition load_step :: "build_env \<Rightarrow> bool \<Rightarrow> load_state \<Rightarrow> string list \<Rightarrow> load_state result" where
  "load_step env allow_invalid st sample_path =
    (let rt = be_rt env in
     rbind (load_json_object rt (be_view env) sample_path MAX_SAMPLE_BYTES ''sample'') (\<lambda>data.
     rbind (case sample_from_dict (rt_fromiso rt) data of
         Inl e \<Rightarrow> if is_key_error e \<or> is_type_error e \<or> is_value_error e
           then build_error ''invalid sample structure'' else Inl e
       | Inr s \<Rightarrow> Inr s) (\<lambda>sample.
     if \<not> py_equal (PDict data) (sample_dict (rt_isofmt rt) sample)
     then build_error ''sample contains missing or unsupported fields''
     else let validation = validate_sample sample; sid = smp_sample_id sample in
       if \<not> val_valid validation \<and> \<not> allow_invalid
       then build_error (''sample '' @ sid @ '' is invalid: '' @ join ''; '' (val_errors validation))
       else if sid \<in> set (map (\<lambda>l. smp_sample_id (ld_sample l)) (ls_loaded st))
       then build_error (''duplicate sample ID: '' @ sid)
       else Inr \<lparr>ls_loaded = ls_loaded st @ [\<lparr>ld_path = sample_path, ld_sample = sample, ld_warnings = val_warnings validation\<rparr>],
         ls_warnings = ls_warnings st @ (if val_valid validation then [] else [''invalid_sample_included:'' @ sid])\<rparr>)))"

section \<open>Payloads and entries\<close>

definition built_file :: "runtime \<Rightarrow> string \<Rightarrow> string \<Rightarrow> string \<Rightarrow> int \<Rightarrow> (string \<times> pyval) list" where
  "built_file rt file_name content media_type redaction_count =
    [(''media_type'', PStr media_type), (''path'', PStr file_name), (''redaction_count'', PInt redaction_count),
     (''sha256'', PStr (rt_sha256 rt content)), (''size_bytes'', PInt (int (length content)))]"

definition sample_media :: string where "sample_media = ''application/vnd.cloudeyes.sample+json''"
definition raw_media :: string where "raw_media = ''application/vnd.cloudeyes.raw-evidence+json''"

record build_state =
  bs_payloads :: "(string \<times> string) list"
  bs_files :: "(string \<times> pyval) list list"
  bs_samples :: "pyval list"
  bs_warnings :: "string list"

definition total_bytes :: "build_state \<Rightarrow> int" where
  "total_bytes st = sum_list (map (\<lambda>(n, c). int (length c)) (bs_payloads st))"

definition add_payload :: "runtime \<Rightarrow> string \<Rightarrow> string \<Rightarrow> string \<Rightarrow> int \<Rightarrow> build_state \<Rightarrow> build_state" where
  "add_payload rt file_name content media_type redaction_count st = st
    \<lparr>bs_payloads := bs_payloads st @ [(file_name, content)],
     bs_files := bs_files st @ [built_file rt file_name content media_type redaction_count]\<rparr>"

text \<open>\<open>dict.fromkeys\<close> over the evidence a sample references.\<close>

definition raw_references :: "Sample \<Rightarrow> string list" where
  "raw_references s = dedup (List.map_filter meas_raw_output_path (smp_measurements s))"

definition raw_payload_name :: "nat \<Rightarrow> nat \<Rightarrow> string list \<Rightarrow> string" where
  "raw_payload_name index raw_index resolved = ''raw/'' @ zero_pad 4 index @ ''/'' @ zero_pad 2 raw_index @ ''-'' @
    safe_basename (last ([] # resolved)) (''evidence-'' @ zero_pad 2 raw_index @ ''.json'')"

text \<open>One round of the loop over the references; the names collected are those of the payloads.\<close>

definition evidence_step ::
  "build_env \<Rightarrow> path option \<Rightarrow> bool \<Rightarrow> nat \<Rightarrow> loaded \<Rightarrow> build_state \<times> string list \<Rightarrow> nat \<times> string \<Rightarrow>
   (build_state \<times> string list) result" where
  "evidence_step env raw_root allow_missing index l acc ref = (case acc of (st, names) \<Rightarrow> case ref of (raw_index, reference) \<Rightarrow>
    let rt = be_rt env; fv = be_view env; sid = smp_sample_id (ld_sample l) in
    rbind (resolve_raw_path fv reference (ld_path l) raw_root) (\<lambda>found. case found of
      None \<Rightarrow> if allow_missing
        then Inr (st\<lparr>bs_warnings := bs_warnings st @
          [''missing_raw_evidence:'' @ sid @ '':'' @ path_name (parse_path reference)]\<rparr>, names)
        else build_error (''referenced raw evidence was not found for '' @ sid @ '': '' @ reference)
    | Some resolved \<Rightarrow>
        rbind (load_json_object rt fv resolved MAX_RAW_EVIDENCE_BYTES ''raw evidence'') (\<lambda>d.
        let redacted = redact_json (be_bracket_host env) (PDict d); count = snd redacted;
            name = raw_payload_name index raw_index resolved in
        rbind (canonical_json_bytes rt (fst redacted)) (\<lambda>content.
        let st1 = add_payload rt name content raw_media count st in
        Inr (if count = 0 then st1 else st1\<lparr>bs_warnings := bs_warnings st1 @
          [''raw_evidence_redacted:'' @ sid @ '':'' @ int_str (int raw_index) @ '':'' @ int_str count]\<rparr>, names @ [name])))))"

definition sample_name :: "nat \<Rightarrow> string" where
  "sample_name index = ''samples/'' @ zero_pad 4 index @ ''.json''"

definition sample_entry :: "Sample \<Rightarrow> string \<Rightarrow> string list \<Rightarrow> string list \<Rightarrow> pyval" where
  "sample_entry s payload raw_names validation_warnings = PDict
    [(''profile'', PStr (prot_profile (smp_protocol s))), (''raw_evidence_paths'', PList (map PStr raw_names)),
     (''sample_id'', PStr (smp_sample_id s)), (''sample_path'', PStr payload),
     (''validation_warnings'', PList (map PStr validation_warnings))]"

definition sample_payload_step ::
  "build_env \<Rightarrow> path option \<Rightarrow> bool \<Rightarrow> build_state \<Rightarrow> nat \<times> loaded \<Rightarrow> build_state result" where
  "sample_payload_step env raw_root allow_missing st entry = (case entry of (index, l) \<Rightarrow>
    let rt = be_rt env; s = ld_sample l; name = sample_name index in
    rbind (canonical_json_bytes rt (sample_dict (rt_isofmt rt) s)) (\<lambda>content.
    rbind (rfold (evidence_step env raw_root allow_missing index l) (add_payload rt name content sample_media 0 st, [])
        (enumerate 1 (raw_references s))) (\<lambda>(st1, raw_names).
    Inr (st1\<lparr>bs_samples := bs_samples st1 @ [sample_entry s name raw_names (ld_warnings l)]\<rparr>))))"

section \<open>build_bundle\<close>

definition load_samples :: "build_env \<Rightarrow> path list \<Rightarrow> bool \<Rightarrow> load_state result" where
  "load_samples env inputs allow_invalid =
    rbind (sample_inputs (be_view env) inputs) (\<lambda>paths.
    rfold (load_step env allow_invalid) \<lparr>ls_loaded = [], ls_warnings = []\<rparr> paths)"

definition build_payloads ::
  "build_env \<Rightarrow> path list \<Rightarrow> path option \<Rightarrow> bool \<Rightarrow> bool \<Rightarrow> build_state result" where
  "build_payloads env inputs raw_root allow_invalid allow_missing =
    rbind (load_samples env inputs allow_invalid) (\<lambda>ls.
    rfold (sample_payload_step env raw_root allow_missing)
      \<lparr>bs_payloads = [], bs_files = [], bs_samples = [], bs_warnings = ls_warnings ls\<rparr>
      (enumerate 1 (sort_key (\<lambda>l. smp_sample_id (ld_sample l)) (ls_loaded ls))))"

definition build_manifest ::
  "build_env \<Rightarrow> bool \<Rightarrow> bool \<Rightarrow> pydatetime \<Rightarrow> build_state \<Rightarrow> (string \<times> pyval) list result" where
  "build_manifest env allow_invalid allow_missing created st =
    (if MAX_BUNDLE_PAYLOAD_BYTES < total_bytes st
     then build_error (''bundle payload exceeds '' @ int_str MAX_BUNDLE_PAYLOAD_BYTES @ '' bytes'')
     else if \<not> aware created then build_error ''created_at must contain timezone information''
     else rbind (bundle_id (be_rt env) (bs_files st)) (\<lambda>bid. Inr
      [(''agent_version'', PStr (be_version env)), (''bundle_id'', PStr bid),
       (''created_at'', PStr (rt_isofmt (be_rt env) created)),
       (''files'', PList (map PDict (sort_key file_path (bs_files st)))),
       (''policy'', PDict [(''allow_invalid_samples'', PBool allow_invalid), (''allow_missing_raw'', PBool allow_missing),
          (''raw_evidence_redaction'', PStr ''credential-keys-and-url-secrets-v1'')]),
       (''sample_count'', PInt (int (length (bs_samples st)))), (''samples'', PList (bs_samples st)),
       (''schema_version'', PStr BUNDLE_SCHEMA_VERSION), (''warnings'', PList (map PStr (dedup (bs_warnings st))))]))"

text \<open>\<open>_zip_info\<close> with the content \<open>writestr\<close> gives it.\<close>

definition zip_info :: "string \<times> string \<Rightarrow> zip_entry" where
  "zip_info e = (case e of (name, content) \<Rightarrow> \<lparr>ze_filename = name, ze_flag_bits = 0, ze_external_attr = 33188 * 65536,
     ze_file_size = int (length content), ze_content = Inr content\<rparr>)"

definition archive_contents :: "(string \<times> string) list \<Rightarrow> string \<Rightarrow> (string \<times> string) list" where
  "archive_contents payloads manifest = (''manifest.json'', manifest) # sort_key fst payloads"

text \<open>The temporary archive lies next to the output and is removed when anything raises.\<close>

definition write_bundle ::
  "build_env \<Rightarrow> string \<Rightarrow> write_fault \<Rightarrow> string \<Rightarrow> string \<Rightarrow> (string \<times> string) list \<Rightarrow> string \<Rightarrow> files \<Rightarrow> files \<times> unit result" where
  "write_bundle env random fault dir name payloads manifest fs =
    (case put_file (dir @ ''/.'' @ name @ ''.'' @ random @ ''.tmp'') fault (dir @ ''/'' @ name)
        (be_zip env (archive_contents payloads manifest)) True fs of
       (fs', Inl e) \<Rightarrow> (fs', Inl e) | (fs', Inr d) \<Rightarrow> (fs', Inr ()))"

definition build_bundle ::
  "build_env \<Rightarrow> string \<Rightarrow> write_fault \<Rightarrow> path list \<Rightarrow> string \<Rightarrow> string \<Rightarrow> path option \<Rightarrow> bool \<Rightarrow> bool \<Rightarrow> pydatetime \<Rightarrow>
   files \<Rightarrow> files \<times> (string \<times> pyval) list result" where
  "build_bundle env random fault inputs dir name raw_root allow_invalid allow_missing created fs =
    (case rbind (build_payloads env inputs raw_root allow_invalid allow_missing) (\<lambda>st.
        rbind (build_manifest env allow_invalid allow_missing created st) (\<lambda>manifest.
        rbind (canonical_json_bytes (be_rt env) (PDict manifest)) (\<lambda>bytes. Inr (st, manifest, bytes)))) of
       Inl e \<Rightarrow> (fs, Inl e)
     | Inr (st, manifest, bytes) \<Rightarrow>
        (case write_bundle env random fault dir name (bs_payloads st) bytes fs of
           (fs', Inl e) \<Rightarrow> (fs', Inl e) | (fs', Inr u) \<Rightarrow> (fs', Inr manifest)))"

lemma insort_key_map: "map f (insort_key (\<lambda>x. k (f x)) x xs) = insort_key k (f x) (map f xs)"
  by (induction xs) simp_all

lemma map_sort_key_comp: "map f (sort_key (\<lambda>x. k (f x)) xs) = sort_key k (map f xs)"
  by (induction xs) (simp_all add: insort_key_map)

section \<open>Names of payloads\<close>

lemma digits_val_zeros: "digits_val (replicate n (CHR ''0'') @ s) = digits_val s"
  by (induction n) (simp_all add: digits_val_def code_def)

lemma digits_val_zero_pad [simp]: "digits_val (zero_pad w n) = int n"
  by (simp add: zero_pad_def Let_def digits_val_zeros int_str_def)

lemma zero_pad_digits: "c \<in> set (zero_pad w n) \<Longrightarrow> is_digit c"
  by (auto simp: zero_pad_def Let_def int_str_def is_digit_def code_def dest: digits_str_digits [rotated])

lemma zero_pad_prefix:
  assumes "zero_pad w m @ c # s = zero_pad w n @ c # t" and "\<not> is_digit c"
  shows "m = n"
proof -
  have cut: "takeWhile is_digit (zero_pad w k @ c # u) = zero_pad w k" for k u
    using zero_pad_digits assms(2) by (simp add: takeWhile_append)
  from assms(1) have "zero_pad w m = zero_pad w n" using cut by metis
  then show ?thesis by (metis digits_val_zero_pad of_nat_eq_iff)
qed

lemma not_digits: "\<not> is_digit (CHR ''/'')" "\<not> is_digit (CHR ''.'')" "\<not> is_digit (CHR ''-'')"
  by (simp_all add: is_digit_def code_def)

lemma sample_name_inj: "sample_name m = sample_name n \<Longrightarrow> m = n"
  by (rule zero_pad_prefix [OF _ not_digits(2), of 4 m "''json''" n "''json''"]) (simp add: sample_name_def)

lemma raw_payload_name_inj: "raw_payload_name i j r = raw_payload_name i' j' r' \<Longrightarrow> i = i' \<and> j = j'"
proof -
  assume eq: "raw_payload_name i j r = raw_payload_name i' j' r'"
  obtain u where u: "\<And>i j r. raw_payload_name i j r = ''raw/'' @ zero_pad 4 i @ CHR ''/'' # zero_pad 2 j @ CHR ''-'' # u j r"
    by (rule that [of "\<lambda>j r. safe_basename (last ([] # r)) (''evidence-'' @ zero_pad 2 j @ ''.json'')"])
      (simp add: raw_payload_name_def)
  from eq have tail: "zero_pad 4 i @ CHR ''/'' # zero_pad 2 j @ CHR ''-'' # u j r =
      zero_pad 4 i' @ CHR ''/'' # zero_pad 2 j' @ CHR ''-'' # u j' r'"
    unfolding u by simp
  have i: "i = i'" by (rule zero_pad_prefix [OF tail not_digits(1)])
  with tail have "zero_pad 2 j @ CHR ''-'' # u j r = zero_pad 2 j' @ CHR ''-'' # u j' r'" by simp
  with i show ?thesis using zero_pad_prefix [OF _ not_digits(3)] by blast
qed

lemma sample_name_not_raw: "sample_name i \<noteq> raw_payload_name i' j r"
  by (simp add: sample_name_def raw_payload_name_def)

lemma name_prefixes [simp]:
  "startswith (sample_name i) ''samples/''" "\<not> startswith (sample_name i) ''raw/''"
  "startswith (raw_payload_name i j r) ''raw/''" "\<not> startswith (raw_payload_name i j r) ''samples/''"
  by (simp_all add: startswith_def sample_name_def raw_payload_name_def)

lemma replace_runs_chars: "c \<in> set (replace_runs b s) \<Longrightarrow> safe_name_char c"
proof (induction b s rule: replace_runs.induct)
  case (2 b d s)
  moreover have "safe_name_char (CHR ''-'')" by code_simp
  ultimately show ?case by (auto split: if_splits)
qed simp

lemma strip_chars_subset: "set (strip_chars cs s) \<subseteq> set s"
  by (auto simp: strip_chars_def dest!: set_dropWhileD)

lemma safe_basename_chars:
  assumes "list_all safe_name_char fallback"
  shows "list_all safe_name_char (safe_basename name fallback)"
proof -
  have "list_all safe_name_char (strip_chars ''-.'' (replace_runs False (path_name (parse_path name))))"
    using strip_chars_subset replace_runs_chars by (fastforce simp: list_all_iff)
  with assms show ?thesis
    by (auto simp: safe_basename_def Let_def list_all_iff dest!: in_set_takeD)
qed

lemma digit_safe: "is_digit c \<Longrightarrow> safe_name_char c"
  by (auto simp: safe_name_char_def isalnum_def)

lemma zero_pad_safe: "list_all safe_name_char (zero_pad w n)"
  using zero_pad_digits digit_safe by (auto simp: list_all_iff)

lemma safe_char_facts: "safe_name_char c \<Longrightarrow> c \<noteq> CHR ''/'' \<and> c \<noteq> CHR 0x5C"
proof -
  have "\<not> safe_name_char (CHR ''/'')" "\<not> safe_name_char (CHR 0x5C)" by code_simp+
  then show "safe_name_char c \<Longrightarrow> c \<noteq> CHR ''/'' \<and> c \<noteq> CHR 0x5C" by metis
qed

lemma split_slash_plain: "CHR ''/'' \<notin> set p \<Longrightarrow> split_slash p = [p]"
  by (induction p) auto

lemma split_slash_cons: "CHR ''/'' \<notin> set p \<Longrightarrow> split_slash (p @ CHR ''/'' # s) = p # split_slash s"
  by (induction p) auto

definition plain_part :: "string \<Rightarrow> bool" where
  "plain_part p \<longleftrightarrow> p \<noteq> [] \<and> p \<noteq> ''.'' \<and> p \<noteq> ''..'' \<and> list_all safe_name_char p"

lemma plain_part_slash: "plain_part p \<Longrightarrow> CHR ''/'' \<notin> set p \<and> CHR 0x5C \<notin> set p"
  using safe_char_facts by (auto simp: plain_part_def list_all_iff)

lemma split_slash_join:
  "parts \<noteq> [] \<Longrightarrow> list_all plain_part parts \<Longrightarrow> split_slash (join ''/'' parts) = parts"
proof (induction parts)
  case (Cons p ps)
  then show ?case
    using plain_part_slash [of p] by (cases ps) (auto simp: split_slash_plain split_slash_cons)
qed simp

lemma join_no_backslash: "list_all plain_part parts \<Longrightarrow> CHR 0x5C \<notin> set (join ''/'' parts)"
proof (induction parts)
  case (Cons p ps)
  then show ?case using plain_part_slash [of p] by (cases ps) auto
qed simp

lemma safe_archive_join:
  assumes "parts \<noteq> []" and "list_all plain_part parts"
  shows "safe_archive_name (join ''/'' parts)"
proof -
  have parts: "posix_parts (join ''/'' parts) = parts"
    using assms by (auto simp: posix_parts_def split_slash_join plain_part_def list_all_iff filter_id_conv)
  obtain p ps where "parts = p # ps" using assms(1) by (cases parts) auto
  with assms obtain c q where "p = c # q" "safe_name_char c" by (cases p) (auto simp: plain_part_def)
  with \<open>parts = p # ps\<close> have "\<not> startswith (join ''/'' parts) ''/''" "join ''/'' parts \<noteq> []"
    using safe_char_facts [of c] by (cases ps; auto simp: startswith_def)+
  then show ?thesis using parts join_no_backslash [OF assms(2)] assms
    by (auto simp: safe_archive_name_def as_posix_def plain_part_def list_all_iff)
qed

text \<open>The names the builder gives to entries: plain parts joined by slashes.\<close>

definition payload_name :: "string \<Rightarrow> bool" where
  "payload_name n \<longleftrightarrow> (\<exists>parts. parts \<noteq> [] \<and> list_all plain_part parts \<and> n = join ''/'' parts)"

lemma join_last_char: "parts \<noteq> [] \<Longrightarrow> list_all plain_part parts \<Longrightarrow> join ''/'' parts \<noteq> [] \<and> last (join ''/'' parts) \<noteq> CHR ''/''"
proof (induction parts)
  case (Cons p ps)
  then have "p \<noteq> []" "CHR ''/'' \<notin> set p" using plain_part_slash [of p] by (auto simp: plain_part_def)
  then have "last p \<noteq> CHR ''/''" by (metis last_in_set)
  with Cons \<open>p \<noteq> []\<close> show ?case by (cases ps) auto
qed simp

lemma payload_name_facts: "payload_name n \<Longrightarrow> safe_archive_name n \<and> n \<noteq> [] \<and> last n \<noteq> CHR ''/''"
  using safe_archive_join join_last_char by (auto simp: payload_name_def)

lemma zero_pad_Cons: "\<exists>c s. zero_pad w n = c # s \<and> is_digit c"
proof -
  have "zero_pad w n \<noteq> []" by (simp add: zero_pad_def Let_def int_str_def)
  then show ?thesis using zero_pad_digits [of _ w n] by (cases "zero_pad w n") auto
qed

lemma plain_zero_pad: "list_all safe_name_char s \<Longrightarrow> plain_part (zero_pad w n @ s)"
  using zero_pad_Cons [of w n] zero_pad_safe [of w n] not_digits(2) by (auto simp: plain_part_def)

lemma sample_name_ok: "payload_name (sample_name i)"
proof -
  have "plain_part ''samples''" "list_all safe_name_char ''.json''" by code_simp+
  then have "list_all plain_part [''samples'', zero_pad 4 i @ ''.json'']" using plain_zero_pad by simp
  then show ?thesis unfolding payload_name_def
    by (intro exI [of _ "[''samples'', zero_pad 4 i @ ''.json'']"]) (simp add: sample_name_def)
qed

lemma raw_payload_name_ok: "payload_name (raw_payload_name i j r)"
proof -
  let ?base = "safe_basename (last ([] # r)) (''evidence-'' @ zero_pad 2 j @ ''.json'')"
  have lits: "list_all safe_name_char ''evidence-''" "list_all safe_name_char ''.json''" "safe_name_char (CHR ''-'')"
    "plain_part ''raw''" by code_simp+
  then have "list_all safe_name_char ?base" using zero_pad_safe by (intro safe_basename_chars) simp
  with lits have "list_all plain_part [''raw'', zero_pad 4 i, zero_pad 2 j @ CHR ''-'' # ?base]"
    using plain_zero_pad [of "[]" 4 i] plain_zero_pad [of "CHR ''-'' # ?base" 2 j] by simp
  then show ?thesis unfolding payload_name_def
    by (intro exI [of _ "[''raw'', zero_pad 4 i, zero_pad 2 j @ CHR ''-'' # ?base]"]) (simp add: raw_payload_name_def)
qed

section \<open>What a build collects\<close>

text \<open>The entry of the manifest that belongs to a payload.\<close>

definition describes :: "runtime \<Rightarrow> string \<times> string \<Rightarrow> (string \<times> pyval) list \<Rightarrow> bool" where
  "describes rt p f \<longleftrightarrow> (\<exists>media count. 0 \<le> count \<and> f = built_file rt (fst p) (snd p) media count)"

text \<open>The canonical bytes of a JSON value without NaN and infinities.\<close>

definition json_bytes :: "runtime \<Rightarrow> pyval \<Rightarrow> string" where
  "json_bytes rt v = rt_compact rt (sort_json v) @ [CHR 0x0A]"

lemma canonical_json_bytes_Inr: "canonical_json_bytes rt v = Inr c \<longleftrightarrow> json_finite v \<and> c = json_bytes rt v"
  by (auto simp: canonical_json_bytes_def dumps_def json_bytes_def)

text \<open>A payload of evidence: the canonical bytes of an object without secrets.\<close>

definition evidence_payload :: "build_env \<Rightarrow> string \<times> string \<Rightarrow> bool" where
  "evidence_payload env p \<longleftrightarrow> (\<exists>d. json_finite (PDict d) \<and> no_secrets (be_bracket_host env) (PDict d) \<and>
    snd p = json_bytes (be_rt env) (PDict d))"

definition raw_from :: "nat \<Rightarrow> nat \<Rightarrow> string \<Rightarrow> bool" where
  "raw_from i j n \<longleftrightarrow> (\<exists>j' r. j \<le> j' \<and> n = raw_payload_name i j' r)"

lemma raw_from_Suc: "raw_from i (Suc j) n \<Longrightarrow> raw_from i j n"
  unfolding raw_from_def using Suc_leD by blast

lemma raw_from_new: "raw_from i (Suc j) n \<Longrightarrow> n \<noteq> raw_payload_name i j r"
  by (auto simp: raw_from_def dest: raw_payload_name_inj)

lemma redacted_dict: "\<exists>d'. fst (redact_json bh (PDict d)) = PDict d'"
  by (simp add: redact_dict)

lemma evidence_step_cases:
  assumes "evidence_step env raw_root miss i l (st, names) (j, reference) = Inr (st', names')"
  shows "(bs_payloads st' = bs_payloads st \<and> bs_files st' = bs_files st \<and> bs_samples st' = bs_samples st \<and> names' = names) \<or>
    (\<exists>p f r. bs_payloads st' = bs_payloads st @ [p] \<and> bs_files st' = bs_files st @ [f] \<and>
      bs_samples st' = bs_samples st \<and> names' = names @ [fst p] \<and> fst p = raw_payload_name i j r \<and>
      describes (be_rt env) p f \<and> evidence_payload env p)"
proof -
  let ?rt = "be_rt env" and ?bh = "be_bracket_host env"
  obtain found where found: "resolve_raw_path (be_view env) reference (ld_path l) raw_root = Inr found"
    using assms by (cases "resolve_raw_path (be_view env) reference (ld_path l) raw_root") (auto simp: evidence_step_def)
  show ?thesis
  proof (cases found)
    case None
    with assms found show ?thesis by (auto simp: evidence_step_def Let_def build_error_def split: if_splits)
  next
    case (Some resolved)
    from assms found Some obtain d content where
      content: "canonical_json_bytes ?rt (fst (redact_json ?bh (PDict d))) = Inr content"
      and st': "bs_payloads st' = bs_payloads st @ [(raw_payload_name i j resolved, content)]"
        "bs_files st' = bs_files st @ [built_file ?rt (raw_payload_name i j resolved) content raw_media (snd (redact_json ?bh (PDict d)))]"
        "bs_samples st' = bs_samples st" "names' = names @ [raw_payload_name i j resolved]"
      unfolding evidence_step_def prod.case Let_def found rbind.simps option.case
      by (auto simp: rbind_Inr_iff add_payload_def simp del: redact_json.simps split: if_splits)
    obtain d' where d': "fst (redact_json ?bh (PDict d)) = PDict d'" using redacted_dict by blast
    have "evidence_payload env (raw_payload_name i j resolved, content)"
      using content redact_no_secrets [of ?bh "PDict d"]
      unfolding d' canonical_json_bytes_Inr evidence_payload_def snd_conv by blast
    moreover have "describes ?rt (raw_payload_name i j resolved, content)
        (built_file ?rt (raw_payload_name i j resolved) content raw_media (snd (redact_json ?bh (PDict d))))"
      unfolding describes_def using redact_count_nonneg [of ?bh "PDict d"] by auto
    ultimately show ?thesis using st' by (intro disjI2 exI) auto
  qed
qed

lemma evidence_loop:
  assumes "rfold (evidence_step env raw_root miss i l) (st, names) (enumerate j references) = Inr (st', names')"
  shows "\<exists>new fs. bs_payloads st' = bs_payloads st @ new \<and> bs_files st' = bs_files st @ fs \<and>
    bs_samples st' = bs_samples st \<and> names' = names @ map fst new \<and> list_all2 (describes (be_rt env)) new fs \<and>
    list_all (evidence_payload env) new \<and> list_all (raw_from i j) (map fst new) \<and> distinct (map fst new)"
  using assms
proof (induction references arbitrary: j st names)
  case Nil
  then show ?case by simp
next
  case (Cons reference references)
  from Cons.prems obtain acc where step: "evidence_step env raw_root miss i l (st, names) (j, reference) = Inr acc"
    and rest: "rfold (evidence_step env raw_root miss i l) acc (enumerate (Suc j) references) = Inr (st', names')"
    by (auto simp: rbind_Inr_iff)
  obtain st1 names1 where acc: "acc = (st1, names1)" by force
  from Cons.IH [OF rest [unfolded acc]] obtain new fs where
    ih: "bs_payloads st' = bs_payloads st1 @ new" "bs_files st' = bs_files st1 @ fs" "bs_samples st' = bs_samples st1"
      "names' = names1 @ map fst new" "list_all2 (describes (be_rt env)) new fs" "list_all (evidence_payload env) new"
      "list_all (raw_from i (Suc j)) (map fst new)" "distinct (map fst new)" by blast
  have later: "list_all (raw_from i j) (map fst new)"
    using ih(7) raw_from_Suc by (auto simp: list_all_iff)
  show ?case
    using evidence_step_cases [OF step [unfolded acc]]
  proof (elim disjE exE conjE)
    fix p f r
    assume h: "bs_payloads st1 = bs_payloads st @ [p]" "bs_files st1 = bs_files st @ [f]" "bs_samples st1 = bs_samples st"
      "names1 = names @ [fst p]" "fst p = raw_payload_name i j r" "describes (be_rt env) p f" "evidence_payload env p"
    have "fst p \<notin> set (map fst new)" using ih(7) h(5) raw_from_new by (fastforce simp: list_all_iff)
    moreover have "raw_from i j (fst p)" using h(5) by (auto simp: raw_from_def)
    ultimately show ?thesis using h ih later by (intro exI [of _ "p # new"] exI [of _ "f # fs"]) simp
  qed (use ih later in \<open>intro exI [of _ new] exI [of _ fs], simp\<close>)
qed

text \<open>The samples of the manifest: the sample, the name of its payload and of its evidence, its warnings.\<close>

type_synonym bundled = "Sample \<times> string \<times> string list \<times> string list"

definition bundled_entry :: "bundled \<Rightarrow> pyval" where
  "bundled_entry b = (case b of (s, n, raws, ws) \<Rightarrow> sample_entry s n raws ws)"

definition fits :: "build_env \<Rightarrow> (string \<times> string) list \<Rightarrow> bundled \<Rightarrow> bool" where
  "fits env payloads b \<longleftrightarrow> (case b of (s, n, raws, ws) \<Rightarrow>
    json_finite (sample_dict (rt_isofmt (be_rt env)) s) \<and>
    (n, json_bytes (be_rt env) (sample_dict (rt_isofmt (be_rt env)) s)) \<in> set payloads \<and>
    (\<forall>r \<in> set raws. \<exists>c. (r, c) \<in> set payloads \<and> evidence_payload env (r, c)))"

lemma fits_mono: "fits env ps b \<Longrightarrow> set ps \<subseteq> set qs \<Longrightarrow> fits env qs b"
  by (cases b) (fastforce simp: fits_def)

definition sample_of :: "bundled \<Rightarrow> Sample" where "sample_of b = fst b"
definition payload_of :: "bundled \<Rightarrow> string" where "payload_of b = fst (snd b)"
definition raws_of :: "bundled \<Rightarrow> string list" where "raws_of b = fst (snd (snd b))"

definition name_from :: "nat \<Rightarrow> string \<Rightarrow> bool" where
  "name_from k n \<longleftrightarrow> (\<exists>i \<ge> k. n = sample_name i \<or> raw_from i 1 n)"

lemma name_from_Suc: "name_from (Suc k) n \<Longrightarrow> name_from k n"
  unfolding name_from_def using Suc_leD by blast

lemma name_from_new: "name_from (Suc k) n \<Longrightarrow> n \<noteq> sample_name k \<and> \<not> raw_from k j n"
  by (auto simp: name_from_def raw_from_def sample_name_not_raw sample_name_not_raw [symmetric]
      dest: sample_name_inj raw_payload_name_inj)

lemma raw_from_names: "list_all (raw_from i j) ns \<Longrightarrow>
  filter (\<lambda>n. startswith n ''samples/'') ns = [] \<and> filter (\<lambda>n. startswith n ''raw/'') ns = ns"
  by (induction ns) (auto simp: raw_from_def)

lemma name_from_ok: "name_from k n \<Longrightarrow> payload_name n"
  by (auto simp: name_from_def raw_from_def sample_name_ok raw_payload_name_ok)

lemma name_from_prefix: "name_from k n \<Longrightarrow> startswith n ''samples/'' \<or> startswith n ''raw/''"
  by (auto simp: name_from_def raw_from_def)

text \<open>What a run of the payload loop adds to the state.\<close>

definition collected :: "build_env \<Rightarrow> nat \<Rightarrow> build_state \<Rightarrow> build_state \<Rightarrow> (string \<times> string) list \<Rightarrow> bundled list \<Rightarrow> bool" where
  "collected env k st st' new bs \<longleftrightarrow>
    bs_payloads st' = bs_payloads st @ new \<and> bs_samples st' = bs_samples st @ map bundled_entry bs \<and>
    (\<exists>fs. bs_files st' = bs_files st @ fs \<and> list_all2 (describes (be_rt env)) new fs) \<and>
    distinct (map fst new) \<and> list_all (name_from k) (map fst new) \<and> list_all (fits env new) bs \<and>
    filter (\<lambda>n. startswith n ''samples/'') (map fst new) = map payload_of bs \<and>
    filter (\<lambda>n. startswith n ''raw/'') (map fst new) = concat (map raws_of bs)"

lemma sample_payload_step_collects:
  assumes "sample_payload_step env raw_root miss st (k, l) = Inr st'"
  shows "\<exists>new b. collected env k st st' new [b] \<and> sample_of b = ld_sample l \<and>
    list_all (\<lambda>n. n = sample_name k \<or> raw_from k 1 n) (map fst new)"
proof -
  let ?rt = "be_rt env" and ?s = "ld_sample l" and ?n = "sample_name k"
  from assms obtain content st1 names where
    content: "canonical_json_bytes ?rt (sample_dict (rt_isofmt ?rt) ?s) = Inr content"
    and loop: "rfold (evidence_step env raw_root miss k l) (add_payload ?rt ?n content sample_media 0 st, [])
      (enumerate 1 (raw_references ?s)) = Inr (st1, names)"
    and st': "st' = st1\<lparr>bs_samples := bs_samples st1 @ [sample_entry ?s ?n names (ld_warnings l)]\<rparr>"
    by (auto simp: sample_payload_step_def Let_def rbind_Inr_iff)
  from evidence_loop [OF loop] obtain raws fs where
    h: "bs_payloads st1 = bs_payloads st @ (?n, content) # raws"
      "bs_files st1 = bs_files st @ built_file ?rt ?n content sample_media 0 # fs" "bs_samples st1 = bs_samples st"
      "names = map fst raws" "list_all2 (describes ?rt) raws fs" "list_all (evidence_payload env) raws"
      "list_all (raw_from k 1) (map fst raws)" "distinct (map fst raws)"
    by (auto simp: add_payload_def)
  let ?b = "(?s, ?n, names, ld_warnings l)" and ?new = "(?n, content) # raws"
  have fresh: "?n \<notin> set (map fst raws)"
    using h(7) by (auto simp: list_all_iff raw_from_def sample_name_not_raw)
  have "fits env ?new ?b"
    using content h(4,6) unfolding canonical_json_bytes_Inr fits_def list_all_iff by force
  moreover have "describes ?rt (?n, content) (built_file ?rt ?n content sample_media 0)"
    unfolding describes_def by force
  moreover have "list_all (\<lambda>n. n = ?n \<or> raw_from k 1 n) (map fst ?new)"
    using h(7) by (simp add: list_all_iff)
  moreover from this have "list_all (name_from k) (map fst ?new)"
    by (auto simp: list_all_iff name_from_def)
  ultimately have "collected env k st st' ?new [?b]"
    using h fresh raw_from_names [OF h(7)] unfolding collected_def st'
    by (simp add: bundled_entry_def payload_of_def raws_of_def)
  with \<open>list_all (\<lambda>n. n = ?n \<or> _ n) _\<close> show ?thesis
    by (intro exI [of _ ?new] exI [of _ ?b]) (simp add: sample_of_def)
qed

lemma payload_loop_collects:
  assumes "rfold (sample_payload_step env raw_root miss) st (enumerate k ls) = Inr st'"
  shows "\<exists>new bs. collected env k st st' new bs \<and> map sample_of bs = map ld_sample ls"
  using assms
proof (induction ls arbitrary: k st)
  case Nil
  then show ?case by (intro exI [of _ "[]"]) (simp add: collected_def)
next
  case (Cons l ls)
  from Cons.prems obtain st1 where step: "sample_payload_step env raw_root miss st (k, l) = Inr st1"
    and rest: "rfold (sample_payload_step env raw_root miss) st1 (enumerate (Suc k) ls) = Inr st'"
    by (auto simp: rbind_Inr_iff)
  from sample_payload_step_collects [OF step] obtain new b where
    head: "collected env k st st1 new [b]" "sample_of b = ld_sample l"
      "list_all (\<lambda>n. n = sample_name k \<or> raw_from k 1 n) (map fst new)" by blast
  from Cons.IH [OF rest] obtain new' bs where
    tail: "collected env (Suc k) st1 st' new' bs" "map sample_of bs = map ld_sample ls" by blast
  have "set (map fst new) \<inter> set (map fst new') = {}"
    using head(3) tail(1) name_from_new unfolding collected_def list_all_iff by blast
  moreover obtain fs fs' where "bs_files st1 = bs_files st @ fs" "list_all2 (describes (be_rt env)) new fs"
    "bs_files st' = bs_files st1 @ fs'" "list_all2 (describes (be_rt env)) new' fs'"
    using head(1) tail(1) unfolding collected_def by blast
  moreover from this have "list_all2 (describes (be_rt env)) (new @ new') (fs @ fs')" by (simp add: list_all2_appendI)
  moreover have "list_all (fits env (new @ new')) (b # bs)"
    using head(1) tail(1) fits_mono [of env new b "new @ new'"] fits_mono [of env new' _ "new @ new'"]
    unfolding collected_def by (auto simp: list_all_iff)
  moreover have "list_all (name_from k) (map fst (new @ new'))"
    using head(1) tail(1) name_from_Suc unfolding collected_def by (auto simp: list_all_iff)
  ultimately have "collected env k st st' (new @ new') (b # bs)"
    using head(1) tail(1) unfolding collected_def by auto
  with head(2) tail(2) show ?case by (intro exI [of _ "new @ new'"] exI [of _ "b # bs"]) simp
qed

section \<open>The samples a build loads\<close>

lemma py_equal_str: "py_equal v (PStr s) \<Longrightarrow> v = PStr s"
  by (cases v) auto

lemma py_equal_dict:
  "py_equal (PDict d) (PDict e) \<Longrightarrow> map_of d k = Some x \<Longrightarrow> \<exists>y. map_of e k = Some y \<and> py_equal x y"
  by (drule map_of_SomeD) (fastforce simp: list_all_iff split: option.splits)

lemma as_datetime_str:
  "as_datetime fromiso v f = Inr d \<Longrightarrow> py_equal v (PStr t) \<Longrightarrow> fromiso t = Some d"
  by (auto simp: as_datetime_def dest!: py_equal_str split: option.splits if_splits)

lemma dict_get_equal:
  assumes "dict_get d k = Inr v" and "py_equal (PDict d) (PDict e)" and "map_of e k = Some w"
  shows "py_equal v w"
proof -
  from assms(1) have "map_of d k = Some v" by (auto simp: dict_get_def split: option.splits)
  from py_equal_dict [OF assms(2) this] assms(3) show ?thesis by auto
qed

lemma measurement_times:
  assumes "measurement_from fromiso v = Inr m" and "py_equal v (measurement_dict isofmt m)"
  shows "fromiso (isofmt (meas_started_at m)) = Some (meas_started_at m) \<and>
    fromiso (isofmt (meas_finished_at m)) = Some (meas_finished_at m)"
proof -
  obtain e where e: "measurement_dict isofmt m = PDict e" "map_of e ''started_at'' = Some (PStr (isofmt (meas_started_at m)))"
    "map_of e ''finished_at'' = Some (PStr (isofmt (meas_finished_at m)))"
    by (simp add: measurement_dict_def)
  from assms(1) obtain d sa started fa finished where v: "v = PDict d"
    and sa: "dict_get d ''started_at'' = Inr sa" "as_datetime fromiso sa ''started_at'' = Inr started"
    and fa: "dict_get d ''finished_at'' = Inr fa" "as_datetime fromiso fa ''finished_at'' = Inr finished"
    and m: "meas_started_at m = started" "meas_finished_at m = finished"
    by (auto simp: measurement_from_def as_mapping_def rbind_Inr_iff Measurement_init_def split: pyval.splits if_splits)
  note eq = assms(2) [unfolded v e(1)]
  show ?thesis
    using as_datetime_str [OF sa(2) dict_get_equal [OF sa(1) eq e(2)]]
      as_datetime_str [OF fa(2) dict_get_equal [OF fa(1) eq e(3)]] m by simp
qed

lemma sample_times_read_back:
  assumes "sample_from_dict fromiso data = Inr s" and "py_equal (PDict data) (sample_dict isofmt s)"
  shows "list_all (\<lambda>d. fromiso (isofmt d) = Some d) (sample_times s)"
proof -
  obtain e where e: "sample_dict isofmt s = PDict e" "map_of e ''created_at'' = Some (PStr (isofmt (smp_created_at s)))"
    "map_of e ''measurements'' = Some (PList (map (measurement_dict isofmt) (smp_measurements s)))"
    by (simp add: sample_dict_def)
  from assms(1) obtain raws ms ca created where raws: "get data ''measurements'' = PList raws"
    and ms: "rmap (measurement_from fromiso) raws = Inr ms"
    and ca: "dict_get data ''created_at'' = Inr ca" "as_datetime fromiso ca ''created_at'' = Inr created"
    and s: "smp_created_at s = created" "smp_measurements s = ms"
    by (auto simp: sample_from_dict_def as_sequence_def rbind_Inr_iff Sample_init_def split: pyval.splits if_splits)
  note eq = assms(2) [unfolded e(1)]
  from raws have "map_of data ''measurements'' = Some (PList raws)"
    by (auto simp: get_def get_default_def split: option.splits)
  from py_equal_dict [OF eq this] e(3) s have "list_all2 py_equal raws (map (measurement_dict isofmt) ms)" by auto
  moreover from ms have "list_all2 (\<lambda>v m. measurement_from fromiso v = Inr m) raws ms" by (simp add: rmap_Inr_iff)
  ultimately have "list_all (\<lambda>m. fromiso (isofmt (meas_started_at m)) = Some (meas_started_at m) \<and>
      fromiso (isofmt (meas_finished_at m)) = Some (meas_finished_at m)) ms"
    using measurement_times by (fastforce simp: list_all2_conv_all_nth list_all_length)
  moreover have "fromiso (isofmt created) = Some created"
    using as_datetime_str [OF ca(2) dict_get_equal [OF ca(1) eq e(2)]] s by simp
  ultimately show ?thesis using s by (auto simp: sample_times_def list_all_iff)
qed

text \<open>What a build requires of a sample.\<close>

definition buildable :: "build_env \<Rightarrow> bool \<Rightarrow> Sample \<Rightarrow> bool" where
  "buildable env allow_invalid s \<longleftrightarrow> wf_sample s \<and> (val_valid (validate_sample s) \<or> allow_invalid) \<and>
    list_all (\<lambda>d. rt_fromiso (be_rt env) (rt_isofmt (be_rt env) d) = Some d) (sample_times s)"

lemma load_step_ok:
  assumes "load_step env allow st p = Inr st'"
  shows "\<exists>l. ls_loaded st' = ls_loaded st @ [l] \<and> buildable env allow (ld_sample l) \<and>
    smp_sample_id (ld_sample l) \<notin> set (map (\<lambda>l. smp_sample_id (ld_sample l)) (ls_loaded st))"
proof -
  let ?fresh = "\<lambda>s. smp_sample_id s \<notin> set (map (\<lambda>l. smp_sample_id (ld_sample l)) (ls_loaded st))"
  from assms obtain data s where sample: "(case sample_from_dict (rt_fromiso (be_rt env)) data of
         Inl e \<Rightarrow> if is_key_error e \<or> is_type_error e \<or> is_value_error e
           then build_error ''invalid sample structure'' else Inl e
       | Inr s \<Rightarrow> Inr s) = Inr s"
    and rest: "(if \<not> py_equal (PDict data) (sample_dict (rt_isofmt (be_rt env)) s)
       then build_error ''sample contains missing or unsupported fields''
       else if \<not> val_valid (validate_sample s) \<and> \<not> allow
       then build_error (''sample '' @ smp_sample_id s @ '' is invalid: '' @ join ''; '' (val_errors (validate_sample s)))
       else if \<not> ?fresh s
       then build_error (''duplicate sample ID: '' @ smp_sample_id s)
       else Inr \<lparr>ls_loaded = ls_loaded st @ [\<lparr>ld_path = p, ld_sample = s, ld_warnings = val_warnings (validate_sample s)\<rparr>],
         ls_warnings = ls_warnings st @ (if val_valid (validate_sample s) then [] else [''invalid_sample_included:'' @ smp_sample_id s])\<rparr>)
       = Inr st'"
    unfolding load_step_def Let_def rbind_Inr_iff not_not by blast
  from sample have s: "sample_from_dict (rt_fromiso (be_rt env)) data = Inr s"
    by (auto simp: build_error_def split: sum.splits if_splits)
  from rest have "py_equal (PDict data) (sample_dict (rt_isofmt (be_rt env)) s)"
    "val_valid (validate_sample s) \<or> allow" "?fresh s"
    "ls_loaded st' = ls_loaded st @ [\<lparr>ld_path = p, ld_sample = s, ld_warnings = val_warnings (validate_sample s)\<rparr>]"
    by (auto simp: build_error_def simp del: py_equal.simps split: if_splits)
  then show ?thesis
    using sample_times_read_back [OF s] sample_from_dict_wf [OF s] by (auto simp: buildable_def)
qed

lemma load_loop_ok:
  assumes "rfold (load_step env allow) st ps = Inr st'"
    and "list_all (buildable env allow) (map ld_sample (ls_loaded st))"
    and "distinct (map (\<lambda>l. smp_sample_id (ld_sample l)) (ls_loaded st))"
  shows "list_all (buildable env allow) (map ld_sample (ls_loaded st')) \<and>
    distinct (map (\<lambda>l. smp_sample_id (ld_sample l)) (ls_loaded st')) \<and>
    length (ls_loaded st') = length (ls_loaded st) + length ps"
  using assms
proof (induction ps arbitrary: st)
  case (Cons p ps)
  then obtain st1 where step: "load_step env allow st p = Inr st1" and rest: "rfold (load_step env allow) st1 ps = Inr st'"
    by (auto simp: rbind_Inr_iff)
  from load_step_ok [OF step] obtain l where l: "ls_loaded st1 = ls_loaded st @ [l]" "buildable env allow (ld_sample l)"
    "smp_sample_id (ld_sample l) \<notin> set (map (\<lambda>l. smp_sample_id (ld_sample l)) (ls_loaded st))" by blast
  with Cons.prems have "list_all (buildable env allow) (map ld_sample (ls_loaded st1))"
    "distinct (map (\<lambda>l. smp_sample_id (ld_sample l)) (ls_loaded st1))" by simp_all
  from Cons.IH [OF rest this] l(1) show ?case by simp
qed simp

text \<open>A finished collection.\<close>

lemma load_samples_ok:
  assumes "load_samples env inputs allow = Inr ls"
  shows "list_all (buildable env allow) (map ld_sample (ls_loaded ls)) \<and>
    distinct (map (\<lambda>l. smp_sample_id (ld_sample l)) (ls_loaded ls)) \<and> ls_loaded ls \<noteq> []"
proof -
  from assms obtain paths where paths: "sample_inputs (be_view env) inputs = Inr paths"
    and load: "rfold (load_step env allow) \<lparr>ls_loaded = [], ls_warnings = []\<rparr> paths = Inr ls"
    unfolding load_samples_def rbind_Inr_iff by blast
  from paths have "paths \<noteq> []" by (auto simp: sample_inputs_def build_error_def rbind_Inr_iff split: if_splits)
  with load_loop_ok [OF load] show ?thesis by (simp flip: length_greater_0_conv)
qed

lemma build_payloads_ok:
  assumes "build_payloads env inputs raw_root allow miss = Inr st"
  shows "\<exists>st0 bs ls. collected env 1 st0 st (bs_payloads st) bs \<and> bs_payloads st0 = [] \<and> bs_files st0 = [] \<and> bs_samples st0 = [] \<and>
    list_all (buildable env allow) (map sample_of bs) \<and> distinct (map (\<lambda>b. smp_sample_id (sample_of b)) bs) \<and> bs \<noteq> [] \<and>
    load_samples env inputs allow = Inr ls \<and> map sample_of bs = sort_key smp_sample_id (map ld_sample (ls_loaded ls))"
proof -
  let ?key = "\<lambda>l. smp_sample_id (ld_sample l)"
  from assms obtain ls where load: "load_samples env inputs allow = Inr ls"
    and loop: "rfold (sample_payload_step env raw_root miss)
      \<lparr>bs_payloads = [], bs_files = [], bs_samples = [], bs_warnings = ls_warnings ls\<rparr>
      (enumerate 1 (sort_key ?key (ls_loaded ls))) = Inr st"
    unfolding build_payloads_def rbind_Inr_iff by blast
  note ls = load_samples_ok [OF load]
  from payload_loop_collects [OF loop] obtain new bs where
    c: "collected env 1 \<lparr>bs_payloads = [], bs_files = [], bs_samples = [], bs_warnings = ls_warnings ls\<rparr> st new bs"
    and bs: "map sample_of bs = map ld_sample (sort_key ?key (ls_loaded ls))" by blast
  from c have new: "new = bs_payloads st" by (simp add: collected_def)
  have "map (\<lambda>b. smp_sample_id (sample_of b)) bs = map smp_sample_id (map sample_of bs)" by simp
  also have "\<dots> = map ?key (sort_key ?key (ls_loaded ls))" unfolding bs by simp
  finally have ids: "map (\<lambda>b. smp_sample_id (sample_of b)) bs = sort (map ?key (ls_loaded ls))"
    by (simp add: map_sort_key)
  have "list_all (buildable env allow) (map sample_of bs)" unfolding bs using ls by (auto simp: list_all_iff)
  moreover have "distinct (map (\<lambda>b. smp_sample_id (sample_of b)) bs)" unfolding ids using ls by simp
  moreover have "bs \<noteq> []"
  proof
    assume "bs = []"
    with bs have "length (sort_key ?key (ls_loaded ls)) = 0" by simp
    with ls show False by simp
  qed
  moreover have "map sample_of bs = sort_key smp_sample_id (map ld_sample (ls_loaded ls))"
    unfolding bs by (rule map_sort_key_comp)
  ultimately show ?thesis using c load by (intro exI) (auto simp: new)
qed

end
