(* ===== verification/BuiltBundle.thy ===== *)
theory BuiltBundle
  imports Builder
begin

text \<open>
  The builder meets the verifier: which archives of \<open>bundle/builder.py\<close> the checks of
  \<open>bundle/verification.py\<close> accept. The ZIP library is assumed to list what was written, and the
  JSON text layer to read back what it printed, on the texts of the archive at hand.
\<close>

section \<open>Sorted documents\<close>

lemma sort_json_sorted:
  "sorted (map fst d) \<Longrightarrow> list_all (\<lambda>(k, v). sort_json v = v) d \<Longrightarrow> sort_json (PDict d) = PDict d"
proof -
  assume sorted: "sorted (map fst d)" and same: "list_all (\<lambda>(k, v). sort_json v = v) d"
  have "map (\<lambda>(k, v). (k, sort_json v)) d = d"
    using same by (intro map_idI) (auto simp: list_all_iff)
  with sorted show ?thesis by (simp add: sort_json.simps sort_key_id_if_sorted)
qed

lemma sort_json_list: "list_all (\<lambda>v. sort_json v = v) vs \<Longrightarrow> sort_json (PList vs) = PList vs"
  by (simp add: list_all_iff map_idI)

lemma sorted_field_names: "sorted FILE_FIELDS" "sorted SAMPLE_FIELDS" "sorted MANIFEST_FIELDS"
  "sorted [''allow_invalid_samples'', ''allow_missing_raw'', ''raw_evidence_redaction'']"
  by code_simp+

lemma built_file_fields: "map fst (built_file rt n c m k) = FILE_FIELDS"
  by (simp add: built_file_def FILE_FIELDS_def)

lemma sort_built_file: "sort_json (PDict (built_file rt n c m k)) = PDict (built_file rt n c m k)"
  by (rule sort_json_sorted) (simp_all add: built_file_fields sorted_field_names, simp add: built_file_def)

lemma sort_sample_entry: "sort_json (sample_entry s n raws ws) = sample_entry s n raws ws"
  unfolding sample_entry_def
  by (rule sort_json_sorted) (use sorted_field_names(2) in \<open>simp_all add: SAMPLE_FIELDS_def sort_json_list\<close>)

lemma describes_fields:
  assumes "describes rt p f"
  shows "file_path f = fst p" "get f ''path'' = PStr (fst p)" "get f ''sha256'' = PStr (rt_sha256 rt (snd p))"
    "get f ''size_bytes'' = PInt (int (length (snd p)))" "\<exists>k. 0 \<le> k \<and> get f ''redaction_count'' = PInt k"
    "map fst f = FILE_FIELDS" "sort_json (PDict f) = PDict f" "json_finite (PDict f)"
  using assms sort_built_file
  by (auto simp: describes_def built_file_fields) (auto simp: built_file_def file_path_def get_def get_default_def)

section \<open>The archive directory\<close>

lemma archive_steps:
  assumes "list_all entry_ok infos" and "distinct (map fst es @ map ze_filename infos)"
    and "list_all (\<lambda>i. 0 \<le> ze_file_size i) infos"
    and "n + sum_list (map ze_file_size infos) \<le> MAX_BUNDLE_PAYLOAD_BYTES + MAX_MANIFEST_BYTES"
  shows "rfold archive_step (es, n) infos =
    Inr (es @ map (\<lambda>i. (ze_filename i, i)) infos, n + sum_list (map ze_file_size infos))"
  using assms
proof (induction infos arbitrary: es n)
  case (Cons i infos)
  have nonneg: "0 \<le> sum_list (map ze_file_size infos)"
    using Cons.prems(3) by (intro sum_list_nonneg) (auto simp: list_all_iff)
  have "archive_step (es, n) i = Inr (es @ [(ze_filename i, i)], n + ze_file_size i)"
    using Cons.prems nonneg by (auto simp: archive_step_def entry_ok_def check_def)
  with Cons.IH [of "es @ [(ze_filename i, i)]" "n + ze_file_size i"] Cons.prems show ?case by simp
qed simp

lemma archive_step_error: "archive_step st i = Inl e \<Longrightarrow> \<exists>m. e = BundleVerificationError m"
  by (auto simp: archive_step_def rbind_Inl_iff check_def verify_error_def split: prod.splits if_splits)

lemma archive_entries_error:
  assumes "archive_entries infos = Inl e"
  shows "\<exists>m. e = BundleVerificationError m"
proof -
  have "\<exists>m. e = BundleVerificationError m" if "rfold archive_step st infos = Inl e" for st infos
    using that by (induction infos arbitrary: st) (auto simp: rbind_Inl_iff dest: archive_step_error)
  then show ?thesis using assms
    by (auto simp: archive_entries_def rbind_Inl_iff check_def verify_error_def split: if_splits)
qed

lemma entry_ok_zip_info: "payload_name (fst e) \<Longrightarrow> entry_ok (zip_info e)"
  using payload_name_facts [of "fst e"]
  by (cases e) (simp add: entry_ok_def zip_info_def unix_file_type_def is_dir_def)

lemma manifest_name_ok: "payload_name ''manifest.json''"
proof -
  have "plain_part ''manifest.json''" by code_simp
  then show ?thesis unfolding payload_name_def by (intro exI [of _ "[''manifest.json'']"]) simp
qed

section \<open>A built bundle\<close>

text \<open>The text layer reads back what it printed, on one text.\<close>

definition text_reads_back :: "runtime \<Rightarrow> string \<Rightarrow> bool" where
  "text_reads_back rt c \<longleftrightarrow> (\<forall>v. json_finite v \<longrightarrow> c = json_bytes rt v \<longrightarrow>
    rbind (rt_decode rt c) (rt_loads rt) = Inr (sort_json v))"

definition manifest_of :: "build_env \<Rightarrow> bool \<Rightarrow> bool \<Rightarrow> pydatetime \<Rightarrow> string \<Rightarrow> build_state \<Rightarrow> (string \<times> pyval) list" where
  "manifest_of env allow miss created bid st =
    [(''agent_version'', PStr (be_version env)), (''bundle_id'', PStr bid),
     (''created_at'', PStr (rt_isofmt (be_rt env) created)),
     (''files'', PList (map PDict (sort_key file_path (bs_files st)))),
     (''policy'', PDict [(''allow_invalid_samples'', PBool allow), (''allow_missing_raw'', PBool miss),
        (''raw_evidence_redaction'', PStr ''credential-keys-and-url-secrets-v1'')]),
     (''sample_count'', PInt (int (length (bs_samples st)))), (''samples'', PList (bs_samples st)),
     (''schema_version'', PStr BUNDLE_SCHEMA_VERSION), (''warnings'', PList (map PStr (dedup (bs_warnings st))))]"

lemma manifest_fields: "map fst (manifest_of env allow miss created bid st) = MANIFEST_FIELDS"
  by (simp add: manifest_of_def MANIFEST_FIELDS_def)

lemma manifest_get:
  "get (manifest_of env allow miss created bid st) ''bundle_id'' = PStr bid"
  "get (manifest_of env allow miss created bid st) ''files'' = PList (map PDict (sort_key file_path (bs_files st)))"
  "get (manifest_of env allow miss created bid st) ''policy'' = PDict [(''allow_invalid_samples'', PBool allow),
     (''allow_missing_raw'', PBool miss), (''raw_evidence_redaction'', PStr ''credential-keys-and-url-secrets-v1'')]"
  "get (manifest_of env allow miss created bid st) ''sample_count'' = PInt (int (length (bs_samples st)))"
  "get (manifest_of env allow miss created bid st) ''samples'' = PList (bs_samples st)"
  "get (manifest_of env allow miss created bid st) ''schema_version'' = PStr BUNDLE_SCHEMA_VERSION"
  "get (manifest_of env allow miss created bid st) ''warnings'' = PList (map PStr (dedup (bs_warnings st)))"
  by (simp_all add: manifest_of_def get_def get_default_def)

text \<open>Everything the verifier reads of a build whose archive is listed as it was written.\<close>

definition built :: "build_env \<Rightarrow> bool \<Rightarrow> bool \<Rightarrow> build_state \<Rightarrow> bundled list \<Rightarrow> string \<Rightarrow> (string \<times> pyval) list \<Rightarrow> bool" where
  "built env allow miss st bs bid manifest \<longleftrightarrow>
    (\<exists>created. manifest = manifest_of env allow miss created bid st) \<and> bundle_id (be_rt env) (bs_files st) = Inr bid \<and>
    (\<exists>st0. collected env 1 st0 st (bs_payloads st) bs \<and> bs_payloads st0 = [] \<and> bs_files st0 = [] \<and> bs_samples st0 = []) \<and>
    list_all (buildable env allow) (map sample_of bs) \<and> distinct (map (\<lambda>b. smp_sample_id (sample_of b)) bs) \<and> bs \<noteq> [] \<and>
    total_bytes st \<le> MAX_BUNDLE_PAYLOAD_BYTES"

lemma built_facts:
  assumes "built env allow miss st bs bid manifest"
  shows "list_all2 (describes (be_rt env)) (bs_payloads st) (bs_files st)" "distinct (map fst (bs_payloads st))"
    "list_all (name_from 1) (map fst (bs_payloads st))" "list_all (fits env (bs_payloads st)) bs"
    "filter (\<lambda>n. startswith n ''samples/'') (map fst (bs_payloads st)) = map payload_of bs"
    "filter (\<lambda>n. startswith n ''raw/'') (map fst (bs_payloads st)) = concat (map raws_of bs)"
    "bs_samples st = map bundled_entry bs"
  using assms unfolding built_def collected_def by auto

lemma build_bundle_Inr:
  assumes "build_bundle env random fault inputs dir name raw_root allow miss created fs = (fs', Inr manifest)"
  shows "\<exists>st bs bid mbytes. built env allow miss st bs bid manifest \<and> json_finite (PDict manifest) \<and>
    mbytes = json_bytes (be_rt env) (PDict manifest) \<and> fault = NoFault \<and>
    (\<exists>ls. load_samples env inputs allow = Inr ls \<and> map sample_of bs = sort_key smp_sample_id (map ld_sample (ls_loaded ls))) \<and>
    map_of fs' (dir @ ''/'' @ name) = Some (be_zip env (archive_contents (bs_payloads st) mbytes))"
proof -
  from assms obtain st mbytes where st: "build_payloads env inputs raw_root allow miss = Inr st"
    and m: "build_manifest env allow miss created st = Inr manifest"
    and mb: "canonical_json_bytes (be_rt env) (PDict manifest) = Inr mbytes"
    and w: "write_bundle env random fault dir name (bs_payloads st) mbytes fs = (fs', Inr ())"
    by (auto simp: build_bundle_def rbind_Inr_iff split: sum.splits prod.splits)
  from m obtain bid where "manifest = manifest_of env allow miss created bid st"
    "bundle_id (be_rt env) (bs_files st) = Inr bid" "total_bytes st \<le> MAX_BUNDLE_PAYLOAD_BYTES"
    by (auto simp: build_manifest_def manifest_of_def build_error_def rbind_Inr_iff split: if_splits)
  with build_payloads_ok [OF st] obtain bs where "built env allow miss st bs bid manifest"
    "\<exists>ls. load_samples env inputs allow = Inr ls \<and> map sample_of bs = sort_key smp_sample_id (map ld_sample (ls_loaded ls))"
    unfolding built_def by blast
  moreover have "dir @ ''/.'' @ name @ ''.'' @ random @ ''.tmp'' \<noteq> dir @ ''/'' @ name"
    by (auto dest!: arg_cong [where f = length])
  with w have "fault = NoFault" "map_of fs' (dir @ ''/'' @ name) = Some (be_zip env (archive_contents (bs_payloads st) mbytes))"
    by (auto simp: write_bundle_def put_file_def map_of_write_steps split: write_fault.splits prod.splits sum.splits)
  ultimately show ?thesis using mb unfolding canonical_json_bytes_Inr by blast
qed

section \<open>Verification of a built bundle\<close>

definition built_entries :: "build_state \<Rightarrow> string \<Rightarrow> (string \<times> zip_entry) list" where
  "built_entries st mbytes = map (\<lambda>e. (fst e, zip_info e)) (archive_contents (bs_payloads st) mbytes)"

lemma archive_names:
  assumes "built env allow miss st bs bid manifest"
  shows "list_all payload_name (map fst (archive_contents (bs_payloads st) mbytes))"
    "distinct (map fst (archive_contents (bs_payloads st) mbytes))"
    "\<And>n c. (n, c) \<in> set (bs_payloads st) \<Longrightarrow> map_of (built_entries st mbytes) n = Some (zip_info (n, c))"
    "map_of (built_entries st mbytes) ''manifest.json'' = Some (zip_info (''manifest.json'', mbytes))"
    "''manifest.json'' \<notin> set (map fst (bs_payloads st))"
    "set (map fst (built_entries st mbytes)) - {''manifest.json''} = set (map fst (bs_payloads st))"
proof -
  note facts = built_facts [OF assms]
  have ok: "payload_name n" if "n \<in> set (map fst (bs_payloads st))" for n
    using that facts(3) name_from_ok by (auto simp: list_all_iff)
  have nm: "n \<noteq> ''manifest.json''" if "n \<in> set (map fst (bs_payloads st))" for n
    using that facts(3) name_from_prefix [of 1 n] by (auto simp: list_all_iff startswith_def)
  then show fresh: "''manifest.json'' \<notin> set (map fst (bs_payloads st))" by blast
  show "list_all payload_name (map fst (archive_contents (bs_payloads st) mbytes))"
    using ok manifest_name_ok by (auto simp: archive_contents_def list_all_iff)
  have sorted_names: "map fst (sort_key fst (bs_payloads st)) = sort (map fst (bs_payloads st))"
    by (rule map_sort_key)
  show dist: "distinct (map fst (archive_contents (bs_payloads st) mbytes))"
    using facts(2) fresh by (auto simp: archive_contents_def sorted_names)
  have keys: "map fst (built_entries st mbytes) = map fst (archive_contents (bs_payloads st) mbytes)"
    by (simp add: built_entries_def comp_def)
  show "map_of (built_entries st mbytes) n = Some (zip_info (n, c))" if "(n, c) \<in> set (bs_payloads st)" for n c
  proof (rule map_of_is_SomeI)
    show "distinct (map fst (built_entries st mbytes))" unfolding keys by (rule dist)
    show "(n, zip_info (n, c)) \<in> set (built_entries st mbytes)"
      using imageI [OF that, of "\<lambda>e. (fst e, zip_info e)"] by (simp add: built_entries_def archive_contents_def)
  qed
  show "map_of (built_entries st mbytes) ''manifest.json'' = Some (zip_info (''manifest.json'', mbytes))"
    by (simp add: built_entries_def archive_contents_def)
  show "set (map fst (built_entries st mbytes)) - {''manifest.json''} = set (map fst (bs_payloads st))"
    unfolding keys using fresh by (auto simp: archive_contents_def)
qed

lemma sum_sizes: "sum_list (map ze_file_size (map zip_info (archive_contents payloads mbytes))) =
  int (length mbytes) + sum_list (map (\<lambda>(n, c). int (length c)) payloads)"
proof -
  have "sum_list (map g (sort_key fst payloads)) = sum_list (map g payloads)" for g :: "string \<times> string \<Rightarrow> int"
    by (metis mset_map mset_sort sum_mset_sum_list)
  moreover have "ze_file_size \<circ> zip_info = (\<lambda>(n, c). int (length c))" by (auto simp: zip_info_def)
  ultimately show ?thesis by (simp add: archive_contents_def zip_info_def)
qed

lemma built_archive:
  assumes "built env allow miss st bs bid manifest" and "int (length (bs_payloads st)) < MAX_ARCHIVE_FILES"
    and "int (length mbytes) \<le> MAX_MANIFEST_BYTES"
  shows "archive_entries (map zip_info (archive_contents (bs_payloads st) mbytes)) = Inr (built_entries st mbytes)"
proof -
  let ?infos = "map zip_info (archive_contents (bs_payloads st) mbytes)"
  note names = archive_names [OF assms(1)]
  have "rfold archive_step ([], 0) ?infos = Inr ([] @ map (\<lambda>i. (ze_filename i, i)) ?infos,
      0 + sum_list (map ze_file_size ?infos))"
  proof (rule archive_steps)
    show "list_all entry_ok ?infos"
      using names(1) entry_ok_zip_info by (auto simp: list_all_iff)
    have "map ze_filename ?infos = map fst (archive_contents (bs_payloads st) mbytes)"
      by (auto simp: zip_info_def split: prod.splits)
    then show "distinct (map fst [] @ map ze_filename ?infos)" using names(2) by (simp only: list.map append_Nil)
    show "list_all (\<lambda>i. 0 \<le> ze_file_size i) ?infos"
      by (auto simp: list_all_iff zip_info_def split: prod.splits)
    have "total_bytes st \<le> MAX_BUNDLE_PAYLOAD_BYTES" using assms(1) by (simp add: built_def)
    then show "0 + sum_list (map ze_file_size ?infos) \<le> MAX_BUNDLE_PAYLOAD_BYTES + MAX_MANIFEST_BYTES"
      unfolding sum_sizes using assms(3) by (simp add: total_bytes_def)
  qed
  moreover have "map (\<lambda>i. (ze_filename i, i)) ?infos = built_entries st mbytes"
    by (auto simp: built_entries_def zip_info_def split: prod.splits)
  moreover have "int (length ?infos) \<le> MAX_ARCHIVE_FILES" using assms(2) by (simp add: archive_contents_def)
  ultimately show ?thesis by (simp add: archive_entries_def check_def)
qed

lemma describes_list:
  assumes "list_all2 (describes rt) ps fs"
  shows "map file_path fs = map fst ps" "list_all (\<lambda>f. map fst f = FILE_FIELDS \<and> sort_json (PDict f) = PDict f) fs"
    "\<And>f. f \<in> set fs \<Longrightarrow> \<exists>p \<in> set ps. describes rt p f"
  using assms by (induction rule: list_all2_induct) (auto simp: describes_fields)

lemma manifest_sorted:
  assumes "built env allow miss st bs bid manifest"
  shows "sort_json (PDict manifest) = PDict manifest"
proof -
  note facts = built_facts [OF assms]
  obtain created where m: "manifest = manifest_of env allow miss created bid st" using assms by (auto simp: built_def)
  have files: "sort_json (PList (map PDict (sort_key file_path (bs_files st)))) = PList (map PDict (sort_key file_path (bs_files st)))"
    using describes_list(2) [OF facts(1)] by (intro sort_json_list) (simp add: list_all_iff)
  have samples: "sort_json (PList (bs_samples st)) = PList (bs_samples st)"
    unfolding facts(7) by (intro sort_json_list) (auto simp: list_all_iff bundled_entry_def sort_sample_entry)
  have warnings: "sort_json (PList (map PStr ws)) = PList (map PStr ws)" for ws
    by (intro sort_json_list) (simp add: list_all_iff)
  have policy: "sort_json (PDict [(''allow_invalid_samples'', PBool allow), (''allow_missing_raw'', PBool miss), (k, PStr v)]) =
      PDict [(''allow_invalid_samples'', PBool allow), (''allow_missing_raw'', PBool miss), (k, PStr v)]"
    if "k = ''raw_evidence_redaction''" for k v
    using that sorted_field_names(4) by (intro sort_json_sorted) simp_all
  show ?thesis
    unfolding m
  proof (rule sort_json_sorted)
    show "sorted (map fst (manifest_of env allow miss created bid st))"
      unfolding manifest_fields by (rule sorted_field_names(3))
    show "list_all (\<lambda>(k, v). sort_json v = v) (manifest_of env allow miss created bid st)"
      using files samples warnings policy [OF refl] by (simp add: manifest_of_def)
  qed
qed

lemma built_manifest_shape:
  assumes "built env allow miss st bs bid manifest"
  shows "validate_manifest_shape manifest = Inr ()"
proof -
  note facts = built_facts [OF assms]
  obtain created where m: "manifest = manifest_of env allow miss created bid st" using assms by (auto simp: built_def)
  have "bid \<noteq> []" using assms by (auto simp: built_def bundle_id_def rbind_Inr_iff)
  moreover have "bs_samples st \<noteq> []" "bs \<noteq> []" using assms facts(7) by (auto simp: built_def)
  moreover have "bs_files st \<noteq> []"
  proof
    assume "bs_files st = []"
    with facts(1) have "bs_payloads st = []" by simp
    with facts(5) \<open>bs \<noteq> []\<close> show False by simp
  qed
  then have "sort_key file_path (bs_files st) \<noteq> []" by (metis length_0_conv length_sort)
  moreover have "list_all (\<lambda>w. py_str w \<noteq> None) (map PStr (dedup (bs_warnings st)))" by (simp add: list_all_iff)
  moreover have "1 \<le> int (length (bs_samples st))" using \<open>bs_samples st \<noteq> []\<close> by (cases "bs_samples st") auto
  ultimately show ?thesis
    unfolding validate_manifest_shape_def m manifest_get required_mapping_def required_list_def
    by (simp add: check_def same_fields_def manifest_fields)
qed

lemma built_file_steps:
  assumes "built env allow miss st bs bid manifest" and "set fs \<subseteq> set (bs_files st)"
    and "distinct (map file_path (pre @ fs))"
  shows "rfold (file_step (be_rt env) (built_entries st mbytes)) pre (map PDict fs) = Inr (pre @ fs)"
  using assms(2,3)
proof (induction fs arbitrary: pre)
  case (Cons f fs)
  note names = archive_names [OF assms(1)] and facts = built_facts [OF assms(1)]
  from describes_list(3) [OF facts(1), of f] Cons.prems(1) obtain p where p: "p \<in> set (bs_payloads st)"
    and d: "describes (be_rt env) p f" by auto
  note df = describes_fields [OF d]
  obtain n c where nc: "p = (n, c)" by force
  have entry: "map_of (built_entries st mbytes) n = Some (zip_info (n, c))" using names(3) p nc by blast
  have "n \<in> set (map fst (bs_payloads st))" using p nc by force
  then have "n \<noteq> ''manifest.json''" "name_from 1 n" using names(5) facts(3) by (auto simp only: list_all_iff)
  then have "n \<noteq> ''manifest.json''" "safe_archive_name n" using name_from_ok payload_name_facts by blast+
  moreover have "n \<notin> set (map file_path pre)" using Cons.prems(2) df(1) nc by auto
  moreover obtain k where "0 \<le> k" "get f ''redaction_count'' = PInt k" using df(5) by blast
  moreover have "same_fields f FILE_FIELDS" by (simp only: same_fields_def df(6))
  ultimately have "file_step (be_rt env) (built_entries st mbytes) pre (PDict f) = Inr (pre @ [f])"
    using df nc entry
    by (simp add: file_step_def required_mapping_def check_def Let_def read_entry_def zip_info_def)
  with Cons.IH [of "pre @ [f]"] Cons.prems show ?case by simp
qed simp

lemma bundle_id_sorted: "bundle_id rt (sort_key file_path fs) = bundle_id rt fs"
  by (simp add: bundle_id_def bundle_identity_def sort_key_id_if_sorted)

lemma built_files_verify:
  assumes "built env allow miss st bs bid manifest"
  shows "verify_files (be_rt env) (built_entries st mbytes) manifest = Inr (sort_key file_path (bs_files st))"
proof -
  note facts = built_facts [OF assms]
  obtain created where m: "manifest = manifest_of env allow miss created bid st" using assms by (auto simp: built_def)
  have paths: "map file_path (sort_key file_path (bs_files st)) = sort (map fst (bs_payloads st))"
    by (simp add: map_sort_key describes_list(1) [OF facts(1)])
  have "rfold (file_step (be_rt env) (built_entries st mbytes)) [] (map PDict (sort_key file_path (bs_files st))) =
      Inr ([] @ sort_key file_path (bs_files st))"
  proof (rule built_file_steps [OF assms])
    have "distinct (sort (map fst (bs_payloads st)))" using facts(2) by simp
    then show "distinct (map file_path ([] @ sort_key file_path (bs_files st)))" using paths by (simp only: append_Nil)
  qed simp
  moreover have "set (map fst (built_entries st mbytes)) - {''manifest.json''} =
      set (map file_path (sort_key file_path (bs_files st)))"
    unfolding paths archive_names(6) [OF assms] by simp
  moreover have "bundle_id (be_rt env) (bs_files st) = Inr bid" using assms by (simp add: built_def)
  ultimately show ?thesis
    unfolding verify_files_def m manifest_get required_list_def
    by (simp only: pyval.case rbind.simps append_Nil bundle_id_sorted check_def simp_thms if_True)
qed

text \<open>The payloads of a sample and of its evidence decode to what was written.\<close>

lemma payload_reads:
  assumes "built env allow miss st bs bid manifest" and "(n, c) \<in> set (bs_payloads st)"
  shows "read_entry (built_entries st mbytes) n = Inr c"
  using archive_names(3) [OF assms(1,2), of mbytes] by (simp add: read_entry_def zip_info_def)

lemma text_reads_backD:
  "text_reads_back rt c \<Longrightarrow> c = json_bytes rt v \<Longrightarrow> json_finite v \<Longrightarrow>
   rbind (rt_decode rt c) (rt_loads rt) = Inr (sort_json v)"
  by (auto simp: text_reads_back_def)

lemma built_raw_steps:
  assumes b: "built env allow miss st bs bid manifest"
    and reads: "list_all (text_reads_back (be_rt env)) (map snd (bs_payloads st))"
    and "list_all (\<lambda>r. startswith r ''raw/'' \<and> (\<exists>c. (r, c) \<in> set (bs_payloads st) \<and> evidence_payload env (r, c))) raws"
    and listed: "set (map fst (bs_payloads st)) \<subseteq> set listed"
  shows "rfold (raw_step (be_rt env) (built_entries st mbytes) listed sid) acc (map PStr raws) = Inr (acc @ raws)"
  using assms(3)
proof (induction raws arbitrary: acc)
  case (Cons r raws)
  then obtain c d where c: "(r, c) \<in> set (bs_payloads st)" "startswith r ''raw/''" "json_finite (PDict d)"
    "c = json_bytes (be_rt env) (PDict d)"
    by (auto simp: evidence_payload_def)
  from c(1) reads have "text_reads_back (be_rt env) c" by (auto simp: list_all_iff)
  from text_reads_backD [OF this c(4,3)] have "rbind (rt_decode (be_rt env) c) (rt_loads (be_rt env)) = Inr (PDict (sorted_dict d))"
    by (simp add: sort_json_dict)
  then have "parse_json (be_rt env) m (read_entry (built_entries st mbytes) r) = Inr (PDict (sorted_dict d))" for m
    by (simp add: payload_reads [OF b c(1)] parse_json_def)
  moreover have "r \<in> set listed" using listed c(1) by force
  ultimately have "raw_step (be_rt env) (built_entries st mbytes) listed sid acc (PStr r) = Inr (acc @ [r])"
    using c(2) by (simp add: raw_step_def check_def)
  with Cons.IH [of "acc @ [r]"] Cons.prems show ?case by simp
qed simp

lemma built_sample_steps:
  assumes b: "built env allow miss st bs bid manifest"
    and reads: "list_all (text_reads_back (be_rt env)) (map snd (bs_payloads st))"
    and listed: "set (map fst (bs_payloads st)) \<subseteq> set listed"
    and "set xs \<subseteq> set bs" and "distinct (sn_ids scan @ map (\<lambda>b. smp_sample_id (sample_of b)) xs)"
  shows "\<exists>scan'. rfold (sample_step (be_rt env) (built_entries st mbytes) listed allow) scan (map bundled_entry xs) = Inr scan' \<and>
    sn_sample_paths scan' = sn_sample_paths scan @ map payload_of xs \<and>
    sn_raw_paths scan' = sn_raw_paths scan @ concat (map raws_of xs)"
  using assms(4,5)
proof (induction xs arbitrary: scan)
  case (Cons x xs)
  let ?rt = "be_rt env"
  note facts = built_facts [OF b]
  obtain s n raws ws where x: "x = (s, n, raws, ws)" using prod_cases4 by blast
  from Cons.prems(1) b have build: "buildable env allow s"
    by (auto simp: built_def list_all_iff x sample_of_def)
  from Cons.prems(1) facts(4) have fit: "fits env (bs_payloads st) x" by (auto simp: list_all_iff)
  let ?doc = "sample_dict (rt_isofmt ?rt) s"
  from fit have nc: "(n, json_bytes ?rt ?doc) \<in> set (bs_payloads st)" by (simp add: fits_def x)
  have "json_finite ?doc" using fit by (simp add: fits_def x)
  moreover have "text_reads_back ?rt (json_bytes ?rt ?doc)" using reads nc by (force simp: list_all_iff)
  ultimately have read: "rbind (rt_decode ?rt (json_bytes ?rt ?doc)) (rt_loads ?rt) = Inr (sort_json ?doc)"
    using text_reads_backD by blast
  have "sample_from (rt_fromiso ?rt) (sort_json ?doc) = Inr s"
    using build by (intro sample_from_sample_dict) (auto simp: buildable_def)
  with read have loaded: "load_bundled ?rt (built_entries st mbytes) n = Inr s"
    by (simp add: load_bundled_def payload_reads [OF b nc] loads_sample_def flip: rbind_assoc)
  have "smp_sample_id s \<noteq> []" using build by (auto simp: buildable_def wf_sample_def clean_def)
  moreover have "n \<in> set listed" using listed nc by force
  moreover have "smp_sample_id s \<notin> set (sn_ids scan)" using Cons.prems(2) by (simp add: x sample_of_def)
  moreover have "val_valid (validate_sample s) \<or> allow" using build by (simp add: buildable_def)
  moreover have "rfold (raw_step ?rt (built_entries st mbytes) listed sid) acc (map PStr raws) = Inr (acc @ raws)" for sid acc
  proof (rule built_raw_steps [OF b reads _ listed])
    have "set raws \<subseteq> set (concat (map raws_of bs))" using Cons.prems(1) by (auto simp: x raws_of_def)
    then have "\<forall>r \<in> set raws. startswith r ''raw/''" unfolding facts(6) [symmetric] by auto
    then show "list_all (\<lambda>r. startswith r ''raw/'' \<and> (\<exists>c. (r, c) \<in> set (bs_payloads st) \<and> evidence_payload env (r, c))) raws"
      using fit by (auto simp: fits_def x list_all_iff)
  qed
  ultimately have "sample_step ?rt (built_entries st mbytes) listed allow scan (bundled_entry x) = Inr
      \<lparr>sn_ids = sn_ids scan @ [smp_sample_id s], sn_sample_paths = sn_sample_paths scan @ [n],
       sn_raw_paths = sn_raw_paths scan @ raws, sn_warnings = sn_warnings scan @ val_warnings (validate_sample s)\<rparr>"
    using loaded
    by (simp add: sample_step_def bundled_entry_def x sample_entry_def required_mapping_def required_list_def check_def
        same_fields_def SAMPLE_FIELDS_def get_def get_default_def wrap_loader_def Let_def)
  with Cons.IH [of "\<lparr>sn_ids = sn_ids scan @ [smp_sample_id s], sn_sample_paths = sn_sample_paths scan @ [n],
       sn_raw_paths = sn_raw_paths scan @ raws, sn_warnings = sn_warnings scan @ val_warnings (validate_sample s)\<rparr>"]
    Cons.prems show ?case by (simp add: x payload_of_def raws_of_def sample_of_def)
qed simp

lemma built_verifies:
  assumes b: "built env allow miss st bs bid manifest" and fin: "json_finite (PDict manifest)"
    and mbytes: "mbytes = json_bytes (be_rt env) (PDict manifest)"
    and listed: "rt_unzip (be_rt env) bytes = Inr (map zip_info (archive_contents (bs_payloads st) mbytes))"
    and reads: "list_all (text_reads_back (be_rt env)) (mbytes # map snd (bs_payloads st))"
    and small: "int (length (bs_payloads st)) < MAX_ARCHIVE_FILES" "int (length mbytes) \<le> MAX_MANIFEST_BYTES"
  shows "\<exists>v. verify_bundle (be_rt env) (Some bytes) = Inr v \<and> bv_bundle_id v = bid \<and>
    bv_bundle_sha256 v = rt_sha256 (be_rt env) bytes \<and> bv_sample_count v = int (length bs) \<and>
    bv_file_count v = int (length (bs_payloads st))"
proof -
  let ?rt = "be_rt env" and ?entries = "built_entries st mbytes"
  note facts = built_facts [OF b] and manifest_entry = archive_names(4) [OF b, of mbytes]
  obtain created where m: "manifest = manifest_of env allow miss created bid st" using b by (auto simp: built_def)
  have "rbind (rt_decode ?rt mbytes) (rt_loads ?rt) = Inr (PDict manifest)"
    using text_reads_backD [OF _ mbytes fin] reads manifest_sorted [OF b] by simp
  then have manifest_ok: "verify_manifest ?rt ?entries = Inr manifest"
    using built_manifest_shape [OF b] small(2)
    by (simp add: verify_manifest_def manifest_entry zip_info_def check_def parse_json_def required_mapping_def)
  have paths: "map file_path (sort_key file_path (bs_files st)) = sort (map fst (bs_payloads st))"
    by (simp add: map_sort_key describes_list(1) [OF facts(1)])
  let ?names = "sort (map fst (bs_payloads st))"
  have samples: "\<exists>scan. verify_samples ?rt ?entries manifest ?names = Inr scan"
  proof -
    let ?init = "\<lparr>sn_ids = [], sn_sample_paths = [], sn_raw_paths = [],
        sn_warnings = List.map_filter py_str (map PStr (dedup (bs_warnings st)))\<rparr>"
    have "\<exists>scan. rfold (sample_step ?rt ?entries ?names allow) ?init (map bundled_entry bs) = Inr scan \<and>
        sn_sample_paths scan = sn_sample_paths ?init @ map payload_of bs \<and>
        sn_raw_paths scan = sn_raw_paths ?init @ concat (map raws_of bs)"
    proof (rule built_sample_steps [OF b _ _ subset_refl])
      show "distinct (sn_ids ?init @ map (\<lambda>b. smp_sample_id (sample_of b)) bs)" using b by (simp add: built_def)
    qed (use reads in simp_all)
    then obtain scan where scan: "rfold (sample_step ?rt ?entries ?names allow) ?init (map bundled_entry bs) = Inr scan"
      "sn_sample_paths scan = map payload_of bs" "sn_raw_paths scan = concat (map raws_of bs)" by auto
    have eq: "set (filter (\<lambda>p. startswith p x) ?names) = set (filter (\<lambda>p. startswith p x) (map fst (bs_payloads st)))" for x
      by auto
    then have "set (filter (\<lambda>p. startswith p ''samples/'') ?names) = set (sn_sample_paths scan)"
      "set (filter (\<lambda>p. startswith p ''raw/'') ?names) = set (sn_raw_paths scan)"
      by (simp_all only: eq facts(5,6) scan(2,3))
    then show ?thesis
      using scan(1) unfolding verify_samples_def m manifest_get required_mapping_def required_list_def facts(7)
      by (simp add: check_def get_def get_default_def)
  qed
  then obtain scan where "verify_samples ?rt ?entries manifest ?names = Inr scan" by blast
  then have "verify_archive ?rt bytes = Inr (manifest, sort_key file_path (bs_files st), scan)"
    using built_archive [OF b small] manifest_ok built_files_verify [OF b, of mbytes] paths
    by (simp add: verify_archive_def listed)
  moreover have "length (bs_files st) = length (bs_payloads st)" using facts(1) by (simp add: list_all2_lengthD)
  moreover have "length (bs_samples st) = length bs" using facts(7) by simp
  ultimately show ?thesis
    by (simp add: verify_bundle_def m manifest_get)
qed

lemma built_too_large:
  assumes b: "built env allow miss st bs bid manifest"
    and listed: "rt_unzip (be_rt env) bytes = Inr (map zip_info (archive_contents (bs_payloads st) mbytes))"
    and large: "MAX_ARCHIVE_FILES \<le> int (length (bs_payloads st)) \<or> MAX_MANIFEST_BYTES < int (length mbytes)"
  shows "\<exists>m. verify_bundle (be_rt env) (Some bytes) = Inl (BundleVerificationError m)"
proof -
  let ?infos = "map zip_info (archive_contents (bs_payloads st) mbytes)"
  have "\<exists>m. verify_archive (be_rt env) bytes = Inl (BundleVerificationError m)"
  proof (cases "archive_entries ?infos")
    case (Inl e)
    then show ?thesis using archive_entries_error [OF Inl] by (auto simp: verify_archive_def listed)
  next
    case (Inr entries)
    then have ok: "int (length ?infos) \<le> MAX_ARCHIVE_FILES" and entries: "entries = map (\<lambda>i. (ze_filename i, i)) ?infos"
      using archive_entries_ok [OF Inr] unfolding archive_ok_def by blast+
    from ok large have "MAX_MANIFEST_BYTES < int (length mbytes)" by (simp add: archive_contents_def)
    moreover have "map_of entries ''manifest.json'' = Some (zip_info (''manifest.json'', mbytes))"
      unfolding entries by (simp add: archive_contents_def zip_info_def)
    ultimately have "\<exists>m. verify_manifest (be_rt env) entries = Inl (BundleVerificationError m)"
      by (simp add: verify_manifest_def zip_info_def check_def verify_error_def)
    then show ?thesis using Inr by (auto simp: verify_archive_def listed)
  qed
  then show ?thesis by (auto simp: verify_bundle_def)
qed

section \<open>A concrete build\<close>

text \<open>
  One sample file with one evidence file. Texts are named by a letter: the sample, the evidence
  after redaction, the manifest, and the identity of the bundle.
\<close>

definition demo_raw_sample :: Sample where
  "demo_raw_sample = (demo_sample ''a'' 7 (Fin 3))\<lparr>smp_measurements := map (\<lambda>m. m\<lparr>meas_raw_output_path := Some ''r.json''\<rparr>)
     (smp_measurements (demo_sample ''a'' 7 (Fin 3)))\<rparr>"

definition demo_doc :: pyval where
  "demo_doc = sort_json (sample_dict (\<lambda>d. int_str (dt_local d)) demo_raw_sample)"

definition demo_evidence :: pyval where "demo_evidence = PDict [(''token'', PStr ''s'')]"
definition demo_redacted :: pyval where "demo_redacted = PDict [(''token'', PStr REDACTED)]"

definition demo_built_file :: "string \<Rightarrow> string \<Rightarrow> string \<Rightarrow> int \<Rightarrow> pyval" where
  "demo_built_file n t m k = PDict [(''media_type'', PStr m), (''path'', PStr n), (''redaction_count'', PInt k),
     (''sha256'', PStr (demo_digest (line t))), (''size_bytes'', PInt 2)]"

definition demo_built_manifest :: pyval where
  "demo_built_manifest = PDict [(''agent_version'', PStr ''0.1.0.dev0''),
     (''bundle_id'', PStr (''bundle-'' @ replicate 24 (CHR ''a''))), (''created_at'', PStr ''5''),
     (''files'', PList [demo_built_file ''raw/0001/01-r.json'' ''R'' raw_media 1,
        demo_built_file ''samples/0001.json'' ''S'' sample_media 0]),
     (''policy'', PDict [(''allow_invalid_samples'', PBool False), (''allow_missing_raw'', PBool False),
        (''raw_evidence_redaction'', PStr ''credential-keys-and-url-secrets-v1'')]),
     (''sample_count'', PInt 1),
     (''samples'', PList [sample_entry demo_raw_sample ''samples/0001.json'' [''raw/0001/01-r.json''] []]),
     (''schema_version'', PStr ''1.0.0''), (''warnings'', PList [PStr ''raw_evidence_redacted:a:1:1''])]"

definition demo_printer :: "pyval \<Rightarrow> string" where
  "demo_printer v = (if v = demo_doc then ''S'' else if v = demo_redacted then ''R''
     else if v = demo_built_manifest then ''M'' else ''I'')"

definition demo_contents :: "(string \<times> string) list" where
  "demo_contents = [(''manifest.json'', line ''M''), (''raw/0001/01-r.json'', line ''R''), (''samples/0001.json'', line ''S'')]"

definition demo_build_runtime :: runtime where
  "demo_build_runtime = \<lparr>rt_sha256 = demo_digest, rt_unzip = (\<lambda>_. Inr (map zip_info demo_contents)), rt_decode = Inr,
     rt_loads = (\<lambda>t. if t = ''s'' \<or> t = line ''S'' then Inr demo_doc else if t = ''e'' then Inr demo_evidence
       else if t = line ''R'' then Inr demo_redacted else if t = line ''M'' then Inr demo_built_manifest
       else if t = ''S'' then Inr (PList [PStr ''raw_evidence_redacted:a:1:1'']) else Inl (JSONDecodeError t)),
     rt_compact = demo_printer,
     rt_fromiso = (\<lambda>t. Some (utc (digits_val t))), rt_isofmt = (\<lambda>d. int_str (dt_local d))\<rparr>"

definition demo_build_env :: build_env where
  "demo_build_env = \<lparr>be_rt = demo_build_runtime, be_zip = (\<lambda>es. if es = demo_contents then ''B'' else ''Z''),
     be_bracket_host = (\<lambda>_. False), be_version = ''0.1.0.dev0'',
     be_view = \<lparr>fv_cwd = [''w''], fv_home = (\<lambda>_. None), fv_real = (\<lambda>p. p),
       fv_files = [([''w'', ''d'', ''a.json''], ''s''), ([''w'', ''d'', ''raw'', ''r.json''], ''e'')],
       fv_dirs = [([''w''], [''d'']), ([''w'', ''d''], [''a.json'', ''raw'']), ([''w'', ''d'', ''raw''], [''r.json''])]\<rparr>\<rparr>"

lemma demo_build:
  "build_bundle demo_build_env ''x'' NoFault [parse_path ''d''] ''out'' ''b.zip'' None False False (utc 5) [] =
     ([(''out/b.zip'', ''B'')], Inr (case demo_built_manifest of PDict d \<Rightarrow> d | _ \<Rightarrow> []))"
  by code_simp

text \<open>The laws of the ZIP library and of the text layer on one archive.\<close>

definition zip_reads_back :: "build_env \<Rightarrow> string \<Rightarrow> bool" where
  "zip_reads_back env bytes \<longleftrightarrow>
    (\<forall>entries. bytes = be_zip env entries \<longrightarrow> rt_unzip (be_rt env) bytes = Inr (map zip_info entries))"

definition texts_read_back :: "build_env \<Rightarrow> string \<Rightarrow> bool" where
  "texts_read_back env bytes \<longleftrightarrow> (\<forall>infos. rt_unzip (be_rt env) bytes = Inr infos \<longrightarrow>
    list_all (\<lambda>i. case ze_content i of Inl e \<Rightarrow> True | Inr c \<Rightarrow> text_reads_back (be_rt env) c) infos)"

lemma demo_zip_reads_back: "zip_reads_back demo_build_env ''B''"
  by (auto simp: zip_reads_back_def demo_build_env_def demo_build_runtime_def)

lemma demo_text_reads_back:
  assumes "c = line t" and "t \<in> {''S'', ''R'', ''M''}"
  shows "text_reads_back demo_build_runtime c"
  using assms
  by (auto simp: text_reads_back_def json_bytes_def demo_build_runtime_def demo_printer_def line_def split: if_splits)

lemma demo_texts_read_back: "texts_read_back demo_build_env ''B''"
proof -
  have rt: "be_rt demo_build_env = demo_build_runtime" by (simp add: demo_build_env_def)
  have unzip: "rt_unzip demo_build_runtime ''B'' = Inr (map zip_info demo_contents)" by (simp add: demo_build_runtime_def)
  have "text_reads_back demo_build_runtime (line ''S'')" "text_reads_back demo_build_runtime (line ''R'')"
    "text_reads_back demo_build_runtime (line ''M'')"
    by (rule demo_text_reads_back [OF refl], simp)+
  then show ?thesis
    by (simp add: texts_read_back_def rt unzip demo_contents_def zip_info_def)
qed

section \<open>Properties\<close>

text \<open>
  C21: What the agent builds, the verifier accepts. A bundle whose build succeeded verifies, with
  the bundle id, sample count and file count of the manifest, exactly when it has at most 2100
  entries and its manifest at most one MiB: two limits the builder does not check. It is assumed
  that the ZIP library lists what was written and that JSON texts of the archive are read back.
\<close>

theorem build_bundle_verifies:
  assumes "build_bundle env random fault inputs dir name raw_root allow miss created fs = (fs', Inr manifest)"
    and "map_of fs' (dir @ ''/'' @ name) = Some bytes"
    and "zip_reads_back env bytes" and "texts_read_back env bytes"
  shows "case get manifest ''files'' of PList files \<Rightarrow>
    (if int (length files) < MAX_ARCHIVE_FILES \<and> int (length (json_bytes (be_rt env) (PDict manifest))) \<le> MAX_MANIFEST_BYTES
     then (case verify_bundle (be_rt env) (Some bytes) of Inl e \<Rightarrow> False
       | Inr v \<Rightarrow> get manifest ''bundle_id'' = PStr (bv_bundle_id v) \<and> get manifest ''sample_count'' = PInt (bv_sample_count v) \<and>
           bv_file_count v = int (length files) \<and> bv_bundle_sha256 v = rt_sha256 (be_rt env) bytes)
     else \<exists>m. verify_bundle (be_rt env) (Some bytes) = Inl (BundleVerificationError m)) | _ \<Rightarrow> False"
proof -
  from build_bundle_Inr [OF assms(1)] obtain st bs bid mbytes where b: "built env allow miss st bs bid manifest"
    and fin: "json_finite (PDict manifest)" and mbytes: "mbytes = json_bytes (be_rt env) (PDict manifest)"
    and bytes: "bytes = be_zip env (archive_contents (bs_payloads st) mbytes)"
    using assms(2) by auto
  obtain created' where m: "manifest = manifest_of env allow miss created' bid st" using b by (auto simp: built_def)
  have listed: "rt_unzip (be_rt env) bytes = Inr (map zip_info (archive_contents (bs_payloads st) mbytes))"
    using assms(3) bytes by (simp add: zip_reads_back_def)
  have reads: "list_all (text_reads_back (be_rt env)) (mbytes # map snd (bs_payloads st))"
    using assms(4) by (auto simp: texts_read_back_def listed archive_contents_def list_all_iff zip_info_def)
  have len: "length (sort_key file_path (bs_files st)) = length (bs_payloads st)" "length (bs_samples st) = length bs"
    using built_facts(1,7) [OF b] by (simp_all add: list_all2_lengthD)
  show ?thesis
  proof (cases "int (length (bs_payloads st)) < MAX_ARCHIVE_FILES \<and> int (length mbytes) \<le> MAX_MANIFEST_BYTES")
    case True
    with built_verifies [OF b fin mbytes listed reads] len show ?thesis
      by (auto simp: m manifest_get mbytes [unfolded m, symmetric])
  next
    case False
    then have "MAX_ARCHIVE_FILES \<le> int (length (bs_payloads st)) \<or> MAX_MANIFEST_BYTES < int (length mbytes)" by linarith
    with built_too_large [OF b listed] False len show ?thesis
      by (auto simp: m manifest_get mbytes [unfolded m, symmetric])
  qed
qed

theorem build_bundle_verifies_witness:
  "\<exists>v. verify_bundle demo_build_runtime (Some ''B'') = Inr v \<and> bv_sample_count v = 1 \<and> bv_file_count v = 2"
proof -
  have rt: "be_rt demo_build_env = demo_build_runtime" by (simp add: demo_build_env_def)
  have small: "int (length (json_bytes demo_build_runtime demo_built_manifest)) \<le> MAX_MANIFEST_BYTES"
    "(2::int) < MAX_ARCHIVE_FILES" by code_simp+
  have "map_of [(''out/b.zip'', ''B'')] (''out'' @ ''/'' @ ''b.zip'') = Some ''B''" by simp
  from build_bundle_verifies [OF demo_build this demo_zip_reads_back demo_texts_read_back] small show ?thesis
    unfolding rt by (auto simp: demo_built_manifest_def get_def get_default_def split: sum.splits)
qed


end
