(* ===== verification/Ingestion.thy ===== *)
theory Ingestion
  imports Storage
begin

text \<open>
  \<open>ingestion.py\<close>, \<open>errors.py\<close> and \<open>config.py\<close>: one request body is checked, verified, deduplicated and
  persisted, or rejected and recorded in quarantine. The state is the database, the bundle store
  and the quarantine directory. The message of an exception is part of the message of a
  rejection; \<open>error_text\<close> is \<open>str(error)\<close>.
\<close>

section \<open>Errors, configuration, state\<close>

datatype ingestion_error =
    IngestionError int string string bool "string option"
  | Raised py_error

type_synonym 'a ingested = "ingestion_error + 'a"

definition reject :: "int \<Rightarrow> string \<Rightarrow> string \<Rightarrow> 'a ingested" where
  "reject status ecode message = Inl (IngestionError status ecode message False None)"

definition lift_py :: "'a result \<Rightarrow> 'a ingested" where
  "lift_py r = (case r of Inl e \<Rightarrow> Inl (Raised e) | Inr x \<Rightarrow> Inr x)"

lemma lift_py_Inr [simp]: "lift_py r = Inr x \<longleftrightarrow> r = Inr x"
  by (simp add: lift_py_def split: sum.split)

definition MAX_REQUEST_BYTES :: int where "MAX_REQUEST_BYTES = 128 * 1024 * 1024"

record service =
  sv_rt :: runtime
  sv_stamp :: "pydatetime \<Rightarrow> string"
  sv_pretty :: "pyval \<Rightarrow> string"
  sv_str :: "pyval \<Rightarrow> string"
  sv_max_request_bytes :: int
  sv_quarantine_payloads :: bool

text \<open>\<open>IngestionConfig.__post_init__\<close> (the path is resolved by the caller).\<close>

definition check_max_request_bytes :: "int \<Rightarrow> unit result" where
  "check_max_request_bytes n = (if n \<le> 0 \<or> MAX_REQUEST_BYTES < n
     then Inl (ConfigurationError ''max_request_bytes must be between 1 and 134217728'') else Inr ())"

text \<open>\<open>validate_bind_policy\<close>; whether a host is a loopback address is decided by the caller's \<open>ipaddress\<close>.\<close>

definition is_loopback_host :: "(string \<Rightarrow> bool option) \<Rightarrow> string \<Rightarrow> bool" where
  "is_loopback_host ip_is_loopback host = (if casefold host = ''localhost'' then True
     else case ip_is_loopback host of Some b \<Rightarrow> b | None \<Rightarrow> False)"

definition validate_bind_policy :: "(string \<Rightarrow> bool option) \<Rightarrow> string \<Rightarrow> bool \<Rightarrow> bool \<Rightarrow> unit result" where
  "validate_bind_policy ip_is_loopback host allow_anonymous allow_insecure_network =
    (let loopback = is_loopback_host ip_is_loopback host in
     if allow_anonymous \<and> \<not> loopback
     then Inl (ConfigurationError ''anonymous ingestion is restricted to loopback binds'')
     else if \<not> loopback \<and> \<not> allow_insecure_network
     then Inl (ConfigurationError ''non-loopback HTTP binding requires --allow-insecure-network; production deployments should use a TLS reverse proxy'')
     else Inr ())"

record platform =
  pf_db :: database
  pf_bundles :: files
  pf_quarantine :: files

text \<open>What the environment does to the writes of one request.\<close>

record io_faults =
  io_random :: string
  io_put :: write_fault
  io_quarantine :: write_fault
  io_db :: "py_error option"

section \<open>The request\<close>

definition header_value :: "(string \<times> string) list \<Rightarrow> string \<Rightarrow> string option" where
  "header_value headers name = map_option (\<lambda>h. strip (snd h)) (find (\<lambda>h. casefold (fst h) = casefold name) headers)"

definition is_hex :: "char \<Rightarrow> bool" where
  "is_hex c \<longleftrightarrow> is_digit c \<or> 97 \<le> code (to_lower c) \<and> code (to_lower c) \<le> 102"

definition required_digest :: "string option \<Rightarrow> string \<Rightarrow> string ingested" where
  "required_digest v field = (case v of
     Some s \<Rightarrow> if length s = 64 \<and> list_all is_hex s then Inr (casefold s)
       else reject 400 ''invalid_request_digest'' (field @ '' must be a 64-character SHA-256 digest'')
   | None \<Rightarrow> reject 400 ''invalid_request_digest'' (field @ '' must be a 64-character SHA-256 digest''))"

definition required_bundle_id :: "string option \<Rightarrow> string ingested" where
  "required_bundle_id v = (case v of
     Some s \<Rightarrow> if s = [] \<or> 256 < length s
       then reject 400 ''invalid_bundle_id'' ''X-CloudEyes-Bundle-Id must be a non-empty value of at most 256 characters''
       else Inr s
   | None \<Rightarrow> reject 400 ''invalid_bundle_id'' ''X-CloudEyes-Bundle-Id must be a non-empty value of at most 256 characters'')"

definition MEDIA_TYPE :: string where "MEDIA_TYPE = ''application/vnd.cloudeyes.bundle+zip; version=1''"

text \<open>The checks before the payload is hashed: key, digest and bundle id claimed by the request.\<close>

definition check_request ::
  "service \<Rightarrow> (string \<times> string) list \<Rightarrow> pydatetime \<Rightarrow> string \<Rightarrow> (string \<times> string \<times> string) ingested" where
  "check_request sv headers timestamp payload =
    (if \<not> aware timestamp then Inl (Raised (ValueError ''received_at must contain timezone information''))
     else if payload = [] then reject 400 ''empty_request_body'' ''submission body must not be empty''
     else if sv_max_request_bytes sv < int (length payload)
     then reject 413 ''request_too_large'' (''submission exceeds '' @ int_str (sv_max_request_bytes sv) @ '' bytes'')
     else if header_value headers ''Content-Type'' \<noteq> Some MEDIA_TYPE
     then reject 415 ''unsupported_media_type'' (''Content-Type must be '' @ MEDIA_TYPE)
     else rbind (required_digest (header_value headers ''Idempotency-Key'') ''Idempotency-Key'') (\<lambda>key.
       rbind (required_digest (header_value headers ''X-CloudEyes-Bundle-SHA256'') ''X-CloudEyes-Bundle-SHA256'') (\<lambda>digest.
       rbind (required_bundle_id (header_value headers ''X-CloudEyes-Bundle-Id'')) (\<lambda>bid.
       if key \<noteq> digest
       then reject 409 ''idempotency_digest_conflict'' ''Idempotency-Key must equal X-CloudEyes-Bundle-SHA256''
       else Inr (key, digest, bid)))))"

section \<open>Rejection with quarantine\<close>

definition reject_and_quarantine ::
  "service \<Rightarrow> io_faults \<Rightarrow> (string \<times> string) list \<Rightarrow> pydatetime \<Rightarrow> string \<Rightarrow> string \<Rightarrow> string \<Rightarrow> platform \<Rightarrow>
   platform \<times> ingestion_error" where
  "reject_and_quarantine sv io headers timestamp payload ecode message st =
    (let rt = sv_rt sv in
     case quarantine_record (rt_sha256 rt) (sv_pretty sv) (sv_quarantine_payloads sv) (io_random io) (io_quarantine io)
        payload ecode message (rt_isofmt rt timestamp) headers (sv_stamp sv timestamp) (pf_quarantine st) of
       (q, r) \<Rightarrow> (st\<lparr>pf_quarantine := q\<rparr>,
         IngestionError 400 ecode message True (case r of Inr qid \<Rightarrow> Some qid | Inl e \<Rightarrow> None)))"

section \<open>Records of a verified bundle\<close>

definition submission_id_of :: "string \<Rightarrow> string" where
  "submission_id_of digest = ''submission-'' @ take 24 digest"

definition py_to_str :: "service \<Rightarrow> pyval \<Rightarrow> string" where
  "py_to_str sv v = (case v of PStr s \<Rightarrow> s | _ \<Rightarrow> sv_str sv v)"

text \<open>\<open>int(v)\<close> on a size, which the verifier has compared with a length.\<close>

fun size_int :: "pyval \<Rightarrow> int" where
  "size_int (PInt i) = i"
| "size_int (PBool b) = (if b then 1 else 0)"
| "size_int (PFloat (Fin r)) = \<lfloor>r\<rfloor>"
| "size_int _ = 0"

definition sample_record :: "runtime \<Rightarrow> string \<Rightarrow> string \<Rightarrow> string \<Rightarrow> string \<Rightarrow> int \<Rightarrow> Sample \<Rightarrow> SampleRecord" where
  "sample_record rt submission_id path digest json raw_count s =
    \<lparr>sr_sample_id = smp_sample_id s, sr_submission_id = submission_id, sr_sample_path = path,
     sr_sample_sha256 = digest, sr_sample_json = json, sr_profile = prot_profile (smp_protocol s),
     sr_provider_id = prov_provider_id (smp_provider s), sr_provider_name = prov_name (smp_provider s),
     sr_country_code = prov_country_code (smp_provider s), sr_product = prod_product (smp_product s),
     sr_plan = prod_plan (smp_product s), sr_region = prod_region (smp_product s), sr_zone = prod_zone (smp_product s),
     sr_machine_type = mach_machine_type (smp_machine s), sr_cpu_count = mach_cpu_count (smp_machine s),
     sr_memory_bytes = mach_memory_bytes (smp_machine s), sr_architecture = mach_architecture (smp_machine s),
     sr_protocol_version = prot_version (smp_protocol s), sr_protocol_fingerprint = prot_fingerprint (smp_protocol s),
     sr_quality_status = SampleQualityStatus_value (qual_status (smp_quality s)),
     sr_created_at = rt_isofmt rt (smp_created_at s), sr_raw_evidence_count = raw_count\<rparr>"

definition file_entry :: "(string \<times> pyval) list list \<Rightarrow> string \<Rightarrow> (string \<times> pyval) list result" where
  "file_entry files path = (case find (\<lambda>f. file_path f = path) (rev files) of
     None \<Rightarrow> Inl (KeyError path) | Some f \<Rightarrow> Inr f)"

definition evidence_record ::
  "service \<Rightarrow> (string \<times> pyval) list list \<Rightarrow> string \<Rightarrow> string \<Rightarrow> pyval \<Rightarrow> EvidenceRow result" where
  "evidence_record sv files submission_id sample_id raw =
    (let path = py_to_str sv raw in
     rbind (file_entry files path) (\<lambda>f. Inr
      \<lparr>er_submission_id = submission_id, er_sample_id = sample_id, er_archive_path = path,
       er_sha256 = py_to_str sv (get f ''sha256''), er_size_bytes = size_int (get f ''size_bytes''),
       er_media_type = py_to_str sv (get f ''media_type'')\<rparr>))"

text \<open>One round of the loop over \<open>manifest["samples"]\<close>.\<close>

definition record_sample ::
  "service \<Rightarrow> (string \<times> zip_entry) list \<Rightarrow> (string \<times> pyval) list list \<Rightarrow> string \<Rightarrow> pyval \<Rightarrow>
   (SampleRecord \<times> EvidenceRow list) result" where
  "record_sample sv entries files submission_id raw =
    rbind (required_mapping raw ''samples[]'') (\<lambda>entry.
    let rt = sv_rt sv; path = py_to_str sv (get entry ''sample_path'') in
    rbind (read_entry entries path) (\<lambda>bytes.
    rbind (rt_decode rt bytes) (\<lambda>text.
    rbind (loads_sample (rt_loads rt) (rt_fromiso rt) text) (\<lambda>sample.
    rbind (canonical_json_bytes rt (sample_dict (rt_isofmt rt) sample)) (\<lambda>canonical.
    if canonical \<noteq> bytes then Inl (ValueError (''sample payload is not canonical: '' @ path)) else
    rbind (file_entry files path) (\<lambda>f.
    rbind (dyn_iter (get entry ''raw_evidence_paths'')) (\<lambda>raws.
    rbind (rmap (evidence_record sv files submission_id (smp_sample_id sample)) raws) (\<lambda>evidence.
    Inr (sample_record rt submission_id path (py_to_str sv (get f ''sha256'')) text (int (length raws)) sample,
      evidence)))))))))"

text \<open>The body of the \<open>try\<close>: verification, then the records. The manifest is read again.\<close>

definition read_bundle ::
  "service \<Rightarrow> string \<Rightarrow> string \<Rightarrow> string \<Rightarrow>
   (BundleVerification \<times> (string \<times> pyval) list \<times> SampleRecord list \<times> EvidenceRow list) result" where
  "read_bundle sv payload claimed_bundle_id submission_id =
    (let rt = sv_rt sv in
    rbind (verify_bundle rt (Some payload)) (\<lambda>v.
    rbind (rt_unzip rt payload) (\<lambda>infos.
    let entries = map (\<lambda>info. (ze_filename info, info)) infos in
    rbind (read_entry entries ''manifest.json'') (\<lambda>bytes. rbind (rt_decode rt bytes) (\<lambda>text. rbind (rt_loads rt text) (\<lambda>value.
    rbind (as_mapping value ''manifest'') (\<lambda>manifest.
    if bv_bundle_id v \<noteq> claimed_bundle_id
    then Inl (ValueError ''declared bundle ID does not match the verified manifest'') else
    rbind (dyn_iter (get manifest ''files'')) (\<lambda>raw_files.
    rbind (rmap (\<lambda>f. required_mapping f ''files[]'') raw_files) (\<lambda>files.
    rbind (dyn_iter (get manifest ''samples'')) (\<lambda>raw_samples.
    rbind (rmap (record_sample sv entries files submission_id) raw_samples) (\<lambda>rows.
    Inr (v, manifest, map fst rows, concat (map snd rows)))))))))))))"

text \<open>The exceptions of the \<open>except\<close> clause.\<close>

fun rejects_bundle :: "py_error \<Rightarrow> bool" where
  "rejects_bundle (BadZipFile _) = True"
| "rejects_bundle e = (is_key_error e \<or> is_os_error e \<or> is_value_error e)"

fun error_text :: "py_error \<Rightarrow> string" where
  "error_text (ValueError m) = m"
| "error_text (BundleVerificationError m) = m"
| "error_text (KeyError m) = m"
| "error_text (OSError m) = m"
| "error_text (FileNotFoundError m) = m"
| "error_text (FileExistsError m) = m"
| "error_text (JSONDecodeError m) = m"
| "error_text (BadZipFile m) = m"
| "error_text (SampleValidationError ms) = join ''; '' ms"
| "error_text _ = []"

section \<open>Storing and persisting\<close>

definition unlink_created :: "bool \<Rightarrow> string \<Rightarrow> platform \<Rightarrow> platform" where
  "unlink_created created digest st =
    (if created then st\<lparr>pf_bundles := remove_bundle digest (pf_bundles st)\<rparr> else st)"

definition store_and_persist ::
  "service \<Rightarrow> io_faults \<Rightarrow> string \<Rightarrow> string \<Rightarrow> string \<Rightarrow> IngestionReceipt \<Rightarrow> (string \<times> pyval) list \<Rightarrow>
   SampleRecord list \<Rightarrow> EvidenceRow list \<Rightarrow> platform \<Rightarrow> platform \<times> IngestionReceipt ingested" where
  "store_and_persist sv io payload key digest receipt manifest samples evidence st =
    (let rt = sv_rt sv in
     case store_put (rt_sha256 rt) (io_random io) (io_put io) payload digest (pf_bundles st) of
       (fs, Inl e) \<Rightarrow> (st\<lparr>pf_bundles := fs\<rparr>, Inl (Raised e))
     | (fs, Inr (path, created)) \<Rightarrow>
        let st1 = st\<lparr>pf_bundles := fs\<rparr>;
            row = submission_row rt receipt key (''bundles/'' @ path) (py_to_str sv (get manifest ''agent_version''))
              (py_to_str sv (get manifest ''created_at''))
        in case persist (io_db io) row samples evidence (pf_db st1) of
             (db, Inr _) \<Rightarrow> (st1\<lparr>pf_db := db\<rparr>, Inr receipt)
           | (db, Inl (IntegrityError m)) \<Rightarrow>
               (case by_bundle_sha256 rt digest db of
                  Inl e \<Rightarrow> (st1\<lparr>pf_db := db\<rparr>, Inl (Raised e))
                | Inr (Some duplicate) \<Rightarrow> (st1\<lparr>pf_db := db\<rparr>, Inr duplicate)
                | Inr None \<Rightarrow> (unlink_created created digest (st1\<lparr>pf_db := db\<rparr>),
                    reject 409 ''ingestion_conflict'' ''bundle conflicts with existing persisted data''))
           | (db, Inl e) \<Rightarrow> (unlink_created created digest (st1\<lparr>pf_db := db\<rparr>), Inl (Raised e)))"

definition accepted_receipt :: "BundleVerification \<Rightarrow> string \<Rightarrow> pydatetime \<Rightarrow> IngestionReceipt" where
  "accepted_receipt v submission_id timestamp =
    \<lparr>ir_schema_version = ''1.0.0'', ir_submission_id = submission_id, ir_status = ''accepted'',
     ir_received_at = timestamp, ir_bundle_id = bv_bundle_id v, ir_bundle_sha256 = bv_bundle_sha256 v,
     ir_sample_count = bv_sample_count v, ir_file_count = bv_file_count v,
     ir_warnings = map PStr (bv_warnings v), ir_duplicate_of = None\<rparr>"

section \<open>ingest\<close>

text \<open>The two lookups that make a repeated submission a duplicate.\<close>

definition find_duplicate :: "runtime \<Rightarrow> string \<Rightarrow> string \<Rightarrow> database \<Rightarrow> IngestionReceipt option ingested" where
  "find_duplicate rt key digest db =
    rbind (lift_py (by_idempotency_key rt key db)) (\<lambda>existing. case existing of
      Some r \<Rightarrow> if ir_bundle_sha256 r \<noteq> digest
        then reject 409 ''idempotency_key_reused'' ''Idempotency-Key was already used for different content''
        else Inr (Some r)
    | None \<Rightarrow> lift_py (by_bundle_sha256 rt digest db))"

definition ingest ::
  "service \<Rightarrow> io_faults \<Rightarrow> (string \<times> string) list \<Rightarrow> pydatetime \<Rightarrow> string \<Rightarrow> platform \<Rightarrow>
   platform \<times> IngestionReceipt ingested" where
  "ingest sv io headers timestamp payload st =
    (case check_request sv headers timestamp payload of
       Inl e \<Rightarrow> (st, Inl e)
     | Inr (key, claimed, claimed_bundle_id) \<Rightarrow>
        let rt = sv_rt sv; digest = rt_sha256 rt payload in
        if digest \<noteq> claimed then
          (case reject_and_quarantine sv io headers timestamp payload ''bundle_digest_mismatch''
             ''request body SHA-256 does not match the declared digest'' st of (st', e) \<Rightarrow> (st', Inl e))
        else (case find_duplicate rt key digest (pf_db st) of
          Inl e \<Rightarrow> (st, Inl e)
        | Inr (Some receipt) \<Rightarrow> (st, Inr receipt)
        | Inr None \<Rightarrow>
           (case read_bundle sv payload claimed_bundle_id (submission_id_of digest) of
              Inl e \<Rightarrow> if rejects_bundle e
                then (case reject_and_quarantine sv io headers timestamp payload ''invalid_bundle''
                  (''bundle verification failed: '' @ error_text e) st of (st', e') \<Rightarrow> (st', Inl e'))
                else (st, Inl (Raised e))
            | Inr (v, manifest, samples, evidence) \<Rightarrow>
                let conflicts = existing_sample_ids (map sr_sample_id samples) (pf_db st) in
                if conflicts \<noteq> []
                then (st, reject 409 ''sample_already_ingested''
                  (''sample IDs already exist: '' @ join '', '' (take 10 conflicts)))
                else store_and_persist sv io payload key digest
                  (accepted_receipt v (submission_id_of digest) timestamp) manifest samples evidence st)))"

section \<open>What the records of a bundle satisfy\<close>

lemma evidence_record_Inr:
  "evidence_record sv files sid smp raw = Inr e \<Longrightarrow> er_submission_id e = sid \<and> er_sample_id e = smp"
  by (auto simp: evidence_record_def rbind_Inr_iff Let_def)

lemma record_sample_Inr:
  assumes "record_sample sv entries files sid raw = Inr (row, evidence)"
  shows "sr_submission_id row = sid \<and> sr_raw_evidence_count row = int (length evidence) \<and>
    list_all (\<lambda>e. er_submission_id e = sid \<and> er_sample_id e = sr_sample_id row) evidence"
proof -
  from assms obtain sample raws path dg json where
    run: "rmap (evidence_record sv files sid (smp_sample_id sample)) raws = Inr evidence"
    and row: "row = sample_record (sv_rt sv) sid path dg json (int (length raws)) sample"
    unfolding record_sample_def rbind_Inr_iff Let_def if_raise_Inr_iff by blast
  from row have "sr_submission_id row = sid" "sr_sample_id row = smp_sample_id sample"
    "sr_raw_evidence_count row = int (length raws)"
    by (simp_all add: sample_record_def)
  with rmap_length [OF run] rmap_mem [OF run] evidence_record_Inr show ?thesis
    by (fastforce simp: list_all_iff)
qed

lemma verify_bundle_manifest:
  assumes "verify_bundle rt (Some bytes) = Inr b"
  shows "\<exists>infos manifest samples. rt_unzip rt bytes = Inr infos \<and>
    verify_manifest rt (map (\<lambda>info. (ze_filename info, info)) infos) = Inr manifest \<and>
    get manifest ''samples'' = PList samples \<and> bv_sample_count b = int (length samples) \<and> 1 \<le> bv_sample_count b \<and>
    bv_bundle_sha256 b = rt_sha256 rt bytes"
proof -
  from assms obtain manifest files scan infos entries where "rt_unzip rt bytes = Inr infos"
    "archive_entries infos = Inr entries" "verify_manifest rt entries = Inr manifest"
    and b: "bv_sample_count b = (case py_int (get manifest ''sample_count'') of Some n \<Rightarrow> n | None \<Rightarrow> 0)"
      "bv_bundle_sha256 b = rt_sha256 rt bytes"
    by (auto simp: verify_bundle_def verify_archive_def rbind_Inr_iff)
  moreover from archive_entries_ok [OF this(2)] have "entries = map (\<lambda>info. (ze_filename info, info)) infos"
    by (simp add: archive_ok_def)
  ultimately show ?thesis using verify_manifest_ok [of rt entries manifest] by auto
qed

lemma verify_manifest_read:
  assumes "verify_manifest rt entries = Inr manifest"
  shows "\<exists>bytes text. read_entry entries ''manifest.json'' = Inr bytes \<and> rt_decode rt bytes = Inr text \<and>
    rt_loads rt text = Inr (PDict manifest)"
  using verify_manifest_shape(1) [OF assms] by (auto simp: read_entry_def rbind_Inr_iff)

lemma read_bundle_facts:
  assumes "read_bundle sv payload bid sid = Inr (v, manifest, samples, evidence)"
  shows "verify_bundle (sv_rt sv) (Some payload) = Inr v \<and> bv_bundle_id v = bid \<and>
    bv_bundle_sha256 v = rt_sha256 (sv_rt sv) payload \<and> bv_sample_count v = int (length samples) \<and>
    (\<exists>rows. samples = map fst rows \<and> evidence = concat (map snd rows) \<and>
      list_all (\<lambda>(row, es). sr_submission_id row = sid \<and> sr_raw_evidence_count row = int (length es) \<and>
        list_all (\<lambda>e. er_submission_id e = sid \<and> er_sample_id e = sr_sample_id row) es) rows)"
proof -
  from assms obtain infos files raw_samples rows bytes decoded val where
    v: "verify_bundle (sv_rt sv) (Some payload) = Inr v" and u: "rt_unzip (sv_rt sv) payload = Inr infos"
    and m: "read_entry (map (\<lambda>info. (ze_filename info, info)) infos) ''manifest.json'' = Inr bytes"
      "rt_decode (sv_rt sv) bytes = Inr decoded" "rt_loads (sv_rt sv) decoded = Inr val"
      "as_mapping val ''manifest'' = Inr manifest"
    and bid: "bv_bundle_id v = bid" and raw: "dyn_iter (get manifest ''samples'') = Inr raw_samples"
    and rows: "rmap (record_sample sv (map (\<lambda>info. (ze_filename info, info)) infos) files sid) raw_samples = Inr rows"
    and out: "samples = map fst rows" "evidence = concat (map snd rows)"
    unfolding read_bundle_def rbind_Inr_iff Let_def if_raise_Inr_iff by auto
  from verify_bundle_manifest [OF v] obtain manifest' raws where
    vm: "verify_manifest (sv_rt sv) (map (\<lambda>info. (ze_filename info, info)) infos) = Inr manifest'"
    and n: "get manifest' ''samples'' = PList raws" "bv_sample_count v = int (length raws)"
      "bv_bundle_sha256 v = rt_sha256 (sv_rt sv) payload"
    using u by auto
  from verify_manifest_read [OF vm] m have "manifest = manifest'" by (auto simp: as_mapping_def)
  with n raw rmap_length [OF rows] have "bv_sample_count v = int (length samples)" by (simp add: out)
  moreover have "list_all (\<lambda>(row, es). sr_submission_id row = sid \<and> sr_raw_evidence_count row = int (length es) \<and>
      list_all (\<lambda>e. er_submission_id e = sid \<and> er_sample_id e = sr_sample_id row) es) rows"
    using rmap_mem [OF rows] record_sample_Inr by (fastforce simp: list_all_iff)
  ultimately show ?thesis using v bid n(3) out by blast
qed

section \<open>The outcomes of one request\<close>

lemma reject_and_quarantine_db:
  "reject_and_quarantine sv io headers timestamp payload ecode message st = (st', e) \<Longrightarrow>
   pf_db st' = pf_db st \<and> pf_bundles st' = pf_bundles st"
  by (auto simp: reject_and_quarantine_def Let_def split: prod.splits)

text \<open>An accepted submission: its rows are appended and the bundle store holds its bytes.\<close>

definition row_for :: "service \<Rightarrow> string \<Rightarrow> IngestionReceipt \<Rightarrow> SubmissionRow \<Rightarrow> bool" where
  "row_for sv digest receipt row \<longleftrightarrow>
    sub_submission_id row = ir_submission_id receipt \<and> sub_bundle_sha256 row = ir_bundle_sha256 receipt \<and>
    sub_idempotency_key row = digest \<and> sub_bundle_path row = ''bundles/'' @ bundle_path digest \<and>
    sub_sample_count row = ir_sample_count receipt \<and> sub_file_count row = ir_file_count receipt \<and>
    sub_bundle_id row = ir_bundle_id receipt \<and> sub_received_at row = rt_isofmt (sv_rt sv) (ir_received_at receipt) \<and>
    sub_warnings_json row = rt_compact (sv_rt sv) (PList (ir_warnings receipt)) \<and> sub_status row = ''accepted''"

lemma row_for_submission_row:
  "row_for sv digest receipt (submission_row (sv_rt sv) receipt digest (''bundles/'' @ bundle_path digest) av ca)"
  by (simp add: row_for_def submission_row_def)

definition accepts ::
  "service \<Rightarrow> string \<Rightarrow> IngestionReceipt \<Rightarrow> SampleRecord list \<Rightarrow> EvidenceRow list \<Rightarrow> platform \<Rightarrow> platform \<Rightarrow> bool" where
  "accepts sv digest receipt samples evidence st st' \<longleftrightarrow>
    (\<exists>row fault. persist fault row samples evidence (pf_db st) = (pf_db st', Inr ()) \<and> row_for sv digest receipt row) \<and>
    (\<exists>c. store_lookup (pf_bundles st') = (store_lookup (pf_bundles st))(digest \<mapsto> c) \<and>
      rt_sha256 (sv_rt sv) c = digest) \<and>
    pf_quarantine st' = pf_quarantine st"

lemma acceptsI:
  assumes "persist fault (submission_row (sv_rt sv) receipt digest (''bundles/'' @ bundle_path digest) av ca)
      samples evidence (pf_db st) = (pf_db st', Inr ())"
    and "store_lookup (pf_bundles st') = (store_lookup (pf_bundles st))(digest \<mapsto> c)"
    and "rt_sha256 (sv_rt sv) c = digest" and "pf_quarantine st' = pf_quarantine st"
  shows "accepts sv digest receipt samples evidence st st'"
  using assms row_for_submission_row unfolding accepts_def by blast

lemma remove_put: "store_lookup fs digest = None \<Longrightarrow>
  store_lookup (remove_bundle digest (put_bytes random digest c fs)) = store_lookup fs"
  by (auto simp: fun_eq_iff bundle_files.lookup_delete bundle_files.lookup_put)

lemma store_and_persist_cases:
  assumes run: "store_and_persist sv io payload digest digest receipt manifest samples evidence st = (st', r)"
    and none: "by_bundle_sha256 (sv_rt sv) digest (pf_db st) = Inr None"
  shows "(\<exists>e. r = Inl e \<and> pf_db st' = pf_db st \<and> store_lookup (pf_bundles st') = store_lookup (pf_bundles st)) \<or>
    (r = Inr receipt \<and> accepts sv digest receipt samples evidence st st')"
proof -
  let ?rt = "sv_rt sv"
  obtain fs pr where put: "store_put (rt_sha256 ?rt) (io_random io) (io_put io) payload digest (pf_bundles st) = (fs, pr)"
    by force
  consider (fails) e where "pr = Inl (OSError e)" "store_lookup fs = store_lookup (pf_bundles st)"
    | (kept) c where "pr = Inr (bundle_path digest, False)" "fs = pf_bundles st"
        "store_lookup (pf_bundles st) digest = Some c" "rt_sha256 ?rt c = digest"
    | (made) "pr = Inr (bundle_path digest, True)" "fs = put_bytes (io_random io) digest payload (pf_bundles st)"
        "rt_sha256 ?rt payload = digest" "store_lookup (pf_bundles st) digest = None"
    using store_put_cases [OF put] by (elim disjE exE conjE) (rule that, assumption+)+
  then show ?thesis
  proof cases
    case fails
    then show ?thesis using run put by (auto simp: store_and_persist_def Let_def)
  next
    case kept
    let ?row = "submission_row ?rt receipt digest (''bundles/'' @ bundle_path digest)
      (py_to_str sv (get manifest ''agent_version'')) (py_to_str sv (get manifest ''created_at''))"
    obtain db res where p: "persist (io_db io) ?row samples evidence (pf_db st) = (db, res)" by force
    have same: "store_lookup (pf_bundles st) = (store_lookup (pf_bundles st))(digest \<mapsto> c)"
      using kept(3) by auto
    show ?thesis
    proof (cases res)
      case (Inl e)
      from p Inl have "db = pf_db st" by (auto dest: persist_Inl)
      then show ?thesis using run put kept(1,2) p Inl none
        by (cases e) (auto simp: store_and_persist_def Let_def unlink_created_def reject_def)
    next
      case (Inr u)
      have st': "st' = st\<lparr>pf_bundles := fs, pf_db := db\<rparr>" and "r = Inr receipt"
        using run put kept(1) p Inr by (auto simp: store_and_persist_def Let_def)
      moreover have "accepts sv digest receipt samples evidence st st'"
        using p Inr same kept(2,4) unfolding st' by (intro acceptsI [where c = c]) simp_all
      ultimately show ?thesis by simp
    qed
  next
    case made
    let ?row = "submission_row ?rt receipt digest (''bundles/'' @ bundle_path digest)
      (py_to_str sv (get manifest ''agent_version'')) (py_to_str sv (get manifest ''created_at''))"
    obtain db res where p: "persist (io_db io) ?row samples evidence (pf_db st) = (db, res)" by force
    have upd: "store_lookup fs = (store_lookup (pf_bundles st))(digest \<mapsto> payload)"
      unfolding made(2) by (auto simp: bundle_files.lookup_put)
    show ?thesis
    proof (cases res)
      case (Inl e)
      from p Inl have "db = pf_db st" by (auto dest: persist_Inl)
      then show ?thesis using run put made(1,2,4) p Inl none
        by (cases e) (auto simp: store_and_persist_def Let_def unlink_created_def reject_def remove_put)
    next
      case (Inr u)
      have st': "st' = st\<lparr>pf_bundles := fs, pf_db := db\<rparr>" and "r = Inr receipt"
        using run put made(1) p Inr by (auto simp: store_and_persist_def Let_def)
      moreover have "accepts sv digest receipt samples evidence st st'"
        using p Inr upd made(3) unfolding st' by (intro acceptsI [where c = payload]) simp_all
      ultimately show ?thesis by simp
    qed
  qed
qed

lemma lookup_receipt_Some:
  "lookup_receipt rt P db = Inr (Some r) \<Longrightarrow>
   \<exists>row. find P (db_submissions db) = Some row \<and> P row \<and> row \<in> set (db_submissions db) \<and> receipt_from_row rt True row = Inr r"
  by (auto simp: lookup_receipt_def rbind_Inr_iff find_Some_iff in_set_conv_nth split: option.splits)

lemma lookup_receipt_None: "lookup_receipt rt P db = Inr None \<Longrightarrow> find P (db_submissions db) = None"
  by (auto simp: lookup_receipt_def rbind_Inr_iff split: option.splits)

lemma receipt_sha: "receipt_from_row rt d row = Inr r \<Longrightarrow> ir_bundle_sha256 r = sub_bundle_sha256 row \<and>
  ir_status r = (if d then ''duplicate'' else sub_status row)"
  by (auto simp: receipt_from_row_def rbind_Inr_iff split: option.splits)

lemma find_duplicate_cases:
  assumes "find_duplicate rt key digest db = Inr r"
  shows "case r of None \<Rightarrow> by_bundle_sha256 rt digest db = Inr None
    | Some receipt \<Rightarrow> \<exists>row. row \<in> set (db_submissions db) \<and> sub_bundle_sha256 row = digest \<and>
        receipt_from_row rt True row = Inr receipt"
proof -
  from assms obtain existing where key: "by_idempotency_key rt key db = Inr existing"
    and rest: "(case existing of Some r \<Rightarrow> if ir_bundle_sha256 r \<noteq> digest
        then reject 409 ''idempotency_key_reused'' ''Idempotency-Key was already used for different content''
        else Inr (Some r)
      | None \<Rightarrow> lift_py (by_bundle_sha256 rt digest db)) = Inr r"
    by (auto simp: find_duplicate_def rbind_Inr_iff)
  show ?thesis
  proof (cases existing)
    case None
    then show ?thesis using rest
      by (cases r) (auto simp: by_bundle_sha256_def dest: lookup_receipt_Some)
  next
    case (Some x)
    then have "r = Some x" "ir_bundle_sha256 x = digest" using rest by (auto simp: reject_def split: if_splits)
    moreover from key Some obtain row where "row \<in> set (db_submissions db)" "receipt_from_row rt True row = Inr x"
      by (auto simp: by_idempotency_key_def dest: lookup_receipt_Some)
    ultimately show ?thesis using receipt_sha by fastforce
  qed
qed

lemma check_request_Inr:
  assumes "check_request sv headers timestamp payload = Inr (key, digest, bid)"
  shows "key = digest \<and> header_value headers ''X-CloudEyes-Bundle-Id'' = Some bid \<and> aware timestamp \<and>
    0 < length payload \<and> int (length payload) \<le> sv_max_request_bytes sv"
  using assms
  by (auto simp: check_request_def rbind_Inr_iff reject_def required_bundle_id_def split: if_splits option.splits)

lemma ingest_cases:
  assumes run: "ingest sv io headers timestamp payload st = (st', r)"
  shows "(\<exists>e. r = Inl e \<and> pf_db st' = pf_db st \<and> store_lookup (pf_bundles st') = store_lookup (pf_bundles st)) \<or>
    (\<exists>row receipt. r = Inr receipt \<and> st' = st \<and> row \<in> set (db_submissions (pf_db st)) \<and>
      sub_bundle_sha256 row = rt_sha256 (sv_rt sv) payload \<and> receipt_from_row (sv_rt sv) True row = Inr receipt) \<or>
    (\<exists>bid v manifest samples evidence. header_value headers ''X-CloudEyes-Bundle-Id'' = Some bid \<and> aware timestamp \<and>
      int (length payload) \<le> sv_max_request_bytes sv \<and>
      read_bundle sv payload bid (submission_id_of (rt_sha256 (sv_rt sv) payload)) = Inr (v, manifest, samples, evidence) \<and>
      r = Inr (accepted_receipt v (submission_id_of (rt_sha256 (sv_rt sv) payload)) timestamp) \<and>
      accepts sv (rt_sha256 (sv_rt sv) payload)
        (accepted_receipt v (submission_id_of (rt_sha256 (sv_rt sv) payload)) timestamp) samples evidence st st')"
proof (cases "check_request sv headers timestamp payload")
  case (Inl e)
  with run show ?thesis by (auto simp: ingest_def)
next
  case (Inr req)
  obtain key claimed bid where req: "req = (key, claimed, bid)" using prod_cases3 by blast
  note rq = Inr [unfolded req]
  note facts = check_request_Inr [OF rq]
  let ?digest = "rt_sha256 (sv_rt sv) payload"
  show ?thesis
  proof (cases "?digest = claimed")
    case False
    then show ?thesis using run rq
      by (auto simp: ingest_def Let_def dest: reject_and_quarantine_db split: prod.splits)
  next
    case True
    show ?thesis
    proof (cases "find_duplicate (sv_rt sv) key claimed (pf_db st)")
      case (Inl e)
      then show ?thesis using run rq True by (auto simp: ingest_def Let_def)
    next
      case (Inr dup)
      note dupf = find_duplicate_cases [OF Inr]
      show ?thesis
      proof (cases dup)
        case (Some receipt)
        then show ?thesis using run rq True Inr dupf by (auto simp: ingest_def Let_def)
      next
        case None
        show ?thesis
        proof (cases "read_bundle sv payload bid (submission_id_of claimed)")
          case (Inl e)
          then show ?thesis using run rq True Inr None \<open>find_duplicate _ _ _ _ = _\<close>
            by (auto simp: ingest_def Let_def dest: reject_and_quarantine_db split: prod.splits if_splits)
        next
          case (Inr rb)
          obtain v manifest samples evidence where rb: "rb = (v, manifest, samples, evidence)"
            using prod_cases4 by blast
          show ?thesis
          proof (cases "existing_sample_ids (map sr_sample_id samples) (pf_db st) = []")
            case False
            then show ?thesis using run rq True None Inr \<open>find_duplicate _ _ _ _ = _\<close>
              by (auto simp: ingest_def Let_def rb reject_def)
          next
            case nc: True
            have "store_and_persist sv io payload claimed claimed
                (accepted_receipt v (submission_id_of claimed) timestamp) manifest samples evidence st = (st', r)"
              using run rq True None Inr \<open>find_duplicate _ _ _ _ = _\<close> nc facts by (simp add: ingest_def Let_def rb)
            from store_and_persist_cases [OF this] dupf None show ?thesis
              using Inr rb facts True by auto
          qed
        qed
      qed
    qed
  qed
qed

section \<open>The invariant of the platform\<close>

definition stored_for :: "service \<Rightarrow> files \<Rightarrow> SubmissionRow \<Rightarrow> bool" where
  "stored_for sv bundles r \<longleftrightarrow> sub_submission_id r = submission_id_of (sub_bundle_sha256 r) \<and>
    sub_idempotency_key r = sub_bundle_sha256 r \<and>
    sub_bundle_path r = ''bundles/'' @ bundle_path (sub_bundle_sha256 r) \<and>
    (case store_lookup bundles (sub_bundle_sha256 r) of
       None \<Rightarrow> False | Some c \<Rightarrow> rt_sha256 (sv_rt sv) c = sub_bundle_sha256 r)"

definition samples_of :: "string \<Rightarrow> SampleRecord list \<Rightarrow> SampleRecord list" where
  "samples_of sid = filter (\<lambda>s. sr_submission_id s = sid)"

definition evidence_of_sample :: "string \<Rightarrow> EvidenceRow list \<Rightarrow> EvidenceRow list" where
  "evidence_of_sample smp = filter (\<lambda>e. er_sample_id e = smp)"

text \<open>
  Besides the constraints of the tables: every submission is filed under the digest of its bundle,
  which the store holds, and the counts stored with submissions and samples are those of their rows.
\<close>

definition platform_inv :: "service \<Rightarrow> platform \<Rightarrow> bool" where
  "platform_inv sv st \<longleftrightarrow> db_inv (pf_db st) \<and>
    list_all (stored_for sv (pf_bundles st)) (db_submissions (pf_db st)) \<and>
    list_all (\<lambda>r. sub_sample_count r = int (length (samples_of (sub_submission_id r) (db_samples (pf_db st)))))
      (db_submissions (pf_db st)) \<and>
    list_all (\<lambda>s. sr_raw_evidence_count s = int (length (evidence_of_sample (sr_sample_id s) (db_evidence (pf_db st)))))
      (db_samples (pf_db st))"

definition empty_platform :: platform where
  "empty_platform = \<lparr>pf_db = empty_database, pf_bundles = [], pf_quarantine = []\<rparr>"

lemma platform_inv_empty [simp]: "platform_inv sv empty_platform"
  by (simp add: platform_inv_def empty_platform_def db_inv_empty [unfolded empty_database_def] empty_database_def)

lemma platform_inv_cong:
  "pf_db st' = pf_db st \<Longrightarrow> store_lookup (pf_bundles st') = store_lookup (pf_bundles st) \<Longrightarrow>
   platform_inv sv st \<Longrightarrow> platform_inv sv st'"
  by (simp add: platform_inv_def stored_for_def [abs_def])

lemma evidence_of_rows:
  assumes "distinct (map (\<lambda>x. sr_sample_id (fst x)) rows)"
    and "list_all (\<lambda>(row, es). list_all (\<lambda>e. er_sample_id e = sr_sample_id row) es) rows"
    and "(row, es) \<in> set rows"
  shows "evidence_of_sample (sr_sample_id row) (concat (map snd rows)) = es"
  using assms
proof (induction rows)
  case (Cons x rows)
  have none: "evidence_of_sample i es' = []" if "list_all (\<lambda>e. er_sample_id e = j) es'" "i \<noteq> j" for i j es'
    using that by (auto simp: evidence_of_sample_def filter_empty_conv list_all_iff)
  have all: "evidence_of_sample i es' = es'" if "list_all (\<lambda>e. er_sample_id e = i) es'" for i es'
    using that by (auto simp: evidence_of_sample_def filter_id_conv list_all_iff)
  have split: "evidence_of_sample i (xs @ ys) = evidence_of_sample i xs @ evidence_of_sample i ys" for i xs ys
    by (simp add: evidence_of_sample_def)
  have nil: "evidence_of_sample i (concat (map snd rows')) = []"
    if "list_all (\<lambda>(row, es). list_all (\<lambda>e. er_sample_id e = sr_sample_id row) es) rows'"
      "i \<notin> set (map (\<lambda>x. sr_sample_id (fst x)) rows')" for i rows'
    using that by (induction rows') (auto simp: split none, simp add: evidence_of_sample_def)
  show ?case
  proof (cases "x = (row, es)")
    case True
    then show ?thesis using Cons.prems nil [of rows "sr_sample_id row"] by (simp add: split all)
  next
    case False
    then have mem: "(row, es) \<in> set rows" using Cons.prems(3) by auto
    then have "sr_sample_id (fst x) \<noteq> sr_sample_id row"
      using Cons.prems(1) by (force simp: image_iff)
    then have "evidence_of_sample (sr_sample_id row) (snd x) = []"
      using Cons.prems(2) by (cases x) (auto intro: none)
    then show ?thesis using Cons mem by (simp add: split)
  qed
qed simp

lemma accepts_inv:
  assumes inv: "platform_inv sv st" and acc: "accepts sv digest receipt samples evidence st st'"
    and rows: "samples = map fst rows" "evidence = concat (map snd rows)"
      "list_all (\<lambda>(row, es). sr_submission_id row = ir_submission_id receipt \<and> sr_raw_evidence_count row = int (length es) \<and>
        list_all (\<lambda>e. er_submission_id e = ir_submission_id receipt \<and> er_sample_id e = sr_sample_id row) es) rows"
    and receipt: "ir_submission_id receipt = submission_id_of digest" "ir_bundle_sha256 receipt = digest"
      "ir_sample_count receipt = int (length samples)"
  shows "platform_inv sv st'"
proof -
  let ?db = "pf_db st" and ?db' = "pf_db st'" and ?sid = "submission_id_of digest"
  from acc obtain row fault c where per: "persist fault row samples evidence ?db = (?db', Inr ())"
    and row: "row_for sv digest receipt row"
    and store: "store_lookup (pf_bundles st') = (store_lookup (pf_bundles st))(digest \<mapsto> c)"
      "rt_sha256 (sv_rt sv) c = digest"
    unfolding accepts_def by blast
  note p = persist_Inr [OF per]
  from inv have db: "db_inv ?db" by (simp add: platform_inv_def)
  with p have db': "db_inv ?db'" by simp
  have rid: "sub_submission_id row = ?sid" "sub_bundle_sha256 row = digest" "sub_sample_count row = int (length samples)"
    using row receipt by (simp_all add: row_for_def)
  have new_sub: "list_all (\<lambda>s. sr_submission_id s = ?sid) samples"
    using rows(1,3) receipt(1) by (fastforce simp: list_all_iff)
  have old_sub: "list_all (\<lambda>s. sr_submission_id s \<noteq> ?sid) (db_samples ?db)"
  proof -
    have "?sid \<notin> set (map sub_submission_id (db_submissions ?db))" using p rid(1) by metis
    moreover have "\<forall>s \<in> set (db_samples ?db). sr_submission_id s \<in> set (map sub_submission_id (db_submissions ?db))"
      using db unfolding db_inv_def list_all_iff by blast
    ultimately show ?thesis unfolding list_all_iff by metis
  qed
  have stored: "list_all (stored_for sv (pf_bundles st')) (db_submissions ?db')"
    using inv p store row receipt unfolding platform_inv_def
    by (auto simp: stored_for_def row_for_def list_all_iff split: option.splits)
  have counts: "list_all (\<lambda>r. sub_sample_count r = int (length (samples_of (sub_submission_id r) (db_samples ?db'))))
      (db_submissions ?db')"
  proof -
    have "samples_of (sub_submission_id r) (db_samples ?db') = samples_of (sub_submission_id r) (db_samples ?db)"
      if "r \<in> set (db_submissions ?db)" for r
    proof -
      have "?sid \<notin> sub_submission_id ` set (db_submissions ?db)" using p rid(1) by simp
      then have "sub_submission_id r \<noteq> ?sid" using that by (metis image_eqI)
      then show ?thesis using new_sub p by (auto simp: samples_of_def list_all_iff filter_empty_conv)
    qed
    moreover have "samples_of ?sid (db_samples ?db') = map stored_row samples"
      using new_sub old_sub p by (auto simp: samples_of_def list_all_iff filter_empty_conv filter_id_conv)
    ultimately show ?thesis using inv p rid by (auto simp: platform_inv_def list_all_iff)
  qed
  have ids: "distinct (map sr_sample_id (db_samples ?db @ samples))"
    using db' p by (simp add: db_inv_def)
  have esplit: "evidence_of_sample i (xs @ ys) = evidence_of_sample i xs @ evidence_of_sample i ys" for i xs ys
    by (simp add: evidence_of_sample_def)
  have "list_all (\<lambda>s. sr_raw_evidence_count s = int (length (evidence_of_sample (sr_sample_id s) (db_evidence ?db'))))
      (db_samples ?db')"
  proof -
    have new_ids: "er_sample_id e \<in> set (map sr_sample_id samples)" if "e \<in> set evidence" for e
      using that rows by (fastforce simp: list_all_iff)
    have "evidence_of_sample (sr_sample_id s) (db_evidence ?db') = evidence_of_sample (sr_sample_id s) (db_evidence ?db)"
      if "s \<in> set (db_samples ?db)" for s
    proof -
      have "set (map sr_sample_id (db_samples ?db)) \<inter> set (map sr_sample_id samples) = {}"
        using ids unfolding map_append distinct_append by blast
      then have "sr_sample_id s \<notin> set (map sr_sample_id samples)" using that by auto
      then have "evidence_of_sample (sr_sample_id s) evidence = []"
        using new_ids unfolding evidence_of_sample_def filter_empty_conv by metis
      then show ?thesis using p by (simp add: esplit)
    qed
    moreover have "sr_raw_evidence_count s = int (length (evidence_of_sample (sr_sample_id s) (db_evidence ?db')))"
      if "s \<in> set samples" for s
    proof -
      from that rows(1) obtain es where es: "(s, es) \<in> set rows" by auto
      have "evidence_of_sample (sr_sample_id s) evidence = es"
        unfolding rows(2)
      proof (rule evidence_of_rows [OF _ _ es])
        show "distinct (map (\<lambda>x. sr_sample_id (fst x)) rows)" using ids rows(1) by (simp add: comp_def)
        show "list_all (\<lambda>(row, es). list_all (\<lambda>e. er_sample_id e = sr_sample_id row) es) rows"
          using rows(3) by (fastforce simp: list_all_iff)
      qed
      moreover have "evidence_of_sample (sr_sample_id s) (db_evidence ?db) = []"
      proof -
        have "set (map sr_sample_id (db_samples ?db)) \<inter> set (map sr_sample_id samples) = {}"
          using ids unfolding map_append distinct_append by blast
        then have "sr_sample_id s \<notin> set (map sr_sample_id (db_samples ?db))" using that by auto
        moreover have "\<forall>e \<in> set (db_evidence ?db). er_sample_id e \<in> set (map sr_sample_id (db_samples ?db))"
          using db unfolding db_inv_def list_all_iff by blast
        ultimately show ?thesis unfolding evidence_of_sample_def filter_empty_conv by metis
      qed
      moreover have "sr_raw_evidence_count s = int (length es)" using rows(3) es by (auto simp: list_all_iff)
      ultimately show ?thesis using p by (simp add: esplit)
    qed
    ultimately show ?thesis using inv p by (auto simp: platform_inv_def list_all_iff)
  qed
  with db' stored counts show ?thesis by (simp add: platform_inv_def)
qed

lemma ingest_inv:
  assumes "platform_inv sv st" and "ingest sv io headers timestamp payload st = (st', r)"
  shows "platform_inv sv st'"
  using ingest_cases [OF assms(2)]
proof (elim disjE exE conjE)
  fix e assume "pf_db st' = pf_db st" "store_lookup (pf_bundles st') = store_lookup (pf_bundles st)"
  then show ?thesis using assms(1) by (rule platform_inv_cong)
next
  assume "st' = st"
  then show ?thesis using assms(1) by simp
next
  fix bid v manifest samples evidence
  let ?digest = "rt_sha256 (sv_rt sv) payload"
  assume rb: "read_bundle sv payload bid (submission_id_of ?digest) = Inr (v, manifest, samples, evidence)"
    and acc: "accepts sv ?digest (accepted_receipt v (submission_id_of ?digest) timestamp) samples evidence st st'"
  from read_bundle_facts [OF rb] obtain rows where f: "bv_bundle_sha256 v = ?digest"
    "bv_sample_count v = int (length samples)" "samples = map fst rows" "evidence = concat (map snd rows)"
    "list_all (\<lambda>(row, es). sr_submission_id row = submission_id_of ?digest \<and> sr_raw_evidence_count row = int (length es) \<and>
        list_all (\<lambda>e. er_submission_id e = submission_id_of ?digest \<and> er_sample_id e = sr_sample_id row) es) rows"
    by blast
  show ?thesis
    by (rule accepts_inv [OF assms(1) acc f(3,4)]) (use f in \<open>simp_all add: accepted_receipt_def\<close>)
qed

section \<open>Submitting again\<close>

lemma accepts_find:
  assumes inv: "platform_inv sv st" and acc: "accepts sv digest receipt samples evidence st st'"
    and receipt: "ir_bundle_sha256 receipt = digest"
  shows "\<exists>row. find (\<lambda>r. sub_idempotency_key r = digest) (db_submissions (pf_db st')) = Some row \<and>
    row_for sv digest receipt row"
proof -
  from acc obtain row fault where per: "persist fault row samples evidence (pf_db st) = (pf_db st', Inr ())"
    and row: "row_for sv digest receipt row"
    unfolding accepts_def by blast
  note p = persist_Inr [OF per]
  have "sub_bundle_sha256 row = digest" using row receipt by (simp add: row_for_def)
  with p have "digest \<notin> sub_bundle_sha256 ` set (db_submissions (pf_db st))" by auto
  moreover have "\<forall>r \<in> set (db_submissions (pf_db st)). sub_idempotency_key r = sub_bundle_sha256 r"
    using inv by (simp add: platform_inv_def list_all_iff stored_for_def)
  ultimately have "find (\<lambda>r. sub_idempotency_key r = digest) (db_submissions (pf_db st)) = None"
    by (auto simp: find_None_iff image_iff)
  moreover have "find P (xs @ [x]) = (case find P xs of None \<Rightarrow> if P x then Some x else None | Some y \<Rightarrow> Some y)"
    for P and xs :: "SubmissionRow list" and x
    by (induction xs) auto
  ultimately have "find (\<lambda>r. sub_idempotency_key r = digest) (db_submissions (pf_db st')) = Some row"
    using p row by (simp add: row_for_def)
  with row show ?thesis by blast
qed

lemma ingest_again:
  assumes inv: "platform_inv sv st" and first: "ingest sv io headers timestamp payload st = (st', Inr receipt)"
    and accepted: "ir_status receipt = ''accepted''"
    and iso: "rt_fromiso (sv_rt sv) (rt_isofmt (sv_rt sv) timestamp) = Some timestamp"
    and json: "rt_loads (sv_rt sv) (rt_compact (sv_rt sv) (PList (ir_warnings receipt))) = Inr (PList (ir_warnings receipt))"
    and later: "aware timestamp'"
  shows "ingest sv io' headers timestamp' payload st' = (st', Inr (receipt
    \<lparr>ir_status := ''duplicate'', ir_duplicate_of := Some (ir_submission_id receipt)\<rparr>))"
proof -
  let ?digest = "rt_sha256 (sv_rt sv) payload"
  from ingest_cases [OF first] accepted obtain bid v manifest samples evidence where
    rb: "read_bundle sv payload bid (submission_id_of ?digest) = Inr (v, manifest, samples, evidence)"
    and receipt: "receipt = accepted_receipt v (submission_id_of ?digest) timestamp"
    and acc: "accepts sv ?digest receipt samples evidence st st'"
    by (auto dest: receipt_sha)
  from read_bundle_facts [OF rb] have sha: "ir_bundle_sha256 receipt = ?digest"
    by (simp add: receipt accepted_receipt_def)
  from accepts_find [OF inv acc sha] obtain row where
    found: "find (\<lambda>r. sub_idempotency_key r = ?digest) (db_submissions (pf_db st')) = Some row"
    and row: "row_for sv ?digest receipt row" by blast
  let ?dup = "receipt\<lparr>ir_status := ''duplicate'', ir_duplicate_of := Some (ir_submission_id receipt)\<rparr>"
  have "receipt_from_row (sv_rt sv) True row = Inr ?dup"
    using row iso json unfolding receipt by (simp add: receipt_from_row_def row_for_def accepted_receipt_def)
  then have "by_idempotency_key (sv_rt sv) ?digest (pf_db st') = Inr (Some ?dup)"
    using found by (simp add: by_idempotency_key_def lookup_receipt_def)
  then have dup: "find_duplicate (sv_rt sv) ?digest ?digest (pf_db st') = Inr (Some ?dup)"
    using sha by (simp add: find_duplicate_def lift_py_def)
  from first obtain key claimed bid' where chk: "check_request sv headers timestamp payload = Inr (key, claimed, bid')"
    by (cases "check_request sv headers timestamp payload") (auto simp: ingest_def)
  from first chk have "claimed = ?digest"
    by (auto simp: ingest_def Let_def split: if_splits prod.splits)
  moreover from chk have "key = claimed" by (auto dest: check_request_Inr)
  moreover have "check_request sv headers timestamp' payload = check_request sv headers timestamp payload"
    using chk later by (simp add: check_request_def split: if_splits)
  ultimately show ?thesis using dup chk by (simp add: ingest_def Let_def)
qed

section \<open>Sequences of requests\<close>

record request =
  rq_io :: io_faults
  rq_headers :: "(string \<times> string) list"
  rq_time :: pydatetime
  rq_body :: string

fun serve_requests :: "service \<Rightarrow> request list \<Rightarrow> platform \<Rightarrow> platform" where
  "serve_requests sv [] st = st"
| "serve_requests sv (r # rs) st =
     serve_requests sv rs (fst (ingest sv (rq_io r) (rq_headers r) (rq_time r) (rq_body r) st))"

lemma serve_requests_inv: "platform_inv sv st \<Longrightarrow> platform_inv sv (serve_requests sv rs st)"
proof (induction rs arbitrary: st)
  case (Cons r rs)
  obtain st' x where "ingest sv (rq_io r) (rq_headers r) (rq_time r) (rq_body r) st = (st', x)" by force
  with ingest_inv [OF Cons.prems this] Cons.IH [of st'] show ?case by simp
qed simp

section \<open>A concrete service\<close>

definition demo_service :: "(string \<times> string) list \<Rightarrow> string list \<Rightarrow> Sample \<Rightarrow> service" where
  "demo_service payloads raws s = \<lparr>
     sv_rt = (demo_runtime payloads raws s)\<lparr>rt_loads := (\<lambda>t. if t = ''S'' then Inr (PList [])
       else rt_loads (demo_runtime payloads raws s) t)\<rparr>,
     sv_stamp = (\<lambda>d. int_str (dt_local d)), sv_pretty = (\<lambda>v. ''{}''), sv_str = (\<lambda>v. ''?''),
     sv_max_request_bytes = 100, sv_quarantine_payloads = False\<rparr>"

definition no_faults :: io_faults where
  "no_faults = \<lparr>io_random = ''r'', io_put = NoFault, io_quarantine = NoFault, io_db = None\<rparr>"

definition demo_headers :: "(string \<times> string) list" where
  "demo_headers = [(''content-type'', MEDIA_TYPE), (''Idempotency-Key'', demo_digest ''B''),
     (''X-CloudEyes-Bundle-Sha256'', demo_digest ''B''),
     (''X-CloudEyes-Bundle-Id'', ''bundle-'' @ replicate 24 (CHR ''a''))]"

definition demo_payloads :: "(string \<times> string) list" where
  "demo_payloads = [(''samples/0001.json'', line ''S''), (''raw/r.json'', ''R'')]"

definition huge_sample :: Sample where
  "huge_sample = (demo_sample ''a'' 7 (Fin 3))\<lparr>smp_machine :=
     (smp_machine (demo_sample ''a'' 7 (Fin 3)))\<lparr>mach_memory_bytes := IntNum (2 ^ 63)\<rparr>\<rparr>"

section \<open>Properties\<close>

text \<open>
  C15: The platform keeps its invariant over every sequence of requests, whatever they contain and
  whichever writes fail: keys are unique and foreign keys resolve; every submission is filed under
  the digest of its bundle and the store holds a bundle of that digest; and the sample and evidence
  counts stored with a submission and a sample are the numbers of their rows.
\<close>

theorem platform_invariant_holds:
  "platform_inv sv (serve_requests sv requests empty_platform)"
  by (rule serve_requests_inv) simp

text \<open>
  C16: Every request has one of three outcomes. It fails and leaves the database and the stored
  bundles as they were; or it is a duplicate of a stored submission with the same digest and
  changes nothing; or it is accepted, which needs a bundle id equal to the verified one and a
  bundle that verifies, and appends exactly one submission of that digest, with one row per sample
  of the manifest.
\<close>

theorem ingest_outcomes:
  "case ingest sv io headers timestamp payload st of (st', Inl e) \<Rightarrow>
      pf_db st' = pf_db st \<and> store_lookup (pf_bundles st') = store_lookup (pf_bundles st)
    | (st', Inr receipt) \<Rightarrow>
      (if ir_status receipt = ''duplicate''
       then st' = st \<and> (\<exists>row \<in> set (db_submissions (pf_db st)).
         sub_bundle_sha256 row = rt_sha256 (sv_rt sv) payload \<and> ir_duplicate_of receipt = Some (sub_submission_id row))
       else ir_status receipt = ''accepted'' \<and>
         (\<exists>v. verify_bundle (sv_rt sv) (Some payload) = Inr v \<and>
           header_value headers ''X-CloudEyes-Bundle-Id'' = Some (bv_bundle_id v) \<and>
           ir_submission_id receipt = submission_id_of (rt_sha256 (sv_rt sv) payload) \<and>
           (\<exists>row. db_submissions (pf_db st') = db_submissions (pf_db st) @ [row] \<and>
             sub_submission_id row = ir_submission_id receipt \<and> sub_bundle_sha256 row = rt_sha256 (sv_rt sv) payload) \<and>
           (\<exists>rows. db_samples (pf_db st') = db_samples (pf_db st) @ rows \<and> int (length rows) = bv_sample_count v)))"
proof -
  obtain st' r where run: "ingest sv io headers timestamp payload st = (st', r)" by force
  let ?digest = "rt_sha256 (sv_rt sv) payload"
  show ?thesis
    using ingest_cases [OF run]
  proof (elim disjE exE conjE)
    fix row receipt
    assume "r = Inr receipt" "st' = st" "row \<in> set (db_submissions (pf_db st))"
      "sub_bundle_sha256 row = ?digest" "receipt_from_row (sv_rt sv) True row = Inr receipt"
    then show ?thesis unfolding run
      by (auto simp: receipt_from_row_def rbind_Inr_iff split: option.splits)
  next
    fix bid v manifest samples evidence
    assume h: "header_value headers ''X-CloudEyes-Bundle-Id'' = Some bid"
      and rb: "read_bundle sv payload bid (submission_id_of ?digest) = Inr (v, manifest, samples, evidence)"
      and r: "r = Inr (accepted_receipt v (submission_id_of ?digest) timestamp)"
      and acc: "accepts sv ?digest (accepted_receipt v (submission_id_of ?digest) timestamp) samples evidence st st'"
    from read_bundle_facts [OF rb] have v: "verify_bundle (sv_rt sv) (Some payload) = Inr v" "bv_bundle_id v = bid"
      "bv_bundle_sha256 v = ?digest" "bv_sample_count v = int (length samples)" by blast+
    from acc obtain row fault where "persist fault row samples evidence (pf_db st) = (pf_db st', Inr ())"
      "row_for sv ?digest (accepted_receipt v (submission_id_of ?digest) timestamp) row"
      unfolding accepts_def by blast
    with persist_Inr [OF this(1)] have "db_submissions (pf_db st') = db_submissions (pf_db st) @ [row]"
      "db_samples (pf_db st') = db_samples (pf_db st) @ map stored_row samples"
      "sub_submission_id row = submission_id_of ?digest" "sub_bundle_sha256 row = ?digest"
      by (simp_all add: row_for_def accepted_receipt_def v)
    then show ?thesis unfolding run r using h v by (auto simp: accepted_receipt_def)
  qed (simp add: run)
qed

text \<open>
  C17: Submission is idempotent. Once a request was accepted, sending the same headers and body
  again at any time changes nothing and returns the same receipt, marked as a duplicate of it,
  when the text layer reads back the stored time and warnings.
\<close>

theorem ingest_idempotent:
  assumes "platform_inv sv st" and "ingest sv io headers timestamp payload st = (st', Inr receipt)"
    and "ir_status receipt = ''accepted''"
    and "rt_fromiso (sv_rt sv) (rt_isofmt (sv_rt sv) timestamp) = Some timestamp"
    and "rt_loads (sv_rt sv) (rt_compact (sv_rt sv) (PList (ir_warnings receipt))) = Inr (PList (ir_warnings receipt))"
    and "aware timestamp'"
  shows "ingest sv io' headers timestamp' payload st' = (st', Inr (receipt
    \<lparr>ir_status := ''duplicate'', ir_duplicate_of := Some (ir_submission_id receipt)\<rparr>))"
  using assms by (rule ingest_again)

theorem ingest_idempotent_witness:
  "\<exists>st' receipt. ir_status receipt = ''accepted'' \<and>
     ingest (demo_service demo_payloads [''raw/r.json''] (demo_sample ''a'' 7 (Fin 3))) no_faults demo_headers (utc 5) ''B''
       empty_platform = (st', Inr receipt) \<and>
     ingest (demo_service demo_payloads [''raw/r.json''] (demo_sample ''a'' 7 (Fin 3))) no_faults demo_headers (utc 6) ''B''
       st' = (st', Inr (receipt\<lparr>ir_status := ''duplicate'', ir_duplicate_of := Some (ir_submission_id receipt)\<rparr>))"
proof -
  let ?sv = "demo_service demo_payloads [''raw/r.json''] (demo_sample ''a'' 7 (Fin 3))"
  have run: "case ingest ?sv no_faults demo_headers (utc 5) ''B'' empty_platform of
      (st', Inl e) \<Rightarrow> False | (st', Inr receipt) \<Rightarrow> ir_status receipt = ''accepted'' \<and> ir_warnings receipt = []"
    by code_simp
  then obtain st' receipt where first: "ingest ?sv no_faults demo_headers (utc 5) ''B'' empty_platform = (st', Inr receipt)"
    and acc: "ir_status receipt = ''accepted''" "ir_warnings receipt = []"
    by (auto split: prod.splits sum.splits)
  have "rt_fromiso (sv_rt ?sv) (rt_isofmt (sv_rt ?sv) (utc 5)) = Some (utc 5)" by code_simp
  moreover have "rt_loads (sv_rt ?sv) (rt_compact (sv_rt ?sv) (PList [])) = Inr (PList [])" by code_simp
  ultimately have "ingest ?sv no_faults demo_headers (utc 6) ''B'' st' =
      (st', Inr (receipt\<lparr>ir_status := ''duplicate'', ir_duplicate_of := Some (ir_submission_id receipt)\<rparr>))"
    using acc by (intro ingest_idempotent [OF platform_inv_empty first]) simp_all
  with first acc show ?thesis by blast
qed


end
