(* ===== verification/Server.thy ===== *)
theory Server
  imports Ingestion
begin

text \<open>
  \<open>server.py\<close>: the HTTP front of the ingestion pipeline. A request is its target, its headers and
  the bytes the connection still delivers before it ends; a response is a status and a JSON value,
  or the exception that ends the handler thread without one. The temporary file of the body is
  removed at the end of every request and is not part of the state.
\<close>

section \<open>Integers and targets\<close>

text \<open>\<open>int(text)\<close>: white space around, a sign, digits with single underscores between them.\<close>

fun int_digits :: "bool \<Rightarrow> string \<Rightarrow> string option" where
  "int_digits after_digit [] = (if after_digit then Some [] else None)"
| "int_digits after_digit (c # cs) =
    (if is_digit c then map_option ((#) c) (int_digits True cs)
     else if c = CHR ''_'' \<and> after_digit \<and> cs \<noteq> [] then int_digits False cs
     else None)"

definition parse_int :: "string \<Rightarrow> int option" where
  "parse_int text = (let s = strip text in case s of
     [] \<Rightarrow> None
   | c # cs \<Rightarrow> if c = CHR ''-'' then map_option (\<lambda>ds. - digits_val ds) (int_digits False cs)
       else if c = CHR ''+'' then map_option digits_val (int_digits False cs)
       else map_option digits_val (int_digits False s))"

lemma int_digits_plain: "ds \<noteq> [] \<or> b \<Longrightarrow> list_all is_digit ds \<Longrightarrow> int_digits b ds = Some ds"
  by (induction ds arbitrary: b) auto

definition scheme_char :: "char \<Rightarrow> bool" where
  "scheme_char c \<longleftrightarrow> isalnum [c] \<or> c \<in> set ''+-.''"

text \<open>\<open>urlsplit(target)\<close>, of which the handlers read the path and the query.\<close>

definition target_parts :: "(string \<Rightarrow> bool) \<Rightarrow> string \<Rightarrow> (string \<times> string) result" where
  "target_parts bracket_host target =
    (let url = filter (\<lambda>c. code c \<notin> {9, 10, 13}) (dropWhile (\<lambda>c. code c \<le> 32) target);
         scheme = until '':'' url;
         rest = (if CHR '':'' \<in> set url \<and> scheme \<noteq> [] \<and> isalpha [hd url] \<and> list_all scheme_char scheme
           then after_first (CHR '':'') url else url);
         (netloc, tail) = (if startswith rest ''//'' then (until ''/?#'' (drop 2 rest), from_first ''/?#'' (drop 2 rest))
           else ([], rest));
         body = until ''#'' tail
     in if brackets_ok bracket_host netloc then Inr (until ''?'' body, after_first (CHR ''?'') body)
        else Inl (ValueError ''Invalid IPv6 URL''))"

section \<open>Authentication\<close>

record authenticator =
  au_token :: "string option"
  au_allow_anonymous :: bool

definition TokenAuthenticator_init :: "string option \<Rightarrow> bool \<Rightarrow> authenticator result" where
  "TokenAuthenticator_init token allow_anonymous =
    (let cleaned = map_option strip token in
     if \<not> allow_anonymous \<and> (cleaned = None \<or> cleaned = Some [])
     then Inl (ValueError ''a non-empty bearer token is required'')
     else Inr \<lparr>au_token = cleaned, au_allow_anonymous = allow_anonymous\<rparr>)"

text \<open>\<open>hmac.compare_digest\<close> takes two \<open>str\<close> only when both are ASCII.\<close>

definition ascii_text :: "string \<Rightarrow> bool" where
  "ascii_text s \<longleftrightarrow> list_all (\<lambda>c. code c < 128) s"

definition compare_digest :: "string \<Rightarrow> string \<Rightarrow> bool result" where
  "compare_digest a b = (if ascii_text a \<and> ascii_text b then Inr (a = b)
     else Inl (TypeError ''comparing strings with non-ASCII characters is not supported''))"

definition authorized :: "authenticator \<Rightarrow> string option \<Rightarrow> bool result" where
  "authorized auth authorization =
    (if au_allow_anonymous auth then Inr True
     else case authorization of
         None \<Rightarrow> Inr False
       | Some value \<Rightarrow> if \<not> startswith value ''Bearer '' then Inr False
           else let candidate = strip (drop 7 value) in
             if candidate = [] then Inr False
             else compare_digest candidate (case au_token auth of Some t \<Rightarrow> t | None \<Rightarrow> []))"

section \<open>Reading the body\<close>

definition CHUNK_SIZE :: nat where "CHUNK_SIZE = 1024 * 1024"

text \<open>
  \<open>while remaining\<close>: one read of at most a chunk per round; an empty read means that the peer is
  done. The state is what has been read and what the connection still delivers.
\<close>

function read_loop :: "nat \<Rightarrow> string \<Rightarrow> string \<Rightarrow> (string \<times> string) option" where
  "read_loop remaining done_part input =
    (if remaining = 0 then Some (done_part, input)
     else let chunk = take (min CHUNK_SIZE remaining) input in
       if chunk = [] then None
       else read_loop (remaining - length chunk) (done_part @ chunk) (drop (length chunk) input))"
  by pat_completeness auto
termination
  by (relation "measure (\<lambda>(remaining, d, i). remaining)") (auto simp: CHUNK_SIZE_def)

declare read_loop.simps [simp del]

definition incomplete_body :: ingestion_error where
  "incomplete_body = IngestionError 400 ''incomplete_request_body''
    ''request body ended before Content-Length bytes were read'' False None"

definition read_body :: "nat \<Rightarrow> string \<Rightarrow> string ingested" where
  "read_body content_length input = (case read_loop content_length [] input of
     None \<Rightarrow> Inl incomplete_body | Some (body, rest) \<Rightarrow> Inr body)"

section \<open>Responses\<close>

record http_response =
  hr_status :: int
  hr_body :: pyval

definition receipt_dict :: "runtime \<Rightarrow> IngestionReceipt \<Rightarrow> pyval" where
  "receipt_dict rt r = PDict [(''bundle_id'', PStr (ir_bundle_id r)), (''bundle_sha256'', PStr (ir_bundle_sha256 r)),
     (''duplicate_of'', opt_str (ir_duplicate_of r)), (''file_count'', PInt (ir_file_count r)),
     (''received_at'', PStr (rt_isofmt rt (ir_received_at r))), (''sample_count'', PInt (ir_sample_count r)),
     (''schema_version'', PStr (ir_schema_version r)), (''status'', PStr (ir_status r)),
     (''submission_id'', PStr (ir_submission_id r)), (''warnings'', PList (ir_warnings r))]"

definition error_value :: "string \<Rightarrow> string \<Rightarrow> (string \<times> pyval) list \<Rightarrow> bool \<Rightarrow> pyval" where
  "error_value ecode message extra versioned = PDict ([(''error'', PDict ([(''code'', PStr ecode), (''message'', PStr message)] @ extra))] @
     (if versioned then [(''schema_version'', PStr ''1.0.0'')] else []))"

definition respond :: "int \<Rightarrow> string \<Rightarrow> string \<Rightarrow> http_response result" where
  "respond status ecode message = Inr \<lparr>hr_status = status, hr_body = error_value ecode message [] True\<rparr>"

definition not_found :: "http_response result" where
  "not_found = Inr \<lparr>hr_status = 404, hr_body = error_value ''not_found'' ''route not found'' [] False\<rparr>"

text \<open>\<open>except IngestionError\<close>, \<open>except OSError\<close>; any other exception leaves the handler.\<close>

definition error_response :: "ingestion_error \<Rightarrow> http_response result" where
  "error_response e = (case e of
     IngestionError status ecode message quarantine qid \<Rightarrow> Inr \<lparr>hr_status = status, hr_body = error_value ecode message
       (case qid of None \<Rightarrow> [] | Some q \<Rightarrow> [(''quarantine_id'', PStr q)]) True\<rparr>
   | Raised x \<Rightarrow> if is_os_error x then respond 500 ''storage_failure'' ''submission could not be stored safely''
       else Inl x)"

section \<open>The handlers\<close>

record http_request =
  hq_target :: string
  hq_headers :: "(string \<times> string) list"
  hq_input :: string

definition header_get :: "http_request \<Rightarrow> string \<Rightarrow> string option" where
  "header_get rq name = map_option snd (find (\<lambda>h. casefold (fst h) = casefold name) (hq_headers rq))"

text \<open>\<open>{key: value for key, value in self.headers.items()}\<close>.\<close>

definition header_dict :: "(string \<times> string) list \<Rightarrow> (string \<times> string) list" where
  "header_dict headers = fold (\<lambda>(k, v). AList.update k v) headers []"

definition do_GET :: "(string \<Rightarrow> bool) \<Rightarrow> http_request \<Rightarrow> platform \<Rightarrow> http_response result" where
  "do_GET bracket_host rq st = rbind (target_parts bracket_host (hq_target rq)) (\<lambda>(path, query).
    if path \<noteq> ''/healthz'' then not_found
    else (case db_counts (pf_db st) of (evidence, samples, submissions) \<Rightarrow>
      Inr \<lparr>hr_status = 200, hr_body = PDict [(''counts'', PDict [(''evidence'', PInt evidence),
          (''samples'', PInt samples), (''submissions'', PInt submissions)]),
        (''schema_version'', PStr ''1.0.0''), (''status'', PStr ''ok'')]\<rparr>))"

text \<open>The checks of \<open>do_POST\<close> before it reads the body: a response, or the length to read.\<close>

definition post_checks ::
  "service \<Rightarrow> (string \<Rightarrow> bool) \<Rightarrow> authenticator \<Rightarrow> http_request \<Rightarrow> http_response result + nat" where
  "post_checks sv bracket_host auth rq =
    (case target_parts bracket_host (hq_target rq) of
       Inl e \<Rightarrow> Inl (Inl e)
     | Inr (path, query) \<Rightarrow>
        if path \<noteq> ''/v1/submissions'' \<or> query \<noteq> [] then Inl not_found
        else (case authorized auth (header_get rq ''Authorization'') of
          Inl e \<Rightarrow> Inl (Inl e)
        | Inr False \<Rightarrow> Inl (respond 401 ''unauthorized'' ''valid bearer authentication is required'')
        | Inr True \<Rightarrow>
        if header_get rq ''Transfer-Encoding'' \<noteq> None
        then Inl (respond 400 ''unsupported_transfer_encoding'' ''chunked request bodies are not supported'')
        else (case header_get rq ''Content-Length'' of
          None \<Rightarrow> Inl (respond 411 ''content_length_required'' ''Content-Length is required'')
        | Some raw_length \<Rightarrow>
            let content_length = (case parse_int raw_length of Some n \<Rightarrow> n | None \<Rightarrow> - 1) in
            if content_length \<le> 0
            then Inl (respond 400 ''invalid_content_length'' ''Content-Length must be a positive integer'')
            else if sv_max_request_bytes sv < content_length
            then Inl (respond 413 ''request_too_large'' (''submission exceeds '' @ int_str (sv_max_request_bytes sv) @ '' bytes''))
            else Inr (nat content_length))))"

text \<open>
  The inside of the \<open>try\<close> up to the response: a read of the connection or a write, flush or sync of
  the temporary file may fail.
\<close>

record temp_faults =
  tf_mkstemp :: bool
  tf_write :: bool

definition post_outcome ::
  "service \<Rightarrow> io_faults \<Rightarrow> temp_faults \<Rightarrow> pydatetime \<Rightarrow> http_request \<Rightarrow> nat \<Rightarrow> platform \<Rightarrow>
   platform \<times> (ingestion_error + http_response)" where
  "post_outcome sv io tf now rq content_length st =
    (if tf_write tf then (st, Inl (Raised (OSError ''temporary file'')))
     else case read_body content_length (hq_input rq) of
       Inl e \<Rightarrow> (st, Inl e)
     | Inr body \<Rightarrow>
        (case ingest sv io (header_dict (hq_headers rq)) now body st of
           (st', Inl e) \<Rightarrow> (st', Inl e)
         | (st', Inr receipt) \<Rightarrow> (st', Inr \<lparr>hr_status = (if ir_status receipt = ''accepted'' then 201 else 200),
             hr_body = receipt_dict (sv_rt sv) receipt\<rparr>)))"

text \<open>
  \<open>_send_json\<close> writes a response to the connection, and raises \<open>OSError\<close> when the connection breaks:
  the client may then have any part of the response. The wire holds each response that was started
  and whether it was sent to the end.
\<close>

type_synonym wire = "(http_response \<times> bool) list"

record send_faults =
  sf_first :: bool
  sf_second :: bool

definition send_json :: "bool \<Rightarrow> http_response result \<Rightarrow> wire \<times> unit result" where
  "send_json broken r = (case r of
     Inl e \<Rightarrow> ([], Inl e)
   | Inr resp \<Rightarrow> ([(resp, \<not> broken)], if broken then Inl (OSError ''connection'') else Inr ()))"

text \<open>
  \<open>do_POST\<close>: the new platform, what was written to the connection, and the exception that leaves the
  handler, if one does. The receipt is sent inside the \<open>try\<close>: a connection that breaks there is
  caught as an \<open>OSError\<close> and answered with a second response.
\<close>

definition do_POST ::
  "service \<Rightarrow> (string \<Rightarrow> bool) \<Rightarrow> authenticator \<Rightarrow> io_faults \<Rightarrow> temp_faults \<Rightarrow> send_faults \<Rightarrow> pydatetime \<Rightarrow>
   http_request \<Rightarrow> platform \<Rightarrow> platform \<times> wire \<times> unit result" where
  "do_POST sv bracket_host auth io tf sf now rq st =
    (case post_checks sv bracket_host auth rq of
       Inl r \<Rightarrow> (st, send_json (sf_first sf) r)
     | Inr content_length \<Rightarrow>
        if tf_mkstemp tf then (st, [], Inl (OSError ''temporary file''))
        else (case post_outcome sv io tf now rq content_length st of
          (st', Inl e) \<Rightarrow> (st', send_json (sf_first sf) (error_response e))
        | (st', Inr resp) \<Rightarrow>
           (case send_json (sf_first sf) (Inr resp) of
              (sent, Inr u) \<Rightarrow> (st', sent, Inr u)
            | (sent, Inl e) \<Rightarrow>
               (case send_json (sf_second sf) (error_response (Raised e)) of
                  (again, r) \<Rightarrow> (st', sent @ again, r)))))"

text \<open>\<open>_discard_request_body\<close>: what is left on the connection after a rejected request was drained.\<close>

definition discard_request_body :: "service \<Rightarrow> http_request \<Rightarrow> string" where
  "discard_request_body sv rq =
    (if header_get rq ''Transfer-Encoding'' \<noteq> None then hq_input rq
     else case header_get rq ''Content-Length'' of
         None \<Rightarrow> hq_input rq
       | Some raw_length \<Rightarrow> (case parse_int raw_length of
           None \<Rightarrow> hq_input rq
         | Some n \<Rightarrow> if n \<le> 0 \<or> sv_max_request_bytes sv < n then hq_input rq
             else (case read_loop (nat n) [] (hq_input rq) of Some (d, rest) \<Rightarrow> rest | None \<Rightarrow> [])))"

section \<open>The loop\<close>

lemma take_take_drop: "k \<le> n \<Longrightarrow> take k xs @ take (n - k) (drop k xs) = take n xs"
  by (metis add_diff_inverse_nat not_le take_add)

lemma read_loop_step:
  assumes "chunk = take (min CHUNK_SIZE n) input" and "n \<noteq> 0" and "chunk \<noteq> []"
  shows "read_loop n d input = read_loop (n - length chunk) (d @ chunk) (drop (length chunk) input)"
  using assms by (subst read_loop.simps) (auto simp: Let_def)

lemma read_loop_end:
  "n = 0 \<Longrightarrow> read_loop n d input = Some (d, input)"
  "n \<noteq> 0 \<Longrightarrow> take (min CHUNK_SIZE n) input = [] \<Longrightarrow> read_loop n d input = None"
  by (subst read_loop.simps, simp add: Let_def)+

lemma read_loop_eq:
  "read_loop n d input = (if n \<le> length input then Some (d @ take n input, drop n input) else None)"
proof (induction n d input rule: read_loop.induct)
  case (1 n d input)
  define chunk where "chunk = take (min CHUNK_SIZE n) input"
  define k where "k = length chunk"
  have kle: "k \<le> n" "k \<le> length input" unfolding k_def chunk_def by simp_all
  have chunk: "chunk = take k input" unfolding k_def chunk_def by (simp add: min_def)
  consider "n = 0" | "n \<noteq> 0" "chunk = []" | "n \<noteq> 0" "chunk \<noteq> []" by blast
  then show ?case
  proof cases
    case 2
    then have "input = []" unfolding chunk_def by (auto simp: CHUNK_SIZE_def min_def split: if_splits)
    with 2 show ?thesis by (simp add: read_loop_end)
  next
    case 3
    have "read_loop n d input = read_loop (n - k) (d @ chunk) (drop k input)"
      using read_loop_step [OF chunk_def 3] by (simp add: k_def)
    also have "\<dots> = (if n - k \<le> length (drop k input)
        then Some ((d @ chunk) @ take (n - k) (drop k input), drop (n - k) (drop k input)) else None)"
      using "1.IH" [OF 3(1) chunk_def 3(2)] by (simp add: k_def)
    also have "\<dots> = (if n \<le> length input then Some (d @ take n input, drop n input) else None)"
    proof (cases "n \<le> length input")
      case True
      have "drop (n - k) (drop k input) = drop n input" using kle(1) by simp
      then show ?thesis using True kle(1) take_take_drop [OF kle(1), of input]
        by (simp add: chunk [symmetric])
    qed (use kle in simp)
    finally show ?thesis .
  qed (simp add: read_loop_end)
qed

section \<open>Statuses\<close>

lemma ingest_error_status:
  assumes "ingest sv io headers timestamp payload st = (st', Inl (IngestionError s c m q i))"
  shows "s \<in> {400, 409, 413, 415}"
proof -
  have check: "s \<in> {400, 409, 413, 415}" if "check_request sv headers timestamp payload = Inl (IngestionError s c m q i)"
    using that by (auto simp: check_request_def rbind_Inl_iff required_digest_def required_bundle_id_def reject_def
      split: if_splits option.splits sum.splits)
  have dup: "s = 409" if "find_duplicate rt k d db = Inl (IngestionError s c m q i)" for rt k d db
    using that by (auto simp: find_duplicate_def rbind_Inl_iff reject_def lift_py_def split: if_splits option.splits sum.splits)
  have store: "s = 409" if "store_and_persist sv io payload k d r mf smps ev st = (st', Inl (IngestionError s c m q i))" for k d r mf smps ev
    using that by (auto simp: store_and_persist_def Let_def reject_def
      split: prod.splits sum.splits option.splits py_error.splits)
  show ?thesis
    using assms check
    by (auto simp: ingest_def Let_def reject_and_quarantine_def reject_def
      split: prod.splits sum.splits option.splits if_splits dest: dup store)
qed

lemma error_response_status: "error_response (Raised e) = Inr resp \<Longrightarrow> hr_status resp = 500"
  by (auto simp: error_response_def respond_def split: if_splits)

lemma post_checks_status: "post_checks sv bracket_host auth rq = Inl (Inr resp) \<Longrightarrow> 400 \<le> hr_status resp"
  by (auto simp: post_checks_def not_found_def respond_def Let_def split: sum.splits prod.splits if_splits option.splits bool.splits)

lemma post_checks_Inr:
  assumes "post_checks sv bracket_host auth rq = Inr n"
  shows "(\<exists>path. target_parts bracket_host (hq_target rq) = Inr (path, []) \<and> path = ''/v1/submissions'') \<and>
    authorized auth (header_get rq ''Authorization'') = Inr True \<and>
    (\<exists>raw. header_get rq ''Content-Length'' = Some raw \<and> parse_int raw = Some (int n)) \<and>
    0 < n \<and> int n \<le> sv_max_request_bytes sv"
  using assms
  by (auto simp: post_checks_def Let_def split: sum.splits prod.splits if_splits option.splits bool.splits)

lemma read_body_eq: "read_body n input = (if n \<le> length input then Inr (take n input) else Inl incomplete_body)"
  by (simp add: read_body_def read_loop_eq)

lemma ingest_receipt_status:
  assumes "ingest sv io headers timestamp payload st = (st', Inr receipt)"
  shows "ir_status receipt = ''accepted'' \<longleftrightarrow> pf_db st' \<noteq> pf_db st"
  using ingest_cases [OF assms]
proof (elim disjE exE conjE)
  fix row r
  assume "Inr receipt = Inr r" "st' = st" "receipt_from_row (sv_rt sv) True row = Inr r"
  then show ?thesis by (auto simp: receipt_from_row_def rbind_Inr_iff split: option.splits)
next
  fix bid v manifest samples evidence
  assume "Inr receipt = Inr (accepted_receipt v (submission_id_of (rt_sha256 (sv_rt sv) payload)) timestamp)"
    and "accepts sv (rt_sha256 (sv_rt sv) payload)
      (accepted_receipt v (submission_id_of (rt_sha256 (sv_rt sv) payload)) timestamp) samples evidence st st'"
  moreover from this(2) obtain row fault where "persist fault row samples evidence (pf_db st) = (pf_db st', Inr ())"
    unfolding accepts_def by blast
  note persist_Inr [OF this]
  ultimately show ?thesis by (auto simp: accepted_receipt_def dest: arg_cong [where f = db_submissions])
qed simp

lemma ingest_error_db: "ingest sv io headers timestamp payload st = (st', Inl e) \<Longrightarrow> pf_db st' = pf_db st"
  by (auto dest!: ingest_cases)

text \<open>A change of the database goes with a receipt of status 201, and no error has that status.\<close>

lemma error_response_not_201:
  assumes "ingest sv io headers timestamp payload st = (st', Inl e)" and "error_response e = Inr resp"
  shows "hr_status resp \<noteq> 201"
proof (cases e)
  case (IngestionError s c m q i)
  with assms ingest_error_status have "s \<in> {400, 409, 413, 415}" by blast
  then show ?thesis using assms(2) IngestionError by (auto simp: error_response_def)
next
  case (Raised x)
  then show ?thesis using assms(2) error_response_status by auto
qed

lemma post_outcome_cases:
  assumes "post_outcome sv io tf now rq n st = (st', r)"
  shows "st' = st \<and> (\<exists>e. r = Inl e \<and> (\<forall>resp. error_response e = Inr resp \<longrightarrow> hr_status resp \<noteq> 201)) \<or>
    n \<le> length (hq_input rq) \<and>
    st' = fst (ingest sv io (header_dict (hq_headers rq)) now (take n (hq_input rq)) st) \<and>
    (case r of
       Inl e \<Rightarrow> pf_db st' = pf_db st \<and> (\<forall>resp. error_response e = Inr resp \<longrightarrow> hr_status resp \<noteq> 201)
     | Inr resp \<Rightarrow> hr_status resp = (if pf_db st' \<noteq> pf_db st then 201 else 200))"
proof -
  consider "tf_write tf" | "\<not> tf_write tf" "length (hq_input rq) < n"
    | (complete) "\<not> tf_write tf" "n \<le> length (hq_input rq)" by linarith
  then show ?thesis
  proof cases
    case complete
    obtain st'' res where ing: "ingest sv io (header_dict (hq_headers rq)) now (take n (hq_input rq)) st = (st'', res)"
      by force
    with assms complete have "st' = st''" and r: "r = (case res of Inl e \<Rightarrow> Inl e
        | Inr receipt \<Rightarrow> Inr \<lparr>hr_status = (if ir_status receipt = ''accepted'' then 201 else 200),
            hr_body = receipt_dict (sv_rt sv) receipt\<rparr>)"
      by (auto simp: post_outcome_def read_body_eq split: sum.splits)
    then show ?thesis
      using complete(2) ing ingest_error_db error_response_not_201 ingest_receipt_status by (cases res) auto
  qed (use assms in \<open>auto simp: post_outcome_def read_body_eq incomplete_body_def error_response_def respond_def\<close>)
qed

text \<open>The shape of what is written: one response, or a receipt that broke off and a failure.\<close>

definition storage_failure :: http_response where
  "storage_failure = \<lparr>hr_status = 500,
     hr_body = error_value ''storage_failure'' ''submission could not be stored safely'' [] True\<rparr>"

lemma error_response_send: "error_response (Raised (OSError m)) = Inr storage_failure"
  by (simp add: error_response_def respond_def storage_failure_def is_os_error.simps)

lemma do_POST_cases:
  assumes "do_POST sv bracket_host auth io tf sf now rq st = (st', wire, r)"
  shows "st' = st \<and> (\<forall>x \<in> set wire. hr_status (fst x) \<noteq> 201) \<or>
    (\<exists>n out. post_checks sv bracket_host auth rq = Inr n \<and> post_outcome sv io tf now rq n st = (st', out) \<and>
      (case out of
         Inl e \<Rightarrow> (wire, r) = send_json (sf_first sf) (error_response e)
       | Inr resp \<Rightarrow> wire = (if sf_first sf then [(resp, False), (storage_failure, \<not> sf_second sf)] else [(resp, True)])))"
proof (cases "post_checks sv bracket_host auth rq")
  case (Inl x)
  then have "st' = st" "(wire, r) = send_json (sf_first sf) x" using assms by (simp_all add: do_POST_def)
  then show ?thesis using post_checks_status [of sv bracket_host auth rq] Inl
    by (cases x) (fastforce simp: send_json_def)+
next
  case (Inr n)
  obtain st2 out where out: "post_outcome sv io tf now rq n st = (st2, out)" by force
  show ?thesis
  proof (cases "tf_mkstemp tf")
    case False
    then show ?thesis using assms Inr out
      by (intro disjI2 exI [of _ n] exI [of _ out])
        (auto simp: do_POST_def send_json_def error_response_send split: sum.splits prod.splits if_splits)
  qed (use assms Inr in \<open>simp add: do_POST_def\<close>)
qed

section \<open>Properties\<close>

text \<open>
  C19: The loop that receives a body ends for every announced length and every connection: it
  reads exactly the announced bytes and leaves the rest, whatever the number of chunks, or finds
  that the connection delivers fewer and the request is answered as incomplete.
\<close>

theorem body_loop_ends:
  "read_loop n [] input = (if n \<le> length input then Some (take n input, drop n input) else None) \<and>
   read_body n input = (if n \<le> length input then Inr (take n input)
     else Inl (IngestionError 400 ''incomplete_request_body'' ''request body ended before Content-Length bytes were read'' False None))"
  by (simp add: read_loop_eq read_body_eq incomplete_body_def)

text \<open>
  C20: A POST changes the platform only when it is authorized, on the route of submissions, with a
  length within the configured bound, and a complete body; the change is then that of the ingestion
  of exactly the announced bytes. When the database has changed, the handler writes a 201, and
  nothing else unless the connection breaks; if it breaks while the 201 is sent, the handler takes
  this for a failure of the storage and writes a 500 behind it, although the submission was stored.
  When the database has not changed, no 201 is begun.
\<close>

theorem post_guards:
  "case do_POST sv bracket_host auth io tf sf now rq st of (st', wire, r) \<Rightarrow>
     (if pf_db st' = pf_db st then list_all (\<lambda>x. hr_status (fst x) \<noteq> 201) wire
      else \<exists>resp. hr_status resp = 201 \<and>
        wire = (if sf_first sf then [(resp, False), (storage_failure, \<not> sf_second sf)] else [(resp, True)])) \<and>
     (if st' = st then True else
        authorized auth (header_get rq ''Authorization'') = Inr True \<and>
        target_parts bracket_host (hq_target rq) = Inr (''/v1/submissions'', []) \<and>
        (\<exists>raw n. header_get rq ''Content-Length'' = Some raw \<and> parse_int raw = Some (int n) \<and>
          0 < n \<and> int n \<le> sv_max_request_bytes sv \<and> n \<le> length (hq_input rq) \<and>
          st' = fst (ingest sv io (header_dict (hq_headers rq)) now (take n (hq_input rq)) st)))"
proof -
  obtain st' wire r where run: "do_POST sv bracket_host auth io tf sf now rq st = (st', wire, r)"
    using prod_cases3 by blast
  show ?thesis
    using do_POST_cases [OF run]
  proof (elim disjE exE conjE)
    assume "st' = st" "\<forall>x \<in> set wire. hr_status (fst x) \<noteq> 201"
    then show ?thesis unfolding run by (simp add: list_all_iff)
  next
    fix n out
    assume checks: "post_checks sv bracket_host auth rq = Inr n" and out: "post_outcome sv io tf now rq n st = (st', out)"
      and wire: "case out of Inl e \<Rightarrow> (wire, r) = send_json (sf_first sf) (error_response e)
        | Inr resp \<Rightarrow> wire = (if sf_first sf then [(resp, False), (storage_failure, \<not> sf_second sf)] else [(resp, True)])"
    note cases = post_outcome_cases [OF out]
    have "if pf_db st' = pf_db st then list_all (\<lambda>x. hr_status (fst x) \<noteq> 201) wire
      else \<exists>resp. hr_status resp = 201 \<and>
        wire = (if sf_first sf then [(resp, False), (storage_failure, \<not> sf_second sf)] else [(resp, True)])"
    proof (cases out)
      case (Inl e)
      with cases have "pf_db st' = pf_db st" "\<And>resp. error_response e = Inr resp \<Longrightarrow> hr_status resp \<noteq> 201" by auto
      with wire Inl show ?thesis by (cases "error_response e") (auto simp: send_json_def)
    next
      case (Inr resp)
      with cases have "hr_status resp = (if pf_db st' \<noteq> pf_db st then 201 else 200)" by auto
      with wire Inr show ?thesis by (auto simp: storage_failure_def)
    qed
    moreover have "if st' = st then True else n \<le> length (hq_input rq) \<and>
        st' = fst (ingest sv io (header_dict (hq_headers rq)) now (take n (hq_input rq)) st)"
      using cases by auto
    ultimately show ?thesis unfolding run prod.case using post_checks_Inr [OF checks] by metis
  qed
qed

text \<open>
  An authenticator without a token exists only when anonymous requests are allowed. One with
  a token authorizes exactly the header that carries it, up to white space around it; it never
  authorizes an empty token; and it raises, which ends the request without a response, exactly when
  the token presented or the token configured has a character outside ASCII.
\<close>

theorem authenticator_sound:
  "case TokenAuthenticator_init token anonymous of
     Inl e \<Rightarrow> \<not> anonymous \<and> (case token of None \<Rightarrow> True | Some t \<Rightarrow> strip t = [])
   | Inr auth \<Rightarrow>
      (authorized auth h = Inr True \<longleftrightarrow> (if anonymous then True else
        \<exists>t v. token = Some t \<and> h = Some (''Bearer '' @ v) \<and> strip v = strip t \<and> strip t \<noteq> [] \<and> ascii_text (strip t))) \<and>
      ((\<exists>e. authorized auth h = Inl e) \<longleftrightarrow> (if anonymous then False else
        \<exists>t v. token = Some t \<and> h = Some (''Bearer '' @ v) \<and> strip v \<noteq> [] \<and>
          list_ex (\<lambda>s. ascii_text s = False) [strip v, strip t]))"
proof (cases "TokenAuthenticator_init token anonymous")
  case (Inl e)
  then show ?thesis by (auto simp: TokenAuthenticator_init_def Let_def split: if_splits option.splits)
next
  case (Inr auth)
  show ?thesis
  proof (cases anonymous)
    case True
    with Inr show ?thesis by (auto simp: TokenAuthenticator_init_def authorized_def Let_def)
  next
    case False
    with Inr obtain t where t: "token = Some t" "strip t \<noteq> []" "auth = \<lparr>au_token = Some (strip t), au_allow_anonymous = False\<rparr>"
      by (auto simp: TokenAuthenticator_init_def Let_def split: if_splits)
    show ?thesis
    proof (cases "\<exists>v. h = Some (''Bearer '' @ v)")
      case True
      then obtain v where "h = Some (''Bearer '' @ v)" by blast
      then have "authorized auth h = (if strip v = [] then Inr False else compare_digest (strip v) (strip t))"
        by (simp add: authorized_def startswith_def t)
      then show ?thesis using Inr False t \<open>h = _\<close>
        by (cases "strip v = []"; cases "strip v = strip t") (auto simp: compare_digest_def)
    next
      case nob: False
      have "authorized auth h = Inr False"
      proof (cases h)
        case (Some x)
        have "\<not> startswith x ''Bearer ''"
          using nob Some by (simp add: startswith_iff)
        then show ?thesis using Some t by (simp add: authorized_def)
      qed (simp add: authorized_def t)
      then show ?thesis using Inr False nob by auto
    qed
  qed
qed

end
