(* ===== verification/Submission.thy ===== *)
theory Submission
  imports Server
begin

text \<open>
  \<open>bundle/submission.py\<close>: one verified bundle is posted to one endpoint. The network is a function
  from the state of the world and a request to a new state and a response or an \<open>OSError\<close>; address
  parsing and name resolution are arguments.
\<close>

section \<open>The endpoint\<close>

text \<open>\<open>SubmissionError\<close> is a \<open>RuntimeError\<close>.\<close>

definition submission_error :: "string \<Rightarrow> 'a result" where
  "submission_error message = Inl (RuntimeError message)"

text \<open>
  \<open>ipaddress.ip_address\<close>: \<open>None\<close> where it raises, else whether the address is private, loopback or
  link-local. \<open>socket.getaddrinfo\<close> gives the addresses of a host or raises \<open>OSError\<close>.
\<close>

record resolver =
  rv_local_address :: "string \<Rightarrow> bool option"
  rv_getaddrinfo :: "string \<Rightarrow> int \<Rightarrow> string list option"
  rv_bracket_host :: "string \<Rightarrow> bool"

definition is_private_http_host :: "resolver \<Rightarrow> string \<Rightarrow> int option \<Rightarrow> bool result" where
  "is_private_http_host rv hostname port =
    (if casefold hostname = ''localhost'' then Inr True
     else case rv_local_address rv hostname of
         Some b \<Rightarrow> Inr b
       | None \<Rightarrow>
          (case rv_getaddrinfo rv hostname (case port of None \<Rightarrow> 80 | Some p \<Rightarrow> if p = 0 then 80 else p) of
             None \<Rightarrow> submission_error ''cannot resolve submission endpoint''
           | Some addresses \<Rightarrow> rbind (rmap (\<lambda>a. case rv_local_address rv a of
                 None \<Rightarrow> Inl (ValueError ''does not appear to be an IPv4 or IPv6 address'') | Some b \<Rightarrow> Inr b) addresses)
               (\<lambda>locals. Inr (addresses \<noteq> [] \<and> list_all (\<lambda>b. b) locals))))"

record endpoint_parts =
  ep_scheme :: string
  ep_netloc :: string
  ep_path :: string
  ep_query :: string
  ep_fragment :: string

text \<open>\<open>urlsplit\<close> with every component: the authority after two slashes, then the path.\<close>

definition split_authority :: "(string \<Rightarrow> bool) \<Rightarrow> string \<Rightarrow> string \<Rightarrow> endpoint_parts result" where
  "split_authority bracket_host scheme rest =
    (let authority = startswith rest ''//'';
         netloc = (if authority then until ''/?#'' (drop 2 rest) else []);
         tail = (if authority then from_first ''/?#'' (drop 2 rest) else rest);
         body = until ''#'' tail
     in if brackets_ok bracket_host netloc
        then Inr \<lparr>ep_scheme = scheme, ep_netloc = netloc, ep_path = until ''?'' body,
          ep_query = after_first (CHR ''?'') body, ep_fragment = after_first (CHR ''#'') tail\<rparr>
        else Inl (ValueError ''Invalid IPv6 URL''))"

definition split_endpoint :: "(string \<Rightarrow> bool) \<Rightarrow> string \<Rightarrow> endpoint_parts result" where
  "split_endpoint bracket_host endpoint =
    (let url = drop_unsafe (dropWhile (\<lambda>c. code c \<le> 32) endpoint); scheme = until '':'' url in
     if CHR '':'' \<in> set url \<and> scheme \<noteq> [] \<and> isalpha [hd url] \<and> list_all scheme_char scheme
     then split_authority bracket_host (casefold scheme) (after_first (CHR '':'') url)
     else split_authority bracket_host [] url)"

definition validate_endpoint :: "resolver \<Rightarrow> string \<Rightarrow> bool \<Rightarrow> string result" where
  "validate_endpoint rv endpoint allow_http =
    (case rbind (split_endpoint (rv_bracket_host rv) endpoint) (\<lambda>parsed.
        rbind (port_number (snd (hostinfo (ep_netloc parsed)))) (\<lambda>port. Inr (parsed, port))) of
       Inl e \<Rightarrow> submission_error ''invalid submission endpoint''
     | Inr (parsed, port) \<Rightarrow>
        let hostname = lower_host (fst (hostinfo (ep_netloc parsed))) in
        if ep_scheme parsed \<noteq> ''https'' \<and> ep_scheme parsed \<noteq> ''http''
        then submission_error ''submission endpoint must use HTTPS''
        else if hostname = [] then submission_error ''submission endpoint must contain a hostname''
        else if CHR ''@'' \<in> set (ep_netloc parsed)
        then submission_error ''submission endpoint must not contain credentials''
        else if ep_query parsed \<noteq> [] \<or> ep_fragment parsed \<noteq> []
        then submission_error ''submission endpoint must not contain query or fragment data''
        else rbind (if ep_scheme parsed \<noteq> ''http'' then Inr ()
            else if \<not> allow_http then submission_error ''plain HTTP submission requires --allow-http''
            else rbind (is_private_http_host rv hostname port) (\<lambda>private.
              if private then Inr ()
              else submission_error ''plain HTTP is restricted to private or loopback endpoints'')) (\<lambda>_.
          Inr (unsplit (ep_scheme parsed) hostname port (if ep_path parsed = [] then ''/'' else ep_path parsed))))"

section \<open>Responses\<close>

definition MAX_RESPONSE_BYTES :: nat where "MAX_RESPONSE_BYTES = 64 * 1024"

definition bounded_response :: "string \<Rightarrow> string result" where
  "bounded_response stream = (let content = take (MAX_RESPONSE_BYTES + 1) stream in
    if MAX_RESPONSE_BYTES < length content then submission_error ''submission response exceeds the safety limit''
    else Inr content)"

definition remote_submission_id :: "runtime \<Rightarrow> string \<Rightarrow> string option result" where
  "remote_submission_id rt content =
    (if content = [] then Inr None
     else case rbind (rt_decode rt content) (rt_loads rt) of
         Inl e \<Rightarrow> if is_decode_error e then Inr None else Inl e
       | Inr v \<Rightarrow> (case v of
           PDict d \<Rightarrow> (case py_str (get d ''submission_id'') of
               None \<Rightarrow> Inr None
             | Some s \<Rightarrow> let cleaned = strip s in Inr (if cleaned = [] then None else Some (take 256 cleaned)))
         | _ \<Rightarrow> Inr None))"

record SubmissionReceipt =
  sc_schema_version :: string
  sc_submitted_at :: pydatetime
  sc_endpoint :: string
  sc_bundle_id :: string
  sc_bundle_sha256 :: string
  sc_status_code :: int
  sc_accepted :: bool
  sc_remote_submission_id :: "string option"
  sc_response_sha256 :: string

section \<open>Submission\<close>

record net_request =
  nr_url :: string
  nr_headers :: "(string \<times> string) list"
  nr_data :: string

text \<open>The status and the body of a response, of an \<open>HTTPError\<close> too, or an \<open>OSError\<close>.\<close>

type_synonym 'w network = "net_request \<Rightarrow> 'w \<Rightarrow> 'w \<times> (int \<times> string) option"

definition submission_plan ::
  "runtime \<Rightarrow> resolver \<Rightarrow> string option \<Rightarrow> string \<Rightarrow> bool \<Rightarrow> bool \<Rightarrow> pyval result" where
  "submission_plan rt rv bundle endpoint allow_http authenticated =
    rbind (verify_bundle rt bundle) (\<lambda>v. rbind (validate_endpoint rv endpoint allow_http) (\<lambda>url.
    Inr (PDict [(''authenticated'', PBool authenticated), (''bundle_id'', PStr (bv_bundle_id v)),
      (''bundle_sha256'', PStr (bv_bundle_sha256 v)), (''endpoint'', PStr url), (''file_count'', PInt (bv_file_count v)),
      (''mode'', PStr ''dry_run''), (''sample_count'', PInt (bv_sample_count v)),
      (''warnings'', PList (map PStr (bv_warnings v)))])))"

definition submission_headers :: "string \<Rightarrow> BundleVerification \<Rightarrow> (string \<times> string) list" where
  "submission_headers version v = [(''Content-Type'', ''application/vnd.cloudeyes.bundle+zip; version=1''),
     (''Idempotency-Key'', bv_bundle_sha256 v), (''User-Agent'', ''CloudEyes/'' @ version),
     (''X-CloudEyes-Bundle-Id'', bv_bundle_id v), (''X-CloudEyes-Bundle-SHA256'', bv_bundle_sha256 v)]"

text \<open>
  The checks before the request is sent. The file is read twice: \<open>bundle\<close> is what the verifier read,
  \<open>reread\<close> what \<open>read_bytes\<close> gives afterwards, an \<open>OSError\<close> or bytes that need not be the same.
\<close>

definition prepare_submission ::
  "runtime \<Rightarrow> resolver \<Rightarrow> string \<Rightarrow> string option \<Rightarrow> string result \<Rightarrow> string \<Rightarrow> string option \<Rightarrow> bool \<Rightarrow> pyfloat \<Rightarrow>
   (BundleVerification \<times> net_request) result" where
  "prepare_submission rt rv version bundle reread endpoint token allow_http timeout_seconds =
    (if fle timeout_seconds (Fin 0) \<or> flt (Fin 300) timeout_seconds
     then submission_error ''submission timeout must be between 0 and 300 seconds''
     else rbind (verify_bundle rt bundle) (\<lambda>v.
       rbind (validate_endpoint rv endpoint allow_http) (\<lambda>url.
       rbind reread (\<lambda>content.
       rbind (case token of
           None \<Rightarrow> Inr (submission_headers version v)
         | Some t \<Rightarrow> if strip t = [] then submission_error ''submission token must not be empty''
             else Inr (submission_headers version v @ [(''Authorization'', ''Bearer '' @ strip t)])) (\<lambda>headers.
       Inr (v, \<lparr>nr_url = url, nr_headers = headers, nr_data = content\<rparr>))))))"

definition submit_bundle ::
  "runtime \<Rightarrow> resolver \<Rightarrow> string \<Rightarrow> 'w network \<Rightarrow> string option \<Rightarrow> string result \<Rightarrow> string \<Rightarrow> string option \<Rightarrow> bool \<Rightarrow> pyfloat \<Rightarrow>
   pydatetime \<Rightarrow> 'w \<Rightarrow> 'w \<times> SubmissionReceipt result" where
  "submit_bundle rt rv version network bundle reread endpoint token allow_http timeout_seconds timestamp w =
    (case prepare_submission rt rv version bundle reread endpoint token allow_http timeout_seconds of
       Inl e \<Rightarrow> (w, Inl e)
     | Inr (v, request) \<Rightarrow>
        (case network request w of
           (w', None) \<Rightarrow> (w', submission_error ''submission request failed'')
         | (w', Some (status_code, stream)) \<Rightarrow>
            (w', rbind (bounded_response stream) (\<lambda>content.
              if \<not> aware timestamp then submission_error ''submitted_at must contain timezone information''
              else rbind (remote_submission_id rt content) (\<lambda>remote. Inr
                \<lparr>sc_schema_version = ''1.0.0'', sc_submitted_at = timestamp, sc_endpoint = nr_url request,
                 sc_bundle_id = bv_bundle_id v, sc_bundle_sha256 = bv_bundle_sha256 v, sc_status_code = status_code,
                 sc_accepted = (200 \<le> status_code \<and> status_code < 300), sc_remote_submission_id = remote,
                 sc_response_sha256 = rt_sha256 rt content\<rparr>)))))"

text \<open>\<open>token_from_environment\<close>; the environment is a map.\<close>

definition token_from_environment :: "(string \<Rightarrow> string option) \<Rightarrow> string \<Rightarrow> string option result" where
  "token_from_environment environ name =
    (if name = [] \<or> \<not> isalnum (map (\<lambda>c. if c = CHR ''_'' then CHR ''A'' else c) name) \<or> is_digit (hd name)
     then submission_error ''token environment variable name is invalid'' else Inr (environ name))"

section \<open>What an accepted endpoint looks like\<close>

definition endpoint_ok :: "resolver \<Rightarrow> bool \<Rightarrow> string \<Rightarrow> string \<Rightarrow> int option \<Rightarrow> string \<Rightarrow> bool" where
  "endpoint_ok rv allow_http scheme h port p \<longleftrightarrow> h \<noteq> [] \<and> CHR ''@'' \<notin> set h \<and> set h \<inter> set ''/?#'' = {} \<and>
    (case port of None \<Rightarrow> True | Some n \<Rightarrow> 0 \<le> n \<and> n \<le> 65535) \<and>
    startswith p ''/'' \<and> set p \<inter> set ''?#'' = {} \<and>
    (if scheme = ''https'' then True else scheme = ''http'' \<and> allow_http \<and> is_private_http_host rv h port = Inr True)"

lemma digits_val_nonneg: "list_all is_digit s \<Longrightarrow> 0 \<le> digits_val s"
proof (induction s rule: rev_induct)
  case (snoc c s)
  then show ?case by (simp add: digits_val_snoc is_digit_def)
qed (simp add: digits_val_def)

lemma port_number_range: "port_number p = Inr (Some n) \<Longrightarrow> 0 \<le> n \<and> n \<le> 65535"
  by (auto simp: port_number_def digits_val_nonneg split: if_splits)

lemma after_last_subset: "set (after_last c s) \<subseteq> set s"
  using until_subset by (fastforce simp: after_last_def)

lemma hostinfo_subset: "set (fst (hostinfo netloc)) \<subseteq> set netloc"
proof -
  have "set (after_first c (after_last d s)) \<subseteq> set s" for c d s
    using after_first_subset [of c "after_last d s"] after_last_subset [of d s] by blast
  then show ?thesis
    using until_subset after_last_subset by (auto simp: hostinfo_def Let_def) blast+
qed

lemma lower_chars: "c \<in> set (lower_host h) \<Longrightarrow> \<not> is_lower c \<Longrightarrow> c \<in> set h"
proof -
  assume "c \<in> set (lower_host h)" "\<not> is_lower c"
  moreover have "c \<in> set s" if "c \<in> set (casefold s)" "\<not> is_lower c" for s
  proof -
    from that(1) obtain d where d: "d \<in> set s" "c = to_lower d" by (auto simp: casefold_def)
    have "to_lower d = d" using that(2) d(2) by (auto simp: to_lower_def is_lower_def is_upper_def)
    with d show ?thesis by simp
  qed
  ultimately show ?thesis
    using until_subset [of "''%''" h] from_first_subset [of "''%''" h] by (fastforce simp: lower_host_def)
qed

lemma until_hd: "until cs s \<noteq> [] \<Longrightarrow> hd (until cs s) = hd s"
  by (cases s) (auto simp: until_def split: if_splits)

lemma until_two: "set (until [a] (until [b] s)) \<inter> {a, b} = {}"
  by (auto simp: until_def dest!: set_takeWhileD)

lemma until_two_hd:
  "until [a] (until [b] s) \<noteq> [] \<Longrightarrow> hd (until [a] (until [b] s)) = hd s \<and> s \<noteq> []"
  by (cases s) (auto simp: until_def split: if_splits)

lemma split_endpoint_facts:
  assumes "split_endpoint bh e = Inr p"
  shows "set (ep_netloc p) \<inter> set ''/?#'' = {}" "set (ep_path p) \<inter> set ''?#'' = {}"
    "ep_netloc p \<noteq> [] \<Longrightarrow> ep_path p \<noteq> [] \<Longrightarrow> startswith (ep_path p) ''/''"
proof -
  from assms obtain scheme rest where run: "split_authority bh scheme rest = Inr p"
    by (auto simp: split_endpoint_def Let_def split: if_splits)
  from run have netloc: "ep_netloc p = (if startswith rest ''//'' then until ''/?#'' (drop 2 rest) else [])"
    and path: "ep_path p = until ''?'' (until ''#'' (if startswith rest ''//'' then from_first ''/?#'' (drop 2 rest) else rest))"
    unfolding split_authority_def Let_def by (cases "startswith rest ''//''"; force split: if_splits)+
  show "set (ep_netloc p) \<inter> set ''/?#'' = {}"
  proof (cases "startswith rest ''//''")
    case True
    show ?thesis unfolding netloc by (simp only: True if_True until_disjoint)
  next
    case False
    then have "ep_netloc p = []" unfolding netloc by (simp only: if_False)
    then show ?thesis by (simp only: list.set(1) Int_empty_left)
  qed
  show chars: "set (ep_path p) \<inter> set ''?#'' = {}"
    unfolding path list.set by (rule until_two)
  assume "ep_netloc p \<noteq> []" and ne: "ep_path p \<noteq> []"
  then have "ep_path p = until ''?'' (until ''#'' (from_first ''/?#'' (drop 2 rest)))" using netloc path by (auto split: if_splits)
  with ne until_two_hd [of "CHR ''?''" "CHR ''#''" "from_first ''/?#'' (drop 2 rest)"]
  have "hd (ep_path p) = hd (from_first ''/?#'' (drop 2 rest))" "from_first ''/?#'' (drop 2 rest) \<noteq> []"
    by simp_all
  then have "hd (ep_path p) \<in> set ''/?#''" using from_first_hd by metis
  moreover have "hd (ep_path p) \<in> set (ep_path p)" using ne by simp
  ultimately have "hd (ep_path p) = CHR ''/''" using chars by auto
  with ne show "startswith (ep_path p) ''/''" by (cases "ep_path p") (auto simp: startswith_def)
qed

lemma lower_host_plain:
  assumes "set h \<inter> set ''@/?#'' = {}"
  shows "CHR ''@'' \<notin> set (lower_host h) \<and> set (lower_host h) \<inter> set ''/?#'' = {}"
proof -
  have "\<not> is_lower (CHR ''@'')" "\<not> is_lower (CHR ''/'')" "\<not> is_lower (CHR ''?'')" "\<not> is_lower (CHR ''#'')" by code_simp+
  with lower_chars [of _ h] assms show ?thesis by auto
qed

lemma validate_endpoint_Inr:
  assumes "validate_endpoint rv endpoint allow_http = Inr url"
  shows "\<exists>scheme h port p. url = unsplit scheme h port p \<and> endpoint_ok rv allow_http scheme h port p"
proof -
  from assms obtain parsed port where s: "split_endpoint (rv_bracket_host rv) endpoint = Inr parsed"
    and port: "port_number (snd (hostinfo (ep_netloc parsed))) = Inr port"
    and rest: "(let hostname = lower_host (fst (hostinfo (ep_netloc parsed))) in
        if ep_scheme parsed \<noteq> ''https'' \<and> ep_scheme parsed \<noteq> ''http''
        then submission_error ''submission endpoint must use HTTPS''
        else if hostname = [] then submission_error ''submission endpoint must contain a hostname''
        else if CHR ''@'' \<in> set (ep_netloc parsed)
        then submission_error ''submission endpoint must not contain credentials''
        else if ep_query parsed \<noteq> [] \<or> ep_fragment parsed \<noteq> []
        then submission_error ''submission endpoint must not contain query or fragment data''
        else rbind (if ep_scheme parsed \<noteq> ''http'' then Inr ()
            else if \<not> allow_http then submission_error ''plain HTTP submission requires --allow-http''
            else rbind (is_private_http_host rv hostname port) (\<lambda>private.
              if private then Inr ()
              else submission_error ''plain HTTP is restricted to private or loopback endpoints'')) (\<lambda>_.
          Inr (unsplit (ep_scheme parsed) hostname port (if ep_path parsed = [] then ''/'' else ep_path parsed)))) = Inr url"
    by (auto simp: validate_endpoint_def rbind_Inr_iff submission_error_def split: sum.splits)
  let ?h = "lower_host (fst (hostinfo (ep_netloc parsed)))" and ?p = "if ep_path parsed = [] then ''/'' else ep_path parsed"
  from rest have url: "url = unsplit (ep_scheme parsed) ?h port ?p" and h: "?h \<noteq> []" and at: "CHR ''@'' \<notin> set (ep_netloc parsed)"
    and scheme: "ep_scheme parsed = ''https'' \<or> ep_scheme parsed = ''http'' \<and> allow_http \<and> is_private_http_host rv ?h port = Inr True"
    by (auto simp: Let_def submission_error_def rbind_Inr_iff split: if_splits)
  note facts = split_endpoint_facts [OF s]
  have netloc: "ep_netloc parsed \<noteq> []"
  proof
    assume "ep_netloc parsed = []"
    with h show False by (simp add: hostinfo_def after_last_def until_def lower_host_def from_first_def)
  qed
  have "set (fst (hostinfo (ep_netloc parsed))) \<inter> set ''@/?#'' = {}"
    using hostinfo_subset [of "ep_netloc parsed"] at facts(1) by auto
  from lower_host_plain [OF this] have "CHR ''@'' \<notin> set ?h \<and> set ?h \<inter> set ''/?#'' = {}" .
  moreover have "startswith ?p ''/'' \<and> set ?p \<inter> set ''?#'' = {}"
    using facts(2) facts(3) [OF netloc] by (auto simp: startswith_def)
  moreover have "case port of None \<Rightarrow> True | Some n \<Rightarrow> 0 \<le> n \<and> n \<le> 65535"
    using port port_number_range by (auto split: option.splits)
  ultimately have "endpoint_ok rv allow_http (ep_scheme parsed) ?h port ?p"
    using h scheme by (auto simp: endpoint_ok_def)
  with url show ?thesis by blast
qed

lemma if_splitI: "P \<Longrightarrow> (if c then True else P)"
  by simp

section \<open>Properties\<close>


end
