(* ===== verification/Acceptance.thy ===== *)
theory Acceptance
  imports Ingestion
begin

text \<open>
  What becomes of a new bundle that verifies: the counterpart of the outcomes of \<open>Ingestion\<close>. The
  rows read from a verified bundle satisfy every constraint of the tables but two, which the verifier
  does not look at: integers that SQLite cannot bind, and evidence referenced twice.
\<close>

section \<open>Rows that can be inserted\<close>

text \<open>
  A row of a sample that was read from a verified bundle has positive, finite counts; what SQLite
  still decides is whether its integers fit.
\<close>

definition countable_row :: "SampleRecord \<Rightarrow> bool" where
  "countable_row r \<longleftrightarrow> num_positive (sr_cpu_count r) \<and> num_positive (sr_memory_bytes r) \<and>
    num_finite (sr_cpu_count r) \<and> num_finite (sr_memory_bytes r) \<and> 0 \<le> sr_raw_evidence_count r"

definition bindable_row :: "SampleRecord \<Rightarrow> bool" where
  "bindable_row r \<longleftrightarrow> list_all bindable [sr_cpu_count r, sr_memory_bytes r, IntNum (sr_raw_evidence_count r)]"

definition insertable :: "SampleRecord \<Rightarrow> bool" where
  "insertable r \<longleftrightarrow> bindable_row r \<and> countable_row r"

lemma rbind_Inr_id [simp]: "rbind r Inr = r"
  by (cases r) simp_all

lemma finite_not_nan: "num_finite v \<Longrightarrow> FloatNum NaN \<noteq> v"
  by auto

lemma insert_samples_all:
  assumes "list_all (\<lambda>r. insertable r \<and> sr_submission_id r \<in> set (map sub_submission_id (db_submissions db))) rows"
    and "distinct (map sr_sample_id (db_samples db @ rows))"
  shows "rfold insert_sample db rows = Inr (db\<lparr>db_samples := db_samples db @ map stored_row rows\<rparr>)"
  using assms
proof (induction rows arbitrary: db)
  case (Cons r rows)
  have "insert_sample db r = Inr (db\<lparr>db_samples := db_samples db @ [stored_row r]\<rparr>)"
    using Cons.prems by (simp add: insert_sample_def insertable_def bindable_row_def countable_row_def bind_nums_def constraint_def stored_num_positive finite_not_nan image_iff)
  with Cons.IH [of "db\<lparr>db_samples := db_samples db @ [stored_row r]\<rparr>"] Cons.prems show ?case by simp
qed simp

lemma insert_samples_overflow:
  assumes "list_all (\<lambda>r. countable_row r \<and> sr_submission_id r \<in> set (map sub_submission_id (db_submissions db))) rows"
    and "distinct (map sr_sample_id (db_samples db @ rows))" and "\<not> list_all bindable_row rows"
  shows "rfold insert_sample db rows = Inl OverflowError"
  using assms
proof (induction rows arbitrary: db)
  case (Cons r rows)
  show ?case
  proof (cases "bindable_row r")
    case True
    then have "insert_sample db r = Inr (db\<lparr>db_samples := db_samples db @ [stored_row r]\<rparr>)"
      using Cons.prems insert_samples_all [of db "[r]"] by (simp add: insertable_def)
    with Cons.IH [of "db\<lparr>db_samples := db_samples db @ [stored_row r]\<rparr>"] Cons.prems True show ?thesis by simp
  next
    case False
    then have "insert_sample db r = Inl OverflowError" by (auto simp: insert_sample_def bindable_row_def bind_nums_def)
    then show ?thesis by simp
  qed
qed simp

lemma insert_evidence_all:
  assumes "list_all (\<lambda>r. sqlite_int (er_size_bytes r) \<and> 0 \<le> er_size_bytes r \<and>
      er_submission_id r \<in> set (map sub_submission_id (db_submissions db)) \<and>
      er_sample_id r \<in> set (map sr_sample_id (db_samples db))) rows"
    and "distinct (map evidence_key (db_evidence db @ rows))"
  shows "rfold insert_evidence db rows = Inr (db\<lparr>db_evidence := db_evidence db @ rows\<rparr>)"
  using assms
proof (induction rows arbitrary: db)
  case (Cons r rows)
  have "insert_evidence db r = Inr (db\<lparr>db_evidence := db_evidence db @ [r]\<rparr>)"
    using Cons.prems by (simp add: insert_evidence_def bind_ints_def constraint_def)
  with Cons.IH [of "db\<lparr>db_evidence := db_evidence db @ [r]\<rparr>"] Cons.prems show ?case by simp
qed simp

lemma insert_evidence_repeated:
  assumes "list_all (\<lambda>r. sqlite_int (er_size_bytes r) \<and> 0 \<le> er_size_bytes r \<and>
      er_submission_id r \<in> set (map sub_submission_id (db_submissions db)) \<and>
      er_sample_id r \<in> set (map sr_sample_id (db_samples db))) rows"
    and "distinct (map evidence_key (db_evidence db))" and "\<not> distinct (map evidence_key (db_evidence db @ rows))"
  shows "\<exists>m. rfold insert_evidence db rows = Inl (IntegrityError m)"
  using assms
proof (induction rows arbitrary: db)
  case (Cons r rows)
  show ?case
  proof (cases "evidence_key r \<in> set (map evidence_key (db_evidence db))")
    case True
    with Cons.prems show ?thesis by (simp add: insert_evidence_def bind_ints_def constraint_def)
  next
    case False
    then have "insert_evidence db r = Inr (db\<lparr>db_evidence := db_evidence db @ [r]\<rparr>)"
      using Cons.prems insert_evidence_all [of db "[r]"] by simp
    with Cons.IH [of "db\<lparr>db_evidence := db_evidence db @ [r]\<rparr>"] Cons.prems False show ?thesis by simp
  qed
qed simp

section \<open>Slots and keys\<close>

text \<open>The store has no damaged file under this digest.\<close>

definition slot_intact :: "runtime \<Rightarrow> files \<Rightarrow> string \<Rightarrow> bool" where
  "slot_intact rt fs digest \<longleftrightarrow> (case store_lookup fs digest of None \<Rightarrow> True | Some c \<Rightarrow> rt_sha256 rt c = digest)"

lemma store_put_intact:
  assumes "slot_intact rt fs digest" and "rt_sha256 rt source = digest"
  shows "\<exists>fs' created. store_put (rt_sha256 rt) random NoFault source digest fs = (fs', Inr (bundle_path digest, created)) \<and>
    (\<exists>c. store_lookup fs' digest = Some c \<and> rt_sha256 rt c = digest)"
proof -
  obtain fs' r where put: "store_put (rt_sha256 rt) random NoFault source digest fs = (fs', r)" by (cases "store_put (rt_sha256 rt) random NoFault source digest fs")
  have "r \<noteq> Inl e" for e
    using put assms by (auto simp: store_put_def Let_def put_file_def slot_intact_def store_lookup_def split: option.splits)
  with store_put_cases [OF put] put assms(2) bundle_files.lookup_put show ?thesis by fastforce
qed

lemma new_submission:
  assumes "platform_inv sv st" and "submission_id_of digest \<notin> set (map sub_submission_id (db_submissions (pf_db st)))"
  shows "digest \<notin> set (map sub_bundle_sha256 (db_submissions (pf_db st)))"
    "digest \<notin> set (map sub_idempotency_key (db_submissions (pf_db st)))"
    "find_duplicate rt digest digest (pf_db st) = Inr None"
proof -
  have key: "sub_idempotency_key r \<noteq> digest \<and> sub_bundle_sha256 r \<noteq> digest" if "r \<in> set (db_submissions (pf_db st))" for r
    using assms that by (auto simp: platform_inv_def stored_for_def list_all_iff)
  then show "digest \<notin> set (map sub_bundle_sha256 (db_submissions (pf_db st)))"
    "digest \<notin> set (map sub_idempotency_key (db_submissions (pf_db st)))" by auto
  have "find (\<lambda>row. sub_idempotency_key row = digest) (db_submissions (pf_db st)) = None"
    "find (\<lambda>row. sub_bundle_sha256 row = digest) (db_submissions (pf_db st)) = None"
    using key by (auto simp: find_None_iff)
  then show "find_duplicate rt digest digest (pf_db st) = Inr None"
    by (simp add: find_duplicate_def by_idempotency_key_def by_bundle_sha256_def lookup_receipt_def lift_py_def)
qed

lemma sqlite_int_small: "int n < MAX_ARCHIVE_FILES \<Longrightarrow> m \<le> n \<Longrightarrow> sqlite_int (int m)"
  by (simp add: sqlite_int_def MAX_ARCHIVE_FILES_def)

lemma distinct_map_append:
  "distinct (map f xs) \<Longrightarrow> distinct (map f ys) \<Longrightarrow> (\<And>x y. x \<in> set xs \<Longrightarrow> y \<in> set ys \<Longrightarrow> f x \<noteq> f y) \<Longrightarrow>
   distinct (map f (xs @ ys))"
  unfolding map_append distinct_append set_map by blast

lemma list_all2_mem: "list_all2 P xs ys \<Longrightarrow> y \<in> set ys \<Longrightarrow> \<exists>x \<in> set xs. P x y"
  by (induction rule: list_all2_induct) auto

lemma rmap_required_mapping: "rmap (\<lambda>f. required_mapping f m) (map PDict fs) = Inr fs"
  by (induction fs) (simp_all add: required_mapping_def)

lemma find_SomeD: "find P xs = Some x \<Longrightarrow> x \<in> set xs \<and> P x"
  by (induction xs) (auto split: if_splits)

section \<open>The rows of a verified bundle\<close>

text \<open>A record that was read for one sample of the manifest.\<close>

fun read_as :: "string \<Rightarrow> string \<times> Sample \<times> string list \<Rightarrow> SampleRecord \<times> EvidenceRow list \<Rightarrow> bool" where
  "read_as sid (path, sample, raws) (row, es) \<longleftrightarrow> sr_sample_id row = smp_sample_id sample \<and>
    sr_submission_id row = sid \<and> countable_row row \<and> map er_archive_path es = raws \<and>
    list_all (\<lambda>e. er_submission_id e = sid \<and> er_sample_id e = sr_sample_id row \<and> 0 \<le> er_size_bytes e \<and>
      er_size_bytes e < 2 ^ 63) es"

text \<open>No entry of the archive reaches \<open>2 ^ 63\<close> bytes, which no Python \<open>bytes\<close> object does.\<close>

definition addressable :: "runtime \<Rightarrow> string \<Rightarrow> bool" where
  "addressable rt payload \<longleftrightarrow> (case rt_unzip rt payload of Inl e \<Rightarrow> True
    | Inr infos \<Rightarrow> list_all (\<lambda>info. case ze_content info of Inl e \<Rightarrow> True | Inr c \<Rightarrow> int (length c) < 2 ^ 63) infos)"

lemma addressable_entry:
  assumes "addressable rt payload" and "rt_unzip rt payload = Inr infos"
    and "read_entry (map (\<lambda>info. (ze_filename info, info)) infos) p = Inr c"
  shows "int (length c) < 2 ^ 63"
  using assms by (auto simp: addressable_def read_entry_def list_all_iff split: option.splits sum.splits dest!: map_of_SomeD)

lemma evidence_read:
  assumes "evidence_record sv files sid smp (PStr p) = Inr e" and "list_all (file_intact rt entries) files"
    and "\<And>p c. read_entry entries p = Inr c \<Longrightarrow> int (length c) < 2 ^ 63"
  shows "er_archive_path e = p \<and> er_submission_id e = sid \<and> er_sample_id e = smp \<and> 0 \<le> er_size_bytes e \<and>
    er_size_bytes e < 2 ^ 63"
proof -
  from assms(1) obtain f where f: "file_entry files p = Inr f"
    and e: "er_archive_path e = p" "er_submission_id e = sid" "er_sample_id e = smp" "er_size_bytes e = size_int (get f ''size_bytes'')"
    by (auto simp: evidence_record_def rbind_Inr_iff Let_def py_to_str_def)
  from f have "f \<in> set files" by (auto simp: file_entry_def dest!: find_SomeD split: option.splits)
  with assms(2) have "file_intact rt entries f" by (simp add: list_all_iff)
  then obtain c where "read_entry entries (file_path f) = Inr c" "py_eq_int (get f ''size_bytes'') (int (length c))"
    by (cases "read_entry entries (file_path f)") (simp_all add: file_intact_def)
  moreover have "size_int v = n" if "py_eq_int v n" for v n
    using that by (cases "(v, n)" rule: py_eq_int.cases) auto
  ultimately show ?thesis using e assms(3) by fastforce
qed

lemma record_read:
  assumes rec: "record_sample sv entries files sid raw = Inr (row, es)"
    and ok: "bundled_ok (sv_rt sv) entries listed allow raw (path, sample, raws)"
    and files: "list_all (file_intact (sv_rt sv) entries) files"
    and small: "\<And>p c. read_entry entries p = Inr c \<Longrightarrow> int (length c) < 2 ^ 63"
  shows "read_as sid (path, sample, raws) (row, es)"
proof -
  from ok obtain entry where raw: "raw = PDict entry" and path: "get entry ''sample_path'' = PStr path"
    and raws: "get entry ''raw_evidence_paths'' = PList (map PStr raws)"
    and load: "load_bundled (sv_rt sv) entries path = Inr sample" and wf: "wf_sample sample"
    by (auto simp: bundled_ok_def split: pyval.splits)
  from rec obtain sample' dg json where
    load': "load_bundled (sv_rt sv) entries path = Inr sample'"
    and canonical: "json_finite (sample_dict (rt_isofmt (sv_rt sv)) sample')"
    and es: "rmap (evidence_record sv files sid (smp_sample_id sample')) (map PStr raws) = Inr es"
    and row: "row = sample_record (sv_rt sv) sid path dg json (int (length raws)) sample'"
    unfolding record_sample_def raw required_mapping_def pyval.case rbind.simps Let_def path py_to_str_def raws
      rbind_Inr_iff if_raise_Inr_iff load_bundled_def dyn_iter.simps canonical_json_bytes_def dumps_def
    by (fastforce split: if_splits)
  from load load' have same: "sample' = sample" by simp
  have "counts_finite sample" using canonical json_finite_sample [OF wf] by (simp add: same)
  with wf have "countable_row row"
    by (simp add: row same sample_record_def countable_row_def counts_finite_def wf_sample_def wf_machine_def)
  moreover have "list_all2 (\<lambda>p e. er_archive_path e = p \<and> er_submission_id e = sid \<and> er_sample_id e = smp_sample_id sample \<and>
      0 \<le> er_size_bytes e \<and> er_size_bytes e < 2 ^ 63) raws es"
    using es unfolding rmap_Inr_iff list_all2_map1 same
    by (rule list_all2_mono) (rule evidence_read [OF _ files], assumption, rule small)
  then have "map er_archive_path es = raws \<and> list_all (\<lambda>e. er_submission_id e = sid \<and> er_sample_id e = smp_sample_id sample \<and>
      0 \<le> er_size_bytes e \<and> er_size_bytes e < 2 ^ 63) es"
    by (induction rule: list_all2_induct) auto
  ultimately show ?thesis by (simp add: row same sample_record_def)
qed

lemma read_bundle_rows:
  assumes rb: "read_bundle sv payload bid sid = Inr (v, manifest, samples, evidence)"
    and addr: "addressable (sv_rt sv) payload"
  shows "\<exists>xs rows. list_all2 (read_as sid) xs rows \<and> samples = map fst rows \<and> evidence = concat (map snd rows) \<and>
    distinct (map (\<lambda>(path, s, raws). smp_sample_id s) xs) \<and> xs \<noteq> [] \<and> bv_sample_count v = int (length xs) \<and>
    0 < bv_file_count v \<and> sqlite_int (bv_file_count v) \<and> sqlite_int (bv_sample_count v)"
proof -
  let ?rt = "sv_rt sv"
  from rb obtain infos raw_files files raw_samples rows bytes decoded val where
    v: "verify_bundle ?rt (Some payload) = Inr v" and u: "rt_unzip ?rt payload = Inr infos"
    and m: "read_entry (map (\<lambda>info. (ze_filename info, info)) infos) ''manifest.json'' = Inr bytes"
      "rt_decode ?rt bytes = Inr decoded" "rt_loads ?rt decoded = Inr val" "as_mapping val ''manifest'' = Inr manifest"
    and f: "dyn_iter (get manifest ''files'') = Inr raw_files" "rmap (\<lambda>f. required_mapping f ''files[]'') raw_files = Inr files"
    and raw: "dyn_iter (get manifest ''samples'') = Inr raw_samples"
    and rows: "rmap (record_sample sv (map (\<lambda>info. (ze_filename info, info)) infos) files sid) raw_samples = Inr rows"
    and out: "samples = map fst rows" "evidence = concat (map snd rows)"
    unfolding read_bundle_def rbind_Inr_iff Let_def if_raise_Inr_iff by auto
  let ?entries = "map (\<lambda>info. (ze_filename info, info)) infos"
  from verify_bundle_ok [OF v] obtain infos' entries manifest' files' xs where
    ok': "bundle_ok ?rt payload v infos' entries manifest' files' xs" by auto
  then have "rt_unzip ?rt payload = Inr infos'" by (simp add: bundle_ok_def)
  with u ok' have ok: "bundle_ok ?rt payload v infos entries manifest' files' xs" by simp
  then have e: "entries = ?entries" "distinct (map ze_filename infos)" "int (length infos) \<le> MAX_ARCHIVE_FILES"
    by (simp_all add: bundle_ok_def archive_ok_def)
  from ok have "rbind (read_entry entries ''manifest.json'') (\<lambda>c. rbind (rt_decode ?rt c) (rt_loads ?rt)) = Inr (PDict manifest')"
    by (auto simp: bundle_ok_def read_entry_def)
  then have "manifest = manifest'" using m by (auto simp: e as_mapping_def)
  with ok obtain policy raws warnings where shape: "manifest_ok manifest policy raws files' warnings"
    and each: "list_all2 (bundled_ok ?rt entries (map file_path files') (get policy ''allow_invalid_samples'' = PBool True)) raws xs"
    and distinct: "distinct (map (\<lambda>(path, s, raws). smp_sample_id s) xs)" "distinct (map file_path files')"
    and counts: "bv_sample_count v = int (length xs)" "bv_file_count v = int (length files')"
    and paths: "set (filter (\<lambda>p. startswith p ''samples/'') (map file_path files')) = set (map fst xs)"
      "set (map fst entries) = insert ''manifest.json'' (set (map file_path files'))"
    and intact: "list_all (file_intact ?rt entries) files'"
    unfolding bundle_ok_def by blast
  from shape f raw have same: "files = files'" "raw_samples = raws"
    using rmap_required_mapping by (auto simp: manifest_ok_def)
  have small: "int (length c) < 2 ^ 63" if "read_entry entries p = Inr c" for p c
    using addressable_entry [OF addr u] that by (simp add: e)
  have "list_all2 (read_as sid) xs rows"
  proof (rule list_all2_all_nthI)
    show "length xs = length rows" using list_all2_lengthD [OF each] rmap_length [OF rows] same by simp
    fix i assume i: "i < length xs"
    obtain path sample refs where x: "xs ! i = (path, sample, refs)" by (cases "xs ! i")
    obtain row es where r: "rows ! i = (row, es)" by force
    have "bundled_ok ?rt entries (map file_path files') (get policy ''allow_invalid_samples'' = PBool True) (raws ! i) (path, sample, refs)"
      using list_all2_nthD2 [OF each i] by (simp add: x)
    moreover have "record_sample sv entries files' sid (raws ! i) = Inr (row, es)"
      using rows i list_all2_lengthD [OF each] unfolding rmap_Inr_iff same e(1) [symmetric]
      by (auto dest!: list_all2_nthD simp: r)
    ultimately show "read_as sid (xs ! i) (rows ! i)"
      unfolding x r using record_read intact small by blast
  qed
  moreover have "xs \<noteq> []" "0 < length files'"
    using shape list_all2_lengthD [OF each] by (auto simp: manifest_ok_def)
  moreover have few: "length files' \<le> length infos"
  proof -
    have "length files' = card (set (map file_path files'))" using distinct_card [OF distinct(2)] by simp
    also have "\<dots> \<le> card (set (map fst entries))" unfolding paths(2) by (intro card_mono) auto
    also have "\<dots> \<le> length (map fst entries)" by (rule card_length)
    finally show ?thesis by (simp add: e)
  qed
  moreover have "length xs \<le> length files'"
  proof -
    have "distinct (map fst xs)"
      unfolding distinct_conv_nth
    proof (intro allI impI)
      fix i j assume ij: "i < length (map fst xs)" "j < length (map fst xs)" "i \<noteq> j"
      have load: "load_bundled ?rt entries (fst (xs ! k)) = Inr (fst (snd (xs ! k)))" if "k < length xs" for k
        using list_all2_nthD2 [OF each that] by (cases "xs ! k") (auto simp: bundled_ok_def split: pyval.splits)
      have "smp_sample_id (fst (snd (xs ! i))) \<noteq> smp_sample_id (fst (snd (xs ! j)))"
        using distinct(1) ij unfolding distinct_conv_nth by (auto simp: split_beta)
      then show "map fst xs ! i \<noteq> map fst xs ! j" using load [of i] load [of j] ij by auto
    qed
    from distinct_card [OF this] have "length xs = card (set (map fst xs))" by simp
    also have "\<dots> \<le> card (set (map file_path files'))" unfolding paths(1) [symmetric] by (intro card_mono) auto
    also have "\<dots> \<le> length files'" using card_length [of "map file_path files'"] by simp
    finally show ?thesis .
  qed
  ultimately show ?thesis using out distinct(1) counts e(3) sqlite_int_small
    by (intro exI [of _ xs] exI [of _ rows]) (auto simp: sqlite_int_def MAX_ARCHIVE_FILES_def)
qed

section \<open>The insertions of a new submission\<close>

lemma sqlite_natural: "0 \<le> n \<Longrightarrow> n < 2 ^ 63 \<Longrightarrow> sqlite_int n"
  by (simp add: sqlite_int_def)

lemma read_as_rows:
  assumes "list_all2 (read_as sid) xs rows"
  shows "map sr_sample_id (map fst rows) = map (\<lambda>(path, s, raws). smp_sample_id s) xs"
    "list_all (\<lambda>r. countable_row r \<and> sr_submission_id r = sid) (map fst rows)"
    "list_all (\<lambda>e. er_submission_id e = sid \<and> er_sample_id e \<in> set (map sr_sample_id (map fst rows)) \<and>
      0 \<le> er_size_bytes e \<and> sqlite_int (er_size_bytes e)) (concat (map snd rows))"
  using assms by (induction rule: list_all2_induct) (auto simp: list_all_iff sqlite_natural)

lemma new_keys:
  assumes "db_inv db" and "sid \<notin> set (map sub_submission_id (db_submissions db))"
    and "list_all (\<lambda>e. er_submission_id e = sid) evidence"
  shows "distinct (map evidence_key (db_evidence db @ evidence)) = distinct (map er_archive_path evidence)"
proof -
  have "distinct (map evidence_key evidence) = distinct (map er_archive_path evidence)"
    using assms(3) by (induction evidence) (auto simp: evidence_key_def list_all_iff)
  moreover have "distinct (map evidence_key (db_evidence db @ evidence))" if "distinct (map evidence_key evidence)"
  proof (rule distinct_map_append [OF _ that])
    show "distinct (map evidence_key (db_evidence db))" using assms(1) by (simp add: db_inv_def)
    fix e e' assume "e \<in> set (db_evidence db)" "e' \<in> set evidence"
    then have "er_submission_id e \<in> set (map sub_submission_id (db_submissions db))" "er_submission_id e' = sid"
      using assms(1,3) by (auto simp: db_inv_def list_all_iff)
    with assms(2) show "evidence_key e \<noteq> evidence_key e'" by (auto simp: evidence_key_def)
  qed
  ultimately show ?thesis by auto
qed

lemma new_submission_inserts:
  assumes rows: "list_all2 (read_as sid) xs rows" and inv: "db_inv db"
    and sub: "insert_submission row db = Inr (db\<lparr>db_submissions := db_submissions db @ [row]\<rparr>)"
    and sid: "sub_submission_id row = sid" "sid \<notin> set (map sub_submission_id (db_submissions db))"
    and ids: "distinct (map sr_sample_id (db_samples db @ map fst rows))"
  defines "evidence \<equiv> concat (map snd rows)"
  shows "if \<not> list_all bindable_row (map fst rows) then run_inserts row (map fst rows) evidence db = Inl OverflowError
    else if \<not> distinct (map er_archive_path evidence)
    then \<exists>m. run_inserts row (map fst rows) evidence db = Inl (IntegrityError m)
    else run_inserts row (map fst rows) evidence db = Inr (db\<lparr>db_submissions := db_submissions db @ [row],
      db_samples := db_samples db @ map stored_row (map fst rows), db_evidence := db_evidence db @ evidence\<rparr>)"
proof -
  note facts = read_as_rows [OF rows, folded evidence_def]
  let ?db1 = "db\<lparr>db_submissions := db_submissions db @ [row]\<rparr>"
  let ?db2 = "?db1\<lparr>db_samples := db_samples db @ map stored_row (map fst rows)\<rparr>"
  have step: "run_inserts row (map fst rows) evidence db =
      rbind (rfold insert_sample ?db1 (map fst rows)) (\<lambda>db2. rfold insert_evidence db2 evidence)"
    by (simp add: run_inserts_def sub)
  have known: "list_all (\<lambda>r. countable_row r \<and> sr_submission_id r \<in> set (map sub_submission_id (db_submissions ?db1))) (map fst rows)"
    using facts(2) sid(1) by (auto simp: list_all_iff)
  show ?thesis
  proof (cases "list_all bindable_row (map fst rows)")
    case False
    with insert_samples_overflow [of ?db1, OF known] ids show ?thesis by (simp add: step)
  next
    case True
    with known have "list_all (\<lambda>r. insertable r \<and> sr_submission_id r \<in> set (map sub_submission_id (db_submissions ?db1))) (map fst rows)"
      by (simp add: insertable_def list_all_iff)
    from insert_samples_all [OF this] ids have samples: "rfold insert_sample ?db1 (map fst rows) = Inr ?db2" by simp
    have keys: "distinct (map evidence_key (db_evidence ?db2 @ evidence)) = distinct (map er_archive_path evidence)"
      using new_keys [OF inv sid(2), of evidence] facts(3) by (simp add: list_all_iff)
    have known2: "list_all (\<lambda>r. sqlite_int (er_size_bytes r) \<and> 0 \<le> er_size_bytes r \<and>
        er_submission_id r \<in> set (map sub_submission_id (db_submissions ?db2)) \<and>
        er_sample_id r \<in> set (map sr_sample_id (db_samples ?db2))) evidence"
      using facts(3) sid(1) by (auto simp: list_all_iff)
    have old: "distinct (map evidence_key (db_evidence ?db2))" using inv by (simp add: db_inv_def)
    show ?thesis
    proof (cases "distinct (map er_archive_path evidence)")
      case False
      with insert_evidence_repeated [OF known2 old] keys True show ?thesis by (simp add: step samples)
    next
      case distinct: True
      with insert_evidence_all [OF known2] keys True show ?thesis by (simp add: step samples)
    qed
  qed
qed

section \<open>Properties\<close>

text \<open>
  C18: What becomes of a new bundle. When the request is in order, the bundle verifies and its records
  can be read, it is not stored yet, no sample of it is, and no write fails, then the pipeline accepts
  it if and only if SQLite can bind every count of its samples and no evidence file is referenced
  twice, and appends exactly its records. A count SQLite cannot bind leaves the pipeline as an
  \<open>OverflowError\<close>; a repeated reference is answered as a conflict with existing data, which there is
  none of. Both leave the database and the stored bundles as they were.
\<close>

theorem fresh_bundle_outcome:
  assumes "platform_inv sv st" and "rt_sha256 (sv_rt sv) payload = digest"
    and "check_request sv headers timestamp payload = Inr (digest, digest, bid)"
    and "read_bundle sv payload bid (submission_id_of digest) = Inr (v, manifest, samples, evidence)"
    and "addressable (sv_rt sv) payload"
    and "submission_id_of digest \<notin> set (map sub_submission_id (db_submissions (pf_db st)))"
    and "existing_sample_ids (map sr_sample_id samples) (pf_db st) = []"
    and "slot_intact (sv_rt sv) (pf_bundles st) digest" and "io_put io = NoFault" and "io_db io = None"
  shows "case ingest sv io headers timestamp payload st of (st', r) \<Rightarrow>
    if list_all bindable_row samples \<and> distinct (map er_archive_path evidence)
    then r = Inr (accepted_receipt v (submission_id_of digest) timestamp) \<and>
      map sub_submission_id (db_submissions (pf_db st')) =
        map sub_submission_id (db_submissions (pf_db st)) @ [submission_id_of digest] \<and>
      db_samples (pf_db st') = db_samples (pf_db st) @ map stored_row samples \<and>
      db_evidence (pf_db st') = db_evidence (pf_db st) @ evidence
    else r = Inl (if list_all bindable_row samples
        then IngestionError 409 ''ingestion_conflict'' ''bundle conflicts with existing persisted data'' False None
        else Raised OverflowError) \<and>
      pf_db st' = pf_db st \<and> store_lookup (pf_bundles st') = store_lookup (pf_bundles st)"
proof -
  let ?sid = "submission_id_of digest" and ?db = "pf_db st" and ?rt = "sv_rt sv"
  obtain st' r where run: "ingest sv io headers timestamp payload st = (st', r)" by force
  from read_bundle_rows [OF assms(4,5)] obtain xs rows where
    rows: "list_all2 (read_as ?sid) xs rows" "samples = map fst rows" "evidence = concat (map snd rows)"
      "distinct (map (\<lambda>(path, s, raws). smp_sample_id s) xs)" "xs \<noteq> []"
    and counts: "bv_sample_count v = int (length xs)" "0 < bv_file_count v" "sqlite_int (bv_file_count v)" "sqlite_int (bv_sample_count v)"
    by blast
  have sha: "bv_bundle_sha256 v = digest" using read_bundle_facts [OF assms(4)] assms(2) by simp
  have inv: "db_inv ?db" using assms(1) by (simp add: platform_inv_def)
  note new = new_submission [OF assms(1,6)]
  have unknown: "by_bundle_sha256 ?rt digest ?db = Inr None" using find_duplicate_cases [OF new(3)] by simp
  from store_put_intact [OF assms(8,2)] obtain fs created where
    put: "store_put (rt_sha256 ?rt) (io_random io) NoFault payload digest (pf_bundles st) = (fs, Inr (bundle_path digest, created))"
    by blast
  define row where "row = submission_row ?rt (accepted_receipt v ?sid timestamp) digest (''bundles/'' @ bundle_path digest)
    (py_to_str sv (get manifest ''agent_version'')) (py_to_str sv (get manifest ''created_at''))"
  have key: "sub_submission_id row = ?sid" by (simp add: row_def submission_row_def accepted_receipt_def)
  have "insert_submission row ?db = Inr (?db\<lparr>db_submissions := db_submissions ?db @ [row]\<rparr>)"
    using new(1,2) assms(6) counts rows(5) sha
    by (simp add: row_def submission_row_def accepted_receipt_def insert_submission_def bind_ints_def constraint_def)
  moreover have "distinct (map sr_sample_id (db_samples ?db @ map fst rows))"
  proof (rule distinct_map_append)
    show "distinct (map sr_sample_id (map fst rows))" unfolding read_as_rows(1) [OF rows(1)] by (rule rows(4))
    show "distinct (map sr_sample_id (db_samples ?db))" using inv by (simp add: db_inv_def)
    show "sr_sample_id x \<noteq> sr_sample_id y" if "x \<in> set (db_samples ?db)" "y \<in> set (map fst rows)" for x y
      using assms(7) that by (auto simp: existing_sample_ids_def filter_empty_conv rows(2))
  qed
  ultimately have inserted: "if \<not> list_all bindable_row samples then run_inserts row samples evidence ?db = Inl OverflowError
    else if \<not> distinct (map er_archive_path evidence) then \<exists>m. run_inserts row samples evidence ?db = Inl (IntegrityError m)
    else run_inserts row samples evidence ?db = Inr (?db\<lparr>db_submissions := db_submissions ?db @ [row],
      db_samples := db_samples ?db @ map stored_row samples, db_evidence := db_evidence ?db @ evidence\<rparr>)"
    unfolding rows(2,3) by (rule new_submission_inserts [OF rows(1) inv _ key assms(6)])
  have ingest: "ingest sv io headers timestamp payload st =
      store_and_persist sv io payload digest digest (accepted_receipt v ?sid timestamp) manifest samples evidence st"
    using assms(2-4,7) new(3) by (simp add: ingest_def Let_def)
  have same_db: "pf_db (st\<lparr>pf_bundles := fs\<rparr>) = ?db" by simp
  have persisted: "(st', r) = (case persist None row samples evidence ?db of
      (db, Inr _) \<Rightarrow> (st\<lparr>pf_bundles := fs, pf_db := db\<rparr>, Inr (accepted_receipt v ?sid timestamp))
    | (db, Inl (IntegrityError m)) \<Rightarrow> (case by_bundle_sha256 ?rt digest db of
        Inl e \<Rightarrow> (st\<lparr>pf_bundles := fs, pf_db := db\<rparr>, Inl (Raised e))
      | Inr (Some duplicate) \<Rightarrow> (st\<lparr>pf_bundles := fs, pf_db := db\<rparr>, Inr duplicate)
      | Inr None \<Rightarrow> (unlink_created created digest (st\<lparr>pf_bundles := fs, pf_db := db\<rparr>),
          reject 409 ''ingestion_conflict'' ''bundle conflicts with existing persisted data''))
    | (db, Inl e) \<Rightarrow> (unlink_created created digest (st\<lparr>pf_bundles := fs, pf_db := db\<rparr>), Inl (Raised e)))"
    unfolding run [symmetric] ingest store_and_persist_def Let_def put assms(9,10) prod.case sum.case row_def
    by (simp only: same_db)
  have result: "if list_all bindable_row samples \<and> distinct (map er_archive_path evidence)
    then r = Inr (accepted_receipt v ?sid timestamp) \<and> pf_db st' = ?db\<lparr>db_submissions := db_submissions ?db @ [row],
      db_samples := db_samples ?db @ map stored_row samples, db_evidence := db_evidence ?db @ evidence\<rparr>
    else r = Inl (if list_all bindable_row samples
        then IngestionError 409 ''ingestion_conflict'' ''bundle conflicts with existing persisted data'' False None
        else Raised OverflowError)"
    using persisted inserted unknown by (auto simp: persist_def reject_def split: if_splits)
  moreover have "pf_db st' = ?db \<and> store_lookup (pf_bundles st') = store_lookup (pf_bundles st)" if "r = Inl e" for e
    using ingest_cases [OF run] that by auto
  ultimately show ?thesis unfolding run by (auto simp: key split: if_splits)
qed

theorem fresh_bundle_outcome_witness:
  "case ingest (demo_service demo_payloads [''raw/r.json'', ''raw/r.json''] (demo_sample ''a'' 7 (Fin 3))) no_faults
     demo_headers (utc 5) ''B'' empty_platform of (st', r) \<Rightarrow>
    r = Inl (IngestionError 409 ''ingestion_conflict'' ''bundle conflicts with existing persisted data'' False None) \<and>
    pf_db st' = empty_database"
proof -
  let ?sv = "demo_service demo_payloads [''raw/r.json'', ''raw/r.json''] (demo_sample ''a'' 7 (Fin 3))"
  let ?sid = "submission_id_of (demo_digest ''B'')"
  obtain v manifest samples evidence where
    read: "read_bundle ?sv ''B'' (''bundle-'' @ replicate 24 (CHR ''a'')) ?sid = Inr (v, manifest, samples, evidence)"
    and facts: "list_all bindable_row samples" "\<not> distinct (map er_archive_path evidence)"
  proof -
    have "case read_bundle ?sv ''B'' (''bundle-'' @ replicate 24 (CHR ''a'')) ?sid of Inl e \<Rightarrow> False
      | Inr (v, manifest, samples, evidence) \<Rightarrow> list_all bindable_row samples \<and> \<not> distinct (map er_archive_path evidence)"
      by code_simp
    then show thesis using that by (auto split: sum.splits prod.splits)
  qed
  have "rt_sha256 (sv_rt ?sv) ''B'' = demo_digest ''B''"
    "check_request ?sv demo_headers (utc 5) ''B'' = Inr (demo_digest ''B'', demo_digest ''B'', ''bundle-'' @ replicate 24 (CHR ''a''))"
    "addressable (sv_rt ?sv) ''B''"
    by code_simp+
  moreover have "pf_db empty_platform = empty_database" "pf_bundles empty_platform = []" "db_submissions empty_database = []"
    "db_samples empty_database = []" "io_put no_faults = NoFault" "io_db no_faults = None"
    by (simp_all add: empty_platform_def empty_database_def no_faults_def)
  ultimately show ?thesis
    using fresh_bundle_outcome [of ?sv empty_platform "''B''" "demo_digest ''B''" demo_headers "utc 5", OF _ _ _ read, of no_faults] facts
    by (auto simp: existing_sample_ids_def slot_intact_def store_lookup_def split: prod.splits)
qed

end
