(* ===== verification/Delivery.thy ===== *)
theory Delivery
  imports BuiltBundle Submission Acceptance
begin

text \<open>
  The way of a sample from the agent into the platform: what \<open>build_bundle\<close> writes, \<open>submit_bundle\<close>
  posts, \<open>do_POST\<close> receives and \<open>ingest\<close> stores. Both sides share the runtime: one SHA-256, one ZIP
  and JSON library.
\<close>

section \<open>Digests and headers\<close>

definition hex_digest :: "string \<Rightarrow> bool" where
  "hex_digest d \<longleftrightarrow> length d = 64 \<and> list_all (\<lambda>c. is_digit c \<or> c \<in> set ''abcdef'') d"

lemma strip_no_space: "list_all (\<lambda>c. \<not> is_space c) s \<Longrightarrow> strip s = s"
proof -
  assume h: "list_all (\<lambda>c. \<not> is_space c) s"
  have "dropWhile is_space t = t" if "list_all (\<lambda>c. \<not> is_space c) t" for t
    using that by (cases t) auto
  with h show ?thesis by (simp add: strip_def list_all_rev)
qed

lemma hex_char_facts:
  assumes "is_digit c \<or> c \<in> set ''abcdef''"
  shows "\<not> is_space c" "to_lower c = c" "is_hex c"
proof -
  have "list_all (\<lambda>c. \<not> is_space c \<and> to_lower c = c \<and> is_hex c) ''abcdef''" by code_simp
  moreover have "\<not> is_space c \<and> to_lower c = c \<and> is_hex c" if "is_digit c"
    using that by (auto simp: is_digit_def is_space_def to_lower_def is_upper_def is_hex_def)
  ultimately show "\<not> is_space c" "to_lower c = c" "is_hex c" using assms by (auto simp: list_all_iff)
qed

lemma hex_text:
  assumes "list_all (\<lambda>c. is_digit c \<or> c \<in> set ''abcdef'') d"
  shows "list_all (\<lambda>c. \<not> is_space c) d" "casefold d = d" "list_all is_hex d"
proof -
  show "list_all (\<lambda>c. \<not> is_space c) d" "list_all is_hex d"
    using assms hex_char_facts(1,3) unfolding list_all_iff by blast+
  show "casefold d = d"
    using assms hex_char_facts(2) unfolding casefold_def list_all_iff by (simp add: map_idI)
qed

lemma required_digest_hex: "hex_digest d \<Longrightarrow> required_digest (Some d) f = Inr d"
  using hex_text [of d] by (simp add: hex_digest_def required_digest_def)

lemma header_names:
  "casefold ''Content-Type'' = ''content-type''" "casefold ''Idempotency-Key'' = ''idempotency-key''"
  "casefold ''User-Agent'' = ''user-agent''" "casefold ''X-CloudEyes-Bundle-Id'' = ''x-cloudeyes-bundle-id''"
  "casefold ''X-CloudEyes-Bundle-SHA256'' = ''x-cloudeyes-bundle-sha256''"
  "strip MEDIA_TYPE = MEDIA_TYPE"
  by code_simp+

definition bundle_id_text :: "string \<Rightarrow> bool" where
  "bundle_id_text bid \<longleftrightarrow> bid \<noteq> [] \<and> length bid \<le> 256 \<and> list_all (\<lambda>c. \<not> is_space c) bid"

lemma bundle_id_ok:
  assumes "bundle_id rt fs = Inr bid" and "\<And>t. hex_digest (rt_sha256 rt t)"
  shows "bundle_id_text bid"
proof -
  from assms(1) obtain t where bid: "bid = ''bundle-'' @ take 24 (rt_sha256 rt t)"
    by (auto simp: bundle_id_def rbind_Inr_iff)
  have "list_all (\<lambda>c. \<not> is_space c) (rt_sha256 rt t)" using assms(2) [of t] hex_text(1) by (simp add: hex_digest_def)
  then have "list_all (\<lambda>c. \<not> is_space c) (take 24 (rt_sha256 rt t))" by (auto simp: list_all_iff dest: in_set_takeD)
  moreover have "list_all (\<lambda>c. \<not> is_space c) ''bundle-''" by code_simp
  ultimately show ?thesis by (simp add: bundle_id_text_def bid)
qed

lemma check_submission_headers:
  assumes "hex_digest (bv_bundle_sha256 v)" and "bundle_id_text (bv_bundle_id v)"
    and "aware now" and "bytes \<noteq> []" and "int (length bytes) \<le> sv_max_request_bytes sv"
  shows "check_request sv (submission_headers version v @ others) now bytes =
    Inr (bv_bundle_sha256 v, bv_bundle_sha256 v, bv_bundle_id v)"
proof -
  let ?hs = "submission_headers version v @ others"
  have sha: "strip (bv_bundle_sha256 v) = bv_bundle_sha256 v"
    using assms(1) hex_text(1) by (intro strip_no_space) (simp add: hex_digest_def)
  have bid: "strip (bv_bundle_id v) = bv_bundle_id v" "required_bundle_id (Some (bv_bundle_id v)) = Inr (bv_bundle_id v)"
    using assms(2) strip_no_space by (auto simp: bundle_id_text_def required_bundle_id_def)
  have "header_value ?hs ''Content-Type'' = Some MEDIA_TYPE"
    by (simp add: header_value_def submission_headers_def header_names MEDIA_TYPE_def [symmetric])
  moreover have "header_value ?hs ''Idempotency-Key'' = Some (bv_bundle_sha256 v)"
    by (simp add: header_value_def submission_headers_def header_names sha)
  moreover have "header_value ?hs ''X-CloudEyes-Bundle-SHA256'' = Some (bv_bundle_sha256 v)"
    by (simp add: header_value_def submission_headers_def header_names sha)
  moreover have "header_value ?hs ''X-CloudEyes-Bundle-Id'' = Some (bv_bundle_id v)"
    by (simp add: header_value_def submission_headers_def header_names bid)
  ultimately show ?thesis using assms required_digest_hex
    by (simp add: check_request_def bid)
qed

section \<open>The records of a built bundle\<close>

lemma file_entry_built:
  assumes b: "built env allow miss st bs bid manifest" and nc: "(n, c) \<in> set (bs_payloads st)"
  shows "\<exists>f. file_entry (sort_key file_path (bs_files st)) n = Inr f \<and> describes (be_rt env) (n, c) f"
proof -
  note facts = built_facts [OF b]
  let ?files = "sort_key file_path (bs_files st)"
  have "n \<in> set (map file_path (bs_files st))" unfolding describes_list(1) [OF facts(1)] using nc by force
  then obtain g where g: "g \<in> set ?files" "file_path g = n" by auto
  then obtain f where f: "find (\<lambda>f. file_path f = n) (rev ?files) = Some f"
    by (cases "find (\<lambda>f. file_path f = n) (rev ?files)") (auto simp: find_None_iff)
  then have "f \<in> set ?files" "file_path f = n" using find_SomeD [OF f] by simp_all
  with describes_list(3) [OF facts(1), of f] obtain p where p: "p \<in> set (bs_payloads st)" "describes (be_rt env) p f" by auto
  with describes_fields(1) [OF p(2)] \<open>file_path f = n\<close> have "fst p = n" by simp
  with p(1) nc facts(2) have "p = (n, c)" by (metis eq_key_imp_eq_value prod.collapse)
  with p(2) f show ?thesis by (auto simp: file_entry_def)
qed

lemma payload_size:
  assumes "built env allow miss st bs bid manifest" and "(n, c) \<in> set (bs_payloads st)"
  shows "sqlite_int (int (length c))"
proof -
  have "sum_list (map (\<lambda>(n, c). length c) ps) \<ge> length c" if "(n, c) \<in> set ps" for ps
    using that by (induction ps) auto
  from this [OF assms(2)] have "int (length c) \<le> int (sum_list (map (\<lambda>(n, c). length c) (bs_payloads st)))" by simp
  also have "\<dots> = total_bytes st"
    by (simp add: total_bytes_def sum_list_of_nat [symmetric] comp_def case_prod_beta')
  also have "\<dots> \<le> MAX_BUNDLE_PAYLOAD_BYTES" using assms(1) by (simp add: built_def)
  finally show ?thesis by (simp add: sqlite_int_def MAX_BUNDLE_PAYLOAD_BYTES_def)
qed

lemma evidence_record_built:
  assumes b: "built env allow miss st bs bid manifest" and nc: "(r, c) \<in> set (bs_payloads st)"
  shows "\<exists>e. evidence_record sv (sort_key file_path (bs_files st)) sid smp (PStr r) = Inr e \<and> er_archive_path e = r \<and>
    er_submission_id e = sid \<and> er_sample_id e = smp \<and> 0 \<le> er_size_bytes e \<and> sqlite_int (er_size_bytes e)"
proof -
  from file_entry_built [OF b nc] obtain f where f: "file_entry (sort_key file_path (bs_files st)) r = Inr f"
    "describes (be_rt env) (r, c) f" by blast
  then show ?thesis using describes_fields(4) [OF f(2)] payload_size [OF b nc]
    by (simp add: evidence_record_def py_to_str_def Let_def)
qed

text \<open>What the records of one sample satisfy.\<close>

definition recorded :: "string \<Rightarrow> bundled \<Rightarrow> SampleRecord \<times> EvidenceRow list \<Rightarrow> bool" where
  "recorded sid b row \<longleftrightarrow> (case row of (r, es) \<Rightarrow>
    sr_sample_id r = smp_sample_id (sample_of b) \<and> sr_submission_id r = sid \<and>
    sr_cpu_count r = mach_cpu_count (smp_machine (sample_of b)) \<and>
    sr_memory_bytes r = mach_memory_bytes (smp_machine (sample_of b)) \<and>
    sr_raw_evidence_count r = int (length (raws_of b)) \<and> map er_archive_path es = raws_of b \<and>
    list_all (\<lambda>e. er_submission_id e = sid \<and> er_sample_id e = sr_sample_id r \<and> 0 \<le> er_size_bytes e \<and>
      sqlite_int (er_size_bytes e)) es)"

lemma record_built:
  assumes b: "built env allow miss st bs bid manifest" and rt: "be_rt env = sv_rt sv" and mem: "x \<in> set bs"
    and reads: "list_all (text_reads_back (be_rt env)) (map snd (bs_payloads st))"
  shows "\<exists>row. record_sample sv (built_entries st mbytes) (sort_key file_path (bs_files st)) sid (bundled_entry x) = Inr row \<and>
    recorded sid x row"
proof -
  let ?rt = "sv_rt sv" and ?files = "sort_key file_path (bs_files st)"
  note facts = built_facts [OF b]
  obtain s n raws ws where x: "x = (s, n, raws, ws)" using prod_cases4 by blast
  from mem b have build: "buildable env allow s" by (auto simp: built_def list_all_iff x sample_of_def)
  have fit: "fits env (bs_payloads st) x" using facts(4) mem by (simp only: list_all_iff)
  let ?doc = "sample_dict (rt_isofmt ?rt) s" and ?content = "json_bytes ?rt (sample_dict (rt_isofmt ?rt) s)"
  from fit have nc: "(n, ?content) \<in> set (bs_payloads st)" by (simp add: fits_def x rt)
  have fin: "json_finite ?doc" using fit by (simp add: fits_def x rt)
  have "text_reads_back ?rt ?content" using reads nc rt by (force simp: list_all_iff)
  then have "rbind (rt_decode ?rt ?content) (rt_loads ?rt) = Inr (sort_json ?doc)" using text_reads_backD fin by blast
  then obtain decoded where dec: "rt_decode ?rt ?content = Inr decoded" "rt_loads ?rt decoded = Inr (sort_json ?doc)"
    by (auto simp: rbind_Inr_iff)
  have "sample_from (rt_fromiso ?rt) (sort_json ?doc) = Inr s"
    using build by (intro sample_from_sample_dict) (auto simp: buildable_def rt)
  with dec(2) have load: "loads_sample (rt_loads ?rt) (rt_fromiso ?rt) decoded = Inr s" by (simp add: loads_sample_def)
  have canon: "canonical_json_bytes ?rt ?doc = Inr ?content" using fin by (simp add: canonical_json_bytes_Inr)
  from file_entry_built [OF b nc] obtain f where f: "file_entry ?files n = Inr f" "describes (be_rt env) (n, ?content) f" by blast
  have "\<forall>r \<in> set raws. \<exists>c. (r, c) \<in> set (bs_payloads st)" using fit by (auto simp: fits_def x)
  then have "\<exists>es. rmap (evidence_record sv ?files sid (smp_sample_id s)) (map PStr raws) = Inr es \<and> map er_archive_path es = raws \<and>
      list_all (\<lambda>e. er_submission_id e = sid \<and> er_sample_id e = smp_sample_id s \<and> 0 \<le> er_size_bytes e \<and> sqlite_int (er_size_bytes e)) es"
  proof (induction raws)
    case (Cons r raws)
    then obtain c where "(r, c) \<in> set (bs_payloads st)" by auto
    from evidence_record_built [OF b this, of sv sid "smp_sample_id s"] Cons show ?case by auto
  qed simp
  then obtain es where es: "rmap (evidence_record sv ?files sid (smp_sample_id s)) (map PStr raws) = Inr es"
    "map er_archive_path es = raws"
    "list_all (\<lambda>e. er_submission_id e = sid \<and> er_sample_id e = smp_sample_id s \<and> 0 \<le> er_size_bytes e \<and> sqlite_int (er_size_bytes e)) es"
    by blast
  let ?row = "sample_record ?rt sid n (py_to_str sv (get f ''sha256'')) decoded (int (length raws)) s"
  have "record_sample sv (built_entries st mbytes) ?files sid (bundled_entry x) = Inr (?row, es)"
    using dec(1) load canon f(1) es(1)
    by (simp add: record_sample_def bundled_entry_def x sample_entry_def required_mapping_def Let_def get_def
        get_default_def py_to_str_def payload_reads [OF b nc])
  moreover have "recorded sid x (?row, es)"
    using es(2,3) by (simp add: recorded_def x sample_of_def raws_of_def sample_record_def)
  ultimately show ?thesis by blast
qed

lemma records_built:
  assumes "built env allow miss st bs bid manifest" and "be_rt env = sv_rt sv"
    and "list_all (text_reads_back (be_rt env)) (map snd (bs_payloads st))" and "set xs \<subseteq> set bs"
  shows "\<exists>rows. rmap (record_sample sv (built_entries st mbytes) (sort_key file_path (bs_files st)) sid) (map bundled_entry xs) = Inr rows \<and>
    list_all2 (recorded sid) xs rows"
  using assms(4)
proof (induction xs)
  case (Cons x xs)
  then have "x \<in> set bs" by simp
  from record_built [OF assms(1,2) this assms(3)] obtain row where
    row: "record_sample sv (built_entries st mbytes) (sort_key file_path (bs_files st)) sid (bundled_entry x) = Inr row"
      "recorded sid x row" by blast
  from Cons obtain rows where
    "rmap (record_sample sv (built_entries st mbytes) (sort_key file_path (bs_files st)) sid) (map bundled_entry xs) = Inr rows"
    "list_all2 (recorded sid) xs rows" by auto
  with row show ?case by (intro exI [of _ "row # rows"]) simp
qed simp

section \<open>A built bundle is read by the platform\<close>

lemma built_verification:
  assumes b: "built env allow miss st bs bid manifest" and fin: "json_finite (PDict manifest)"
    and mbytes: "mbytes = json_bytes (be_rt env) (PDict manifest)"
    and listed: "rt_unzip (be_rt env) bytes = Inr (map zip_info (archive_contents (bs_payloads st) mbytes))"
    and reads: "list_all (text_reads_back (be_rt env)) (mbytes # map snd (bs_payloads st))"
    and v: "verify_bundle (be_rt env) (Some bytes) = Inr v"
  shows "bv_bundle_id v = bid" "bv_bundle_sha256 v = rt_sha256 (be_rt env) bytes"
    "bv_sample_count v = int (length bs)" "bv_file_count v = int (length (bs_payloads st))"
    "int (length (bs_payloads st)) < MAX_ARCHIVE_FILES"
proof -
  have small: "int (length (bs_payloads st)) < MAX_ARCHIVE_FILES" "int (length mbytes) \<le> MAX_MANIFEST_BYTES"
    using built_too_large [OF b listed] v by force+
  from built_verifies [OF b fin mbytes listed reads small] v
  show "bv_bundle_id v = bid" "bv_bundle_sha256 v = rt_sha256 (be_rt env) bytes"
    "bv_sample_count v = int (length bs)" "bv_file_count v = int (length (bs_payloads st))"
    "int (length (bs_payloads st)) < MAX_ARCHIVE_FILES" using small by auto
qed

lemma built_read_bundle:
  assumes b: "built env allow miss st bs bid manifest" and rt: "be_rt env = sv_rt sv" and fin: "json_finite (PDict manifest)"
    and mbytes: "mbytes = json_bytes (be_rt env) (PDict manifest)"
    and listed: "rt_unzip (be_rt env) bytes = Inr (map zip_info (archive_contents (bs_payloads st) mbytes))"
    and reads: "list_all (text_reads_back (be_rt env)) (mbytes # map snd (bs_payloads st))"
    and v: "verify_bundle (be_rt env) (Some bytes) = Inr v"
  shows "\<exists>rows. read_bundle sv bytes bid sid = Inr (v, manifest, map fst rows, concat (map snd rows)) \<and>
    list_all2 (recorded sid) bs rows"
proof -
  obtain created where m: "manifest = manifest_of env allow miss created bid st" using b by (auto simp: built_def)
  have entries: "map (\<lambda>i. (ze_filename i, i)) (map zip_info (archive_contents (bs_payloads st) mbytes)) = built_entries st mbytes"
    by (auto simp: built_entries_def zip_info_def split: prod.splits)
  have manifest_bytes: "read_entry (built_entries st mbytes) ''manifest.json'' = Inr mbytes"
    using archive_names(4) [OF b, of mbytes] by (simp add: read_entry_def zip_info_def)
  have "text_reads_back (sv_rt sv) mbytes" using reads rt by simp
  then have "rbind (rt_decode (sv_rt sv) mbytes) (rt_loads (sv_rt sv)) = Inr (PDict manifest)"
    using text_reads_backD fin mbytes manifest_sorted [OF b] rt by metis
  then obtain t where t: "rt_decode (sv_rt sv) mbytes = Inr t" "rt_loads (sv_rt sv) t = Inr (PDict manifest)"
    by (auto simp: rbind_Inr_iff)
  have payload_reads: "list_all (text_reads_back (be_rt env)) (map snd (bs_payloads st))" using reads by simp
  from records_built [OF b rt payload_reads subset_refl, of mbytes sid] obtain rows where
    rows: "rmap (record_sample sv (built_entries st mbytes) (sort_key file_path (bs_files st)) sid) (map bundled_entry bs) = Inr rows"
      "list_all2 (recorded sid) bs rows" by blast
  have files: "dyn_iter (get manifest ''files'') = Inr (map PDict (sort_key file_path (bs_files st)))"
    and samples: "dyn_iter (get manifest ''samples'') = Inr (map bundled_entry bs)"
    using built_facts(7) [OF b] by (simp_all add: m manifest_get)
  have "read_bundle sv bytes bid sid = Inr (v, manifest, map fst rows, concat (map snd rows))"
    using v listed built_verification(1) [OF b fin mbytes listed reads v]
    by (simp add: read_bundle_def rt entries [unfolded map_map comp_def] comp_def manifest_bytes t as_mapping_def files samples
        rmap_required_mapping rows(1))
  with rows(2) show ?thesis by blast
qed

section \<open>The rows of a built bundle are inserted\<close>

text \<open>What the tables cannot store, or already hold.\<close>

definition storable :: "database \<Rightarrow> Sample \<Rightarrow> bool" where
  "storable db s \<longleftrightarrow> bindable (mach_cpu_count (smp_machine s)) \<and> bindable (mach_memory_bytes (smp_machine s)) \<and>
    smp_sample_id s \<notin> set (map sr_sample_id (db_samples db))"

lemma storable_fresh:
  "list_all (storable db) ss \<Longrightarrow> i \<in> set (map sr_sample_id (db_samples db)) \<Longrightarrow> i \<notin> set (map smp_sample_id ss)"
  unfolding list_all_iff storable_def set_map by (metis imageE)

lemma recorded_ids:
  assumes "list_all2 (recorded sid) bs rows"
  shows "map (\<lambda>r. sr_sample_id (fst r)) rows = map (\<lambda>b. smp_sample_id (sample_of b)) bs"
    "map er_archive_path (concat (map snd rows)) = concat (map raws_of bs)"
    "list_all (\<lambda>e. er_submission_id e = sid \<and> er_sample_id e \<in> set (map (\<lambda>r. sr_sample_id (fst r)) rows) \<and>
      0 \<le> er_size_bytes e \<and> sqlite_int (er_size_bytes e)) (concat (map snd rows))"
  using assms by (induction rule: list_all2_induct) (auto simp: recorded_def list_all_iff)

lemma built_counts:
  assumes "built env allow miss st bs bid manifest"
  shows "length bs \<le> length (bs_payloads st)" "0 < length bs" "b \<in> set bs \<Longrightarrow> length (raws_of b) \<le> length (bs_payloads st)"
    "distinct (concat (map raws_of bs))"
proof -
  note facts = built_facts [OF assms]
  have "length (map payload_of bs) \<le> length (map fst (bs_payloads st))"
    unfolding facts(5) [symmetric] by (rule length_filter_le)
  then show "length bs \<le> length (bs_payloads st)" by simp
  show "0 < length bs" using assms by (simp add: built_def)
  have "length (concat (map raws_of bs)) \<le> length (map fst (bs_payloads st))"
    unfolding facts(6) [symmetric] by (rule length_filter_le)
  moreover have "length (raws_of b) \<le> length (concat (map raws_of bs))" if "b \<in> set bs" for bs :: "bundled list"
    using that by (induction bs) auto
  ultimately show "length (raws_of b) \<le> length (bs_payloads st)" if "b \<in> set bs" using that by fastforce
  show "distinct (concat (map raws_of bs))" unfolding facts(6) [symmetric] by (rule distinct_filter [OF facts(2)])
qed

lemma built_rows_inserted:
  assumes b: "built env allow miss st bs bid manifest" and rows: "list_all2 (recorded sid) bs rows"
    and few: "int (length (bs_payloads st)) < MAX_ARCHIVE_FILES" and inv: "db_inv db"
    and free: "sub_submission_id row \<notin> set (map sub_submission_id (db_submissions db))"
      "sub_bundle_sha256 row \<notin> set (map sub_bundle_sha256 (db_submissions db))"
      "sub_idempotency_key row \<notin> set (map sub_idempotency_key (db_submissions db))"
    and row: "sub_submission_id row = sid" "sub_status row = ''accepted''" "sub_sample_count row = int (length bs)"
      "sub_file_count row = int (length (bs_payloads st))"
    and store: "list_all (storable db) (map sample_of bs)"
  shows "run_inserts row (map fst rows) (concat (map snd rows)) db = Inr (db\<lparr>db_submissions := db_submissions db @ [row],
    db_samples := db_samples db @ map (stored_row \<circ> fst) rows, db_evidence := db_evidence db @ concat (map snd rows)\<rparr>)"
proof -
  note counts = built_counts [OF b] and ids = recorded_ids [OF rows]
  let ?db1 = "db\<lparr>db_submissions := db_submissions db @ [row]\<rparr>"
  let ?db2 = "?db1\<lparr>db_samples := db_samples db @ map (stored_row \<circ> fst) rows\<rparr>"
  have "0 < length (bs_payloads st)" using counts(1,2) by linarith
  then have 1: "insert_submission row db = Inr ?db1"
    using free row counts(2) sqlite_int_small [OF few] counts(1)
    by (simp add: insert_submission_def bind_ints_def constraint_def)
  have dist: "distinct (map (\<lambda>b. smp_sample_id (sample_of b)) bs)" using b by (simp add: built_def)
  have "list_all (\<lambda>r. insertable r \<and> sr_submission_id r \<in> set (map sub_submission_id (db_submissions ?db1))) (map fst rows)"
  proof -
    have "insertable r \<and> sr_submission_id r = sid" if "(r, es) \<in> set rows" for r es
    proof -
      from list_all2_mem [OF rows that] obtain x where x: "x \<in> set bs" "recorded sid x (r, es)" by blast
      then have "buildable env allow (sample_of x)" "storable db (sample_of x)"
        using b store by (auto simp: built_def list_all_iff)
      moreover have "sqlite_int (int (length (raws_of x)))" using sqlite_int_small [OF few] counts(3) [OF x(1)] by blast
      moreover have "counts_finite (sample_of x)"
      proof -
        have "fits env (bs_payloads st) x" using built_facts(4) [OF b] x(1) by (simp only: list_all_iff)
        then have "json_finite (sample_dict (rt_isofmt (be_rt env)) (sample_of x))"
          by (cases x) (simp add: fits_def sample_of_def)
        with calculation show ?thesis by (simp add: buildable_def json_finite_sample)
      qed
      ultimately show ?thesis using x(2)
        by (auto simp: recorded_def insertable_def bindable_row_def countable_row_def buildable_def storable_def wf_sample_def wf_machine_def counts_finite_def)
    qed
    then show ?thesis using row(1) by (fastforce simp: list_all_iff)
  qed
  moreover have "distinct (map sr_sample_id (db_samples ?db1 @ map fst rows))"
  proof -
    have "map sr_sample_id (map fst rows) = map (\<lambda>b. smp_sample_id (sample_of b)) bs"
      using ids(1) by (simp add: comp_def)
    moreover have "list_all (\<lambda>i. i \<notin> set (map sr_sample_id (db_samples db))) (map (\<lambda>b. smp_sample_id (sample_of b)) bs)"
      using store by (simp add: list_all_iff storable_def)
    then have "distinct (map sr_sample_id (db_samples db) @ map (\<lambda>b. smp_sample_id (sample_of b)) bs)"
      using inv dist by (auto simp only: db_inv_def distinct_append list_all_iff)
    ultimately show ?thesis by simp
  qed
  ultimately have 2: "rfold insert_sample ?db1 (map fst rows) = Inr ?db2"
    using insert_samples_all [of ?db1 "map fst rows"] by (simp add: comp_def)
  have "list_all (\<lambda>r. sqlite_int (er_size_bytes r) \<and> 0 \<le> er_size_bytes r \<and>
      er_submission_id r \<in> set (map sub_submission_id (db_submissions ?db2)) \<and>
      er_sample_id r \<in> set (map sr_sample_id (db_samples ?db2))) (concat (map snd rows))"
    using ids(3) row(1) by (auto simp: list_all_iff)
  moreover have "distinct (map evidence_key (db_evidence ?db2 @ concat (map snd rows)))"
  proof -
    have "distinct (map er_archive_path (concat (map snd rows)))" unfolding ids(2) by (rule counts(4))
    then have "distinct (map evidence_key (concat (map snd rows)))"
      by (auto simp: distinct_map evidence_key_def inj_on_def)
    moreover have "evidence_key e \<noteq> evidence_key e'" if "e \<in> set (db_evidence db)" "e' \<in> set (concat (map snd rows))" for e e'
    proof -
      have "er_submission_id e \<in> set (map sub_submission_id (db_submissions db))"
        using inv that(1) by (auto simp: db_inv_def list_all_iff)
      moreover have "er_submission_id e' = sub_submission_id row" using ids(3) row(1) that(2) by (simp only: list_all_iff)
      ultimately show ?thesis using free(1) by (auto simp: evidence_key_def)
    qed
    moreover have "distinct (map evidence_key (db_evidence db))" using inv by (simp add: db_inv_def)
    ultimately have "distinct (map evidence_key (db_evidence db @ concat (map snd rows)))" by (intro distinct_map_append)
    then show ?thesis by simp
  qed
  ultimately have "rfold insert_evidence ?db2 (concat (map snd rows)) =
      Inr (?db2\<lparr>db_evidence := db_evidence db @ concat (map snd rows)\<rparr>)"
    using insert_evidence_all [of ?db2 "concat (map snd rows)"] by simp
  with 1 2 show ?thesis by (simp add: run_inserts_def)
qed

section \<open>Acceptance\<close>

text \<open>What the platform holds after it accepted the bundle \<open>bytes\<close> of the samples \<open>ids\<close>.\<close>

definition accepted_into :: "service \<Rightarrow> string \<Rightarrow> string list \<Rightarrow> string \<Rightarrow> platform \<Rightarrow> platform \<Rightarrow> IngestionReceipt \<Rightarrow> bool" where
  "accepted_into sv bytes ids bid st st' r \<longleftrightarrow>
    (let digest = rt_sha256 (sv_rt sv) bytes in
     ir_status r = ''accepted'' \<and> ir_bundle_sha256 r = digest \<and> ir_submission_id r = submission_id_of digest \<and>
     ir_bundle_id r = bid \<and> ir_sample_count r = int (length ids) \<and>
     map sr_sample_id (db_samples (pf_db st')) = map sr_sample_id (db_samples (pf_db st)) @ ids \<and>
     map sub_submission_id (db_submissions (pf_db st')) = map sub_submission_id (db_submissions (pf_db st)) @ [submission_id_of digest] \<and>
     (\<exists>c. store_lookup (pf_bundles st') digest = Some c \<and> rt_sha256 (sv_rt sv) c = digest))"

lemma built_accepted:
  assumes b: "built env allow miss st bs bid manifest" and rt: "be_rt env = sv_rt sv" and fin: "json_finite (PDict manifest)"
    and mbytes: "mbytes = json_bytes (be_rt env) (PDict manifest)"
    and listed: "rt_unzip (be_rt env) bytes = Inr (map zip_info (archive_contents (bs_payloads st) mbytes))"
    and reads: "list_all (text_reads_back (be_rt env)) (mbytes # map snd (bs_payloads st))"
    and v: "verify_bundle (be_rt env) (Some bytes) = Inr v"
    and request: "check_request sv headers now bytes = Inr (rt_sha256 (sv_rt sv) bytes, rt_sha256 (sv_rt sv) bytes, bid)"
    and inv: "platform_inv sv pf" and slot: "slot_intact (sv_rt sv) (pf_bundles pf) (rt_sha256 (sv_rt sv) bytes)"
    and new: "submission_id_of (rt_sha256 (sv_rt sv) bytes) \<notin> set (map sub_submission_id (db_submissions (pf_db pf)))"
    and store: "list_all (storable (pf_db pf)) (map sample_of bs)"
    and io: "io_put io = NoFault" "io_db io = None"
  shows "\<exists>pf' r. ingest sv io headers now bytes pf = (pf', Inr r) \<and>
    accepted_into sv bytes (map smp_sample_id (map sample_of bs)) bid pf pf' r"
proof -
  let ?digest = "rt_sha256 (sv_rt sv) bytes" and ?db = "pf_db pf"
  let ?sid = "submission_id_of ?digest"
  note counts = built_verification [OF b fin mbytes listed reads v] and fresh = new_submission [OF inv new]
  from built_read_bundle [OF b rt fin mbytes listed reads v, of ?sid] obtain rows where
    read: "read_bundle sv bytes bid ?sid = Inr (v, manifest, map fst rows, concat (map snd rows))"
    and rows: "list_all2 (recorded ?sid) bs rows" by blast
  have ids: "map sr_sample_id (map fst rows) = map smp_sample_id (map sample_of bs)"
    using recorded_ids(1) [OF rows] by (simp add: comp_def)
  have "i \<notin> set (map smp_sample_id (map sample_of bs))" if "i \<in> set (map sr_sample_id (db_samples ?db))" for i
    by (rule storable_fresh [OF store that])
  then have conflicts: "existing_sample_ids (map sr_sample_id (map fst rows)) ?db = []"
    unfolding ids existing_sample_ids_def by (simp add: filter_empty_conv)
  let ?receipt = "accepted_receipt v ?sid now"
  from store_put_intact [OF slot refl, of "io_random io"] obtain fs created where
    put: "store_put (rt_sha256 (sv_rt sv)) (io_random io) NoFault bytes ?digest (pf_bundles pf) = (fs, Inr (bundle_path ?digest, created))"
    and kept: "\<exists>c. store_lookup fs ?digest = Some c \<and> rt_sha256 (sv_rt sv) c = ?digest" by blast
  define row where "row = submission_row (sv_rt sv) ?receipt ?digest (''bundles/'' @ bundle_path ?digest)
    (py_to_str sv (get manifest ''agent_version'')) (py_to_str sv (get manifest ''created_at''))"
  have "run_inserts row (map fst rows) (concat (map snd rows)) ?db = Inr (?db\<lparr>db_submissions := db_submissions ?db @ [row],
      db_samples := db_samples ?db @ map (stored_row \<circ> fst) rows, db_evidence := db_evidence ?db @ concat (map snd rows)\<rparr>)"
  proof (rule built_rows_inserted [OF b rows counts(5)])
    show "db_inv ?db" using inv by (simp add: platform_inv_def)
    show "list_all (storable ?db) (map sample_of bs)" by (rule store)
  qed (use fresh new counts rt in \<open>simp_all add: row_def submission_row_def accepted_receipt_def\<close>)
  then have "ingest sv io headers now bytes pf = (pf\<lparr>pf_bundles := fs, pf_db := ?db\<lparr>db_submissions := db_submissions ?db @ [row],
      db_samples := db_samples ?db @ map (stored_row \<circ> fst) rows, db_evidence := db_evidence ?db @ concat (map snd rows)\<rparr>\<rparr>, Inr ?receipt)"
    using read conflicts put fresh(3) io
    by (simp add: ingest_def request store_and_persist_def persist_def row_def Let_def)
  moreover have "length rows = length bs" using rows by (simp add: list_all2_lengthD)
  ultimately show ?thesis
    using kept ids counts rt by (auto simp: accepted_into_def Let_def accepted_receipt_def row_def submission_row_def comp_def)
qed

lemma prepare_submission_Inr:
  assumes "prepare_submission rt rv version (Some bytes) (Inr bytes) endpoint token allow_http timeout = Inr (v, request)"
  shows "verify_bundle rt (Some bytes) = Inr v" "nr_data request = bytes"
    "\<exists>others. nr_headers request = submission_headers version v @ others"
  using assms by (auto simp: prepare_submission_def submission_error_def rbind_Inr_iff split: if_splits option.splits)

section \<open>A concrete delivery\<close>

definition demo_build_service :: service where
  "demo_build_service = (demo_service [] [] demo_raw_sample)\<lparr>sv_rt := demo_build_runtime\<rparr>"

definition demo_resolver :: resolver where
  "demo_resolver = \<lparr>rv_local_address = (\<lambda>_. None), rv_getaddrinfo = (\<lambda>_ _. None), rv_bracket_host = (\<lambda>_. False)\<rparr>"

lemma demo_hex_digest: "hex_digest (demo_digest t)"
  by (auto simp: hex_digest_def demo_digest_def list_all_iff)

section \<open>Properties\<close>

text \<open>
  C22: What the agent builds and prepares for submission, the platform accepts. Take a bundle the
  build wrote and the request the client prepared for it, with whatever headers the transport adds:
  a platform that has the same SHA-256, ZIP and JSON library, whose store is intact at this digest
  and that has not stored the submission or one of its samples before, accepts it. The receipt is
  for this bundle, the samples of the input files are appended in the order of their ids, the
  store holds a bundle of this digest, and the invariant of the platform is kept.
\<close>

theorem built_bundle_accepted:
  assumes build: "build_bundle env random fault inputs dir name raw_root allow miss created fs = (fs', Inr manifest)"
    and written: "map_of fs' (dir @ ''/'' @ name) = Some bytes"
    and laws: "zip_reads_back env bytes" "texts_read_back env bytes"
    and prepared: "prepare_submission (be_rt env) rv version (Some bytes) (Inr bytes) endpoint token allow_http timeout = Inr (v, request)"
    and runtime: "be_rt env = sv_rt sv" "\<And>t. hex_digest (rt_sha256 (sv_rt sv) t)"
    and received: "aware now" "bytes \<noteq> []" "int (length bytes) \<le> sv_max_request_bytes sv"
    and platform: "platform_inv sv pf" "slot_intact (sv_rt sv) (pf_bundles pf) (rt_sha256 (sv_rt sv) bytes)"
    and new: "submission_id_of (rt_sha256 (sv_rt sv) bytes) \<notin> set (map sub_submission_id (db_submissions (pf_db pf)))"
    and samples: "load_samples env inputs allow = Inr ls" "list_all (storable (pf_db pf)) (map ld_sample (ls_loaded ls))"
    and io: "io_put io = NoFault" "io_db io = None"
  shows "case ingest sv io (nr_headers request @ others) now (nr_data request) pf of
      (pf', Inr r) \<Rightarrow> platform_inv sv pf' \<and>
        accepted_into sv bytes (sort (map smp_sample_id (map ld_sample (ls_loaded ls)))) (bv_bundle_id v) pf pf' r
    | (pf', Inl e) \<Rightarrow> False"
proof -
  note prepared = prepare_submission_Inr [OF prepared]
  from build_bundle_Inr [OF build] obtain st bs bid mbytes where b: "built env allow miss st bs bid manifest"
    and fin: "json_finite (PDict manifest)" and mbytes: "mbytes = json_bytes (be_rt env) (PDict manifest)"
    and ls: "map sample_of bs = sort_key smp_sample_id (map ld_sample (ls_loaded ls))"
    and bytes: "bytes = be_zip env (archive_contents (bs_payloads st) mbytes)"
    using written samples(1) by auto
  have listed: "rt_unzip (be_rt env) bytes = Inr (map zip_info (archive_contents (bs_payloads st) mbytes))"
    using laws(1) bytes by (simp add: zip_reads_back_def)
  have reads: "list_all (text_reads_back (be_rt env)) (mbytes # map snd (bs_payloads st))"
    using laws(2) by (auto simp: texts_read_back_def listed archive_contents_def list_all_iff zip_info_def)
  note verified = built_verification [OF b fin mbytes listed reads prepared(1)]
  have "bundle_id_text (bv_bundle_id v)" unfolding verified(1)
    by (rule bundle_id_ok [where rt = "be_rt env" and fs = "bs_files st"]) (use b runtime in \<open>auto simp: built_def\<close>)
  then have request: "check_request sv (nr_headers request @ others) now bytes =
      Inr (rt_sha256 (sv_rt sv) bytes, rt_sha256 (sv_rt sv) bytes, bid)"
    using prepared(3) check_submission_headers [of v now bytes sv version] received runtime verified
    by (auto simp del: append_assoc simp add: append_assoc)
  have "list_all (storable (pf_db pf)) (map sample_of bs)"
    using samples(2) unfolding ls list_all_iff set_sort .
  from built_accepted [OF b runtime(1) fin mbytes listed reads prepared(1) request platform new this io] obtain pf' r where
    ok: "ingest sv io (nr_headers request @ others) now bytes pf = (pf', Inr r)"
      "accepted_into sv bytes (map smp_sample_id (map sample_of bs)) bid pf pf' r" by blast
  have "map smp_sample_id (map sample_of bs) = sort (map smp_sample_id (map ld_sample (ls_loaded ls)))"
    unfolding ls by (rule map_sort_key)
  with ok ingest_inv [OF platform(1) ok(1)] show ?thesis by (simp add: prepared(2) verified(1))
qed

theorem built_bundle_accepted_witness:
  "case prepare_submission demo_build_runtime demo_resolver ''1'' (Some ''B'') (Inr ''B'') ''https://h'' None False (Fin 30) of
     Inl e \<Rightarrow> False
   | Inr (v, request) \<Rightarrow>
      (case ingest demo_build_service no_faults (nr_headers request @ []) (utc 5) (nr_data request) empty_platform of
         (pf', Inr r) \<Rightarrow> map sr_sample_id (db_samples (pf_db pf')) = [''a''] \<and> ir_status r = ''accepted''
       | (pf', Inl e) \<Rightarrow> False)"
proof -
  let ?prepared = "prepare_submission demo_build_runtime demo_resolver ''1'' (Some ''B'') (Inr ''B'') ''https://h'' None False (Fin 30)"
  have rt: "be_rt demo_build_env = demo_build_runtime" "sv_rt demo_build_service = demo_build_runtime"
    by (simp_all add: demo_build_env_def demo_build_service_def)
  have "case ?prepared of Inl e \<Rightarrow> False | Inr _ \<Rightarrow> True" by code_simp
  then obtain v request where prepared: "?prepared = Inr (v, request)" by (cases ?prepared) auto
  have "case load_samples demo_build_env [parse_path ''d''] False of Inl e \<Rightarrow> False
    | Inr ls \<Rightarrow> list_all (storable (pf_db empty_platform)) (map ld_sample (ls_loaded ls)) \<and>
        map smp_sample_id (map ld_sample (ls_loaded ls)) = [''a'']" by code_simp
  then obtain ls where ls: "load_samples demo_build_env [parse_path ''d''] False = Inr ls"
    "list_all (storable (pf_db empty_platform)) (map ld_sample (ls_loaded ls))"
    "map smp_sample_id (map ld_sample (ls_loaded ls)) = [''a'']"
    by (auto split: sum.splits)
  have "case ingest demo_build_service no_faults (nr_headers request @ []) (utc 5) (nr_data request) empty_platform of
      (pf', Inr r) \<Rightarrow> platform_inv demo_build_service pf' \<and> accepted_into demo_build_service ''B''
        (sort (map smp_sample_id (map ld_sample (ls_loaded ls)))) (bv_bundle_id v) empty_platform pf' r
    | (pf', Inl e) \<Rightarrow> False"
  proof (rule built_bundle_accepted [OF demo_build _ demo_zip_reads_back demo_texts_read_back])
    show "prepare_submission (be_rt demo_build_env) demo_resolver ''1'' (Some ''B'') (Inr ''B'') ''https://h'' None False (Fin 30) = Inr (v, request)"
      unfolding rt by (rule prepared)
    show "hex_digest (rt_sha256 (sv_rt demo_build_service) t)" for t
      unfolding rt by (simp add: demo_build_runtime_def demo_hex_digest)
    show "platform_inv demo_build_service empty_platform" by (rule platform_inv_empty)
  qed (use ls in \<open>simp_all add: rt no_faults_def empty_platform_def empty_database_def slot_intact_def store_lookup_def
      demo_build_service_def demo_service_def aware_def utc_def\<close>)
  then show ?thesis
    unfolding prepared ls(3)
    by (auto simp: accepted_into_def Let_def empty_platform_def empty_database_def split: prod.splits sum.splits)
qed

end
