(* ===== verification/Discovery.thy ===== *)
theory Discovery
  imports Server
begin

text \<open>
  Local discovery, \<open>discovery/*.py\<close>: what the agent infers about its host from strings the system
  reports, the names of environment variables and the output of commands. The host is a record of
  those observations; the inference is a function of it.
\<close>

section \<open>model.py\<close>

datatype DiscoveryConfidence = ConfidenceLow | ConfidenceMedium | ConfidenceHigh

datatype VirtualizationKind = BARE_METAL | VIRTUAL_MACHINE | CONTAINER | UNKNOWN_KIND

primrec VirtualizationKind_value :: "VirtualizationKind \<Rightarrow> string" where
  "VirtualizationKind_value BARE_METAL = ''bare_metal''"
| "VirtualizationKind_value VIRTUAL_MACHINE = ''virtual_machine''"
| "VirtualizationKind_value CONTAINER = ''container''"
| "VirtualizationKind_value UNKNOWN_KIND = ''unknown''"

record SystemInfo =
  sys_os_name :: string
  sys_os_version :: string
  sys_kernel_version :: string
  sys_architecture :: string
  sys_python_version :: string
  sys_timezone :: string

record HardwareInfo =
  hw_architecture :: string
  hw_logical_cpu_count :: int
  hw_physical_cpu_count :: "int option"
  hw_memory_bytes :: "int option"
  hw_cpu_model :: "string option"

definition below_one :: "int option \<Rightarrow> bool" where
  "below_one v = (case v of None \<Rightarrow> False | Some n \<Rightarrow> n < 1)"

definition HardwareInfo_init ::
  "string \<Rightarrow> int \<Rightarrow> int option \<Rightarrow> int option \<Rightarrow> string option \<Rightarrow> HardwareInfo result" where
  "HardwareInfo_init architecture logical physical memory model =
    (if logical < 1 then Inl (ValueError ''logical_cpu_count must be at least one'')
     else if below_one physical then Inl (ValueError ''physical_cpu_count must be at least one'')
     else if below_one memory then Inl (ValueError ''memory_bytes must be at least one'')
     else Inr \<lparr>hw_architecture = architecture, hw_logical_cpu_count = logical, hw_physical_cpu_count = physical,
       hw_memory_bytes = memory, hw_cpu_model = model\<rparr>)"

record VirtualizationInfo =
  vi_kind :: VirtualizationKind
  vi_hypervisor :: "string option"
  vi_confidence :: DiscoveryConfidence
  vi_evidence :: "string list"

record ProviderInfo =
  pi_provider_id :: "string option"
  pi_provider_name :: "string option"
  pi_confidence :: DiscoveryConfidence
  pi_source :: string
  pi_evidence :: "string list"

record NetworkInfo =
  ni_interface_count :: int
  ni_supports_ipv4 :: bool
  ni_supports_ipv6 :: bool
  ni_hostname_resolves :: bool

definition NetworkInfo_init :: "int \<Rightarrow> bool \<Rightarrow> bool \<Rightarrow> bool \<Rightarrow> NetworkInfo result" where
  "NetworkInfo_init interfaces ipv4 ipv6 resolves =
    (if interfaces < 0 then Inl (ValueError ''interface_count must not be negative'')
     else Inr \<lparr>ni_interface_count = interfaces, ni_supports_ipv4 = ipv4, ni_supports_ipv6 = ipv6,
       ni_hostname_resolves = resolves\<rparr>)"

record DiscoveryResult =
  dr_schema_version :: string
  dr_discovered_at :: pydatetime
  dr_system :: SystemInfo
  dr_hardware :: HardwareInfo
  dr_virtualization :: VirtualizationInfo
  dr_provider :: ProviderInfo
  dr_network :: NetworkInfo
  dr_warnings :: "string list"

section \<open>utils.py\<close>

text \<open>\<open>" ".join(value.split())\<close>: the words of a text, separated by one space.\<close>

fun words_of :: "string \<Rightarrow> string \<Rightarrow> string list" where
  "words_of word [] = (if word = [] then [] else [word])"
| "words_of word (c # cs) = (if is_space c
     then (if word = [] then words_of [] cs else word # words_of [] cs) else words_of (word @ [c]) cs)"

definition clean_optional :: "string option \<Rightarrow> string option" where
  "clean_optional v = (case v of None \<Rightarrow> None | Some s \<Rightarrow>
     let cleaned = join '' '' (words_of [] s) in if cleaned = [] then None else Some cleaned)"

definition lower_signals :: "string option list \<Rightarrow> string list" where
  "lower_signals vs = sorted_set (map casefold (List.map_filter clean_optional vs))"

record CommandResult =
  cr_returncode :: int
  cr_stdout :: string

text \<open>\<open>marker in text\<close> for strings.\<close>

fun contains :: "string \<Rightarrow> string \<Rightarrow> bool" where
  "contains marker [] = (marker = [])"
| "contains marker (c # cs) = (startswith (c # cs) marker \<or> contains marker cs)"

section \<open>The host\<close>

text \<open>
  What the host reports: the names of its environment variables, its readable files, what
  \<open>platform\<close> and \<open>os\<close> say, the results of commands (\<open>None\<close> when one cannot be run), and for Windows the
  installed memory.
\<close>

record host =
  ho_env :: "string list"
  ho_files :: "(string \<times> string) list"
  ho_system :: string
  ho_version :: string
  ho_release :: string
  ho_machine :: string
  ho_python_version :: string
  ho_timezone :: string
  ho_platform :: string
  ho_processor :: string
  ho_cpu_count :: "int option"
  ho_commands :: "string list \<Rightarrow> CommandResult option"
  ho_windows_memory :: "int option"
  ho_interfaces :: "nat option"
  ho_has_ipv4 :: bool
  ho_has_ipv6 :: bool
  ho_hostname_resolves :: bool

text \<open>\<open>read_text\<close>: the stripped content of a file, \<open>None\<close> when it cannot be read.\<close>

definition read_text :: "host \<Rightarrow> string \<Rightarrow> string option" where
  "read_text h p = map_option strip (map_of (ho_files h) p)"

section \<open>provider.py\<close>

record ProviderRule =
  ru_provider_id :: string
  ru_provider_name :: string
  ru_environment_keys :: "string list"
  ru_system_markers :: "string list"

definition provider_rule :: "string \<Rightarrow> string \<Rightarrow> string list \<Rightarrow> string list \<Rightarrow> ProviderRule" where
  "provider_rule i n ks ms = \<lparr>ru_provider_id = i, ru_provider_name = n, ru_environment_keys = ks, ru_system_markers = ms\<rparr>"

definition RULES :: "ProviderRule list" where
  "RULES = [
    provider_rule ''aws'' ''Amazon Web Services''
      [''AWS_EXECUTION_ENV'', ''AWS_REGION'', ''ECS_CONTAINER_METADATA_URI_V4''] [''amazon ec2'', ''amazon-nitro''],
    provider_rule ''azure'' ''Microsoft Azure''
      [''WEBSITE_INSTANCE_ID'', ''AZURE_HTTP_USER_AGENT'', ''IDENTITY_ENDPOINT'']
      [''microsoft corporation virtual machine'', ''azure''],
    provider_rule ''gcp'' ''Google Cloud''
      [''GOOGLE_CLOUD_PROJECT'', ''GCE_METADATA_HOST'', ''K_SERVICE''] [''google compute engine'', ''google''],
    provider_rule ''oracle-cloud'' ''Oracle Cloud Infrastructure'' [''OCI_RESOURCE_PRINCIPAL_VERSION'']
      [''oraclecloud'', ''oracle cloud''],
    provider_rule ''digitalocean'' ''DigitalOcean'' [] [''digitalocean''],
    provider_rule ''hetzner-cloud'' ''Hetzner Cloud'' [] [''hetzner''],
    provider_rule ''alibaba-cloud'' ''Alibaba Cloud'' [''ALIBABA_CLOUD_ACCESS_KEY_ID''] [''alibaba cloud'', ''alicloud''],
    provider_rule ''tencent-cloud'' ''Tencent Cloud'' [''TENCENTCLOUD_SECRET_ID''] [''tencent cloud''],
    provider_rule ''openstack'' ''OpenStack'' [''OS_AUTH_URL'', ''OS_CLOUD''] [''openstack'']]"

definition matched_keys :: "string list \<Rightarrow> ProviderRule \<Rightarrow> string list" where
  "matched_keys env rule = filter (\<lambda>key. key \<in> set env) (ru_environment_keys rule)"

definition combined_signals :: "string list \<Rightarrow> string" where
  "combined_signals signals = join '' | '' signals"

definition rule_marker :: "string \<Rightarrow> ProviderRule \<Rightarrow> string option" where
  "rule_marker combined rule = find (\<lambda>marker. contains marker combined) (ru_system_markers rule)"

definition discover_provider :: "string list \<Rightarrow> string option list \<Rightarrow> ProviderInfo" where
  "discover_provider env signals =
    (let combined = combined_signals (lower_signals signals) in
     case find (\<lambda>rule. matched_keys env rule \<noteq> []) RULES of
       Some rule \<Rightarrow> \<lparr>pi_provider_id = Some (ru_provider_id rule), pi_provider_name = Some (ru_provider_name rule),
         pi_confidence = ConfidenceHigh, pi_source = ''environment'',
         pi_evidence = map (\<lambda>key. ''environment:'' @ key) (matched_keys env rule)\<rparr>
     | None \<Rightarrow> (case find (\<lambda>rule. rule_marker combined rule \<noteq> None) RULES of
         Some rule \<Rightarrow> \<lparr>pi_provider_id = Some (ru_provider_id rule), pi_provider_name = Some (ru_provider_name rule),
           pi_confidence = ConfidenceMedium, pi_source = ''system'',
           pi_evidence = (case rule_marker combined rule of None \<Rightarrow> [] | Some marker \<Rightarrow> [''system:'' @ marker])\<rparr>
       | None \<Rightarrow> \<lparr>pi_provider_id = None, pi_provider_name = None, pi_confidence = ConfidenceLow,
           pi_source = ''unknown'', pi_evidence = []\<rparr>))"

section \<open>virtualization.py\<close>

definition HYPERVISORS :: "(string \<times> string) list" where
  "HYPERVISORS = [(''amazon ec2'', ''amazon-nitro''), (''google compute engine'', ''google-kvm''),
     (''microsoft corporation virtual machine'', ''hyper-v''), (''vmware'', ''vmware''), (''virtualbox'', ''virtualbox''),
     (''kvm'', ''kvm''), (''qemu'', ''qemu''), (''xen'', ''xen''), (''openstack'', ''openstack''),
     (''parallels'', ''parallels''), (''bochs'', ''bochs'')]"

definition container_evidence :: "host \<Rightarrow> string list" where
  "container_evidence h =
    (if map_of (ho_files h) ''/.dockerenv'' \<noteq> None then [''file:/.dockerenv''] else [])
    @ (if map_of (ho_files h) ''/run/.containerenv'' \<noteq> None then [''file:/run/.containerenv''] else [])
    @ (if ''KUBERNETES_SERVICE_HOST'' \<in> set (ho_env h) then [''environment:KUBERNETES_SERVICE_HOST''] else [])
    @ (case find (\<lambda>marker. contains marker (casefold (case read_text h ''/proc/1/cgroup'' of None \<Rightarrow> [] | Some t \<Rightarrow> t)))
         [''docker'', ''containerd'', ''kubepods'', ''podman'', ''lxc''] of
         None \<Rightarrow> [] | Some marker \<Rightarrow> [''cgroup:'' @ marker])"

definition virtualization :: "VirtualizationKind \<Rightarrow> string option \<Rightarrow> DiscoveryConfidence \<Rightarrow> string list \<Rightarrow> VirtualizationInfo" where
  "virtualization kind hypervisor confidence evidence =
    \<lparr>vi_kind = kind, vi_hypervisor = hypervisor, vi_confidence = confidence, vi_evidence = evidence\<rparr>"

definition detect_virt :: "host \<Rightarrow> VirtualizationInfo option" where
  "detect_virt h = (if casefold (ho_system h) \<noteq> ''linux'' then None
     else case ho_commands h [''systemd-detect-virt''] of
         None \<Rightarrow> None
       | Some result \<Rightarrow> let detected = casefold (strip (cr_stdout result)) in
           if cr_returncode result = 0 \<and> detected \<noteq> [] \<and> detected \<noteq> ''none''
           then Some (virtualization VIRTUAL_MACHINE (Some detected) ConfidenceMedium [''command:systemd-detect-virt''])
           else if cr_returncode result \<noteq> 0 \<or> detected = ''none''
           then Some (virtualization BARE_METAL None ConfidenceMedium [''command:systemd-detect-virt:none''])
           else None)"

definition discover_virtualization :: "host \<Rightarrow> string option list \<Rightarrow> VirtualizationInfo" where
  "discover_virtualization h signals =
    (let evidence = container_evidence h in
     if evidence \<noteq> [] then virtualization CONTAINER
       (Some (if ''KUBERNETES_SERVICE_HOST'' \<in> set (ho_env h) then ''kubernetes'' else ''container'')) ConfidenceHigh evidence
     else case find (\<lambda>(marker, _). contains marker (combined_signals (lower_signals signals))) HYPERVISORS of
         Some (marker, hypervisor) \<Rightarrow> virtualization VIRTUAL_MACHINE (Some hypervisor) ConfidenceHigh [''system:'' @ marker]
       | None \<Rightarrow> (case detect_virt h of
           Some v \<Rightarrow> v
         | None \<Rightarrow> virtualization UNKNOWN_KIND None ConfidenceLow []))"

definition DMI_PATHS :: "string list" where
  "DMI_PATHS = [''/sys/class/dmi/id/sys_vendor'', ''/sys/class/dmi/id/product_name'', ''/sys/class/dmi/id/product_version'',
     ''/sys/class/dmi/id/board_vendor'']"

definition powershell :: "string \<Rightarrow> string list" where
  "powershell script = [''powershell'', ''-NoProfile'', ''-NonInteractive'', ''-Command'', script]"

definition COMPUTER_SYSTEM :: string where
  "COMPUTER_SYSTEM = ''Get-CimInstance Win32_ComputerSystem | ForEach-Object { '' @ [CHR 0x22] @
     ''$($_.Manufacturer) $($_.Model)'' @ [CHR 0x22] @ '' }''"

definition collect_system_signals :: "host \<Rightarrow> string list" where
  "collect_system_signals h = lower_signals ([Some (ho_platform h), Some (ho_processor h)] @
    (if casefold (ho_system h) = ''linux'' then map (read_text h) DMI_PATHS
     else if casefold (ho_system h) = ''windows'' then (case ho_commands h (powershell COMPUTER_SYSTEM) of
         None \<Rightarrow> [] | Some result \<Rightarrow> if cr_returncode result = 0 then [Some (cr_stdout result)] else [])
     else []))"

section \<open>hardware.py\<close>

text \<open>
  \<open>re.search\<close> of a line pattern: the first line start where the matcher succeeds. The files are
  stripped texts, so a separator is never the last thing in one.
\<close>

fun search_lines :: "(string \<Rightarrow> 'a option) \<Rightarrow> bool \<Rightarrow> string \<Rightarrow> 'a option" where
  "search_lines m at_start [] = (if at_start then m [] else None)"
| "search_lines m at_start (c # cs) = (case (if at_start then m (c # cs) else None) of
     Some x \<Rightarrow> Some x | None \<Rightarrow> search_lines m (c = CHR 0x0A) cs)"

definition line_end :: "string \<Rightarrow> bool" where
  "line_end s \<longleftrightarrow> s = [] \<or> hd s = CHR 0x0A"

text \<open>\<open>MemTotal:\s+(\d+)\s+kB$\<close>.\<close>

definition match_mem_total :: "string \<Rightarrow> int option" where
  "match_mem_total s = (if \<not> startswith s ''MemTotal:'' then None else
    let rest = drop (length ''MemTotal:'') s; digits = takeWhile is_digit (dropWhile is_space rest);
        after = dropWhile is_digit (dropWhile is_space rest); unit = dropWhile is_space after
    in if rest \<noteq> [] \<and> is_space (hd rest) \<and> digits \<noteq> [] \<and> after \<noteq> [] \<and> is_space (hd after) \<and>
         startswith unit ''kB'' \<and> line_end (drop 2 unit)
       then Some (digits_val digits) else None)"

definition linux_memory_bytes :: "host \<Rightarrow> int option" where
  "linux_memory_bytes h = (case read_text h ''/proc/meminfo'' of
     None \<Rightarrow> None | Some content \<Rightarrow> map_option (\<lambda>n. n * 1024) (search_lines match_mem_total True content))"

text \<open>
  \<open>key\s*:\s*(.+)$\<close>, with or without regard to case; when only white space follows, \<open>\s*\<close> gives back
  its last character that is not a newline.
\<close>

definition match_field :: "bool \<Rightarrow> string \<Rightarrow> string \<Rightarrow> string option" where
  "match_field ignore_case key s =
    (let head = take (length key) s; rest = dropWhile is_space (drop (length key) s) in
     if (if ignore_case then casefold head = casefold key else head = key) \<and> startswith rest '':''
     then (case dropWhile is_space (drop 1 rest) of
         [] \<Rightarrow> map_option (\<lambda>c. [c]) (find (\<lambda>c. c \<noteq> CHR 0x0A) (rev (drop 1 rest)))
       | v \<Rightarrow> Some (until [CHR 0x0A] v))
     else None)"

definition linux_cpu_model :: "host \<Rightarrow> string option" where
  "linux_cpu_model h = (case read_text h ''/proc/cpuinfo'' of
     None \<Rightarrow> None
   | Some content \<Rightarrow>
      (case List.map_filter (\<lambda>key. search_lines (match_field True key) True content) [''model name'', ''hardware'', ''processor''] of
         [] \<Rightarrow> None | v # _ \<Rightarrow> clean_optional (Some v)))"

text \<open>\<open>re.split(r"\n\s*\n", content)\<close>: a separator is a run of white space from a newline to its last newline.\<close>

function blank_blocks :: "string \<Rightarrow> string \<Rightarrow> string list" where
  "blank_blocks block [] = [block]"
| "blank_blocks block (c # cs) = (let gap = takeWhile is_space cs in
     if c = CHR 0x0A \<and> CHR 0x0A \<in> set gap
     then block # blank_blocks [] (rev (takeWhile (\<lambda>x. x \<noteq> CHR 0x0A) (rev gap)) @ dropWhile is_space cs)
     else blank_blocks (block @ [c]) cs)"
  by pat_completeness auto
termination
proof (relation "measure (\<lambda>(block, s). length s)", goal_cases)
  case (2 block c cs gap)
  have "length (takeWhile (\<lambda>x. x \<noteq> CHR 0x0A) (rev gap)) \<le> length gap"
    using length_takeWhile_le [of "\<lambda>x. x \<noteq> CHR 0x0A" "rev gap"] by simp
  moreover have "length gap + length (dropWhile is_space cs) = length cs"
    unfolding 2(1) by (metis length_append takeWhile_dropWhile_id)
  ultimately show ?case by simp
qed auto

definition core_of :: "string \<Rightarrow> (string \<times> string) option" where
  "core_of block = (case (search_lines (match_field False ''physical id'') True block,
      search_lines (match_field False ''core id'') True block) of
     (Some physical, Some core) \<Rightarrow> Some (strip physical, strip core) | _ \<Rightarrow> None)"

definition match_cpu_cores :: "string \<Rightarrow> int option" where
  "match_cpu_cores s = (case match_field False ''cpu cores'' s of None \<Rightarrow> None
     | Some v \<Rightarrow> if list_all is_digit v then Some (digits_val v) else None)"

definition linux_physical_cpu_count :: "host \<Rightarrow> int option" where
  "linux_physical_cpu_count h = (case read_text h ''/proc/cpuinfo'' of
     None \<Rightarrow> None
   | Some content \<Rightarrow>
      let cores = dedup (List.map_filter core_of (blank_blocks [] content))
      in if cores \<noteq> [] then Some (int (length cores)) else search_lines match_cpu_cores True content)"

definition sysctl_text :: "host \<Rightarrow> string \<Rightarrow> string option" where
  "sysctl_text h name = (case ho_commands h [''sysctl'', ''-n'', name] of
     None \<Rightarrow> None | Some result \<Rightarrow> if cr_returncode result \<noteq> 0 then None else Some (cr_stdout result))"

definition sysctl_integer :: "host \<Rightarrow> string \<Rightarrow> int option" where
  "sysctl_integer h name = (case sysctl_text h name of None \<Rightarrow> None | Some t \<Rightarrow> parse_int t)"

text \<open>\<open>str.splitlines\<close> for its line ends in ASCII.\<close>

definition is_line_end :: "char \<Rightarrow> bool" where
  "is_line_end c \<longleftrightarrow> (10 \<le> code c \<and> code c \<le> 13) \<or> (28 \<le> code c \<and> code c \<le> 30)"

fun splitlines :: "string \<Rightarrow> string \<Rightarrow> string list" where
  "splitlines cur [] = (if cur = [] then [] else [cur])"
| "splitlines cur [c] = (if is_line_end c then [cur] else [cur @ [c]])"
| "splitlines cur (c # d # cs) = (if c = CHR 0x0D \<and> d = CHR 0x0A then cur # splitlines [] cs
     else if is_line_end c then cur # splitlines [] (d # cs) else splitlines (cur @ [c]) (d # cs))"

definition PROCESSOR :: string where
  "PROCESSOR = ''Get-CimInstance Win32_Processor | ForEach-Object { '' @ [CHR 0x22] @
     ''$($_.NumberOfCores)|$($_.Name)'' @ [CHR 0x22] @ '' }''"

definition processor_line :: "string \<Rightarrow> (int \<times> string option) option" where
  "processor_line row = (if CHR ''|'' \<notin> set row then None
     else Some (case parse_int (strip (takeWhile (\<lambda>c. c \<noteq> CHR ''|'') row)) of None \<Rightarrow> 0 | Some n \<Rightarrow> n,
       clean_optional (Some (drop 1 (dropWhile (\<lambda>c. c \<noteq> CHR ''|'') row)))))"

definition windows_processor_data :: "host \<Rightarrow> int option \<times> string option" where
  "windows_processor_data h = (case ho_commands h (powershell PROCESSOR) of
     None \<Rightarrow> (None, None)
   | Some result \<Rightarrow> if cr_returncode result \<noteq> 0 \<or> cr_stdout result = [] then (None, None)
       else let rows = List.map_filter processor_line (splitlines [] (cr_stdout result)); cores = sum_list (map fst rows)
         in (if cores = 0 then None else Some cores,
             case List.map_filter snd rows of [] \<Rightarrow> None | model # _ \<Rightarrow> Some model))"

definition or_else :: "'a option \<Rightarrow> 'a option \<Rightarrow> 'a option" where
  "or_else a b = (case a of None \<Rightarrow> b | Some x \<Rightarrow> Some x)"

definition or_unknown :: "string \<Rightarrow> string" where
  "or_unknown s = (if s = [] then ''unknown'' else s)"

definition discover_hardware :: "host \<Rightarrow> HardwareInfo result" where
  "discover_hardware h =
    (let system_name = casefold (ho_system h); model = clean_optional (Some (ho_processor h));
         logical = (case ho_cpu_count h of None \<Rightarrow> 1 | Some n \<Rightarrow> if n = 0 then 1 else n);
         (physical, memory, cpu_model) =
           (if system_name = ''linux''
            then (linux_physical_cpu_count h, linux_memory_bytes h, or_else (linux_cpu_model h) model)
            else if system_name = ''windows''
            then (fst (windows_processor_data h), ho_windows_memory h, or_else (snd (windows_processor_data h)) model)
            else if system_name = ''darwin''
            then (sysctl_integer h ''hw.physicalcpu'', sysctl_integer h ''hw.memsize'',
              or_else (clean_optional (sysctl_text h ''machdep.cpu.brand_string'')) model)
            else (None, None, model))
     in HardwareInfo_init (or_unknown (ho_machine h)) logical physical memory cpu_model)"

section \<open>system.py, network.py and collector.py\<close>

definition discover_system :: "host \<Rightarrow> SystemInfo" where
  "discover_system h = \<lparr>sys_os_name = or_unknown (ho_system h), sys_os_version = or_unknown (ho_version h),
     sys_kernel_version = or_unknown (ho_release h), sys_architecture = or_unknown (ho_machine h),
     sys_python_version = ho_python_version h, sys_timezone = ho_timezone h\<rparr>"

definition discover_network :: "host \<Rightarrow> NetworkInfo result" where
  "discover_network h = NetworkInfo_init (case ho_interfaces h of None \<Rightarrow> 0 | Some n \<Rightarrow> int n) (ho_has_ipv4 h)
     (ho_has_ipv6 h) (ho_hostname_resolves h)"

text \<open>\<open>type(error).__name__\<close>.\<close>

fun error_name :: "py_error \<Rightarrow> string" where
  "error_name (ValueError m) = ''ValueError''"
| "error_name (TypeError m) = ''TypeError''"
| "error_name (AttributeError m) = ''AttributeError''"
| "error_name (KeyError m) = ''KeyError''"
| "error_name ZeroDivisionError = ''ZeroDivisionError''"
| "error_name OverflowError = ''OverflowError''"
| "error_name (FileNotFoundError m) = ''FileNotFoundError''"
| "error_name (FileExistsError m) = ''FileExistsError''"
| "error_name (OSError m) = ''OSError''"
| "error_name (SampleValidationError ms) = ''SampleValidationError''"
| "error_name (BundleVerificationError m) = ''BundleVerificationError''"
| "error_name (BundleBuildError m) = ''BundleBuildError''"
| "error_name (ConfigurationError m) = ''ConfigurationError''"
| "error_name UnicodeDecodeError = ''UnicodeDecodeError''"
| "error_name (JSONDecodeError m) = ''JSONDecodeError''"
| "error_name (BadZipFile m) = ''BadZipFile''"
| "error_name (RuntimeError m) = ''RuntimeError''"
| "error_name (IntegrityError m) = ''IntegrityError''"
| "error_name (ZlibError m) = ''error''"

definition collect :: "string \<Rightarrow> 'a result \<Rightarrow> 'a \<Rightarrow> string list \<Rightarrow> string list \<times> 'a" where
  "collect name r fallback warnings = (case r of
     Inl e \<Rightarrow> (warnings @ [name @ ''_discovery_failed:'' @ error_name e], fallback) | Inr x \<Rightarrow> (warnings, x))"

definition fallback_hardware :: HardwareInfo where
  "fallback_hardware = \<lparr>hw_architecture = ''unknown'', hw_logical_cpu_count = 1, hw_physical_cpu_count = None,
     hw_memory_bytes = None, hw_cpu_model = None\<rparr>"

definition fallback_network :: NetworkInfo where
  "fallback_network = \<lparr>ni_interface_count = 0, ni_supports_ipv4 = False, ni_supports_ipv6 = False, ni_hostname_resolves = False\<rparr>"

definition discover_all :: "host \<Rightarrow> pydatetime \<Rightarrow> DiscoveryResult result" where
  "discover_all h discovered_at =
    (let signals = map Some (collect_system_signals h);
         (w1, hardware) = collect ''hardware'' (discover_hardware h) fallback_hardware [];
         (w2, network) = collect ''network'' (discover_network h) fallback_network w1
     in if \<not> aware discovered_at then Inl (ValueError ''discovered_at must contain timezone information'')
        else Inr \<lparr>dr_schema_version = ''1.0.0'', dr_discovered_at = discovered_at, dr_system = discover_system h,
          dr_hardware = hardware, dr_virtualization = discover_virtualization h signals,
          dr_provider = discover_provider (ho_env h) signals, dr_network = network, dr_warnings = w2\<rparr>)"

section \<open>What discovery promises\<close>

lemma contains_iff: "contains m s \<longleftrightarrow> (\<exists>u v. s = u @ m @ v)"
proof (induction s)
  case (Cons c s)
  have "(\<exists>u v. c # s = u @ m @ v) \<longleftrightarrow> (\<exists>v. c # s = m @ v) \<or> (\<exists>u v. s = u @ m @ v)"
    by (metis append_Cons append_Nil neq_Nil_conv list.inject)
  then show ?case using Cons by (simp add: startswith_iff)
qed auto

text \<open>A marker that starts and ends with a printing character and has no \<open>|\<close> lies within one signal.\<close>

definition plain_marker :: "string \<Rightarrow> bool" where
  "plain_marker m \<longleftrightarrow> m \<noteq> [] \<and> hd m \<noteq> CHR '' '' \<and> last m \<noteq> CHR '' '' \<and> CHR ''|'' \<notin> set m"

lemma append_split_at:
  assumes "u @ m @ v = a @ b"
  shows "(\<exists>v'. a = u @ m @ v') \<or> (\<exists>u'. b = u' @ m @ v) \<or>
    (\<exists>m1 m2. m = m1 @ m2 \<and> m1 \<noteq> [] \<and> m2 \<noteq> [] \<and> a = u @ m1 \<and> b = m2 @ v)"
  using assms unfolding append_eq_append_conv2 append_eq_append_conv2 [of m v]
  by (metis append.right_neutral append_Nil append_eq_append_conv2 append.assoc)

lemma contains_append_sep:
  assumes "plain_marker m"
  shows "contains m (a @ '' | '' @ b) \<longleftrightarrow> contains m a \<or> contains m b"
proof
  assume "contains m (a @ '' | '' @ b)"
  then obtain u v where eq: "u @ m @ v = a @ '' | '' @ b" unfolding contains_iff by metis
  from append_split_at [OF eq] show "contains m a \<or> contains m b"
  proof (elim disjE exE conjE)
    fix u' assume "'' | '' @ b = u' @ m @ v"
    then have "contains m b" using assms unfolding plain_marker_def contains_iff
      by (auto simp: Cons_eq_append_conv)
    then show ?thesis ..
  next
    fix m1 m2 assume "m = m1 @ m2" "m2 \<noteq> []" "'' | '' @ b = m2 @ v"
    then show ?thesis using assms unfolding plain_marker_def by (auto simp: Cons_eq_append_conv)
  qed (auto simp: contains_iff)
qed (metis append.assoc contains_iff)

lemma contains_joined:
  "plain_marker m \<Longrightarrow> contains m (join '' | '' ss) \<longleftrightarrow> list_ex (contains m) ss"
proof (induction "'' | ''" ss rule: join.induct)
  case (3 x y ys)
  then show ?case using contains_append_sep [of m x "join '' | '' (y # ys)"] by simp
qed (simp_all add: plain_marker_def)

definition clean_word :: "string \<Rightarrow> bool" where
  "clean_word w \<longleftrightarrow> w \<noteq> [] \<and> list_all (\<lambda>c. \<not> is_space c) w"

lemma clean_words_of:
  "list_all (\<lambda>c. \<not> is_space c) w \<Longrightarrow> list_all clean_word (words_of w s)"
  by (induction w s rule: words_of.induct) (auto simp: clean_word_def)

lemma words_of_append: "list_all (\<lambda>c. \<not> is_space c) w \<Longrightarrow> words_of u (w @ s) = words_of (u @ w) s"
  by (induction w arbitrary: u) auto

lemma is_space_blank [simp]: "is_space CHR '' ''"
  by code_simp

lemma words_of_join: "list_all clean_word ws \<Longrightarrow> words_of [] (join '' '' ws) = ws"
proof (induction "'' ''" ws rule: join.induct)
  case (2 x)
  then show ?case using words_of_append [of x "[]" "[]"] by (simp add: clean_word_def)
next
  case (3 x y ys)
  then show ?case by (simp add: clean_word_def words_of_append)
qed simp

lemma casefold_app [simp]: "casefold (a @ b) = casefold a @ casefold b"
  by (simp add: casefold_def)

lemma casefold_join: "casefold (join '' '' ws) = join '' '' (map casefold ws)"
proof (induction "'' ''" ws rule: join.induct)
  case (3 x y ys)
  have "to_lower CHR '' '' = CHR '' ''" by code_simp
  then show ?case using 3 by (simp add: casefold_def)
qed (simp_all add: casefold_def)

lemma clean_word_casefold: "clean_word w \<Longrightarrow> clean_word (casefold w)"
  by (simp add: clean_word_def list_all_iff casefold_def)

lemma join_clean_words: "list_all clean_word ws \<Longrightarrow> ws \<noteq> [] \<Longrightarrow> join '' '' ws \<noteq> []"
  by (cases "('' '', ws)" rule: join.cases) (auto simp: clean_word_def)

lemma lowered_clean:
  assumes "clean_optional v = Some x"
  shows "clean_optional (Some (casefold x)) = Some (casefold x)"
proof -
  obtain s where x: "x = join '' '' (words_of [] s)" and ne: "x \<noteq> []"
    using assms by (auto simp: clean_optional_def Let_def split: option.splits if_splits)
  have w: "list_all clean_word (words_of [] s)" by (simp add: clean_words_of)
  then have "list_all clean_word (map casefold (words_of [] s))"
    by (auto simp: list_all_iff clean_word_casefold)
  then have "words_of [] (casefold x) = map casefold (words_of [] s)"
    by (simp add: x casefold_join words_of_join)
  then show ?thesis using ne by (simp add: clean_optional_def Let_def flip: casefold_join x)
qed

lemma lower_signals_idem [simp]: "lower_signals (map Some (lower_signals vs)) = lower_signals vs"
proof -
  have same: "clean_optional (Some y) = Some y \<and> casefold y = y" if "y \<in> set (lower_signals vs)" for y
    using that lowered_clean by (auto simp: lower_signals_def List.map_filter_def)
  have "List.map_filter clean_optional (map Some ys) = ys"
    if "list_all (\<lambda>y. clean_optional (Some y) = Some y) ys" for ys
    using that by (induction ys) (auto simp: List.map_filter_def)
  then have "List.map_filter clean_optional (map Some (lower_signals vs)) = lower_signals vs"
    using same by (simp add: list_all_iff)
  moreover have "map casefold (lower_signals vs) = lower_signals vs"
    using same by (simp add: map_idI)
  ultimately have "lower_signals (map Some (lower_signals vs)) = sorted_set (lower_signals vs)"
    by (simp add: lower_signals_def)
  then show ?thesis by (simp add: sorted_set_id) (simp add: lower_signals_def sorted_set_id)
qed

lemma RULES_plain: "list_all (\<lambda>rule. list_all plain_marker (ru_system_markers rule)) RULES"
  by code_simp

lemma RULES_evidence: "discover_provider env signals = discover_provider env (map Some (lower_signals signals))"
  by (simp add: discover_provider_def)

definition environment_names :: "string list \<Rightarrow> ProviderRule \<Rightarrow> bool" where
  "environment_names env rule \<longleftrightarrow> list_ex (\<lambda>key. key \<in> set env) (ru_environment_keys rule)"

definition signals_name :: "string list \<Rightarrow> ProviderRule \<Rightarrow> bool" where
  "signals_name signals rule \<longleftrightarrow> list_ex (\<lambda>marker. list_ex (contains marker) signals) (ru_system_markers rule)"

lemma matched_keys_iff: "matched_keys env rule \<noteq> [] \<longleftrightarrow> environment_names env rule"
  by (auto simp: matched_keys_def environment_names_def list_ex_iff filter_empty_conv)

lemma rule_marker_iff:
  assumes "rule \<in> set RULES"
  shows "rule_marker (combined_signals signals) rule \<noteq> None \<longleftrightarrow> signals_name signals rule"
proof -
  have "contains m (combined_signals signals) \<longleftrightarrow> list_ex (contains m) signals" if "m \<in> set (ru_system_markers rule)" for m
    using that assms RULES_plain by (simp add: list_all_iff combined_signals_def contains_joined)
  then show ?thesis by (auto simp: rule_marker_def signals_name_def list_ex_iff find_None_iff)
qed

lemma find_rule:
  "(case find P RULES of None \<Rightarrow> list_all (\<lambda>rule. \<not> P rule) RULES
    | Some rule \<Rightarrow> P rule \<and> rule \<in> set RULES \<and> list_ex P RULES)"
  by (auto simp: list_all_iff list_ex_iff find_None_iff find_Some_iff split: option.splits)

text \<open>
  the inferred provider. It comes from the environment, with high confidence, exactly when a rule
  names one of its variables; else from the system, with medium confidence, exactly when one signal by
  itself contains a marker (joining the signals with \<open> | \<close> adds no match); else it is unknown. A known
  provider is one of the rules and carries evidence, and normalising the signals again changes nothing.
\<close>

theorem provider_inference:
  "let p = discover_provider env signals; named = list_ex (environment_names env) RULES;
       seen = list_ex (signals_name (lower_signals signals)) RULES in
   (pi_source p, pi_confidence p) =
     (if named then (''environment'', ConfidenceHigh) else if seen then (''system'', ConfidenceMedium)
      else (''unknown'', ConfidenceLow)) \<and>
   (case pi_provider_id p of
      None \<Rightarrow> \<not> named \<and> \<not> seen \<and> pi_evidence p = []
    | Some i \<Rightarrow> list_ex (\<lambda>rule. ru_provider_id rule = i \<and> pi_provider_name p = Some (ru_provider_name rule) \<and>
        (if named then environment_names env rule else signals_name (lower_signals signals) rule)) RULES \<and>
        pi_evidence p \<noteq> []) \<and>
   discover_provider env (map Some (lower_signals signals)) = p"
proof -
  let ?s = "lower_signals signals" and ?c = "combined_signals (lower_signals signals)"
  have keys: "find (\<lambda>rule. matched_keys env rule \<noteq> []) RULES = find (environment_names env) RULES"
    by (simp add: matched_keys_iff)
  have marks: "find (\<lambda>rule. rule_marker ?c rule \<noteq> None) RULES = find (signals_name ?s) RULES"
    by (rule find_cong) (use rule_marker_iff in auto)
  show ?thesis
  proof (cases "find (environment_names env) RULES")
    case (Some rule)
    then show ?thesis using find_rule [of "environment_names env"] RULES_evidence [of env signals]
      by (auto simp: discover_provider_def keys Let_def list_ex_iff matched_keys_iff)
  next
    case named: None
    show ?thesis
    proof (cases "find (signals_name ?s) RULES")
      case (Some rule)
      then show ?thesis using named find_rule [of "environment_names env"] find_rule [of "signals_name ?s"] rule_marker_iff [of rule ?s]
        by (auto simp: discover_provider_def keys marks Let_def list_ex_iff list_all_iff simp del: not_None_eq)
    next
      case None
      then show ?thesis using named find_rule [of "environment_names env"] find_rule [of "signals_name ?s"]
        by (auto simp: discover_provider_def keys marks Let_def list_ex_iff list_all_iff simp del: not_None_eq)
    qed
  qed
qed

text \<open>A hardware record the constructor accepts.\<close>

definition hardware_ok :: "HardwareInfo \<Rightarrow> bool" where
  "hardware_ok hw \<longleftrightarrow> 1 \<le> hw_logical_cpu_count hw \<and> \<not> below_one (hw_physical_cpu_count hw) \<and> \<not> below_one (hw_memory_bytes hw)"

lemma HardwareInfo_init_ok: "HardwareInfo_init a l p mem model = Inr hw \<Longrightarrow> hardware_ok hw"
  by (auto simp: HardwareInfo_init_def hardware_ok_def split: if_splits)

lemma discover_hardware_ok: "discover_hardware h = Inr hw \<Longrightarrow> hardware_ok hw"
  unfolding discover_hardware_def Let_def by (simp add: HardwareInfo_init_ok split: prod.splits)

lemma discover_hardware_error: "discover_hardware h = Inl e \<Longrightarrow> error_name e = ''ValueError''"
  unfolding discover_hardware_def Let_def by (auto simp: HardwareInfo_init_def split: prod.splits if_splits)

lemma discover_network_total:
  "discover_network h = Inr \<lparr>ni_interface_count = int (case ho_interfaces h of None \<Rightarrow> 0 | Some n \<Rightarrow> n),
     ni_supports_ipv4 = ho_has_ipv4 h, ni_supports_ipv6 = ho_has_ipv6 h, ni_hostname_resolves = ho_hostname_resolves h\<rparr>"
  by (simp add: discover_network_def NetworkInfo_init_def split: option.split)

lemma collect_system_signals_idem: "lower_signals (map Some (collect_system_signals h)) = collect_system_signals h"
  by (simp add: collect_system_signals_def)

lemma detect_virt_kind:
  "detect_virt h = Some v \<Longrightarrow> vi_kind v \<in> {VIRTUAL_MACHINE, BARE_METAL} \<and> vi_confidence v = ConfidenceMedium \<and> vi_evidence v \<noteq> []"
  by (auto simp: detect_virt_def virtualization_def Let_def split: if_splits option.splits)

lemma virtualization_order:
  "let v = discover_virtualization h signals in
   (vi_kind v = CONTAINER) = (container_evidence h \<noteq> []) \<and>
   (vi_kind v = UNKNOWN_KIND) = (vi_evidence v = []) \<and>
   (vi_kind v = BARE_METAL \<longrightarrow> detect_virt h = Some v)"
  using detect_virt_kind [of h]
  by (fastforce simp: discover_virtualization_def virtualization_def Let_def split: option.splits prod.splits)


end
