(* ===== verification/Bootstrap.thy ===== *)
theory Bootstrap
  imports Discovery
begin

text \<open>
  \<open>bootstrap/\<close>: which native commands a benchmark host lacks, which packages bring them, and the one
  command that installs these after a confirmation. The host is a record of what the code asks it; running
  a command changes it by a function that may fail.
\<close>

section \<open>Detection\<close>

record tool_host =
  th_system :: string
  th_os_name :: string
  th_which :: "string \<Rightarrow> bool"
  th_os_release :: "string option"
  th_euid :: "int option"

record RuntimeDependencyReport =
  rd_platform :: string
  rd_package_manager :: "string option"
  rd_missing_commands :: "string list"
  rd_packages :: "string list"

definition ready :: "RuntimeDependencyReport \<Rightarrow> bool" where
  "ready report \<longleftrightarrow> rd_missing_commands report = []"

definition REQUIRED_COMMANDS :: "string list" where
  "REQUIRED_COMMANDS = [''lscpu'', ''free'', ''ip'', ''lspci'']"

definition PACKAGE_MAP :: "(string \<times> (string \<times> string) list) list" where
  "PACKAGE_MAP =
    [(''apt-get'', [(''ping'', ''iputils-ping''), (''lscpu'', ''util-linux''), (''free'', ''procps''), (''ip'', ''iproute2''), (''lspci'', ''pciutils'')]),
     (''dnf'', [(''ping'', ''iputils''), (''lscpu'', ''util-linux''), (''free'', ''procps-ng''), (''ip'', ''iproute''), (''lspci'', ''pciutils'')]),
     (''yum'', [(''ping'', ''iputils''), (''lscpu'', ''util-linux''), (''free'', ''procps-ng''), (''ip'', ''iproute''), (''lspci'', ''pciutils'')]),
     (''zypper'', [(''ping'', ''iputils''), (''lscpu'', ''util-linux''), (''free'', ''procps''), (''ip'', ''iproute2''), (''lspci'', ''pciutils'')]),
     (''apk'', [(''ping'', ''iputils''), (''lscpu'', ''util-linux''), (''free'', ''procps''), (''ip'', ''iproute2''), (''lspci'', ''pciutils'')]),
     (''pacman'', [(''ping'', ''iputils''), (''lscpu'', ''util-linux''), (''free'', ''procps-ng''), (''ip'', ''iproute2''), (''lspci'', ''pciutils'')])]"

definition find_package_manager :: "tool_host \<Rightarrow> string option" where
  "find_package_manager h = find (th_which h) (map fst PACKAGE_MAP)"

text \<open>The mapping of a manager; none has the empty name.\<close>

definition package_mapping :: "string option \<Rightarrow> (string \<times> string) list" where
  "package_mapping manager = (case map_of PACKAGE_MAP (case manager of None \<Rightarrow> [] | Some m \<Rightarrow> m) of None \<Rightarrow> [] | Some x \<Rightarrow> x)"

definition packages_for :: "string option \<Rightarrow> string list \<Rightarrow> string list" where
  "packages_for manager missing = dedup (List.map_filter (map_of (package_mapping manager)) missing)"

definition PLATFORM_NAMES :: "string list" where
  "PLATFORM_NAMES = [''sles'', ''opensuse'', ''ubuntu'', ''debian'', ''rhel'', ''centos'', ''rocky'', ''almalinux'', ''fedora'',
     ''alpine'', ''arch'']"

definition detect_runtime_dependencies :: "string list \<Rightarrow> tool_host \<Rightarrow> RuntimeDependencyReport" where
  "detect_runtime_dependencies extra_commands h =
    (let system = casefold (th_system h) in
     if system = ''windows''
     then \<lparr>rd_platform = ''windows'', rd_package_manager = Some ''winget'', rd_missing_commands = [], rd_packages = []\<rparr>
     else if system \<noteq> ''linux''
     then \<lparr>rd_platform = (if system = [] then th_os_name h else system), rd_package_manager = None,
       rd_missing_commands = [], rd_packages = []\<rparr>
     else let manager = find_package_manager h;
         required_commands = dedup (REQUIRED_COMMANDS @ extra_commands);
         missing = filter (\<lambda>c. \<not> th_which h c) required_commands;
         os_id = casefold (case th_os_release h of None \<Rightarrow> [] | Some t \<Rightarrow> t)
       in \<lparr>rd_platform = (case find (\<lambda>n. contains n os_id) PLATFORM_NAMES of None \<Rightarrow> ''linux'' | Some n \<Rightarrow> n),
         rd_package_manager = manager, rd_missing_commands = missing, rd_packages = packages_for manager missing\<rparr>)"

section \<open>Installation\<close>

definition command_for :: "tool_host \<Rightarrow> bool \<Rightarrow> RuntimeDependencyReport \<Rightarrow> string list" where
  "command_for h assume_yes report = (case rd_package_manager report of
     None \<Rightarrow> []
   | Some manager \<Rightarrow>
      if manager = [] \<or> rd_packages report = [] then []
      else let prefix = (if th_os_name h \<noteq> ''nt'' \<and> (case th_euid h of None \<Rightarrow> False | Some u \<Rightarrow> u \<noteq> 0) then [''sudo''] else []) in
        if manager = ''apt-get'' then prefix @ [manager, ''install'', ''-y''] @ rd_packages report
        else if manager = ''dnf'' \<or> manager = ''yum'' then prefix @ [manager, ''install'', ''-y''] @ rd_packages report
        else if manager = ''zypper'' then prefix @ [manager, ''--non-interactive'', ''install''] @ rd_packages report
        else if manager = ''apk'' then prefix @ [manager, ''add'', ''--no-cache''] @ rd_packages report
        else if manager = ''pacman''
        then prefix @ [manager, ''-S'', ''--needed''] @ (if assume_yes then [''--noconfirm''] else []) @ rd_packages report
        else [])"

text \<open>\<open>render_install_command\<close> is the command for diagnostics.\<close>

definition render_install_command :: "tool_host \<Rightarrow> bool \<Rightarrow> RuntimeDependencyReport \<Rightarrow> string list" where
  "render_install_command = command_for"

text \<open>
  A refusal of the function itself, or an exception of the command that ran. \<open>run\<close> is the effect of a command;
  the result also has the commands that were run and the host afterwards.
\<close>

datatype dependency_error = RuntimeDependencyError string | InstallRaised string

definition ensure_runtime_dependencies ::
  "bool \<Rightarrow> bool \<Rightarrow> string \<Rightarrow> string list \<Rightarrow> (string list \<Rightarrow> tool_host \<Rightarrow> tool_host \<times> string option) \<Rightarrow> tool_host \<Rightarrow>
   string list list \<times> tool_host \<times> (dependency_error + RuntimeDependencyReport)" where
  "ensure_runtime_dependencies auto_install assume_yes answer extra_commands run h =
    (let report = detect_runtime_dependencies extra_commands h; missing = join '', '' (rd_missing_commands report) in
     if ready report then ([], h, Inr report)
     else if \<not> auto_install
     then ([], h, Inl (RuntimeDependencyError (''Missing recommended runtime commands: '' @ missing
       @ ''. Re-run with --install-deps to install them automatically.'')))
     else let command = command_for h assume_yes report in
       if command = []
       then ([], h, Inl (RuntimeDependencyError (''Cannot install missing commands automatically on '' @ rd_platform report
         @ '': '' @ missing)))
       else if \<not> assume_yes \<and> casefold (strip answer) \<noteq> ''y'' \<and> casefold (strip answer) \<noteq> ''yes''
       then ([], h, Inl (RuntimeDependencyError ''Runtime dependency installation was cancelled.''))
       else (case run command h of
           (h', Some t) \<Rightarrow> ([command], h', Inl (InstallRaised t))
         | (h', None) \<Rightarrow> let refreshed = detect_runtime_dependencies extra_commands h' in
             ([command], h', if ready refreshed then Inr refreshed
               else Inl (RuntimeDependencyError (''Dependencies are still missing after installation: ''
                 @ join '', '' (rd_missing_commands refreshed))))))"

section \<open>What may be run\<close>

text \<open>
  A permitted command: under \<open>sudo\<close> exactly when the user is not root, a package manager the host has, and
  after its options exactly the packages its table names for missing commands.
\<close>

definition install_command_ok :: "tool_host \<Rightarrow> string list \<Rightarrow> string list \<Rightarrow> bool" where
  "install_command_ok h missing command \<longleftrightarrow> (\<exists>manager options. find_package_manager h = Some manager \<and>
     command = (if th_os_name h \<noteq> ''nt'' \<and> (case th_euid h of None \<Rightarrow> False | Some u \<Rightarrow> u \<noteq> 0) then [''sudo''] else [])
       @ manager # options @ packages_for (Some manager) missing \<and>
     packages_for (Some manager) missing \<noteq> [] \<and>
     set options \<subseteq> {''install'', ''-y'', ''--non-interactive'', ''add'', ''--no-cache'', ''-S'', ''--needed'', ''--noconfirm''})"

definition missing_commands :: "string list \<Rightarrow> tool_host \<Rightarrow> string list" where
  "missing_commands extra_commands h = (if casefold (th_system h) = ''linux''
     then filter (\<lambda>c. \<not> th_which h c) (dedup (REQUIRED_COMMANDS @ extra_commands)) else [])"

lemma detected_missing: "rd_missing_commands (detect_runtime_dependencies extra h) = missing_commands extra h"
  by (auto simp: detect_runtime_dependencies_def missing_commands_def Let_def)

lemma detected_packages:
  "\<not> ready (detect_runtime_dependencies extra h) \<Longrightarrow>
   rd_package_manager (detect_runtime_dependencies extra h) = find_package_manager h \<and>
   rd_packages (detect_runtime_dependencies extra h) = packages_for (find_package_manager h) (missing_commands extra h)"
  by (auto simp: detect_runtime_dependencies_def missing_commands_def ready_def Let_def split: if_splits)

lemma command_for_ok:
  assumes "command_for h assume_yes (detect_runtime_dependencies extra h) \<noteq> []" and "\<not> ready (detect_runtime_dependencies extra h)"
  shows "install_command_ok h (missing_commands extra h) (command_for h assume_yes (detect_runtime_dependencies extra h))"
proof -
  let ?report = "detect_runtime_dependencies extra h"
  note d = detected_packages [OF assms(2)]
  obtain manager where m: "find_package_manager h = Some manager"
    using assms(1) d by (cases "find_package_manager h") (simp_all add: command_for_def)
  have "rd_packages ?report \<noteq> []" using assms(1) d m by (auto simp: command_for_def)
  then show ?thesis using assms(1) d m
    unfolding install_command_ok_def m
    by (intro exI [of _ manager] exI [of _ "(if manager = ''apt-get'' \<or> manager = ''dnf'' \<or> manager = ''yum'' then [''install'', ''-y'']
        else if manager = ''zypper'' then [''--non-interactive'', ''install''] else if manager = ''apk'' then [''add'', ''--no-cache'']
        else [''-S'', ''--needed''] @ (if assume_yes then [''--noconfirm''] else []))"])
      (auto simp: command_for_def Let_def split: if_splits)
qed

text \<open>
  C38: The host is changed by at most one command, only if installation was asked for and the user
  agreed, and that command installs exactly the packages for the missing commands with a package manager
  of the host. A report that is returned says that no command is missing.
\<close>

theorem dependencies_safe:
  "case ensure_runtime_dependencies auto_install assume_yes answer extra_commands run h of (commands, h', r) \<Rightarrow>
     (if commands = [] then h' = h
      else auto_install \<and> (if assume_yes then True else casefold (strip answer) \<in> {''y'', ''yes''}) \<and>
        (\<exists>command. commands = [command] \<and> h' = fst (run command h) \<and>
          install_command_ok h (missing_commands extra_commands h) command)) \<and>
     (case r of Inr report \<Rightarrow> missing_commands extra_commands h' = [] \<and> report = detect_runtime_dependencies extra_commands h'
      | Inl e \<Rightarrow> missing_commands extra_commands h \<noteq> [])"
proof -
  let ?report = "detect_runtime_dependencies extra_commands h"
  have ready: "ready (detect_runtime_dependencies extra_commands x) \<longleftrightarrow> missing_commands extra_commands x = []" for x
    by (simp add: ready_def detected_missing)
  show ?thesis
  proof (cases "ready ?report \<or> \<not> auto_install \<or> command_for h assume_yes ?report = [] \<or>
      \<not> assume_yes \<and> casefold (strip answer) \<notin> {''y'', ''yes''}")
    case True
    then show ?thesis using ready [of h] by (auto simp: ensure_runtime_dependencies_def Let_def)
  next
    case False
    obtain h' e where run: "run (command_for h assume_yes ?report) h = (h', e)" by fastforce
    have "install_command_ok h (missing_commands extra_commands h) (command_for h assume_yes ?report)"
      using False command_for_ok by blast
    then show ?thesis using False run ready [of h] ready [of h']
      by (cases e) (auto simp: ensure_runtime_dependencies_def Let_def)
  qed
qed

end
