(* ===== verification/RawOutput.thy ===== *)
theory RawOutput
  imports Repository
begin

text \<open>
  \<open>storage/raw_output.py\<close> of the agent: one JSON evidence document per run, written atomically under a
  name made from the sample identifier.
\<close>

section \<open>Names\<close>

definition stem_char :: "char \<Rightarrow> bool" where
  "stem_char c \<longleftrightarrow> isalnum [c] \<or> c \<in> set ''-_''"

definition strip_dashes :: "string \<Rightarrow> string" where
  "strip_dashes s = rev (dropWhile (\<lambda>c. c = CHR ''-'') (rev (dropWhile (\<lambda>c. c = CHR ''-'') s)))"

definition safe_stem :: "string \<Rightarrow> string result" where
  "safe_stem v = (let cleaned = strip_dashes (map (\<lambda>c. if stem_char c then c else CHR ''-'') v) in
     if cleaned = [] then Inl (ValueError ''raw output stem must contain a safe character'') else Inr cleaned)"

text \<open>\<open>Path(directory) / name\<close> for a normalised path.\<close>

definition joined_path :: "string \<Rightarrow> string \<Rightarrow> string" where
  "joined_path dir n = (if dir = ''.'' then n else if dir = ''/'' then dir @ n else dir @ ''/'' @ n)"

section \<open>Writing and loading\<close>

text \<open>
  \<open>render\<close> is \<open>json.dump(..., indent=2)\<close> of a document with sorted keys, \<open>random\<close> what \<open>mkstemp\<close> adds to
  the name. Unlike the sample repository, a failed write removes the temporary file.
\<close>

definition raw_temp_name :: "string \<Rightarrow> string \<Rightarrow> string \<Rightarrow> string" where
  "raw_temp_name directory cleaned random = joined_path directory (''.'' @ cleaned @ ''-'' @ random @ ''.tmp'')"

definition write_raw_output ::
  "(pyval \<Rightarrow> string) \<Rightarrow> string \<Rightarrow> write_fault \<Rightarrow> (string \<times> pyval) list \<Rightarrow> string \<Rightarrow> string \<Rightarrow> files \<Rightarrow>
   files \<times> string result" where
  "write_raw_output render random fault payload directory stem_text fs = (case safe_stem stem_text of
     Inl e \<Rightarrow> (fs, Inl e)
   | Inr cleaned \<Rightarrow>
      let target = joined_path directory (cleaned @ ''.json''); temp = raw_temp_name directory cleaned random;
          content = render (sort_json (PDict payload)) @ newline
      in (case fault of
           NoFault \<Rightarrow> (fs_run (write_steps temp content @ [ReplaceFile temp target]) fs, Inr target)
         | CreateFails \<Rightarrow> (fs, Inl (OSError temp))
         | WriteFails n \<Rightarrow> (fs_run [WriteFile temp (take n content), UnlinkFile temp] fs, Inl (OSError temp))
         | ReplaceFails \<Rightarrow> (fs_run (write_steps temp content @ [UnlinkFile temp]) fs, Inl (OSError target))))"

definition load_raw_output :: "(string \<Rightarrow> pyval result) \<Rightarrow> string \<Rightarrow> files \<Rightarrow> (string \<times> pyval) list result" where
  "load_raw_output json_loads path fs = rbind (read_file path fs) (\<lambda>content. rbind (json_loads content) (\<lambda>data.
     case data of PDict d \<Rightarrow> Inr d | _ \<Rightarrow> Inl (ValueError ''raw output must contain a JSON object'')))"

section \<open>Facts\<close>

lemma set_strip_dashes: "set (strip_dashes s) \<subseteq> set s"
  by (auto simp: strip_dashes_def dest!: set_dropWhileD)

lemma safe_stem_chars: "safe_stem v = Inr cleaned \<Longrightarrow> cleaned \<noteq> [] \<and> list_all stem_char cleaned"
  using set_strip_dashes [of "map (\<lambda>c. if stem_char c then c else CHR ''-'') v"]
  by (auto simp: safe_stem_def Let_def list_all_iff stem_char_def split: if_splits)

lemma joined_path_inj: "joined_path dir a = joined_path dir b \<longleftrightarrow> a = b"
  by (simp add: joined_path_def)

lemma raw_temp_ne_target: "list_all stem_char cleaned \<Longrightarrow> raw_temp_name dir x random \<noteq> joined_path dir (cleaned @ ''.json'')"
  by (cases cleaned) (auto simp: raw_temp_name_def joined_path_inj stem_char_def isalnum_def is_upper_def is_lower_def is_digit_def code_def)

text \<open>
  A write changes the target alone, and only when it returns its path; a failed write leaves every file
  but its temporary one as it was, and no temporary file behind when there was none.
\<close>

lemma write_raw_output_cases:
  assumes "write_raw_output render random fault payload directory stem_text fs = (fs', r)"
  shows "case r of
      Inl e \<Rightarrow> map_of fs' = map_of fs \<or>
        (\<exists>cleaned. safe_stem stem_text = Inr cleaned \<and> map_of fs' = (map_of fs)(raw_temp_name directory cleaned random := None))
    | Inr target \<Rightarrow> map_of fs' target = Some (render (sort_json (PDict payload)) @ newline) \<and>
        (\<exists>cleaned. safe_stem stem_text = Inr cleaned \<and> target = joined_path directory (cleaned @ ''.json'') \<and>
          map_of fs' = (map_of fs)(raw_temp_name directory cleaned random := None,
            target \<mapsto> render (sort_json (PDict payload)) @ newline))"
proof (cases "safe_stem stem_text")
  case (Inl e)
  then have "fs' = fs \<and> r = Inl e" using assms by (simp add: write_raw_output_def)
  then show ?thesis by simp
next
  case (Inr cleaned)
  then have ne: "raw_temp_name directory x random \<noteq> joined_path directory (cleaned @ ''.json'')" for x
    using safe_stem_chars raw_temp_ne_target by metis
  show ?thesis using assms Inr ne [of cleaned]
    by (cases fault) (auto simp: write_raw_output_def Let_def map_of_write_steps fun_upd_twist)
qed

end
