(* ===== verification/Policy.thy ===== *)
theory Policy
  imports Validation
begin

text \<open>
  \<open>reliability/policy.py\<close>: how the outcomes of the measurements of one run become the quality of its
  sample. The profiles use it with a soft time budget each.
\<close>

section \<open>The policy\<close>

record ReliabilityPolicy =
  pol_max_measurement_seconds :: "pyfloat option"
  pol_require_success :: bool
  pol_warn_on_failed_measurement :: bool
  pol_warn_on_skipped_measurement :: bool

definition ReliabilityPolicy_init :: "pyfloat option \<Rightarrow> bool \<Rightarrow> bool \<Rightarrow> bool \<Rightarrow> ReliabilityPolicy result" where
  "ReliabilityPolicy_init max_seconds require_success warn_failed warn_skipped =
    (if (case max_seconds of None \<Rightarrow> False | Some m \<Rightarrow> fle m (Fin 0))
     then Inl (ValueError ''max_measurement_seconds must be greater than zero'')
     else Inr \<lparr>pol_max_measurement_seconds = max_seconds, pol_require_success = require_success,
       pol_warn_on_failed_measurement = warn_failed, pol_warn_on_skipped_measurement = warn_skipped\<rparr>)"

definition default_policy :: ReliabilityPolicy where
  "default_policy = \<lparr>pol_max_measurement_seconds = None, pol_require_success = True,
     pol_warn_on_failed_measurement = True, pol_warn_on_skipped_measurement = True\<rparr>"

text \<open>\<open>timedelta.total_seconds\<close> divides the microseconds by a million, correctly rounded.\<close>

definition duration_seconds :: "Measurement \<Rightarrow> pyfloat" where
  "duration_seconds m =
    (let seconds = fl (of_int (dt_instant (meas_finished_at m) - dt_instant (meas_started_at m)) / 1000000)
     in if flt (Fin 0) seconds then seconds else Fin 0)"

definition with_status :: "MeasurementStatus \<Rightarrow> Measurement list \<Rightarrow> Measurement list" where
  "with_status status = filter (\<lambda>m. meas_status m = status)"

definition collected_warnings :: "ReliabilityPolicy \<Rightarrow> string list \<Rightarrow> Measurement list \<Rightarrow> string list" where
  "collected_warnings policy warnings measurements = warnings
    @ (if pol_warn_on_failed_measurement policy
       then map (\<lambda>m. ''measurement_failed:'' @ meas_tool m) (with_status FAILED measurements) else [])
    @ (if pol_warn_on_skipped_measurement policy
       then map (\<lambda>m. ''measurement_skipped:'' @ meas_tool m) (with_status SKIPPED measurements) else [])
    @ (case pol_max_measurement_seconds policy of
         None \<Rightarrow> []
       | Some limit \<Rightarrow> map (\<lambda>m. ''measurement_duration_exceeded:'' @ meas_tool m)
           (filter (\<lambda>m. flt limit (duration_seconds m)) measurements))"

definition evaluate_sample_quality ::
  "Measurement list \<Rightarrow> string list \<Rightarrow> string \<Rightarrow> ReliabilityPolicy option \<Rightarrow> SampleQuality result" where
  "evaluate_sample_quality measurements warnings invalid_error policy =
    (let selected = (case policy of Some p \<Rightarrow> p | None \<Rightarrow> default_policy);
         unique_warnings = dedup (collected_warnings selected warnings measurements)
     in if pol_require_success selected \<and> with_status SUCCESS measurements = []
        then SampleQuality_init INVALID (map PStr unique_warnings) [PStr invalid_error]
        else if unique_warnings \<noteq> [] then SampleQuality_init VALID_WITH_WARNINGS (map PStr unique_warnings) []
        else SampleQuality_init VALID [] [])"

section \<open>Facts\<close>

lemma rmap_dyn_strip: "rmap dyn_strip (map PStr ws) = Inr (map strip ws)"
  by (induction ws) simp_all

lemma SampleQuality_init_strings:
  "SampleQuality_init status (map PStr ws) (map PStr es) =
    (if status = INVALID \<and> list_all (\<lambda>e. strip e = []) es
     then Inl (ValueError ''invalid samples must contain at least one error'')
     else Inr \<lparr>qual_status = status, qual_warnings = filter (\<lambda>w. w \<noteq> []) (map strip ws),
       qual_errors = filter (\<lambda>e. e \<noteq> []) (map strip es)\<rparr>)"
  by (auto simp: SampleQuality_init_def strip_items_def rmap_dyn_strip filter_empty_conv list_all_iff)

lemma with_status_empty: "with_status st ms = [] \<longleftrightarrow> st \<notin> set (map meas_status ms)"
  by (auto simp: with_status_def filter_empty_conv)

lemma SampleQuality_init_pstr:
  "SampleQuality_init status (map PStr ws) [PStr e] = (if status = INVALID \<and> strip e = []
     then Inl (ValueError ''invalid samples must contain at least one error'')
     else Inr \<lparr>qual_status = status, qual_warnings = filter (\<lambda>w. w \<noteq> []) (map strip ws),
       qual_errors = filter (\<lambda>e. e \<noteq> []) [strip e]\<rparr>)"
  "SampleQuality_init status (map PStr ws) [] = (if status = INVALID
     then Inl (ValueError ''invalid samples must contain at least one error'')
     else Inr \<lparr>qual_status = status, qual_warnings = filter (\<lambda>w. w \<noteq> []) (map strip ws), qual_errors = []\<rparr>)"
  "SampleQuality_init status [] [] = (if status = INVALID
     then Inl (ValueError ''invalid samples must contain at least one error'')
     else Inr \<lparr>qual_status = status, qual_warnings = [], qual_errors = []\<rparr>)"
  using SampleQuality_init_strings [of status ws "[e]"] SampleQuality_init_strings [of status ws "[]"]
    SampleQuality_init_strings [of status "[]" "[]"]
  by (auto split: if_splits)

text \<open>\<open>evaluate_sample_quality\<close> without the constructor.\<close>

lemma evaluate_sample_quality_eq:
  "evaluate_sample_quality ms warnings err policy =
    (let p = (case policy of Some p \<Rightarrow> p | None \<Rightarrow> default_policy);
         ws = dedup (collected_warnings p warnings ms); failed = (pol_require_success p \<and> SUCCESS \<notin> set (map meas_status ms))
     in if failed \<and> strip err = [] then Inl (ValueError ''invalid samples must contain at least one error'')
        else Inr \<lparr>qual_status = (if failed then INVALID else if ws \<noteq> [] then VALID_WITH_WARNINGS else VALID),
          qual_warnings = filter (\<lambda>w. w \<noteq> []) (map strip ws), qual_errors = (if failed then [strip err] else [])\<rparr>)"
  by (simp add: evaluate_sample_quality_def Let_def SampleQuality_init_pstr with_status_empty)

text \<open>The warnings one measurement gives rise to.\<close>

definition measurement_warnings :: "pyfloat \<Rightarrow> Measurement \<Rightarrow> string list" where
  "measurement_warnings limit m = (if meas_status m = FAILED then [''measurement_failed:'' @ meas_tool m] else [])
    @ (if meas_status m = SKIPPED then [''measurement_skipped:'' @ meas_tool m] else [])
    @ (if flt limit (duration_seconds m) then [''measurement_duration_exceeded:'' @ meas_tool m] else [])"

lemma measurement_warnings_Nil:
  "measurement_warnings limit m = [] \<longleftrightarrow> meas_status m = SUCCESS \<and> \<not> flt limit (duration_seconds m)"
  by (cases "meas_status m") (simp_all add: measurement_warnings_def)

definition budget :: "pyfloat \<Rightarrow> ReliabilityPolicy" where
  "budget limit = default_policy\<lparr>pol_max_measurement_seconds := Some limit\<rparr>"

lemma collected_set:
  "set (collected_warnings (budget limit) warnings ms) = set (warnings @ concat (map (measurement_warnings limit) ms))"
proof -
  have "set (map (\<lambda>m. f m) (filter P ms)) = (\<Union>m\<in>set ms. set (if P m then [f m] else []))" for f :: "Measurement \<Rightarrow> string" and P
    by auto
  then show ?thesis
    by (simp add: collected_warnings_def budget_def default_policy_def with_status_def measurement_warnings_def UN_Un_distrib Un_assoc)
qed

lemma collected_Nil:
  "collected_warnings (budget limit) warnings ms = [] \<longleftrightarrow>
   warnings = [] \<and> list_all (\<lambda>m. meas_status m = SUCCESS \<and> \<not> flt limit (duration_seconds m)) ms"
proof -
  have "collected_warnings (budget limit) warnings ms = [] \<longleftrightarrow> warnings @ concat (map (measurement_warnings limit) ms) = []"
    by (metis collected_set set_empty)
  then show ?thesis by (simp add: measurement_warnings_Nil list_all_iff)
qed

lemma quality_with_budget:
  "evaluate_sample_quality ms warnings err (Some (budget limit)) =
    (if SUCCESS \<notin> set (map meas_status ms) \<and> strip err = []
     then Inl (ValueError ''invalid samples must contain at least one error'')
     else Inr \<lparr>qual_status = (if SUCCESS \<notin> set (map meas_status ms) then INVALID
         else if collected_warnings (budget limit) warnings ms \<noteq> [] then VALID_WITH_WARNINGS else VALID),
       qual_warnings = filter (\<lambda>w. w \<noteq> []) (map strip (dedup (collected_warnings (budget limit) warnings ms))),
       qual_errors = (if SUCCESS \<notin> set (map meas_status ms) then [strip err] else [])\<rparr>)"
  by (simp add: evaluate_sample_quality_eq Let_def dedup_Nil_iff) (simp add: budget_def default_policy_def)

section \<open>Properties\<close>

text \<open>
  The quality of a sample says whether something was measured. With a time budget and the other
  rules of the default, it is invalid exactly when no measurement succeeded, for the given reason; it
  is valid without warnings exactly when every measurement succeeded in time and no warning was handed
  in; and its warnings are those handed in and those of each measurement, failed, skipped or over the
  budget. It raises exactly when the reason of an invalid sample is blank.
\<close>

theorem quality_reflects_measurements:
  "case evaluate_sample_quality ms warnings err (Some (budget limit)) of
     Inl e \<Rightarrow> strip err = [] \<and> SUCCESS \<notin> set (map meas_status ms) \<and> is_value_error e
   | Inr q \<Rightarrow>
      (qual_status q = INVALID \<longleftrightarrow> SUCCESS \<notin> set (map meas_status ms)) \<and>
      qual_errors q = (if SUCCESS \<in> set (map meas_status ms) then [] else [strip err]) \<and>
      (qual_status q = VALID \<longleftrightarrow> SUCCESS \<in> set (map meas_status ms) \<and> warnings = [] \<and>
        list_all (\<lambda>m. meas_status m = SUCCESS \<and> \<not> flt limit (duration_seconds m)) ms) \<and>
      set (qual_warnings q) = set (filter (\<lambda>w. w \<noteq> [])
        (map strip (warnings @ concat (map (measurement_warnings limit) ms))))"
proof -
  have "set (filter (\<lambda>w. w \<noteq> []) (map strip (dedup (collected_warnings (budget limit) warnings ms)))) =
      set (filter (\<lambda>w. w \<noteq> []) (map strip (warnings @ concat (map (measurement_warnings limit) ms))))"
    using collected_set [of limit warnings ms] by (simp only: set_filter set_map set_dedup)
  then show ?thesis unfolding quality_with_budget collected_Nil by (simp split: if_splits)
qed

end
