(* ===== verification/Config.thy ===== *)
theory Config
  imports Submission
begin

text \<open>
  The configurations of the six profiles, \<open>profiles/*/config.py\<close>. Each \<open>__post_init__\<close> is a
  constructor over dynamic values that checks the fields in its order and returns a record; each
  \<open>quick\<close> is a call of it; a fingerprint is the SHA-256 of the sorted compact JSON of the fields. The
  lemmas bound the work a configuration can ask for.
\<close>

section \<open>Checks of one field\<close>

fun int_field :: "string \<Rightarrow> int \<Rightarrow> int \<Rightarrow> pyval \<Rightarrow> int result" where
  "int_field name minimum maximum (PInt n) = (if minimum \<le> n \<and> n \<le> maximum then Inr n
     else Inl (ValueError (name @ '' must be between '' @ int_str minimum @ '' and '' @ int_str maximum)))"
| "int_field name minimum maximum _ = Inl (TypeError (name @ '' must be an integer''))"

fun bool_field :: "string \<Rightarrow> pyval \<Rightarrow> bool result" where
  "bool_field name (PBool b) = Inr b"
| "bool_field name _ = Inl (TypeError (name @ '' must be a boolean''))"

definition float_range :: "string \<Rightarrow> rat \<Rightarrow> rat \<Rightarrow> pyfloat \<Rightarrow> pyfloat result" where
  "float_range message minimum maximum f = (if fle (fl minimum) f \<and> fle f (fl maximum) then Inr f else Inl (ValueError message))"

fun float_field :: "string \<Rightarrow> string \<Rightarrow> rat \<Rightarrow> rat \<Rightarrow> pyval \<Rightarrow> pyfloat result" where
  "float_field name message minimum maximum (PInt n) = rbind (float_of_int n) (float_range message minimum maximum)"
| "float_field name message minimum maximum (PFloat f) = float_range message minimum maximum f"
| "float_field name message minimum maximum _ = Inl (TypeError (name @ '' must be numeric''))"

definition version_field :: "string \<Rightarrow> string result" where
  "version_field version = (if strip version = [] then Inl (ValueError ''version must not be empty'') else Inr (strip version))"

definition at_most :: "int \<Rightarrow> int \<Rightarrow> string \<Rightarrow> unit result" where
  "at_most n limit message = (if limit < n then Inl (ValueError message) else Inr ())"

definition KIB :: int where "KIB = 1024"
definition MIB :: int where "MIB = 1024 * 1024"
definition GIB :: int where "GIB = 1024 * MIB"

lemma int_field_Inr: "int_field name a b v = Inr n \<longleftrightarrow> v = PInt n \<and> a \<le> n \<and> n \<le> b"
  by (cases v) auto

lemma bool_field_Inr: "bool_field name v = Inr b \<longleftrightarrow> v = PBool b"
  by (cases v) auto

lemma at_most_Inr: "at_most n limit m = Inr u \<longleftrightarrow> n \<le> limit"
  by (auto simp: at_most_def)

lemma version_field_Inr: "version_field s = Inr v \<longleftrightarrow> v = strip s \<and> v \<noteq> []"
  by (auto simp: version_field_def)

lemma float_range_Inr: "float_range m a b f = Inr g \<longleftrightarrow> g = f \<and> fle (fl a) f \<and> fle f (fl b)"
  by (auto simp: float_range_def)

lemma float_field_Inr: "float_field name m a b v = Inr g \<Longrightarrow> fle (fl a) g \<and> fle g (fl b)"
  by (cases v) (auto simp: float_range_Inr rbind_Inr_iff)

lemmas field_Inr = int_field_Inr bool_field_Inr at_most_Inr version_field_Inr

text \<open>The errors of a configuration: \<open>ValueError\<close>, \<open>TypeError\<close>, and \<open>OverflowError\<close> from \<open>float\<close>.\<close>

definition config_error :: "py_error \<Rightarrow> bool" where
  "config_error e \<longleftrightarrow> is_value_error e \<or> is_type_error e \<or> e = OverflowError"

section \<open>General profile\<close>

record GeneralProfileConfig =
  gp_version :: string
  gp_cpu_block_bytes :: int
  gp_cpu_iterations :: int
  gp_memory_block_bytes :: int
  gp_memory_iterations :: int
  gp_storage_block_bytes :: int
  gp_storage_iterations :: int
  gp_include_storage :: bool
  gp_fsync_storage :: bool

definition GeneralProfileConfig_init ::
  "string \<Rightarrow> pyval \<Rightarrow> pyval \<Rightarrow> pyval \<Rightarrow> pyval \<Rightarrow> pyval \<Rightarrow> pyval \<Rightarrow> pyval \<Rightarrow> pyval \<Rightarrow> GeneralProfileConfig result" where
  "GeneralProfileConfig_init version cpu_block_bytes cpu_iterations memory_block_bytes memory_iterations
      storage_block_bytes storage_iterations include_storage fsync_storage =
    rbind (version_field version) (\<lambda>ver.
    rbind (bool_field ''include_storage'' include_storage) (\<lambda>include.
    rbind (bool_field ''fsync_storage'' fsync_storage) (\<lambda>fsync.
    rbind (int_field ''cpu_block_bytes'' 1 (1 * MIB) cpu_block_bytes) (\<lambda>cb.
    rbind (int_field ''cpu_iterations'' 1 20000 cpu_iterations) (\<lambda>ci.
    rbind (int_field ''memory_block_bytes'' 1 (64 * MIB) memory_block_bytes) (\<lambda>mb.
    rbind (int_field ''memory_iterations'' 1 1024 memory_iterations) (\<lambda>mi.
    rbind (int_field ''storage_block_bytes'' 1 (64 * MIB) storage_block_bytes) (\<lambda>sb.
    rbind (int_field ''storage_iterations'' 1 256 storage_iterations) (\<lambda>si.
    rbind (at_most (cb * ci) (1024 * MIB) ''CPU workload must not exceed 1 GiB'') (\<lambda>_.
    rbind (at_most (mb * mi) (4096 * MIB) ''memory workload must not exceed 4 GiB'') (\<lambda>_.
    rbind (at_most (sb * si) (512 * MIB) ''storage workload must not exceed 512 MiB'') (\<lambda>_.
    Inr \<lparr>gp_version = ver, gp_cpu_block_bytes = cb, gp_cpu_iterations = ci, gp_memory_block_bytes = mb,
         gp_memory_iterations = mi, gp_storage_block_bytes = sb, gp_storage_iterations = si,
         gp_include_storage = include, gp_fsync_storage = fsync\<rparr>))))))))))))"

definition GeneralProfileConfig_default :: "pyval \<Rightarrow> GeneralProfileConfig result" where
  "GeneralProfileConfig_default include_storage = GeneralProfileConfig_init ''1.0.0'' (PInt (64 * 1024)) (PInt 1024)
     (PInt (8 * MIB)) (PInt 16) (PInt (4 * MIB)) (PInt 4) include_storage (PBool True)"

definition GeneralProfileConfig_quick :: "pyval \<Rightarrow> GeneralProfileConfig result" where
  "GeneralProfileConfig_quick include_storage = GeneralProfileConfig_init ''1.0.0'' (PInt (16 * 1024)) (PInt 128)
     (PInt (1 * MIB)) (PInt 4) (PInt (512 * 1024)) (PInt 2) include_storage (PBool True)"

text \<open>\<open>sorted_dumps\<close> is \<open>json.dumps(..., sort_keys=True, separators=(",", ":"))\<close>.\<close>

definition fingerprint_of :: "(string \<Rightarrow> string) \<Rightarrow> (pyval \<Rightarrow> string) \<Rightarrow> (string \<times> pyval) list \<Rightarrow> string" where
  "fingerprint_of sha256 sorted_dumps payload = sha256 (sorted_dumps (PDict payload))"

definition general_fields :: "GeneralProfileConfig \<Rightarrow> (string \<times> pyval) list" where
  "general_fields c = [(''version'', PStr (gp_version c)), (''cpu_block_bytes'', PInt (gp_cpu_block_bytes c)),
     (''cpu_iterations'', PInt (gp_cpu_iterations c)), (''memory_block_bytes'', PInt (gp_memory_block_bytes c)),
     (''memory_iterations'', PInt (gp_memory_iterations c)), (''storage_block_bytes'', PInt (gp_storage_block_bytes c)),
     (''storage_iterations'', PInt (gp_storage_iterations c)), (''include_storage'', PBool (gp_include_storage c)),
     (''fsync_storage'', PBool (gp_fsync_storage c))]"

section \<open>Storage profile\<close>

record StorageProfileConfig =
  sp_version :: string
  sp_file_size_bytes :: int
  sp_sequential_block_bytes :: int
  sp_random_block_bytes :: int
  sp_random_operations :: int
  sp_fsync_operations :: int
  sp_repetitions :: int
  sp_warmup_operations :: int
  sp_fsync_writes :: bool
  sp_random_seed :: int

definition estimated_storage_bytes :: "int \<Rightarrow> int \<Rightarrow> int \<Rightarrow> int \<Rightarrow> int \<Rightarrow> int" where
  "estimated_storage_bytes file_size random_block random_ops fsync_ops repetitions =
    file_size * (repetitions + 1) + random_block * (random_ops + fsync_ops) * repetitions"

definition StorageProfileConfig_init ::
  "string \<Rightarrow> pyval \<Rightarrow> pyval \<Rightarrow> pyval \<Rightarrow> pyval \<Rightarrow> pyval \<Rightarrow> pyval \<Rightarrow> pyval \<Rightarrow> pyval \<Rightarrow> pyval \<Rightarrow> StorageProfileConfig result" where
  "StorageProfileConfig_init version file_size_bytes sequential_block_bytes random_block_bytes random_operations
      fsync_operations repetitions warmup_operations fsync_writes random_seed =
    rbind (version_field version) (\<lambda>ver.
    rbind (bool_field ''fsync_writes'' fsync_writes) (\<lambda>fsync.
    rbind (int_field ''file_size_bytes'' (1 * MIB) (1 * GIB) file_size_bytes) (\<lambda>fsize.
    rbind (int_field ''sequential_block_bytes'' (4 * KIB) (64 * MIB) sequential_block_bytes) (\<lambda>sblock.
    rbind (int_field ''random_block_bytes'' 512 (1 * MIB) random_block_bytes) (\<lambda>rblock.
    rbind (int_field ''random_operations'' 1 100000 random_operations) (\<lambda>rops.
    rbind (int_field ''fsync_operations'' 1 1000 fsync_operations) (\<lambda>fops.
    rbind (int_field ''repetitions'' 1 10 repetitions) (\<lambda>reps.
    rbind (int_field ''warmup_operations'' 0 10000 warmup_operations) (\<lambda>warm.
    rbind (int_field ''random_seed'' 0 (2 ^ 63 - 1) random_seed) (\<lambda>seed.
    rbind (at_most sblock fsize ''sequential_block_bytes must not exceed file_size_bytes'') (\<lambda>_.
    rbind (at_most rblock fsize ''random_block_bytes must not exceed file_size_bytes'') (\<lambda>_.
    rbind (at_most (estimated_storage_bytes fsize rblock rops fops reps) (8 * GIB)
      ''estimated storage workload must not exceed 8 GiB'') (\<lambda>_.
    Inr \<lparr>sp_version = ver, sp_file_size_bytes = fsize, sp_sequential_block_bytes = sblock, sp_random_block_bytes = rblock,
         sp_random_operations = rops, sp_fsync_operations = fops, sp_repetitions = reps, sp_warmup_operations = warm,
         sp_fsync_writes = fsync, sp_random_seed = seed\<rparr>)))))))))))))"

definition StorageProfileConfig_default :: "StorageProfileConfig result" where
  "StorageProfileConfig_default = StorageProfileConfig_init ''1.0.0'' (PInt (64 * MIB)) (PInt (1 * MIB)) (PInt (4 * KIB))
     (PInt 2048) (PInt 16) (PInt 3) (PInt 16) (PBool True) (PInt 20260806)"

definition StorageProfileConfig_quick :: "StorageProfileConfig result" where
  "StorageProfileConfig_quick = StorageProfileConfig_init ''1.0.0'' (PInt (8 * MIB)) (PInt (1 * MIB)) (PInt (4 * KIB))
     (PInt 128) (PInt 3) (PInt 1) (PInt 4) (PBool True) (PInt 20260806)"

definition storage_fields :: "StorageProfileConfig \<Rightarrow> (string \<times> pyval) list" where
  "storage_fields c = [(''version'', PStr (sp_version c)), (''file_size_bytes'', PInt (sp_file_size_bytes c)),
     (''sequential_block_bytes'', PInt (sp_sequential_block_bytes c)), (''random_block_bytes'', PInt (sp_random_block_bytes c)),
     (''random_operations'', PInt (sp_random_operations c)), (''fsync_operations'', PInt (sp_fsync_operations c)),
     (''repetitions'', PInt (sp_repetitions c)), (''warmup_operations'', PInt (sp_warmup_operations c)),
     (''fsync_writes'', PBool (sp_fsync_writes c)), (''random_seed'', PInt (sp_random_seed c))]"

section \<open>Compute profile\<close>

record ComputeProfileConfig =
  cp_version :: string
  cp_repetitions :: int
  cp_warmup_iterations :: int
  cp_integer_iterations :: int
  cp_floating_point_iterations :: int
  cp_sha256_block_bytes :: int
  cp_sha256_iterations :: int
  cp_compression_block_bytes :: int
  cp_compression_iterations :: int
  cp_compression_level :: int
  cp_workers :: int
  cp_max_auto_workers :: int
  cp_worker_timeout_seconds :: pyfloat

definition ComputeProfileConfig_init ::
  "string \<Rightarrow> pyval \<Rightarrow> pyval \<Rightarrow> pyval \<Rightarrow> pyval \<Rightarrow> pyval \<Rightarrow> pyval \<Rightarrow> pyval \<Rightarrow> pyval \<Rightarrow> pyval \<Rightarrow> pyval \<Rightarrow> pyval \<Rightarrow> pyval \<Rightarrow>
   ComputeProfileConfig result" where
  "ComputeProfileConfig_init version repetitions warmup_iterations integer_iterations floating_point_iterations
      sha256_block_bytes sha256_iterations compression_block_bytes compression_iterations compression_level workers
      max_auto_workers worker_timeout_seconds =
    rbind (version_field version) (\<lambda>ver.
    rbind (int_field ''repetitions'' 1 9 repetitions) (\<lambda>reps.
    rbind (int_field ''warmup_iterations'' 1 1000000 warmup_iterations) (\<lambda>warm.
    rbind (int_field ''integer_iterations'' 1 10000000 integer_iterations) (\<lambda>ii.
    rbind (int_field ''floating_point_iterations'' 1 10000000 floating_point_iterations) (\<lambda>fi.
    rbind (int_field ''sha256_block_bytes'' 1 (16 * MIB) sha256_block_bytes) (\<lambda>sb.
    rbind (int_field ''sha256_iterations'' 1 4096 sha256_iterations) (\<lambda>si.
    rbind (int_field ''compression_block_bytes'' 1 (16 * MIB) compression_block_bytes) (\<lambda>cb.
    rbind (int_field ''compression_iterations'' 1 1024 compression_iterations) (\<lambda>ci.
    rbind (int_field ''compression_level'' 0 9 compression_level) (\<lambda>level.
    rbind (int_field ''workers'' 0 64 workers) (\<lambda>ws.
    rbind (int_field ''max_auto_workers'' 1 64 max_auto_workers) (\<lambda>maw.
    rbind (float_field ''worker_timeout_seconds'' ''worker_timeout_seconds must be between 1 and 600'' 1 600
      worker_timeout_seconds) (\<lambda>timeout.
    rbind (at_most (sb * si) (4 * 1024 * MIB) ''SHA-256 workload must not exceed 4 GiB per repetition'') (\<lambda>_.
    rbind (at_most (cb * ci) (2 * 1024 * MIB) ''compression workload must not exceed 2 GiB per repetition'') (\<lambda>_.
    Inr \<lparr>cp_version = ver, cp_repetitions = reps, cp_warmup_iterations = warm, cp_integer_iterations = ii,
         cp_floating_point_iterations = fi, cp_sha256_block_bytes = sb, cp_sha256_iterations = si,
         cp_compression_block_bytes = cb, cp_compression_iterations = ci, cp_compression_level = level,
         cp_workers = ws, cp_max_auto_workers = maw, cp_worker_timeout_seconds = timeout\<rparr>)))))))))))))))"

definition ComputeProfileConfig_default :: "pyval \<Rightarrow> ComputeProfileConfig result" where
  "ComputeProfileConfig_default workers = ComputeProfileConfig_init ''1.0.0'' (PInt 3) (PInt 5000) (PInt 350000)
     (PInt 300000) (PInt (1 * MIB)) (PInt 64) (PInt (1 * MIB)) (PInt 16) (PInt 6) workers (PInt 4) (PFloat (Fin 60))"

definition ComputeProfileConfig_quick :: "pyval \<Rightarrow> ComputeProfileConfig result" where
  "ComputeProfileConfig_quick workers = ComputeProfileConfig_init ''1.0.0'' (PInt 2) (PInt 500) (PInt 25000)
     (PInt 20000) (PInt (256 * 1024)) (PInt 4) (PInt (256 * 1024)) (PInt 2) (PInt 6) workers (PInt 2) (PFloat (Fin 30))"

definition compute_fields :: "ComputeProfileConfig \<Rightarrow> (string \<times> pyval) list" where
  "compute_fields c = [(''version'', PStr (cp_version c)), (''repetitions'', PInt (cp_repetitions c)),
     (''warmup_iterations'', PInt (cp_warmup_iterations c)), (''integer_iterations'', PInt (cp_integer_iterations c)),
     (''floating_point_iterations'', PInt (cp_floating_point_iterations c)),
     (''sha256_block_bytes'', PInt (cp_sha256_block_bytes c)), (''sha256_iterations'', PInt (cp_sha256_iterations c)),
     (''compression_block_bytes'', PInt (cp_compression_block_bytes c)),
     (''compression_iterations'', PInt (cp_compression_iterations c)), (''compression_level'', PInt (cp_compression_level c)),
     (''workers'', PInt (cp_workers c)), (''max_auto_workers'', PInt (cp_max_auto_workers c)),
     (''worker_timeout_seconds'', PFloat (cp_worker_timeout_seconds c))]"

section \<open>Database profile\<close>

record DatabaseProfileConfig =
  dp_version :: string
  dp_engine :: string
  dp_record_count :: int
  dp_payload_bytes :: int
  dp_connection_operations :: int
  dp_point_read_operations :: int
  dp_insert_operations :: int
  dp_update_operations :: int
  dp_mixed_operations :: int
  dp_mixed_read_percent :: int
  dp_concurrency :: int
  dp_warmup_operations :: int
  dp_repetitions :: int
  dp_busy_timeout_seconds :: pyfloat
  dp_random_seed :: int
  dp_journal_mode :: string
  dp_synchronous :: string

definition keyword_field :: "string \<Rightarrow> string \<Rightarrow> string \<Rightarrow> string result" where
  "keyword_field v expected message = (let s = casefold (strip v) in
     if s \<noteq> expected then Inl (ValueError message) else Inr s)"

definition operations_per_repetition :: "int \<Rightarrow> int \<Rightarrow> int \<Rightarrow> int \<Rightarrow> int \<Rightarrow> int" where
  "operations_per_repetition connection_ops point_reads inserts updates mixed =
    connection_ops + point_reads + inserts + updates + mixed"

definition DatabaseProfileConfig_init ::
  "string \<Rightarrow> string \<Rightarrow> pyval \<Rightarrow> pyval \<Rightarrow> pyval \<Rightarrow> pyval \<Rightarrow> pyval \<Rightarrow> pyval \<Rightarrow> pyval \<Rightarrow> pyval \<Rightarrow> pyval \<Rightarrow> pyval \<Rightarrow> pyval \<Rightarrow>
   pyval \<Rightarrow> pyval \<Rightarrow> string \<Rightarrow> string \<Rightarrow> DatabaseProfileConfig result" where
  "DatabaseProfileConfig_init version engine record_count payload_bytes connection_operations point_read_operations
      insert_operations update_operations mixed_operations mixed_read_percent concurrency warmup_operations repetitions
      busy_timeout_seconds random_seed journal_mode synchronous =
    rbind (version_field version) (\<lambda>ver.
    rbind (keyword_field engine ''sqlite'' ''Database Profile v1 supports only the sqlite engine'') (\<lambda>eng.
    rbind (keyword_field journal_mode ''wal'' ''journal_mode must be wal for protocol version 1.0.0'') (\<lambda>jm.
    rbind (keyword_field synchronous ''full'' ''synchronous must be full for protocol version 1.0.0'') (\<lambda>sy.
    rbind (int_field ''record_count'' 100 100000 record_count) (\<lambda>rc.
    rbind (int_field ''payload_bytes'' 32 4096 payload_bytes) (\<lambda>pb.
    rbind (int_field ''connection_operations'' 1 100 connection_operations) (\<lambda>co.
    rbind (int_field ''point_read_operations'' 1 100000 point_read_operations) (\<lambda>pr.
    rbind (int_field ''insert_operations'' 1 10000 insert_operations) (\<lambda>io.
    rbind (int_field ''update_operations'' 1 10000 update_operations) (\<lambda>uo.
    rbind (int_field ''mixed_operations'' 10 100000 mixed_operations) (\<lambda>mo.
    rbind (int_field ''mixed_read_percent'' 50 95 mixed_read_percent) (\<lambda>mrp.
    rbind (int_field ''concurrency'' 1 32 concurrency) (\<lambda>cc.
    rbind (int_field ''warmup_operations'' 0 10000 warmup_operations) (\<lambda>warm.
    rbind (int_field ''repetitions'' 1 10 repetitions) (\<lambda>reps.
    rbind (int_field ''random_seed'' 0 2147483647 random_seed) (\<lambda>seed.
    rbind (at_most cc mo ''concurrency must not exceed mixed_operations'') (\<lambda>_.
    rbind (at_most (rc * pb) (128 * MIB) ''seed payload must not exceed 128 MiB'') (\<lambda>_.
    rbind (at_most (operations_per_repetition co pr io uo mo * reps) 500000
      ''total bounded database operations must not exceed 500000'') (\<lambda>_.
    rbind (float_field ''busy_timeout_seconds'' ''busy_timeout_seconds must be between 0.1 and 30'' (Fract 1 10) 30
      busy_timeout_seconds) (\<lambda>timeout.
    Inr \<lparr>dp_version = ver, dp_engine = eng, dp_record_count = rc, dp_payload_bytes = pb, dp_connection_operations = co,
         dp_point_read_operations = pr, dp_insert_operations = io, dp_update_operations = uo, dp_mixed_operations = mo,
         dp_mixed_read_percent = mrp, dp_concurrency = cc, dp_warmup_operations = warm, dp_repetitions = reps,
         dp_busy_timeout_seconds = timeout, dp_random_seed = seed, dp_journal_mode = jm, dp_synchronous = sy\<rparr>))))))))))))))))))))"

definition DatabaseProfileConfig_default :: "pyval \<Rightarrow> DatabaseProfileConfig result" where
  "DatabaseProfileConfig_default concurrency = DatabaseProfileConfig_init ''1.0.0'' ''sqlite'' (PInt 2000) (PInt 256)
     (PInt 15) (PInt 500) (PInt 100) (PInt 100) (PInt 1000) (PInt 80) concurrency (PInt 100) (PInt 3)
     (PFloat (Fin 5)) (PInt 20260806) ''wal'' ''full''"

definition DatabaseProfileConfig_quick :: "pyval \<Rightarrow> DatabaseProfileConfig result" where
  "DatabaseProfileConfig_quick concurrency = DatabaseProfileConfig_init ''1.0.0'' ''sqlite'' (PInt 200) (PInt 128)
     (PInt 5) (PInt 50) (PInt 10) (PInt 10) (PInt 100) (PInt 80) concurrency (PInt 10) (PInt 1)
     (PFloat (Fin 2)) (PInt 20260806) ''wal'' ''full''"

definition database_fields :: "DatabaseProfileConfig \<Rightarrow> (string \<times> pyval) list" where
  "database_fields c = [(''version'', PStr (dp_version c)), (''engine'', PStr (dp_engine c)),
     (''record_count'', PInt (dp_record_count c)), (''payload_bytes'', PInt (dp_payload_bytes c)),
     (''connection_operations'', PInt (dp_connection_operations c)),
     (''point_read_operations'', PInt (dp_point_read_operations c)), (''insert_operations'', PInt (dp_insert_operations c)),
     (''update_operations'', PInt (dp_update_operations c)), (''mixed_operations'', PInt (dp_mixed_operations c)),
     (''mixed_read_percent'', PInt (dp_mixed_read_percent c)), (''concurrency'', PInt (dp_concurrency c)),
     (''warmup_operations'', PInt (dp_warmup_operations c)), (''repetitions'', PInt (dp_repetitions c)),
     (''busy_timeout_seconds'', PFloat (dp_busy_timeout_seconds c)), (''random_seed'', PInt (dp_random_seed c)),
     (''journal_mode'', PStr (dp_journal_mode c)), (''synchronous'', PStr (dp_synchronous c))]"

section \<open>Endpoints\<close>

datatype NetworkScope = PublicScope | PrivateScope

primrec NetworkScope_value :: "NetworkScope \<Rightarrow> string" where
  "NetworkScope_value PublicScope = ''public''"
| "NetworkScope_value PrivateScope = ''private''"

definition NetworkScope_of :: "string \<Rightarrow> NetworkScope result" where
  "NetworkScope_of v = (if v = ''public'' then Inr PublicScope else if v = ''private'' then Inr PrivateScope
     else Inl (ValueError (v @ '' is not a valid NetworkScope'')))"

text \<open>
  \<open>_validated_url\<close>. \<open>username\<close> is not \<open>None\<close> exactly when the authority has an at sign; \<open>urlsplit\<close> may
  itself raise \<open>ValueError\<close>.
\<close>

definition validated_url :: "(string \<Rightarrow> bool) \<Rightarrow> string \<Rightarrow> string \<Rightarrow> string result" where
  "validated_url bracket_host field value =
    (let cleaned = strip value in
     if cleaned = [] then Inl (ValueError (field @ '' must not be empty''))
     else if 2048 < length cleaned then Inl (ValueError (field @ '' must not exceed 2048 characters''))
     else if list_ex (\<lambda>c. c \<in> set cleaned) [CHR 0x0D, CHR 0x0A, CHR 0x00]
     then Inl (ValueError (field @ '' must not contain control characters''))
     else rbind (split_endpoint bracket_host cleaned) (\<lambda>parsed.
       if ep_scheme parsed \<noteq> ''http'' \<and> ep_scheme parsed \<noteq> ''https''
       then Inl (ValueError (field @ '' must use http or https''))
       else if lower_host (fst (hostinfo (ep_netloc parsed))) = []
       then Inl (ValueError (field @ '' must include a hostname''))
       else if CHR ''@'' \<in> set (ep_netloc parsed)
       then Inl (ValueError (field @ '' must not include credentials''))
       else (case port_number (snd (hostinfo (ep_netloc parsed))) of
           Inl e \<Rightarrow> Inl (ValueError (field @ '' contains an invalid port''))
         | Inr port \<Rightarrow> if (case port of None \<Rightarrow> False | Some n \<Rightarrow> n < 1 \<or> 65535 < n)
             then Inl (ValueError (field @ '' port must be between 1 and 65535''))
             else Inr cleaned)))"

definition user_agent_field :: "string \<Rightarrow> string result" where
  "user_agent_field v = (let agent = strip v in
     if agent = [] \<or> 160 < length agent then Inl (ValueError ''user_agent must contain between 1 and 160 characters'')
     else if CHR 0x0D \<in> set agent \<or> CHR 0x0A \<in> set agent
     then Inl (ValueError ''user_agent must not contain line breaks'') else Inr agent)"

definition timeout_field :: "pyval \<Rightarrow> pyfloat result" where
  "timeout_field = float_field ''timeout_seconds'' ''timeout_seconds must be between 0.25 and 120'' (Fract 1 4) 120"

section \<open>Web profile\<close>

record WebProfileConfig =
  wp_version :: string
  wp_target_url :: string
  wp_scope :: NetworkScope
  wp_request_count :: int
  wp_concurrency :: int
  wp_warmup_requests :: int
  wp_timeout_seconds :: pyfloat
  wp_max_response_bytes :: int
  wp_verify_tls :: bool
  wp_user_agent :: string

definition WebProfileConfig_init ::
  "(string \<Rightarrow> bool) \<Rightarrow> string \<Rightarrow> string \<Rightarrow> NetworkScope \<Rightarrow> pyval \<Rightarrow> pyval \<Rightarrow> pyval \<Rightarrow> pyval \<Rightarrow> pyval \<Rightarrow> pyval \<Rightarrow> string \<Rightarrow>
   WebProfileConfig result" where
  "WebProfileConfig_init bracket_host version target_url scope request_count concurrency warmup_requests timeout_seconds
      max_response_bytes verify_tls user_agent =
    rbind (version_field version) (\<lambda>ver.
    rbind (validated_url bracket_host ''target_url'' target_url) (\<lambda>url.
    rbind (int_field ''request_count'' 1 1000 request_count) (\<lambda>rc.
    rbind (int_field ''concurrency'' 1 64 concurrency) (\<lambda>cc.
    rbind (int_field ''warmup_requests'' 0 100 warmup_requests) (\<lambda>warm.
    rbind (int_field ''max_response_bytes'' (1 * KIB) (16 * MIB) max_response_bytes) (\<lambda>mb.
    rbind (at_most cc rc ''concurrency must not exceed request_count'') (\<lambda>_.
    rbind (at_most (rc * mb) (512 * MIB) ''bounded response workload must not exceed 512 MiB'') (\<lambda>_.
    rbind (timeout_field timeout_seconds) (\<lambda>timeout.
    rbind (bool_field ''verify_tls'' verify_tls) (\<lambda>tls.
    rbind (user_agent_field user_agent) (\<lambda>agent.
    Inr \<lparr>wp_version = ver, wp_target_url = url, wp_scope = scope, wp_request_count = rc, wp_concurrency = cc,
         wp_warmup_requests = warm, wp_timeout_seconds = timeout, wp_max_response_bytes = mb, wp_verify_tls = tls,
         wp_user_agent = agent\<rparr>)))))))))))"

definition WebProfileConfig_default ::
  "(string \<Rightarrow> bool) \<Rightarrow> string \<Rightarrow> NetworkScope \<Rightarrow> pyval \<Rightarrow> WebProfileConfig result" where
  "WebProfileConfig_default bracket_host target_url scope verify_tls = WebProfileConfig_init bracket_host ''1.0.0''
     target_url scope (PInt 40) (PInt 4) (PInt 4) (PFloat (Fin 10)) (PInt (2 * MIB)) verify_tls ''CloudEyes/0.1 web-v1''"

definition WebProfileConfig_quick ::
  "(string \<Rightarrow> bool) \<Rightarrow> string \<Rightarrow> NetworkScope \<Rightarrow> pyval \<Rightarrow> WebProfileConfig result" where
  "WebProfileConfig_quick bracket_host target_url scope verify_tls = WebProfileConfig_init bracket_host ''1.0.0''
     target_url scope (PInt 6) (PInt 2) (PInt 1) (PFloat (Fin 5)) (PInt (256 * KIB)) verify_tls ''CloudEyes/0.1 web-v1''"

definition web_fields :: "WebProfileConfig \<Rightarrow> (string \<times> pyval) list" where
  "web_fields c = [(''version'', PStr (wp_version c)), (''target_url'', PStr (wp_target_url c)),
     (''scope'', PStr (NetworkScope_value (wp_scope c))), (''request_count'', PInt (wp_request_count c)),
     (''concurrency'', PInt (wp_concurrency c)), (''warmup_requests'', PInt (wp_warmup_requests c)),
     (''timeout_seconds'', PFloat (wp_timeout_seconds c)), (''max_response_bytes'', PInt (wp_max_response_bytes c)),
     (''verify_tls'', PBool (wp_verify_tls c)), (''user_agent'', PStr (wp_user_agent c))]"

section \<open>Networking profile\<close>

record NetworkingProfileConfig =
  np_version :: string
  np_target_url :: string
  np_upload_url :: "string option"
  np_scope :: NetworkScope
  np_repetitions :: int
  np_timeout_seconds :: pyfloat
  np_download_limit_bytes :: int
  np_upload_bytes :: int
  np_ping_count :: int
  np_verify_tls :: bool
  np_user_agent :: string

definition NetworkingProfileConfig_init ::
  "(string \<Rightarrow> bool) \<Rightarrow> string \<Rightarrow> string \<Rightarrow> string option \<Rightarrow> NetworkScope \<Rightarrow> pyval \<Rightarrow> pyval \<Rightarrow> pyval \<Rightarrow> pyval \<Rightarrow> pyval \<Rightarrow>
   pyval \<Rightarrow> string \<Rightarrow> NetworkingProfileConfig result" where
  "NetworkingProfileConfig_init bracket_host version target_url upload_url scope repetitions timeout_seconds
      download_limit_bytes upload_bytes ping_count verify_tls user_agent =
    rbind (version_field version) (\<lambda>ver.
    rbind (validated_url bracket_host ''target_url'' target_url) (\<lambda>url.
    rbind (case upload_url of None \<Rightarrow> Inr None
      | Some u \<Rightarrow> rbind (validated_url bracket_host ''upload_url'' u) (\<lambda>x. Inr (Some x))) (\<lambda>upload.
    rbind (int_field ''repetitions'' 1 20 repetitions) (\<lambda>reps.
    rbind (int_field ''download_limit_bytes'' (1 * KIB) (64 * MIB) download_limit_bytes) (\<lambda>dl.
    rbind (int_field ''upload_bytes'' (1 * KIB) (16 * MIB) upload_bytes) (\<lambda>ul.
    rbind (int_field ''ping_count'' 0 20 ping_count) (\<lambda>pings.
    rbind (timeout_field timeout_seconds) (\<lambda>timeout.
    rbind (bool_field ''verify_tls'' verify_tls) (\<lambda>tls.
    rbind (user_agent_field user_agent) (\<lambda>agent.
    Inr \<lparr>np_version = ver, np_target_url = url, np_upload_url = upload, np_scope = scope, np_repetitions = reps,
         np_timeout_seconds = timeout, np_download_limit_bytes = dl, np_upload_bytes = ul, np_ping_count = pings,
         np_verify_tls = tls, np_user_agent = agent\<rparr>))))))))))"

definition NetworkingProfileConfig_default ::
  "(string \<Rightarrow> bool) \<Rightarrow> string \<Rightarrow> string option \<Rightarrow> NetworkScope \<Rightarrow> pyval \<Rightarrow> NetworkingProfileConfig result" where
  "NetworkingProfileConfig_default bracket_host target_url upload_url scope verify_tls =
     NetworkingProfileConfig_init bracket_host ''1.0.0'' target_url upload_url scope (PInt 5) (PFloat (Fin 10))
       (PInt (4 * MIB)) (PInt (1 * MIB)) (PInt 5) verify_tls ''CloudEyes/0.1 networking-v1''"

definition NetworkingProfileConfig_quick ::
  "(string \<Rightarrow> bool) \<Rightarrow> string \<Rightarrow> string option \<Rightarrow> NetworkScope \<Rightarrow> pyval \<Rightarrow> NetworkingProfileConfig result" where
  "NetworkingProfileConfig_quick bracket_host target_url upload_url scope verify_tls =
     NetworkingProfileConfig_init bracket_host ''1.0.0'' target_url upload_url scope (PInt 2) (PFloat (Fin 5))
       (PInt (256 * KIB)) (PInt (64 * KIB)) (PInt 2) verify_tls ''CloudEyes/0.1 networking-v1''"

definition networking_fields :: "NetworkingProfileConfig \<Rightarrow> (string \<times> pyval) list" where
  "networking_fields c = [(''version'', PStr (np_version c)), (''target_url'', PStr (np_target_url c)),
     (''upload_url'', opt_str (np_upload_url c)), (''scope'', PStr (NetworkScope_value (np_scope c))),
     (''repetitions'', PInt (np_repetitions c)), (''timeout_seconds'', PFloat (np_timeout_seconds c)),
     (''download_limit_bytes'', PInt (np_download_limit_bytes c)), (''upload_bytes'', PInt (np_upload_bytes c)),
     (''ping_count'', PInt (np_ping_count c)), (''verify_tls'', PBool (np_verify_tls c)),
     (''user_agent'', PStr (np_user_agent c))]"

section \<open>What the constructors accept\<close>

lemma int_field_Inl: "int_field name a b v = Inl e \<Longrightarrow> config_error e"
  by (cases v) (auto simp: config_error_def split: if_splits)

lemma bool_field_Inl: "bool_field name v = Inl e \<Longrightarrow> config_error e"
  by (cases v) (auto simp: config_error_def)

lemma float_field_Inl: "float_field name m a b v = Inl e \<Longrightarrow> config_error e"
  by (cases v) (auto simp: config_error_def float_range_def rbind_Inl_iff float_of_int_def checked_def split: if_splits option.splits)

lemma at_most_Inl: "at_most n k m = Inl e \<Longrightarrow> config_error e"
  by (auto simp: config_error_def at_most_def split: if_splits)

lemma string_field_Inl:
  "version_field s = Inl e \<Longrightarrow> config_error e"
  "keyword_field s k m = Inl e \<Longrightarrow> config_error e"
  "user_agent_field s = Inl e \<Longrightarrow> config_error e"
  by (auto simp: config_error_def version_field_def keyword_field_def user_agent_field_def Let_def split: if_splits)

lemma split_endpoint_Inl: "split_endpoint bh s = Inl e \<Longrightarrow> is_value_error e"
  by (auto simp: split_endpoint_def split_authority_def Let_def split: if_splits)

lemma validated_url_Inl: "validated_url bh f s = Inl e \<Longrightarrow> config_error e"
  by (auto simp: config_error_def validated_url_def Let_def rbind_Inl_iff dest: split_endpoint_Inl
      split: if_splits sum.splits)

lemmas field_Inl = int_field_Inl bool_field_Inl float_field_Inl at_most_Inl string_field_Inl validated_url_Inl

lemma rbind_config_error:
  "(\<And>e. r = Inl e \<Longrightarrow> config_error e) \<Longrightarrow> (\<And>x e. r = Inr x \<Longrightarrow> f x = Inl e \<Longrightarrow> config_error e) \<Longrightarrow>
   rbind r f = Inl e \<Longrightarrow> config_error e"
  by (auto simp: rbind_Inl_iff)

lemma general_config_Inl:
  "GeneralProfileConfig_init v a1 a2 a3 a4 a5 a6 a7 a8 = Inl e \<Longrightarrow> config_error e"
  unfolding GeneralProfileConfig_init_def by (elim rbind_config_error [rotated 2]; (erule field_Inl)?; simp?)

lemma storage_config_Inl:
  "StorageProfileConfig_init v a1 a2 a3 a4 a5 a6 a7 a8 a9 = Inl e \<Longrightarrow> config_error e"
  unfolding StorageProfileConfig_init_def by (elim rbind_config_error [rotated 2]; (erule field_Inl)?; simp?)

lemma compute_config_Inl:
  "ComputeProfileConfig_init v a1 a2 a3 a4 a5 a6 a7 a8 a9 a10 a11 a12 = Inl e \<Longrightarrow> config_error e"
  unfolding ComputeProfileConfig_init_def by (elim rbind_config_error [rotated 2]; (erule field_Inl)?; simp?)

lemma database_config_Inl:
  "DatabaseProfileConfig_init v a1 a2 a3 a4 a5 a6 a7 a8 a9 a10 a11 a12 a13 a14 a15 a16 = Inl e \<Longrightarrow> config_error e"
  unfolding DatabaseProfileConfig_init_def by (elim rbind_config_error [rotated 2]; (erule field_Inl)?; simp?)

lemma timeout_field_Inl: "timeout_field v = Inl e \<Longrightarrow> config_error e"
  unfolding timeout_field_def by (rule field_Inl)

lemma web_config_Inl:
  "WebProfileConfig_init bh v a1 a2 a3 a4 a5 a6 a7 a8 a9 = Inl e \<Longrightarrow> config_error e"
  unfolding WebProfileConfig_init_def
  by (elim rbind_config_error [rotated 2]; (erule field_Inl timeout_field_Inl)?; simp?)

lemma upload_url_Inl:
  "(case u of None \<Rightarrow> Inr None | Some s \<Rightarrow> rbind (validated_url bh f s) (\<lambda>x. Inr (Some x))) = Inl e \<Longrightarrow> config_error e"
  by (auto simp: rbind_Inl_iff dest: validated_url_Inl split: option.splits)

lemma networking_config_Inl:
  "NetworkingProfileConfig_init bh v a1 a2 a3 a4 a5 a6 a7 a8 a9 a10 = Inl e \<Longrightarrow> config_error e"
  unfolding NetworkingProfileConfig_init_def
  by (elim rbind_config_error [rotated 2]; (erule field_Inl timeout_field_Inl upload_url_Inl)?; simp?)

lemma timeout_field_Inr: "timeout_field v = Inr t \<Longrightarrow> fle (fl (Fract 1 4)) t \<and> fle t (fl 120)"
  unfolding timeout_field_def by (rule float_field_Inr)

text \<open>The bytes the storage workload writes: the warm-up file and its operations, then each repetition.\<close>

definition storage_bytes_written :: "StorageProfileConfig \<Rightarrow> int" where
  "storage_bytes_written c = sp_file_size_bytes c * (sp_repetitions c + 1)
    + sp_random_block_bytes c * (sp_warmup_operations c + (sp_random_operations c + sp_fsync_operations c) * sp_repetitions c)"

text \<open>The bytes of response body a web workload may read, warm-up included.\<close>

definition web_bytes_allowed :: "WebProfileConfig \<Rightarrow> int" where
  "web_bytes_allowed c = (wp_request_count c + wp_warmup_requests c) * wp_max_response_bytes c"

section \<open>Bounds\<close>

lemma sum_caseI: "(\<And>e. r = Inl e \<Longrightarrow> P e) \<Longrightarrow> (\<And>c. r = Inr c \<Longrightarrow> Q c) \<Longrightarrow> case r of Inl e \<Rightarrow> P e | Inr c \<Rightarrow> Q c"
  by (cases r) auto

lemma fl_limits_exact: "fl 1 = Fin 1" "fl 600 = Fin 600" "fl 120 = Fin 120" "fl 30 = Fin 30" "fl (Fract 1 4) = Fin (1 / 4)"
  by code_simp+

text \<open>Every limit on a field and on a total, profile by profile.\<close>

definition general_limits :: "GeneralProfileConfig \<Rightarrow> bool" where
  "general_limits c \<longleftrightarrow> gp_version c \<noteq> [] \<and>
    gp_cpu_block_bytes c \<in> {1..MIB} \<and> gp_cpu_iterations c \<in> {1..20000} \<and>
    gp_memory_block_bytes c \<in> {1..64 * MIB} \<and> gp_memory_iterations c \<in> {1..1024} \<and>
    gp_storage_block_bytes c \<in> {1..64 * MIB} \<and> gp_storage_iterations c \<in> {1..256} \<and>
    gp_cpu_block_bytes c * gp_cpu_iterations c \<le> GIB \<and> gp_memory_block_bytes c * gp_memory_iterations c \<le> 4 * GIB \<and>
    gp_storage_block_bytes c * gp_storage_iterations c \<le> 512 * MIB"

definition storage_limits :: "StorageProfileConfig \<Rightarrow> bool" where
  "storage_limits c \<longleftrightarrow> sp_version c \<noteq> [] \<and>
    sp_file_size_bytes c \<in> {MIB..GIB} \<and> sp_sequential_block_bytes c \<in> {4 * KIB..64 * MIB} \<and>
    sp_random_block_bytes c \<in> {512..MIB} \<and> sp_random_operations c \<in> {1..100000} \<and>
    sp_fsync_operations c \<in> {1..1000} \<and> sp_repetitions c \<in> {1..10} \<and> sp_warmup_operations c \<in> {0..10000} \<and>
    sp_random_seed c \<in> {0..2 ^ 63 - 1} \<and>
    sp_random_block_bytes c \<le> sp_file_size_bytes c \<and> sp_sequential_block_bytes c \<le> sp_file_size_bytes c \<and>
    storage_bytes_written c \<le> 8 * GIB + sp_random_block_bytes c * sp_warmup_operations c"

definition compute_limits :: "ComputeProfileConfig \<Rightarrow> bool" where
  "compute_limits c \<longleftrightarrow> cp_version c \<noteq> [] \<and>
    cp_repetitions c \<in> {1..9} \<and> cp_warmup_iterations c \<in> {1..1000000} \<and>
    cp_integer_iterations c \<in> {1..10000000} \<and> cp_floating_point_iterations c \<in> {1..10000000} \<and>
    cp_sha256_block_bytes c \<in> {1..16 * MIB} \<and> cp_sha256_iterations c \<in> {1..4096} \<and>
    cp_compression_block_bytes c \<in> {1..16 * MIB} \<and> cp_compression_iterations c \<in> {1..1024} \<and>
    cp_compression_level c \<in> {0..9} \<and> cp_workers c \<in> {0..64} \<and> cp_max_auto_workers c \<in> {1..64} \<and>
    fle (Fin 1) (cp_worker_timeout_seconds c) \<and> fle (cp_worker_timeout_seconds c) (Fin 600) \<and>
    cp_sha256_block_bytes c * cp_sha256_iterations c \<le> 4 * GIB \<and>
    cp_compression_block_bytes c * cp_compression_iterations c \<le> 2 * GIB"

definition database_limits :: "DatabaseProfileConfig \<Rightarrow> bool" where
  "database_limits c \<longleftrightarrow> dp_version c \<noteq> [] \<and> dp_engine c = ''sqlite'' \<and> dp_journal_mode c = ''wal'' \<and>
    dp_synchronous c = ''full'' \<and>
    dp_record_count c \<in> {100..100000} \<and> dp_payload_bytes c \<in> {32..4096} \<and>
    dp_connection_operations c \<in> {1..100} \<and> dp_point_read_operations c \<in> {1..100000} \<and>
    dp_insert_operations c \<in> {1..10000} \<and> dp_update_operations c \<in> {1..10000} \<and>
    dp_mixed_operations c \<in> {10..100000} \<and> dp_mixed_read_percent c \<in> {50..95} \<and>
    dp_concurrency c \<in> {1..32} \<and> dp_concurrency c \<le> dp_mixed_operations c \<and>
    dp_warmup_operations c \<in> {0..10000} \<and> dp_repetitions c \<in> {1..10} \<and> dp_random_seed c \<in> {0..2147483647} \<and>
    fle (fl (Fract 1 10)) (dp_busy_timeout_seconds c) \<and> fle (dp_busy_timeout_seconds c) (Fin 30) \<and>
    dp_record_count c * dp_payload_bytes c \<le> 128 * MIB \<and>
    operations_per_repetition (dp_connection_operations c) (dp_point_read_operations c) (dp_insert_operations c)
      (dp_update_operations c) (dp_mixed_operations c) * dp_repetitions c \<le> 500000"

definition web_limits :: "WebProfileConfig \<Rightarrow> bool" where
  "web_limits c \<longleftrightarrow> wp_version c \<noteq> [] \<and> wp_target_url c \<noteq> [] \<and> length (wp_target_url c) \<le> 2048 \<and>
    length (wp_user_agent c) \<in> {1..160} \<and>
    wp_request_count c \<in> {1..1000} \<and> wp_concurrency c \<in> {1..64} \<and> wp_concurrency c \<le> wp_request_count c \<and>
    wp_warmup_requests c \<in> {0..100} \<and> wp_max_response_bytes c \<in> {KIB..16 * MIB} \<and>
    fle (Fin (1 / 4)) (wp_timeout_seconds c) \<and> fle (wp_timeout_seconds c) (Fin 120) \<and>
    wp_request_count c * wp_max_response_bytes c \<le> 512 * MIB \<and>
    web_bytes_allowed c \<le> 512 * MIB + wp_warmup_requests c * wp_max_response_bytes c"

definition networking_limits :: "NetworkingProfileConfig \<Rightarrow> bool" where
  "networking_limits c \<longleftrightarrow> np_version c \<noteq> [] \<and> np_target_url c \<noteq> [] \<and> length (np_target_url c) \<le> 2048 \<and>
    (case np_upload_url c of None \<Rightarrow> True | Some u \<Rightarrow> u \<noteq> [] \<and> length u \<le> 2048) \<and>
    length (np_user_agent c) \<in> {1..160} \<and>
    np_repetitions c \<in> {1..20} \<and> np_download_limit_bytes c \<in> {KIB..64 * MIB} \<and>
    np_upload_bytes c \<in> {KIB..16 * MIB} \<and> np_ping_count c \<in> {0..20} \<and>
    fle (Fin (1 / 4)) (np_timeout_seconds c) \<and> fle (np_timeout_seconds c) (Fin 120) \<and>
    np_repetitions c * (np_download_limit_bytes c + np_upload_bytes c) \<le> 1600 * MIB"

lemma general_config_Inr: "GeneralProfileConfig_init v g1 g2 g3 g4 g5 g6 g7 g8 = Inr c \<Longrightarrow> general_limits c"
  by (auto simp: GeneralProfileConfig_init_def rbind_Inr_iff field_Inr GIB_def general_limits_def)

lemma storage_config_Inr:
  assumes "StorageProfileConfig_init v s1 s2 s3 s4 s5 s6 s7 s8 s9 = Inr c"
  shows "storage_limits c"
proof -
  from assms have "estimated_storage_bytes (sp_file_size_bytes c) (sp_random_block_bytes c) (sp_random_operations c)
      (sp_fsync_operations c) (sp_repetitions c) \<le> 8 * GIB"
    by (auto simp: StorageProfileConfig_init_def rbind_Inr_iff field_Inr)
  then have "storage_bytes_written c \<le> 8 * GIB + sp_random_block_bytes c * sp_warmup_operations c"
    by (simp add: storage_bytes_written_def estimated_storage_bytes_def algebra_simps)
  with assms show ?thesis
    by (auto simp: StorageProfileConfig_init_def rbind_Inr_iff field_Inr storage_limits_def)
qed

lemma compute_config_Inr:
  "ComputeProfileConfig_init v c1 c2 c3 c4 c5 c6 c7 c8 c9 c10 c11 c12 = Inr c \<Longrightarrow> compute_limits c"
  by (auto simp: ComputeProfileConfig_init_def rbind_Inr_iff field_Inr GIB_def compute_limits_def
      fl_limits_exact [symmetric] dest: float_field_Inr)

lemma keyword_field_Inr: "keyword_field s k m = Inr x \<Longrightarrow> x = k"
  by (auto simp: keyword_field_def Let_def split: if_splits)

lemma database_config_Inr:
  "DatabaseProfileConfig_init v d1 d2 d3 d4 d5 d6 d7 d8 d9 d10 d11 d12 d13 d14 d15 d16 = Inr c \<Longrightarrow> database_limits c"
  by (auto simp: DatabaseProfileConfig_init_def rbind_Inr_iff field_Inr database_limits_def
      fl_limits_exact [symmetric] dest: float_field_Inr keyword_field_Inr)

lemma validated_url_Inr: "validated_url bh f s = Inr u \<Longrightarrow> u \<noteq> [] \<and> length u \<le> 2048"
  by (auto simp: validated_url_def Let_def rbind_Inr_iff split: if_splits sum.splits)

lemma user_agent_Inr: "user_agent_field s = Inr u \<Longrightarrow> u \<noteq> [] \<and> Suc 0 \<le> length u \<and> length u \<le> 160"
  by (cases u) (auto simp: user_agent_field_def Let_def split: if_splits)

lemma timeout_limits: "timeout_field v = Inr t \<Longrightarrow> fle (Fin (1 / 4)) t \<and> fle t (Fin 120)"
  using timeout_field_Inr [of v t] by (simp add: fl_limits_exact)

lemma web_config_Inr:
  assumes "WebProfileConfig_init bh v w1 scope w3 w4 w5 w6 w7 w8 w9 = Inr c"
  shows "web_limits c"
proof -
  have "wp_request_count c * wp_max_response_bytes c \<le> 512 * MIB"
    using assms by (auto simp: WebProfileConfig_init_def rbind_Inr_iff field_Inr)
  then have "web_bytes_allowed c \<le> 512 * MIB + wp_warmup_requests c * wp_max_response_bytes c"
    by (simp add: web_bytes_allowed_def algebra_simps)
  with assms show ?thesis
    by (auto simp: WebProfileConfig_init_def rbind_Inr_iff field_Inr web_limits_def
        dest: timeout_limits validated_url_Inr user_agent_Inr)
qed

lemma networking_config_Inr:
  assumes "NetworkingProfileConfig_init bh v n1 n2 scope n4 n5 n6 n7 n8 n9 n10 = Inr c"
  shows "networking_limits c"
proof -
  have r: "1 \<le> np_repetitions c" "np_repetitions c \<le> 20" "0 \<le> np_download_limit_bytes c + np_upload_bytes c"
    "np_download_limit_bytes c + np_upload_bytes c \<le> 80 * MIB"
    using assms by (auto simp: NetworkingProfileConfig_init_def rbind_Inr_iff field_Inr MIB_def KIB_def)
  then have "np_repetitions c * (np_download_limit_bytes c + np_upload_bytes c) \<le> 20 * (80 * MIB)"
    by (intro mult_mono) simp_all
  then have "np_repetitions c * (np_download_limit_bytes c + np_upload_bytes c) \<le> 1600 * MIB" by simp
  with assms show ?thesis
    by (auto simp: NetworkingProfileConfig_init_def rbind_Inr_iff field_Inr networking_limits_def
        dest: timeout_limits validated_url_Inr user_agent_Inr split: option.splits)
qed

section \<open>The quick configurations\<close>

lemma field_intro:
  "a \<le> n \<Longrightarrow> n \<le> b \<Longrightarrow> int_field name a b (PInt n) = Inr n"
  "n \<le> k \<Longrightarrow> at_most n k m = Inr ()"
  by (simp_all add: at_most_def)

lemma known_fields:
  "version_field ''1.0.0'' = Inr ''1.0.0''" "user_agent_field ''CloudEyes/0.1 web-v1'' = Inr ''CloudEyes/0.1 web-v1''"
  "user_agent_field ''CloudEyes/0.1 networking-v1'' = Inr ''CloudEyes/0.1 networking-v1''"
  "keyword_field ''sqlite'' ''sqlite'' m = Inr ''sqlite''" "keyword_field ''wal'' ''wal'' m = Inr ''wal''"
  "keyword_field ''full'' ''full'' m = Inr ''full''"
  "timeout_field (PFloat (Fin 5)) = Inr (Fin 5)" "timeout_field (PFloat (Fin 10)) = Inr (Fin 10)"
  "float_range m 1 600 (Fin 30) = Inr (Fin 30)" "float_range m 1 600 (Fin 60) = Inr (Fin 60)"
  "float_range m (Fract 1 10) 30 (Fin 2) = Inr (Fin 2)" "float_range m (Fract 1 10) 30 (Fin 5) = Inr (Fin 5)"
proof -
  have ranges: "fle (fl (Fract 1 4)) (Fin 5) \<and> fle (Fin 5) (fl 120) \<and> fle (fl (Fract 1 4)) (Fin 10) \<and> fle (Fin 10) (fl 120) \<and>
      fle (fl 1) (Fin 30) \<and> fle (Fin 30) (fl 600) \<and> fle (fl 1) (Fin 60) \<and> fle (Fin 60) (fl 600) \<and>
      fle (fl (Fract 1 10)) (Fin 2) \<and> fle (Fin 2) (fl 30) \<and> fle (fl (Fract 1 10)) (Fin 5) \<and> fle (Fin 5) (fl 30)"
    by code_simp
  then show "timeout_field (PFloat (Fin 5)) = Inr (Fin 5)" "timeout_field (PFloat (Fin 10)) = Inr (Fin 10)"
    "float_range m 1 600 (Fin 30) = Inr (Fin 30)" "float_range m 1 600 (Fin 60) = Inr (Fin 60)"
    "float_range m (Fract 1 10) 30 (Fin 2) = Inr (Fin 2)" "float_range m (Fract 1 10) 30 (Fin 5) = Inr (Fin 5)"
    by (simp_all add: timeout_field_def float_range_def)
  have "casefold (strip ''sqlite'') = ''sqlite'' \<and> casefold (strip ''wal'') = ''wal'' \<and> casefold (strip ''full'') = ''full''"
    by code_simp
  then show "keyword_field ''sqlite'' ''sqlite'' m = Inr ''sqlite''" "keyword_field ''wal'' ''wal'' m = Inr ''wal''"
    "keyword_field ''full'' ''full'' m = Inr ''full''" by (simp_all add: keyword_field_def)
  have "strip ''1.0.0'' = ''1.0.0'' \<and> strip ''CloudEyes/0.1 web-v1'' = ''CloudEyes/0.1 web-v1'' \<and>
      strip ''CloudEyes/0.1 networking-v1'' = ''CloudEyes/0.1 networking-v1''" by code_simp
  then show "version_field ''1.0.0'' = Inr ''1.0.0''" "user_agent_field ''CloudEyes/0.1 web-v1'' = Inr ''CloudEyes/0.1 web-v1''"
    "user_agent_field ''CloudEyes/0.1 networking-v1'' = Inr ''CloudEyes/0.1 networking-v1''"
    by (simp_all add: version_field_def user_agent_field_def)
qed

lemmas quick_simps = field_intro known_fields MIB_def KIB_def GIB_def estimated_storage_bytes_def operations_per_repetition_def

text \<open>
  Both presets of a profile are accepted for every argument its constructor admits: workers from 0
  to 64, a concurrency from 1 to 32, any valid target.
\<close>

lemma general_presets:
  "\<exists>c. GeneralProfileConfig_quick (PBool b) = Inr c" "\<exists>c. GeneralProfileConfig_default (PBool b) = Inr c"
  by (simp_all add: GeneralProfileConfig_quick_def GeneralProfileConfig_default_def GeneralProfileConfig_init_def quick_simps)

lemma storage_presets: "\<exists>c. StorageProfileConfig_quick = Inr c" "\<exists>c. StorageProfileConfig_default = Inr c"
  by (simp_all add: StorageProfileConfig_quick_def StorageProfileConfig_default_def StorageProfileConfig_init_def quick_simps)

lemma compute_presets:
  "(\<exists>c. ComputeProfileConfig_quick (PInt n) = Inr c) \<longleftrightarrow> 0 \<le> n \<and> n \<le> 64"
  "(\<exists>c. ComputeProfileConfig_default (PInt n) = Inr c) \<longleftrightarrow> 0 \<le> n \<and> n \<le> 64"
  by (auto simp add: ComputeProfileConfig_quick_def ComputeProfileConfig_default_def ComputeProfileConfig_init_def
      rbind_Inr_iff quick_simps split: if_splits)

lemma database_presets:
  "(\<exists>c. DatabaseProfileConfig_quick (PInt n) = Inr c) \<longleftrightarrow> 1 \<le> n \<and> n \<le> 32"
  "(\<exists>c. DatabaseProfileConfig_default (PInt n) = Inr c) \<longleftrightarrow> 1 \<le> n \<and> n \<le> 32"
  by (auto simp add: DatabaseProfileConfig_quick_def DatabaseProfileConfig_default_def DatabaseProfileConfig_init_def
      rbind_Inr_iff quick_simps split: if_splits)

lemma web_presets:
  "(\<exists>c. WebProfileConfig_quick bh url scope (PBool b) = Inr c) \<longleftrightarrow> (\<exists>u. validated_url bh ''target_url'' url = Inr u)"
  "(\<exists>c. WebProfileConfig_default bh url scope (PBool b) = Inr c) \<longleftrightarrow> (\<exists>u. validated_url bh ''target_url'' url = Inr u)"
  by (auto simp add: WebProfileConfig_quick_def WebProfileConfig_default_def WebProfileConfig_init_def
      rbind_Inr_iff quick_simps)

section \<open>Properties\<close>

text \<open>
  C30: Every configuration that a constructor accepts is within all limits of its profile: the range
  of every size, count, number of workers, warm-up, seed and time-out, and the limits on the totals,
  from which follow bounds on the bytes the storage, web and networking profiles write and read,
  warm-up included. Every other argument raises \<open>ValueError\<close>, \<open>TypeError\<close> or, for an integer too large
  for a float, \<open>OverflowError\<close>.
\<close>

theorem configs_bound_work:
  "(case GeneralProfileConfig_init v g1 g2 g3 g4 g5 g6 g7 g8 of Inl e \<Rightarrow> config_error e | Inr c \<Rightarrow> general_limits c) \<and>
   (case StorageProfileConfig_init v s1 s2 s3 s4 s5 s6 s7 s8 s9 of Inl e \<Rightarrow> config_error e | Inr c \<Rightarrow> storage_limits c) \<and>
   (case ComputeProfileConfig_init v c1 c2 c3 c4 c5 c6 c7 c8 c9 c10 c11 c12 of
      Inl e \<Rightarrow> config_error e | Inr c \<Rightarrow> compute_limits c) \<and>
   (case DatabaseProfileConfig_init v d1 d2 d3 d4 d5 d6 d7 d8 d9 d10 d11 d12 d13 d14 d15 d16 of
      Inl e \<Rightarrow> config_error e | Inr c \<Rightarrow> database_limits c) \<and>
   (case WebProfileConfig_init bh v w1 scope w3 w4 w5 w6 w7 w8 w9 of Inl e \<Rightarrow> config_error e | Inr c \<Rightarrow> web_limits c) \<and>
   (case NetworkingProfileConfig_init bh v n1 n2 scope n4 n5 n6 n7 n8 n9 n10 of
      Inl e \<Rightarrow> config_error e | Inr c \<Rightarrow> networking_limits c)"
  by (intro conjI; rule sum_caseI;
    erule general_config_Inl storage_config_Inl compute_config_Inl database_config_Inl web_config_Inl networking_config_Inl
      general_config_Inr storage_config_Inr compute_config_Inr database_config_Inr web_config_Inr networking_config_Inr)

text \<open>
  The two limits on a total leave the warm-up out. A storage configuration whose estimate is
  within the 8 GiB it must not exceed writes more than 17 GiB, and a web configuration within the
  512 MiB of bounded responses may read more than 1.5 GiB.
\<close>

theorem workload_limits_miss_warmup:
  "(case StorageProfileConfig_init ''1.0.0'' (PInt GIB) (PInt MIB) (PInt MIB) (PInt 100) (PInt 1) (PInt 6) (PInt 10000)
      (PBool True) (PInt 0) of Inl e \<Rightarrow> False | Inr c \<Rightarrow> 17 * GIB < storage_bytes_written c) \<and>
   (case WebProfileConfig_init (\<lambda>_. False) ''1.0.0'' ''https://h/'' PublicScope (PInt 1) (PInt 1) (PInt 100)
      (PFloat (Fin 5)) (PInt (16 * MIB)) (PBool True) ''CloudEyes/0.1 web-v1'' of Inl e \<Rightarrow> False
    | Inr c \<Rightarrow> 1536 * MIB < web_bytes_allowed c)"
  by code_simp

end
