(* ===== verification/Profile.thy ===== *)
theory Profile
  imports RawOutput Policy Config Discovery
begin

text \<open>
  The runs of the six profiles, \<open>profiles/*/profile.py\<close>: discover the host, run the benchmarks, turn
  what they return or raise into measurements, judge the quality and build one sample. The storage,
  compute, database, web and networking files are one text up to names, a time budget and whether
  warnings of the benchmark are passed on; those differences are a record. What a benchmark did is an
  argument of the run.
\<close>

section \<open>The world of a run\<close>

text \<open>
  What a benchmark function did: it returned metrics, evidence and warnings, raised
  \<open>CancellationRequested\<close>, or raised another exception, of which the profiles read the class name.
\<close>

datatype benchmark_outcome =
    Completed "Metric list" "(string \<times> pyval) list" "string list"
  | CancelRequested
  | RaisedType string

datatype profile_error = ProfileCancelled | ProfileRaised py_error

text \<open>
  The optional arguments of \<open>run_*_profile\<close>, and its surroundings: the readings of the clock in the order
  the run takes them, what the token's event holds at each checkpoint in order (\<open>None\<close> without a token),
  the Python version, fresh identifiers, and how the write of the evidence ends.
\<close>

record run_request =
  rq_sample_id :: "string option"
  rq_raw_output_dir :: "string option"
  rq_provider_id :: "string option"
  rq_provider_name :: "string option"
  rq_country_code :: "string option"
  rq_product :: "string option"
  rq_plan :: "string option"
  rq_region :: "string option"
  rq_zone :: "string option"

record run_world =
  wd_clock :: "nat \<Rightarrow> pydatetime"
  wd_token :: "(nat \<Rightarrow> bool) option"
  wd_python_version :: string
  wd_uuid_hex :: string
  wd_random :: string
  wd_fault :: write_fault
  wd_render :: "pyval \<Rightarrow> string"
  wd_sha256 :: "string \<Rightarrow> string"
  wd_sorted_dumps :: "pyval \<Rightarrow> string"

definition cancelled_at :: "run_world \<Rightarrow> nat \<Rightarrow> bool" where
  "cancelled_at w k = (case wd_token w of None \<Rightarrow> False | Some f \<Rightarrow> f k)"

text \<open>\<open>a or b\<close> for optional strings.\<close>

definition or_str :: "string option \<Rightarrow> string option \<Rightarrow> string option" where
  "or_str a b = (case a of None \<Rightarrow> b | Some s \<Rightarrow> if s = [] then b else Some s)"

definition or_default :: "string option \<Rightarrow> string \<Rightarrow> string" where
  "or_default a d = (case a of None \<Rightarrow> d | Some s \<Rightarrow> if s = [] then d else s)"

section \<open>Identities\<close>

definition provider_identity :: "DiscoveryResult \<Rightarrow> run_request \<Rightarrow> ProviderIdentity result" where
  "provider_identity discovery rq =
    (let resolved_id = or_default (or_str (rq_provider_id rq) (pi_provider_id (dr_provider discovery))) ''unknown'';
         resolved_name = or_default (or_str (rq_provider_name rq) (pi_provider_name (dr_provider discovery))) ''Unknown Provider''
     in ProviderIdentity_init (PStr resolved_id) (PStr resolved_name) (opt_str (rq_country_code rq)))"

text \<open>\<open>memory_bytes or 1\<close>: an unknown memory size becomes one byte.\<close>

definition machine_identity :: "DiscoveryResult \<Rightarrow> MachineIdentity result" where
  "machine_identity discovery =
    (let hardware = dr_hardware discovery; kind = vi_kind (dr_virtualization discovery);
         machine_type = (if kind = UNKNOWN_KIND then ''unknown'' else VirtualizationKind_value kind)
     in MachineIdentity_init (PStr machine_type) (PInt (hw_logical_cpu_count hardware))
       (PInt (case hw_memory_bytes hardware of None \<Rightarrow> 1 | Some n \<Rightarrow> if n = 0 then 1 else n)) (PStr (hw_architecture hardware)))"

definition discovery_warnings :: "DiscoveryResult \<Rightarrow> run_request \<Rightarrow> string list" where
  "discovery_warnings discovery rq =
    (if pi_provider_id (dr_provider discovery) = None \<and> rq_provider_id rq = None then [''provider_unknown''] else [])
    @ (if hw_memory_bytes (dr_hardware discovery) = None then [''memory_capacity_unknown''] else [])"

section \<open>Building the sample\<close>

text \<open>
  The end of every run: the quality, then the sample with the next reading of the clock as its time, the
  identities, and the protocol.
\<close>

definition build_sample ::
  "string \<Rightarrow> pyfloat \<Rightarrow> string \<Rightarrow> string \<Rightarrow> string \<Rightarrow> DiscoveryResult \<Rightarrow> run_request \<Rightarrow> pydatetime \<Rightarrow> string \<Rightarrow>
   string list \<Rightarrow> Measurement list \<Rightarrow> Sample result" where
  "build_sample profile limit invalid_error ver fingerprint discovery rq created_at sid warnings measurements =
    rbind (ReliabilityPolicy_init (Some limit) True True True) (\<lambda>policy.
    rbind (evaluate_sample_quality measurements warnings invalid_error (Some policy)) (\<lambda>quality.
    rbind (provider_identity discovery rq) (\<lambda>provider.
    rbind (ProductIdentity_init (opt_str (rq_product rq)) (opt_str (rq_plan rq)) (opt_str (rq_region rq)) (opt_str (rq_zone rq))) (\<lambda>product.
    rbind (machine_identity discovery) (\<lambda>machine.
    rbind (ProtocolIdentity_init (PStr profile) (PStr ver) (PStr fingerprint)) (\<lambda>protocol.
    Sample_init (PStr sid) created_at provider product machine protocol measurements quality))))))"

definition raised_by :: "'a result \<Rightarrow> profile_error + 'a" where
  "raised_by r = (case r of Inl e \<Rightarrow> Inl (ProfileRaised e) | Inr x \<Rightarrow> Inr x)"

definition resolved_sample_id :: "string \<Rightarrow> run_request \<Rightarrow> run_world \<Rightarrow> string" where
  "resolved_sample_id profile rq w = or_default (rq_sample_id rq) (profile @ ''-'' @ wd_uuid_hex w)"

section \<open>Profiles with raw evidence\<close>

record profile_spec =
  ps_profile :: string
  ps_tool :: string
  ps_budget :: int
  ps_passes_warnings :: bool

definition spec_measurement ::
  "profile_spec \<Rightarrow> run_world \<Rightarrow> string \<Rightarrow> string \<Rightarrow> nat \<Rightarrow> MeasurementStatus \<Rightarrow> Metric list \<Rightarrow> string option \<Rightarrow> string option \<Rightarrow>
   Measurement result" where
  "spec_measurement spec w ver sid k status metrics raw_output_path error =
    Measurement_init (PStr (sid @ ''-'' @ ps_profile spec)) (PStr (ps_tool spec)) (PStr (wd_python_version w))
      (PStr (ps_profile spec)) (PStr ver) (wd_clock w 0) (wd_clock w k) status metrics (opt_str raw_output_path) (opt_str error)"

text \<open>The handler of \<open>except Exception\<close>; \<open>k\<close> is the next reading of the clock.\<close>

definition failed_measurement ::
  "profile_spec \<Rightarrow> run_world \<Rightarrow> string \<Rightarrow> string \<Rightarrow> nat \<Rightarrow> string \<Rightarrow> profile_error + Measurement \<times> string list \<times> nat" where
  "failed_measurement spec w ver sid k error_type =
    (case spec_measurement spec w ver sid k FAILED [] None
        (Some (error_type @ '': '' @ ps_profile spec @ '' benchmark failed'')) of
       Inl e \<Rightarrow> Inl (ProfileRaised e) | Inr m \<Rightarrow> Inr (m, [], Suc k))"

text \<open>From the second checkpoint to the return; its exceptions are handled where it is called.\<close>

definition succeeded_measurement ::
  "profile_spec \<Rightarrow> run_world \<Rightarrow> string \<Rightarrow> string \<Rightarrow> Metric list \<Rightarrow> string list \<Rightarrow> string option \<Rightarrow>
   profile_error + Measurement \<times> string list \<times> nat" where
  "succeeded_measurement spec w ver sid metrics warnings raw_output_path =
    (if cancelled_at w 2 then Inl ProfileCancelled
     else case spec_measurement spec w ver sid 1 SUCCESS metrics raw_output_path None of
         Inl e \<Rightarrow> failed_measurement spec w ver sid 2 (error_name e)
       | Inr m \<Rightarrow> Inr (m, if ps_passes_warnings spec then warnings else [], 2))"

definition profile_measurement ::
  "profile_spec \<Rightarrow> run_request \<Rightarrow> run_world \<Rightarrow> string \<Rightarrow> string \<Rightarrow> benchmark_outcome \<Rightarrow> files \<Rightarrow>
   files \<times> (profile_error + Measurement \<times> string list \<times> nat)" where
  "profile_measurement spec rq w ver sid outcome fs = (case outcome of
     CancelRequested \<Rightarrow> (fs, Inl ProfileCancelled)
   | RaisedType t \<Rightarrow> (fs, failed_measurement spec w ver sid 1 t)
   | Completed metrics evidence warnings \<Rightarrow>
       if cancelled_at w 1 then (fs, Inl ProfileCancelled)
       else case rq_raw_output_dir rq of
           None \<Rightarrow> (fs, succeeded_measurement spec w ver sid metrics warnings None)
         | Some dir \<Rightarrow>
             (case write_raw_output (wd_render w) (wd_random w) (wd_fault w) (AList.update ''sample_id'' (PStr sid) evidence) dir
                 (sid @ ''-'' @ ps_profile spec) fs of
                (fs', Inl e) \<Rightarrow> (fs', failed_measurement spec w ver sid 1 (error_name e))
              | (fs', Inr path) \<Rightarrow> (fs', succeeded_measurement spec w ver sid metrics warnings (Some path))))"

definition run_spec_profile ::
  "profile_spec \<Rightarrow> string \<Rightarrow> (string \<times> pyval) list \<Rightarrow> DiscoveryResult \<Rightarrow> run_request \<Rightarrow> run_world \<Rightarrow> benchmark_outcome \<Rightarrow>
   files \<Rightarrow> files \<times> (profile_error + Sample)" where
  "run_spec_profile spec ver config_fields discovery rq w outcome fs =
    (if cancelled_at w 0 then (fs, Inl ProfileCancelled)
     else let sid = resolved_sample_id (ps_profile spec) rq w in
       (case profile_measurement spec rq w ver sid outcome fs of
          (fs', Inl e) \<Rightarrow> (fs', Inl e)
        | (fs', Inr (m, benchmark_warnings, k)) \<Rightarrow> (fs', raised_by
            (build_sample (ps_profile spec) (Fin (of_int (ps_budget spec))) (ps_profile spec @ ''_measurement_failed'') ver
              (fingerprint_of (wd_sha256 w) (wd_sorted_dumps w) config_fields) discovery rq (wd_clock w k) sid
              (dr_warnings discovery @ benchmark_warnings @ discovery_warnings discovery rq
                @ (if rq_raw_output_dir rq = None then [''raw_output_not_persisted''] else [])) [m]))))"

definition storage_spec :: profile_spec where
  "storage_spec = \<lparr>ps_profile = ''storage'', ps_tool = ''python-storage-profile'', ps_budget = 900, ps_passes_warnings = False\<rparr>"

definition compute_spec :: profile_spec where
  "compute_spec = \<lparr>ps_profile = ''compute'', ps_tool = ''python-compute-profile'', ps_budget = 600, ps_passes_warnings = True\<rparr>"

definition database_spec :: profile_spec where
  "database_spec = \<lparr>ps_profile = ''database'', ps_tool = ''python-sqlite-profile'', ps_budget = 300, ps_passes_warnings = True\<rparr>"

definition web_spec :: profile_spec where
  "web_spec = \<lparr>ps_profile = ''web'', ps_tool = ''python-web-profile'', ps_budget = 180, ps_passes_warnings = True\<rparr>"

definition networking_spec :: profile_spec where
  "networking_spec = \<lparr>ps_profile = ''networking'', ps_tool = ''python-networking-profile'', ps_budget = 180, ps_passes_warnings = True\<rparr>"

definition run_storage_profile ::
  "StorageProfileConfig \<Rightarrow> DiscoveryResult \<Rightarrow> run_request \<Rightarrow> run_world \<Rightarrow> benchmark_outcome \<Rightarrow> files \<Rightarrow> files \<times> (profile_error + Sample)" where
  "run_storage_profile config = run_spec_profile storage_spec (sp_version config) (storage_fields config)"

definition run_compute_profile ::
  "ComputeProfileConfig \<Rightarrow> DiscoveryResult \<Rightarrow> run_request \<Rightarrow> run_world \<Rightarrow> benchmark_outcome \<Rightarrow> files \<Rightarrow> files \<times> (profile_error + Sample)" where
  "run_compute_profile config = run_spec_profile compute_spec (cp_version config) (compute_fields config)"

definition run_database_profile ::
  "DatabaseProfileConfig \<Rightarrow> DiscoveryResult \<Rightarrow> run_request \<Rightarrow> run_world \<Rightarrow> benchmark_outcome \<Rightarrow> files \<Rightarrow> files \<times> (profile_error + Sample)" where
  "run_database_profile config = run_spec_profile database_spec (dp_version config) (database_fields config)"

definition run_web_profile ::
  "WebProfileConfig \<Rightarrow> DiscoveryResult \<Rightarrow> run_request \<Rightarrow> run_world \<Rightarrow> benchmark_outcome \<Rightarrow> files \<Rightarrow> files \<times> (profile_error + Sample)" where
  "run_web_profile config = run_spec_profile web_spec (wp_version config) (web_fields config)"

definition run_networking_profile ::
  "NetworkingProfileConfig \<Rightarrow> DiscoveryResult \<Rightarrow> run_request \<Rightarrow> run_world \<Rightarrow> benchmark_outcome \<Rightarrow> files \<Rightarrow> files \<times> (profile_error + Sample)" where
  "run_networking_profile config = run_spec_profile networking_spec (np_version config) (networking_fields config)"

section \<open>General profile\<close>

text \<open>
  \<open>_measurement\<close> of the general profile starts at reading \<open>k\<close> and takes one more. Only the benchmark is
  inside its \<open>try\<close>; what the constructors raise escapes.
\<close>

definition general_measurement ::
  "run_world \<Rightarrow> string \<Rightarrow> string \<Rightarrow> string \<Rightarrow> nat \<Rightarrow> benchmark_outcome \<Rightarrow> profile_error + Measurement" where
  "general_measurement w ver measurement_id tool k outcome = (case outcome of
     CancelRequested \<Rightarrow> Inl ProfileCancelled
   | RaisedType t \<Rightarrow> raised_by (Measurement_init (PStr measurement_id) (PStr tool) (PStr (wd_python_version w)) (PStr ''general'')
       (PStr ver) (wd_clock w k) (wd_clock w (Suc k)) FAILED [] PNone (PStr (t @ '': benchmark failed'')))
   | Completed metrics evidence warnings \<Rightarrow> raised_by (Measurement_init (PStr measurement_id) (PStr tool)
       (PStr (wd_python_version w)) (PStr ''general'') (PStr ver) (wd_clock w k) (wd_clock w (Suc k)) SUCCESS metrics PNone PNone))"

definition skipped_storage :: "run_world \<Rightarrow> string \<Rightarrow> string \<Rightarrow> nat \<Rightarrow> profile_error + Measurement" where
  "skipped_storage w ver sid k = raised_by (Measurement_init (PStr (sid @ ''-storage'')) (PStr ''python-sequential-io'')
     (PStr (wd_python_version w)) (PStr ''general'') (PStr ver) (wd_clock w k) (wd_clock w k) SKIPPED [] PNone
     (PStr ''storage benchmark disabled by configuration''))"

definition run_general_profile ::
  "GeneralProfileConfig \<Rightarrow> DiscoveryResult \<Rightarrow> run_request \<Rightarrow> run_world \<Rightarrow> benchmark_outcome \<Rightarrow> benchmark_outcome \<Rightarrow>
   benchmark_outcome \<Rightarrow> profile_error + Sample" where
  "run_general_profile config discovery rq w cpu memory storage =
    (if cancelled_at w 0 then Inl ProfileCancelled
     else let sid = resolved_sample_id ''general'' rq w; ver = gp_version config in
       (case general_measurement w ver (sid @ ''-cpu'') ''python-sha256'' 0 cpu of
          Inl e \<Rightarrow> Inl e
        | Inr m1 \<Rightarrow> (case general_measurement w ver (sid @ ''-memory'') ''python-memory-copy'' 2 memory of
          Inl e \<Rightarrow> Inl e
        | Inr m2 \<Rightarrow> (case (if gp_include_storage config
              then general_measurement w ver (sid @ ''-storage'') ''python-sequential-io'' 4 storage
              else skipped_storage w ver sid 4) of
          Inl e \<Rightarrow> Inl e
        | Inr m3 \<Rightarrow> raised_by (build_sample ''general'' (Fin 120) ''no_successful_measurements'' ver
            (fingerprint_of (wd_sha256 w) (wd_sorted_dumps w) (general_fields config)) discovery rq
            (wd_clock w (if gp_include_storage config then 6 else 5)) sid
            (dr_warnings discovery @ discovery_warnings discovery rq) [m1, m2, m3])))))"

section \<open>Facts\<close>

lemma optional_opt_str: "optional_str (opt_str v) = Inr (case v of None \<Rightarrow> None | Some s \<Rightarrow> if strip s = [] then None else Some (strip s))"
  by (cases v) (simp_all add: opt_str_def)

lemma Measurement_strings:
  assumes "Measurement_init (PStr a) (PStr b) (PStr c) (PStr d) (PStr e) t0 t1 st ms (opt_str rp) (opt_str er) = Inr m"
  shows "meas_measurement_id m = strip a" "meas_tool m = strip b" "meas_profile m = strip d" "meas_protocol_version m = strip e"
    "meas_status m = st" "meas_metrics m = ms" "meas_started_at m = t0" "meas_finished_at m = t1"
    "meas_raw_output_path m = (case rp of None \<Rightarrow> None | Some s \<Rightarrow> if strip s = [] then None else Some (strip s))"
  using assms by (auto simp: Measurement_init_def required_str_def rbind_Inr_iff optional_opt_str split: if_splits)

lemma blank_opt_str: "\<exists>b. blank (opt_str v) = Inr b"
  by (cases v) (auto simp: blank_def opt_str_def)

lemma required_PStr_Inl: "required_str (PStr s) f = Inl e \<Longrightarrow> is_value_error e"
  by (auto simp: required_str_def split: if_splits)

lemma Measurement_strings_Inl:
  "Measurement_init (PStr a) (PStr b) (PStr c) (PStr d) (PStr e) t0 t1 st ms (opt_str rp) (opt_str er) = Inl x \<Longrightarrow> is_value_error x"
  using blank_opt_str [of er]
  by (auto simp: Measurement_init_def rbind_Inl_iff optional_opt_str dest: required_PStr_Inl split: if_splits)

lemma wf_measurement_metrics:
  assumes "Measurement_init a b c d e t0 t1 st ms rp er = Inr m"
  shows "wf_measurement m \<longleftrightarrow> list_all wf_metric ms"
proof
  assume "wf_measurement m"
  moreover have "meas_metrics m = ms" using assms by (auto simp: Measurement_init_def rbind_Inr_iff split: if_splits)
  ultimately show "list_all wf_metric ms" by (simp add: wf_measurement_def)
qed (rule Measurement_init_wf [OF assms])

lemma ProviderIdentity_Inl: "ProviderIdentity_init (PStr a) (PStr b) (opt_str c) = Inl e \<Longrightarrow> is_value_error e"
  by (cases c) (auto simp: ProviderIdentity_init_def country_code_of_def Let_def opt_str_def rbind_Inl_iff
      dest: required_PStr_Inl split: if_splits)

lemma ProductIdentity_total: "ProductIdentity_init (opt_str p1) (opt_str p2) (opt_str p3) (opt_str p4) \<noteq> Inl e"
  by (simp add: ProductIdentity_init_def optional_opt_str)

lemma MachineIdentity_Inl: "MachineIdentity_init (PStr a) (PInt i) (PInt j) (PStr b) = Inl e \<Longrightarrow> is_value_error e"
  by (auto simp: MachineIdentity_init_def rbind_Inl_iff dest: required_PStr_Inl split: if_splits)

lemma ProtocolIdentity_Inl: "ProtocolIdentity_init (PStr a) (PStr b) (PStr d) = Inl e \<Longrightarrow> is_value_error e"
  by (auto simp: ProtocolIdentity_init_def rbind_Inl_iff dest: required_PStr_Inl)

lemma Sample_Inl: "Sample_init (PStr a) t pr pd mc pt ms ql = Inl e \<Longrightarrow> is_value_error e"
  by (auto simp: Sample_init_def rbind_Inl_iff dest: required_PStr_Inl split: if_splits)

lemmas identity_Inl = ProviderIdentity_Inl MachineIdentity_Inl ProtocolIdentity_Inl Sample_Inl

lemma policy_budget: "ReliabilityPolicy_init (Some limit) True True True = Inr policy \<Longrightarrow> policy = budget limit"
  by (simp add: ReliabilityPolicy_init_def budget_def default_policy_def split: if_splits)

lemma quality_wf: "evaluate_sample_quality ms warnings err policy = Inr q \<Longrightarrow> wf_quality q"
  unfolding evaluate_sample_quality_def Let_def by (auto dest: SampleQuality_init_wf split: if_splits)

lemma quality_Inl: "evaluate_sample_quality ms warnings err policy = Inl e \<Longrightarrow> is_value_error e"
  unfolding evaluate_sample_quality_eq Let_def by (auto split: if_splits)

lemma build_sample_Inl:
  "build_sample profile limit err ver fp d rq t sid ws ms = Inl e \<Longrightarrow> is_value_error e"
  unfolding build_sample_def rbind_Inl_iff provider_identity_def machine_identity_def Let_def
  by (elim disjE exE conjE; (erule identity_Inl quality_Inl)?) (auto simp: ReliabilityPolicy_init_def ProductIdentity_total split: if_splits)

lemma build_sample_Inr:
  assumes "build_sample profile limit err ver fp d rq t sid ws ms = Inr s"
  shows "smp_sample_id s = strip sid \<and> smp_created_at s = t \<and> smp_measurements s = ms \<and> ms \<noteq> []"
    and "qual_status (smp_quality s) = INVALID \<longleftrightarrow> SUCCESS \<notin> set (map meas_status ms)"
    and "wf_sample s \<longleftrightarrow> list_all wf_measurement ms"
    and "prot_profile (smp_protocol s) = strip profile \<and> prot_version (smp_protocol s) = strip ver \<and>
      prot_fingerprint (smp_protocol s) = strip fp"
    and "machine_identity d = Inr (smp_machine s)"
proof -
  obtain policy q pr pd mc pt where parts:
    "ReliabilityPolicy_init (Some limit) True True True = Inr policy"
    "evaluate_sample_quality ms ws err (Some policy) = Inr q" "provider_identity d rq = Inr pr"
    "ProductIdentity_init (opt_str (rq_product rq)) (opt_str (rq_plan rq)) (opt_str (rq_region rq)) (opt_str (rq_zone rq)) = Inr pd"
    "machine_identity d = Inr mc" "ProtocolIdentity_init (PStr profile) (PStr ver) (PStr fp) = Inr pt"
    "Sample_init (PStr sid) t pr pd mc pt ms q = Inr s"
    using assms unfolding build_sample_def rbind_Inr_iff by blast
  show "machine_identity d = Inr (smp_machine s)"
    and "smp_sample_id s = strip sid \<and> smp_created_at s = t \<and> smp_measurements s = ms \<and> ms \<noteq> []"
    and "prot_profile (smp_protocol s) = strip profile \<and> prot_version (smp_protocol s) = strip ver \<and>
      prot_fingerprint (smp_protocol s) = strip fp"
    using parts by (auto simp: Sample_init_def ProtocolIdentity_init_def required_str_def rbind_Inr_iff split: if_splits)
  have "qual_status q = INVALID \<longleftrightarrow> SUCCESS \<notin> set (map meas_status ms)"
    using parts(2) unfolding policy_budget [OF parts(1)] quality_with_budget by (auto split: if_splits)
  moreover have "smp_quality s = q" using parts(7) by (auto simp: Sample_init_def rbind_Inr_iff split: if_splits)
  ultimately show "qual_status (smp_quality s) = INVALID \<longleftrightarrow> SUCCESS \<notin> set (map meas_status ms)" by simp
  have "wf_provider pr" "wf_product pd" "wf_machine mc" "wf_protocol pt" "wf_quality q"
    using parts init_wf unfolding provider_identity_def machine_identity_def Let_def by (blast intro: quality_wf)+
  then show "wf_sample s \<longleftrightarrow> list_all wf_measurement ms" using Sample_init_wf [OF parts(7)] parts(7)
    by (auto simp: Sample_init_def wf_sample_def rbind_Inr_iff split: if_splits)
qed

section \<open>Measurements of a profile with evidence\<close>

definition value_raised :: "profile_error \<Rightarrow> bool" where
  "value_raised x = (case x of ProfileCancelled \<Rightarrow> False | ProfileRaised e \<Rightarrow> is_value_error e)"

definition failed_ok :: "Measurement \<Rightarrow> bool" where
  "failed_ok m \<longleftrightarrow> meas_status m = FAILED \<and> meas_metrics m = [] \<and> meas_raw_output_path m = None \<and> wf_measurement m"

lemma failed_measurement_cases:
  "case failed_measurement spec w ver sid k t of Inl x \<Rightarrow> value_raised x | Inr (m, ws, k') \<Rightarrow> failed_ok m \<and> ws = []"
proof (cases "spec_measurement spec w ver sid k FAILED [] None (Some (t @ '': '' @ ps_profile spec @ '' benchmark failed''))")
  case (Inl e)
  then show ?thesis
    using Measurement_strings_Inl unfolding failed_measurement_def spec_measurement_def value_raised_def by (auto split: sum.splits)
next
  case (Inr m)
  then show ?thesis
    using Measurement_strings [OF Inr [unfolded spec_measurement_def]] Measurement_init_wf [OF Inr [unfolded spec_measurement_def]]
    by (simp add: failed_measurement_def failed_ok_def)
qed

definition success_ok :: "Metric list \<Rightarrow> Measurement \<Rightarrow> bool" where
  "success_ok metrics m \<longleftrightarrow> meas_status m = SUCCESS \<and> meas_metrics m = metrics \<and>
     (wf_measurement m \<longleftrightarrow> list_all wf_metric metrics)"

lemma succeeded_measurement_cases:
  "case succeeded_measurement spec w ver sid metrics warnings path of
     Inl x \<Rightarrow> (if x = ProfileCancelled then cancelled_at w 2 else value_raised x)
   | Inr (m, ws, k') \<Rightarrow> success_ok metrics m \<and> meas_raw_output_path m =
         (case path of None \<Rightarrow> None | Some s \<Rightarrow> if strip s = [] then None else Some (strip s)) \<or> failed_ok m"
proof (cases "cancelled_at w 2")
  case False
  show ?thesis
  proof (cases "spec_measurement spec w ver sid 1 SUCCESS metrics path None")
    case (Inl e)
    then show ?thesis using False failed_measurement_cases [of spec w ver sid 2 "error_name e"]
      by (auto simp: succeeded_measurement_def value_raised_def split: sum.splits)
  next
    case (Inr m)
    then show ?thesis
      using False Measurement_strings [OF Inr [unfolded spec_measurement_def]] wf_measurement_metrics [OF Inr [unfolded spec_measurement_def]]
      by (simp add: succeeded_measurement_def success_ok_def)
  qed
qed (simp add: succeeded_measurement_def)

text \<open>The evidence document of a run, and the path it is written to.\<close>

definition evidence_text :: "run_world \<Rightarrow> string \<Rightarrow> (string \<times> pyval) list \<Rightarrow> string" where
  "evidence_text w sid evidence = wd_render w (sort_json (PDict (AList.update ''sample_id'' (PStr sid) evidence))) @ newline"

definition evidence_kept ::
  "profile_spec \<Rightarrow> run_request \<Rightarrow> run_world \<Rightarrow> string \<Rightarrow> (string \<times> pyval) list \<Rightarrow> files \<Rightarrow> files \<Rightarrow> Measurement \<Rightarrow> bool" where
  "evidence_kept spec rq w sid evidence fs fs' m = (case rq_raw_output_dir rq of
     None \<Rightarrow> fs' = fs \<and> meas_raw_output_path m = None
   | Some dir \<Rightarrow> (case safe_stem (sid @ ''-'' @ ps_profile spec) of
       Inl e \<Rightarrow> False
     | Inr cleaned \<Rightarrow> let target = joined_path dir (cleaned @ ''.json'') in
         meas_raw_output_path m = Some (strip target) \<and>
         map_of fs' = (map_of fs)(raw_temp_name dir cleaned (wd_random w) := None, target \<mapsto> evidence_text w sid evidence)))"

lemma strip_json_path: "strip (joined_path dir (cleaned @ ''.json'')) \<noteq> []"
proof -
  have "CHR ''j'' \<in> set (joined_path dir (cleaned @ ''.json''))" "\<not> is_space CHR ''j''"
    by (simp_all add: joined_path_def) (simp add: is_space_def code_def)
  then show ?thesis unfolding strip_Nil_iff list_all_iff by blast
qed

lemma profile_measurement_cases:
  "case profile_measurement spec rq w ver sid outcome fs of
     (fs', Inl x) \<Rightarrow> (if x = ProfileCancelled then outcome = CancelRequested \<or> cancelled_at w 1 \<or> cancelled_at w 2 else value_raised x)
   | (fs', Inr (m, ws, k)) \<Rightarrow> failed_ok m \<or>
       (case outcome of Completed metrics evidence ws' \<Rightarrow>
          success_ok metrics m \<and> evidence_kept spec rq w sid evidence fs fs' m
        | _ \<Rightarrow> False)"
proof (cases outcome)
  case CancelRequested
  then show ?thesis by (simp add: profile_measurement_def)
next
  case (RaisedType t)
  then show ?thesis using failed_measurement_cases [of spec w ver sid 1 t]
    by (auto simp: profile_measurement_def value_raised_def split: sum.splits)
next
  case (Completed metrics evidence warnings)
  show ?thesis
  proof (cases "cancelled_at w 1")
    case True
    then show ?thesis using Completed by (simp add: profile_measurement_def)
  next
    case live: False
    show ?thesis
    proof (cases "rq_raw_output_dir rq")
      case None
      then show ?thesis using live Completed succeeded_measurement_cases [of w metrics None spec ver sid warnings]
        by (auto simp: profile_measurement_def evidence_kept_def success_ok_def split: sum.splits if_splits)
    next
      case (Some dir)
      let ?wr = "write_raw_output (wd_render w) (wd_random w) (wd_fault w) (AList.update ''sample_id'' (PStr sid) evidence) dir
                 (sid @ ''-'' @ ps_profile spec) fs"
      obtain fs' r where w: "?wr = (fs', r)" by fastforce
      show ?thesis
      proof (cases r)
        case (Inl e)
        then show ?thesis using live Completed Some w failed_measurement_cases [of spec w ver sid 1 "error_name e"]
          by (auto simp: profile_measurement_def value_raised_def split: sum.splits)
      next
        case (Inr target)
        then show ?thesis using live Completed Some w write_raw_output_cases [OF w] strip_json_path
            succeeded_measurement_cases [of w metrics "Some target" spec ver sid warnings]
          by (auto simp: profile_measurement_def evidence_kept_def success_ok_def evidence_text_def Let_def split: sum.splits if_splits)
      qed
    qed
  qed
qed

section \<open>Properties\<close>

text \<open>
  C29: A run of a profile with evidence never claims more than it measured. It is abandoned only when
  the token was set at a checkpoint or the benchmark saw it, and what it raises is a \<open>ValueError\<close>. A sample
  it returns has one measurement. Either the benchmark returned, the measurement succeeded with its
  metrics, and the evidence document, with the sample's identifier in it, is the file its path names and
  the only file changed; or the measurement failed, without metrics or path, and the sample is invalid.
  The sample is well formed when the metrics are, and its protocol carries the fingerprint of the configuration.
\<close>

theorem profile_sample_faithful:
  "case run_spec_profile spec ver config_fields d rq w outcome fs of
     (fs', Inl x) \<Rightarrow> (if x = ProfileCancelled then outcome = CancelRequested \<or> list_ex (cancelled_at w) [0, 1, 2] else value_raised x)
   | (fs', Inr s) \<Rightarrow> smp_sample_id s = strip (resolved_sample_id (ps_profile spec) rq w) \<and>
       prot_fingerprint (smp_protocol s) = strip (fingerprint_of (wd_sha256 w) (wd_sorted_dumps w) config_fields) \<and>
       (case smp_measurements s of
          [m] \<Rightarrow> (qual_status (smp_quality s) = INVALID) = (meas_status m = FAILED) \<and>
            (if meas_status m = FAILED then wf_sample s \<and> failed_ok m else case outcome of
               Completed metrics evidence warnings \<Rightarrow> meas_status m = SUCCESS \<and> meas_metrics m = metrics \<and>
                 wf_sample s = list_all wf_metric metrics \<and>
                 evidence_kept spec rq w (resolved_sample_id (ps_profile spec) rq w) evidence fs fs' m
             | _ \<Rightarrow> False)
        | _ \<Rightarrow> False)"
proof (cases "cancelled_at w 0")
  case True
  then show ?thesis by (simp add: run_spec_profile_def)
next
  case live: False
  let ?sid = "resolved_sample_id (ps_profile spec) rq w"
  obtain fs' r where pm: "profile_measurement spec rq w ver ?sid outcome fs = (fs', r)" by fastforce
  note cases = profile_measurement_cases [of outcome w spec rq ?sid fs ver, unfolded pm prod.case]
  show ?thesis
  proof (cases r)
    case (Inl x)
    then show ?thesis using live pm cases by (auto simp: run_spec_profile_def)
  next
    case (Inr y)
    obtain m ws k where y: "y = (m, ws, k)" by (cases y)
    let ?b = "build_sample (ps_profile spec) (Fin (of_int (ps_budget spec))) (ps_profile spec @ ''_measurement_failed'') ver
              (fingerprint_of (wd_sha256 w) (wd_sorted_dumps w) config_fields) d rq (wd_clock w k) ?sid
              (dr_warnings d @ ws @ discovery_warnings d rq
                @ (if rq_raw_output_dir rq = None then [''raw_output_not_persisted''] else [])) [m]"
    have run: "run_spec_profile spec ver config_fields d rq w outcome fs = (fs', raised_by ?b)"
      using live pm Inr y by (simp add: run_spec_profile_def Let_def)
    show ?thesis
    proof (cases ?b)
      case (Inl e)
      then show ?thesis using build_sample_Inl [OF Inl] by (simp add: run raised_by_def value_raised_def)
    next
      case s: (Inr s)
      show ?thesis using build_sample_Inr [OF s] cases Inr y
        by (auto simp: run s raised_by_def failed_ok_def success_ok_def split: benchmark_outcome.splits)
    qed
  qed
qed

fun outcome_status :: "benchmark_outcome \<Rightarrow> MeasurementStatus" where
  "outcome_status (Completed metrics evidence warnings) = SUCCESS"
| "outcome_status _ = FAILED"

fun outcome_metrics :: "benchmark_outcome \<Rightarrow> Metric list" where
  "outcome_metrics (Completed metrics evidence warnings) = metrics"
| "outcome_metrics _ = []"

lemma opt_str_eqs: "opt_str None = PNone" "opt_str (Some s) = PStr s"
  by (simp_all add: opt_str_def)

lemma raised_by_Inl: "raised_by r = Inl x \<Longrightarrow> (\<And>e. r = Inl e \<Longrightarrow> is_value_error e) \<Longrightarrow> value_raised x \<and> x \<noteq> ProfileCancelled"
  by (auto simp: raised_by_def value_raised_def split: sum.splits)

lemma raised_by_Inr: "raised_by r = Inr y \<longleftrightarrow> r = Inr y"
  by (auto simp: raised_by_def split: sum.splits)

text \<open>What a measurement of the general profile says of its benchmark.\<close>

definition general_ok :: "string \<Rightarrow> MeasurementStatus \<Rightarrow> Metric list \<Rightarrow> Measurement \<Rightarrow> bool" where
  "general_ok mid status metrics m \<longleftrightarrow> meas_status m = status \<and> meas_measurement_id m = strip mid \<and> meas_metrics m = metrics \<and>
     (wf_measurement m \<longleftrightarrow> list_all wf_metric metrics)"

lemma plain_measurement:
  assumes r: "r = Measurement_init (PStr mid) (PStr tool) (PStr pv) (PStr pf) (PStr ver) t0 t1 status metrics PNone (opt_str err)"
  shows "case raised_by r of Inl x \<Rightarrow> value_raised x \<and> x \<noteq> ProfileCancelled | Inr m \<Rightarrow> general_ok mid status metrics m"
proof (cases r)
  case (Inl e)
  then have "is_value_error e" unfolding r opt_str_eqs(1) [symmetric] by (rule Measurement_strings_Inl)
  then show ?thesis by (simp add: Inl raised_by_def value_raised_def)
next
  case (Inr m)
  note made = Inr [unfolded r opt_str_eqs(1) [symmetric]]
  show ?thesis using Measurement_strings [OF made] wf_measurement_metrics [OF made]
    by (simp add: Inr raised_by_def general_ok_def)
qed

lemma general_measurement_cases:
  "case general_measurement w ver mid tool k outcome of
     Inl x \<Rightarrow> (if x = ProfileCancelled then outcome = CancelRequested else value_raised x)
   | Inr m \<Rightarrow> general_ok mid (outcome_status outcome) (outcome_metrics outcome) m"
proof (cases outcome)
  case (Completed metrics evidence warnings)
  show ?thesis
    using plain_measurement [OF refl, of mid SUCCESS metrics tool "wd_python_version w" "''general''" ver "wd_clock w k" "wd_clock w (Suc k)" None]
    by (auto simp: general_measurement_def Completed opt_str_eqs split: sum.splits)
next
  case (RaisedType t)
  show ?thesis
    using plain_measurement [OF refl, of mid FAILED "[]" tool "wd_python_version w" "''general''" ver "wd_clock w k" "wd_clock w (Suc k)"
      "Some (t @ '': benchmark failed'')"]
    by (auto simp: general_measurement_def RaisedType opt_str_eqs split: sum.splits)
qed (simp add: general_measurement_def)

lemma skipped_storage_cases:
  "case skipped_storage w ver sid k of
     Inl x \<Rightarrow> value_raised x \<and> x \<noteq> ProfileCancelled | Inr m \<Rightarrow> general_ok (sid @ ''-storage'') SKIPPED [] m"
  using plain_measurement [OF refl, of "sid @ ''-storage''" SKIPPED "[]" "''python-sequential-io''" "wd_python_version w" "''general''" ver
    "wd_clock w k" "wd_clock w k" "Some ''storage benchmark disabled by configuration''"]
  by (simp add: skipped_storage_def opt_str_eqs)

text \<open>
  The general profile reports each of its benchmarks. It is abandoned only when the token was set
  at its start or a benchmark it ran saw it. A sample it returns has the measurements for the processor,
  the memory and the storage, in this order, each successful exactly when its benchmark returned and
  with its metrics, the storage skipped when the configuration leaves it out; it is invalid exactly when
  no benchmark succeeded, and well formed when the metrics are.
\<close>

theorem general_profile_accounts:
  "let sid = resolved_sample_id ''general'' rq w; include = gp_include_storage config;
       outcomes = (if include then [cpu, memory, storage] else [cpu, memory]);
       statuses = map outcome_status outcomes @ (if include then [] else [SKIPPED]) in
   case run_general_profile config d rq w cpu memory storage of
     Inl x \<Rightarrow> (if x = ProfileCancelled then cancelled_at w 0 \<or> CancelRequested \<in> set outcomes else value_raised x)
   | Inr s \<Rightarrow> smp_sample_id s = strip sid \<and>
       map meas_status (smp_measurements s) = statuses \<and>
       map meas_measurement_id (smp_measurements s) = map strip [sid @ ''-cpu'', sid @ ''-memory'', sid @ ''-storage''] \<and>
       concat (map meas_metrics (smp_measurements s)) = concat (map outcome_metrics outcomes) \<and>
       (qual_status (smp_quality s) = INVALID) = (SUCCESS \<notin> set statuses) \<and>
       wf_sample s = list_all wf_metric (concat (map outcome_metrics outcomes))"
proof (cases "cancelled_at w 0")
  case True
  then show ?thesis by (simp add: run_general_profile_def Let_def)
next
  case live: False
  let ?sid = "resolved_sample_id ''general'' rq w" and ?ver = "gp_version config"
  let ?third = "if gp_include_storage config then general_measurement w ?ver (?sid @ ''-storage'') ''python-sequential-io'' 4 storage
              else skipped_storage w ?ver ?sid 4"
  let ?build = "\<lambda>m1 m2 m3. build_sample ''general'' (Fin 120) ''no_successful_measurements'' ?ver
            (fingerprint_of (wd_sha256 w) (wd_sorted_dumps w) (general_fields config)) d rq
            (wd_clock w (if gp_include_storage config then 6 else 5)) ?sid
            (dr_warnings d @ discovery_warnings d rq) [m1, m2, m3]"
  note c1 = general_measurement_cases [of cpu "?sid @ ''-cpu''" w ?ver "''python-sha256''" 0]
  note c2 = general_measurement_cases [of memory "?sid @ ''-memory''" w ?ver "''python-memory-copy''" 2]
  have c3: "case ?third of
      Inl x \<Rightarrow> (if x = ProfileCancelled then gp_include_storage config \<and> storage = CancelRequested else value_raised x)
    | Inr m \<Rightarrow> (if gp_include_storage config then general_ok (?sid @ ''-storage'') (outcome_status storage) (outcome_metrics storage) m
        else general_ok (?sid @ ''-storage'') SKIPPED [] m)"
    using general_measurement_cases [of storage "?sid @ ''-storage''" w ?ver "''python-sequential-io''" 4]
      skipped_storage_cases [of "?sid" w ?ver 4]
    by (auto split: sum.splits)
  show ?thesis
  proof (cases "general_measurement w ?ver (?sid @ ''-cpu'') ''python-sha256'' 0 cpu")
    case (Inl x)
    then show ?thesis using live c1 by (auto simp: run_general_profile_def Let_def)
  next
    case m1: (Inr m1)
    show ?thesis
    proof (cases "general_measurement w ?ver (?sid @ ''-memory'') ''python-memory-copy'' 2 memory")
      case (Inl x)
      then show ?thesis using live m1 c2 by (auto simp: run_general_profile_def Let_def)
    next
      case m2: (Inr m2)
      show ?thesis
      proof (cases ?third)
        case (Inl x)
        then show ?thesis using live m1 m2 c3 by (auto simp: run_general_profile_def Let_def)
      next
        case m3: (Inr m3)
        have run: "run_general_profile config d rq w cpu memory storage = raised_by (?build m1 m2 m3)"
          using live m1 m2 m3 by (simp add: run_general_profile_def Let_def)
        show ?thesis
        proof (cases "?build m1 m2 m3")
          case (Inl e)
          then show ?thesis using build_sample_Inl [OF Inl] unfolding run by (simp add: raised_by_def value_raised_def Let_def)
        next
          case s: (Inr s)
          show ?thesis using build_sample_Inr [OF s] c1 c2 c3 unfolding run s m1 m2 m3 raised_by_def Let_def sum.case
            by (cases "gp_include_storage config") (simp_all add: general_ok_def)
        qed
      qed
    qed
  qed
qed

section \<open>Gaps\<close>

definition demo_discovery :: DiscoveryResult where
  "demo_discovery = \<lparr>dr_schema_version = ''1.0.0'', dr_discovered_at = utc 0,
     dr_system = \<lparr>sys_os_name = ''Linux'', sys_os_version = ''1'', sys_kernel_version = ''6'', sys_architecture = ''x86_64'',
       sys_python_version = ''3.13'', sys_timezone = ''UTC''\<rparr>,
     dr_hardware = fallback_hardware, dr_virtualization = virtualization UNKNOWN_KIND None ConfidenceLow [],
     dr_provider = \<lparr>pi_provider_id = None, pi_provider_name = None, pi_confidence = ConfidenceLow, pi_source = ''unknown'',
       pi_evidence = []\<rparr>, dr_network = fallback_network, dr_warnings = []\<rparr>"

definition demo_request :: "string \<Rightarrow> string option \<Rightarrow> run_request" where
  "demo_request sid country = \<lparr>rq_sample_id = Some sid, rq_raw_output_dir = Some ''raw'', rq_provider_id = Some ''acme'',
     rq_provider_name = Some ''Acme'', rq_country_code = country, rq_product = None, rq_plan = None, rq_region = None,
     rq_zone = None\<rparr>"

text \<open>The demo renders a document as the sample identifier in it.\<close>

definition demo_world :: run_world where
  "demo_world = \<lparr>wd_clock = (\<lambda>k. utc 0), wd_token = Some (\<lambda>k. False), wd_python_version = ''3.13'', wd_uuid_hex = ''0'',
     wd_random = ''r'', wd_fault = NoFault,
     wd_render = (\<lambda>v. case v of PDict d \<Rightarrow> (case map_of d ''sample_id'' of Some (PStr s) \<Rightarrow> s | _ \<Rightarrow> []) | _ \<Rightarrow> []),
     wd_sha256 = (\<lambda>s. ''0''), wd_sorted_dumps = (\<lambda>v. ''{}'')\<rparr>"

definition demo_storage_run :: "string \<Rightarrow> string option \<Rightarrow> files \<Rightarrow> files \<times> (profile_error + Sample)" where
  "demo_storage_run sid country fs = (case StorageProfileConfig_quick of
     Inl e \<Rightarrow> (fs, Inl (ProfileRaised e))
   | Inr config \<Rightarrow> run_storage_profile config demo_discovery (demo_request sid country) demo_world (Completed
       [\<lparr>metric_name = ''m'', metric_value = Fin 1, metric_unit = ''u'', metric_direction = HIGHER_IS_BETTER\<rparr>] [] []) fs)"

definition run_paths :: "profile_error + Sample \<Rightarrow> (string \<times> string option list) option" where
  "run_paths r = (case r of Inl e \<Rightarrow> None | Inr s \<Rightarrow> Some (smp_sample_id s, map meas_raw_output_path (smp_measurements s)))"

text \<open>
  Three gaps of a profile run. A machine whose memory size is unknown is recorded exactly like one
  with a single byte, and the size is part of the cohort key. Two different sample identifiers can have
  one evidence file: the second run replaces the evidence of the first without an error, and both samples
  name it. And a malformed country code is refused only when the sample is built: the benchmark has run,
  the evidence is written, and no sample comes out.
\<close>

theorem profile_gaps:
  "machine_identity (d\<lparr>dr_hardware := (dr_hardware d)\<lparr>hw_memory_bytes := None\<rparr>\<rparr>) =
     machine_identity (d\<lparr>dr_hardware := (dr_hardware d)\<lparr>hw_memory_bytes := Some 1\<rparr>\<rparr>) \<and>
   (let (fs1, r1) = demo_storage_run ''run:1'' None []; (fs2, r2) = demo_storage_run ''run/1'' None fs1 in
     run_paths r1 = Some (''run:1'', [Some ''raw/run-1-storage.json'']) \<and>
     run_paths r2 = Some (''run/1'', [Some ''raw/run-1-storage.json'']) \<and>
     fs1 = [(''raw/run-1-storage.json'', ''run:1'' @ newline)] \<and> fs2 = [(''raw/run-1-storage.json'', ''run/1'' @ newline)]) \<and>
   demo_storage_run ''a'' (Some ''XYZ'') [] = ([(''raw/a-storage.json'', ''a'' @ newline)],
     Inl (ProfileRaised (ValueError ''country_code must be a 2-letter code'')))"
proof (intro conjI)
  show "machine_identity (d\<lparr>dr_hardware := (dr_hardware d)\<lparr>hw_memory_bytes := None\<rparr>\<rparr>) =
     machine_identity (d\<lparr>dr_hardware := (dr_hardware d)\<lparr>hw_memory_bytes := Some 1\<rparr>\<rparr>)"
    by (simp add: machine_identity_def Let_def)
  show "let (fs1, r1) = demo_storage_run ''run:1'' None []; (fs2, r2) = demo_storage_run ''run/1'' None fs1 in
     run_paths r1 = Some (''run:1'', [Some ''raw/run-1-storage.json'']) \<and>
     run_paths r2 = Some (''run/1'', [Some ''raw/run-1-storage.json'']) \<and>
     fs1 = [(''raw/run-1-storage.json'', ''run:1'' @ newline)] \<and> fs2 = [(''raw/run-1-storage.json'', ''run/1'' @ newline)]"
    by code_simp
  show "demo_storage_run ''a'' (Some ''XYZ'') [] = ([(''raw/a-storage.json'', ''a'' @ newline)],
     Inl (ProfileRaised (ValueError ''country_code must be a 2-letter code'')))"
    by code_simp
qed

end
