(* ===== verification/Isolation.thy ===== *)
theory Isolation
  imports Models
begin

text \<open>
  \<open>execution/isolation.py\<close> and \<open>execution/cancellation.py\<close>: a parent runs one target in a child
  process, waits for it within a deadline, asks it to stop, terminates it, kills it. The parent and
  its child are one transition relation. Time passes in ticks, and only while the parent waits for
  something that has not happened. The steps are split by who makes them: the child and the operating
  system under it, which may end it at any time, also in the middle of a write to the queue's pipe;
  the user, who may interrupt; and the parent, with the effect of the \<open>SIGKILL\<close> it sends.
\<close>

section \<open>cancellation.py\<close>

text \<open>A token is its event.\<close>

record CancellationToken =
  tk_set :: bool

definition local_token :: CancellationToken where "local_token = \<lparr>tk_set = False\<rparr>"

definition is_cancellation_requested :: "CancellationToken \<Rightarrow> bool" where
  "is_cancellation_requested token = tk_set token"

definition request_cancellation :: "CancellationToken \<Rightarrow> CancellationToken" where
  "request_cancellation token = token\<lparr>tk_set := True\<rparr>"

datatype cancellation_error = CancellationRequested string

definition token_checkpoint :: "CancellationToken \<Rightarrow> cancellation_error + unit" where
  "token_checkpoint token = (if is_cancellation_requested token
     then Inl (CancellationRequested ''CloudEyes execution cancellation requested'') else Inr ())"

section \<open>The state of one isolated run\<close>

datatype 'v payload = OkPayload 'v | ErrorPayload string string string

text \<open>
  A child computes, or has put its payload into the queue, whose feeder thread writes it to the
  pipe, or has ended with an exit code.
\<close>

datatype 'v child = Working | Flushing "'v payload" | Ended int

datatype stop_reason = Interrupted | DeadlinePassed

datatype 'v outcome =
    Returned 'v int
  | Cancelled bool
  | TimedOut bool
  | NoResult int
  | ChildFailed string
  | Escaped

text \<open>
  \<open>is_pipe\<close> is a complete payload in the pipe and \<open>is_torn\<close> the beginning of one whose writer is gone.
  Where the parent is, with the ticks its wait has left: \<open>process.join(timeout_seconds)\<close>; the join
  after the token was set; \<open>_hard_stop_process\<close> before and after \<open>terminate\<close> and after \<open>kill\<close>; and
  \<open>result_queue.get(timeout=1.0)\<close>.
\<close>

datatype 'v stage =
    Joining nat
  | Cooperating stop_reason nat
  | HardStop stop_reason
  | Terminating stop_reason nat
  | Killing stop_reason
  | Getting int nat
  | Finished "'v outcome"

record 'v isolated =
  is_stage :: "'v stage"
  is_child :: "'v child"
  is_pipe :: "'v payload option"
  is_torn :: bool
  is_token :: CancellationToken
  is_elapsed :: nat

record time_limits =
  lim_timeout :: nat
  lim_grace :: nat
  lim_terminate_grace :: nat
  lim_get :: nat

fun alive :: "'v child \<Rightarrow> bool" where
  "alive (Ended c) = False"
| "alive c = True"

lemma alive_iff: "alive c \<longleftrightarrow> (\<forall>e. c \<noteq> Ended e)"
  by (cases c) simp_all

text \<open>What the parent makes of a payload, and of a child that had to be stopped.\<close>

fun payload_outcome :: "int \<Rightarrow> 'v payload \<Rightarrow> 'v outcome" where
  "payload_outcome c (OkPayload v) = Returned v c"
| "payload_outcome c (ErrorPayload error_type message trace) =
    ChildFailed ((if message \<noteq> [] then error_type @ '': '' @ message else error_type) @ [CHR 0x0A] @ trace)"

fun stopped :: "stop_reason \<Rightarrow> bool \<Rightarrow> 'v outcome" where
  "stopped Interrupted cooperative = Cancelled cooperative"
| "stopped DeadlinePassed cooperative = TimedOut cooperative"

text \<open>The arguments are numbers of ticks.\<close>

definition start_isolated :: "int \<Rightarrow> int \<Rightarrow> int \<Rightarrow> nat \<Rightarrow> string option \<Rightarrow> (time_limits \<times> 'v isolated) result" where
  "start_isolated timeout_seconds grace_seconds terminate_grace_seconds second cancellation_kwarg =
    (if timeout_seconds \<le> 0 then Inl (ValueError ''timeout_seconds must be greater than zero'')
     else if grace_seconds < 0 then Inl (ValueError ''grace_seconds must not be negative'')
     else if terminate_grace_seconds < 0 then Inl (ValueError ''terminate_grace_seconds must not be negative'')
     else if cancellation_kwarg = Some [] then Inl (ValueError ''cancellation_kwarg must not be empty'')
     else Inr (\<lparr>lim_timeout = nat timeout_seconds, lim_grace = nat grace_seconds,
         lim_terminate_grace = nat terminate_grace_seconds, lim_get = second\<rparr>,
       \<lparr>is_stage = Joining (nat timeout_seconds), is_child = Working, is_pipe = None, is_torn = False, is_token = local_token,
         is_elapsed = 0\<rparr>))"

section \<open>Steps\<close>

text \<open>
  The child. \<open>fits\<close> says which payloads the pipe takes before anyone reads it: a child whose payload does
  not fit stays in the flush, because the parent reads only after the join. A child may be gone at any
  time; in the flush it leaves nothing, all of the payload, or the beginning of it in the pipe.
\<close>

inductive child_step :: "('v payload \<Rightarrow> bool) \<Rightarrow> 'v isolated \<Rightarrow> 'v isolated \<Rightarrow> bool" for fits where
  ChildPut: "is_child s = Working \<Longrightarrow> child_step fits s (s\<lparr>is_child := Flushing p\<rparr>)"
| ChildExit: "is_child s = Flushing p \<Longrightarrow> fits p \<Longrightarrow>
    child_step fits s (s\<lparr>is_child := Ended c, is_pipe := Some p\<rparr>)"
| ChildDies: "alive (is_child s) \<Longrightarrow> child_step fits s (s\<lparr>is_child := Ended c\<rparr>)"
| ChildTorn: "is_child s = Flushing p \<Longrightarrow> child_step fits s (s\<lparr>is_child := Ended c, is_torn := True\<rparr>)"

text \<open>\<open>KeyboardInterrupt\<close>: caught during the first join, and nowhere else.\<close>

inductive interrupt_step :: "time_limits \<Rightarrow> 'v isolated \<Rightarrow> 'v isolated \<Rightarrow> bool" for lims where
  JoinInterrupted: "is_stage s = Joining n \<Longrightarrow>
    interrupt_step lims s (s\<lparr>is_stage := Cooperating Interrupted (lim_grace lims),
      is_token := request_cancellation (is_token s)\<rparr>)"
| InterruptedAgain: "is_stage s \<in> {Joining 0, Cooperating r n, HardStop r, Terminating r n, Killing r, Getting c n} \<Longrightarrow>
    interrupt_step lims s (s\<lparr>is_stage := Finished Escaped\<rparr>)"

text \<open>
  The parent. A read finds a complete payload or an empty pipe. The beginning of a payload makes
  \<open>get\<close> wait for the rest, without the timeout, and since the parent keeps a writing end of the pipe
  itself, there is no end of file either: no step leaves that wait.
\<close>

inductive parent_step :: "time_limits \<Rightarrow> 'v isolated \<Rightarrow> 'v isolated \<Rightarrow> bool" for lims where
  Joined: "is_stage s = Joining n \<Longrightarrow> is_child s = Ended c \<Longrightarrow>
    parent_step lims s (s\<lparr>is_stage := Getting c (lim_get lims)\<rparr>)"
| JoinTick: "is_stage s = Joining (Suc n) \<Longrightarrow> alive (is_child s) \<Longrightarrow>
    parent_step lims s (s\<lparr>is_stage := Joining n, is_elapsed := is_elapsed s + 1\<rparr>)"
| JoinTimeout: "is_stage s = Joining 0 \<Longrightarrow> alive (is_child s) \<Longrightarrow>
    parent_step lims s (s\<lparr>is_stage := Cooperating DeadlinePassed (lim_grace lims),
      is_token := request_cancellation (is_token s)\<rparr>)"
| Cooperated: "is_stage s = Cooperating r n \<Longrightarrow> is_child s = Ended c \<Longrightarrow>
    parent_step lims s (s\<lparr>is_stage := Finished (stopped r True)\<rparr>)"
| CooperateTick: "is_stage s = Cooperating r (Suc n) \<Longrightarrow> alive (is_child s) \<Longrightarrow>
    parent_step lims s (s\<lparr>is_stage := Cooperating r n, is_elapsed := is_elapsed s + 1\<rparr>)"
| CooperateTimeout: "is_stage s = Cooperating r 0 \<Longrightarrow> alive (is_child s) \<Longrightarrow>
    parent_step lims s (s\<lparr>is_stage := HardStop r\<rparr>)"
| EndedBefore: "is_stage s = HardStop r \<Longrightarrow> is_child s = Ended c \<Longrightarrow>
    parent_step lims s (s\<lparr>is_stage := Finished (stopped r False)\<rparr>)"
| Terminate: "is_stage s = HardStop r \<Longrightarrow> alive (is_child s) \<Longrightarrow>
    parent_step lims s (s\<lparr>is_stage := Terminating r (lim_terminate_grace lims)\<rparr>)"
| Terminated: "is_stage s = Terminating r n \<Longrightarrow> is_child s = Ended c \<Longrightarrow>
    parent_step lims s (s\<lparr>is_stage := Finished (stopped r False)\<rparr>)"
| TerminateTick: "is_stage s = Terminating r (Suc n) \<Longrightarrow> alive (is_child s) \<Longrightarrow>
    parent_step lims s (s\<lparr>is_stage := Terminating r n, is_elapsed := is_elapsed s + 1\<rparr>)"
| Kill: "is_stage s = Terminating r 0 \<Longrightarrow> alive (is_child s) \<Longrightarrow>
    parent_step lims s (s\<lparr>is_stage := Killing r\<rparr>)"
| KillEffective: "is_stage s = Killing r \<Longrightarrow> alive (is_child s) \<Longrightarrow>
    parent_step lims s (s\<lparr>is_child := Ended (- 9)\<rparr>)"
| Killed: "is_stage s = Killing r \<Longrightarrow> is_child s = Ended c \<Longrightarrow>
    parent_step lims s (s\<lparr>is_stage := Finished (stopped r False)\<rparr>)"
| Received: "is_stage s = Getting c n \<Longrightarrow> is_pipe s = Some p \<Longrightarrow>
    parent_step lims s (s\<lparr>is_stage := Finished (payload_outcome c p)\<rparr>)"
| GetTick: "is_stage s = Getting c (Suc n) \<Longrightarrow> is_pipe s = None \<Longrightarrow> \<not> is_torn s \<Longrightarrow>
    parent_step lims s (s\<lparr>is_stage := Getting c n, is_elapsed := is_elapsed s + 1\<rparr>)"
| QueueEmpty: "is_stage s = Getting c 0 \<Longrightarrow> is_pipe s = None \<Longrightarrow> \<not> is_torn s \<Longrightarrow>
    parent_step lims s (s\<lparr>is_stage := Finished (NoResult c)\<rparr>)"

inductive isolation_step :: "time_limits \<Rightarrow> ('v payload \<Rightarrow> bool) \<Rightarrow> 'v isolated \<Rightarrow> 'v isolated \<Rightarrow> bool"
  for lims fits where
  Child: "child_step fits s t \<Longrightarrow> isolation_step lims fits s t"
| Interrupt: "interrupt_step lims s t \<Longrightarrow> isolation_step lims fits s t"
| Parent: "parent_step lims s t \<Longrightarrow> isolation_step lims fits s t"

lemmas child_moves = isolation_step.Child [OF child_step.ChildPut] isolation_step.Child [OF child_step.ChildExit]
  isolation_step.Child [OF child_step.ChildDies] isolation_step.Child [OF child_step.ChildTorn]

lemmas parent_moves = parent_step.intros [THEN isolation_step.Parent]

abbreviation isolation_run :: "time_limits \<Rightarrow> ('v payload \<Rightarrow> bool) \<Rightarrow> 'v isolated \<Rightarrow> 'v isolated \<Rightarrow> bool" where
  "isolation_run lims fits \<equiv> (isolation_step lims fits)\<^sup>*\<^sup>*"

text \<open>The parent on its own: the child makes no step and nobody interrupts.\<close>

abbreviation parent_run :: "time_limits \<Rightarrow> 'v isolated \<Rightarrow> 'v isolated \<Rightarrow> bool" where
  "parent_run lims \<equiv> (parent_step lims)\<^sup>*\<^sup>*"

text \<open>The parent waits for the rest of a payload whose writer is gone.\<close>

definition hung :: "'v isolated \<Rightarrow> bool" where
  "hung s \<longleftrightarrow> is_torn s \<and> (case is_stage s of Getting c n \<Rightarrow> True | _ \<Rightarrow> False)"

definition is_finished :: "'v isolated \<Rightarrow> bool" where
  "is_finished s = (case is_stage s of Finished x \<Rightarrow> True | _ \<Rightarrow> False)"

section \<open>Every run ends\<close>

fun stage_rank :: "time_limits \<Rightarrow> 'v stage \<Rightarrow> nat" where
  "stage_rank lims (Joining n) = n + lim_grace lims + lim_terminate_grace lims + lim_get lims + 8"
| "stage_rank lims (Cooperating r n) = n + lim_terminate_grace lims + 5"
| "stage_rank lims (HardStop r) = lim_terminate_grace lims + 4"
| "stage_rank lims (Terminating r n) = n + 3"
| "stage_rank lims (Killing r) = 2"
| "stage_rank lims (Getting c n) = n + 1"
| "stage_rank lims (Finished x) = 0"

fun child_rank :: "'v child \<Rightarrow> nat" where
  "child_rank Working = 2"
| "child_rank (Flushing p) = 1"
| "child_rank (Ended c) = 0"

definition steps_left :: "time_limits \<Rightarrow> 'v isolated \<Rightarrow> nat" where
  "steps_left lims s = stage_rank lims (is_stage s) + child_rank (is_child s)"

lemma alive_rank: "alive c \<longleftrightarrow> 0 < child_rank c"
  by (cases c) simp_all

lemma child_decreases: "child_step fits s t \<Longrightarrow> steps_left lims t < steps_left lims s"
  by (induction rule: child_step.induct) (auto simp: steps_left_def alive_rank)

lemma interrupt_decreases: "interrupt_step lims s t \<Longrightarrow> steps_left lims t < steps_left lims s"
  by (induction rule: interrupt_step.induct) (auto simp: steps_left_def)

lemma parent_decreases: "parent_step lims s t \<Longrightarrow> steps_left lims t < steps_left lims s"
  by (induction rule: parent_step.induct) (auto simp: steps_left_def alive_rank)

lemma step_decreases: "isolation_step lims fits s t \<Longrightarrow> steps_left lims t < steps_left lims s"
  by (induction rule: isolation_step.induct) (auto intro: child_decreases interrupt_decreases parent_decreases)

lemma run_bounded: "(isolation_step lims fits ^^ k) s t \<Longrightarrow> k + steps_left lims t \<le> steps_left lims s"
proof (induction k arbitrary: t)
  case (Suc k)
  then obtain u where "(isolation_step lims fits ^^ k) s u" "isolation_step lims fits u t" by auto
  with Suc.IH step_decreases show ?case by fastforce
qed simp

text \<open>
  The parent always has a step of its own, whatever the child does or does not do, unless it has
  finished or hangs.
\<close>

lemma parent_not_stuck:
  assumes "\<not> is_finished s" and "\<not> hung s"
  shows "\<exists>t. parent_step lims s t"
proof -
  consider c where "is_child s = Ended c" | "alive (is_child s)" by (cases "is_child s") simp_all
  note child = this
  show ?thesis
  proof (cases "is_stage s")
    case (Joining n)
    then show ?thesis using child by cases (cases n, auto intro: parent_step.Joined parent_step.JoinTick parent_step.JoinTimeout)+
  next
    case (Cooperating r n)
    then show ?thesis using child
      by cases (cases n, auto intro: parent_step.Cooperated parent_step.CooperateTick parent_step.CooperateTimeout)+
  next
    case (HardStop r)
    then show ?thesis using child by cases (auto intro: parent_step.EndedBefore parent_step.Terminate)
  next
    case (Terminating r n)
    then show ?thesis using child
      by cases (cases n, auto intro: parent_step.Terminated parent_step.TerminateTick parent_step.Kill)+
  next
    case (Killing r)
    then show ?thesis using child by cases (auto intro: parent_step.Killed parent_step.KillEffective)
  next
    case (Getting c n)
    then show ?thesis using assms(2)
      by (cases "is_pipe s"; cases n)
        (auto simp: hung_def intro: parent_step.Received parent_step.GetTick parent_step.QueueEmpty)
  next
    case (Finished x)
    with assms(1) show ?thesis by (simp add: is_finished_def)
  qed
qed

lemma hung_stuck:
  assumes "hung s" and "is_pipe s = None"
  shows "\<not> parent_step lims s t"
proof
  assume "parent_step lims s t"
  then show False using assms by (induction rule: parent_step.induct) (auto simp: hung_def)
qed

lemma parent_torn: "parent_step lims s t \<Longrightarrow> is_torn t = is_torn s"
  by (induction rule: parent_step.induct) simp_all

lemma parent_finishes: "\<exists>t. parent_run lims s t \<and> (is_finished t \<or> hung t) \<and> is_torn t = is_torn s"
proof (induction "steps_left lims s" arbitrary: s rule: less_induct)
  case less
  show ?case
  proof (cases "is_finished s \<or> hung s")
    case False
    then obtain u where u: "parent_step lims s u" using parent_not_stuck by blast
    from less [OF parent_decreases [OF u]] obtain t where
      "parent_run lims u t" "is_finished t \<or> hung t" "is_torn t = is_torn u" by blast
    with u parent_torn [OF u] show ?thesis by (meson converse_rtranclp_into_rtranclp)
  qed blast
qed

section \<open>What holds in every reachable state\<close>

fun reason_ok :: "time_limits \<Rightarrow> nat \<Rightarrow> stop_reason \<Rightarrow> bool" where
  "reason_ok lims elapsed DeadlinePassed \<longleftrightarrow> lim_timeout lims \<le> elapsed"
| "reason_ok lims elapsed Interrupted \<longleftrightarrow> True"

definition stop_budget :: "time_limits \<Rightarrow> nat" where
  "stop_budget lims = lim_timeout lims + lim_grace lims + lim_terminate_grace lims"

fun outcome_ok :: "time_limits \<Rightarrow> 'v isolated \<Rightarrow> 'v outcome \<Rightarrow> bool" where
  "outcome_ok lims s (Returned v c) \<longleftrightarrow> is_child s = Ended c \<and> is_pipe s = Some (OkPayload v)"
| "outcome_ok lims s (ChildFailed m) \<longleftrightarrow> \<not> alive (is_child s) \<and>
    (case is_pipe s of Some (ErrorPayload e x t) \<Rightarrow> True | _ \<Rightarrow> False)"
| "outcome_ok lims s (NoResult c) \<longleftrightarrow> is_child s = Ended c \<and> is_pipe s = None"
| "outcome_ok lims s (TimedOut b) \<longleftrightarrow> \<not> alive (is_child s) \<and> tk_set (is_token s) \<and> lim_timeout lims \<le> is_elapsed s"
| "outcome_ok lims s (Cancelled b) \<longleftrightarrow> \<not> alive (is_child s) \<and> tk_set (is_token s)"
| "outcome_ok lims s Escaped \<longleftrightarrow> True"

fun stage_ok :: "time_limits \<Rightarrow> 'v isolated \<Rightarrow> 'v stage \<Rightarrow> bool" where
  "stage_ok lims s (Joining n) \<longleftrightarrow> is_elapsed s + n = lim_timeout lims \<and> \<not> tk_set (is_token s)"
| "stage_ok lims s (Cooperating r n) \<longleftrightarrow> is_elapsed s + n + lim_terminate_grace lims \<le> stop_budget lims \<and>
    tk_set (is_token s) \<and> reason_ok lims (is_elapsed s) r"
| "stage_ok lims s (HardStop r) \<longleftrightarrow> is_elapsed s + lim_terminate_grace lims \<le> stop_budget lims \<and>
    tk_set (is_token s) \<and> reason_ok lims (is_elapsed s) r"
| "stage_ok lims s (Terminating r n) \<longleftrightarrow> is_elapsed s + n \<le> stop_budget lims \<and>
    tk_set (is_token s) \<and> reason_ok lims (is_elapsed s) r"
| "stage_ok lims s (Killing r) \<longleftrightarrow> is_elapsed s \<le> stop_budget lims \<and>
    tk_set (is_token s) \<and> reason_ok lims (is_elapsed s) r"
| "stage_ok lims s (Getting c n) \<longleftrightarrow> is_child s = Ended c \<and> is_elapsed s + n \<le> lim_timeout lims + lim_get lims"
| "stage_ok lims s (Finished x) \<longleftrightarrow> outcome_ok lims s x \<and>
    is_elapsed s \<le> max (stop_budget lims) (lim_timeout lims + lim_get lims)"

definition isolation_inv :: "time_limits \<Rightarrow> ('v payload \<Rightarrow> bool) \<Rightarrow> 'v isolated \<Rightarrow> bool" where
  "isolation_inv lims fits s \<longleftrightarrow> stage_ok lims s (is_stage s) \<and>
    (case is_pipe s of None \<Rightarrow> True | Some p \<Rightarrow> fits p \<and> \<not> alive (is_child s) \<and> \<not> is_torn s) \<and>
    (is_torn s \<longrightarrow> \<not> alive (is_child s))"

lemma outcome_ok_stopped:
  "\<not> alive (is_child s) \<Longrightarrow> tk_set (is_token s) \<Longrightarrow> reason_ok lims (is_elapsed s) r \<Longrightarrow>
   outcome_ok lims (s\<lparr>is_stage := x\<rparr>) (stopped r b)"
  by (cases r) simp_all

lemma outcome_ok_payload:
  "is_child s = Ended c \<Longrightarrow> is_pipe s = Some p \<Longrightarrow> outcome_ok lims (s\<lparr>is_stage := x\<rparr>) (payload_outcome c p)"
  by (cases p) simp_all

lemma outcome_ok_alive: "alive (is_child s) \<Longrightarrow> outcome_ok lims s x \<longleftrightarrow> x = Escaped"
  by (cases x) (auto simp: alive_iff)

lemma stage_ok_child:
  "alive (is_child s) \<Longrightarrow> stage_ok lims s st \<Longrightarrow> stage_ok lims (s\<lparr>is_child := c, is_pipe := p, is_torn := torn\<rparr>) st"
  by (cases st) (auto simp: outcome_ok_alive alive_iff)

lemma stage_ok_child_simps:
  "alive (is_child s) \<Longrightarrow> stage_ok lims s st \<Longrightarrow> stage_ok lims (s\<lparr>is_child := c\<rparr>) st"
  "alive (is_child s) \<Longrightarrow> stage_ok lims s st \<Longrightarrow> stage_ok lims (s\<lparr>is_child := c, is_pipe := p\<rparr>) st"
  "alive (is_child s) \<Longrightarrow> stage_ok lims s st \<Longrightarrow> stage_ok lims (s\<lparr>is_child := c, is_torn := torn\<rparr>) st"
  by (cases st; auto simp: outcome_ok_alive alive_iff)+

lemma reason_ok_Suc: "reason_ok lims e r \<Longrightarrow> reason_ok lims (Suc e) r"
  by (cases r) simp_all

lemma isolation_inv_child: "child_step fits s t \<Longrightarrow> isolation_inv lims fits s \<Longrightarrow> isolation_inv lims fits t"
  by (induction rule: child_step.induct) (auto simp: isolation_inv_def stage_ok_child_simps split: option.splits)

lemma isolation_inv_interrupt: "interrupt_step lims s t \<Longrightarrow> isolation_inv lims fits s \<Longrightarrow> isolation_inv lims fits t"
  by (induction rule: interrupt_step.induct)
    (auto simp: isolation_inv_def stop_budget_def request_cancellation_def split: option.splits)

lemma isolation_inv_parent: "parent_step lims s t \<Longrightarrow> isolation_inv lims fits s \<Longrightarrow> isolation_inv lims fits t"
proof (induction rule: parent_step.induct)
  case (Received s c n p)
  then show ?case using outcome_ok_payload by (auto simp: isolation_inv_def)
qed (auto simp: isolation_inv_def stop_budget_def request_cancellation_def outcome_ok_stopped
    stage_ok_child_simps reason_ok_Suc split: option.splits)

lemma isolation_inv_step:
  "isolation_step lims fits s t \<Longrightarrow> isolation_inv lims fits s \<Longrightarrow> isolation_inv lims fits t"
  by (induction rule: isolation_step.induct)
    (auto intro: isolation_inv_child isolation_inv_interrupt isolation_inv_parent)

lemma isolation_inv_run:
  "isolation_run lims fits s t \<Longrightarrow> isolation_inv lims fits s \<Longrightarrow> isolation_inv lims fits t"
  by (induction rule: rtranclp_induct) (auto intro: isolation_inv_step)

lemma start_isolated_Inr:
  assumes "start_isolated timeout grace tgrace second kw = Inr (lims, s)"
  shows "isolation_inv lims fits s" "steps_left lims s = nat timeout + nat grace + nat tgrace + second + 10"
    "lims = \<lparr>lim_timeout = nat timeout, lim_grace = nat grace, lim_terminate_grace = nat tgrace, lim_get = second\<rparr>"
    "s = \<lparr>is_stage = Joining (nat timeout), is_child = Working, is_pipe = None, is_torn = False, is_token = local_token, is_elapsed = 0\<rparr>"
  using assms by (auto simp: start_isolated_def isolation_inv_def steps_left_def local_token_def split: if_splits)

lemma pipe_payload_fits:
  "isolation_inv lims fits s \<Longrightarrow> is_pipe s = Some p \<Longrightarrow> fits p"
  by (simp add: isolation_inv_def)

lemma reached_outcome:
  assumes "start_isolated timeout_seconds grace_seconds terminate_grace_seconds second kwarg = Inr (lims, s0)"
    and "isolation_run lims fits s0 s" and "is_stage s = Finished x"
  shows "outcome_ok lims s x" "\<And>p. is_pipe s = Some p \<Longrightarrow> fits p"
  using isolation_inv_run [OF assms(2) start_isolated_Inr(1) [OF assms(1)]] assms(3) pipe_payload_fits
  by (auto simp: isolation_inv_def)

lemma is_finishedD: "is_finished s \<Longrightarrow> \<exists>x. is_stage s = Finished x"
  by (auto simp: is_finished_def split: stage.splits)

section \<open>Properties\<close>



text \<open>
  C26: Every outcome but an escaped interrupt leaves no child behind and tells what happened. A
  returned value is the one the child put, with the exit code of the child; a time-out is reported
  only at or after the deadline and after the cooperative stop was requested, a cancellation only
  after that request; and no result means that the child ended without handing over a payload.
\<close>

theorem isolation_outcomes:
  assumes "start_isolated timeout_seconds grace_seconds terminate_grace_seconds second kwarg = Inr (lims, s0)"
    and "isolation_run lims fits s0 s" and "is_stage s = Finished x"
  shows "(case x of
      Returned v c \<Rightarrow> is_child s = Ended c \<and> is_pipe s = Some (OkPayload v) \<and> fits (OkPayload v)
    | Cancelled cooperative \<Rightarrow> \<not> alive (is_child s) \<and> is_cancellation_requested (is_token s)
    | TimedOut cooperative \<Rightarrow> \<not> alive (is_child s) \<and> is_cancellation_requested (is_token s) \<and>
        timeout_seconds \<le> int (is_elapsed s)
    | NoResult c \<Rightarrow> is_child s = Ended c \<and> is_pipe s = None
    | ChildFailed m \<Rightarrow> \<not> alive (is_child s) \<and> (\<exists>e text trace. is_pipe s = Some (ErrorPayload e text trace))
    | Escaped \<Rightarrow> True)"
proof -
  show ?thesis
    using reached_outcome [OF assms] start_isolated_Inr(3) [OF assms(1)]
    by (cases x) (auto simp: is_cancellation_requested_def split: option.splits payload.splits)
qed

theorem isolation_outcomes_witness:
  "\<exists>lims s0 s. start_isolated 3 1 1 1 None = Inr (lims, s0) \<and> isolation_run lims (\<lambda>_. True) s0 s \<and>
    is_stage s = Finished (Returned True 0) \<and>
    is_pipe s = Some (OkPayload True) \<and> is_child s = Ended 0"
proof -
  obtain lims and s0 :: "bool isolated" where start: "start_isolated 3 1 1 1 None = Inr (lims, s0)"
    by (simp add: start_isolated_def)
  let ?s1 = "s0\<lparr>is_child := Flushing (OkPayload True)\<rparr>"
  let ?s2 = "?s1\<lparr>is_child := Ended 0, is_pipe := Some (OkPayload True)\<rparr>"
  let ?s3 = "?s2\<lparr>is_stage := Getting 0 (lim_get lims)\<rparr>"
  let ?s4 = "?s3\<lparr>is_stage := Finished (payload_outcome 0 (OkPayload True))\<rparr>"
  have "isolation_step lims (\<lambda>_. True) s0 ?s1" "isolation_step lims (\<lambda>_. True) ?s1 ?s2"
    "isolation_step lims (\<lambda>_. True) ?s2 ?s3" "isolation_step lims (\<lambda>_. True) ?s3 ?s4"
    by (rule child_moves(1,2) parent_moves; simp add: start_isolated_Inr(4) [OF start])+
  then have run: "isolation_run lims (\<lambda>_. True) s0 ?s4" by (meson converse_rtranclp_into_rtranclp r_into_rtranclp)
  have stage: "is_stage ?s4 = Finished (Returned True 0)" by simp
  from isolation_outcomes [OF start run stage] have "is_pipe ?s4 = Some (OkPayload True) \<and> is_child ?s4 = Ended 0"
    by (simp only: outcome.case)
  with start run stage show ?thesis by blast
qed

text \<open>
  Three ways in which isolation falls short. An interrupt that arrives while the child is being
  stopped leaves \<open>run_isolated\<close> with the child still running. A child that finished its work at
  once, with a result larger than what the pipe takes, is reported as timed out at the deadline,
  after it was killed, and no run returns its value: the parent joins before it reads the queue. And a
  child that is killed in the middle of writing its result makes the parent wait for the rest for
  ever, long before any deadline.
\<close>

theorem isolation_gaps:
  "case start_isolated 3 1 1 1 None of Inl e \<Rightarrow> False
   | Inr (lims, s0) \<Rightarrow>
      (\<exists>t. isolation_run lims (\<lambda>p. True) s0 t \<and> is_stage t = Finished Escaped \<and> is_child t = Working) \<and>
      (\<exists>t. parent_run lims (s0\<lparr>is_child := Flushing (OkPayload True)\<rparr>) t \<and>
        is_stage t = Finished (TimedOut False) \<and> is_elapsed t = 5) \<and>
      \<not> (\<exists>t v c. isolation_run lims (\<lambda>p. False) s0 t \<and> is_stage t = Finished (Returned v c)) \<and>
      (\<exists>t. isolation_run lims (\<lambda>p. True) s0 t \<and> is_elapsed t = 0 \<and> (\<forall>u. \<not> parent_step lims t u) \<and> \<not> is_finished t)"
proof -
  obtain lims and s0 :: "bool isolated" where start: "start_isolated 3 1 1 1 None = Inr (lims, s0)"
    by (simp add: start_isolated_def)
  note s0 = start_isolated_Inr(4) [OF start] and lims = start_isolated_Inr(3) [OF start]
  have "\<exists>t. isolation_run lims (\<lambda>p. True) s0 t \<and> is_stage t = Finished Escaped \<and> is_child t = Working"
    by (rule exI, rule conjI, rule converse_rtranclp_into_rtranclp,
        rule isolation_step.Interrupt [OF interrupt_step.JoinInterrupted], simp add: s0,
        rule converse_rtranclp_into_rtranclp, rule isolation_step.Interrupt [OF interrupt_step.InterruptedAgain], simp,
        rule rtranclp.rtrancl_refl, simp add: s0)
  moreover have "\<exists>t. parent_run lims (s0\<lparr>is_child := Flushing (OkPayload True)\<rparr>) t \<and>
      is_stage t = Finished (TimedOut False) \<and> is_elapsed t = 5"
    unfolding s0 lims
    by (rule exI, rule conjI,
      (rule converse_rtranclp_into_rtranclp, rule parent_step.JoinTick, simp add: numeral_eq_Suc, simp)+,
      (rule converse_rtranclp_into_rtranclp, rule parent_step.JoinTimeout, simp, simp),
      (rule converse_rtranclp_into_rtranclp, rule parent_step.CooperateTick, simp, simp)+,
      (rule converse_rtranclp_into_rtranclp, rule parent_step.CooperateTimeout, simp, simp),
      (rule converse_rtranclp_into_rtranclp, rule parent_step.Terminate, simp, simp),
      (rule converse_rtranclp_into_rtranclp, rule parent_step.TerminateTick, simp, simp)+,
      (rule converse_rtranclp_into_rtranclp, rule parent_step.Kill, simp, simp),
      (rule converse_rtranclp_into_rtranclp, rule parent_step.KillEffective, simp, simp),
      (rule converse_rtranclp_into_rtranclp, rule parent_step.Killed, simp, simp),
      rule rtranclp.rtrancl_refl, simp)
  moreover have "\<not> (\<exists>t v c. isolation_run lims (\<lambda>p. False) s0 t \<and> is_stage t = Finished (Returned v c))"
    using reached_outcome [OF start] by fastforce
  moreover have "\<exists>t. isolation_run lims (\<lambda>p. True) s0 t \<and> is_elapsed t = 0 \<and>
      (\<forall>u. \<not> parent_step lims t u) \<and> \<not> is_finished t"
  proof -
    let ?s1 = "s0\<lparr>is_child := Flushing (OkPayload True)\<rparr>"
    let ?s2 = "?s1\<lparr>is_child := Ended (- 9), is_torn := True\<rparr>"
    let ?s3 = "?s2\<lparr>is_stage := Getting (- 9) (lim_get lims)\<rparr>"
    have "isolation_step lims (\<lambda>_. True) s0 ?s1" "isolation_step lims (\<lambda>_. True) ?s1 ?s2"
      "isolation_step lims (\<lambda>_. True) ?s2 ?s3"
      by (rule child_moves(1,4) parent_moves(1); simp add: s0)+
    then have "isolation_run lims (\<lambda>_. True) s0 ?s3" by (meson converse_rtranclp_into_rtranclp r_into_rtranclp)
    moreover have "hung ?s3" "is_pipe ?s3 = None" by (simp_all add: hung_def s0)
    ultimately show ?thesis using hung_stuck [of ?s3 lims] by (intro exI [of _ ?s3]) (simp add: is_finished_def s0)
  qed
  ultimately show ?thesis unfolding start by simp
qed

end
