(* ===== verification/RunCommand.thy ===== *)
theory RunCommand
  imports Bootstrap Profile Isolation Serialization
begin

text \<open>
  The run command of the agent, \<open>commands/run.py\<close>: it refuses options that do not fit the profile,
  builds the configuration the options ask for, runs the profile in an isolated child process or in its
  own, prints the sample as JSON, writes it, and returns an exit code.
\<close>

section \<open>Options\<close>

record run_options =
  ro_profile :: string
  ro_output :: "string option"
  ro_quick :: bool
  ro_include_storage :: bool
  ro_install_deps :: bool
  ro_assume_yes :: bool
  ro_target_url :: "string option"
  ro_upload_url :: "string option"
  ro_network_scope :: string
  ro_verify_tls :: bool
  ro_enable_ping :: bool
  ro_workers :: "int option"
  ro_request_count :: "int option"
  ro_concurrency :: "int option"
  ro_max_response_bytes :: "int option"
  ro_database_records :: "int option"
  ro_database_payload_bytes :: "int option"
  ro_identity :: run_request
  ro_isolated :: bool
  ro_timeout_seconds :: "pyfloat option"

text \<open>
  What the command meets outside its options: the world of the run, what discovery finds, what each
  benchmark does, the tools of the host, what an installation does and the user answers, whether the user interrupts a run that
  is not isolated, and how the write of the sample ends.
\<close>

record run_env =
  rn_world :: run_world
  rn_discovery :: DiscoveryResult
  rn_benchmark :: "string \<Rightarrow> benchmark_outcome"
  rn_bracket_host :: "string \<Rightarrow> bool"
  rn_tools :: tool_host
  rn_install :: "string list \<Rightarrow> tool_host \<Rightarrow> tool_host \<times> string option"
  rn_answer :: string
  rn_interrupted :: bool
  rn_dump_fault :: write_fault
  rn_json_text :: "pyval \<Rightarrow> string"
  rn_isofmt :: "pydatetime \<Rightarrow> string"

section \<open>Configurations\<close>

definition DEFAULT_TARGET :: string where "DEFAULT_TARGET = ''https://example.com/''"

definition int_or :: "int option \<Rightarrow> int \<Rightarrow> pyval" where
  "int_or v d = PInt (case v of None \<Rightarrow> d | Some n \<Rightarrow> n)"

text \<open>\<open>replace(config, ...)\<close> calls the constructor on the fields with the changes.\<close>

definition general_sample_config :: "run_options \<Rightarrow> GeneralProfileConfig result" where
  "general_sample_config opts =
    (if ro_quick opts then GeneralProfileConfig_quick (PBool (ro_include_storage opts))
     else rbind (GeneralProfileConfig_default (PBool True)) (\<lambda>c.
       GeneralProfileConfig_init (gp_version c) (PInt (gp_cpu_block_bytes c)) (PInt (gp_cpu_iterations c))
         (PInt (gp_memory_block_bytes c)) (PInt (gp_memory_iterations c)) (PInt (gp_storage_block_bytes c))
         (PInt (gp_storage_iterations c)) (PBool (ro_include_storage opts)) (PBool (gp_fsync_storage c))))"

definition storage_sample_config :: "run_options \<Rightarrow> StorageProfileConfig result" where
  "storage_sample_config opts = (if ro_quick opts then StorageProfileConfig_quick else StorageProfileConfig_default)"

definition networking_replace_ping :: "(string \<Rightarrow> bool) \<Rightarrow> NetworkingProfileConfig \<Rightarrow> int \<Rightarrow> NetworkingProfileConfig result" where
  "networking_replace_ping bracket_host c pings = NetworkingProfileConfig_init bracket_host (np_version c) (np_target_url c)
     (np_upload_url c) (np_scope c) (PInt (np_repetitions c)) (PFloat (np_timeout_seconds c)) (PInt (np_download_limit_bytes c))
     (PInt (np_upload_bytes c)) (PInt pings) (PBool (np_verify_tls c)) (np_user_agent c)"

definition networking_sample_config :: "(string \<Rightarrow> bool) \<Rightarrow> run_options \<Rightarrow> NetworkingProfileConfig result" where
  "networking_sample_config bracket_host opts =
    (let target = or_default (ro_target_url opts) DEFAULT_TARGET in
     rbind (NetworkScope_of (ro_network_scope opts)) (\<lambda>scope.
     rbind (if ro_quick opts
       then NetworkingProfileConfig_quick bracket_host target (ro_upload_url opts) scope (PBool (ro_verify_tls opts))
       else NetworkingProfileConfig_default bracket_host target (ro_upload_url opts) scope (PBool (ro_verify_tls opts))) (\<lambda>c.
     if \<not> ro_enable_ping opts then networking_replace_ping bracket_host c 0 else Inr c)))"

definition web_replace :: "(string \<Rightarrow> bool) \<Rightarrow> WebProfileConfig \<Rightarrow> pyval \<Rightarrow> pyval \<Rightarrow> pyval \<Rightarrow> WebProfileConfig result" where
  "web_replace bracket_host c requests concurrency max_bytes = WebProfileConfig_init bracket_host (wp_version c)
     (wp_target_url c) (wp_scope c) requests concurrency (PInt (wp_warmup_requests c)) (PFloat (wp_timeout_seconds c)) max_bytes
     (PBool (wp_verify_tls c)) (wp_user_agent c)"

definition web_concurrency :: "run_options \<Rightarrow> WebProfileConfig \<Rightarrow> int" where
  "web_concurrency opts c = (case ro_concurrency opts of
     Some n \<Rightarrow> n
   | None \<Rightarrow> (case ro_request_count opts of
       Some r \<Rightarrow> if r < wp_concurrency c then r else wp_concurrency c
     | None \<Rightarrow> wp_concurrency c))"

definition web_sample_config :: "(string \<Rightarrow> bool) \<Rightarrow> run_options \<Rightarrow> WebProfileConfig result" where
  "web_sample_config bracket_host opts =
    (let target = or_default (ro_target_url opts) DEFAULT_TARGET in
     rbind (NetworkScope_of (ro_network_scope opts)) (\<lambda>scope.
     rbind (if ro_quick opts then WebProfileConfig_quick bracket_host target scope (PBool (ro_verify_tls opts))
       else WebProfileConfig_default bracket_host target scope (PBool (ro_verify_tls opts))) (\<lambda>c.
     if ro_request_count opts = None \<and> ro_concurrency opts = None \<and> ro_max_response_bytes opts = None then Inr c
     else web_replace bracket_host c (int_or (ro_request_count opts) (wp_request_count c)) (PInt (web_concurrency opts c))
       (int_or (ro_max_response_bytes opts) (wp_max_response_bytes c)))))"

definition database_replace :: "DatabaseProfileConfig \<Rightarrow> pyval \<Rightarrow> pyval \<Rightarrow> pyval \<Rightarrow> DatabaseProfileConfig result" where
  "database_replace c concurrency records payload = DatabaseProfileConfig_init (dp_version c) (dp_engine c) records payload
     (PInt (dp_connection_operations c)) (PInt (dp_point_read_operations c)) (PInt (dp_insert_operations c))
     (PInt (dp_update_operations c)) (PInt (dp_mixed_operations c)) (PInt (dp_mixed_read_percent c)) concurrency
     (PInt (dp_warmup_operations c)) (PInt (dp_repetitions c)) (PFloat (dp_busy_timeout_seconds c)) (PInt (dp_random_seed c))
     (dp_journal_mode c) (dp_synchronous c)"

definition database_sample_config :: "run_options \<Rightarrow> DatabaseProfileConfig result" where
  "database_sample_config opts =
    (let selected = int_or (ro_concurrency opts) (if ro_quick opts then 2 else 4) in
     rbind (if ro_quick opts then DatabaseProfileConfig_quick selected
       else rbind (DatabaseProfileConfig_default (PInt 4)) (\<lambda>c.
         database_replace c selected (PInt (dp_record_count c)) (PInt (dp_payload_bytes c)))) (\<lambda>c.
     if ro_database_records opts = None \<and> ro_database_payload_bytes opts = None then Inr c
     else database_replace c (PInt (dp_concurrency c)) (int_or (ro_database_records opts) (dp_record_count c))
       (int_or (ro_database_payload_bytes opts) (dp_payload_bytes c))))"

definition compute_sample_config :: "run_options \<Rightarrow> ComputeProfileConfig result" where
  "compute_sample_config opts =
    (let selected = int_or (ro_workers opts) 0 in
     if ro_quick opts then ComputeProfileConfig_quick selected
     else rbind (ComputeProfileConfig_default (PInt 0)) (\<lambda>c. ComputeProfileConfig_init (cp_version c) (PInt (cp_repetitions c))
       (PInt (cp_warmup_iterations c)) (PInt (cp_integer_iterations c)) (PInt (cp_floating_point_iterations c))
       (PInt (cp_sha256_block_bytes c)) (PInt (cp_sha256_iterations c)) (PInt (cp_compression_block_bytes c))
       (PInt (cp_compression_iterations c)) (PInt (cp_compression_level c)) selected (PInt (cp_max_auto_workers c))
       (PFloat (cp_worker_timeout_seconds c))))"

section \<open>Running one profile\<close>

text \<open>\<open>output.parent / "raw"\<close>, or \<open>data/raw\<close>.\<close>

definition parent_path :: "string \<Rightarrow> string" where
  "parent_path p = (let dir = rev (dropWhile (\<lambda>c. c \<noteq> CHR ''/'') (rev p)) in
     if dir = [] then ''.'' else if dir = ''/'' then ''/'' else butlast dir)"

definition raw_output_dir :: "run_options \<Rightarrow> string" where
  "raw_output_dir opts = (case ro_output opts of None \<Rightarrow> ''data/raw'' | Some p \<Rightarrow> joined_path (parent_path p) ''raw'')"

definition with_raw_dir :: "run_options \<Rightarrow> run_request" where
  "with_raw_dir opts = (ro_identity opts)\<lparr>rq_raw_output_dir := Some (raw_output_dir opts)\<rparr>"

definition configured :: "'c result \<Rightarrow> ('c \<Rightarrow> files \<times> (profile_error + 'a)) \<Rightarrow> files \<Rightarrow> files \<times> (profile_error + 'a)" where
  "configured r run fs = (case r of Inl e \<Rightarrow> (fs, Inl (ProfileRaised e)) | Inr c \<Rightarrow> run c)"

definition general_sample :: "run_options \<Rightarrow> run_env \<Rightarrow> files \<Rightarrow> files \<times> (profile_error + Sample)" where
  "general_sample opts env fs = configured (general_sample_config opts) (\<lambda>c. (fs, run_general_profile c (rn_discovery env)
     (ro_identity opts) (rn_world env) (rn_benchmark env ''cpu'') (rn_benchmark env ''memory'') (rn_benchmark env ''sequential''))) fs"

definition storage_sample :: "run_options \<Rightarrow> run_env \<Rightarrow> files \<Rightarrow> files \<times> (profile_error + Sample)" where
  "storage_sample opts env fs = configured (storage_sample_config opts) (\<lambda>c. run_storage_profile c (rn_discovery env)
     (with_raw_dir opts) (rn_world env) (rn_benchmark env ''storage'') fs) fs"

definition networking_sample :: "run_options \<Rightarrow> run_env \<Rightarrow> files \<Rightarrow> files \<times> (profile_error + Sample)" where
  "networking_sample opts env fs = configured (networking_sample_config (rn_bracket_host env) opts) (\<lambda>c.
     run_networking_profile c (rn_discovery env) (with_raw_dir opts) (rn_world env) (rn_benchmark env ''networking'') fs) fs"

definition web_sample :: "run_options \<Rightarrow> run_env \<Rightarrow> files \<Rightarrow> files \<times> (profile_error + Sample)" where
  "web_sample opts env fs = configured (web_sample_config (rn_bracket_host env) opts) (\<lambda>c.
     run_web_profile c (rn_discovery env) (with_raw_dir opts) (rn_world env) (rn_benchmark env ''web'') fs) fs"

definition database_sample :: "run_options \<Rightarrow> run_env \<Rightarrow> files \<Rightarrow> files \<times> (profile_error + Sample)" where
  "database_sample opts env fs = configured (database_sample_config opts) (\<lambda>c. run_database_profile c (rn_discovery env)
     (with_raw_dir opts) (rn_world env) (rn_benchmark env ''database'') fs) fs"

definition compute_sample :: "run_options \<Rightarrow> run_env \<Rightarrow> files \<Rightarrow> files \<times> (profile_error + Sample)" where
  "compute_sample opts env fs = configured (compute_sample_config opts) (\<lambda>c. run_compute_profile c (rn_discovery env)
     (with_raw_dir opts) (rn_world env) (rn_benchmark env ''compute'') fs) fs"

definition execute_profile :: "run_options \<Rightarrow> run_env \<Rightarrow> files \<Rightarrow> files \<times> (profile_error + Sample)" where
  "execute_profile opts env fs =
    (if ro_profile opts = ''general'' then general_sample opts env fs
     else if ro_profile opts = ''storage'' then storage_sample opts env fs
     else if ro_profile opts = ''networking'' then networking_sample opts env fs
     else if ro_profile opts = ''web'' then web_sample opts env fs
     else if ro_profile opts = ''database'' then database_sample opts env fs
     else if ro_profile opts = ''compute'' then compute_sample opts env fs
     else (fs, Inl (ProfileRaised (ValueError (''unsupported profile: '' @ ro_profile opts)))))"

section \<open>The command\<close>

definition PROFILE_TIMEOUT_SECONDS :: "(string \<times> int) list" where
  "PROFILE_TIMEOUT_SECONDS = [(''general'', 120), (''networking'', 180), (''compute'', 600), (''storage'', 900), (''web'', 180),
     (''database'', 300)]"

text \<open>The message of the first option that does not fit.\<close>

definition option_error :: "run_options \<Rightarrow> string option" where
  "option_error opts =
    (if ro_profile opts \<noteq> ''general'' \<and> \<not> ro_include_storage opts then Some ''--no-storage is only valid for the general profile''
     else if ro_profile opts = ''web'' \<and> ro_target_url opts = None then Some ''--target is required for the web profile''
     else if ro_profile opts \<noteq> ''compute'' \<and> ro_workers opts \<noteq> None then Some ''--workers is only valid for the compute profile''
     else if ro_profile opts \<noteq> ''web'' \<and> (ro_request_count opts \<noteq> None \<or> ro_max_response_bytes opts \<noteq> None)
     then Some ''--requests and --max-response-bytes are only valid for the web profile''
     else if ro_profile opts \<noteq> ''web'' \<and> ro_profile opts \<noteq> ''database'' \<and> ro_concurrency opts \<noteq> None
     then Some ''--concurrency is only valid for the web or database profile''
     else if ro_profile opts = ''database'' \<and> (case ro_concurrency opts of None \<Rightarrow> False | Some n \<Rightarrow> 32 < n)
     then Some ''--concurrency must not exceed 32 for the database profile''
     else if ro_profile opts \<noteq> ''database'' \<and> (ro_database_records opts \<noteq> None \<or> ro_database_payload_bytes opts \<noteq> None)
     then Some ''--database-records and --database-payload-bytes are only valid for the database profile''
     else if (case ro_timeout_seconds opts of None \<Rightarrow> False | Some t \<Rightarrow> fle t (Fin 0))
     then Some ''--timeout-seconds must be greater than zero''
     else None)"

text \<open>An exit code, or an exception that leaves the command.\<close>

datatype command_exit = ExitCode int | Traceback

text \<open>\<open>dump\<close> writes in place: a write that fails leaves what it has written.\<close>

definition dump_file :: "write_fault \<Rightarrow> string \<Rightarrow> string \<Rightarrow> files \<Rightarrow> files \<times> unit result" where
  "dump_file fault path content fs = (case fault of
     CreateFails \<Rightarrow> (fs, Inl (OSError path))
   | WriteFails n \<Rightarrow> (AList.update path (take n content) fs, Inl (OSError path))
   | _ \<Rightarrow> (AList.update path content fs, Inr ()))"

definition emit_sample :: "run_options \<Rightarrow> run_env \<Rightarrow> Sample \<Rightarrow> files \<Rightarrow> files \<times> command_exit" where
  "emit_sample opts env sample fs = (case dumps_sample (rn_json_text env) (rn_isofmt env) sample of
     Inl e \<Rightarrow> (fs, Traceback)
   | Inr content \<Rightarrow>
      (let exit = ExitCode (if qual_status (smp_quality sample) = INVALID then 2 else 0) in
       case ro_output opts of
         None \<Rightarrow> (fs, exit)
       | Some path \<Rightarrow> (case dump_file (rn_dump_fault env) path (content @ newline) fs of
           (fs', Inl e) \<Rightarrow> (fs', Traceback) | (fs', Inr u) \<Rightarrow> (fs', exit))))"

text \<open>
  The installation of dependencies: a refusal is exit code 3; an exception of the command that ran is not
  caught.
\<close>

definition deps_exit :: "run_options \<Rightarrow> run_env \<Rightarrow> command_exit option" where
  "deps_exit opts env = (if \<not> ro_install_deps opts then None
     else case snd (snd (ensure_runtime_dependencies True (ro_assume_yes opts) (rn_answer env)
         (if ro_profile opts = ''networking'' \<and> ro_enable_ping opts then [''ping''] else []) (rn_install env) (rn_tools env))) of
       Inl (RuntimeDependencyError message) \<Rightarrow> Some (ExitCode 3)
     | Inl (InstallRaised t) \<Rightarrow> Some Traceback
     | Inr report \<Rightarrow> None)"

lemma no_deps_exit [simp]: "\<not> ro_install_deps opts \<Longrightarrow> deps_exit opts env = None"
  by (simp add: deps_exit_def)

lemma deps_exit_cases: "deps_exit opts env = None \<or> ro_install_deps opts \<and> (deps_exit opts env = Some (ExitCode 3) \<or> deps_exit opts env = Some Traceback)"
  by (auto simp: deps_exit_def split: sum.split dependency_error.split)

text \<open>
  \<open>isolated\<close> is the outcome of \<open>run_isolated\<close> on \<open>_execute_profile\<close> and the files the child left.
\<close>

definition run_profile :: "run_options \<Rightarrow> run_env \<Rightarrow> Sample outcome \<times> files \<Rightarrow> files \<Rightarrow> files \<times> command_exit" where
  "run_profile opts env isolated fs = (case option_error opts of
     Some message \<Rightarrow> (fs, ExitCode 4)
   | None \<Rightarrow>
       if deps_exit opts env \<noteq> None then (fs, the (deps_exit opts env))
       else if ro_isolated opts
       then (if ro_timeout_seconds opts = None \<and> map_of PROFILE_TIMEOUT_SECONDS (ro_profile opts) = None then (fs, Traceback)
         else case fst isolated of
             Returned sample c \<Rightarrow> emit_sample opts env sample (snd isolated)
           | Cancelled cooperative \<Rightarrow> (snd isolated, ExitCode 130)
           | TimedOut cooperative \<Rightarrow> (snd isolated, ExitCode 124)
           | NoResult c \<Rightarrow> (snd isolated, ExitCode 2)
           | ChildFailed message \<Rightarrow> (snd isolated, ExitCode 2)
           | Escaped \<Rightarrow> (snd isolated, Traceback))
       else if rn_interrupted env then (fs, ExitCode 130)
       else (case execute_profile opts env fs of
           (fs', Inl e) \<Rightarrow> (fs', Traceback)
         | (fs', Inr sample) \<Rightarrow> emit_sample opts env sample fs'))"

section \<open>Facts\<close>

text \<open>The sample a run obtained, and that it was written.\<close>

definition obtained_sample :: "run_options \<Rightarrow> run_env \<Rightarrow> Sample outcome \<times> files \<Rightarrow> files \<Rightarrow> Sample option" where
  "obtained_sample opts env isolated fs =
    (if ro_isolated opts then (case fst isolated of Returned s c \<Rightarrow> Some s | _ \<Rightarrow> None)
     else case snd (execute_profile opts env fs) of Inl e \<Rightarrow> None | Inr s \<Rightarrow> Some s)"

definition sample_written :: "run_options \<Rightarrow> run_env \<Rightarrow> Sample \<Rightarrow> files \<Rightarrow> bool" where
  "sample_written opts env s fs = (case dumps_sample (rn_json_text env) (rn_isofmt env) s of
     Inl e \<Rightarrow> False
   | Inr content \<Rightarrow> (case ro_output opts of None \<Rightarrow> True | Some path \<Rightarrow> map_of fs path = Some (content @ newline)))"

lemma emit_sample_cases:
  "(\<exists>fs'. emit_sample opts env s fs = (fs', Traceback)) \<or>
   (\<exists>fs'. emit_sample opts env s fs = (fs', ExitCode (if qual_status (smp_quality s) = INVALID then 2 else 0)) \<and>
      sample_written opts env s fs')"
  by (cases "rn_dump_fault env"; cases "ro_output opts"; cases "dumps_sample (rn_json_text env) (rn_isofmt env) s")
    (auto simp: emit_sample_def sample_written_def dump_file_def Let_def)

section \<open>Properties\<close>

text \<open>
  C28: What the exit code of the run command means. 4 is a misfit of the options and 3 a failed
  installation of dependencies, and nothing was run; 130 and 124 are a cancelled and a timed out run; 0 means
  that a sample that is not invalid was obtained and, where an output was asked for, is its content. 2
  has two meanings: a sample was obtained and written but is invalid, or the isolated child gave none.
\<close>

theorem run_profile_codes:
  "case run_profile opts env isolated fs of
     (fs', Traceback) \<Rightarrow> option_error opts = None
   | (fs', ExitCode c) \<Rightarrow>
      (if c = 4 then option_error opts \<noteq> None \<and> fs' = fs
       else if c = 3 then option_error opts = None \<and> deps_exit opts env = Some (ExitCode 3) \<and> fs' = fs
       else option_error opts = None \<and> deps_exit opts env = None \<and>
        (case obtained_sample opts env isolated fs of
           Some s \<Rightarrow> if rn_interrupted env \<and> \<not> ro_isolated opts then c = 130
             else c = (if qual_status (smp_quality s) = INVALID then 2 else 0) \<and> sample_written opts env s fs'
         | None \<Rightarrow> if ro_isolated opts
             then (case fst isolated of Cancelled b \<Rightarrow> c = 130 | TimedOut b \<Rightarrow> c = 124 | Escaped \<Rightarrow> False | _ \<Rightarrow> c = 2)
             else c = 130 \<and> rn_interrupted env))"
proof (cases "option_error opts = None \<and> deps_exit opts env = None")
  case False
  then show ?thesis using deps_exit_cases [of opts env] by (auto simp: run_profile_def split: option.splits)
next
  case ran: True
  show ?thesis
  proof (cases "ro_isolated opts")
    case True
    show ?thesis
    proof (cases "fst isolated")
      case (Returned s k)
      then show ?thesis using ran True emit_sample_cases [of opts env s "snd isolated"]
        by (auto simp: run_profile_def obtained_sample_def)
    qed (use ran True in \<open>auto simp: run_profile_def obtained_sample_def\<close>)
  next
    case False
    show ?thesis
    proof (cases "rn_interrupted env")
      case True
      then show ?thesis using ran False by (auto simp: run_profile_def obtained_sample_def split: sum.split)
    next
      case quiet: False
      obtain fs' r where ex: "execute_profile opts env fs = (fs', r)" by fastforce
      show ?thesis
      proof (cases r)
        case (Inl e)
        then show ?thesis using ran False quiet ex by (auto simp: run_profile_def)
      next
        case (Inr s)
        then show ?thesis using ran False quiet ex emit_sample_cases [of opts env s fs']
          by (auto simp: run_profile_def obtained_sample_def)
      qed
    qed
  qed
qed

section \<open>The isolated run\<close>

text \<open>
  What the child of \<open>run_isolated\<close> puts into its queue after \<open>_execute_profile\<close>: the sample, or the class,
  the text and the trace of the exception.
\<close>

definition child_payload :: "(profile_error \<Rightarrow> string \<times> string \<times> string) \<Rightarrow> profile_error + Sample \<Rightarrow> Sample payload" where
  "child_payload describe r = (case r of
     Inr s \<Rightarrow> OkPayload s
   | Inl e \<Rightarrow> (case describe e of (error_type, message, trace) \<Rightarrow> ErrorPayload error_type message trace))"

lemma child_payload_iff:
  "OkPayload s = child_payload describe r \<longleftrightarrow> r = Inr s"
  "ErrorPayload t m tr = child_payload describe r \<Longrightarrow> \<exists>e. r = Inl e"
  by (auto simp: child_payload_def split: sum.splits prod.splits)

text \<open>
  C27: The exit code of an isolated run tells what its child did. When the child computes the profile and
  can hand over nothing but its result, every run of parent and child that ends with an exit code gives 0
  only if the profile returned a sample that is not invalid and that sample was written, 2 if it
  returned an invalid sample, raised, or handed over nothing, and 124 only after the deadline; with
  124 as with 130 the child has ended and had been asked to stop.
\<close>

theorem isolated_run_codes:
  assumes "start_isolated timeout_seconds grace_seconds terminate_grace_seconds second kwarg = Inr (lims, s0)"
    and "isolation_run lims (\<lambda>p. p = child_payload describe (snd (execute_profile opts env fs))) s0 s"
    and "is_stage s = Finished x"
  shows "case run_profile (opts\<lparr>ro_isolated := True, ro_install_deps := False\<rparr>) env (x, files) fs of
      (fs', Traceback) \<Rightarrow> True
    | (fs', ExitCode c) \<Rightarrow>
        if c = 4 then fs' = fs
        else if c = 0 \<or> c = 2 then (case x of
            Returned smp k \<Rightarrow> snd (execute_profile opts env fs) = Inr smp \<and>
              (c = 2) = (qual_status (smp_quality smp) = INVALID) \<and> sample_written opts env smp fs'
          | NoResult k \<Rightarrow> c = 2 \<and> is_pipe s = None
          | ChildFailed m \<Rightarrow> c = 2 \<and> (case snd (execute_profile opts env fs) of Inl e \<Rightarrow> True | Inr smp \<Rightarrow> False)
          | _ \<Rightarrow> False)
        else \<not> alive (is_child s) \<and> is_cancellation_requested (is_token s) \<and>
          (if c = 124 then timeout_seconds \<le> int (is_elapsed s) else c = 130)"
proof -
  let ?opts = "opts\<lparr>ro_isolated := True, ro_install_deps := False\<rparr>"
  note reached = reached_outcome [OF assms]
  have pipe: "p = child_payload describe (snd (execute_profile opts env fs))" if "is_pipe s = Some p" for p
    using reached(2) [OF that] by simp
  have written: "sample_written ?opts env smp fs' \<longleftrightarrow> sample_written opts env smp fs'" for smp fs'
    by (simp add: sample_written_def split: sum.split)
  show ?thesis
  proof (cases "option_error ?opts = None \<and> \<not> (ro_timeout_seconds opts = None \<and> map_of PROFILE_TIMEOUT_SECONDS (ro_profile opts) = None)")
    case False
    then show ?thesis by (auto simp: run_profile_def split: option.splits)
  next
    case True
    then have run: "run_profile ?opts env (x, files) fs = (case x of
             Returned sample c \<Rightarrow> emit_sample ?opts env sample files
           | Cancelled cooperative \<Rightarrow> (files, ExitCode 130)
           | TimedOut cooperative \<Rightarrow> (files, ExitCode 124)
           | NoResult c \<Rightarrow> (files, ExitCode 2)
           | ChildFailed message \<Rightarrow> (files, ExitCode 2)
           | Escaped \<Rightarrow> (files, Traceback))"
      by (cases x) (auto simp: run_profile_def)
    show ?thesis
    proof (cases x)
      case (Returned smp k)
      then have "snd (execute_profile opts env fs) = Inr smp" using reached(1) pipe child_payload_iff(1) by auto
      then show ?thesis unfolding run unfolding Returned outcome.case
        using emit_sample_cases [of ?opts env smp files] written by auto
    next
      case (ChildFailed m)
      then obtain e t tr where "is_pipe s = Some (ErrorPayload e t tr)"
        using reached(1) by (auto split: option.splits payload.splits)
      then show ?thesis unfolding run unfolding ChildFailed using pipe child_payload_iff(2) by fastforce
    qed (unfold run, use reached(1) start_isolated_Inr(3) [OF assms(1)] in \<open>auto simp: is_cancellation_requested_def\<close>)
  qed
qed

text \<open>A child that returns at once with what it hands over.\<close>

lemma immediate_run:
  assumes "start_isolated 3 1 1 1 None = Inr (lims, s0)"
  shows "\<exists>s. isolation_run lims (\<lambda>q. q = p) s0 s \<and> is_stage s = Finished (payload_outcome 0 p)"
proof -
  let ?s1 = "s0\<lparr>is_child := Flushing p\<rparr>"
  let ?s2 = "?s1\<lparr>is_child := Ended 0, is_pipe := Some p\<rparr>"
  let ?s3 = "?s2\<lparr>is_stage := Getting 0 (lim_get lims)\<rparr>"
  let ?s4 = "?s3\<lparr>is_stage := Finished (payload_outcome 0 p)\<rparr>"
  have "isolation_step lims (\<lambda>q. q = p) s0 ?s1" "isolation_step lims (\<lambda>q. q = p) ?s1 ?s2"
    "isolation_step lims (\<lambda>q. q = p) ?s2 ?s3" "isolation_step lims (\<lambda>q. q = p) ?s3 ?s4"
    by (rule child_moves(1,2) parent_moves; simp add: start_isolated_Inr(4) [OF assms])+
  then have "isolation_run lims (\<lambda>q. q = p) s0 ?s4" by (meson converse_rtranclp_into_rtranclp r_into_rtranclp)
  then show ?thesis by (intro exI [of _ ?s4]) simp
qed

definition demo_options :: run_options where
  "demo_options = \<lparr>ro_profile = ''storage'', ro_output = Some ''out/s.json'', ro_quick = True, ro_include_storage = True,
     ro_install_deps = False, ro_assume_yes = False, ro_target_url = None, ro_upload_url = None, ro_network_scope = ''public'', ro_verify_tls = True,
     ro_enable_ping = True, ro_workers = None, ro_request_count = None, ro_concurrency = None, ro_max_response_bytes = None,
     ro_database_records = None, ro_database_payload_bytes = None, ro_identity = demo_request ''run-1'' None,
     ro_isolated = True, ro_timeout_seconds = None\<rparr>"

definition demo_env :: run_env where
  "demo_env = \<lparr>rn_world = demo_world, rn_discovery = demo_discovery, rn_benchmark = (\<lambda>b. Completed
       [\<lparr>metric_name = ''m'', metric_value = Fin 1, metric_unit = ''u'', metric_direction = HIGHER_IS_BETTER\<rparr>] [] []),
     rn_bracket_host = (\<lambda>h. False), rn_tools = \<lparr>th_system = ''Linux'', th_os_name = ''posix'', th_which = (\<lambda>c. True), th_os_release = None, th_euid = Some 0\<rparr>,
     rn_install = (\<lambda>c h. (h, None)), rn_answer = [], rn_interrupted = False, rn_dump_fault = NoFault,
     rn_json_text = (\<lambda>v. ''{}''), rn_isofmt = (\<lambda>d. [])\<rparr>"

theorem isolated_run_codes_witness:
  "\<exists>lims s0 s smp. start_isolated 3 1 1 1 None = Inr (lims, s0) \<and>
    isolation_run lims (\<lambda>p. p = child_payload (\<lambda>e. ([], [], [])) (snd (execute_profile demo_options demo_env []))) s0 s \<and>
    is_stage s = Finished (Returned smp 0) \<and> snd (execute_profile demo_options demo_env []) = Inr smp \<and>
    run_profile demo_options demo_env (Returned smp 0, []) [] = ([(''out/s.json'', ''{}'' @ newline)], ExitCode 0) \<and>
    qual_status (smp_quality smp) \<noteq> INVALID"
proof -
  have "case snd (execute_profile demo_options demo_env []) of Inl e \<Rightarrow> False | Inr smp \<Rightarrow>
      run_profile demo_options demo_env (Returned smp 0, []) [] = ([(''out/s.json'', ''{}'' @ newline)], ExitCode 0)"
    by code_simp
  then obtain smp where smp: "snd (execute_profile demo_options demo_env []) = Inr smp"
    and code: "run_profile demo_options demo_env (Returned smp 0, []) [] = ([(''out/s.json'', ''{}'' @ newline)], ExitCode 0)"
    by (auto split: sum.splits)
  obtain lims and s0 :: "Sample isolated" where start: "start_isolated 3 1 1 1 None = Inr (lims, s0)"
    by (simp add: start_isolated_def)
  let ?p = "child_payload (\<lambda>e. ([], [], [])) (snd (execute_profile demo_options demo_env []))"
  obtain s where run: "isolation_run lims (\<lambda>q. q = ?p) s0 s" and "is_stage s = Finished (payload_outcome 0 ?p)"
    using immediate_run [OF start] by blast
  then have stage: "is_stage s = Finished (Returned smp 0)" by (simp add: smp child_payload_def)
  have same: "demo_options\<lparr>ro_isolated := True, ro_install_deps := False\<rparr> = demo_options" by (simp add: demo_options_def)
  from isolated_run_codes [OF start run stage, of "[]", unfolded same code]
  have "qual_status (smp_quality smp) \<noteq> INVALID" by simp
  with start run stage smp code show ?thesis by blast
qed

section \<open>The configurations of the command\<close>

definition or_int :: "int option \<Rightarrow> int \<Rightarrow> int" where
  "or_int v d = (case v of None \<Rightarrow> d | Some n \<Rightarrow> n)"

definition between :: "int \<Rightarrow> int \<Rightarrow> int \<Rightarrow> bool" where
  "between a n b \<longleftrightarrow> a \<le> n \<and> n \<le> b"

lemma int_or_eq: "int_or v d = PInt (or_int v d)"
  by (simp add: int_or_def or_int_def)

lemma general_command:
  "case general_sample_config opts of Inl e \<Rightarrow> False | Inr c \<Rightarrow> gp_include_storage c = ro_include_storage opts"
  by (simp add: general_sample_config_def GeneralProfileConfig_quick_def GeneralProfileConfig_default_def GeneralProfileConfig_init_def
      quick_simps)

lemma compute_command:
  "case compute_sample_config opts of
     Inl e \<Rightarrow> \<not> between 0 (or_int (ro_workers opts) 0) 64
   | Inr c \<Rightarrow> between 0 (or_int (ro_workers opts) 0) 64 \<and> cp_workers c = or_int (ro_workers opts) 0"
  by (cases "ro_quick opts") (simp_all add: compute_sample_config_def int_or_eq between_def ComputeProfileConfig_quick_def ComputeProfileConfig_default_def
      ComputeProfileConfig_init_def Let_def quick_simps)

definition database_request :: "run_options \<Rightarrow> int \<times> int \<times> int" where
  "database_request opts = (or_int (ro_concurrency opts) (if ro_quick opts then 2 else 4),
     or_int (ro_database_records opts) (if ro_quick opts then 200 else 2000),
     or_int (ro_database_payload_bytes opts) (if ro_quick opts then 128 else 256))"

lemma database_command:
  "case database_request opts of (concurrency, records, payload) \<Rightarrow>
   (case database_sample_config opts of
      Inl e \<Rightarrow> \<not> (between 1 concurrency 32 \<and> between 100 records 100000 \<and> between 32 payload 4096 \<and>
        records * payload \<le> 128 * MIB)
    | Inr c \<Rightarrow> between 1 concurrency 32 \<and> between 100 records 100000 \<and> between 32 payload 4096 \<and>
        records * payload \<le> 128 * MIB \<and>
        dp_concurrency c = concurrency \<and> dp_record_count c = records \<and> dp_payload_bytes c = payload)"
  by (cases "ro_quick opts"; cases "ro_database_records opts"; cases "ro_database_payload_bytes opts"; cases "ro_concurrency opts")
    (auto simp: at_most_def database_request_def database_sample_config_def int_or_eq between_def database_replace_def
      DatabaseProfileConfig_quick_def DatabaseProfileConfig_default_def DatabaseProfileConfig_init_def or_int_def quick_simps)

lemma if_Inl_elim: "(if b then Inl e else r) = Inr u \<Longrightarrow> (r = Inr u \<Longrightarrow> P) \<Longrightarrow> P"
  by (cases b) simp_all

lemma rbind_elim: "rbind r f = Inr u \<Longrightarrow> (\<And>x. f x = Inr u \<Longrightarrow> P) \<Longrightarrow> P"
  by (cases r) simp_all

lemma case_elim: "(case r of Inl x \<Rightarrow> Inl e | Inr y \<Rightarrow> f y) = Inr u \<Longrightarrow> (\<And>y. f y = Inr u \<Longrightarrow> P) \<Longrightarrow> P"
  by (cases r) simp_all

lemma validated_url_strip: "validated_url bh f v = Inr u \<Longrightarrow> u = strip v"
  unfolding validated_url_def Let_def by (elim if_Inl_elim rbind_elim case_elim) simp

lemma validated_url_idem: "validated_url bh f v = Inr u \<Longrightarrow> validated_url bh f u = Inr u"
proof -
  assume v: "validated_url bh f v = Inr u"
  have "validated_url bh f (strip v) = validated_url bh f v" by (simp only: validated_url_def strip_strip)
  then show ?thesis using v validated_url_strip [OF v] by metis
qed

lemma scope_value: "NetworkScope_of v = Inr s \<Longrightarrow> NetworkScope_value s = v"
  by (auto simp: NetworkScope_of_def split: if_splits)

definition web_request :: "run_options \<Rightarrow> int \<times> int \<times> int" where
  "web_request opts = (let requests = or_int (ro_request_count opts) (if ro_quick opts then 6 else 40) in
     (requests, or_int (ro_concurrency opts) (min requests (if ro_quick opts then 2 else 4)),
      or_int (ro_max_response_bytes opts) (if ro_quick opts then 256 * KIB else 2 * MIB)))"

definition web_request_ok :: "int \<times> int \<times> int \<Rightarrow> bool" where
  "web_request_ok r \<longleftrightarrow> (case r of (requests, concurrency, bytes) \<Rightarrow>
     between 1 requests 1000 \<and> between 1 concurrency 64 \<and> between KIB bytes (16 * MIB) \<and> concurrency \<le> requests \<and>
     requests * bytes \<le> 512 * MIB)"

definition valid_target :: "(string \<Rightarrow> bool) \<Rightarrow> run_options \<Rightarrow> bool" where
  "valid_target bh opts \<longleftrightarrow> ro_network_scope opts \<in> {''public'', ''private''} \<and>
     (case validated_url bh ''target_url'' (or_default (ro_target_url opts) DEFAULT_TARGET) of Inl e \<Rightarrow> False | Inr u \<Rightarrow> True)"

lemma int_field_if:
  "int_field name a b (PInt n) = (if between a n b then Inr n else int_field name a b (PInt n))"
  "between a n b \<Longrightarrow> int_field name a b (PInt n) = Inr n"
  "\<not> between a n b \<Longrightarrow> \<exists>e. int_field name a b (PInt n) = Inl e"
  by (simp_all add: between_def)

lemma at_most_Inr_if: "n \<le> k \<Longrightarrow> at_most n k m = Inr ()" "\<not> n \<le> k \<Longrightarrow> \<exists>e. at_most n k m = Inl e"
  by (simp_all add: at_most_def)

lemma rbind_Inl_ex: "(\<exists>e. r = Inl e) \<Longrightarrow> \<exists>e. rbind r f = Inl e"
  by auto

lemma web_init_ok:
  assumes "WebProfileConfig_init bh v url scope (PInt r) (PInt n) w t (PInt mb) b ua = Inr c"
  shows "web_request_ok (r, n, mb)"
proof -
  have "between 1 r 1000 \<and> between 1 n 64 \<and> between KIB mb (16 * MIB) \<and> n \<le> r \<and> r * mb \<le> 512 * MIB"
    using assms unfolding WebProfileConfig_init_def rbind_Inr_iff int_field_Inr at_most_Inr between_def pyval.inject
    by (elim exE conjE) simp
  then show ?thesis by (simp add: web_request_ok_def)
qed

lemma web_init_cases:
  assumes "validated_url bh ''target_url'' url = Inr u" and "between 0 warm 100" and "timeout_field (PFloat t) = Inr t"
  shows "web_request_ok (r, n, mb) \<Longrightarrow>
    WebProfileConfig_init bh ''1.0.0'' url scope (PInt r) (PInt n) (PInt warm) (PFloat t) (PInt mb) (PBool b) ''CloudEyes/0.1 web-v1'' =
     Inr \<lparr>wp_version = ''1.0.0'', wp_target_url = u, wp_scope = scope, wp_request_count = r, wp_concurrency = n,
       wp_warmup_requests = warm, wp_timeout_seconds = t, wp_max_response_bytes = mb, wp_verify_tls = b,
       wp_user_agent = ''CloudEyes/0.1 web-v1''\<rparr>"
    and "\<not> web_request_ok (r, n, mb) \<Longrightarrow> \<exists>e.
    WebProfileConfig_init bh ''1.0.0'' url scope (PInt r) (PInt n) (PInt warm) (PFloat t) (PInt mb) (PBool b) ''CloudEyes/0.1 web-v1'' = Inl e"
proof -
  have kib: "1 * KIB = KIB" by simp
  show "web_request_ok (r, n, mb) \<Longrightarrow>
    WebProfileConfig_init bh ''1.0.0'' url scope (PInt r) (PInt n) (PInt warm) (PFloat t) (PInt mb) (PBool b) ''CloudEyes/0.1 web-v1'' =
     Inr \<lparr>wp_version = ''1.0.0'', wp_target_url = u, wp_scope = scope, wp_request_count = r, wp_concurrency = n,
       wp_warmup_requests = warm, wp_timeout_seconds = t, wp_max_response_bytes = mb, wp_verify_tls = b,
       wp_user_agent = ''CloudEyes/0.1 web-v1''\<rparr>"
    unfolding WebProfileConfig_init_def web_request_ok_def prod.case known_fields(1,2) assms(1,3) rbind.simps bool_field.simps kib
    by (elim conjE) (simp only: int_field_if(2) assms(2) at_most_Inr_if(1) rbind.simps)
  show "\<not> web_request_ok (r, n, mb) \<Longrightarrow> \<exists>e.
    WebProfileConfig_init bh ''1.0.0'' url scope (PInt r) (PInt n) (PInt warm) (PFloat t) (PInt mb) (PBool b) ''CloudEyes/0.1 web-v1'' = Inl e"
    using web_init_ok [of bh "''1.0.0''" url scope r n "PInt warm" "PFloat t" mb "PBool b" "''CloudEyes/0.1 web-v1''"]
    by (metis sum.exhaust)
qed

definition web_base :: "run_options \<Rightarrow> string \<Rightarrow> NetworkScope \<Rightarrow> WebProfileConfig" where
  "web_base opts u scope = \<lparr>wp_version = ''1.0.0'', wp_target_url = u, wp_scope = scope,
     wp_request_count = (if ro_quick opts then 6 else 40), wp_concurrency = (if ro_quick opts then 2 else 4),
     wp_warmup_requests = (if ro_quick opts then 1 else 4), wp_timeout_seconds = (if ro_quick opts then Fin 5 else Fin 10),
     wp_max_response_bytes = (if ro_quick opts then 256 * KIB else 2 * MIB), wp_verify_tls = ro_verify_tls opts,
     wp_user_agent = ''CloudEyes/0.1 web-v1''\<rparr>"

lemma web_base_init:
  assumes "validated_url bh ''target_url'' url = Inr u"
  shows "(if ro_quick opts then WebProfileConfig_quick bh url scope (PBool (ro_verify_tls opts))
      else WebProfileConfig_default bh url scope (PBool (ro_verify_tls opts))) = Inr (web_base opts u scope)"
proof -
  have "web_request_ok (6, 2, 256 * KIB)" "web_request_ok (40, 4, 2 * MIB)" "between 0 1 100" "between 0 4 100"
    by (simp_all add: web_request_ok_def between_def KIB_def MIB_def)
  then show ?thesis
    by (cases "ro_quick opts")
      (simp_all only: WebProfileConfig_quick_def WebProfileConfig_default_def web_base_def web_init_cases(1) [OF assms] known_fields(7,8)
        if_True if_False)
qed

lemma web_command:
  "case web_request opts of (requests, concurrency, bytes) \<Rightarrow>
   (case web_sample_config bh opts of
      Inl e \<Rightarrow> \<not> (valid_target bh opts \<and> web_request_ok (requests, concurrency, bytes))
    | Inr c \<Rightarrow> valid_target bh opts \<and> web_request_ok (requests, concurrency, bytes) \<and>
        wp_request_count c = requests \<and> wp_concurrency c = concurrency \<and> wp_max_response_bytes c = bytes \<and>
        NetworkScope_value (wp_scope c) = ro_network_scope opts \<and> wp_verify_tls c = ro_verify_tls opts)"
proof (cases "validated_url bh ''target_url'' (or_default (ro_target_url opts) DEFAULT_TARGET)")
  case (Inl e)
  then show ?thesis
    by (auto simp: web_sample_config_def valid_target_def web_request_def WebProfileConfig_quick_def WebProfileConfig_default_def
        WebProfileConfig_init_def known_fields Let_def rbind_Inr_iff split: sum.split)
next
  case (Inr u)
  show ?thesis
  proof (cases "NetworkScope_of (ro_network_scope opts)")
    case (Inl e)
    then show ?thesis by (auto simp: web_sample_config_def valid_target_def web_request_def Let_def NetworkScope_of_def split: if_splits)
  next
    case scope: (Inr scope)
    have valid: "valid_target bh opts" using scope Inr by (auto simp: valid_target_def NetworkScope_of_def split: if_splits)
    obtain r n mb where request: "web_request opts = (r, n, mb)" by (cases "web_request opts")
    let ?c = "web_base opts u scope"
    have parts: "int_or (ro_request_count opts) (wp_request_count ?c) = PInt r" "web_concurrency opts ?c = n"
      "int_or (ro_max_response_bytes opts) (wp_max_response_bytes ?c) = PInt mb"
      using request by (auto simp: web_request_def Let_def int_or_eq web_base_def web_concurrency_def or_int_def split: option.splits)
    have plain: "ro_request_count opts = None \<and> ro_concurrency opts = None \<and> ro_max_response_bytes opts = None \<Longrightarrow>
      web_request_ok (r, n, mb) \<and> wp_request_count ?c = r \<and> wp_concurrency ?c = n \<and> wp_max_response_bytes ?c = mb"
      using request by (auto simp: web_request_def or_int_def web_base_def web_request_ok_def between_def KIB_def MIB_def)
    have "between 0 (wp_warmup_requests ?c) 100" "timeout_field (PFloat (wp_timeout_seconds ?c)) = Inr (wp_timeout_seconds ?c)"
      by (simp_all add: web_base_def between_def known_fields)
    note init = web_init_cases [OF validated_url_idem [OF Inr] this, of r n mb "wp_scope ?c" "wp_verify_tls ?c"]
    have config: "web_sample_config bh opts =
      (if ro_request_count opts = None \<and> ro_concurrency opts = None \<and> ro_max_response_bytes opts = None then Inr ?c
       else WebProfileConfig_init bh ''1.0.0'' u (wp_scope ?c) (PInt r) (PInt n) (PInt (wp_warmup_requests ?c))
         (PFloat (wp_timeout_seconds ?c)) (PInt mb) (PBool (wp_verify_tls ?c)) ''CloudEyes/0.1 web-v1'')"
      unfolding web_sample_config_def Let_def scope web_base_init [OF Inr] rbind.simps web_replace_def parts by (simp add: web_base_def)
    have fixed: "NetworkScope_value (wp_scope ?c) = ro_network_scope opts" "wp_verify_tls ?c = ro_verify_tls opts"
      using scope_value [OF scope] by (simp_all add: web_base_def)
    show ?thesis
    proof (cases "ro_request_count opts = None \<and> ro_concurrency opts = None \<and> ro_max_response_bytes opts = None")
      case True
      then show ?thesis using plain fixed valid by (simp add: request config)
    next
      case False
      show ?thesis
      proof (cases "web_request_ok (r, n, mb)")
        case True
        show ?thesis unfolding request config prod.case if_not_P [OF False] init(1) [OF True] using True fixed valid by simp
      next
        case bad: False
        then obtain e where "WebProfileConfig_init bh ''1.0.0'' u (wp_scope ?c) (PInt r) (PInt n) (PInt (wp_warmup_requests ?c))
         (PFloat (wp_timeout_seconds ?c)) (PInt mb) (PBool (wp_verify_tls ?c)) ''CloudEyes/0.1 web-v1'' = Inl e"
          using init(2) by blast
        then show ?thesis unfolding request config prod.case if_not_P [OF False] using bad by simp
      qed
    qed
  qed
qed

lemma networking_init_ping:
  "NetworkingProfileConfig_init bh v url up scope reps t dl ul (PInt n) b ua = Inr c \<Longrightarrow> np_ping_count c = n \<and> np_scope c = scope"
  unfolding NetworkingProfileConfig_init_def rbind_Inr_iff int_field_Inr by (elim exE conjE) auto

lemma networking_command:
  "case networking_sample_config bh opts of Inl e \<Rightarrow> True | Inr c \<Rightarrow>
     np_ping_count c = (if ro_enable_ping opts then if ro_quick opts then 2 else 5 else 0) \<and>
     NetworkScope_value (np_scope c) = ro_network_scope opts"
proof (cases "networking_sample_config bh opts")
  case (Inr c)
  then obtain scope base where scope: "NetworkScope_of (ro_network_scope opts) = Inr scope"
    and base: "(if ro_quick opts
       then NetworkingProfileConfig_quick bh (or_default (ro_target_url opts) DEFAULT_TARGET) (ro_upload_url opts) scope (PBool (ro_verify_tls opts))
       else NetworkingProfileConfig_default bh (or_default (ro_target_url opts) DEFAULT_TARGET) (ro_upload_url opts) scope
         (PBool (ro_verify_tls opts))) = Inr base"
    and c: "(if \<not> ro_enable_ping opts then networking_replace_ping bh base 0 else Inr base) = Inr c"
    unfolding networking_sample_config_def Let_def rbind_Inr_iff by blast
  have "np_ping_count base = (if ro_quick opts then 2 else 5) \<and> np_scope base = scope"
    using base unfolding NetworkingProfileConfig_quick_def NetworkingProfileConfig_default_def
    by (cases "ro_quick opts") (simp_all only: if_True if_False, (drule networking_init_ping, simp)+)
  then show ?thesis using c scope_value [OF scope] networking_init_ping
    unfolding Inr networking_replace_ping_def by (cases "ro_enable_ping opts") (auto simp del: NetworkScope_value.simps)
qed simp

text \<open>
  The options of the run command decide the configuration. The general profile is always accepted
  and keeps the storage choice; compute is accepted exactly for 0 to 64 workers; the database
  profile exactly when the concurrency, the records and the payload are in range and their product is at most
  128 MiB; the web profile exactly for a valid target and scope, requests, concurrency and bytes in
  range. The configuration has the values asked for, a lone request count lowers the web concurrency to
  itself, and without ping no probe is sent.
\<close>

theorem command_configs:
  "(case general_sample_config opts of Inl e \<Rightarrow> False | Inr c \<Rightarrow> gp_include_storage c = ro_include_storage opts) \<and>
   (case compute_sample_config opts of
      Inl e \<Rightarrow> \<not> between 0 (or_int (ro_workers opts) 0) 64
    | Inr c \<Rightarrow> between 0 (or_int (ro_workers opts) 0) 64 \<and> cp_workers c = or_int (ro_workers opts) 0) \<and>
   (case database_request opts of (concurrency, records, payload) \<Rightarrow>
    (case database_sample_config opts of
      Inl e \<Rightarrow> \<not> (between 1 concurrency 32 \<and> between 100 records 100000 \<and> between 32 payload 4096 \<and>
        records * payload \<le> 128 * MIB)
    | Inr c \<Rightarrow> between 1 concurrency 32 \<and> between 100 records 100000 \<and> between 32 payload 4096 \<and>
        records * payload \<le> 128 * MIB \<and>
        dp_concurrency c = concurrency \<and> dp_record_count c = records \<and> dp_payload_bytes c = payload)) \<and>
   (case web_request opts of (requests, concurrency, bytes) \<Rightarrow>
    (case web_sample_config bh opts of
      Inl e \<Rightarrow> \<not> (valid_target bh opts \<and> web_request_ok (requests, concurrency, bytes))
    | Inr c \<Rightarrow> valid_target bh opts \<and> web_request_ok (requests, concurrency, bytes) \<and>
        wp_request_count c = requests \<and> wp_concurrency c = concurrency \<and> wp_max_response_bytes c = bytes \<and>
        NetworkScope_value (wp_scope c) = ro_network_scope opts \<and> wp_verify_tls c = ro_verify_tls opts)) \<and>
   (case networking_sample_config bh opts of Inl e \<Rightarrow> True | Inr c \<Rightarrow>
     np_ping_count c = (if ro_enable_ping opts then if ro_quick opts then 2 else 5 else 0) \<and>
     NetworkScope_value (np_scope c) = ro_network_scope opts)"
  by (intro conjI general_command compute_command database_command web_command networking_command)

end
