(* ===== verification/Targets.thy ===== *)
theory Targets
  imports Profile Submission
begin

text \<open>
  What the web and the networking benchmark share, \<open>profiles/web/benchmarks.py\<close> and
  \<open>profiles/networking/benchmarks.py\<close>; the two files hold the same text of these functions: elapsed time
  and percentiles, the parts of a target URL, the policy on addresses, and the loop that reads a response
  up to a limit. Name resolution, address classification and the transport are arguments.
\<close>

section \<open>What a benchmark raises\<close>

datatype bench_error = BenchCancelled | BenchRaised string

type_synonym 'a bench = "bench_error + 'a"

definition raising :: "'a result \<Rightarrow> 'a bench" where
  "raising r = (case r of Inl e \<Rightarrow> Inl (BenchRaised (error_name e)) | Inr x \<Rightarrow> Inr x)"

fun bench_outcome :: "(Metric list \<times> (string \<times> pyval) list \<times> string list) bench \<Rightarrow> benchmark_outcome" where
  "bench_outcome (Inl BenchCancelled) = CancelRequested"
| "bench_outcome (Inl (BenchRaised t)) = RaisedType t"
| "bench_outcome (Inr (metrics, evidence, warnings)) = Completed metrics evidence warnings"

text \<open>What a run that returned has returned.\<close>

definition completed :: "benchmark_outcome \<Rightarrow> (Metric list \<times> (string \<times> pyval) list \<times> string list) option" where
  "completed outcome = (case outcome of Completed metrics evidence warnings \<Rightarrow> Some (metrics, evidence, warnings) | _ \<Rightarrow> None)"

section \<open>Time and percentiles\<close>

definition NANOSECOND :: pyfloat where "NANOSECOND = fl (1 / 1000000000)"

definition elapsed :: "pyfloat \<Rightarrow> pyfloat \<Rightarrow> pyfloat" where
  "elapsed started_at now = (let d = fsub now started_at in if flt d NANOSECOND then NANOSECOND else d)"

definition milliseconds :: "pyfloat \<Rightarrow> pyfloat" where
  "milliseconds seconds = fmul seconds (Fin 1000)"

definition linear_percentile :: "pyfloat list \<Rightarrow> pyfloat \<Rightarrow> pyfloat result" where
  "linear_percentile values p =
    (if values = [] then Inl (ValueError ''percentile requires at least one value'')
     else let ordered = sort values in
       if length ordered = 1 then Inr (ordered ! 0)
       else rbind (float_of_int (int (length ordered) - 1)) (\<lambda>last.
         case fmul last p of
           Fin position \<Rightarrow>
             (let lower = \<lfloor>position\<rfloor>; upper = min (lower + 1) (int (length ordered) - 1) in
              rbind (float_of_int lower) (\<lambda>low.
                let fraction = fsub (Fin position) low; a = ordered ! nat lower; b = ordered ! nat upper in
                Inr (fadd a (fmul (fsub b a) fraction))))
         | NaN \<Rightarrow> Inl (ValueError ''cannot convert float NaN to integer'')
         | _ \<Rightarrow> Inl OverflowError))"

definition bench_metric :: "string \<Rightarrow> pyfloat result \<Rightarrow> string \<Rightarrow> MetricDirection \<Rightarrow> Metric result" where
  "bench_metric name v unit direction = rbind v (\<lambda>x. Metric_init (PStr name) (PFloat x) (PStr unit) direction)"

text \<open>A tuple of metrics, computed from left to right.\<close>

type_synonym metric_spec = "string \<times> pyfloat result \<times> string \<times> MetricDirection"

definition bench_metrics :: "metric_spec list \<Rightarrow> Metric list result" where
  "bench_metrics specs = rmap (\<lambda>(name, v, unit, direction). bench_metric name v unit direction) specs"

section \<open>The target\<close>

definition default_port :: "endpoint_parts \<Rightarrow> int" where
  "default_port parsed = (if ep_scheme parsed = ''https'' then 443 else 80)"

definition target_host :: "endpoint_parts \<Rightarrow> string" where
  "target_host parsed = lower_host (fst (hostinfo (ep_netloc parsed)))"

text \<open>\<open>parsed.port or default\<close>.\<close>

definition target_port :: "endpoint_parts \<Rightarrow> int result" where
  "target_port parsed = rbind (port_number (snd (hostinfo (ep_netloc parsed)))) (\<lambda>port.
     Inr (case port of None \<Rightarrow> default_port parsed | Some n \<Rightarrow> if n = 0 then default_port parsed else n))"

definition endpoint :: "endpoint_parts \<Rightarrow> (string \<times> int) result" where
  "endpoint parsed = (if target_host parsed = [] then Inl (ValueError ''target URL does not include a hostname'')
     else rbind (target_port parsed) (\<lambda>port. Inr (target_host parsed, port)))"

definition request_path :: "endpoint_parts \<Rightarrow> string" where
  "request_path parsed = (let path = (if ep_path parsed = [] then ''/'' else ep_path parsed) in
     if ep_query parsed \<noteq> [] then path @ ''?'' @ ep_query parsed else path)"

definition origin :: "endpoint_parts \<Rightarrow> string result" where
  "origin parsed = (let host = (if target_host parsed = [] then ''unknown'' else target_host parsed);
       rendered_host = (if CHR '':'' \<in> set host then ''['' @ host @ '']'' else host) in
     rbind (target_port parsed) (\<lambda>port. let suffix = (if port = default_port parsed then [] else '':'' @ int_str port) in
     Inr (ep_scheme parsed @ ''://'' @ rendered_host @ suffix)))"

definition path_hash :: "(string \<Rightarrow> string) \<Rightarrow> endpoint_parts \<Rightarrow> string" where
  "path_hash sha256 parsed = sha256 (if ep_path parsed = [] then ''/'' else ep_path parsed)"

section \<open>Addresses\<close>

text \<open>The properties of an \<open>ipaddress\<close> object the policy reads.\<close>

record address_flags =
  af_unspecified :: bool
  af_multicast :: bool
  af_link_local :: bool
  af_reserved :: bool
  af_private :: bool
  af_loopback :: bool

definition address_allowed :: "address_flags \<Rightarrow> NetworkScope \<Rightarrow> bool" where
  "address_allowed address scope =
    (if af_unspecified address \<or> af_multicast address \<or> af_link_local address then False
     else if af_reserved address then False
     else if scope = PublicScope then \<not> af_private address \<and> \<not> af_loopback address
     else True)"

datatype family = AF_INET | AF_INET6 | AF_OTHER

text \<open>\<open>getaddrinfo\<close>: the family and the first component of each address, or the class of what it raised.\<close>

type_synonym dns_answer = "string + (family \<times> string) list"

definition tcp_addresses :: "(family \<times> string) list \<Rightarrow> (family \<times> string) list" where
  "tcp_addresses records = dedup (filter (\<lambda>r. fst r = AF_INET \<or> fst r = AF_INET6) records)"

definition resolve_addresses :: "dns_answer \<Rightarrow> (family \<times> string) list bench" where
  "resolve_addresses answer = (case answer of
     Inl t \<Rightarrow> Inl (BenchRaised t)
   | Inr records \<Rightarrow> if tcp_addresses records = [] then Inl (BenchRaised ''OSError'') else Inr (tcp_addresses records))"

text \<open>\<open>ip_address\<close> gives the properties of an address or raises \<open>ValueError\<close>; the second argument names the
  exception for a rejected address.\<close>

definition validate_addresses ::
  "(string \<Rightarrow> address_flags option) \<Rightarrow> string \<Rightarrow> NetworkScope \<Rightarrow> (family \<times> string) list \<Rightarrow> unit bench" where
  "validate_addresses ip_address safety_error scope addresses =
    rbind (rmap (\<lambda>(family, raw_address). case ip_address raw_address of
        None \<Rightarrow> Inl (BenchRaised ''ValueError'')
      | Some address \<Rightarrow> Inr (address_allowed address scope)) addresses)
      (\<lambda>allowed. if list_all (\<lambda>b. b) allowed then Inr () else Inl (BenchRaised safety_error))"

definition permitted :: "(string \<Rightarrow> address_flags option) \<Rightarrow> NetworkScope \<Rightarrow> string \<Rightarrow> bool" where
  "permitted ip_address scope raw_address =
    (case ip_address raw_address of None \<Rightarrow> False | Some address \<Rightarrow> address_allowed address scope)"

section \<open>Reading a response\<close>

text \<open>
  The loop over \<open>response.read\<close> with chunks of at most 64 KiB. \<open>cancelled k\<close> is the \<open>k\<close>-th checkpoint,
  \<open>read k n\<close> what the \<open>k\<close>-th read of at most \<open>n\<close> bytes does: the number of bytes, or the class it raised.
\<close>

function read_chunks ::
  "(nat \<Rightarrow> bool) \<Rightarrow> (nat \<Rightarrow> nat \<Rightarrow> string + nat) \<Rightarrow> nat \<Rightarrow> nat \<Rightarrow> nat \<Rightarrow> nat bench" where
  "read_chunks cancelled read limit k got =
    (if limit \<le> got then Inr got
     else if cancelled k then Inl BenchCancelled
     else case read k (min (64 * 1024) (limit - got)) of
         Inl t \<Rightarrow> Inl (BenchRaised t)
       | Inr n \<Rightarrow> if n = 0 then Inr got else read_chunks cancelled read limit (Suc k) (got + n))"
  by pat_completeness auto
termination
  by (relation "measure (\<lambda>(_, _, limit, _, got). limit - got)") auto

declare read_chunks.simps [simp del]

text \<open>No read returns more than it was asked for, as \<open>io\<close> documents.\<close>

definition bounded_reads :: "(nat \<Rightarrow> nat \<Rightarrow> string + nat) \<Rightarrow> bool" where
  "bounded_reads read \<longleftrightarrow> (\<forall>k n. case read k n of Inl t \<Rightarrow> True | Inr m \<Rightarrow> m \<le> n)"

section \<open>Facts\<close>

lemma raising_Inr [simp]: "raising r = Inr x \<longleftrightarrow> r = Inr x"
  by (auto simp: raising_def split: sum.splits)

lemma completed_Some [simp]: "completed (bench_outcome r) = Some x \<longleftrightarrow> r = Inr x"
  by (cases r rule: bench_outcome.cases) (auto simp: completed_def)

lemma bench_metric_Inr:
  "bench_metric name v u d = Inr m \<Longrightarrow> metric_name m = strip name \<and> isfinite (metric_value m) \<and> v = Inr (metric_value m) \<and> metric_direction m = d"
  by (auto simp: bench_metric_def Metric_init_def rbind_Inr_iff split: if_splits)

text \<open>Metrics that could be made have the names they were given and finite values.\<close>

lemma bench_metrics_Inr:
  "bench_metrics specs = Inr ms \<Longrightarrow>
   map metric_name ms = map (\<lambda>s. strip (fst s)) specs \<and> list_all (\<lambda>m. isfinite (metric_value m)) ms \<and>
   list_all2 (\<lambda>s m. fst (snd s) = Inr (metric_value m)) specs ms"
  unfolding bench_metrics_def
proof (induction specs arbitrary: ms)
  case (Cons s specs)
  then show ?case by (cases s) (auto simp: rbind_Inr_iff dest!: bench_metric_Inr)
qed simp

lemma percent_range:
  assumes "0 \<le> f" and "f \<le> n" and "0 < n" and "rbind (int_truediv f n) (\<lambda>r. Inr (fmul r (Fin 100))) = Inr v"
  shows "\<exists>r. v = Fin r \<and> 0 \<le> r \<and> r \<le> 100"
proof -
  obtain u where u: "int_truediv f n = Inr (Fin u)" "0 \<le> u" "u \<le> 1" using int_truediv_unit [OF assms(1-3)] by blast
  have "representable 100" using representable_int [of 100] by simp
  then have "\<exists>r. fl (u * 100) = Fin r \<and> 0 \<le> r \<and> r \<le> 100" using u by (intro fl_between) auto
  then show ?thesis using assms(4) u(1) by auto
qed

lemma resolve_addresses_Inr:
  "resolve_addresses answer = Inr as \<longleftrightarrow> (\<exists>records. answer = Inr records \<and> as = tcp_addresses records \<and> as \<noteq> [])"
  by (cases answer) (auto simp: resolve_addresses_def)

lemma validated_permitted:
  assumes "validate_addresses ip t scope addresses = Inr ()"
  shows "list_all (\<lambda>a. permitted ip scope (snd a)) addresses"
proof -
  let ?f = "\<lambda>(fam :: family, raw). case ip raw of None \<Rightarrow> Inl (BenchRaised ''ValueError'')
      | Some address \<Rightarrow> Inr (address_allowed address scope)"
  obtain allowed where m: "rmap ?f addresses = Inr allowed" and ok: "list_all (\<lambda>b. b) allowed"
    using assms by (auto simp: validate_addresses_def rbind_Inr_iff split: if_splits)
  have "rmap ?f as = Inr bs \<Longrightarrow> list_all (\<lambda>b. b) bs \<Longrightarrow> list_all (\<lambda>a. permitted ip scope (snd a)) as" for as bs
    by (induction as arbitrary: bs)
      (auto simp: rbind_Inr_iff permitted_def split: option.splits)
  from this [OF m ok] show ?thesis .
qed

lemma public_permitted:
  "permitted ip PublicScope a \<Longrightarrow> \<exists>f. ip a = Some f \<and> \<not> af_private f \<and> \<not> af_loopback f \<and> \<not> af_link_local f"
  by (auto simp: permitted_def address_allowed_def split: option.splits if_splits)

lemma read_chunks_bound:
  "bounded_reads read \<Longrightarrow> got \<le> limit \<Longrightarrow> read_chunks cancelled read limit k got = Inr n \<Longrightarrow> n \<le> limit"
proof (induction cancelled read limit k got rule: read_chunks.induct)
  case (1 cancelled read limit k got)
  have small: "m \<le> limit - got" if "read k (min (64 * 1024) (limit - got)) = Inr m" for m
  proof -
    have "case read k (min (64 * 1024) (limit - got)) of Inl t \<Rightarrow> True | Inr m \<Rightarrow> m \<le> min (64 * 1024) (limit - got)"
      using "1.prems"(1) unfolding bounded_reads_def by blast
    with that show ?thesis by simp
  qed
  show ?case
    using "1.prems" "1.IH" small
    by (subst (asm) read_chunks.simps) (auto split: if_splits sum.splits)
qed

lemma nanosecond_pos: "isfinite NANOSECOND \<and> flt (Fin 0) NANOSECOND"
  by code_simp

lemma at_least_pos: "isfinite n \<Longrightarrow> flt (Fin 0) n \<Longrightarrow> (if flt d n then n else d) = Fin r \<Longrightarrow> 0 < r"
  by (cases n; cases d) (auto split: if_splits)

lemma elapsed_pos: "elapsed a b = Fin r \<Longrightarrow> 0 < r"
  unfolding elapsed_def Let_def using at_least_pos nanosecond_pos by blast

end
