(* ===== verification/WebBenchmark.thy ===== *)
theory WebBenchmark
  imports Targets
begin

text \<open>
  \<open>profiles/web/benchmarks.py\<close>: a bounded number of GET requests by a pool of threads, to the addresses
  the host resolved to and the policy let pass. What each request met is a function of its index, and the
  order in which the pool completes them is a list; the run also returns the requests it sent.
\<close>

section \<open>One request\<close>

text \<open>
  \<open>_ResolvedHTTPConnection\<close> and the request on it: the socket is connected to the address it was given,
  with the host only as the name for TLS, whose context verifies or not.
\<close>

record web_contact =
  wc_index :: int
  wc_host :: string
  wc_port :: int
  wc_family :: family
  wc_address :: string
  wc_tls :: "bool option"
  wc_timeout :: pyfloat
  wc_path :: string
  wc_headers :: "(string \<times> string) list"

text \<open>The tuple \<open>connect\<close> passes to the socket: flow and scope numbers are added for IPv6.\<close>

definition socket_target :: "web_contact \<Rightarrow> string \<times> int \<times> int list" where
  "socket_target c = (wc_address c, wc_port c, if wc_family c = AF_INET6 then [0, 0] else [])"

record WebRequestObservation =
  wo_request_index :: int
  wo_status_code :: "int option"
  wo_success :: bool
  wo_ttfb_milliseconds :: "pyfloat option"
  wo_total_milliseconds :: pyfloat
  wo_response_bytes :: int
  wo_response_truncated :: bool
  wo_error_type :: "string option"

text \<open>
  What one request meets: the exception of \<open>ssl.create_default_context\<close> if any, the status or the exception
  of connecting and sending, the reads of the body, the readings of the timer and the checkpoints, in order.
\<close>

record exchange =
  ex_context_error :: "string option"
  ex_response :: "string + int"
  ex_read :: "nat \<Rightarrow> nat \<Rightarrow> string + nat"
  ex_timer :: "nat \<Rightarrow> pyfloat"
  ex_cancelled :: "nat \<Rightarrow> bool"

definition request_headers :: "WebProfileConfig \<Rightarrow> (string \<times> string) list" where
  "request_headers config = [(''Accept'', ''text/html,application/json;q=0.9,*/*;q=0.8''), (''Accept-Encoding'', ''identity''),
     (''Connection'', ''close''), (''User-Agent'', wp_user_agent config)]"

text \<open>\<open>_connection\<close>; the remainder of a negative index is not negative.\<close>

definition connection ::
  "endpoint_parts \<Rightarrow> WebProfileConfig \<Rightarrow> (family \<times> string) list \<Rightarrow> int \<Rightarrow> string option \<Rightarrow> web_contact bench" where
  "connection parsed config addresses request_index context_error =
    rbind (raising (endpoint parsed)) (\<lambda>(host, port).
    let (family, address) = addresses ! nat (request_index mod int (length addresses)) in
    rbind (if ep_scheme parsed \<noteq> ''https'' then Inr None
        else case context_error of Some t \<Rightarrow> Inl (BenchRaised t) | None \<Rightarrow> Inr (Some (wp_verify_tls config))) (\<lambda>tls.
    Inr \<lparr>wc_index = request_index, wc_host = host, wc_port = port, wc_family = family, wc_address = address, wc_tls = tls,
      wc_timeout = wp_timeout_seconds config, wc_path = request_path parsed, wc_headers = request_headers config\<rparr>))"

definition failed_observation :: "int \<Rightarrow> pyfloat \<Rightarrow> string \<Rightarrow> WebRequestObservation" where
  "failed_observation request_index total_ms error_type =
    \<lparr>wo_request_index = request_index, wo_status_code = None, wo_success = False, wo_ttfb_milliseconds = None,
     wo_total_milliseconds = total_ms, wo_response_bytes = 0, wo_response_truncated = False, wo_error_type = Some error_type\<rparr>"

definition observe :: "WebProfileConfig \<Rightarrow> int \<Rightarrow> exchange \<Rightarrow> WebRequestObservation bench" where
  "observe config request_index ex =
    (let since = (\<lambda>k. milliseconds (elapsed (ex_timer ex 0) (ex_timer ex k))); limit = wp_max_response_bytes config in
     case ex_response ex of
       Inl t \<Rightarrow> Inr (failed_observation request_index (since 1) t)
     | Inr status \<Rightarrow>
        (case read_chunks (\<lambda>k. ex_cancelled ex (Suc k)) (ex_read ex) (nat (limit + 1)) 0 0 of
           Inl BenchCancelled \<Rightarrow> Inl BenchCancelled
         | Inl (BenchRaised t) \<Rightarrow> Inr (failed_observation request_index (since 2) t)
         | Inr payload_bytes \<Rightarrow> Inr
            \<lparr>wo_request_index = request_index, wo_status_code = Some status, wo_success = (200 \<le> status \<and> status < 300),
             wo_ttfb_milliseconds = Some (since 1), wo_total_milliseconds = since 2,
             wo_response_bytes = min (int payload_bytes) limit, wo_response_truncated = (limit < int payload_bytes),
             wo_error_type = None\<rparr>))"

text \<open>\<open>_request_once\<close>, with the request it sent, if any.\<close>

definition request_once ::
  "endpoint_parts \<Rightarrow> WebProfileConfig \<Rightarrow> (family \<times> string) list \<Rightarrow> int \<Rightarrow> exchange \<Rightarrow>
   web_contact list \<times> WebRequestObservation bench" where
  "request_once parsed config addresses request_index ex =
    (if ex_cancelled ex 0 then ([], Inl BenchCancelled)
     else case connection parsed config addresses request_index (ex_context_error ex) of
         Inl e \<Rightarrow> ([], Inl e)
       | Inr c \<Rightarrow> ([c], observe config request_index ex))"

section \<open>The workload\<close>

text \<open>
  \<open>request\<close> is one request by its index. The warm-up requests are -1, -2, \<dots>; checkpoint \<open>k + 1\<close> of the main
  thread precedes the \<open>k\<close>-th of them.
\<close>

fun warm_up ::
  "(int \<Rightarrow> web_contact list \<times> WebRequestObservation bench) \<Rightarrow> (nat \<Rightarrow> bool) \<Rightarrow> nat list \<Rightarrow> web_contact list \<times> int bench" where
  "warm_up request cancelled [] = ([], Inr 0)"
| "warm_up request cancelled (k # ks) =
    (if cancelled (Suc k) then ([], Inl BenchCancelled)
     else case request (- (int k + 1)) of
         (sent, Inl e) \<Rightarrow> (sent, Inl e)
       | (sent, Inr ob) \<Rightarrow> (case warm_up request cancelled ks of
            (sent', failures) \<Rightarrow> (sent @ sent', rbind failures (\<lambda>n. Inr (if wo_success ob then n else n + 1)))))"

text \<open>The loop over \<open>as_completed\<close>: a checkpoint, then the result of the future, which may raise.\<close>

fun collect_results ::
  "(int \<Rightarrow> WebRequestObservation bench) \<Rightarrow> (nat \<Rightarrow> bool) \<Rightarrow> nat \<Rightarrow> int list \<Rightarrow> WebRequestObservation list bench" where
  "collect_results results cancelled k [] = Inr []"
| "collect_results results cancelled k (i # is) =
    (if cancelled k then Inl BenchCancelled
     else rbind (results i) (\<lambda>ob. rbind (collect_results results cancelled (Suc k) is) (\<lambda>obs. Inr (ob # obs))))"

text \<open>
  The main thread's surroundings: its checkpoints, the timer before and after the pool, and the order in
  which the requests complete. \<open>net\<close> is what each request meets.
\<close>

record web_world =
  ww_cancelled :: "nat \<Rightarrow> bool"
  ww_started :: pyfloat
  ww_ended :: pyfloat
  ww_order :: "int list"

section \<open>Metrics, warnings and evidence\<close>

definition web_metric_specs :: "WebRequestObservation list \<Rightarrow> pyfloat \<Rightarrow> metric_spec list" where
  "web_metric_specs observations seconds =
    (let successful = filter wo_success observations;
         ttfb_values = List.map_filter wo_ttfb_milliseconds successful;
         total_values = map wo_total_milliseconds successful;
         success_count = int (length successful);
         failure_count = int (length observations) - success_count;
         total_bytes = sum_list (map wo_response_bytes successful)
     in
      [(''web.http.successful_requests_per_second'', rbind (float_of_int success_count) (\<lambda>n. fdiv n seconds),
         ''requests_per_second'', HIGHER_IS_BETTER),
       (''web.http.error_rate.percent'', rbind (int_truediv failure_count (int (length observations))) (\<lambda>r. Inr (fmul r (Fin 100))),
         ''percent'', LOWER_IS_BETTER),
       (''web.http.ttfb.p50_milliseconds'', median ttfb_values, ''milliseconds'', LOWER_IS_BETTER),
       (''web.http.ttfb.p95_milliseconds'', linear_percentile ttfb_values (fl (95 / 100)), ''milliseconds'', LOWER_IS_BETTER),
       (''web.http.total_latency.p50_milliseconds'', median total_values, ''milliseconds'', LOWER_IS_BETTER),
       (''web.http.total_latency.p95_milliseconds'', linear_percentile total_values (fl (95 / 100)), ''milliseconds'', LOWER_IS_BETTER),
       (''web.http.total_latency.p99_milliseconds'', linear_percentile total_values (fl (99 / 100)), ''milliseconds'', LOWER_IS_BETTER),
       (''web.http.response_throughput.mib_per_second'', rbind (int_truediv total_bytes MIB) (\<lambda>m. fdiv m seconds),
         ''mib_per_second'', HIGHER_IS_BETTER)])"

definition web_metrics :: "WebRequestObservation list \<Rightarrow> pyfloat \<Rightarrow> Metric list result" where
  "web_metrics observations seconds = bench_metrics (web_metric_specs observations seconds)"

definition status_within :: "int \<Rightarrow> int \<Rightarrow> WebRequestObservation \<Rightarrow> bool" where
  "status_within low high ob = (case wo_status_code ob of None \<Rightarrow> False | Some s \<Rightarrow> low \<le> s \<and> s < high)"

definition web_warnings :: "WebProfileConfig \<Rightarrow> endpoint_parts \<Rightarrow> int \<Rightarrow> WebRequestObservation list \<Rightarrow> string list" where
  "web_warnings config target warmup_failures observations =
    (let successful = filter wo_success observations;
         failure_count = length observations - length successful;
         total_bytes = sum_list (map wo_response_bytes successful)
     in dedup ((if warmup_failures \<noteq> 0 then [''web_warmup_failures''] else [])
      @ (if failure_count \<noteq> 0 then [''web_partial_request_failures''] else [])
      @ (if list_ex wo_response_truncated observations then [''web_response_body_truncated''] else [])
      @ (if list_ex (status_within 300 400) observations then [''web_redirect_responses_observed''] else [])
      @ (if list_ex (\<lambda>ob. case wo_status_code ob of None \<Rightarrow> False | Some s \<Rightarrow> 500 \<le> s) observations
         then [''web_server_error_responses_observed''] else [])
      @ (if total_bytes = 0 then [''web_empty_response_bodies''] else [])
      @ (if \<not> wp_verify_tls config \<and> ep_scheme target = ''https'' then [''tls_verification_disabled''] else [])))"

text \<open>\<open>dict(sorted(Counter(xs).items()))\<close>.\<close>

definition sorted_counts :: "string list \<Rightarrow> pyval" where
  "sorted_counts xs = PDict (map (\<lambda>k. (k, PInt (int (count_list xs k)))) (sort (dedup xs)))"

definition opt_val :: "('a \<Rightarrow> pyval) \<Rightarrow> 'a option \<Rightarrow> pyval" where
  "opt_val f x = (case x of None \<Rightarrow> PNone | Some y \<Rightarrow> f y)"

definition observation_dict :: "WebRequestObservation \<Rightarrow> pyval" where
  "observation_dict ob = PDict [(''request_index'', PInt (wo_request_index ob)), (''status_code'', opt_val PInt (wo_status_code ob)),
     (''success'', PBool (wo_success ob)), (''ttfb_milliseconds'', opt_val PFloat (wo_ttfb_milliseconds ob)),
     (''total_milliseconds'', PFloat (wo_total_milliseconds ob)), (''response_bytes'', PInt (wo_response_bytes ob)),
     (''response_truncated'', PBool (wo_response_truncated ob)), (''error_type'', opt_val PStr (wo_error_type ob))]"

definition family_name :: "family \<Rightarrow> string" where
  "family_name family = (if family = AF_INET6 then ''ipv6'' else ''ipv4'')"

definition web_summary :: "WebRequestObservation list \<Rightarrow> pyfloat \<Rightarrow> (string \<times> pyval) list" where
  "web_summary observations seconds =
    (let successful = filter wo_success observations in
     [(''elapsed_seconds'', PFloat seconds), (''successful_requests'', PInt (int (length successful))),
      (''failed_requests'', PInt (int (length observations) - int (length successful))),
      (''response_bytes'', PInt (sum_list (map wo_response_bytes successful))),
      (''status_counts'', sorted_counts (map int_str (List.map_filter wo_status_code observations))),
      (''error_type_counts'', sorted_counts (List.map_filter wo_error_type observations))])"

definition web_evidence ::
  "(string \<Rightarrow> string) \<Rightarrow> WebProfileConfig \<Rightarrow> endpoint_parts \<Rightarrow> (family \<times> string) list \<Rightarrow> int \<Rightarrow> WebRequestObservation list \<Rightarrow>
   pyfloat \<Rightarrow> (string \<times> pyval) list result" where
  "web_evidence sha256 config target addresses warmup_failures observations seconds =
    rbind (origin target) (\<lambda>org. Inr
     [(''profile'', PStr ''web''), (''protocol_version'', PStr (wp_version config)),
      (''target'', PDict [(''origin'', PStr org), (''path_sha256'', PStr (path_hash sha256 target)),
         (''query_present'', PBool (ep_query target \<noteq> [])), (''scope'', PStr (NetworkScope_value (wp_scope config))),
         (''resolved_address_families'', PList (map PStr (dedup (map (\<lambda>a. family_name (fst a)) addresses))))]),
      (''workload'', PDict [(''method'', PStr ''GET''), (''request_count'', PInt (wp_request_count config)),
         (''concurrency'', PInt (wp_concurrency config)), (''warmup_requests'', PInt (wp_warmup_requests config)),
         (''timeout_seconds'', PFloat (wp_timeout_seconds config)), (''max_response_bytes'', PInt (wp_max_response_bytes config)),
         (''verify_tls'', PBool (wp_verify_tls config)), (''connection_reuse'', PBool False)]),
      (''summary'', PDict (web_summary observations seconds)),
      (''requests'', PList (map observation_dict observations)),
      (''warnings'', PList (map PStr (web_warnings config target warmup_failures observations)))])"

definition web_result ::
  "(string \<Rightarrow> string) \<Rightarrow> WebProfileConfig \<Rightarrow> endpoint_parts \<Rightarrow> (family \<times> string) list \<Rightarrow> int \<Rightarrow> WebRequestObservation list \<Rightarrow>
   pyfloat \<Rightarrow> (Metric list \<times> (string \<times> pyval) list \<times> string list) bench" where
  "web_result sha256 config target addresses warmup_failures observations seconds =
    (if filter wo_success observations = [] then Inl (BenchRaised ''OSError'')
     else raising (rbind (web_metrics observations seconds) (\<lambda>metrics.
       rbind (web_evidence sha256 config target addresses warmup_failures observations seconds) (\<lambda>evidence.
       Inr (metrics, evidence, web_warnings config target warmup_failures observations)))))"

section \<open>The benchmark\<close>

text \<open>
  From the validated addresses on. Leaving the \<open>with\<close> block waits for every submitted request, also when the
  loop raised, so all of them are sent whatever the outcome.
\<close>

definition web_workload ::
  "(string \<Rightarrow> string) \<Rightarrow> WebProfileConfig \<Rightarrow> endpoint_parts \<Rightarrow> (family \<times> string) list \<Rightarrow> (int \<Rightarrow> exchange) \<Rightarrow> web_world \<Rightarrow>
   web_contact list \<times> (Metric list \<times> (string \<times> pyval) list \<times> string list) bench" where
  "web_workload sha256 config target addresses net w =
    (let request = (\<lambda>i. request_once target config addresses i (net i));
         warm = nat (wp_warmup_requests config);
         indices = map int [0..<nat (wp_request_count config)]
     in case warm_up request (ww_cancelled w) [0..<warm] of
       (sent, Inl e) \<Rightarrow> (sent, Inl e)
     | (sent, Inr warmup_failures) \<Rightarrow>
        if ww_cancelled w (Suc warm) then (sent, Inl BenchCancelled)
        else (sent @ concat (map (\<lambda>i. fst (request i)) indices),
          rbind (collect_results (\<lambda>i. snd (request i)) (ww_cancelled w) (Suc (Suc warm)) (ww_order w)) (\<lambda>observations.
          web_result sha256 config target addresses warmup_failures (sort_key wo_request_index observations)
            (elapsed (ww_started w) (ww_ended w)))))"

definition benchmark_web_profile ::
  "(string \<Rightarrow> bool) \<Rightarrow> (string \<Rightarrow> string) \<Rightarrow> (string \<Rightarrow> address_flags option) \<Rightarrow> (string \<Rightarrow> int \<Rightarrow> dns_answer) \<Rightarrow>
   WebProfileConfig \<Rightarrow> (int \<Rightarrow> exchange) \<Rightarrow> web_world \<Rightarrow> web_contact list \<times> benchmark_outcome" where
  "benchmark_web_profile bracket_host sha256 ip_address getaddrinfo config net w =
    (if ww_cancelled w 0 then ([], CancelRequested)
     else case rbind (raising (split_endpoint bracket_host (wp_target_url config))) (\<lambda>target.
         rbind (raising (endpoint target)) (\<lambda>(host, port).
         rbind (resolve_addresses (getaddrinfo host port)) (\<lambda>addresses.
         rbind (validate_addresses ip_address ''WebSafetyError'' (wp_scope config) addresses) (\<lambda>_.
         Inr (target, addresses))))) of
       Inl e \<Rightarrow> ([], bench_outcome (Inl e))
     | Inr (target, addresses) \<Rightarrow>
        (case web_workload sha256 config target addresses net w of (sent, r) \<Rightarrow> (sent, bench_outcome r)))"

section \<open>Where requests go\<close>

text \<open>A request that keeps to the addresses, the TLS setting, the time-out and the headers of the configuration.\<close>

definition contact_ok :: "WebProfileConfig \<Rightarrow> endpoint_parts \<Rightarrow> (family \<times> string) list \<Rightarrow> web_contact \<Rightarrow> bool" where
  "contact_ok config target addresses c \<longleftrightarrow> (wc_family c, wc_address c) \<in> set addresses \<and> wc_host c = target_host target \<and>
    wc_tls c = (if ep_scheme target = ''https'' then Some (wp_verify_tls config) else None) \<and>
    wc_timeout c = wp_timeout_seconds config \<and> wc_headers c = request_headers config"

lemma connection_contact_ok:
  assumes "addresses \<noteq> []" and "connection target config addresses i ce = Inr c"
  shows "contact_ok config target addresses c"
proof -
  have "nat (i mod int (length addresses)) < length addresses"
    using assms(1) pos_mod_bound [of "int (length addresses)" i] by (simp add: nat_less_iff)
  then have mem: "addresses ! nat (i mod int (length addresses)) \<in> set addresses" by (rule nth_mem)
  obtain f a where fa: "addresses ! nat (i mod int (length addresses)) = (f, a)" by fastforce
  then show ?thesis using assms(2) mem unfolding fa
    by (auto simp: connection_def contact_ok_def rbind_Inr_iff endpoint_def fa split: if_splits option.splits)
qed

lemma request_once_sends:
  assumes "addresses \<noteq> []"
  shows "list_all (contact_ok config target addresses) (fst (request_once target config addresses i ex)) \<and>
    length (fst (request_once target config addresses i ex)) \<le> 1"
  using connection_contact_ok [OF assms] by (auto simp: request_once_def split: sum.splits)

lemma warm_up_sends:
  assumes "\<And>i. list_all P (fst (request i)) \<and> length (fst (request i)) \<le> 1"
  shows "list_all P (fst (warm_up request cancelled ks)) \<and> length (fst (warm_up request cancelled ks)) \<le> length ks"
proof (induction ks)
  case (Cons k ks)
  then show ?case using assms [of "- (int k + 1)"]
    by (cases "request (- (int k + 1))"; cases "warm_up request cancelled ks")
      (auto split: sum.splits)
qed simp

lemma concat_sends:
  assumes "\<And>i. list_all P (fst (request i)) \<and> length (fst (request i)) \<le> 1"
  shows "list_all P (concat (map (\<lambda>i. fst (request i)) is)) \<and> length (concat (map (\<lambda>i. fst (request i)) is)) \<le> length is"
proof (induction "is")
  case (Cons i "is")
  then show ?case using assms [of i] by auto
qed simp

lemma web_workload_sends:
  assumes "addresses \<noteq> []"
  shows "case web_workload sha config target addresses net w of (sent, r) \<Rightarrow> list_all (contact_ok config target addresses) sent \<and>
    length sent \<le> nat (wp_warmup_requests config) + nat (wp_request_count config)"
proof -
  let ?request = "\<lambda>i. request_once target config addresses i (net i)"
  note one = request_once_sends [OF assms]
  note warm = warm_up_sends [where request = ?request, OF one, of "ww_cancelled w" "[0..<nat (wp_warmup_requests config)]"]
  note all = concat_sends [where request = ?request, OF one, of "map int [0..<nat (wp_request_count config)]"]
  show ?thesis using warm all
    by (cases "warm_up ?request (ww_cancelled w) [0..<nat (wp_warmup_requests config)]"; cases "snd (warm_up ?request (ww_cancelled w) [0..<nat (wp_warmup_requests config)])")
      (auto simp: web_workload_def Let_def)
qed

text \<open>
  C32: Every request of a run, warm-up included, goes to an address of the one answer of the resolver for the
  host of the target, all of whose TCP addresses the policy lets pass; it verifies certificates unless the
  configuration says not to, and there are no more of them than configured.
\<close>

theorem web_contacts_validated:
  "case benchmark_web_profile bracket_host sha256 ip_address getaddrinfo config net w of (sent, outcome) \<Rightarrow>
     if sent = [] then True
     else \<exists>target host port records. split_endpoint bracket_host (wp_target_url config) = Inr target \<and>
       endpoint target = Inr (host, port) \<and> getaddrinfo host port = Inr records \<and>
       list_all (\<lambda>a. permitted ip_address (wp_scope config) (snd a)) (tcp_addresses records) \<and>
       list_all (contact_ok config target (tcp_addresses records)) sent \<and>
       length sent \<le> nat (wp_warmup_requests config) + nat (wp_request_count config)"
proof -
  let ?start = "rbind (raising (split_endpoint bracket_host (wp_target_url config))) (\<lambda>target.
         rbind (raising (endpoint target)) (\<lambda>(host, port).
         rbind (resolve_addresses (getaddrinfo host port)) (\<lambda>addresses.
         rbind (validate_addresses ip_address ''WebSafetyError'' (wp_scope config) addresses) (\<lambda>_.
         Inr (target, addresses)))))"
  have run: "benchmark_web_profile bracket_host sha256 ip_address getaddrinfo config net w =
    (if ww_cancelled w 0 then ([], CancelRequested) else case ?start of
       Inl e \<Rightarrow> ([], bench_outcome (Inl e))
     | Inr (target, addresses) \<Rightarrow>
        (case web_workload sha256 config target addresses net w of (sent, r) \<Rightarrow> (sent, bench_outcome r)))"
    by (simp only: benchmark_web_profile_def)
  show ?thesis
  proof (cases "ww_cancelled w 0 \<or> (\<exists>e. ?start = Inl e)")
    case True
    then show ?thesis unfolding run by (auto split: sum.splits)
  next
    case False
    then obtain target addresses where ok: "?start = Inr (target, addresses)" by (cases ?start) auto
    then obtain host port records where r: "split_endpoint bracket_host (wp_target_url config) = Inr target"
      "endpoint target = Inr (host, port)" "getaddrinfo host port = Inr records" "addresses = tcp_addresses records"
      "addresses \<noteq> []" "validate_addresses ip_address ''WebSafetyError'' (wp_scope config) addresses = Inr ()"
      by (auto simp: rbind_Inr_iff resolve_addresses_Inr)
    obtain sent res where w: "web_workload sha256 config target addresses net w = (sent, res)" by fastforce
    have "benchmark_web_profile bracket_host sha256 ip_address getaddrinfo config net w = (sent, bench_outcome res)"
      unfolding run using False ok w by simp
    then show ?thesis
      using web_workload_sends [OF r(5), where sha = sha256 and config = config and target = target and net = net and w = w] validated_permitted [OF r(6)] r w by auto
  qed
qed

section \<open>Observations\<close>

lemma observe_index:
  "observe config i ex = Inr ob \<Longrightarrow> wo_request_index ob = i \<and> wo_response_bytes ob \<le> max 0 (wp_max_response_bytes config) \<and>
    (0 \<le> wp_max_response_bytes config \<longrightarrow> 0 \<le> wo_response_bytes ob) \<and>
    (wo_response_truncated ob \<longrightarrow> wo_response_bytes ob = wp_max_response_bytes config) \<and>
    (wo_success ob \<longrightarrow> wo_ttfb_milliseconds ob \<noteq> None \<and> status_within 200 300 ob)"
  by (auto simp: observe_def failed_observation_def Let_def status_within_def split: sum.splits bench_error.splits)

lemma request_once_observes: "snd (request_once target config addresses i ex) = Inr ob \<Longrightarrow> observe config i ex = Inr ob"
  by (auto simp: request_once_def split: if_splits sum.splits)

text \<open>No request reads more than one byte beyond the limit.\<close>

lemma bytes_read_bound:
  assumes "bounded_reads (ex_read ex)" and "0 \<le> wp_max_response_bytes config"
    and "read_chunks cancelled (ex_read ex) (nat (wp_max_response_bytes config + 1)) 0 0 = Inr n"
  shows "int n \<le> wp_max_response_bytes config + 1"
  using read_chunks_bound [OF assms(1) _ assms(3)] assms(2) by simp

lemma collect_Inr:
  "collect_results results cancelled k is = Inr obs \<longleftrightarrow> (\<forall>j < length is. \<not> cancelled (k + j)) \<and> rmap results is = Inr obs"
proof (induction "is" arbitrary: k obs)
  case (Cons i "is")
  have "(\<forall>j < length (i # is). \<not> cancelled (k + j)) \<longleftrightarrow> \<not> cancelled k \<and> (\<forall>j < length is. \<not> cancelled (Suc k + j))"
    by (auto simp: less_Suc_eq_0_disj)
  then show ?case using Cons by (auto simp: rbind_Inr_iff)
qed simp

lemma rmap_as_map: "rmap f xs = Inr ys \<Longrightarrow> ys = map (\<lambda>x. projr (f x)) xs \<and> (\<forall>x \<in> set xs. \<exists>y. f x = Inr y)"
  by (induction xs arbitrary: ys) (auto simp: rbind_Inr_iff)

lemma rmap_all_Inr: "(\<forall>x \<in> set xs. \<exists>y. f x = Inr y) \<Longrightarrow> rmap f xs = Inr (map (\<lambda>x. projr (f x)) xs)"
  by (induction xs) auto

text \<open>Sorting by index forgets the order of completion.\<close>

lemma collect_order:
  assumes "mset is = mset js" and "distinct is" and key: "\<And>i ob. results i = Inr ob \<Longrightarrow> wo_request_index ob = i"
    and "collect_results results cancelled k is = Inr obs"
  shows "\<exists>obs'. collect_results results cancelled k js = Inr obs' \<and> sort_key wo_request_index obs' = sort_key wo_request_index obs"
proof -
  from assms(4) have c: "\<forall>j < length is. \<not> cancelled (k + j)" "rmap results is = Inr obs" by (simp_all add: collect_Inr)
  let ?g = "\<lambda>i. projr (results i)"
  from rmap_as_map [OF c(2)] have obs: "obs = map ?g is" and all: "\<forall>x \<in> set is. \<exists>y. results x = Inr y" by auto
  have sets: "set js = set is" using assms(1) by (metis set_mset_mset)
  have len: "length js = length is" using assms(1) by (metis size_mset)
  have js: "collect_results results cancelled k js = Inr (map ?g js)"
    using c(1) all sets len rmap_all_Inr [of js results] by (simp add: collect_Inr)
  have inj: "inj_on wo_request_index (set (map ?g js))"
    using all sets key by (auto simp: inj_on_def) (metis sum.sel(2))
  have "sort_key wo_request_index (map ?g js) = sort_key wo_request_index obs"
  proof (rule sort_key_inj_key_eq)
    show "mset (map ?g js) = mset (sort_key wo_request_index obs)" using assms(1) obs by simp
    show "inj_on wo_request_index (set (map ?g js))" by (rule inj)
    show "sorted (map wo_request_index (sort_key wo_request_index obs))" by simp
  qed
  with js show ?thesis by blast
qed

section \<open>A completed run\<close>

lemma web_workload_Inr:
  "snd (web_workload sha256 config target addresses net w) = Inr x \<longleftrightarrow>
   (\<exists>sent n observations. let request = (\<lambda>i. request_once target config addresses i (net i)) in
      warm_up request (ww_cancelled w) [0..<nat (wp_warmup_requests config)] = (sent, Inr n) \<and>
      \<not> ww_cancelled w (Suc (nat (wp_warmup_requests config))) \<and>
      collect_results (\<lambda>i. snd (request i)) (ww_cancelled w) (Suc (Suc (nat (wp_warmup_requests config)))) (ww_order w) = Inr observations \<and>
      web_result sha256 config target addresses n (sort_key wo_request_index observations)
        (elapsed (ww_started w) (ww_ended w)) = Inr x)"
  unfolding web_workload_def Let_def
  by (auto simp: rbind_Inr_iff split: prod.splits sum.splits)

lemma web_workload_order:
  assumes "mset (ww_order w) = mset js" and "distinct js"
    and run: "snd (web_workload sha256 config target addresses net w) = Inr x"
  shows "snd (web_workload sha256 config target addresses net (w\<lparr>ww_order := js\<rparr>)) = Inr x"
proof -
  let ?request = "\<lambda>i. request_once target config addresses i (net i)"
  let ?warm = "nat (wp_warmup_requests config)"
  from run obtain sent n obs where r: "warm_up ?request (ww_cancelled w) [0..<?warm] = (sent, Inr n)"
    "\<not> ww_cancelled w (Suc ?warm)"
    "collect_results (\<lambda>i. snd (?request i)) (ww_cancelled w) (Suc (Suc ?warm)) (ww_order w) = Inr obs"
    "web_result sha256 config target addresses n (sort_key wo_request_index obs) (elapsed (ww_started w) (ww_ended w)) = Inr x"
    unfolding web_workload_Inr Let_def by blast
  have "distinct (ww_order w)" using assms(1,2) by (metis mset_eq_imp_distinct_iff)
  moreover have "snd (?request i) = Inr ob \<Longrightarrow> wo_request_index ob = i" for i ob
    using observe_index request_once_observes by blast
  ultimately obtain obs' where
    "collect_results (\<lambda>i. snd (?request i)) (ww_cancelled w) (Suc (Suc ?warm)) js = Inr obs'"
    "sort_key wo_request_index obs' = sort_key wo_request_index obs"
    using collect_order [OF assms(1) _ _ r(3)] by blast
  with r show ?thesis unfolding web_workload_Inr Let_def by auto
qed

lemma web_profile_completed:
  "completed (snd (benchmark_web_profile bracket_host sha256 ip_address getaddrinfo config net w)) = Some x \<longleftrightarrow>
   (\<exists>target host port addresses. \<not> ww_cancelled w 0 \<and> split_endpoint bracket_host (wp_target_url config) = Inr target \<and>
      endpoint target = Inr (host, port) \<and> resolve_addresses (getaddrinfo host port) = Inr addresses \<and>
      validate_addresses ip_address ''WebSafetyError'' (wp_scope config) addresses = Inr () \<and>
      snd (web_workload sha256 config target addresses net w) = Inr x)"
proof -
  have cancelled: "completed CancelRequested \<noteq> Some x" by (simp add: completed_def)
  have same: "raising (Inr y) = Inr y" for y :: 'z by (simp add: raising_def)
  show ?thesis
    unfolding benchmark_web_profile_def
    by (auto simp: cancelled same rbind_Inr_iff split: sum.splits prod.splits)
qed

text \<open>
  C33: The order in which the pool completes the requests does not show in the result: a run that
  completes does so with the same metrics, evidence and warnings in any other order, whatever the
  checkpoints of the main thread see.
\<close>

theorem web_order_independent:
  assumes "mset (ww_order w) = mset js" and "distinct js"
  shows "completed (snd (benchmark_web_profile bracket_host sha256 ip_address getaddrinfo config net (w\<lparr>ww_order := js\<rparr>))) =
    completed (snd (benchmark_web_profile bracket_host sha256 ip_address getaddrinfo config net w))"
proof -
  let ?run = "\<lambda>w. completed (snd (benchmark_web_profile bracket_host sha256 ip_address getaddrinfo config net w))"
  have step: "?run w' = Some x \<Longrightarrow> mset (ww_order w') = mset ks \<Longrightarrow> distinct ks \<Longrightarrow> ?run (w'\<lparr>ww_order := ks\<rparr>) = Some x" for w' x ks
    unfolding web_profile_completed using web_workload_order by fastforce
  have "distinct (ww_order w)" using assms by (metis mset_eq_imp_distinct_iff)
  then have conv: "?run (w\<lparr>ww_order := js\<rparr>) = Some x \<Longrightarrow> ?run w = Some x" for x
    using step [of "w\<lparr>ww_order := js\<rparr>" x "ww_order w"] assms(1) by simp
  show ?thesis
  proof (cases "?run w")
    case None
    then show ?thesis using conv by (cases "?run (w\<lparr>ww_order := js\<rparr>)") auto
  next
    case (Some x)
    then show ?thesis using step [OF Some assms] by simp
  qed
qed

text \<open>The eight metrics, in order, and the range of the error rate.\<close>

definition web_metric_names :: "string list" where
  "web_metric_names = [''web.http.successful_requests_per_second'', ''web.http.error_rate.percent'',
     ''web.http.ttfb.p50_milliseconds'', ''web.http.ttfb.p95_milliseconds'', ''web.http.total_latency.p50_milliseconds'',
     ''web.http.total_latency.p95_milliseconds'', ''web.http.total_latency.p99_milliseconds'',
     ''web.http.response_throughput.mib_per_second'']"

lemma web_metric_names_stripped: "map strip web_metric_names = web_metric_names"
  by code_simp

lemma web_spec_names: "map fst (web_metric_specs observations seconds) = web_metric_names"
  by (simp add: web_metric_specs_def web_metric_names_def Let_def)

lemma web_spec_rate:
  "fst (snd (web_metric_specs observations seconds ! 1)) =
   rbind (int_truediv (int (length observations) - int (length (filter wo_success observations))) (int (length observations)))
     (\<lambda>r. Inr (fmul r (Fin 100)))"
  by (simp add: web_metric_specs_def Let_def)

lemma web_metrics_facts:
  assumes "web_metrics observations seconds = Inr ms" and "observations \<noteq> []"
  shows "map metric_name ms = web_metric_names \<and> list_all (\<lambda>m. isfinite (metric_value m)) ms \<and>
    (\<exists>r. metric_value (ms ! 1) = Fin r \<and> 0 \<le> r \<and> r \<le> 100)"
proof -
  let ?specs = "web_metric_specs observations seconds"
  note facts = bench_metrics_Inr [OF assms(1) [unfolded web_metrics_def]]
  have "map (\<lambda>s. strip (fst s)) ?specs = map strip (map fst ?specs)" by simp
  then have names: "map (\<lambda>s. strip (fst s)) ?specs = web_metric_names"
    by (simp only: web_spec_names web_metric_names_stripped)
  have "length ?specs = 8" using arg_cong [OF web_spec_names, of length] by (simp add: web_metric_names_def)
  then have "fst (snd (?specs ! 1)) = Inr (metric_value (ms ! 1))"
    using facts list_all2_nthD [of "\<lambda>s m. fst (snd s) = Inr (metric_value m)" ?specs ms 1] by simp
  then have "\<exists>r. metric_value (ms ! 1) = Fin r \<and> 0 \<le> r \<and> r \<le> 100"
    using assms(2) unfolding web_spec_rate by (elim percent_range [rotated 3]) (simp_all add: length_filter_le)
  then show ?thesis using facts names by simp
qed

lemma sort_key_map: "map f (sort_key f xs) = sort (map f xs)"
  by (rule properties_for_sort [symmetric]) simp_all

lemma web_failures_iff: "length observations - length (filter P observations) \<noteq> 0 \<longleftrightarrow> \<not> list_all P observations"
  by (metis diff_is_0_eq filter_id_conv length_filter_le length_filter_less list_all_iff nat_less_le not_le)

lemma partial_failures_warned:
  "''web_partial_request_failures'' \<in> set (web_warnings config target n observations) \<longleftrightarrow> \<not> list_all wo_success observations"
  using web_failures_iff [of observations wo_success] by (auto simp: web_warnings_def Let_def)

text \<open>What a run that completes leaves: one observation per request of the workload, in order.\<close>

definition web_accounts ::
  "WebProfileConfig \<Rightarrow> pyfloat \<Rightarrow> WebRequestObservation list \<Rightarrow> Metric list \<Rightarrow> (string \<times> pyval) list \<Rightarrow> string list \<Rightarrow> bool" where
  "web_accounts config seconds observations metrics evidence warnings \<longleftrightarrow>
    map wo_request_index observations = map int [0..<nat (wp_request_count config)] \<and>
    list_all (\<lambda>ob. 0 \<le> wo_response_bytes ob \<and> wo_response_bytes ob \<le> wp_max_response_bytes config \<and>
      (if wo_success ob then status_within 200 300 ob else True)) observations \<and>
    list_ex wo_success observations \<and>
    get evidence ''requests'' = PList (map observation_dict observations) \<and>
    get evidence ''summary'' = PDict (web_summary observations seconds) \<and>
    map metric_name metrics = web_metric_names \<and> list_all (\<lambda>m. isfinite (metric_value m)) metrics \<and>
    (case metric_value (metrics ! 1) of Fin r \<Rightarrow> 0 \<le> r \<and> r \<le> 100 | _ \<Rightarrow> False) \<and>
    (''web_partial_request_failures'' \<in> set warnings \<longleftrightarrow> \<not> list_all wo_success observations)"

lemma web_result_Inr:
  assumes "web_result sha256 config target addresses n observations seconds = Inr (metrics, evidence, warnings)"
  shows "list_ex wo_success observations \<and> web_metrics observations seconds = Inr metrics \<and>
    get evidence ''requests'' = PList (map observation_dict observations) \<and>
    get evidence ''summary'' = PDict (web_summary observations seconds) \<and> warnings = web_warnings config target n observations"
  using assms
  by (auto simp: web_result_def web_evidence_def rbind_Inr_iff filter_empty_conv list_ex_iff get_def get_default_def split: if_splits)

lemma sorted_observations:
  assumes "mset is = mset (map int [0..<n])" and "rmap results is = Inr obs"
    and key: "\<And>i ob. results i = Inr ob \<Longrightarrow> wo_request_index ob = i"
  shows "map wo_request_index (sort_key wo_request_index obs) = map int [0..<n]"
proof -
  have "sorted (map int [0..<n])" by (simp add: sorted_iff_nth_mono)
  then have "sort is = map int [0..<n]" using assms(1) by (metis properties_for_sort)
  moreover have "map wo_request_index obs = is"
    using assms(2) key by (induction "is" arbitrary: obs) (auto simp: rbind_Inr_iff)
  ultimately show ?thesis by (simp add: sort_key_map)
qed

text \<open>
  C34: A run that completes has one observation for each request of the workload, in order, none with more
  bytes than the limit and each success with a status of 2xx; at least one succeeded, the evidence holds
  exactly these observations and their summary, the eight metrics are finite, the error rate is a
  percentage, and failures are warned of exactly when there were some.
\<close>

theorem web_completed_accounts:
  assumes "benchmark_web_profile bracket_host sha256 ip_address getaddrinfo config net w = (sent, Completed metrics evidence warnings)"
    and "mset (ww_order w) = mset (map int [0..<nat (wp_request_count config)])" and "0 \<le> wp_max_response_bytes config"
  shows "\<exists>observations. web_accounts config (elapsed (ww_started w) (ww_ended w)) observations metrics evidence warnings"
proof -
  let ?seconds = "elapsed (ww_started w) (ww_ended w)"
  have "completed (snd (benchmark_web_profile bracket_host sha256 ip_address getaddrinfo config net w)) = Some (metrics, evidence, warnings)"
    using assms(1) by (simp add: completed_def)
  then obtain target addresses where "snd (web_workload sha256 config target addresses net w) = Inr (metrics, evidence, warnings)"
    unfolding web_profile_completed by blast
  then obtain n obs where
    c: "collect_results (\<lambda>i. snd (request_once target config addresses i (net i))) (ww_cancelled w)
      (Suc (Suc (nat (wp_warmup_requests config)))) (ww_order w) = Inr obs" and
    r: "web_result sha256 config target addresses n (sort_key wo_request_index obs) ?seconds = Inr (metrics, evidence, warnings)"
    unfolding web_workload_Inr Let_def by blast
  have results: "rmap (\<lambda>i. snd (request_once target config addresses i (net i))) (ww_order w) = Inr obs"
    using c by (simp add: collect_Inr)
  have one: "snd (request_once target config addresses i (net i)) = Inr ob \<Longrightarrow> observe config i (net i) = Inr ob" for i ob
    by (rule request_once_observes)
  have indices: "map wo_request_index (sort_key wo_request_index obs) = map int [0..<nat (wp_request_count config)]"
    using sorted_observations [OF assms(2) results] one observe_index by blast
  have "\<exists>i. observe config i (net i) = Inr ob" if "ob \<in> set obs" for ob
    using rmap_mem [OF results that] one by blast
  then have each: "list_all (\<lambda>ob. 0 \<le> wo_response_bytes ob \<and> wo_response_bytes ob \<le> wp_max_response_bytes config \<and>
      (if wo_success ob then status_within 200 300 ob else True)) (sort_key wo_request_index obs)"
    using observe_index assms(3) by (fastforce simp: list_all_iff)
  note f = web_result_Inr [OF r]
  then have ne: "sort_key wo_request_index obs \<noteq> []" by auto
  have m: "web_metrics (sort_key wo_request_index obs) ?seconds = Inr metrics" using f by blast
  obtain rate where "metric_value (metrics ! 1) = Fin rate" "0 \<le> rate" "rate \<le> 100"
    using web_metrics_facts [OF m ne] by blast
  then have "web_accounts config ?seconds (sort_key wo_request_index obs) metrics evidence warnings"
    unfolding web_accounts_def using indices each f web_metrics_facts [OF m ne] partial_failures_warned by simp
  then show ?thesis by blast
qed

section \<open>An example\<close>

text \<open>Two requests to one public address: the first is answered with ten bytes, the second is refused.\<close>

definition demo_flags :: "string \<Rightarrow> address_flags option" where
  "demo_flags a = Some \<lparr>af_unspecified = False, af_multicast = False, af_link_local = False, af_reserved = False,
     af_private = False, af_loopback = False\<rparr>"

definition demo_dns :: "string \<Rightarrow> int \<Rightarrow> dns_answer" where
  "demo_dns host port = Inr [(AF_INET, ''192.0.2.1''), (AF_OTHER, ''x''), (AF_INET, ''192.0.2.1'')]"

definition demo_web_config :: WebProfileConfig where
  "demo_web_config = \<lparr>wp_version = ''1.0.0'', wp_target_url = ''http://h/'', wp_scope = PublicScope, wp_request_count = 2,
     wp_concurrency = 2, wp_warmup_requests = 0, wp_timeout_seconds = Fin 5, wp_max_response_bytes = 1024, wp_verify_tls = True,
     wp_user_agent = ''CloudEyes/0.1 web-v1''\<rparr>"

definition demo_net :: "int \<Rightarrow> exchange" where
  "demo_net i = \<lparr>ex_context_error = None, ex_response = (if i = 0 then Inr 200 else Inl ''ConnectionRefusedError''),
     ex_read = (\<lambda>k n. Inr (if k = 0 then min n 10 else 0)), ex_timer = (\<lambda>k. Fin (of_nat k)), ex_cancelled = (\<lambda>_. False)\<rparr>"

definition demo_web_world :: "int list \<Rightarrow> web_world" where
  "demo_web_world order = \<lparr>ww_cancelled = (\<lambda>_. False), ww_started = Fin 0, ww_ended = Fin 4, ww_order = order\<rparr>"

definition demo_web_run :: "int list \<Rightarrow> web_contact list \<times> benchmark_outcome" where
  "demo_web_run order = benchmark_web_profile (\<lambda>_. False) (\<lambda>s. s) demo_flags demo_dns demo_web_config demo_net (demo_web_world order)"

definition demo_target :: endpoint_parts where
  "demo_target = \<lparr>ep_scheme = ''http'', ep_netloc = ''h'', ep_path = ''/'', ep_query = [], ep_fragment = []\<rparr>"

lemma demo_setup:
  "split_endpoint (\<lambda>_. False) ''http://h/'' = Inr demo_target" "endpoint demo_target = Inr (''h'', 80)"
  "resolve_addresses (demo_dns ''h'' 80) = Inr [(AF_INET, ''192.0.2.1'')]"
  "validate_addresses demo_flags ''WebSafetyError'' PublicScope [(AF_INET, ''192.0.2.1'')] = Inr ()"
  by code_simp+

lemma demo_seconds: "milliseconds (elapsed (Fin 0) (Fin 1)) = Fin 1000" "milliseconds (elapsed (Fin 0) (Fin 2)) = Fin 2000"
  "elapsed (Fin 0) (Fin 4) = Fin 4"
  by code_simp+

lemma demo_requests:
  "snd (request_once demo_target demo_web_config [(AF_INET, ''192.0.2.1'')] 0 (demo_net 0)) =
    Inr \<lparr>wo_request_index = 0, wo_status_code = Some 200, wo_success = True, wo_ttfb_milliseconds = Some (Fin 1000),
      wo_total_milliseconds = Fin 2000, wo_response_bytes = 10, wo_response_truncated = False, wo_error_type = None\<rparr>"
  "snd (request_once demo_target demo_web_config [(AF_INET, ''192.0.2.1'')] 1 (demo_net 1)) =
    Inr (failed_observation 1 (Fin 1000) ''ConnectionRefusedError'')"
  using demo_seconds demo_setup(2)
  by (simp_all add: request_once_def connection_def observe_def demo_net_def demo_web_config_def raising_def read_chunks.simps demo_target_def)

lemma demo_result:
  "case web_result (\<lambda>s. s) demo_web_config demo_target [(AF_INET, ''192.0.2.1'')] 0
     [\<lparr>wo_request_index = 0, wo_status_code = Some 200, wo_success = True, wo_ttfb_milliseconds = Some (Fin 1000),
      wo_total_milliseconds = Fin 2000, wo_response_bytes = 10, wo_response_truncated = False, wo_error_type = None\<rparr>,
      failed_observation 1 (Fin 1000) ''ConnectionRefusedError''] (Fin 4) of Inl e \<Rightarrow> False | Inr x \<Rightarrow> True"
  by code_simp

lemma demo_web_completes: "\<exists>x. completed (snd (demo_web_run [1, 0])) = Some x"
proof -
  let ?obs = "[failed_observation 1 (Fin 1000) ''ConnectionRefusedError'',
    \<lparr>wo_request_index = 0, wo_status_code = Some 200, wo_success = True, wo_ttfb_milliseconds = Some (Fin 1000),
      wo_total_milliseconds = Fin 2000, wo_response_bytes = 10, wo_response_truncated = False, wo_error_type = None\<rparr>]"
  obtain x where x: "web_result (\<lambda>s. s) demo_web_config demo_target [(AF_INET, ''192.0.2.1'')] 0
      (sort_key wo_request_index ?obs) (Fin 4) = Inr x"
    using demo_result by (auto simp: failed_observation_def split: sum.splits)
  have zero: "nat (wp_warmup_requests demo_web_config) = 0" by (simp add: demo_web_config_def)
  have c: "collect_results (\<lambda>i. snd (request_once demo_target demo_web_config [(AF_INET, ''192.0.2.1'')] i (demo_net i)))
      (ww_cancelled (demo_web_world [1, 0])) 2 (ww_order (demo_web_world [1, 0])) = Inr ?obs"
    by (simp add: demo_web_world_def demo_requests)
  have "snd (web_workload (\<lambda>s. s) demo_web_config demo_target [(AF_INET, ''192.0.2.1'')] demo_net (demo_web_world [1, 0])) = Inr x"
    unfolding web_workload_Inr Let_def zero
    using c x demo_seconds(3) by (auto simp: demo_web_world_def numeral_2_eq_2)
  moreover have "\<not> ww_cancelled (demo_web_world [1, 0]) 0" "wp_target_url demo_web_config = ''http://h/''"
    "wp_scope demo_web_config = PublicScope"
    by (simp_all add: demo_web_world_def demo_web_config_def)
  ultimately have "completed (snd (demo_web_run [1, 0])) = Some x"
    unfolding demo_web_run_def web_profile_completed using demo_setup by metis
  then show ?thesis ..
qed

theorem web_order_independent_witness:
  "completed (snd (demo_web_run [0, 1])) = completed (snd (demo_web_run [1, 0])) \<and> completed (snd (demo_web_run [1, 0])) \<noteq> None"
  using web_order_independent [of "demo_web_world [1, 0]" "[0, 1]" "\<lambda>_. False" "\<lambda>s. s" demo_flags demo_dns demo_web_config demo_net]
    demo_web_completes
  by (simp add: demo_web_run_def demo_web_world_def)

theorem web_completed_accounts_witness:
  "case demo_web_run [1, 0] of (sent, outcome) \<Rightarrow> (case outcome of
     Completed metrics evidence warnings \<Rightarrow> \<exists>observations. web_accounts demo_web_config (Fin 4) observations metrics evidence warnings
   | _ \<Rightarrow> False)"
proof -
  obtain sent metrics evidence warnings where run: "demo_web_run [1, 0] = (sent, Completed metrics evidence warnings)"
    using demo_web_completes by (cases "demo_web_run [1, 0]") (auto simp: completed_def split: benchmark_outcome.splits)
  have "\<exists>observations. web_accounts demo_web_config (elapsed (ww_started (demo_web_world [1, 0])) (ww_ended (demo_web_world [1, 0])))
      observations metrics evidence warnings"
    by (rule web_completed_accounts [OF run [unfolded demo_web_run_def]]) (simp_all add: demo_web_world_def demo_web_config_def upt_rec)
  then show ?thesis using run demo_seconds(3) by (simp add: demo_web_world_def)
qed

end
