(* ===== verification/Networking.thy ===== *)
theory Networking
  imports Targets
begin

text \<open>
  \<open>profiles/networking/benchmarks.py\<close>: repeated lookups, connections, downloads and uploads against one
  endpoint, and a ping. A run also returns what it did on the network: the addresses it connected to and
  the sizes of the bodies it received in full.
\<close>

section \<open>The network of a run\<close>

text \<open>
  The places where a run looks a name up, reads the timer twice, and passes a checkpoint; \<open>InProbe p k\<close> are
  the checkpoints inside a transfer.
\<close>

datatype probe = Download nat | Upload nat

datatype lookup = TargetLookup nat | UploadLookup | RequestLookup probe

datatype timed = LookupTime lookup | ConnectTime nat | HandshakeTime nat | ResponseTime probe | TransferTime probe

datatype checkpoint = AtStart | AtLookup nat | AtConnect nat | AtProbe probe | InProbe probe nat | AtPing | AtMetrics

datatype connect_result = Connected | ConnectRefused string | ConnectRaised string

datatype ping_run = PingOutput string string | PingFailed | PingRaised string

text \<open>What one request meets: building the TLS context, the response, the reads of its body, and a read of all of it.\<close>

record transfer =
  tr_context_error :: "string option"
  tr_response :: "string + int"
  tr_read :: "nat \<Rightarrow> nat \<Rightarrow> string + nat"
  tr_whole :: "string + int"

record network_world =
  nw_cancelled :: "checkpoint \<Rightarrow> bool"
  nw_times :: "timed \<Rightarrow> pyfloat \<times> pyfloat"
  nw_getaddrinfo :: "lookup \<Rightarrow> string \<Rightarrow> int \<Rightarrow> dns_answer"
  nw_connect :: "nat \<Rightarrow> family \<times> string \<Rightarrow> connect_result"
  nw_handshake :: "nat \<Rightarrow> string + string option"
  nw_request_connect :: "probe \<Rightarrow> family \<times> string \<Rightarrow> connect_result"
  nw_transfer :: "probe \<Rightarrow> transfer"
  nw_windows :: bool
  nw_has_ping :: bool
  nw_run :: "string list \<Rightarrow> pyfloat \<Rightarrow> ping_run"

text \<open>What a run did: it tried to connect to an address, or it received a body of some size.\<close>

datatype network_event =
    ConnectedTo family string int
  | RequestTo probe family string int
  | Received probe int

definition seconds_of :: "network_world \<Rightarrow> timed \<Rightarrow> pyfloat" where
  "seconds_of w t = (case nw_times w t of (started, now) \<Rightarrow> elapsed started now)"

definition checked_at :: "network_world \<Rightarrow> checkpoint \<Rightarrow> unit bench" where
  "checked_at w c = (if nw_cancelled w c then Inl BenchCancelled else Inr ())"

section \<open>Lookups\<close>

text \<open>\<open>_resolve_once\<close>.\<close>

definition resolve_once :: "network_world \<Rightarrow> lookup \<Rightarrow> string \<Rightarrow> int \<Rightarrow> (pyfloat \<times> (family \<times> string) list) bench" where
  "resolve_once w l host port = rbind (resolve_addresses (nw_getaddrinfo w l host port)) (\<lambda>addresses.
     Inr (milliseconds (seconds_of w (LookupTime l)), addresses))"

text \<open>The loop keeps all latencies and the addresses of the last answer.\<close>

definition lookup_target :: "network_world \<Rightarrow> nat \<Rightarrow> string \<Rightarrow> int \<Rightarrow> (pyfloat list \<times> (family \<times> string) list) bench" where
  "lookup_target w repetitions host port =
    rbind (rmap (\<lambda>i. rbind (checked_at w (AtLookup i)) (\<lambda>_. resolve_once w (TargetLookup i) host port)) [0..<repetitions])
      (\<lambda>answers. Inr (map fst answers, if answers = [] then [] else snd (last answers)))"

section \<open>Connections\<close>

text \<open>Addresses are tried in order until one accepts; only \<open>OSError\<close> is caught. \<open>None\<close>: all refused.\<close>

fun connect_any :: "(family \<times> string \<Rightarrow> connect_result) \<Rightarrow> (family \<times> string) list \<Rightarrow>
   (family \<times> string) list \<times> (family \<times> string) option bench" where
  "connect_any try [] = ([], Inr None)"
| "connect_any try (a # as) = (case try a of
     Connected \<Rightarrow> ([a], Inr (Some a))
   | ConnectRaised t \<Rightarrow> ([a], Inl (BenchRaised t))
   | ConnectRefused t \<Rightarrow> (case connect_any try as of (tried, r) \<Rightarrow> (a # tried, r)))"

text \<open>One round of the TCP loop: \<open>_connect_resolved\<close>, then the handshake for HTTPS.\<close>

record connect_sample =
  cs_family :: family
  cs_tcp :: pyfloat
  cs_tls :: "(pyfloat \<times> string option) option"

definition connect_round ::
  "network_world \<Rightarrow> (family \<times> string) list \<Rightarrow> int \<Rightarrow> bool \<Rightarrow> nat \<Rightarrow> network_event list \<times> connect_sample bench" where
  "connect_round w addresses port https i =
    (if nw_cancelled w (AtConnect i) then ([], Inl BenchCancelled)
     else case connect_any (nw_connect w i) addresses of (tried, r) \<Rightarrow>
       (map (\<lambda>(f, a). ConnectedTo f a port) tried, rbind r (\<lambda>selected. case selected of
          None \<Rightarrow> Inl (BenchRaised ''OSError'')
        | Some (f, a) \<Rightarrow>
           rbind (if \<not> https then Inr None
             else case nw_handshake w i of Inl t \<Rightarrow> Inl (BenchRaised t)
               | Inr ver \<Rightarrow> Inr (Some (milliseconds (seconds_of w (HandshakeTime i)), ver))) (\<lambda>tls.
           Inr \<lparr>cs_family = f, cs_tcp = milliseconds (seconds_of w (ConnectTime i)), cs_tls = tls\<rparr>))))"

section \<open>Requests\<close>

text \<open>
  \<open>http.client\<close> connects to a host by its name: \<open>create_connection\<close> looks the name up again and tries every
  record of the answer, of whatever family, and raises the last error when all refuse.
\<close>

definition http_connect ::
  "network_world \<Rightarrow> probe \<Rightarrow> endpoint_parts \<Rightarrow> network_event list \<times> unit bench" where
  "http_connect w p parsed = (case raising (endpoint parsed) of
     Inl e \<Rightarrow> ([], Inl e)
   | Inr (host, port) \<Rightarrow>
      if ep_scheme parsed = ''https'' \<and> tr_context_error (nw_transfer w p) \<noteq> None
      then ([], Inl (BenchRaised (the (tr_context_error (nw_transfer w p)))))
      else (case nw_getaddrinfo w (RequestLookup p) host port of
         Inl t \<Rightarrow> ([], Inl (BenchRaised t))
       | Inr records \<Rightarrow> (case connect_any (nw_request_connect w p) records of (tried, r) \<Rightarrow>
          (map (\<lambda>(f, a). RequestTo p f a port) tried, rbind r (\<lambda>selected. case selected of
             None \<Rightarrow> Inl (BenchRaised (if records = [] then ''OSError'' else case nw_request_connect w p (last records) of
               ConnectRefused t \<Rightarrow> t | _ \<Rightarrow> ''OSError''))
           | Some a \<Rightarrow> Inr ())))))"

text \<open>\<open>response.read()\<close> without a limit.\<close>

definition read_whole :: "network_world \<Rightarrow> probe \<Rightarrow> network_event list \<times> unit bench" where
  "read_whole w p = (case tr_whole (nw_transfer w p) of Inl t \<Rightarrow> ([], Inl (BenchRaised t)) | Inr n \<Rightarrow> ([Received p n], Inr ()))"

definition good_status :: "int \<Rightarrow> bool" where "good_status status \<longleftrightarrow> 200 \<le> status \<and> status < 400"

record download_run =
  dn_status :: int
  dn_ttfb_milliseconds :: pyfloat
  dn_bytes :: nat
  dn_seconds :: pyfloat
  dn_mib_per_second :: pyfloat

definition mib_rate :: "int \<Rightarrow> pyfloat \<Rightarrow> pyfloat result" where
  "mib_rate bytes seconds = rbind (int_truediv bytes MIB) (\<lambda>m. fdiv m seconds)"

definition http_download_probe ::
  "network_world \<Rightarrow> NetworkingProfileConfig \<Rightarrow> endpoint_parts \<Rightarrow> nat \<Rightarrow> network_event list \<times> download_run bench" where
  "http_download_probe w config parsed i = (let p = Download i; tr = nw_transfer w p in
     if nw_cancelled w (InProbe p 0) then ([], Inl BenchCancelled)
     else case http_connect w p parsed of
         (es, Inl e) \<Rightarrow> (es, Inl e)
       | (es, Inr _) \<Rightarrow>
          (case tr_response tr of
             Inl t \<Rightarrow> (es, Inl (BenchRaised t))
           | Inr status \<Rightarrow>
              if \<not> good_status status
              then (case read_whole w p of (es', r) \<Rightarrow> (es @ es', rbind r (\<lambda>_. Inl (BenchRaised ''OSError''))))
              else (case read_chunks (\<lambda>k. nw_cancelled w (InProbe p (Suc k))) (tr_read tr) (nat (np_download_limit_bytes config)) 0 0 of
                 Inl e \<Rightarrow> (es, Inl e)
               | Inr n \<Rightarrow> (es @ [Received p (int n)], raising (rbind (mib_rate (int n) (seconds_of w (TransferTime p))) (\<lambda>rate. Inr
                   \<lparr>dn_status = status, dn_ttfb_milliseconds = milliseconds (seconds_of w (ResponseTime p)), dn_bytes = n,
                    dn_seconds = seconds_of w (TransferTime p), dn_mib_per_second = rate\<rparr>))))))"

record upload_run =
  un_status :: int
  un_bytes :: int
  un_seconds :: pyfloat
  un_mib_per_second :: pyfloat

definition http_upload_probe ::
  "network_world \<Rightarrow> NetworkingProfileConfig \<Rightarrow> endpoint_parts \<Rightarrow> nat \<Rightarrow> network_event list \<times> upload_run bench" where
  "http_upload_probe w config parsed i = (let p = Upload i; tr = nw_transfer w p; payload = np_upload_bytes config in
     if nw_cancelled w (InProbe p 0) then ([], Inl BenchCancelled)
     else case http_connect w p parsed of
         (es, Inl e) \<Rightarrow> (es, Inl e)
       | (es, Inr _) \<Rightarrow>
          (case tr_response tr of
             Inl t \<Rightarrow> (es, Inl (BenchRaised t))
           | Inr status \<Rightarrow>
              (case read_whole w p of
                 (es', Inl e) \<Rightarrow> (es @ es', Inl e)
               | (es', Inr _) \<Rightarrow> (es @ es',
                  if nw_cancelled w (InProbe p 1) then Inl BenchCancelled
                  else if \<not> good_status status then Inl (BenchRaised ''OSError'')
                  else raising (rbind (mib_rate payload (seconds_of w (TransferTime p))) (\<lambda>rate. Inr
                    \<lparr>un_status = status, un_bytes = payload, un_seconds = seconds_of w (TransferTime p), un_mib_per_second = rate\<rparr>))))))"

text \<open>The loop around the probes: an exception other than the cancellation is counted by its class.\<close>

fun attempts ::
  "(nat \<Rightarrow> bool) \<Rightarrow> (nat \<Rightarrow> network_event list \<times> 'a bench) \<Rightarrow> nat list \<Rightarrow> network_event list \<times> ('a list \<times> string list) bench" where
  "attempts cancelled once [] = ([], Inr ([], []))"
| "attempts cancelled once (i # is) =
    (if cancelled i then ([], Inl BenchCancelled)
     else case once i of
         (es, Inl BenchCancelled) \<Rightarrow> (es, Inl BenchCancelled)
       | (es, Inl (BenchRaised t)) \<Rightarrow> (case attempts cancelled once is of
           (es', r) \<Rightarrow> (es @ es', rbind r (\<lambda>(runs, errors). Inr (runs, t # errors))))
       | (es, Inr x) \<Rightarrow> (case attempts cancelled once is of
           (es', r) \<Rightarrow> (es @ es', rbind r (\<lambda>(runs, errors). Inr (x # runs, errors)))))"

text \<open>The TCP loop stops at the first exception.\<close>

fun rounds :: "(nat \<Rightarrow> network_event list \<times> 'a bench) \<Rightarrow> nat list \<Rightarrow> network_event list \<times> 'a list bench" where
  "rounds once [] = ([], Inr [])"
| "rounds once (i # is) = (case once i of
     (es, Inl e) \<Rightarrow> (es, Inl e)
   | (es, Inr x) \<Rightarrow> (case rounds once is of (es', r) \<Rightarrow> (es @ es', rbind r (\<lambda>xs. Inr (x # xs)))))"

section \<open>Ping\<close>

text \<open>
  \<open>parse_packet_loss\<close>: the first place where a decimal number, a percent sign, white space and the words
  follow each other; upper and lower case are the same.
\<close>

text \<open>\<open>\d+(?:\.\d+)?\<close> at the start of a text: the longest number and the rest.\<close>

definition decimal_prefix :: "string \<Rightarrow> string \<times> string" where
  "decimal_prefix s = (let whole = takeWhile is_digit s; rest = dropWhile is_digit s in
     if whole \<noteq> [] \<and> startswith rest ''.'' \<and> takeWhile is_digit (drop 1 rest) \<noteq> []
     then (whole @ ''.'' @ takeWhile is_digit (drop 1 rest), dropWhile is_digit (drop 1 rest))
     else (whole, rest))"

definition loss_at :: "string \<Rightarrow> string \<Rightarrow> string option" where
  "loss_at words s = (case decimal_prefix s of (number, rest) \<Rightarrow>
     if number \<noteq> [] \<and> startswith rest ''%'' \<and> startswith (dropWhile is_space (drop 1 rest)) words then Some number else None)"

fun search_loss :: "(string \<Rightarrow> string option) \<Rightarrow> string \<Rightarrow> string option" where
  "search_loss m [] = m []"
| "search_loss m (c # s) = (case m (c # s) of Some number \<Rightarrow> Some number | None \<Rightarrow> search_loss m s)"

definition float_of_decimal :: "string \<Rightarrow> pyfloat" where
  "float_of_decimal s = (let whole = takeWhile is_digit s; fraction = drop 1 (dropWhile is_digit s) in
     fl (of_int (digits_val whole) + of_int (digits_val fraction) / 10 ^ length fraction))"

definition parse_packet_loss :: "string \<Rightarrow> pyfloat option" where
  "parse_packet_loss output = (let s = casefold output in
     case search_loss (loss_at ''packet loss'') s of
       Some number \<Rightarrow> Some (float_of_decimal number)
     | None \<Rightarrow> map_option float_of_decimal
         (search_loss (\<lambda>s. if startswith s ''('' then loss_at ''loss)'' (drop 1 s) else None) s))"

definition fceiling :: "pyfloat \<Rightarrow> int result" where
  "fceiling f = (case f of Fin r \<Rightarrow> Inr \<lceil>r\<rceil> | NaN \<Rightarrow> Inl (ValueError ''cannot convert float NaN to integer'') | _ \<Rightarrow> Inl OverflowError)"

definition ping_command :: "bool \<Rightarrow> string \<Rightarrow> int \<Rightarrow> pyfloat \<Rightarrow> string list result" where
  "ping_command windows host ping_count timeout =
    (if windows
     then rbind (fceiling (fmul timeout (Fin 1000))) (\<lambda>ms. Inr [''ping'', ''-n'', int_str ping_count, ''-w'', int_str ms, host])
     else rbind (fceiling timeout) (\<lambda>s. Inr [''ping'', ''-c'', int_str ping_count, ''-W'', int_str (max 1 s), host]))"

definition ping_probe :: "network_world \<Rightarrow> string \<Rightarrow> NetworkingProfileConfig \<Rightarrow> (pyfloat option \<times> string option) bench" where
  "ping_probe w host config =
    (if nw_cancelled w AtPing then Inl BenchCancelled
     else if np_ping_count config = 0 then Inr (None, Some ''icmp_sampling_disabled'')
     else if \<not> nw_has_ping w then Inr (None, Some ''ping_command_unavailable'')
     else rbind (raising (ping_command (nw_windows w) host (np_ping_count config) (np_timeout_seconds config))) (\<lambda>command.
       rbind (raising (float_of_int (np_ping_count config))) (\<lambda>n.
       case nw_run w command (fadd (fmul (np_timeout_seconds config) n) (Fin 5)) of
         PingRaised t \<Rightarrow> Inl (BenchRaised t)
       | PingFailed \<Rightarrow> Inr (None, Some ''icmp_sampling_failed'')
       | PingOutput out err \<Rightarrow> (case parse_packet_loss (out @ [CHR 0x0A] @ err) of
            None \<Rightarrow> Inr (None, Some ''icmp_output_unrecognized'')
          | Some loss \<Rightarrow> Inr (Some loss, None)))))"

section \<open>Metrics, warnings and evidence\<close>

text \<open>What a run has measured when all probes are over.\<close>

record network_data =
  nd_dns :: "pyfloat list"
  nd_addresses :: "(family \<times> string) list"
  nd_connects :: "connect_sample list"
  nd_downloads :: "download_run list"
  nd_download_errors :: "string list"
  nd_uploads :: "upload_run list"
  nd_upload_errors :: "string list"
  nd_loss :: "pyfloat option"
  nd_ping_warning :: "string option"

definition tls_latencies :: "network_data \<Rightarrow> pyfloat list" where
  "tls_latencies d = map fst (List.map_filter cs_tls (nd_connects d))"

definition tls_versions :: "network_data \<Rightarrow> string list" where
  "tls_versions d = filter (\<lambda>v. v \<noteq> []) (List.map_filter snd (List.map_filter cs_tls (nd_connects d)))"

definition percentile_metric :: "string \<Rightarrow> pyfloat list \<Rightarrow> pyfloat \<Rightarrow> metric_spec" where
  "percentile_metric name values p = (name, linear_percentile values p, ''milliseconds'', LOWER_IS_BETTER)"

definition network_metric_specs :: "int \<Rightarrow> network_data \<Rightarrow> metric_spec list" where
  "network_metric_specs request_attempts d =
    (let p50 = fl (1 / 2); p95 = fl (95 / 100); tcp = map cs_tcp (nd_connects d); tls = tls_latencies d;
         ttfb = map dn_ttfb_milliseconds (nd_downloads d)
     in [percentile_metric ''network.dns.lookup.p50_milliseconds'' (nd_dns d) p50,
         percentile_metric ''network.dns.lookup.p95_milliseconds'' (nd_dns d) p95,
         percentile_metric ''network.tcp.connect.p50_milliseconds'' tcp p50,
         percentile_metric ''network.tcp.connect.p95_milliseconds'' tcp p95]
      @ (if tls = [] then [] else
        [percentile_metric ''network.tls.handshake.p50_milliseconds'' tls p50,
         percentile_metric ''network.tls.handshake.p95_milliseconds'' tls p95])
      @ [(''network.http.request_loss_percent'',
          rbind (int_truediv (int (length (nd_download_errors d))) request_attempts) (\<lambda>r. Inr (fmul r (Fin 100))),
          ''percent'', LOWER_IS_BETTER)]
      @ (if nd_downloads d = [] then [] else
        [percentile_metric ''network.http.ttfb.p50_milliseconds'' ttfb p50,
         percentile_metric ''network.http.ttfb.p95_milliseconds'' ttfb p95,
         (''network.download.mib_per_second'', median (map dn_mib_per_second (nd_downloads d)), ''mib_per_second'', HIGHER_IS_BETTER)])
      @ (if nd_uploads d = [] then [] else
        [(''network.upload.mib_per_second'', median (map un_mib_per_second (nd_uploads d)), ''mib_per_second'', HIGHER_IS_BETTER)])
      @ (case nd_loss d of None \<Rightarrow> []
         | Some loss \<Rightarrow> [(''network.icmp.packet_loss_percent'', Inr loss, ''percent'', LOWER_IS_BETTER)]))"

text \<open>\<open>statistics.median\<close> of integers, compared with 64 KiB: the middle one, or half the sum of the middle two.\<close>

definition small_median :: "nat list \<Rightarrow> bool result" where
  "small_median xs = (let data = sort xs; n = length data in
     if n mod 2 = 1 then Inr (data ! (n div 2) < 64 * 1024)
     else rbind (int_truediv (int (data ! (n div 2 - 1)) + int (data ! (n div 2))) 2) (\<lambda>m. Inr (flt m (Fin (64 * 1024)))))"

definition network_warnings ::
  "NetworkingProfileConfig \<Rightarrow> endpoint_parts \<Rightarrow> download_run list \<Rightarrow> upload_run list \<Rightarrow> string list result" where
  "network_warnings config target downloads uploads =
    rbind (if downloads = [] then Inr [''http_download_failed'']
      else rbind (small_median (map dn_bytes downloads)) (\<lambda>small. Inr (if small then [''download_payload_too_small''] else []))) (\<lambda>w1.
    Inr (w1 @ (if np_upload_url config = None then [''upload_target_not_configured'']
           else if uploads = [] then [''http_upload_failed''] else [])
      @ (if \<not> np_verify_tls config \<and> ep_scheme target = ''https'' then [''tls_verification_disabled''] else [])))"

definition inet_name :: "family \<Rightarrow> string" where
  "inet_name family = (if family = AF_INET then ''ipv4'' else ''ipv6'')"

definition sorted_strings :: "string list \<Rightarrow> pyval" where
  "sorted_strings xs = PList (map PStr (sort (dedup xs)))"

definition download_dict :: "download_run \<Rightarrow> pyval" where
  "download_dict r = PDict [(''status'', PInt (dn_status r)), (''ttfb_milliseconds'', PFloat (dn_ttfb_milliseconds r)),
     (''downloaded_bytes'', PInt (int (dn_bytes r))), (''download_seconds'', PFloat (dn_seconds r)),
     (''download_mib_per_second'', PFloat (dn_mib_per_second r))]"

definition upload_dict :: "upload_run \<Rightarrow> pyval" where
  "upload_dict r = PDict [(''status'', PInt (un_status r)), (''uploaded_bytes'', PInt (un_bytes r)),
     (''upload_seconds'', PFloat (un_seconds r)), (''upload_mib_per_second'', PFloat (un_mib_per_second r))]"

definition network_evidence ::
  "(string \<Rightarrow> string) \<Rightarrow> NetworkingProfileConfig \<Rightarrow> endpoint_parts \<Rightarrow> endpoint_parts option \<Rightarrow> network_data \<Rightarrow> string list \<Rightarrow>
   (string \<times> pyval) list result" where
  "network_evidence sha256 config target upload_target d warnings =
    rbind (origin target) (\<lambda>org.
    rbind (case upload_target of None \<Rightarrow> Inr PNone | Some u \<Rightarrow> rbind (origin u) (\<lambda>o'. Inr (PStr o'))) (\<lambda>upload_origin.
    Inr [(''schema_version'', PStr ''1.0.0''), (''profile'', PStr ''networking''), (''protocol_version'', PStr (np_version config)),
      (''configuration'', PDict (AList.update ''upload_url'' PNone (AList.update ''target_url'' PNone
         (AList.update ''scope'' (PStr (NetworkScope_value (np_scope config))) (networking_fields config))))),
      (''target'', PDict [(''origin'', PStr org), (''path_sha256'', PStr (path_hash sha256 target)),
         (''scope'', PStr (NetworkScope_value (np_scope config))),
         (''resolved_address_count'', PInt (int (length (nd_addresses d)))),
         (''address_families'', sorted_strings (map (\<lambda>a. inet_name (fst a)) (nd_addresses d))),
         (''selected_address_families'', sorted_strings (map (\<lambda>c. inet_name (cs_family c)) (nd_connects d)))]),
      (''dns_latencies_milliseconds'', PList (map PFloat (nd_dns d))),
      (''tcp_connect_latencies_milliseconds'', PList (map (\<lambda>c. PFloat (cs_tcp c)) (nd_connects d))),
      (''tls_handshake_latencies_milliseconds'', PList (map PFloat (tls_latencies d))),
      (''tls_versions'', sorted_strings (tls_versions d)),
      (''download_runs'', PList (map download_dict (nd_downloads d))),
      (''download_error_types'', PList (map PStr (nd_download_errors d))),
      (''upload'', PDict [(''configured'', PBool (upload_target \<noteq> None)), (''origin'', upload_origin),
         (''path_sha256'', case upload_target of None \<Rightarrow> PNone | Some u \<Rightarrow> PStr (path_hash sha256 u)),
         (''runs'', PList (map upload_dict (nd_uploads d))), (''error_types'', PList (map PStr (nd_upload_errors d)))]),
      (''icmp_packet_loss_percent'', case nd_loss d of None \<Rightarrow> PNone | Some f \<Rightarrow> PFloat f),
      (''warnings'', PList (map PStr (dedup warnings))),
      (''limitations'', PList (map PStr
        [''results describe the configured endpoint path and route at measurement time'',
         ''HTTP throughput includes application, TCP, and optional TLS overhead'',
         ''ICMP loss may differ from TCP or HTTP behavior because networks can filter ping'',
         ''no response body, request body, query string, credential, or resolved IP is persisted'']))]))"

definition network_result ::
  "(string \<Rightarrow> string) \<Rightarrow> NetworkingProfileConfig \<Rightarrow> endpoint_parts \<Rightarrow> endpoint_parts option \<Rightarrow> network_data \<Rightarrow> string list \<Rightarrow>
   (Metric list \<times> (string \<times> pyval) list \<times> string list) result" where
  "network_result sha256 config target upload_target d warnings =
    rbind (bench_metrics (network_metric_specs (np_repetitions config) d)) (\<lambda>metrics.
    rbind (network_evidence sha256 config target upload_target d warnings) (\<lambda>evidence.
    Inr (metrics, evidence, dedup warnings)))"

section \<open>The benchmark\<close>

text \<open>Steps that may raise and that leave events, one after another.\<close>

definition lbind :: "'l list \<times> ('e + 'a) \<Rightarrow> ('a \<Rightarrow> 'l list \<times> ('e + 'b)) \<Rightarrow> 'l list \<times> ('e + 'b)" where
  "lbind m f = (case m of (l, Inl e) \<Rightarrow> (l, Inl e) | (l, Inr x) \<Rightarrow> (case f x of (l', r) \<Rightarrow> (l @ l', r)))"

definition silent :: "'e + 'a \<Rightarrow> 'l list \<times> ('e + 'a)" where
  "silent r = ([], r)"

text \<open>The upload target is resolved and validated once before its requests.\<close>

definition upload_phase ::
  "(string \<Rightarrow> bool) \<Rightarrow> (string \<Rightarrow> address_flags option) \<Rightarrow> network_world \<Rightarrow> NetworkingProfileConfig \<Rightarrow>
   network_event list \<times> (endpoint_parts option \<times> upload_run list \<times> string list) bench" where
  "upload_phase bracket_host ip_address w config = (case np_upload_url config of
     None \<Rightarrow> silent (Inr (None, [], []))
   | Some url \<Rightarrow>
      lbind (silent (raising (split_endpoint bracket_host url))) (\<lambda>target.
      lbind (silent (raising (endpoint target))) (\<lambda>(host, port).
      lbind (silent (resolve_once w UploadLookup host port)) (\<lambda>(latency, addresses).
      lbind (silent (validate_addresses ip_address ''NetworkingSafetyError'' (np_scope config) addresses)) (\<lambda>_.
      lbind (attempts (\<lambda>i. nw_cancelled w (AtProbe (Upload i))) (http_upload_probe w config target) [0..<nat (np_repetitions config)]) (\<lambda>(runs, errors).
      silent (Inr (Some target, runs, errors))))))))"

definition network_run ::
  "(string \<Rightarrow> bool) \<Rightarrow> (string \<Rightarrow> string) \<Rightarrow> (string \<Rightarrow> address_flags option) \<Rightarrow> NetworkingProfileConfig \<Rightarrow> network_world \<Rightarrow>
   network_event list \<times> (Metric list \<times> (string \<times> pyval) list \<times> string list) bench" where
  "network_run bracket_host sha256 ip_address config w = (let reps = [0..<nat (np_repetitions config)] in
    lbind (silent (checked_at w AtStart)) (\<lambda>_.
    lbind (silent (raising (split_endpoint bracket_host (np_target_url config)))) (\<lambda>target.
    lbind (silent (raising (endpoint target))) (\<lambda>(host, port).
    lbind (silent (lookup_target w (nat (np_repetitions config)) host port)) (\<lambda>(dns, addresses).
    lbind (silent (validate_addresses ip_address ''NetworkingSafetyError'' (np_scope config) addresses)) (\<lambda>_.
    lbind (rounds (connect_round w addresses port (ep_scheme target = ''https'')) reps) (\<lambda>connects.
    lbind (attempts (\<lambda>i. nw_cancelled w (AtProbe (Download i))) (http_download_probe w config target) reps) (\<lambda>(downloads, download_errors).
    lbind (upload_phase bracket_host ip_address w config) (\<lambda>(upload_target, uploads, upload_errors).
    lbind (silent (raising (network_warnings config target downloads uploads))) (\<lambda>warnings.
    lbind (silent (ping_probe w host config)) (\<lambda>(loss, ping_warning).
    lbind (silent (checked_at w AtMetrics)) (\<lambda>_.
    silent (raising (network_result sha256 config target upload_target
      \<lparr>nd_dns = dns, nd_addresses = addresses, nd_connects = connects, nd_downloads = downloads,
       nd_download_errors = download_errors, nd_uploads = uploads, nd_upload_errors = upload_errors, nd_loss = loss,
       nd_ping_warning = ping_warning\<rparr>
      (warnings @ (case ping_warning of None \<Rightarrow> [] | Some x \<Rightarrow> [x]))))))))))))))))"

definition benchmark_networking_profile ::
  "(string \<Rightarrow> bool) \<Rightarrow> (string \<Rightarrow> string) \<Rightarrow> (string \<Rightarrow> address_flags option) \<Rightarrow> NetworkingProfileConfig \<Rightarrow> network_world \<Rightarrow>
   network_event list \<times> benchmark_outcome" where
  "benchmark_networking_profile bracket_host sha256 ip_address config w =
    (case network_run bracket_host sha256 ip_address config w of (events, r) \<Rightarrow> (events, bench_outcome r))"

section \<open>Steps with events\<close>

lemma silent_simps [simp]: "fst (silent r) = []" "snd (silent r) = r"
  by (simp_all add: silent_def)

lemma lbind_Inr: "snd (lbind m f) = Inr y \<longleftrightarrow> (\<exists>x. snd m = Inr x \<and> snd (f x) = Inr y)"
  by (auto simp: lbind_def split: prod.splits sum.splits)

lemma lbind_events:
  assumes "list_all P (fst m)" and "\<And>x. snd m = Inr x \<Longrightarrow> list_all P (fst (f x))"
  shows "list_all P (fst (lbind m f))"
  using assms by (auto simp: lbind_def split: prod.splits sum.splits)

lemma attempts_events:
  assumes "\<And>i. list_all P (fst (once i))"
  shows "list_all P (fst (attempts cancelled once is))"
proof (induction "is")
  case (Cons i "is")
  have "list_all P es" if "once i = (es, r)" for es r using assms [of i] that by simp
  with Cons show ?case by (auto split: prod.splits sum.splits bench_error.splits)
qed simp

lemma rounds_events:
  assumes "\<And>i. list_all P (fst (once i))"
  shows "list_all P (fst (rounds once is))"
proof (induction "is")
  case (Cons i "is")
  have "list_all P es" if "once i = (es, r)" for es r using assms [of i] that by simp
  with Cons show ?case by (auto split: prod.splits sum.splits)
qed simp

lemma attempts_account:
  "snd (attempts cancelled once is) = Inr (runs, errors) \<Longrightarrow> length runs + length errors = length is \<and>
   list_all (\<lambda>x. \<exists>i. snd (once i) = Inr x) runs"
proof (induction "is" arbitrary: runs errors)
  case (Cons i "is")
  obtain es r where o: "once i = (es, r)" by fastforce
  obtain es' r' where a: "attempts cancelled once is = (es', r')" by fastforce
  have go: "\<not> cancelled i" using Cons.prems by (auto split: if_splits)
  show ?case
  proof (cases r)
    case (Inl e)
    then obtain t where e: "e = BenchRaised t" using Cons.prems o go by (cases e) auto
    then obtain errors' where "r' = Inr (runs, errors')" "errors = t # errors'"
      using Cons.prems o a go Inl by (auto simp: rbind_Inr_iff)
    then show ?thesis using Cons.IH [of runs errors'] a by simp
  next
    case (Inr x)
    then obtain runs' where "r' = Inr (runs', errors)" "runs = x # runs'"
      using Cons.prems o a go by (auto simp: rbind_Inr_iff)
    moreover have "\<exists>i. snd (once i) = Inr x" using o Inr by (intro exI [of _ i]) simp
    ultimately show ?thesis using Cons.IH [of runs' errors] a by simp
  qed
qed simp

lemma rounds_account:
  "snd (rounds once is) = Inr xs \<Longrightarrow> length xs = length is \<and> list_all (\<lambda>x. \<exists>i. snd (once i) = Inr x) xs"
proof (induction "is" arbitrary: xs)
  case (Cons i "is")
  obtain es x where o: "once i = (es, Inr x)" using Cons.prems by (auto split: prod.splits sum.splits)
  obtain es' r' where a: "rounds once is = (es', r')" by fastforce
  have "\<exists>i. snd (once i) = Inr x" using o by (intro exI [of _ i]) simp
  then show ?case using Cons o a by (auto simp: rbind_Inr_iff)
qed simp

lemma connect_any_tries: "set (fst (connect_any try as)) \<subseteq> set as"
  by (induction as) (auto split: connect_result.splits prod.splits)

lemma connect_any_selected: "snd (connect_any try as) = Inr (Some a) \<Longrightarrow> a \<in> set as \<and> try a = Connected"
  by (induction as) (auto split: connect_result.splits prod.splits)

section \<open>Where a run connects\<close>

text \<open>An event is permitted when the address it connects to is, and when the body of a download keeps the limit.\<close>

primrec event_permitted :: "(string \<Rightarrow> bool) \<Rightarrow> network_event \<Rightarrow> bool" where
  "event_permitted ok (ConnectedTo f a port) = ok a"
| "event_permitted ok (RequestTo p f a port) = ok a"
| "event_permitted ok (Received p n) = True"

text \<open>The records a request of probe \<open>p\<close> may connect to.\<close>

definition request_records :: "network_world \<Rightarrow> probe \<Rightarrow> endpoint_parts \<Rightarrow> (family \<times> string) list" where
  "request_records w p parsed = (case endpoint parsed of Inl e \<Rightarrow> [] | Inr (host, port) \<Rightarrow>
     (case nw_getaddrinfo w (RequestLookup p) host port of Inl t \<Rightarrow> [] | Inr records \<Rightarrow> records))"

lemma connect_round_events:
  assumes "list_all (\<lambda>a. ok (snd a)) addresses"
  shows "list_all (event_permitted ok) (fst (connect_round w addresses port https i))"
proof -
  obtain tried r where c: "connect_any (nw_connect w i) addresses = (tried, r)" by fastforce
  then have "set tried \<subseteq> set addresses" using connect_any_tries [of "nw_connect w i" addresses] by simp
  then have "list_all (event_permitted ok) (map (\<lambda>(f, a). ConnectedTo f a port) tried)"
    using assms by (fastforce simp: list_all_iff)
  then show ?thesis by (simp add: connect_round_def c)
qed

lemma http_connect_events:
  assumes "list_all (\<lambda>a. ok (snd a)) (request_records w p parsed)"
  shows "list_all (event_permitted ok) (fst (http_connect w p parsed))"
proof (cases "endpoint parsed")
  case (Inl e)
  then show ?thesis by (simp add: http_connect_def raising_def)
next
  case (Inr hp)
  obtain host port where hp: "hp = (host, port)" by fastforce
  have events: "list_all (event_permitted ok) (map (\<lambda>(f, a). RequestTo p f a port) tried)"
    if "nw_getaddrinfo w (RequestLookup p) host port = Inr records"
      "connect_any (nw_request_connect w p) records = (tried, r)" for records tried r
  proof -
    have "set tried \<subseteq> set records" using connect_any_tries [of "nw_request_connect w p" records] that(2) by simp
    moreover have "list_all (\<lambda>a. ok (snd a)) records"
      using assms that(1) Inr hp by (simp add: request_records_def)
    ultimately show ?thesis by (fastforce simp: list_all_iff)
  qed
  show ?thesis using Inr hp events
    by (auto simp: http_connect_def raising_def split: sum.splits prod.splits)
qed

lemma http_download_probe_events:
  assumes "list_all (\<lambda>a. ok (snd a)) (request_records w (Download i) parsed)"
  shows "list_all (event_permitted ok) (fst (http_download_probe w config parsed i))"
proof -
  obtain es r where h: "http_connect w (Download i) parsed = (es, r)" by fastforce
  have "list_all (event_permitted ok) es" using http_connect_events [OF assms] h by simp
  then show ?thesis
    by (auto simp: http_download_probe_def h Let_def read_whole_def split: sum.splits)
qed

lemma http_upload_probe_events:
  assumes "list_all (\<lambda>a. ok (snd a)) (request_records w (Upload i) parsed)"
  shows "list_all (event_permitted ok) (fst (http_upload_probe w config parsed i))"
proof -
  obtain es r where h: "http_connect w (Upload i) parsed = (es, r)" by fastforce
  have "list_all (event_permitted ok) es" using http_connect_events [OF assms] h by simp
  then show ?thesis
    by (auto simp: http_upload_probe_def h Let_def read_whole_def split: sum.splits)
qed

text \<open>A resolver that answers every lookup of a name in the same way, with TCP addresses only.\<close>

definition stable_resolver :: "network_world \<Rightarrow> (string \<Rightarrow> int \<Rightarrow> dns_answer) \<Rightarrow> bool" where
  "stable_resolver w dns \<longleftrightarrow> (\<forall>l host port. nw_getaddrinfo w l host port = dns host port \<and>
     (case dns host port of Inl t \<Rightarrow> True | Inr records \<Rightarrow> list_all (\<lambda>r. fst r \<noteq> AF_OTHER) records))"

lemma stable_request_records:
  assumes "stable_resolver w dns" and "endpoint target = Inr (host, port)"
    and "resolve_addresses (dns host port) = Inr addresses"
  shows "set (request_records w p target) \<subseteq> set addresses"
proof -
  obtain records where r: "dns host port = Inr records" "addresses = tcp_addresses records"
    using assms(3) by (auto simp: resolve_addresses_Inr)
  have "nw_getaddrinfo w (RequestLookup p) host port = Inr records" "list_all (\<lambda>r. fst r \<noteq> AF_OTHER) records"
    using assms(1) r(1) by (auto simp: stable_resolver_def split: sum.splits)
  then have "request_records w p target = records" "set records \<subseteq> set addresses"
    using assms(2) r(2) family.exhaust by (auto simp: request_records_def tcp_addresses_def list_all_iff)
  then show ?thesis by simp
qed

lemma lookup_target_last:
  assumes "lookup_target w n host port = Inr (dns_times, addresses)"
  shows "length dns_times = n \<and> (if n = 0 then addresses = []
    else resolve_addresses (nw_getaddrinfo w (TargetLookup (n - 1)) host port) = Inr addresses)"
proof -
  obtain answers where m: "rmap (\<lambda>i. rbind (checked_at w (AtLookup i)) (\<lambda>_. resolve_once w (TargetLookup i) host port)) [0..<n] = Inr answers"
    and a: "dns_times = map fst answers" "addresses = (if answers = [] then [] else snd (last answers))"
    using assms by (auto simp: lookup_target_def rbind_Inr_iff)
  have len: "length answers = n" using rmap_length [OF m] by simp
  have "rbind (checked_at w (AtLookup (n - 1))) (\<lambda>_. resolve_once w (TargetLookup (n - 1)) host port) = Inr (last answers)" if "0 < n"
    using m that len by (auto simp: rmap_Inr_iff list_all2_conv_all_nth last_conv_nth)
  then have "resolve_addresses (nw_getaddrinfo w (TargetLookup (n - 1)) host port) = Inr (snd (last answers))" if "0 < n"
    using that by (auto simp: rbind_Inr_iff resolve_once_def) (metis snd_conv)
  then show ?thesis using a len by auto
qed

lemma validated_records:
  assumes "stable_resolver w dns" and "endpoint target = Inr (host, port)"
    and "resolve_addresses (dns host port) = Inr addresses" and "validate_addresses ip_address e scope addresses = Inr u"
  shows "list_all (\<lambda>a. permitted ip_address scope (snd a)) (request_records w p target)"
proof -
  have "list_all (\<lambda>a. permitted ip_address scope (snd a)) addresses" using assms(4) by (intro validated_permitted) simp
  then show ?thesis using stable_request_records [OF assms(1-3)] by (auto simp: list_all_iff)
qed

lemma upload_phase_events:
  assumes "stable_resolver w dns"
  shows "list_all (event_permitted (permitted ip_address (np_scope config))) (fst (upload_phase bracket_host ip_address w config))"
proof (cases "np_upload_url config")
  case None
  then show ?thesis by (simp add: upload_phase_def)
next
  case (Some url)
  have dns: "nw_getaddrinfo w l host port = dns host port" for l host port
    using assms by (simp add: stable_resolver_def)
  have probes: "list_all (event_permitted (permitted ip_address (np_scope config)))
      (fst (attempts c (http_upload_probe w config target) is))"
    if "endpoint target = Inr (host, port)" "resolve_once w UploadLookup host port = Inr (latency, addresses)"
      "validate_addresses ip_address ''NetworkingSafetyError'' (np_scope config) addresses = Inr u"
    for target host port latency addresses u c "is"
  proof -
    have "resolve_addresses (dns host port) = Inr addresses"
      using that(2) by (auto simp: resolve_once_def rbind_Inr_iff dns)
    from validated_records [OF assms that(1) this that(3)] show ?thesis
      by (intro attempts_events http_upload_probe_events)
  qed
  show ?thesis unfolding upload_phase_def Some
    by (auto intro!: lbind_events intro: probes split: prod.splits)
qed


section \<open>A completed run\<close>

text \<open>What the measurements of a completed run consist of.\<close>

definition network_accounts :: "NetworkingProfileConfig \<Rightarrow> bool \<Rightarrow> network_data \<Rightarrow> Metric list \<Rightarrow> (string \<times> pyval) list \<Rightarrow> bool" where
  "network_accounts config https d metrics evidence \<longleftrightarrow> (let n = nat (np_repetitions config) in
    length (nd_dns d) = n \<and> length (nd_connects d) = n \<and> length (nd_downloads d) + length (nd_download_errors d) = n \<and>
    length (nd_uploads d) + length (nd_upload_errors d) = (if np_upload_url config = None then 0 else n) \<and>
    list_all (\<lambda>c. (cs_tls c = None) = (\<not> https) \<and> cs_family c \<in> fst ` set (nd_addresses d)) (nd_connects d) \<and>
    list_all (\<lambda>r. good_status (dn_status r) \<and> int (dn_bytes r) \<le> np_download_limit_bytes config) (nd_downloads d) \<and>
    list_all (\<lambda>r. good_status (un_status r) \<and> un_bytes r = np_upload_bytes config) (nd_uploads d) \<and>
    list_all (\<lambda>m. isfinite (metric_value m)) metrics \<and>
    list_ex (\<lambda>m. metric_name m = ''network.http.request_loss_percent'' \<and>
      (case metric_value m of Fin r \<Rightarrow> 0 \<le> r \<and> r \<le> 100 | _ \<Rightarrow> False)) metrics \<and>
    get evidence ''download_runs'' = PList (map download_dict (nd_downloads d)) \<and>
    get evidence ''download_error_types'' = PList (map PStr (nd_download_errors d)) \<and>
    get evidence ''dns_latencies_milliseconds'' = PList (map PFloat (nd_dns d)))"

lemma connect_round_sample:
  assumes "snd (connect_round w addresses port https i) = Inr c"
  shows "(cs_tls c = None) = (\<not> https) \<and> cs_family c \<in> fst ` set addresses"
proof -
  obtain tried r where a: "connect_any (nw_connect w i) addresses = (tried, r)" by fastforce
  then obtain f addr where "r = Inr (Some (f, addr))" and c: "cs_family c = f" "(cs_tls c = None) = (\<not> https)"
    using assms by (auto simp: connect_round_def rbind_Inr_iff split: if_splits option.splits sum.splits)
  then have "(f, addr) \<in> set addresses" using connect_any_selected [of "nw_connect w i" addresses "(f, addr)"] a by simp
  then show ?thesis using c by force
qed

lemma download_probe_run:
  assumes "snd (http_download_probe w config parsed i) = Inr r" and "bounded_reads (tr_read (nw_transfer w (Download i)))"
    and "0 \<le> np_download_limit_bytes config"
  shows "good_status (dn_status r) \<and> int (dn_bytes r) \<le> np_download_limit_bytes config"
proof -
  obtain es h where a: "http_connect w (Download i) parsed = (es, h)" by fastforce
  let ?chunks = "read_chunks (\<lambda>k. nw_cancelled w (InProbe (Download i) (Suc k))) (tr_read (nw_transfer w (Download i)))
    (nat (np_download_limit_bytes config)) 0 0"
  have "good_status (dn_status r) \<and> ?chunks = Inr (dn_bytes r)"
    using assms(1) by (auto simp: http_download_probe_def a Let_def read_whole_def rbind_Inr_iff split: if_splits sum.splits)
  then show ?thesis using read_chunks_bound [OF assms(2), of 0 "nat (np_download_limit_bytes config)"] assms(3) by fastforce
qed

lemma upload_probe_run:
  assumes "snd (http_upload_probe w config parsed i) = Inr r"
  shows "good_status (un_status r) \<and> un_bytes r = np_upload_bytes config"
proof -
  obtain es h where a: "http_connect w (Upload i) parsed = (es, h)" by fastforce
  show ?thesis
    using assms by (auto simp: http_upload_probe_def a Let_def read_whole_def rbind_Inr_iff split: if_splits sum.splits)
qed

lemma upload_phase_account:
  assumes "snd (upload_phase bracket_host ip_address w config) = Inr (target, runs, errors)"
  shows "length runs + length errors = (if np_upload_url config = None then 0 else nat (np_repetitions config)) \<and>
    list_all (\<lambda>r. good_status (un_status r) \<and> un_bytes r = np_upload_bytes config) runs"
proof (cases "np_upload_url config")
  case None
  then show ?thesis using assms by (simp add: upload_phase_def)
next
  case (Some url)
  then obtain c t where a: "snd (attempts c (http_upload_probe w config t) [0..<nat (np_repetitions config)]) = Inr (runs, errors)"
    using assms by (auto simp: upload_phase_def lbind_Inr)
  show ?thesis using attempts_account [OF a] Some upload_probe_run by (fastforce simp: list_all_iff)
qed

text \<open>The loss of requests is one of the metrics, whatever the others are.\<close>

lemma request_loss_spec:
  "\<exists>k < length (network_metric_specs n d). network_metric_specs n d ! k = (''network.http.request_loss_percent'',
     rbind (int_truediv (int (length (nd_download_errors d))) n) (\<lambda>r. Inr (fmul r (Fin 100))), ''percent'', LOWER_IS_BETTER)"
  unfolding in_set_conv_nth [symmetric] by (simp add: network_metric_specs_def Let_def in_set_conv_nth [symmetric])

lemma request_loss_metric:
  assumes "bench_metrics (network_metric_specs n d) = Inr ms" and "int (length (nd_download_errors d)) \<le> n" and "0 < n"
  shows "list_ex (\<lambda>m. metric_name m = ''network.http.request_loss_percent'' \<and>
    (case metric_value m of Fin r \<Rightarrow> 0 \<le> r \<and> r \<le> 100 | _ \<Rightarrow> False)) ms"
proof -
  note f = bench_metrics_Inr [OF assms(1)]
  obtain k where k: "k < length (network_metric_specs n d)" and s: "network_metric_specs n d ! k =
    (''network.http.request_loss_percent'', rbind (int_truediv (int (length (nd_download_errors d))) n)
      (\<lambda>r. Inr (fmul r (Fin 100))), ''percent'', LOWER_IS_BETTER)"
    using request_loss_spec by blast
  have len: "length ms = length (network_metric_specs n d)" using f list_all2_lengthD by force
  have "map metric_name ms ! k = map (\<lambda>s. strip (fst s)) (network_metric_specs n d) ! k" using f by simp
  then have "metric_name (ms ! k) = strip ''network.http.request_loss_percent''" using k s len by simp
  moreover have "strip ''network.http.request_loss_percent'' = ''network.http.request_loss_percent''" by code_simp
  moreover have "rbind (int_truediv (int (length (nd_download_errors d))) n) (\<lambda>r. Inr (fmul r (Fin 100))) = Inr (metric_value (ms ! k))"
    using f s k list_all2_nthD [of "\<lambda>s m. fst (snd s) = Inr (metric_value m)" "network_metric_specs n d" ms k] by simp
  then obtain r where "metric_value (ms ! k) = Fin r" "0 \<le> r" "r \<le> 100"
    using percent_range [of "int (length (nd_download_errors d))" n] assms(2,3) by fastforce
  ultimately have "metric_name (ms ! k) = ''network.http.request_loss_percent'' \<and>
    (case metric_value (ms ! k) of Fin r \<Rightarrow> 0 \<le> r \<and> r \<le> 100 | _ \<Rightarrow> False)" by simp
  then show ?thesis unfolding list_ex_length using k len by (intro exI [of _ k] conjI) simp_all
qed

lemma network_result_Inr:
  assumes "network_result sha256 config target upload_target d ws = Inr (metrics, evidence, warnings)"
  shows "bench_metrics (network_metric_specs (np_repetitions config) d) = Inr metrics \<and>
    get evidence ''download_runs'' = PList (map download_dict (nd_downloads d)) \<and>
    get evidence ''download_error_types'' = PList (map PStr (nd_download_errors d)) \<and>
    get evidence ''dns_latencies_milliseconds'' = PList (map PFloat (nd_dns d)) \<and> warnings = dedup ws"
  using assms by (auto simp: network_result_def network_evidence_def rbind_Inr_iff get_def get_default_def)


section \<open>What is not bounded\<close>

text \<open>
  A public target whose name resolves to a loopback address when the HTTP client looks it up again, and
  whose error page has a gibibyte.
\<close>

definition demo_network_config :: NetworkingProfileConfig where
  "demo_network_config = \<lparr>np_version = ''1.0.0'', np_target_url = ''http://h/'', np_upload_url = None, np_scope = PublicScope,
     np_repetitions = 1, np_timeout_seconds = Fin 5, np_download_limit_bytes = 1024, np_upload_bytes = 1024, np_ping_count = 0,
     np_verify_tls = True, np_user_agent = ''CloudEyes/0.1 networking-v1''\<rparr>"

definition address_of_demo :: "string \<Rightarrow> address_flags option" where
  "address_of_demo a = Some \<lparr>af_unspecified = False, af_multicast = False, af_link_local = False, af_reserved = False,
     af_private = (a = ''127.0.0.1''), af_loopback = (a = ''127.0.0.1'')\<rparr>"

definition demo_network :: network_world where
  "demo_network = \<lparr>nw_cancelled = (\<lambda>_. False), nw_times = (\<lambda>_. (Fin 0, Fin 1)),
     nw_getaddrinfo = (\<lambda>l host port. Inr [(AF_INET, case l of RequestLookup p \<Rightarrow> ''127.0.0.1'' | _ \<Rightarrow> ''192.0.2.1'')]),
     nw_connect = (\<lambda>_ _. Connected), nw_handshake = (\<lambda>_. Inr None), nw_request_connect = (\<lambda>_ _. Connected),
     nw_transfer = (\<lambda>_. \<lparr>tr_context_error = None, tr_response = Inr 404, tr_read = (\<lambda>_ _. Inr 0), tr_whole = Inr (2 ^ 30)\<rparr>),
     nw_windows = False, nw_has_ping = True, nw_run = (\<lambda>_ _. PingFailed)\<rparr>"


section \<open>Witnesses\<close>

definition stable_network :: network_world where
  "stable_network = demo_network\<lparr>nw_getaddrinfo := (\<lambda>_ _ _. Inr [(AF_INET, ''192.0.2.1'')])\<rparr>"

lemma stable_network_events:
  "fst (benchmark_networking_profile (\<lambda>_. False) (\<lambda>s. s) address_of_demo demo_network_config stable_network) =
   [ConnectedTo AF_INET ''192.0.2.1'' 80, RequestTo (Download 0) AF_INET ''192.0.2.1'' 80, Received (Download 0) (2 ^ 30)]"
  by code_simp


lemma demo_network_completes:
  "completed (snd (benchmark_networking_profile (\<lambda>_. False) (\<lambda>s. s) address_of_demo demo_network_config demo_network)) \<noteq> None"
  by code_simp


section \<open>The packet loss\<close>

text \<open>
  What the two regular expressions describe: a decimal number, a percent sign, white space and the words, at
  the first place where they match.
\<close>

definition decimal_text :: "string \<Rightarrow> bool" where
  "decimal_text s \<longleftrightarrow> (\<exists>whole. whole \<noteq> [] \<and> list_all is_digit whole \<and> (s = whole \<or>
     (\<exists>fraction. fraction \<noteq> [] \<and> list_all is_digit fraction \<and> s = whole @ ''.'' @ fraction)))"

definition loss_text :: "string \<Rightarrow> string \<Rightarrow> string \<Rightarrow> bool" where
  "loss_text words s number \<longleftrightarrow> decimal_text number \<and>
     (\<exists>space after. list_all is_space space \<and> s = number @ ''%'' @ space @ words @ after)"

definition first_match :: "(string \<Rightarrow> string \<Rightarrow> bool) \<Rightarrow> string \<Rightarrow> string \<Rightarrow> bool" where
  "first_match R s number \<longleftrightarrow> (\<exists>k \<le> length s. R (drop k s) number \<and> list_all (\<lambda>j. \<nexists>n. R (drop j s) n) [0..<k])"

lemma search_first:
  assumes "\<And>t n. m t = Some n \<longleftrightarrow> R t n"
  shows "search_loss m s = Some n \<longleftrightarrow> first_match R s n" and "search_loss m s = None \<longleftrightarrow> (\<nexists>n. first_match R s n)"
proof -
  have none: "m t = None \<longleftrightarrow> (\<nexists>n. R t n)" for t using assms by (metis not_None_eq)
  have shift: "first_match R (c # t) n \<longleftrightarrow> R (c # t) n \<or> (\<nexists>n. R (c # t) n) \<and> first_match R t n" for c t n
  proof -
    have "[0..<Suc k] = 0 # map Suc [0..<k]" for k by (metis map_Suc_upt upt_conv_Cons zero_less_Suc)
    then have rest: "list_all P [0..<Suc k] \<longleftrightarrow> P 0 \<and> list_all (\<lambda>j. P (Suc j)) [0..<k]" for P :: "nat \<Rightarrow> bool" and k
      by (simp add: list.pred_map comp_def)
    have ex: "(\<exists>k \<le> length (c # t). Q k) \<longleftrightarrow> Q 0 \<or> (\<exists>k \<le> length t. Q (Suc k))" for Q :: "nat \<Rightarrow> bool"
      by (metis Suc_le_mono le0 length_Cons not0_implies_Suc)
    have "first_match R (c # t) n \<longleftrightarrow> R (drop 0 (c # t)) n \<and> list_all (\<lambda>j. \<nexists>n. R (drop j (c # t)) n) [0..<0] \<or>
        (\<exists>k \<le> length t. R (drop (Suc k) (c # t)) n \<and> list_all (\<lambda>j. \<nexists>n. R (drop j (c # t)) n) [0..<Suc k])"
      unfolding first_match_def by (rule ex)
    then show ?thesis unfolding rest first_match_def by auto
  qed
  have found: "search_loss m s = Some n \<longleftrightarrow> first_match R s n" for n
  proof (induction s)
    case Nil
    then show ?case by (simp add: first_match_def assms)
  next
    case (Cons c t)
    show ?case
    proof (cases "m (c # t)")
      case None
      then have "\<nexists>n. R (c # t) n" using none by blast
      then show ?thesis unfolding shift using None Cons by simp
    next
      case (Some x)
      then have "R (c # t) x" using assms by blast
      moreover have "search_loss m (c # t) = Some x" using Some by simp
      ultimately have r: "R (c # t) x" "search_loss m (c # t) = Some x" .
      then have "search_loss m (c # t) = Some n \<longleftrightarrow> R (c # t) n" using assms Some by metis
      then show ?thesis unfolding shift using r(1) by blast
    qed
  qed
  then show "search_loss m s = Some n \<longleftrightarrow> first_match R s n" .
  show "search_loss m s = None \<longleftrightarrow> (\<nexists>n. first_match R s n)" using found by (metis not_None_eq)
qed

lemma decimal_prefix_text:
  assumes "decimal_prefix s = (number, rest)"
  shows "s = number @ rest \<and> (number \<noteq> [] \<longrightarrow> decimal_text number)"
proof -
  let ?w = "takeWhile is_digit s" and ?r = "dropWhile is_digit s"
  have digits: "list_all is_digit (takeWhile is_digit t)" for t by (simp add: list_all_iff) (meson set_takeWhileD)
  show ?thesis
  proof (cases "?w \<noteq> [] \<and> startswith ?r ''.'' \<and> takeWhile is_digit (drop 1 ?r) \<noteq> []")
    case True
    then have n: "number = ?w @ ''.'' @ takeWhile is_digit (drop 1 ?r)" "rest = dropWhile is_digit (drop 1 ?r)"
      using assms by (simp_all add: decimal_prefix_def Let_def)
    have "?r = ''.'' @ drop 1 ?r" using True by (cases ?r) (auto simp: startswith_def)
    then have "s = number @ rest" using n takeWhile_dropWhile_id by (metis append.assoc)
    then show ?thesis using n True digits by (auto simp: decimal_text_def)
  next
    case False
    then have "number = ?w" "rest = ?r" using assms unfolding decimal_prefix_def Let_def by auto
    then show ?thesis using digits by (auto simp: decimal_text_def)
  qed
qed

lemma decimal_prefix_complete:
  assumes "decimal_text number"
  shows "decimal_prefix (number @ CHR ''%'' # t) = (number, CHR ''%'' # t)"
proof -
  have pct: "\<not> is_digit (CHR ''%'')" "\<not> is_digit (CHR ''.'')" by code_simp+
  have take: "takeWhile is_digit (xs @ c # ys) = xs" "dropWhile is_digit (xs @ c # ys) = c # ys"
    if "list_all is_digit xs" "\<not> is_digit c" for xs c ys
    using that by (induction xs) auto
  from assms obtain whole where w: "whole \<noteq> []" "list_all is_digit whole" and
    "number = whole \<or> (\<exists>fraction. fraction \<noteq> [] \<and> list_all is_digit fraction \<and> number = whole @ ''.'' @ fraction)"
    by (auto simp: decimal_text_def)
  then consider "number = whole" | fraction where "fraction \<noteq> []" "list_all is_digit fraction" "number = whole @ ''.'' @ fraction"
    by blast
  then show ?thesis
  proof cases
    case 1
    then show ?thesis using take [OF w(2) pct(1)] by (simp add: decimal_prefix_def Let_def startswith_def)
  next
    case 2
    then show ?thesis using take [OF w(2) pct(2)] take [OF 2(2) pct(1)] w(1)
      by (simp add: decimal_prefix_def Let_def startswith_def)
  qed
qed

lemma loss_at_iff:
  assumes "words \<noteq> []" and "\<not> is_space (hd words)"
  shows "loss_at words s = Some number \<longleftrightarrow> loss_text words s number"
proof
  assume l: "loss_at words s = Some number"
  obtain n rest where d: "decimal_prefix s = (n, rest)" by fastforce
  then have r: "n = number" "number \<noteq> []" "startswith rest ''%''" "startswith (dropWhile is_space (drop 1 rest)) words"
    using l by (auto simp: loss_at_def split: if_splits)
  then obtain t where t: "rest = CHR ''%'' # t" by (cases rest) (auto simp: startswith_def)
  obtain after where "dropWhile is_space t = words @ after" using r(4) t by (auto simp: startswith_def) (metis append_take_drop_id)
  then have "t = takeWhile is_space t @ words @ after" by (metis takeWhile_dropWhile_id)
  moreover have "list_all is_space (takeWhile is_space t)" by (simp add: list_all_iff) (meson set_takeWhileD)
  ultimately show "loss_text words s number"
    using decimal_prefix_text [OF d] r(1,2) t unfolding loss_text_def by (metis append_Cons append_Nil)
next
  assume "loss_text words s number"
  then obtain space after where n: "decimal_text number" "list_all is_space space" "s = number @ CHR ''%'' # space @ words @ after"
    by (auto simp: loss_text_def)
  have "dropWhile is_space (space @ words @ after) = words @ after"
    using n(2) assms by (induction space) (auto simp: neq_Nil_conv)
  moreover have "number \<noteq> []" using n(1) by (auto simp: decimal_text_def)
  ultimately show "loss_at words s = Some number"
    using decimal_prefix_complete [OF n(1), of "space @ words @ after"] n(3) by (simp add: loss_at_def startswith_def)
qed

text \<open>The second expression has a parenthesis around the number and the word.\<close>

definition paren_text :: "string \<Rightarrow> string \<Rightarrow> bool" where
  "paren_text s number \<longleftrightarrow> (\<exists>t. s = CHR ''('' # t \<and> loss_text ''loss)'' t number)"

text \<open>
  The packet loss is read where the first regular expression first matches the output in lower case,
  else where the second one does, and not at all exactly when neither matches anywhere.
\<close>

theorem packet_loss_first_match:
  "case parse_packet_loss output of
     Some loss \<Rightarrow> \<exists>number. loss = float_of_decimal number \<and> (if \<exists>n. first_match (loss_text ''packet loss'') (casefold output) n
       then first_match (loss_text ''packet loss'') (casefold output) number
       else first_match paren_text (casefold output) number)
   | None \<Rightarrow> \<not> (\<exists>n. first_match (loss_text ''packet loss'') (casefold output) n) \<and>
       \<not> (\<exists>n. first_match paren_text (casefold output) n)"
proof -
  let ?s = "casefold output"
  have sp: "\<not> is_space (hd ''packet loss'')" "\<not> is_space (hd ''loss)'')" by code_simp+
  have one: "loss_at ''packet loss'' t = Some n \<longleftrightarrow> loss_text ''packet loss'' t n" for t n
    using loss_at_iff [OF _ sp(1)] by blast
  have two: "(if startswith t ''('' then loss_at ''loss)'' (drop 1 t) else None) = Some n \<longleftrightarrow> paren_text t n" for t n
    using loss_at_iff [OF _ sp(2)] by (cases t) (auto simp: paren_text_def startswith_def)
  note first = search_first [where m = "loss_at ''packet loss''" and R = "loss_text ''packet loss''", OF one]
  note second = search_first [where m = "\<lambda>t. if startswith t ''('' then loss_at ''loss)'' (drop 1 t) else None" and R = paren_text, OF two]
  show ?thesis
  proof (cases "search_loss (loss_at ''packet loss'') ?s")
    case (Some number)
    then have "first_match (loss_text ''packet loss'') ?s number" using first(1) by blast
    then show ?thesis using Some by (auto simp: parse_packet_loss_def)
  next
    case None
    then have no: "\<nexists>n. first_match (loss_text ''packet loss'') ?s n" using first(2) by blast
    show ?thesis
    proof (cases "search_loss (\<lambda>t. if startswith t ''('' then loss_at ''loss)'' (drop 1 t) else None) ?s")
      case inner: (Some number)
      then have "first_match paren_text ?s number" using second(1) by blast
      then show ?thesis using None inner no by (auto simp: parse_packet_loss_def)
    next
      case inner: None
      then have "\<nexists>n. first_match paren_text ?s n" using second(2) by blast
      then show ?thesis using None inner no by (simp add: parse_packet_loss_def)
    qed
  qed
qed

end
