(* ===== verification/Kernels.thy ===== *)
theory Kernels
  imports Targets "HOL-Library.Word"
begin

text \<open>
  The workloads of \<open>profiles/compute/benchmarks.py\<close>: integer mixing on 64 bits, scalar floating point, hashing
  and compression, and the wait for the result of a worker process. The integer loop, written with
  unbounded integers and masks, is shown to be the same loop on 64-bit words.
\<close>

unbundle bit_operations_syntax

section \<open>Integer mixing\<close>

definition MASK_64 :: int where "MASK_64 = push_bit 64 1 - 1"

definition mix :: "int \<Rightarrow> nat \<Rightarrow> int" where
  "mix v index =
    (let v = v XOR (push_bit 13 v AND MASK_64);
         v = v XOR drop_bit 7 v;
         v = v XOR (push_bit 17 v AND MASK_64)
     in (v + int index + 0x9E3779B97F4A7C15) AND MASK_64)"

text \<open>The loop over \<open>range(iterations)\<close>, with a checkpoint before every 4096th step.\<close>

fun integer_loop :: "(nat \<Rightarrow> bool) \<Rightarrow> nat list \<Rightarrow> int \<Rightarrow> int bench" where
  "integer_loop cancelled [] v = Inr v"
| "integer_loop cancelled (i # is) v =
    (if i mod 4096 = 0 \<and> cancelled i then Inl BenchCancelled else integer_loop cancelled is (mix v i))"

definition integer_kernel :: "(nat \<Rightarrow> bool) \<Rightarrow> nat \<Rightarrow> int \<Rightarrow> int bench" where
  "integer_kernel cancelled iterations seed = integer_loop cancelled [0..<iterations] (seed AND MASK_64)"

text \<open>The same on words of 64 bits: the xorshift steps and an addition that wraps.\<close>

definition word_mix :: "64 word \<Rightarrow> nat \<Rightarrow> 64 word" where
  "word_mix v index =
    (let v = v XOR push_bit 13 v; v = v XOR drop_bit 7 v; v = v XOR push_bit 17 v
     in v + of_nat index + 0x9E3779B97F4A7C15)"

definition word_kernel :: "nat \<Rightarrow> 64 word \<Rightarrow> 64 word" where
  "word_kernel iterations seed = foldl word_mix seed [0..<iterations]"

lemma mask_64: "v AND MASK_64 = take_bit 64 v"
  by (simp add: MASK_64_def take_bit_eq_mask mask_eq_exp_minus_1 push_bit_eq_mult)

lemma mix_word: "mix (uint v) i = uint (word_mix v i)"
proof -
  have x: "uint (a :: 64 word) XOR uint b = uint (a XOR b)" for a b by (simp add: uint_xor)
  have l: "take_bit 64 (push_bit k (uint (a :: 64 word))) = uint (push_bit k a)" for a k
    by (simp add: unsigned_push_bit_eq)
  have r: "drop_bit k (uint (a :: 64 word)) = uint (drop_bit k a)" for a k
    using uint_lt2p [of a] by (simp add: unsigned_drop_bit_eq take_bit_int_eq_self)
  have add: "take_bit 64 (uint (a :: 64 word) + int i + c) = uint (a + of_nat i + word_of_int c)" for a c
  proof -
    have "a + of_nat i + word_of_int c = word_of_int (uint a + int i + c)" by simp
    then show ?thesis by (simp only: unsigned_of_int) simp
  qed
  show ?thesis
    unfolding mix_def word_mix_def Let_def mask_64 l x r add by simp
qed

lemma integer_loop_words:
  "integer_loop (\<lambda>_. False) is (uint v) = Inr (uint (foldl word_mix v is))"
  by (induction "is" arbitrary: v) (simp_all add: mix_word)

lemma integer_loop_cancel: "integer_loop cancelled is v = Inr c \<Longrightarrow> integer_loop (\<lambda>_. False) is v = Inr c"
  by (induction "is" arbitrary: v) (auto split: if_splits)

text \<open>Every step is a bijection of the words, so the loop is one.\<close>

lemma xor_push_inj:
  fixes x y :: "'a :: len word"
  assumes "0 < k" and eq: "x XOR push_bit k x = y XOR push_bit k y"
  shows "x = y"
proof (rule bit_eqI)
  fix n
  assume "possible_bit TYPE('a word) n"
  then have len: "n < LENGTH('a)" by simp
  have same: "bit (x XOR push_bit k x) m = bit (y XOR push_bit k y) m" for m by (simp only: eq)
  show "bit x n \<longleftrightarrow> bit y n" using len
  proof (induction n rule: less_induct)
    case (less n)
    show ?case
    proof (cases "k \<le> n")
      case True
      then have "bit x (n - k) = bit y (n - k)" using less assms(1) by simp
      then show ?thesis using same [of n] True less.prems by (auto simp: bit_xor_iff bit_push_bit_iff)
    next
      case False
      then show ?thesis using same [of n] less.prems by (auto simp: bit_xor_iff bit_push_bit_iff)
    qed
  qed
qed

lemma xor_drop_inj:
  fixes x y :: "'a :: len word"
  assumes "0 < k" and eq: "x XOR drop_bit k x = y XOR drop_bit k y"
  shows "x = y"
proof (rule bit_eqI)
  fix n
  have same: "bit (x XOR drop_bit k x) m = bit (y XOR drop_bit k y) m" for m by (simp only: eq)
  show "bit x n \<longleftrightarrow> bit y n"
  proof (induction "LENGTH('a) - n" arbitrary: n rule: less_induct)
    case less
    show ?case
    proof (cases "n < LENGTH('a)")
      case True
      then have "bit x (n + k) = bit y (n + k)" using less assms(1) by simp
      then show ?thesis using same [of n] by (auto simp: bit_xor_iff bit_drop_bit_eq add.commute)
    next
      case False
      then show ?thesis using bit_imp_le_length by fastforce
    qed
  qed
qed

lemma word_mix_inj: "word_mix x i = word_mix y i \<Longrightarrow> x = y"
proof -
  assume "word_mix x i = word_mix y i"
  then have "(let v = x XOR push_bit 13 x; v = v XOR drop_bit 7 v in v XOR push_bit 17 v) =
      (let v = y XOR push_bit 13 y; v = v XOR drop_bit 7 v in v XOR push_bit 17 v)"
    by (simp add: word_mix_def Let_def)
  then show "x = y" unfolding Let_def
    by (intro xor_push_inj [of 13 x y] xor_drop_inj [of 7 "x XOR push_bit 13 x" "y XOR push_bit 13 y"]
        xor_push_inj [of 17 "(x XOR push_bit 13 x) XOR drop_bit 7 (x XOR push_bit 13 x)"]) simp_all
qed

lemma word_kernel_inj: "word_kernel n x = word_kernel n y \<Longrightarrow> x = y"
proof -
  have "foldl word_mix x is = foldl word_mix y is \<Longrightarrow> x = y" for "is"
    by (induction "is" arbitrary: x y) (auto dest: word_mix_inj)
  then show "word_kernel n x = word_kernel n y \<Longrightarrow> x = y" unfolding word_kernel_def .
qed

text \<open>
  C39: The integer workload, computed with unbounded integers and masks, is the loop on 64-bit words: a run
  that is not cancelled yields the value of the words, which lies below 2^64, and runs from seeds that
  differ modulo 2^64 yield different checksums.
\<close>

theorem integer_kernel_words:
  "integer_kernel (\<lambda>_. False) n seed = Inr (uint (word_kernel n (word_of_int seed))) \<and>
   (integer_kernel (\<lambda>_. False) n seed = integer_kernel (\<lambda>_. False) n seed' \<longleftrightarrow> seed mod 2 ^ 64 = seed' mod 2 ^ 64) \<and>
   (case integer_kernel cancelled n seed of Inl e \<Rightarrow> e = BenchCancelled
    | Inr checksum \<Rightarrow> 0 \<le> checksum \<and> checksum < 2 ^ 64 \<and> integer_kernel (\<lambda>_. False) n seed = Inr checksum)"
proof (intro conjI)
  have start: "s AND MASK_64 = uint (word_of_int s :: 64 word)" for s
    by (simp add: mask_64 unsigned_of_int)
  have run: "integer_kernel (\<lambda>_. False) n s = Inr (uint (word_kernel n (word_of_int s)))" for s
    by (simp add: integer_kernel_def start integer_loop_words word_kernel_def)
  then show "integer_kernel (\<lambda>_. False) n seed = Inr (uint (word_kernel n (word_of_int seed)))" .
  have "word_kernel n (word_of_int seed) = word_kernel n (word_of_int seed') \<longleftrightarrow> (word_of_int seed :: 64 word) = word_of_int seed'"
    using word_kernel_inj by metis
  also have "\<dots> \<longleftrightarrow> seed mod 2 ^ 64 = seed' mod 2 ^ 64"
    by (simp add: word_of_int_eq_iff take_bit_eq_mod)
  finally show "integer_kernel (\<lambda>_. False) n seed = integer_kernel (\<lambda>_. False) n seed' \<longleftrightarrow> seed mod 2 ^ 64 = seed' mod 2 ^ 64"
    by (simp add: run word_uint_eq_iff [symmetric])
  have errors: "integer_loop cancelled is v = Inl e \<Longrightarrow> e = BenchCancelled" for "is" v e
    by (induction "is" arbitrary: v) (auto split: if_splits)
  show "case integer_kernel cancelled n seed of Inl e \<Rightarrow> e = BenchCancelled
    | Inr checksum \<Rightarrow> 0 \<le> checksum \<and> checksum < 2 ^ 64 \<and> integer_kernel (\<lambda>_. False) n seed = Inr checksum"
  proof (cases "integer_kernel cancelled n seed")
    case (Inl e)
    then show ?thesis using errors by (simp add: integer_kernel_def)
  next
    case (Inr c)
    then have c: "integer_kernel (\<lambda>_. False) n seed = Inr c" unfolding integer_kernel_def by (rule integer_loop_cancel)
    then have "c = uint (word_kernel n (word_of_int seed))" using run by simp
    then have "0 \<le> c \<and> c < 2 ^ 64" using uint_bounded [of "word_kernel n (word_of_int seed)"] by simp
    then show ?thesis using Inr c by simp
  qed
qed

section \<open>The other workloads\<close>

definition float_step :: "pyfloat \<Rightarrow> nat \<Rightarrow> pyfloat result" where
  "float_step v index =
    rbind (float_of_int (int index mod 97)) (\<lambda>m.
    rbind (fdiv (fadd (fmul v (fl (10000001192092896 / 10000000000000000))) (fmul m (fl (1 / 1000000))))
       (fl (10000000298023224 / 10000000000000000))) (\<lambda>v.
    Inr (if flt (Fin 10000) v then fmul v (fl (1 / 10000)) else v)))"

fun float_loop :: "(nat \<Rightarrow> bool) \<Rightarrow> nat list \<Rightarrow> pyfloat \<Rightarrow> pyfloat \<Rightarrow> pyfloat bench" where
  "float_loop cancelled [] v accumulator = Inr accumulator"
| "float_loop cancelled (i # is) v accumulator =
    (if i mod 4096 = 0 \<and> cancelled i then Inl BenchCancelled
     else rbind (raising (float_step v i)) (\<lambda>v. float_loop cancelled is v (fadd accumulator v)))"

definition floating_point_kernel :: "(nat \<Rightarrow> bool) \<Rightarrow> nat \<Rightarrow> int \<Rightarrow> pyfloat bench" where
  "floating_point_kernel cancelled iterations seed =
    rbind (raising (rbind (float_of_int (seed mod 997)) (\<lambda>s. fdiv s (Fin 997)))) (\<lambda>r.
    float_loop cancelled [0..<iterations] (fadd (Fin 1) r) (Fin 0))"

text \<open>A checkpoint before each of \<open>n\<close> steps.\<close>

definition checkpoints :: "(nat \<Rightarrow> bool) \<Rightarrow> nat \<Rightarrow> unit bench" where
  "checkpoints cancelled n = (if list_ex cancelled [0..<n] then Inl BenchCancelled else Inr ())"

text \<open>Updating a hash block by block hashes the blocks one after another; \<open>sha256_hex\<close> is SHA-256 of bytes.\<close>

definition sha256_kernel :: "(string \<Rightarrow> string) \<Rightarrow> (nat \<Rightarrow> bool) \<Rightarrow> string \<Rightarrow> nat \<Rightarrow> string bench" where
  "sha256_kernel sha256_hex cancelled block iterations =
    rbind (checkpoints cancelled iterations) (\<lambda>_. Inr (sha256_hex (concat (replicate iterations block))))"

text \<open>\<open>compress\<close> is \<open>zlib.compress\<close>, whose output is never empty; its last byte enters the checksum.\<close>

definition compression_kernel ::
  "(string \<Rightarrow> int \<Rightarrow> string) \<Rightarrow> (nat \<Rightarrow> bool) \<Rightarrow> string \<Rightarrow> nat \<Rightarrow> int \<Rightarrow> (int \<times> int) bench" where
  "compression_kernel compress cancelled block iterations level =
    rbind (checkpoints cancelled iterations) (\<lambda>_.
    if iterations \<noteq> 0 \<and> compress block level = [] then Inl (BenchRaised ''IndexError'')
    else Inr (fold (\<lambda>_ (total, checksum). (total + int (length (compress block level)), checksum XOR code (last (compress block level))))
      [0..<iterations] (0, 0)))"

section \<open>Waiting for a worker\<close>

text \<open>
  \<open>_future_result\<close>: \<open>clock\<close> are the readings of the monotonic clock in order, \<open>poll k\<close> what the \<open>k\<close>-th wait
  finds: the result of the worker, or nothing within the time it waited. The loop ends when the worker
  does, the run is cancelled, or the clock reaches the deadline.
\<close>

partial_function (option) future_result ::
  "(nat \<Rightarrow> pyfloat) \<Rightarrow> (nat \<Rightarrow> bool) \<Rightarrow> (nat \<Rightarrow> 'a bench option) \<Rightarrow> pyfloat \<Rightarrow> nat \<Rightarrow> 'a bench option" where
  "future_result clock cancelled poll deadline k =
    (if cancelled k then Some (Inl BenchCancelled)
     else if fle (fsub deadline (clock (2 * k))) (Fin 0)
     then Some (case poll k of Some r \<Rightarrow> r | None \<Rightarrow> Inl (BenchRaised ''TimeoutError''))
     else case poll k of
         Some r \<Rightarrow> Some r
       | None \<Rightarrow> if fle deadline (clock (2 * k + 1)) then Some (Inl (BenchRaised ''TimeoutError''))
           else future_result clock cancelled poll deadline (Suc k))"

definition wait_for_worker ::
  "(nat \<Rightarrow> pyfloat) \<Rightarrow> (nat \<Rightarrow> bool) \<Rightarrow> (nat \<Rightarrow> 'a bench option) \<Rightarrow> pyfloat \<Rightarrow> 'a bench option" where
  "wait_for_worker clock cancelled poll timeout_seconds =
    future_result (\<lambda>k. clock (Suc k)) cancelled poll (fadd (clock 0) timeout_seconds) 0"

lemma future_result_returns:
  assumes "fle deadline (clock (2 * (k + d) + 1))"
  shows "\<exists>j \<le> k + d. \<exists>r. future_result clock cancelled poll deadline k = Some r \<and>
    (r = Inl BenchCancelled \<or> r = Inl (BenchRaised ''TimeoutError'') \<or> poll j = Some r)"
  using assms
proof (induction d arbitrary: k)
  case 0
  then show ?case
    by (subst future_result.simps) (auto split: option.splits)
next
  case (Suc d)
  have next_round: "\<exists>j \<le> k + Suc d. \<exists>r. future_result clock cancelled poll deadline (Suc k) = Some r \<and>
      (r = Inl BenchCancelled \<or> r = Inl (BenchRaised ''TimeoutError'') \<or> poll j = Some r)"
    using Suc.IH [of "Suc k"] Suc.prems by simp
  show ?case
  proof (cases "poll k")
    case None
    then show ?thesis using next_round by (subst future_result.simps) auto
  next
    case (Some r)
    then have "\<exists>j \<le> k + Suc d. poll j = Some r" by (intro exI [of _ k]) simp
    then show ?thesis using Some by (subst future_result.simps) auto
  qed
qed

text \<open>
  The wait for a worker returns as soon as the clock has reached the deadline at some reading, if not
  before, and then with the result a poll found, a time-out or the cancellation.
\<close>

theorem wait_for_worker_returns:
  assumes "fle (fadd (clock 0) timeout_seconds) (clock (2 * n + 2))"
  shows "\<exists>r. wait_for_worker clock cancelled poll timeout_seconds = Some r \<and>
    (r = Inl BenchCancelled \<or> r = Inl (BenchRaised ''TimeoutError'') \<or> (\<exists>j \<le> n. poll j = Some r))"
  using future_result_returns [where k = 0 and d = n and clock = "\<lambda>k. clock (Suc k)"] assms
  unfolding wait_for_worker_def by fastforce

definition demo_poll :: "nat \<Rightarrow> int bench option" where
  "demo_poll k = (if k = 1 then Some (Inr 7) else None)"

theorem wait_for_worker_returns_witness:
  "\<exists>r. wait_for_worker (\<lambda>k. Fin (of_nat k)) (\<lambda>_. False) demo_poll (Fin 3) = Some r \<and>
    (r = Inl BenchCancelled \<or> r = Inl (BenchRaised ''TimeoutError'') \<or> (\<exists>j \<le> 1. demo_poll j = Some r))"
proof -
  have "fle (fadd (Fin (of_nat 0)) (Fin 3)) (Fin (of_nat (2 * 1 + 2)))"
    by code_simp
  from wait_for_worker_returns [OF this, of "\<lambda>_. False" demo_poll] show ?thesis .
qed

section \<open>The number of workers\<close>

text \<open>\<open>_available_cpu_count\<close>: the affinity of the process if it can be read, else the processor count.\<close>

definition available_cpu_count :: "int option \<Rightarrow> int option \<Rightarrow> int" where
  "available_cpu_count affinity cpu_count = (case affinity of
     Some n \<Rightarrow> max n 1
   | None \<Rightarrow> max (case cpu_count of None \<Rightarrow> 1 | Some n \<Rightarrow> if n = 0 then 1 else n) 1)"

definition resolve_workers :: "ComputeProfileConfig \<Rightarrow> int \<Rightarrow> int \<times> string list" where
  "resolve_workers config available =
    (let (workers, warnings) =
       (if cp_workers config = 0
        then (min available (cp_max_auto_workers config),
          if cp_max_auto_workers config < available then [''compute_workers_auto_capped''] else [])
        else (min (cp_workers config) available,
          if available < cp_workers config then [''compute_worker_count_capped_to_logical_cpus''] else []))
     in (workers, warnings @ (if workers = 1 then [''compute_single_worker_only''] else [])))"

lemma resolve_workers_bounds:
  assumes "1 \<le> available" and "0 \<le> cp_workers config" and "1 \<le> cp_max_auto_workers config"
  shows "1 \<le> fst (resolve_workers config available) \<and> fst (resolve_workers config available) \<le> available"
  using assms by (auto simp: resolve_workers_def Let_def)

end
