(* ===== verification/ComputeBenchmark.thy ===== *)
theory ComputeBenchmark
  imports Kernels
begin

text \<open>
  \<open>benchmark_compute_profile\<close>: the repetitions of the workloads on one process and on a pool of worker
  processes, their rates and the evidence. What is measured is time; what is computed, the checksums of
  the evidence, depends on the configuration and the number of workers alone.
\<close>

section \<open>Repetitions\<close>

text \<open>
  A phase is a repetition of a workload, or one of the warm-ups. Checkpoint 0 of a repetition is before it,
  checkpoint \<open>k + 1\<close> before step \<open>k\<close> of its workload.
\<close>

datatype phase =
    Starting | WarmInteger | WarmFloat | WarmSha | WarmCompression | WarmWorkers
  | IntegerSingle nat | IntegerMulti nat | FloatRun nat | ShaRun nat | CompressionRun nat

text \<open>
  \<open>kw_future p i\<close> is what the wait for worker \<open>i\<close> raises, if it does not give the result; the file functions are
  SHA-256, \<open>zlib.compress\<close> and the generator of the block to compress.
\<close>

record compute_world =
  kw_token :: "phase \<Rightarrow> nat \<Rightarrow> bool"
  kw_times :: "phase \<Rightarrow> pyfloat \<times> pyfloat"
  kw_future :: "phase \<Rightarrow> nat \<Rightarrow> bench_error option"
  kw_affinity :: "int option"
  kw_cpu_count :: "int option"
  kw_implementation :: string
  kw_version :: string

record compute_library =
  kl_sha256 :: "string \<Rightarrow> string"
  kl_compress :: "string \<Rightarrow> int \<Rightarrow> string"
  kl_randbytes :: "nat \<Rightarrow> string"

definition PICOSECOND :: pyfloat where "PICOSECOND = fl (1 / 1000000000000)"

definition compute_seconds :: "compute_world \<Rightarrow> phase \<Rightarrow> pyfloat" where
  "compute_seconds w p = (case kw_times w p of (started_at, now) \<Rightarrow>
     let d = fsub now started_at in if flt d PICOSECOND then PICOSECOND else d)"

text \<open>The start of a repetition and the checkpoints inside it.\<close>

definition entering :: "compute_world \<Rightarrow> phase \<Rightarrow> unit bench" where
  "entering w p = (if kw_token w p 0 then Inl BenchCancelled else Inr ())"

definition inside :: "compute_world \<Rightarrow> phase \<Rightarrow> nat \<Rightarrow> bool" where
  "inside w p k = kw_token w p (Suc k)"

definition count_rate :: "int \<Rightarrow> pyfloat \<Rightarrow> pyfloat result" where
  "count_rate n seconds = rbind (float_of_int n) (\<lambda>x. fdiv x seconds)"

definition byte_rate :: "int \<Rightarrow> pyfloat \<Rightarrow> pyfloat result" where
  "byte_rate bytes seconds = rbind (int_truediv bytes MIB) (\<lambda>m. fdiv m seconds)"

text \<open>One timed repetition: its rate and what it computed.\<close>

definition repetition ::
  "compute_world \<Rightarrow> phase \<Rightarrow> (pyfloat \<Rightarrow> pyfloat result) \<Rightarrow> 'a bench \<Rightarrow> (pyfloat \<times> 'a) bench" where
  "repetition w p rate run = rbind (entering w p) (\<lambda>_. rbind run (\<lambda>x.
     rbind (raising (rate (compute_seconds w p))) (\<lambda>r. Inr (r, x))))"

definition integer_single_core :: "ComputeProfileConfig \<Rightarrow> compute_world \<Rightarrow> (pyfloat \<times> int) list bench" where
  "integer_single_core config w = rmap (\<lambda>r. let p = IntegerSingle r in
     repetition w p (count_rate (cp_integer_iterations config))
       (integer_kernel (inside w p) (nat (cp_integer_iterations config)) (101 + int r)))
     [0..<nat (cp_repetitions config)]"

text \<open>A worker that is not interrupted computes its kernel; cancelled, late or lost workers are \<open>kw_future\<close>.\<close>

definition worker_result :: "compute_world \<Rightarrow> phase \<Rightarrow> int \<Rightarrow> int \<Rightarrow> nat \<Rightarrow> int bench" where
  "worker_result w p iterations seed worker = (case kw_future w p worker of
     Some e \<Rightarrow> Inl e
   | None \<Rightarrow> integer_kernel (\<lambda>_. False) (nat iterations) seed)"

definition integer_multi_core :: "ComputeProfileConfig \<Rightarrow> int \<Rightarrow> compute_world \<Rightarrow> (pyfloat \<times> int) list bench" where
  "integer_multi_core config workers w =
    (if workers = 1
     then rmap (\<lambda>r. let p = IntegerMulti r in
       repetition w p (count_rate (cp_integer_iterations config))
         (integer_kernel (inside w p) (nat (cp_integer_iterations config)) (10001 + int r)))
       [0..<nat (cp_repetitions config)]
     else rbind (rmap (\<lambda>i. worker_result w WarmWorkers (cp_warmup_iterations config) (50000 + int i) i) [0..<nat workers]) (\<lambda>_.
       rmap (\<lambda>r. let p = IntegerMulti r in
         repetition w p (count_rate (cp_integer_iterations config * workers))
           (rbind (rmap (\<lambda>i. worker_result w p (cp_integer_iterations config) (100000 + int r * workers + int i) i) [0..<nat workers])
             (\<lambda>results. Inr (sum_list results AND MASK_64))))
         [0..<nat (cp_repetitions config)]))"

definition sha_block :: "ComputeProfileConfig \<Rightarrow> string" where
  "sha_block config = take (nat (cp_sha256_block_bytes config))
     (concat (replicate (nat (cp_sha256_block_bytes config div int (length ''CloudEyes-Compute-v1'') + 1)) ''CloudEyes-Compute-v1''))"

definition compression_block :: "compute_library \<Rightarrow> ComputeProfileConfig \<Rightarrow> string" where
  "compression_block lib config = kl_randbytes lib (nat (cp_compression_block_bytes config))"

definition float_runs :: "ComputeProfileConfig \<Rightarrow> compute_world \<Rightarrow> (pyfloat \<times> pyfloat) list bench" where
  "float_runs config w = rmap (\<lambda>r. let p = FloatRun r in
     repetition w p (count_rate (cp_floating_point_iterations config))
       (floating_point_kernel (inside w p) (nat (cp_floating_point_iterations config)) (201 + int r)))
     [0..<nat (cp_repetitions config)]"

definition sha_runs :: "compute_library \<Rightarrow> ComputeProfileConfig \<Rightarrow> compute_world \<Rightarrow> (pyfloat \<times> string) list bench" where
  "sha_runs lib config w = rmap (\<lambda>r. let p = ShaRun r in
     repetition w p (byte_rate (cp_sha256_block_bytes config * cp_sha256_iterations config))
       (sha256_kernel (kl_sha256 lib) (inside w p) (sha_block config) (nat (cp_sha256_iterations config))))
     [0..<nat (cp_repetitions config)]"

definition compression_runs :: "compute_library \<Rightarrow> ComputeProfileConfig \<Rightarrow> compute_world \<Rightarrow> (pyfloat \<times> int \<times> int) list bench" where
  "compression_runs lib config w = rmap (\<lambda>r. let p = CompressionRun r in
     repetition w p (byte_rate (cp_compression_block_bytes config * cp_compression_iterations config))
       (compression_kernel (kl_compress lib) (inside w p) (compression_block lib config) (nat (cp_compression_iterations config))
         (cp_compression_level config)))
     [0..<nat (cp_repetitions config)]"

definition at_most_64_kib :: "string \<Rightarrow> string" where
  "at_most_64_kib block = take (nat (min (int (length block)) (64 * 1024))) block"

text \<open>The short runs before the measurement; their results are dropped.\<close>

definition compute_warm_up :: "compute_library \<Rightarrow> ComputeProfileConfig \<Rightarrow> compute_world \<Rightarrow> unit bench" where
  "compute_warm_up lib config w =
    rbind (integer_kernel (inside w WarmInteger) (nat (max 1 (min (cp_warmup_iterations config) (cp_integer_iterations config)))) 1) (\<lambda>_.
    rbind (floating_point_kernel (inside w WarmFloat)
      (nat (max 1 (min (cp_warmup_iterations config) (cp_floating_point_iterations config)))) 1) (\<lambda>_.
    rbind (sha256_kernel (kl_sha256 lib) (inside w WarmSha) (at_most_64_kib (sha_block config)) 1) (\<lambda>_.
    rbind (compression_kernel (kl_compress lib) (inside w WarmCompression) (at_most_64_kib (compression_block lib config)) 1
      (cp_compression_level config)) (\<lambda>_. Inr ()))))"

section \<open>Metrics and evidence\<close>

definition rate_median :: "pyfloat list \<Rightarrow> pyfloat result" where
  "rate_median values = (if values = [] then Inl (ValueError ''at least one timing sample is required'') else median values)"

record compute_data =
  kd_single :: "(pyfloat \<times> int) list"
  kd_multi :: "(pyfloat \<times> int) list"
  kd_float :: "(pyfloat \<times> pyfloat) list"
  kd_sha :: "(pyfloat \<times> string) list"
  kd_compression :: "(pyfloat \<times> int \<times> int) list"

definition scaling_ratio :: "compute_data \<Rightarrow> pyfloat result" where
  "scaling_ratio d = rbind (rate_median (map fst (kd_single d))) (\<lambda>single. rbind (rate_median (map fst (kd_multi d))) (\<lambda>multi.
     fdiv multi (if flt single PICOSECOND then PICOSECOND else single)))"

definition worker_efficiency :: "compute_data \<Rightarrow> int \<Rightarrow> pyfloat result" where
  "worker_efficiency d workers = rbind (scaling_ratio d) (\<lambda>ratio. rbind (float_of_int workers) (\<lambda>n.
     rbind (fdiv ratio n) (\<lambda>e. Inr (fmul e (Fin 100)))))"

definition compute_metric_specs :: "compute_data \<Rightarrow> int \<Rightarrow> metric_spec list" where
  "compute_metric_specs d workers =
    [(''compute.integer.single_core.iterations_per_second'', rate_median (map fst (kd_single d)), ''iterations_per_second'', HIGHER_IS_BETTER),
     (''compute.integer.multi_core.iterations_per_second'', rate_median (map fst (kd_multi d)), ''iterations_per_second'', HIGHER_IS_BETTER),
     (''compute.floating_point.single_core.iterations_per_second'', rate_median (map fst (kd_float d)), ''iterations_per_second'', HIGHER_IS_BETTER),
     (''compute.sha256.single_core.mib_per_second'', rate_median (map fst (kd_sha d)), ''mib_per_second'', HIGHER_IS_BETTER),
     (''compute.compression.single_core.mib_per_second'', rate_median (map fst (kd_compression d)), ''mib_per_second'', HIGHER_IS_BETTER),
     (''compute.concurrency.scaling_ratio'', scaling_ratio d, ''ratio'', HIGHER_IS_BETTER),
     (''compute.concurrency.worker_efficiency_percent'', worker_efficiency d workers, ''percent'', HIGHER_IS_BETTER)]"

text \<open>The scaling is computed before the first metric is made.\<close>

definition compute_metrics :: "compute_data \<Rightarrow> int \<Rightarrow> Metric list result" where
  "compute_metrics d workers = rbind (worker_efficiency d workers) (\<lambda>_. bench_metrics (compute_metric_specs d workers))"

definition floats :: "pyfloat list \<Rightarrow> pyval" where "floats xs = PList (map PFloat xs)"

definition ints :: "int list \<Rightarrow> pyval" where "ints xs = PList (map PInt xs)"

definition verification_dict :: "compute_data \<Rightarrow> pyval" where
  "verification_dict d = PDict [(''integer_single_checksums'', ints (map snd (kd_single d))),
     (''integer_multi_checksums'', ints (map snd (kd_multi d))), (''floating_point_checksums'', floats (map snd (kd_float d))),
     (''sha256_checksums'', PList (map (\<lambda>x. PStr (snd x)) (kd_sha d))),
     (''compression_output_bytes'', ints (map (\<lambda>x. fst (snd x)) (kd_compression d))),
     (''compression_checksums'', ints (map (\<lambda>x. snd (snd x)) (kd_compression d)))]"

definition compute_evidence :: "ComputeProfileConfig \<Rightarrow> compute_world \<Rightarrow> int \<Rightarrow> compute_data \<Rightarrow> (string \<times> pyval) list" where
  "compute_evidence config w workers d =
    [(''schema_version'', PStr ''1.0.0''), (''profile'', PStr ''compute''), (''engine'', PStr ''python-standard-library''),
     (''python'', PDict [(''implementation'', PStr (kw_implementation w)), (''version'', PStr (kw_version w))]),
     (''configuration'', PDict (compute_fields config)),
     (''execution'', PDict [(''logical_cpu_count'', PInt (available_cpu_count (kw_affinity w) (kw_cpu_count w))),
        (''resolved_workers'', PInt workers), (''aggregation'', PStr ''median'')]),
     (''samples'', PDict [(''integer_single_iterations_per_second'', floats (map fst (kd_single d))),
        (''integer_multi_iterations_per_second'', floats (map fst (kd_multi d))),
        (''floating_point_iterations_per_second'', floats (map fst (kd_float d))),
        (''sha256_mib_per_second'', floats (map fst (kd_sha d))), (''compression_mib_per_second'', floats (map fst (kd_compression d)))]),
     (''verification'', verification_dict d),
     (''limitations'', PList (map PStr
        [''Results include Python interpreter and standard-library implementation effects.'',
         ''Multi-core throughput uses worker processes and includes coordination overhead.'',
         ''CPU frequency, host contention, and thermal state can change between runs.'']))]"

definition compute_run ::
  "compute_library \<Rightarrow> ComputeProfileConfig \<Rightarrow> compute_world \<Rightarrow> (Metric list \<times> (string \<times> pyval) list \<times> string list) bench" where
  "compute_run lib config w =
    rbind (entering w Starting) (\<lambda>_.
    let (workers, warnings) = resolve_workers config (available_cpu_count (kw_affinity w) (kw_cpu_count w)) in
    rbind (compute_warm_up lib config w) (\<lambda>_.
    rbind (integer_single_core config w) (\<lambda>single.
    rbind (integer_multi_core config workers w) (\<lambda>multi.
    rbind (float_runs config w) (\<lambda>fls.
    rbind (sha_runs lib config w) (\<lambda>shas.
    rbind (compression_runs lib config w) (\<lambda>compressions.
    let d = \<lparr>kd_single = single, kd_multi = multi, kd_float = fls, kd_sha = shas, kd_compression = compressions\<rparr> in
    rbind (raising (compute_metrics d workers)) (\<lambda>metrics.
    Inr (metrics, compute_evidence config w workers d, warnings)))))))))"

definition benchmark_compute_profile :: "compute_library \<Rightarrow> ComputeProfileConfig \<Rightarrow> compute_world \<Rightarrow> benchmark_outcome" where
  "benchmark_compute_profile lib config w = bench_outcome (compute_run lib config w)"

section \<open>Checksums\<close>

text \<open>What the workloads compute, without the token, the clock and the pool.\<close>

definition single_checksum :: "ComputeProfileConfig \<Rightarrow> nat \<Rightarrow> int" where
  "single_checksum config r = uint (word_kernel (nat (cp_integer_iterations config)) (word_of_int (101 + int r)))"

definition multi_checksum :: "ComputeProfileConfig \<Rightarrow> int \<Rightarrow> nat \<Rightarrow> int" where
  "multi_checksum config workers r = uint
    (if workers = 1 then word_kernel (nat (cp_integer_iterations config)) (word_of_int (10001 + int r))
     else sum_list (map (\<lambda>i. word_kernel (nat (cp_integer_iterations config)) (word_of_int (100000 + int r * workers + int i))) [0..<nat workers]))"

definition expected_verification :: "compute_library \<Rightarrow> ComputeProfileConfig \<Rightarrow> int \<Rightarrow> pyval" where
  "expected_verification lib config workers = (let reps = [0..<nat (cp_repetitions config)]; never = (\<lambda>_ :: nat. False);
     compression = projr (compression_kernel (kl_compress lib) never (compression_block lib config)
       (nat (cp_compression_iterations config)) (cp_compression_level config))
   in PDict [(''integer_single_checksums'', ints (map (single_checksum config) reps)),
     (''integer_multi_checksums'', ints (map (multi_checksum config workers) reps)),
     (''floating_point_checksums'', floats (map (\<lambda>r. projr (floating_point_kernel never
        (nat (cp_floating_point_iterations config)) (201 + int r))) reps)),
     (''sha256_checksums'', PList (map (\<lambda>r. PStr (kl_sha256 lib (concat (replicate (nat (cp_sha256_iterations config)) (sha_block config))))) reps)),
     (''compression_output_bytes'', ints (map (\<lambda>r. fst compression) reps)),
     (''compression_checksums'', ints (map (\<lambda>r. snd compression) reps))])"

lemma repetitions_compute:
  assumes "rmap (\<lambda>r. repetition w (p r) (rate r) (run r)) xs = Inr ys" and "\<And>r x. run r = Inr x \<Longrightarrow> g r = x"
  shows "map snd ys = map g xs"
  using assms(1)
proof (induction xs arbitrary: ys)
  case (Cons r xs)
  then obtain y ys' where y: "repetition w (p r) (rate r) (run r) = Inr y" "rmap (\<lambda>r. repetition w (p r) (rate r) (run r)) xs = Inr ys'"
    "ys = y # ys'"
    by (auto simp: rbind_Inr_iff)
  have "snd y = g r" using y(1) assms(2) by (auto simp: repetition_def rbind_Inr_iff)
  then show ?case using Cons.IH [OF y(2)] y(3) by simp
qed simp

lemma integer_kernel_value:
  "integer_kernel cancelled n seed = Inr x \<Longrightarrow> x = uint (word_kernel n (word_of_int seed))"
proof -
  assume run: "integer_kernel cancelled n seed = Inr x"
  have start: "seed AND MASK_64 = uint (word_of_int seed :: 64 word)" by (simp add: mask_64 unsigned_of_int)
  from run have "integer_loop (\<lambda>_. False) [0..<n] (seed AND MASK_64) = Inr x"
    unfolding integer_kernel_def by (rule integer_loop_cancel)
  then show "x = uint (word_kernel n (word_of_int seed))"
    by (simp add: start integer_loop_words word_kernel_def)
qed

lemma float_loop_cancel: "float_loop cancelled is v a = Inr x \<Longrightarrow> float_loop (\<lambda>_. False) is v a = Inr x"
  by (induction "is" arbitrary: v a) (auto simp: rbind_Inr_iff split: if_splits)

lemma floating_kernel_value:
  "floating_point_kernel cancelled n seed = Inr x \<Longrightarrow> projr (floating_point_kernel (\<lambda>_. False) n seed) = x"
proof -
  assume "floating_point_kernel cancelled n seed = Inr x"
  then obtain r where "raising (rbind (float_of_int (seed mod 997)) (\<lambda>s. fdiv s (Fin 997))) = Inr r"
    "float_loop cancelled [0..<n] (fadd (Fin 1) r) (Fin 0) = Inr x"
    unfolding floating_point_kernel_def rbind_Inr_iff by blast
  then have "floating_point_kernel (\<lambda>_. False) n seed = Inr x"
    unfolding floating_point_kernel_def rbind_Inr_iff using float_loop_cancel by blast
  then show "projr (floating_point_kernel (\<lambda>_. False) n seed) = x" by simp
qed

lemma workers_sum:
  "rmap (\<lambda>i. worker_result w p n (f i) i) xs = Inr rs \<Longrightarrow>
   sum_list rs AND MASK_64 = uint (sum_list (map (\<lambda>i. word_kernel (nat n) (word_of_int (f i))) xs))"
proof -
  assume m: "rmap (\<lambda>i. worker_result w p n (f i) i) xs = Inr rs"
  then have rs: "rs = map (\<lambda>i. uint (word_kernel (nat n) (word_of_int (f i)))) xs"
    by (induction xs arbitrary: rs) (auto simp: rbind_Inr_iff worker_result_def dest!: integer_kernel_value split: option.splits)
  have "(word_of_int (sum_list (map (\<lambda>i. uint (g i)) ys)) :: 64 word) = sum_list (map g ys)" for g :: "nat \<Rightarrow> 64 word" and ys
    by (induction ys) simp_all
  then have "word_of_int (sum_list rs) = sum_list (map (\<lambda>i. word_kernel (nat n) (word_of_int (f i))) xs)"
    unfolding rs .
  moreover have "s AND MASK_64 = uint (word_of_int s :: 64 word)" for s by (simp add: mask_64 unsigned_of_int)
  ultimately show ?thesis by simp
qed

text \<open>A workload that is not cancelled returns.\<close>

lemma integer_loop_returns: "(\<And>k. \<not> cancelled k) \<Longrightarrow> \<exists>c. integer_loop cancelled is v = Inr c"
  by (induction "is" arbitrary: v) auto

lemma integer_kernel_returns: "(\<And>k. \<not> cancelled k) \<Longrightarrow> \<exists>c. integer_kernel cancelled n seed = Inr c"
  by (simp add: integer_kernel_def integer_loop_returns)

lemma small_remainder: "0 < m \<Longrightarrow> m \<le> 1000 \<Longrightarrow> \<bar>n mod m\<bar> \<le> (2 :: int) ^ 53"
proof -
  assume "0 < m" "m \<le> 1000"
  then have "0 \<le> n mod m" "n mod m < 1000" using pos_mod_sign [of m n] pos_mod_bound [of m n] by linarith+
  then show ?thesis by simp
qed

lemma float_step_returns: "\<exists>x. float_step v i = Inr x"
proof -
  have "representable 2" using representable_int [of 2] by simp
  then obtain c where c: "fl (10000000298023224 / 10000000000000000) = Fin c" "1 \<le> c"
    using fl_between [of 1 2 "10000000298023224 / 10000000000000000"] by auto
  have "\<bar>int i mod 97\<bar> \<le> 2 ^ 53" by (rule small_remainder) simp_all
  then have "float_of_int (int i mod 97) = Inr (Fin (of_int (int i mod 97)))"
    using fl_exact [OF representable_int] by (simp add: float_of_int_def checked_def)
  then show ?thesis using c by (simp add: float_step_def)
qed

lemma float_loop_returns: "(\<And>k. \<not> cancelled k) \<Longrightarrow> \<exists>c. float_loop cancelled is v a = Inr c"
proof (induction "is" arbitrary: v a)
  case (Cons i "is")
  obtain x where "float_step v i = Inr x" using float_step_returns by blast
  then show ?case using Cons by (simp add: raising_def)
qed simp

lemma floating_kernel_returns: "(\<And>k. \<not> cancelled k) \<Longrightarrow> \<exists>c. floating_point_kernel cancelled n seed = Inr c"
proof -
  assume quiet: "\<And>k. \<not> cancelled k"
  have "\<bar>seed mod 997\<bar> \<le> 2 ^ 53" by (rule small_remainder) simp_all
  then have "float_of_int (seed mod 997) = Inr (Fin (of_int (seed mod 997)))"
    using fl_exact [OF representable_int] by (simp add: float_of_int_def checked_def)
  then show ?thesis using float_loop_returns [OF quiet] by (simp add: floating_point_kernel_def raising_def)
qed

lemma checkpoints_never: "checkpoints cancelled n = Inr u \<Longrightarrow> checkpoints (\<lambda>_. False) n = Inr u"
  by (auto simp: checkpoints_def list_ex_iff split: if_splits)

lemma sha256_value:
  "sha256_kernel h cancelled block n = Inr x \<Longrightarrow> h (concat (replicate n block)) = x"
  by (auto simp: sha256_kernel_def rbind_Inr_iff)

lemma compression_value:
  "compression_kernel c cancelled block n level = Inr x \<Longrightarrow> projr (compression_kernel c (\<lambda>_. False) block n level) = x"
proof -
  assume run: "compression_kernel c cancelled block n level = Inr x"
  then obtain u where "checkpoints cancelled n = Inr u" unfolding compression_kernel_def rbind_Inr_iff by blast
  then have "compression_kernel c (\<lambda>_. False) block n level = compression_kernel c cancelled block n level"
    unfolding compression_kernel_def using checkpoints_never by fastforce
  then show "projr (compression_kernel c (\<lambda>_. False) block n level) = x" using run by simp
qed

lemma single_values:
  "integer_single_core config w = Inr ys \<Longrightarrow> map snd ys = map (single_checksum config) [0..<nat (cp_repetitions config)]"
  unfolding integer_single_core_def Let_def
  by (erule repetitions_compute) (drule integer_kernel_value, simp add: single_checksum_def)

lemma multi_values:
  "integer_multi_core config workers w = Inr ys \<Longrightarrow> map snd ys = map (multi_checksum config workers) [0..<nat (cp_repetitions config)]"
proof (cases "workers = 1")
  case True
  assume "integer_multi_core config workers w = Inr ys"
  then show ?thesis unfolding integer_multi_core_def Let_def if_P [OF True]
    by (elim repetitions_compute) (drule integer_kernel_value, simp add: multi_checksum_def True)
next
  case False
  assume run: "integer_multi_core config workers w = Inr ys"
  then have "rmap (\<lambda>r. repetition w (IntegerMulti r) (count_rate (cp_integer_iterations config * workers))
       (rbind (rmap (\<lambda>i. worker_result w (IntegerMulti r) (cp_integer_iterations config) (100000 + int r * workers + int i) i) [0..<nat workers])
         (\<lambda>results. Inr (sum_list results AND MASK_64)))) [0..<nat (cp_repetitions config)] = Inr ys"
    unfolding integer_multi_core_def Let_def if_not_P [OF False] rbind_Inr_iff by blast
  then show ?thesis
    by (rule repetitions_compute) (auto simp: rbind_Inr_iff multi_checksum_def False dest!: workers_sum)
qed

lemma float_values:
  "float_runs config w = Inr ys \<Longrightarrow>
   map snd ys = map (\<lambda>r. projr (floating_point_kernel (\<lambda>_. False) (nat (cp_floating_point_iterations config)) (201 + int r)))
     [0..<nat (cp_repetitions config)]"
  unfolding float_runs_def Let_def
  by (erule repetitions_compute) (simp add: floating_kernel_value)

lemma sha_values:
  "sha_runs lib config w = Inr ys \<Longrightarrow>
   map snd ys = map (\<lambda>r. kl_sha256 lib (concat (replicate (nat (cp_sha256_iterations config)) (sha_block config))))
     [0..<nat (cp_repetitions config)]"
  unfolding sha_runs_def Let_def
  by (erule repetitions_compute) (rule sha256_value)

lemma compression_values:
  "compression_runs lib config w = Inr ys \<Longrightarrow>
   map snd ys = map (\<lambda>r. projr (compression_kernel (kl_compress lib) (\<lambda>_. False) (compression_block lib config)
     (nat (cp_compression_iterations config)) (cp_compression_level config))) [0..<nat (cp_repetitions config)]"
  unfolding compression_runs_def Let_def
  by (erule repetitions_compute) (rule compression_value)

definition compute_metric_names :: "string list" where
  "compute_metric_names = [''compute.integer.single_core.iterations_per_second'', ''compute.integer.multi_core.iterations_per_second'',
     ''compute.floating_point.single_core.iterations_per_second'', ''compute.sha256.single_core.mib_per_second'',
     ''compute.compression.single_core.mib_per_second'', ''compute.concurrency.scaling_ratio'',
     ''compute.concurrency.worker_efficiency_percent'']"

lemma compute_metric_names_stripped: "map strip compute_metric_names = compute_metric_names"
  by code_simp

lemma compute_metrics_names: "compute_metrics d workers = Inr ms \<Longrightarrow> map metric_name ms = compute_metric_names"
proof -
  assume "compute_metrics d workers = Inr ms"
  then have "bench_metrics (compute_metric_specs d workers) = Inr ms" by (auto simp: compute_metrics_def rbind_Inr_iff)
  moreover have "map (\<lambda>s. strip (fst s)) (compute_metric_specs d workers) = map strip compute_metric_names"
    by (simp add: compute_metric_specs_def compute_metric_names_def)
  ultimately show ?thesis using bench_metrics_Inr compute_metric_names_stripped by metis
qed

text \<open>The repetitions of the single-core loop have distinct checksums, as long as there are less than 2^64.\<close>

lemma single_checksums_distinct:
  assumes "n \<le> 2 ^ 63"
  shows "distinct (map (single_checksum config) [0..<n])"
proof -
  have "r = s" if "r < n" "s < n" "single_checksum config r = single_checksum config s" for r s
  proof -
    have "word_kernel (nat (cp_integer_iterations config)) (word_of_int (101 + int r)) =
        word_kernel (nat (cp_integer_iterations config)) (word_of_int (101 + int s))"
      using that(3) unfolding single_checksum_def by (simp only: word_uint_eq_iff)
    then have "(word_of_int (101 + int r) :: 64 word) = word_of_int (101 + int s)" by (rule word_kernel_inj)
    then have "take_bit LENGTH(64) (101 + int r) = take_bit LENGTH(64) (101 + int s)" by (simp only: word_of_int_eq_iff)
    then have "(101 + int r) mod 2 ^ 64 = (101 + int s) mod 2 ^ 64" by (simp add: take_bit_eq_mod)
    moreover have "r < 2 ^ 63" "s < 2 ^ 63" using that(1,2) assms by simp_all
    then have "int r < int (2 ^ 63)" "int s < int (2 ^ 63)" by (simp_all only: of_nat_less_iff)
    then have "int r < 2 ^ 63" "int s < 2 ^ 63" by simp_all
    ultimately show "r = s" by simp
  qed
  then show ?thesis by (auto simp: distinct_map inj_on_def)
qed

text \<open>
  C40: The checksums in the evidence of a run that completes are those of the workloads on 64-bit words
  and depend on nothing but the configuration and the number of workers, neither on time, the token nor
  the pool; the single-core ones are distinct. The metrics are the seven, and the warnings those of the
  choice of workers, of which there is at least one and no more than processors.
\<close>

theorem compute_verification_reproducible:
  assumes "benchmark_compute_profile lib config w = Completed metrics evidence warnings"
    and "cp_repetitions config \<le> 2 ^ 63" and "0 \<le> cp_workers config" and "1 \<le> cp_max_auto_workers config"
  shows "case resolve_workers config (available_cpu_count (kw_affinity w) (kw_cpu_count w)) of (workers, ws) \<Rightarrow>
    get evidence ''verification'' = expected_verification lib config workers \<and>
    distinct (map (single_checksum config) [0..<nat (cp_repetitions config)]) \<and>
    map metric_name metrics = compute_metric_names \<and> warnings = ws \<and>
    1 \<le> workers \<and> workers \<le> available_cpu_count (kw_affinity w) (kw_cpu_count w)"
proof -
  let ?available = "available_cpu_count (kw_affinity w) (kw_cpu_count w)"
  obtain workers ws where rw: "resolve_workers config ?available = (workers, ws)" by fastforce
  have "completed (bench_outcome (compute_run lib config w)) = Some (metrics, evidence, warnings)"
    using assms(1) by (simp add: benchmark_compute_profile_def completed_def)
  then obtain single multi fls shas cs where
    v: "integer_single_core config w = Inr single" "integer_multi_core config workers w = Inr multi" "float_runs config w = Inr fls"
      "sha_runs lib config w = Inr shas" "compression_runs lib config w = Inr cs" and
    m: "compute_metrics \<lparr>kd_single = single, kd_multi = multi, kd_float = fls, kd_sha = shas, kd_compression = cs\<rparr> workers = Inr metrics" and
    e: "evidence = compute_evidence config w workers \<lparr>kd_single = single, kd_multi = multi, kd_float = fls, kd_sha = shas, kd_compression = cs\<rparr>"
      "warnings = ws"
    by (auto simp: compute_run_def rw rbind_Inr_iff Let_def)
  have "map fst (map snd cs) = map (\<lambda>x. fst (snd x)) cs" "map snd (map snd cs) = map (\<lambda>x. snd (snd x)) cs" by simp_all
  moreover have "map PStr (map snd shas) = map (\<lambda>x. PStr (snd x)) shas" by simp
  ultimately have "verification_dict \<lparr>kd_single = single, kd_multi = multi, kd_float = fls, kd_sha = shas, kd_compression = cs\<rparr> =
      expected_verification lib config workers"
    using single_values [OF v(1)] multi_values [OF v(2)] float_values [OF v(3)] sha_values [OF v(4)] compression_values [OF v(5)]
    unfolding verification_dict_def expected_verification_def Let_def by (simp add: comp_def)
  then have "get evidence ''verification'' = expected_verification lib config workers"
    by (simp add: e(1) compute_evidence_def get_def get_default_def)
  moreover have "nat (cp_repetitions config) \<le> 2 ^ 63" using assms(2) by simp
  moreover have "1 \<le> ?available" by (auto simp: available_cpu_count_def split: option.split)
  ultimately show ?thesis
    using resolve_workers_bounds [of ?available config] single_checksums_distinct [of "nat (cp_repetitions config)" config]
      compute_metrics_names [OF m] e(2) rw assms(3,4) by simp
qed

section \<open>An example\<close>

definition demo_compute_config :: ComputeProfileConfig where
  "demo_compute_config = \<lparr>cp_version = ''1.0.0'', cp_repetitions = 1, cp_warmup_iterations = 1, cp_integer_iterations = 2,
     cp_floating_point_iterations = 1, cp_sha256_block_bytes = 4, cp_sha256_iterations = 2, cp_compression_block_bytes = 8,
     cp_compression_iterations = 2, cp_compression_level = 6, cp_workers = 2, cp_max_auto_workers = 4,
     cp_worker_timeout_seconds = Fin 5\<rparr>"

definition demo_compute_library :: compute_library where
  "demo_compute_library = \<lparr>kl_sha256 = rev, kl_compress = (\<lambda>b l. ''x'' @ b), kl_randbytes = (\<lambda>n. replicate n (CHR ''r''))\<rparr>"

definition demo_compute_world :: compute_world where
  "demo_compute_world = \<lparr>kw_token = (\<lambda>_ _. False), kw_times = (\<lambda>_. (Fin 0, Fin 2)), kw_future = (\<lambda>_ _. None),
     kw_affinity = Some 2, kw_cpu_count = Some 2, kw_implementation = ''CPython'', kw_version = ''3.12.0''\<rparr>"

lemma demo_compute_future: "kw_future demo_compute_world p i = None"
  by (simp add: demo_compute_world_def)

lemmas demo_config_fields = demo_compute_config_def ComputeProfileConfig.simps

lemma demo_compute_runs:
  "compute_seconds demo_compute_world p = Fin 2" "entering demo_compute_world p = Inr ()" "\<not> inside demo_compute_world p k"
  by (simp_all add: compute_seconds_def entering_def inside_def demo_compute_world_def Let_def PICOSECOND_def) code_simp

lemma demo_compute_counts:
  "count_rate 2 (Fin 2) = Inr (Fin 1)" "count_rate 4 (Fin 2) = Inr (Fin 2)" "count_rate 1 (Fin 2) = Inr (Fin (1 / 2))"
  "byte_rate 8 (Fin 2) = Inr (Fin (1 / 262144))" "byte_rate 16 (Fin 2) = Inr (Fin (1 / 131072))"
  by code_simp+

lemma demo_repetition:
  "rate (Fin 2) = Inr q \<Longrightarrow> \<exists>c. run = Inr c \<Longrightarrow> \<exists>c. repetition demo_compute_world p rate run = Inr (q, c)"
  by (auto simp: repetition_def demo_compute_runs raising_def)

lemma demo_checkpoints: "checkpoints (inside demo_compute_world p) n = Inr ()"
  by (simp add: checkpoints_def demo_compute_runs list_ex_iff)

lemma compression_returns:
  "checkpoints cancelled n = Inr u \<Longrightarrow> (\<And>b l. c b l \<noteq> []) \<Longrightarrow> \<exists>x. compression_kernel c cancelled block n level = Inr x"
  by (simp add: compression_kernel_def)

lemma demo_compute_kernels:
  "compute_warm_up demo_compute_library demo_compute_config demo_compute_world = Inr ()"
  "\<exists>c. integer_single_core demo_compute_config demo_compute_world = Inr [(Fin 1, c)]"
  "\<exists>c. integer_multi_core demo_compute_config 2 demo_compute_world = Inr [(Fin 2, c)]"
  "\<exists>c. float_runs demo_compute_config demo_compute_world = Inr [(Fin (1 / 2), c)]"
  "\<exists>c. sha_runs demo_compute_library demo_compute_config demo_compute_world = Inr [(Fin (1 / 262144), c)]"
  "\<exists>c. compression_runs demo_compute_library demo_compute_config demo_compute_world = Inr [(Fin (1 / 131072), c)]"
proof -
  have kernels: "\<exists>c. integer_kernel (inside demo_compute_world p) n seed = Inr c"
    "\<exists>c. floating_point_kernel (inside demo_compute_world p) n seed = Inr c" for p n seed
    by (simp_all add: integer_kernel_returns floating_kernel_returns demo_compute_runs)
  have numerals: "nat 2 = 2" "nat 1 = Suc 0" "[0..<Suc 0] = [0]" "[0..<2] = [0, 1]" by (simp_all add: upt_rec)
  have compresses: "\<exists>x. compression_kernel (kl_compress demo_compute_library) (inside demo_compute_world p) block n level = Inr x" for p block n level
    by (rule compression_returns [OF demo_checkpoints]) (simp add: demo_compute_library_def)
  show "compute_warm_up demo_compute_library demo_compute_config demo_compute_world = Inr ()"
  proof -
    obtain a b c where "integer_kernel (inside demo_compute_world WarmInteger) 1 1 = Inr a"
      "floating_point_kernel (inside demo_compute_world WarmFloat) 1 1 = Inr b"
      "compression_kernel (kl_compress demo_compute_library) (inside demo_compute_world WarmCompression)
        (at_most_64_kib (compression_block demo_compute_library demo_compute_config)) 1 6 = Inr c"
      using kernels(1) [of WarmInteger 1 1] kernels(2) [of WarmFloat 1 1] compresses [of WarmCompression _ 1 6] by blast
    then show ?thesis by (simp add: compute_warm_up_def demo_config_fields sha256_kernel_def demo_checkpoints)
  qed
  show "\<exists>c. integer_single_core demo_compute_config demo_compute_world = Inr [(Fin 1, c)]"
    using demo_repetition [of "count_rate 2", OF demo_compute_counts(1) kernels(1), of "IntegerSingle 0" "IntegerSingle 0" 2 101]
    by (auto simp: integer_single_core_def demo_config_fields numerals Let_def)
  show "\<exists>c. integer_multi_core demo_compute_config 2 demo_compute_world = Inr [(Fin 2, c)]"
  proof -
    obtain a b c d where workers: "integer_kernel (\<lambda>_. False) 1 50000 = Inr a" "integer_kernel (\<lambda>_. False) 1 50001 = Inr b"
      "integer_kernel (\<lambda>_. False) 2 100000 = Inr c" "integer_kernel (\<lambda>_. False) 2 100001 = Inr d"
      using integer_kernel_returns [of "\<lambda>_. False" 1 50000] integer_kernel_returns [of "\<lambda>_. False" 1 50001]
        integer_kernel_returns [of "\<lambda>_. False" 2 100000] integer_kernel_returns [of "\<lambda>_. False" 2 100001] by auto
    obtain y where "repetition demo_compute_world (IntegerMulti 0) (count_rate 4) (Inr (c + d AND MASK_64)) = Inr (Fin 2, y)"
      using demo_repetition [of "count_rate 4", OF demo_compute_counts(2), of "Inr (c + d AND MASK_64)" "IntegerMulti 0"] by auto
    moreover have "rmap (\<lambda>i. worker_result demo_compute_world (IntegerMulti 0) 2 (100000 + int i) i) [0, 1] = Inr [c, d]"
      "rmap (\<lambda>i. worker_result demo_compute_world WarmWorkers 1 (50000 + int i) i) [0, 1] = Inr [a, b]"
      by (simp_all add: worker_result_def demo_compute_future numerals workers [simplified])
    ultimately show ?thesis
      by (simp add: integer_multi_core_def demo_config_fields numerals Let_def)
  qed
  show "\<exists>c. float_runs demo_compute_config demo_compute_world = Inr [(Fin (1 / 2), c)]"
    using demo_repetition [of "count_rate 1", OF demo_compute_counts(3) kernels(2), of "FloatRun 0" "FloatRun 0" 1 201]
    by (auto simp: float_runs_def demo_config_fields numerals Let_def)
  show "\<exists>c. sha_runs demo_compute_library demo_compute_config demo_compute_world = Inr [(Fin (1 / 262144), c)]"
    using demo_repetition [of "byte_rate 8", OF demo_compute_counts(4), of "sha256_kernel (kl_sha256 demo_compute_library)
        (inside demo_compute_world (ShaRun 0)) (sha_block demo_compute_config) 2" "ShaRun 0"]
    by (auto simp: sha_runs_def demo_config_fields numerals Let_def sha256_kernel_def demo_checkpoints)
  show "\<exists>c. compression_runs demo_compute_library demo_compute_config demo_compute_world = Inr [(Fin (1 / 131072), c)]"
    using demo_repetition [of "byte_rate 16", OF demo_compute_counts(5) compresses, of "CompressionRun 0" "CompressionRun 0"
        "compression_block demo_compute_library demo_compute_config" 2 6]
    by (auto simp: compression_runs_def demo_config_fields numerals Let_def)
qed

lemma compute_metrics_rates:
  "map fst (kd_single d) = map fst (kd_single e) \<Longrightarrow> map fst (kd_multi d) = map fst (kd_multi e) \<Longrightarrow>
   map fst (kd_float d) = map fst (kd_float e) \<Longrightarrow> map fst (kd_sha d) = map fst (kd_sha e) \<Longrightarrow>
   map fst (kd_compression d) = map fst (kd_compression e) \<Longrightarrow> compute_metrics d workers = compute_metrics e workers"
  by (simp add: compute_metrics_def compute_metric_specs_def worker_efficiency_def scaling_ratio_def)

lemma demo_compute_metrics:
  "isl (compute_metrics \<lparr>kd_single = [(Fin 1, 0)], kd_multi = [(Fin 2, 0)], kd_float = [(Fin (1 / 2), Fin 0)],
     kd_sha = [(Fin (1 / 262144), [])], kd_compression = [(Fin (1 / 131072), 0, 0)]\<rparr> 2) = False"
  by code_simp

lemma demo_compute_completes:
  "completed (benchmark_compute_profile demo_compute_library demo_compute_config demo_compute_world) \<noteq> None"
proof -
  obtain single multi fls shas cs where
    v: "integer_single_core demo_compute_config demo_compute_world = Inr [(Fin 1, single)]"
      "integer_multi_core demo_compute_config 2 demo_compute_world = Inr [(Fin 2, multi)]"
      "float_runs demo_compute_config demo_compute_world = Inr [(Fin (1 / 2), fls)]"
      "sha_runs demo_compute_library demo_compute_config demo_compute_world = Inr [(Fin (1 / 262144), shas)]"
      "compression_runs demo_compute_library demo_compute_config demo_compute_world = Inr [(Fin (1 / 131072), cs)]"
    using demo_compute_kernels by blast
  have rw: "resolve_workers demo_compute_config (available_cpu_count (kw_affinity demo_compute_world) (kw_cpu_count demo_compute_world)) = (2, [])"
    by code_simp
  let ?d = "\<lparr>kd_single = [(Fin 1, single)], kd_multi = [(Fin 2, multi)], kd_float = [(Fin (1 / 2), fls)],
     kd_sha = [(Fin (1 / 262144), shas)], kd_compression = [(Fin (1 / 131072), cs)]\<rparr>"
  have "compute_metrics ?d 2 = compute_metrics \<lparr>kd_single = [(Fin 1, 0)], kd_multi = [(Fin 2, 0)], kd_float = [(Fin (1 / 2), Fin 0)],
     kd_sha = [(Fin (1 / 262144), [])], kd_compression = [(Fin (1 / 131072), 0, 0)]\<rparr> 2"
    by (rule compute_metrics_rates) simp_all
  then obtain ms where "compute_metrics ?d 2 = Inr ms" using demo_compute_metrics
    by (metis isl_def sum.exhaust)
  then show ?thesis
    by (simp add: benchmark_compute_profile_def compute_run_def demo_compute_runs rw demo_compute_kernels(1) v raising_def
        completed_def)
qed

theorem compute_verification_reproducible_witness:
  "\<exists>metrics evidence warnings.
     benchmark_compute_profile demo_compute_library demo_compute_config demo_compute_world = Completed metrics evidence warnings \<and>
     get evidence ''verification'' = expected_verification demo_compute_library demo_compute_config 2 \<and>
     map metric_name metrics = compute_metric_names"
proof -
  obtain metrics evidence warnings where
    run: "benchmark_compute_profile demo_compute_library demo_compute_config demo_compute_world = Completed metrics evidence warnings"
    using demo_compute_completes
    by (cases "benchmark_compute_profile demo_compute_library demo_compute_config demo_compute_world") (auto simp: completed_def)
  have "resolve_workers demo_compute_config (available_cpu_count (kw_affinity demo_compute_world) (kw_cpu_count demo_compute_world)) = (2, [])"
    by code_simp
  then have "get evidence ''verification'' = expected_verification demo_compute_library demo_compute_config 2 \<and>
      map metric_name metrics = compute_metric_names"
    using compute_verification_reproducible [OF run] by (simp add: demo_compute_config_def)
  with run show ?thesis by blast
qed

end
